(* ===== verification/Prelude.thy ===== *)
theory Prelude
  imports Main "HOL-Library.Word"
begin

text \<open>
  Shared types, the byte-addressed memory and its read/write lemmas, and the collections the
  component theories extend.

  The SDK targets RV64: \<^verbatim>\<open>uintptr_t\<close>, \<^verbatim>\<open>size_t\<close> and \<^verbatim>\<open>unsigned long\<close> are 64 bits wide,
  \<^verbatim>\<open>int\<close> is 32 bits wide, memory is little endian.  A C object that other code may alias (the
  shared buffer of an edge call, a malloc chunk, a page table) lives in a memory of bytes and is
  read and written at its offsets.
\<close>

unbundle bit_operations_syntax

type_synonym u8 = "8 word"
type_synonym u16 = "16 word"
type_synonym u32 = "32 word"
type_synonym u64 = "64 word"
type_synonym i32 = "32 word"
type_synonym i64 = "64 word"
type_synonym mem = "u64 \<Rightarrow> u8"

named_theorems layout "offsets and sizes of the C structures"
named_theorems mem_simps "reading memory after writing it"

section \<open>Generic word facts\<close>

lemma two64: "(2 :: nat) ^ 64 = 18446744073709551616"
  by simp

lemma unat_less_2p64 [simp]: "unat (w :: u64) < 18446744073709551616"
  using unsigned_less [of w] by simp

lemma unat_le_max64: "unat (w :: u64) \<le> 18446744073709551615"
  using unat_less_2p64 [of w] by linarith

lemma unat_add64: "unat (a + b :: u64) = (unat a + unat b) mod 18446744073709551616"
  by (simp add: unat_word_ariths)

lemma unat_add64_no_wrap:
  "unat a + unat (b :: u64) < 18446744073709551616 \<Longrightarrow> unat (a + b) = unat a + unat b"
  by (simp add: unat_add64)

lemma unat_add64_wrap:
  "18446744073709551616 \<le> unat a + unat (b :: u64) \<Longrightarrow>
     unat (a + b) = unat a + unat b - 18446744073709551616"
proof -
  assume le: "18446744073709551616 \<le> unat a + unat b"
  have "unat a + unat b - 18446744073709551616 < 18446744073709551616"
    using unat_less_2p64 [of a] unat_less_2p64 [of b] by linarith
  with le show ?thesis by (simp add: unat_add64 le_mod_geq)
qed

lemma unat_sub64: "b \<le> a \<Longrightarrow> unat (a - b :: u64) = unat a - unat b"
  by (simp add: unat_sub)

lemma unat_sub64_wrap:
  "a < b \<Longrightarrow> unat (a - b :: u64) = 18446744073709551616 + unat a - unat b"
proof -
  assume "a < b"
  then have "unat a < unat b" by (simp add: word_less_nat_alt)
  moreover have "unat b < 18446744073709551616" by simp
  ultimately show ?thesis by (simp add: unat_sub_if_size word_size)
qed

lemma unat_of_nat64: "n < 18446744073709551616 \<Longrightarrow> unat (of_nat n :: u64) = n"
  by (simp add: unat_of_nat take_bit_eq_mod)

lemma unat_max64 [simp]: "unat (- 1 :: u64) = 18446744073709551615"
  by (simp add: unsigned_minus_1_eq_mask mask_eq_exp_minus_1)

text \<open>The idiom \<^verbatim>\<open>n > UINTPTR_MAX - p\<close> tests whether \<^verbatim>\<open>p + n\<close> wraps.\<close>

lemma overflow_test: "n > - 1 - (p :: u64) \<longleftrightarrow> 18446744073709551616 \<le> unat p + unat n"
proof -
  have "unat (- 1 - p) = 18446744073709551615 - unat p"
    by (subst unat_sub64) (simp_all add: word_le_nat_alt unat_le_max64)
  then show ?thesis
    using unat_less_2p64 [of p] unfolding word_less_nat_alt by linarith
qed

section \<open>Little-endian encodings\<close>

primrec le_word :: "u8 list \<Rightarrow> 'a::len word" where
  "le_word [] = 0"
| "le_word (b # bs) = ucast b OR push_bit 8 (le_word bs)"

primrec le_bytes :: "nat \<Rightarrow> 'a::len word \<Rightarrow> u8 list" where
  "le_bytes 0 w = []"
| "le_bytes (Suc n) w = ucast w # le_bytes n (drop_bit 8 w)"

lemma length_le_bytes [simp]: "length (le_bytes n w) = n"
  by (induction n arbitrary: w) auto

lemma bit_le_word:
  "bit (le_word bs :: 'a::len word) k \<longleftrightarrow>
     k < LENGTH('a) \<and> k div 8 < length bs \<and> bit (bs ! (k div 8)) (k mod 8)"
proof (induction bs arbitrary: k)
  case Nil
  then show ?case by simp
next
  case (Cons b bs)
  show ?case
  proof (cases "k < 8")
    case True
    then show ?thesis by (auto simp: bit_simps)
  next
    case False
    then have "k div 8 = Suc ((k - 8) div 8)" and "k mod 8 = (k - 8) mod 8"
      by (auto simp: le_div_geq le_mod_geq)
    with False show ?thesis
      by (auto simp: bit_simps Cons.IH dest: bit_imp_le_length)
  qed
qed

lemma nth_le_bytes: "i < n \<Longrightarrow> le_bytes n w ! i = ucast (drop_bit (8 * i) w)"
proof (induction n arbitrary: w i)
  case 0
  then show ?case by simp
next
  case (Suc n)
  then show ?case by (cases i) (simp_all add: drop_bit_drop_bit add.commute)
qed

lemma le_word_le_bytes:
  "LENGTH('a) \<le> 8 * n \<Longrightarrow> le_word (le_bytes n w) = (w :: 'a::len word)"
proof (rule bit_word_eqI)
  fix k assume n: "LENGTH('a) \<le> 8 * n" and k: "k < LENGTH('a)"
  then have "k div 8 < n" by auto
  then show "bit (le_word (le_bytes n w) :: 'a word) k = bit w k"
    using k by (simp add: bit_le_word nth_le_bytes bit_simps)
qed

lemma le_bytes_le_word:
  "8 * length bs \<le> LENGTH('a) \<Longrightarrow> le_bytes (length bs) (le_word bs :: 'a::len word) = bs"
proof (rule nth_equalityI)
  show "length (le_bytes (length bs) (le_word bs :: 'a word)) = length bs" by simp
next
  fix i
  assume len: "8 * length bs \<le> LENGTH('a)"
    and "i < length (le_bytes (length bs) (le_word bs :: 'a word))"
  then have i: "i < length bs" by simp
  show "le_bytes (length bs) (le_word bs :: 'a word) ! i = bs ! i"
  proof (rule bit_word_eqI)
    fix k assume "k < LENGTH(8)"
    then have k: "k < 8" by simp
    then have "(8 * i + k) div 8 = i" and "(8 * i + k) mod 8 = k" by simp_all
    moreover have "8 * i + k < LENGTH('a)" using len i k by linarith
    ultimately show "bit (le_bytes (length bs) (le_word bs :: 'a word) ! i) k = bit (bs ! i) k"
      using i k by (simp add: nth_le_bytes bit_simps bit_le_word)
  qed
qed

section \<open>Memory\<close>

definition load_bytes :: "mem \<Rightarrow> u64 \<Rightarrow> nat \<Rightarrow> u8 list" where
  "load_bytes m a n = map (\<lambda>i. m (a + of_nat i)) [0..<n]"

definition store_bytes :: "mem \<Rightarrow> u64 \<Rightarrow> u8 list \<Rightarrow> mem" where
  "store_bytes m a bs = (\<lambda>x. if unat (x - a) < length bs then bs ! unat (x - a) else m x)"

definition load64 :: "mem \<Rightarrow> u64 \<Rightarrow> u64" where
  "load64 m a = le_word (load_bytes m a 8)"

definition store64 :: "mem \<Rightarrow> u64 \<Rightarrow> u64 \<Rightarrow> mem" where
  "store64 m a w = store_bytes m a (le_bytes 8 w)"

definition load32 :: "mem \<Rightarrow> u64 \<Rightarrow> u32" where
  "load32 m a = le_word (load_bytes m a 4)"

text \<open>Two ranges of addresses share no byte (also where a range wraps round address 0).\<close>

definition apart :: "u64 \<Rightarrow> nat \<Rightarrow> u64 \<Rightarrow> nat \<Rightarrow> bool" where
  "apart a n b k \<longleftrightarrow> n \<le> unat (b - a) \<and> k \<le> unat (a - b)"

lemma apart_sym: "apart a n b k \<longleftrightarrow> apart b k a n"
  by (auto simp: apart_def)

lemma length_load_bytes [simp]: "length (load_bytes m a n) = n"
  by (simp add: load_bytes_def)

lemma nth_load_bytes [simp]: "i < n \<Longrightarrow> load_bytes m a n ! i = m (a + of_nat i)"
  by (simp add: load_bytes_def)

lemma load_bytes_cong:
  "(\<And>i. i < n \<Longrightarrow> m (a + of_nat i) = m' (a' + of_nat i)) \<Longrightarrow> load_bytes m a n = load_bytes m' a' n"
  by (simp add: load_bytes_def)

lemma load_bytes_store_bytes_same [mem_simps]:
  "n = length bs \<Longrightarrow> length bs < 18446744073709551616 \<Longrightarrow>
     load_bytes (store_bytes m a bs) a n = bs"
  by (rule nth_equalityI) (simp_all add: store_bytes_def unat_of_nat64)

lemma load_bytes_store_bytes_slice:
  assumes "k + n \<le> length bs" and "length bs < 18446744073709551616"
  shows "load_bytes (store_bytes m a bs) (a + of_nat k) n = take n (drop k bs)"
proof (rule nth_equalityI)
  show "length (load_bytes (store_bytes m a bs) (a + of_nat k) n) = length (take n (drop k bs))"
    using assms by simp
next
  fix i assume "i < length (load_bytes (store_bytes m a bs) (a + of_nat k) n)"
  then have i: "i < n" by simp
  have "a + of_nat k + of_nat i - a = (of_nat (k + i) :: u64)" by simp
  moreover have "unat (of_nat (k + i) :: u64) = k + i"
    using assms i by (intro unat_of_nat64) linarith
  ultimately show "load_bytes (store_bytes m a bs) (a + of_nat k) n ! i = take n (drop k bs) ! i"
    using assms i by (simp add: store_bytes_def)
qed

lemma apart_offset:
  assumes "apart a n b k" and "i < n"
  shows "k \<le> unat (a + of_nat i - b)"
proof -
  have nz: "unat (b - a) + unat (a - b) = 18446744073709551616"
  proof (cases "a < b")
    case True
    then show ?thesis
      by (simp add: unat_sub64 unat_sub64_wrap word_less_nat_alt less_imp_le word_le_nat_alt
          le_add2 order.trans [OF less_imp_le [OF unat_less_2p64]])
  next
    case False
    with assms have "b < a" by (auto simp: apart_def not_less order.order_iff_strict)
    then show ?thesis
      by (simp add: unat_sub64 unat_sub64_wrap word_less_nat_alt less_imp_le word_le_nat_alt
          le_add2 order.trans [OF less_imp_le [OF unat_less_2p64]])
  qed
  from assms have i: "i < unat (b - a)" by (simp add: apart_def)
  have "unat (of_nat i :: u64) = i"
    using i unat_less_2p64 [of "b - a"] by (intro unat_of_nat64) linarith
  then have "unat (a - b) + unat (of_nat i :: u64) < 18446744073709551616"
    using i nz by linarith
  then have "unat ((a - b) + of_nat i) = unat (a - b) + unat (of_nat i :: u64)"
    by (rule unat_add64_no_wrap)
  moreover have "(a - b) + of_nat i = a + of_nat i - b" by simp
  ultimately show ?thesis using assms by (simp add: apart_def)
qed

text \<open>A part of a range that is apart is apart.\<close>

lemma apart_part:
  assumes "apart a n b k" and "i + l \<le> k" and "0 < l"
  shows "apart a n (b + of_nat i) l"
proof -
  have "n \<le> unat (b + of_nat i - a)"
    using assms by (intro apart_offset [of b k]) (auto simp: apart_sym)
  moreover have k: "k \<le> unat (a - b)" using assms(1) by (simp add: apart_def)
  have "unat (of_nat i :: u64) = i"
    using assms(2) k unat_less_2p64 [of "a - b"] by (intro unat_of_nat64) linarith
  then have "unat (a - b - of_nat i) = unat (a - b) - i"
    using assms(2) k by (subst unat_sub64) (simp_all add: word_le_nat_alt)
  then have "l \<le> unat (a - (b + of_nat i))" using assms(2) k by (simp add: diff_diff_eq)
  ultimately show ?thesis by (simp add: apart_def)
qed

lemma store_bytes_apart:
  "apart a n b (length bs) \<Longrightarrow> i < n \<Longrightarrow> store_bytes m b bs (a + of_nat i) = m (a + of_nat i)"
  using apart_offset [of a n b "length bs" i] by (simp add: store_bytes_def)

lemma load_bytes_store_bytes_apart [mem_simps]:
  "apart a n b (length bs) \<Longrightarrow> load_bytes (store_bytes m b bs) a n = load_bytes m a n"
  by (rule load_bytes_cong) (simp add: store_bytes_apart)

lemma load64_store64_same [mem_simps]: "load64 (store64 m a w) a = w"
  by (simp add: load64_def store64_def mem_simps le_word_le_bytes)

lemma load64_store64_apart [mem_simps]: "apart a 8 b 8 \<Longrightarrow> load64 (store64 m b w) a = load64 m a"
  by (simp add: load64_def store64_def mem_simps)

lemma load64_store_bytes_apart [mem_simps]:
  "apart a 8 b (length bs) \<Longrightarrow> load64 (store_bytes m b bs) a = load64 m a"
  by (simp add: load64_def mem_simps)

lemma load_bytes_store64_apart [mem_simps]:
  "apart a n b 8 \<Longrightarrow> load_bytes (store64 m b w) a n = load_bytes m a n"
  by (simp add: store64_def mem_simps)

lemma store64_apart [mem_simps]: "8 \<le> unat (x - b) \<Longrightarrow> store64 m b w x = m x"
  by (simp add: store64_def store_bytes_def)

text \<open>A field at a small offset of the same structure.\<close>

lemma apart_field [simp]:
  "apart (p + a) n (p + b) k \<longleftrightarrow> n \<le> unat (b - a) \<and> k \<le> unat (a - b)"
  "apart p n (p + b) k \<longleftrightarrow> n \<le> unat b \<and> k \<le> unat (- b)"
  "apart (p + a) n p k \<longleftrightarrow> n \<le> unat (- a) \<and> k \<le> unat a"
  by (simp_all add: apart_def)

end
