(* ===== verification/EdgeCall.thy ===== *)
theory EdgeCall
  imports Prelude
begin

text \<open>
  \<^verbatim>\<open>lib/edge/include/edge_common.h\<close> and \<^verbatim>\<open>lib/edge/src/edge_call.c\<close>: translation between
  pointers into the shared (untrusted) buffer and offsets, and the set-up of the argument and
  return fields of an edge call.

  The globals \<^verbatim>\<open>_shared_start\<close> and \<^verbatim>\<open>_shared_len\<close> are the record \<open>edge_region\<close>.  An
  \<^verbatim>\<open>edge_call_t\<close> lives in memory (normally at the start of the shared buffer), so the functions
  that take an \<^verbatim>\<open>edge_call_t*\<close> take its address \<open>ec\<close> and the memory.  A C function that returns
  a status and, only on success, writes its result through a pointer is a function into
  \<open>int + u64\<close>: \<open>Inl\<close> holds the non-zero status, \<open>Inr\<close> the value written.
\<close>

section \<open>Data of \<^verbatim>\<open>edge_common.h\<close>\<close>

record edge_region =
  shared_start :: u64
  shared_len :: u64

record edge_data_t =
  ed_offset :: u64
  ed_data_va :: u64
  ed_size :: u64

record edge_return_t =
  call_status :: u64
  call_ret_offset :: u64
  call_ret_size :: u64

record edge_call_t =
  call_id :: u64
  call_arg_offset :: u64
  call_arg_size :: u64
  return_data :: edge_return_t

definition sizeof_edge_call_t :: u64 where
  [layout]: "sizeof_edge_call_t = 48"

definition sizeof_edge_data_t :: u64 where
  [layout]: "sizeof_edge_data_t = 24"

text \<open>The structure at address \<open>ec\<close>, field by field.\<close>

definition read_edge_call :: "mem \<Rightarrow> u64 \<Rightarrow> edge_call_t" where
  "read_edge_call m ec =
     \<lparr>call_id = load64 m ec, call_arg_offset = load64 m (ec + 8), call_arg_size = load64 m (ec + 16),
      return_data = \<lparr>call_status = load64 m (ec + 24), call_ret_offset = load64 m (ec + 32),
                     call_ret_size = load64 m (ec + 40)\<rparr>\<rparr>"

definition read_edge_data :: "mem \<Rightarrow> u64 \<Rightarrow> edge_data_t" where
  "read_edge_data m a =
     \<lparr>ed_offset = load64 m a, ed_data_va = load64 m (a + 8), ed_size = load64 m (a + 16)\<rparr>"

definition edge_data_bytes :: "edge_data_t \<Rightarrow> u8 list" where
  "edge_data_bytes d = le_bytes 8 (ed_offset d) @ le_bytes 8 (ed_data_va d) @ le_bytes 8 (ed_size d)"

definition set_call_arg_offset :: "mem \<Rightarrow> u64 \<Rightarrow> u64 \<Rightarrow> mem" where
  [layout]: "set_call_arg_offset m ec v = store64 m (ec + 8) v"

definition set_call_arg_size :: "mem \<Rightarrow> u64 \<Rightarrow> u64 \<Rightarrow> mem" where
  [layout]: "set_call_arg_size m ec v = store64 m (ec + 16) v"

definition set_call_status :: "mem \<Rightarrow> u64 \<Rightarrow> u64 \<Rightarrow> mem" where
  [layout]: "set_call_status m ec v = store64 m (ec + 24) v"

definition set_call_ret_offset :: "mem \<Rightarrow> u64 \<Rightarrow> u64 \<Rightarrow> mem" where
  [layout]: "set_call_ret_offset m ec v = store64 m (ec + 32) v"

definition set_call_ret_size :: "mem \<Rightarrow> u64 \<Rightarrow> u64 \<Rightarrow> mem" where
  [layout]: "set_call_ret_size m ec v = store64 m (ec + 40) v"

section \<open>Operations of \<^verbatim>\<open>edge_call.c\<close>\<close>

definition edge_call_init_internals :: "u64 \<Rightarrow> u64 \<Rightarrow> edge_region" where
  "edge_call_init_internals buffer_start buffer_len =
     \<lparr>shared_start = buffer_start, shared_len = buffer_len\<rparr>"

definition edge_call_get_ptr_from_offset :: "edge_region \<Rightarrow> u64 \<Rightarrow> u64 \<Rightarrow> int + u64" where
  "edge_call_get_ptr_from_offset r offset data_len =
     (if offset > - 1 - shared_start r \<or> offset > shared_len r then Inl (- 1)
      else if data_len > - 1 - (shared_start r + offset) \<or> data_len > shared_len r - offset
        then Inl (- 1)
      else Inr (shared_start r + offset))"

definition edge_call_check_ptr_valid :: "edge_region \<Rightarrow> u64 \<Rightarrow> u64 \<Rightarrow> int" where
  "edge_call_check_ptr_valid r ptr data_len =
     (if ptr > shared_start r + shared_len r \<or> ptr < shared_start r then 1
      else if data_len > - 1 - ptr then 2
      else if ptr + data_len > shared_start r + shared_len r then 3
      else 0)"

definition edge_call_get_offset_from_ptr :: "edge_region \<Rightarrow> u64 \<Rightarrow> u64 \<Rightarrow> int + u64" where
  "edge_call_get_offset_from_ptr r ptr data_len =
     (let valid = edge_call_check_ptr_valid r ptr data_len
      in if valid \<noteq> 0 then Inl valid else Inr (ptr - shared_start r))"

definition edge_call_args_ptr :: "edge_region \<Rightarrow> mem \<Rightarrow> u64 \<Rightarrow> int + u64" where
  "edge_call_args_ptr r m ec =
     edge_call_get_ptr_from_offset r (call_arg_offset (read_edge_call m ec))
       (call_arg_size (read_edge_call m ec))"

definition edge_call_ret_ptr :: "edge_region \<Rightarrow> mem \<Rightarrow> u64 \<Rightarrow> int + u64" where
  "edge_call_ret_ptr r m ec =
     edge_call_get_ptr_from_offset r (call_ret_offset (return_data (read_edge_call m ec)))
       (call_ret_size (return_data (read_edge_call m ec)))"

definition edge_call_setup_call :: "edge_region \<Rightarrow> mem \<Rightarrow> u64 \<Rightarrow> u64 \<Rightarrow> u64 \<Rightarrow> int \<times> mem" where
  "edge_call_setup_call r m ec ptr sz =
     (let m = set_call_arg_size m ec sz
      in case edge_call_get_offset_from_ptr r ptr sz of
           Inl e \<Rightarrow> (e, m)
         | Inr offset \<Rightarrow> (0, set_call_arg_offset m ec offset))"

definition edge_call_setup_ret :: "edge_region \<Rightarrow> mem \<Rightarrow> u64 \<Rightarrow> u64 \<Rightarrow> u64 \<Rightarrow> int \<times> mem" where
  "edge_call_setup_ret r m ec ptr sz =
     (let m = set_call_ret_size m ec sz
      in case edge_call_get_offset_from_ptr r ptr sz of
           Inl e \<Rightarrow> (e, m)
         | Inr offset \<Rightarrow> (0, set_call_ret_offset m ec offset))"

text \<open>The standard \<^verbatim>\<open>memcpy\<close>: its behaviour is undefined (\<open>None\<close>) when the two ranges overlap.\<close>

definition std_memcpy :: "mem \<Rightarrow> u64 \<Rightarrow> u64 \<Rightarrow> nat \<Rightarrow> mem option" where
  "std_memcpy m dest src n =
     (if apart dest n src n then Some (store_bytes m dest (load_bytes m src n)) else None)"

text \<open>
  \<^verbatim>\<open>data_wrapper\<close> is a local: \<open>stack\<close> is what its bytes hold on entry.  Its \<^verbatim>\<open>data_va\<close> is never
  assigned, and its \<^verbatim>\<open>offset\<close> only when the first check passes, whose status is ignored.  The
  second \<^verbatim>\<open>memcpy\<close> reads that local, which overlaps nothing in the region.
\<close>

definition edge_call_setup_wrapped_ret ::
  "edge_region \<Rightarrow> edge_data_t \<Rightarrow> mem \<Rightarrow> u64 \<Rightarrow> u64 \<Rightarrow> u64 \<Rightarrow> (int \<times> mem) option" where
  "edge_call_setup_wrapped_ret r stack m ec ptr sz =
     (let dw = stack\<lparr>ed_size := sz\<rparr>;
          data = shared_start r + sizeof_edge_call_t + sizeof_edge_data_t;
          dw = (case edge_call_get_offset_from_ptr r data sizeof_edge_data_t of
                  Inl e \<Rightarrow> dw
                | Inr offset \<Rightarrow> dw\<lparr>ed_offset := offset\<rparr>)
      in Option.bind (std_memcpy m data ptr (unat sz)) (\<lambda>m.
         let m = store_bytes m (shared_start r + sizeof_edge_call_t) (edge_data_bytes dw);
             m = set_call_ret_size m ec sizeof_edge_data_t
         in case edge_call_get_offset_from_ptr r (shared_start r + sizeof_edge_call_t)
                   sizeof_edge_data_t of
              Inl e \<Rightarrow> Some (e, m)
            | Inr offset \<Rightarrow> Some (0, set_call_ret_offset m ec offset)))"

definition edge_call_data_ptr :: "edge_region \<Rightarrow> u64" where
  "edge_call_data_ptr r = shared_start r + sizeof_edge_call_t"

section \<open>The specification: ranges of the shared region\<close>

definition region_valid :: "edge_region \<Rightarrow> bool" where
  "region_valid r \<longleftrightarrow> unat (shared_start r) + unat (shared_len r) < 2 ^ 64"

text \<open>The \<open>n\<close> bytes from \<open>p\<close> lie in the region, without wrapping.\<close>

definition in_region :: "edge_region \<Rightarrow> u64 \<Rightarrow> nat \<Rightarrow> bool" where
  "in_region r p n \<longleftrightarrow>
     unat (shared_start r) \<le> unat p \<and>
     unat p + n \<le> unat (shared_start r) + unat (shared_len r) \<and> unat p + n < 2 ^ 64"

lemma in_region_byte:
  "in_region r p n \<Longrightarrow> i < n \<Longrightarrow> unat (p + of_nat i - shared_start r) < unat (shared_len r)"
proof -
  assume r: "in_region r p n" and i: "i < n"
  then have "unat (p + of_nat i) = unat p + i"
    by (subst unat_add64_no_wrap) (auto simp: in_region_def unat_of_nat64)
  with r i show ?thesis
    by (subst unat_sub64) (auto simp: in_region_def word_le_nat_alt)
qed

lemma get_ptr_from_offset_eq:
  "edge_call_get_ptr_from_offset r offset data_len =
     (if unat offset + unat data_len \<le> unat (shared_len r) \<and>
         unat (shared_start r) + unat offset + unat data_len < 2 ^ 64
      then Inr (shared_start r + offset) else Inl (- 1))"
proof (cases "unat (shared_start r) + unat offset < 2 ^ 64 \<and> offset \<le> shared_len r")
  case False
  then show ?thesis
    by (auto simp: edge_call_get_ptr_from_offset_def overflow_test word_le_nat_alt not_less not_le)
next
  case True
  then have sum: "unat (shared_start r + offset) = unat (shared_start r) + unat offset"
    by (simp add: unat_add64_no_wrap)
  have "\<not> offset > - 1 - shared_start r" and "\<not> offset > shared_len r"
    using True by (auto simp: overflow_test)
  moreover have "data_len > - 1 - (shared_start r + offset) \<longleftrightarrow>
      \<not> unat (shared_start r) + unat offset + unat data_len < 2 ^ 64"
    by (simp add: overflow_test sum not_less)
  moreover have "data_len > shared_len r - offset \<longleftrightarrow>
      \<not> unat offset + unat data_len \<le> unat (shared_len r)"
    using True by (auto simp: word_less_nat_alt word_le_nat_alt unat_sub64)
  ultimately show ?thesis
    by (auto simp: edge_call_get_ptr_from_offset_def)
qed

lemma get_ptr_in_region:
  "edge_call_get_ptr_from_offset r offset data_len = Inr p \<Longrightarrow> in_region r p (unat data_len)"
  by (auto simp: get_ptr_from_offset_eq in_region_def unat_add64_no_wrap split: if_splits)

lemma check_ptr_valid_0_iff:
  "edge_call_check_ptr_valid r ptr data_len = 0 \<longleftrightarrow>
     region_valid r \<and> in_region r ptr (unat data_len)"
proof (cases "region_valid r")
  case True
  then have sum: "unat (shared_start r + shared_len r) = unat (shared_start r) + unat (shared_len r)"
    by (simp add: region_valid_def unat_add64_no_wrap)
  have wrap: "data_len > - 1 - ptr \<longleftrightarrow> \<not> unat ptr + unat data_len < 2 ^ 64"
    by (simp add: overflow_test not_less)
  have "in_region r ptr (unat data_len) \<longleftrightarrow>
      \<not> data_len > - 1 - ptr \<and> \<not> ptr < shared_start r \<and>
      \<not> ptr + data_len > shared_start r + shared_len r"
  proof (cases "unat ptr + unat data_len < 2 ^ 64")
    case True
    then have "unat (ptr + data_len) = unat ptr + unat data_len"
      by (simp add: unat_add64_no_wrap)
    then show ?thesis
      using True unfolding wrap by (auto simp: in_region_def word_less_nat_alt sum)
  qed (simp add: wrap in_region_def)
  moreover have "in_region r ptr (unat data_len) \<Longrightarrow> \<not> ptr > shared_start r + shared_len r"
    by (simp add: in_region_def word_less_nat_alt sum)
  ultimately show ?thesis
    using True by (auto simp: edge_call_check_ptr_valid_def)
next
  case False
  then have "unat (shared_start r + shared_len r) =
      unat (shared_start r) + unat (shared_len r) - 18446744073709551616"
    by (simp add: region_valid_def unat_add64_wrap)
  then have "unat (shared_start r + shared_len r) < unat (shared_start r)"
    using False unat_less_2p64 [of "shared_len r"] unfolding region_valid_def two64 by linarith
  then have "edge_call_check_ptr_valid r ptr data_len = 1"
    by (auto simp: edge_call_check_ptr_valid_def word_less_nat_alt)
  with False show ?thesis by simp
qed

lemma get_offset_Inr_iff:
  "edge_call_get_offset_from_ptr r ptr data_len = Inr offset \<longleftrightarrow>
     region_valid r \<and> in_region r ptr (unat data_len) \<and> offset = ptr - shared_start r"
  using check_ptr_valid_0_iff [of r ptr data_len]
  by (auto simp: edge_call_get_offset_from_ptr_def Let_def)

lemma get_offset_Inl_nonzero:
  "edge_call_get_offset_from_ptr r ptr data_len = Inl e \<Longrightarrow> e \<in> {1, 2, 3}"
  by (auto simp: edge_call_get_offset_from_ptr_def edge_call_check_ptr_valid_def Let_def
      split: if_splits)

section \<open>The interface its clients rely on\<close>

text \<open>
  What the edge-call code promises about its two translations.  The set-up functions, the
  syscall proxy and every wrapper use nothing else about them.
\<close>

locale edge_translation =
  fixes to_ptr :: "'r \<Rightarrow> u64 \<Rightarrow> u64 \<Rightarrow> int + u64"
    and to_offset :: "'r \<Rightarrow> u64 \<Rightarrow> u64 \<Rightarrow> int + u64"
    and inside :: "'r \<Rightarrow> u64 \<Rightarrow> nat \<Rightarrow> bool"
    and valid :: "'r \<Rightarrow> bool"
  assumes to_ptr_inside: "to_ptr r off n = Inr p \<Longrightarrow> inside r p (unat n)"
    and to_offset_inside: "to_offset r p n = Inr off \<Longrightarrow> inside r p (unat n)"
    and to_ptr_to_offset: "to_offset r p n = Inr off \<Longrightarrow> to_ptr r off n = Inr p"
    and to_offset_to_ptr: "valid r \<Longrightarrow> to_ptr r off n = Inr p \<Longrightarrow> to_offset r p n = Inr off"
begin

lemma to_offset_inj:
  "to_offset r p n = Inr off \<Longrightarrow> to_offset r q n = Inr off \<Longrightarrow> p = q"
  by (metis to_ptr_to_offset sum.inject(2))

lemma to_ptr_inj:
  "valid r \<Longrightarrow> to_ptr r o1 n = Inr p \<Longrightarrow> to_ptr r o2 n = Inr p \<Longrightarrow> o1 = o2"
  by (metis to_offset_to_ptr sum.inject(2))

lemma to_offset_iff: "valid r \<Longrightarrow> to_offset r p n = Inr off \<longleftrightarrow> to_ptr r off n = Inr p"
  by (metis to_ptr_to_offset to_offset_to_ptr)

end

interpretation edge: edge_translation
  edge_call_get_ptr_from_offset edge_call_get_offset_from_ptr in_region region_valid
proof unfold_locales
  fix r off n p
  assume "edge_call_get_ptr_from_offset r off n = Inr p"
  then show "in_region r p (unat n)" by (rule get_ptr_in_region)
next
  fix r p n off
  assume "edge_call_get_offset_from_ptr r p n = Inr off"
  then show "in_region r p (unat n)" by (simp add: get_offset_Inr_iff)
next
  fix r p n off
  assume "edge_call_get_offset_from_ptr r p n = Inr off"
  then have "in_region r p (unat n)" and off: "off = p - shared_start r"
    by (simp_all add: get_offset_Inr_iff)
  moreover from this have "unat off = unat p - unat (shared_start r)"
    by (simp add: in_region_def unat_sub64 word_le_nat_alt)
  ultimately show "edge_call_get_ptr_from_offset r off n = Inr p"
    by (auto simp: get_ptr_from_offset_eq in_region_def)
next
  fix r off n p
  assume "region_valid r" and "edge_call_get_ptr_from_offset r off n = Inr p"
  moreover from this have "in_region r p (unat n)" by (blast intro: get_ptr_in_region)
  ultimately show "edge_call_get_offset_from_ptr r p n = Inr off"
    by (auto simp: get_offset_Inr_iff get_ptr_from_offset_eq split: if_splits)
qed

section \<open>Edge-call fields in memory\<close>

lemmas edge_fields = read_edge_call_def layout mem_simps

lemma setup_call_fields:
  assumes "edge_call_setup_call r m ec ptr sz = (s, m')"
  shows "call_arg_size (read_edge_call m' ec) = sz"
    and "call_id (read_edge_call m' ec) = call_id (read_edge_call m ec)"
    and "return_data (read_edge_call m' ec) = return_data (read_edge_call m ec)"
    and "s = 0 \<Longrightarrow>
      edge_call_get_offset_from_ptr r ptr sz = Inr (call_arg_offset (read_edge_call m' ec))"
  using assms get_offset_Inl_nonzero [of r ptr sz]
  by (auto simp: edge_call_setup_call_def edge_fields Let_def split: sum.splits)

lemma setup_ret_fields:
  assumes "edge_call_setup_ret r m ec ptr sz = (s, m')"
  shows "call_ret_size (return_data (read_edge_call m' ec)) = sz"
    and "call_status (return_data (read_edge_call m' ec)) =
         call_status (return_data (read_edge_call m ec))"
    and "s = 0 \<Longrightarrow> edge_call_get_offset_from_ptr r ptr sz =
         Inr (call_ret_offset (return_data (read_edge_call m' ec)))"
  using assms get_offset_Inl_nonzero [of r ptr sz]
  by (auto simp: edge_call_setup_ret_def edge_fields Let_def split: sum.splits)

section \<open>The wrapped return\<close>

lemma read_edge_data_store:
  "read_edge_data (store_bytes m a (edge_data_bytes d)) a = d"
proof -
  have slice: "load64 (store_bytes m a (edge_data_bytes d)) (a + of_nat k) =
      le_word (take 8 (drop k (edge_data_bytes d)))" if "k + 8 \<le> 24" for k
    using that by (simp add: load64_def load_bytes_store_bytes_slice edge_data_bytes_def)
  show ?thesis
    using slice [of 0] slice [of 8] slice [of 16]
    by (simp add: read_edge_data_def edge_data_bytes_def le_word_le_bytes)
qed

lemma read_edge_data_store64_apart:
  "apart a 24 b 8 \<Longrightarrow> read_edge_data (store64 m b w) a = read_edge_data m a"
proof -
  assume ap: "apart a 24 b 8"
  have "load64 (store64 m b w) (a + of_nat k) = load64 m (a + of_nat k)" if k: "k + 8 \<le> 24" for k
    unfolding load64_def store64_def
  proof (intro arg_cong [where f = le_word] load_bytes_cong)
    fix i :: nat assume "i < 8"
    then have "8 \<le> unat (a + of_nat (k + i) - b)"
      using k by (intro apart_offset [OF ap]) simp
    then show "store_bytes m b (le_bytes 8 w) (a + of_nat k + of_nat i) = m (a + of_nat k + of_nat i)"
      by (simp add: store_bytes_def add.assoc)
  qed
  from this [of 0] this [of 8] this [of 16] show ?thesis
    by (simp add: read_edge_data_def)
qed

text \<open>
  What the code leaves in memory when the edge call sits at the start of a region of at least
  96 bytes, for every \<open>sz\<close> whose data does not wrap round the address space, copied from a source
  that does not overlap its destination.
\<close>

lemma wrapped_ret_memory:
  assumes r: "region_valid r" and len: "96 \<le> unat (shared_len r)"
    and sz: "72 + unat sz < 2 ^ 64" and src: "apart (shared_start r + 72) (unat sz) ptr (unat sz)"
  obtains m' where "edge_call_setup_wrapped_ret r stack m (shared_start r) ptr sz = Some (0, m')"
    and "read_edge_data m' (shared_start r + 48) = stack\<lparr>ed_offset := 72, ed_size := sz\<rparr>"
    and "call_ret_offset (return_data (read_edge_call m' (shared_start r))) = 48"
    and "call_ret_size (return_data (read_edge_call m' (shared_start r))) = 24"
    and "load_bytes m' (shared_start r + 72) (unat sz) = load_bytes m ptr (unat sz)"
proof -
  have off72: "edge_call_get_offset_from_ptr r (shared_start r + 72) 24 = Inr 72"
    and off48: "edge_call_get_offset_from_ptr r (shared_start r + 48) 24 = Inr 48"
    using r len by (simp_all add: get_offset_Inr_iff in_region_def region_valid_def
        unat_add64_no_wrap)
  define dw where "dw = stack\<lparr>ed_size := sz, ed_offset := 72\<rparr>"
  define m' where m': "m' = store64 (store64 (store_bytes
        (store_bytes m (shared_start r + 72) (load_bytes m ptr (unat sz)))
        (shared_start r + 48) (edge_data_bytes dw)) (shared_start r + 40) 24)
        (shared_start r + 32) 48"
  have run: "edge_call_setup_wrapped_ret r stack m (shared_start r) ptr sz = Some (0, m')"
    using src off72 off48
    by (simp add: edge_call_setup_wrapped_ret_def std_memcpy_def layout add.assoc Let_def dw_def m')
  have [simp]: "length (edge_data_bytes dw) = 24" by (simp add: edge_data_bytes_def)
  have sz': "unat sz \<le> 18446744073709551544" using sz by simp
  show thesis
  proof (rule that [OF run])
    show "read_edge_data m' (shared_start r + 48) = stack\<lparr>ed_offset := 72, ed_size := sz\<rparr>"
      by (simp add: m' read_edge_data_store64_apart read_edge_data_store dw_def)
    show "call_ret_offset (return_data (read_edge_call m' (shared_start r))) = 48"
      and "call_ret_size (return_data (read_edge_call m' (shared_start r))) = 24"
      by (simp_all add: m' read_edge_call_def mem_simps)
    show "load_bytes m' (shared_start r + 72) (unat sz) = load_bytes m ptr (unat sz)"
      using sz' by (simp add: m' mem_simps)
  qed
qed

section \<open>Properties\<close>

text \<open>
  (C8) \<^verbatim>\<open>edge_call_get_ptr_from_offset\<close> accepts an offset and a length exactly when the bytes
  they name lie in the shared region and the address computation does not wrap, and then returns
  the address of the first of them; every other input gets status -1.
\<close>

theorem edge_get_ptr_exact:
  "edge_call_get_ptr_from_offset r off n =
     (if unat off + unat n \<le> unat (shared_len r) \<and>
         in_region r (shared_start r + off) (unat n) \<and> shared_start r \<le> shared_start r + off
      then Inr (shared_start r + off) else Inl (- 1))"
proof (cases "unat (shared_start r) + unat off < 2 ^ 64")
  case True
  then show ?thesis
    by (auto simp: get_ptr_from_offset_eq in_region_def unat_add64_no_wrap word_le_nat_alt)
next
  case False
  then have "unat (shared_start r + off) = unat (shared_start r) + unat off - 18446744073709551616"
    by (simp add: unat_add64_wrap)
  then have "unat (shared_start r + off) < unat (shared_start r)"
    using False unat_less_2p64 [of off] unfolding two64 by linarith
  with False show ?thesis
    by (simp add: get_ptr_from_offset_eq in_region_def)
qed

text \<open>
  The status \<^verbatim>\<open>edge_call_check_ptr_valid\<close> gives for every pointer and length, in a region
  that does not wrap: 1 when the pointer is outside, 2 when its end wraps, 3 when its end is
  outside, 0 otherwise.
\<close>

lemma edge_check_ptr_status:
  assumes "region_valid r"
  shows "edge_call_check_ptr_valid r ptr n =
    (if \<not> in_region r ptr 0 then 1
     else if 2 ^ 64 \<le> unat ptr + unat n then 2
     else if \<not> in_region r ptr (unat n) then 3 else 0)"
proof -
  have sum: "unat (shared_start r + shared_len r) = unat (shared_start r) + unat (shared_len r)"
    using assms by (simp add: region_valid_def unat_add64_no_wrap)
  have first: "in_region r ptr 0 \<longleftrightarrow> \<not> (ptr > shared_start r + shared_len r \<or> ptr < shared_start r)"
    by (auto simp: in_region_def word_less_nat_alt sum)
  have wrap: "n > - 1 - ptr \<longleftrightarrow> 2 ^ 64 \<le> unat ptr + unat n"
    by (simp add: overflow_test)
  have "in_region r ptr (unat n) \<longleftrightarrow> edge_call_check_ptr_valid r ptr n = 0"
    using assms check_ptr_valid_0_iff by blast
  then show ?thesis
    unfolding edge_call_check_ptr_valid_def first [symmetric] wrap
    by (auto simp: first split: if_splits)
qed

text \<open>
  (C33) In a region that does not wrap, pointer to offset and offset to pointer are inverse to each
  other: one succeeds with a value exactly when the other takes that value back.
\<close>

theorem edge_offset_roundtrip:
  assumes "region_valid r"
  shows "edge_call_get_offset_from_ptr r p n = Inr off \<longleftrightarrow> edge_call_get_ptr_from_offset r off n = Inr p"
  using assms by (rule edge.to_offset_iff)

theorem edge_offset_roundtrip_witness:
  "edge_call_get_offset_from_ptr \<lparr>shared_start = 4096, shared_len = 8192\<rparr> 4200 64 = Inr 104 \<and>
   edge_call_get_ptr_from_offset \<lparr>shared_start = 4096, shared_len = 8192\<rparr> 104 64 = Inr 4200"
proof -
  let ?r = "\<lparr>shared_start = 4096, shared_len = 8192\<rparr> :: edge_region"
  have v: "region_valid ?r" by (simp add: region_valid_def)
  have "edge_call_get_ptr_from_offset ?r 104 64 = Inr 4200"
    by (simp add: edge_call_get_ptr_from_offset_def)
  then show ?thesis using edge_offset_roundtrip [OF v, of 4200 64 104] by simp
qed

text \<open>
  (C32) After a successful \<^verbatim>\<open>edge_call_setup_ret\<close> the receiver's \<^verbatim>\<open>edge_call_ret_ptr\<close>, reading the
  fields back from the edge call in memory, finds the very pointer; likewise for
  \<^verbatim>\<open>edge_call_setup_call\<close> and \<^verbatim>\<open>edge_call_args_ptr\<close>.  A pointer range outside the region makes the
  set-up fail with a status from 1 to 3.
\<close>

theorem edge_setup_roundtrip:
  assumes "edge_call_setup_ret r m ec ptr n = (s, m')"
    and "edge_call_setup_call r m ec ptr n = (s2, m2)"
  shows "if region_valid r \<and> in_region r ptr (unat n)
         then s = 0 \<and> edge_call_ret_ptr r m' ec = Inr ptr \<and>
              s2 = 0 \<and> edge_call_args_ptr r m2 ec = Inr ptr
         else s \<in> {1, 2, 3} \<and> s2 = s"
proof (cases "edge_call_get_offset_from_ptr r ptr n")
  case (Inl e)
  then have "\<not> (region_valid r \<and> in_region r ptr (unat n))"
    by (metis get_offset_Inr_iff sum.distinct(1))
  moreover have "s = e \<and> s2 = e"
    using assms Inl by (auto simp: edge_call_setup_ret_def edge_call_setup_call_def Let_def)
  ultimately show ?thesis using get_offset_Inl_nonzero [OF Inl] by auto
next
  case (Inr off)
  then have "s = 0" and "s2 = 0"
    using assms by (auto simp: edge_call_setup_ret_def edge_call_setup_call_def Let_def)
  then have "edge_call_ret_ptr r m' ec = Inr ptr" and "edge_call_args_ptr r m2 ec = Inr ptr"
    using setup_ret_fields [OF assms(1)] setup_call_fields [OF assms(2)]
    by (simp_all add: edge_call_ret_ptr_def edge_call_args_ptr_def edge.to_ptr_to_offset)
  with \<open>s = 0\<close> \<open>s2 = 0\<close> Inr show ?thesis by (simp add: get_offset_Inr_iff)
qed

theorem edge_setup_roundtrip_witness:
  "let r = \<lparr>shared_start = 4096, shared_len = 8192\<rparr>
   in edge_call_ret_ptr r (snd (edge_call_setup_ret r (\<lambda>_. 0) 4096 5000 16)) 4096 = Inr 5000"
proof -
  let ?r = "\<lparr>shared_start = 4096, shared_len = 8192\<rparr> :: edge_region"
  have "region_valid ?r \<and> in_region ?r 5000 (unat (16 :: u64))"
    by (simp add: region_valid_def in_region_def)
  then show ?thesis
    using edge_setup_roundtrip [of ?r "\<lambda>_. 0" 4096 5000 16
        "fst (edge_call_setup_ret ?r (\<lambda>_. 0) 4096 5000 16)"
        "snd (edge_call_setup_ret ?r (\<lambda>_. 0) 4096 5000 16)"
        "fst (edge_call_setup_call ?r (\<lambda>_. 0) 4096 5000 16)"
        "snd (edge_call_setup_call ?r (\<lambda>_. 0) 4096 5000 16)"]
    by simp
qed

text \<open>
  (C9) \<^verbatim>\<open>edge_call_setup_wrapped_ret\<close>, for an edge call at the start of a region of at least 96 bytes and
  a size whose bytes behind the two headers do not wrap round the address space (\<open>72 + n < 2^64\<close>):
  when source and destination of the \<^verbatim>\<open>memcpy\<close> are apart, it reports success.  Where the size fits,
  the receiver unwraps it to the copied bytes.  Where it does not, the copy has still been made, past
  the end of the region, and the receiver's check of the wrapper rejects it.  When the two ranges
  overlap, the \<^verbatim>\<open>memcpy\<close> is undefined.
\<close>

theorem edge_wrapped_ret:
  assumes "region_valid r" and "96 \<le> unat (shared_len r)" and "72 + unat n < 2 ^ 64"
  shows "if apart (shared_start r + 72) (unat n) ptr (unat n)
    then \<exists>m'. edge_call_setup_wrapped_ret r stack m (shared_start r) ptr n = Some (0, m') \<and>
      edge_call_ret_ptr r m' (shared_start r) = Inr (shared_start r + 48) \<and>
      load_bytes m' (shared_start r + 72) (unat n) = load_bytes m ptr (unat n) \<and>
      (let d = read_edge_data m' (shared_start r + 48)
       in edge_call_get_ptr_from_offset r (ed_offset d) (ed_size d) =
          (if 72 + unat n \<le> unat (shared_len r) then Inr (shared_start r + 72) else Inl (- 1)))
    else edge_call_setup_wrapped_ret r stack m (shared_start r) ptr n = None"
proof (cases "apart (shared_start r + 72) (unat n) ptr (unat n)")
  case True
  obtain m' where run: "edge_call_setup_wrapped_ret r stack m (shared_start r) ptr n = Some (0, m')"
    and mem: "read_edge_data m' (shared_start r + 48) = stack\<lparr>ed_offset := 72, ed_size := n\<rparr>"
      "call_ret_offset (return_data (read_edge_call m' (shared_start r))) = 48"
      "call_ret_size (return_data (read_edge_call m' (shared_start r))) = 24"
      "load_bytes m' (shared_start r + 72) (unat n) = load_bytes m ptr (unat n)"
    using wrapped_ret_memory [OF assms True] by blast
  have "edge_call_ret_ptr r m' (shared_start r) = Inr (shared_start r + 48)"
    using assms(1,2) mem(2,3)
    by (simp add: edge_call_ret_ptr_def get_ptr_from_offset_eq region_valid_def)
  moreover have "edge_call_get_ptr_from_offset r 72 n =
      (if 72 + unat n \<le> unat (shared_len r) then Inr (shared_start r + 72) else Inl (- 1))"
    using assms(1) by (auto simp: get_ptr_from_offset_eq region_valid_def)
  ultimately show ?thesis using True run mem by simp
next
  case False
  then show ?thesis
    by (simp add: edge_call_setup_wrapped_ret_def std_memcpy_def layout add.assoc Let_def)
qed

theorem edge_wrapped_ret_witness:
  "\<exists>m'. edge_call_setup_wrapped_ret \<lparr>shared_start = 4096, shared_len = 128\<rparr>
      \<lparr>ed_offset = 0, ed_data_va = 7, ed_size = 0\<rparr> (\<lambda>a. if a = 999 then 5 else 0) 4096 900 100 = Some (0, m') \<and>
    m' 4267 = 5 \<and> \<not> in_region \<lparr>shared_start = 4096, shared_len = 128\<rparr> 4267 1"
proof -
  let ?r = "\<lparr>shared_start = 4096, shared_len = 128\<rparr> :: edge_region"
  let ?m = "(\<lambda>a. if a = 999 then 5 else 0) :: mem"
  have "apart (shared_start ?r + 72) (unat (100 :: u64)) 900 (unat (100 :: u64))" by (simp add: apart_def)
  then obtain m' where
    run: "edge_call_setup_wrapped_ret ?r \<lparr>ed_offset = 0, ed_data_va = 7, ed_size = 0\<rparr> ?m 4096 900 100 = Some (0, m')"
    and copied: "load_bytes m' (4096 + 72) 100 = load_bytes ?m 900 100"
    using edge_wrapped_ret [of ?r 100 900 "\<lparr>ed_offset = 0, ed_data_va = 7, ed_size = 0\<rparr>" ?m]
    by (auto simp: region_valid_def)
  have "load_bytes m' (4096 + 72) 100 ! 99 = load_bytes ?m 900 100 ! 99" using copied by simp
  then show ?thesis using run by (auto simp: in_region_def)
qed

end
