(* ===== verification/EdgeDispatch.thy ===== *)
theory EdgeDispatch
  imports EdgeCall
begin

text \<open>
  \<^verbatim>\<open>lib/edge/src/edge_dispatch.c\<close> and \<^verbatim>\<open>lib/edge/src/edge_syscall.c\<close>: the table of registered
  edge-call wrappers, the dispatch of an incoming call, and the proxy that runs a file system
  call of the enclave on the host.

  A wrapper and a libc function change memory and the rest of the host's state (open files and
  the like), so they are functions on a pair \<open>mem \<times> 'w\<close>; libc is not part of the repository and
  is the parameter \<open>L\<close>.  \<^verbatim>\<open>edge_call_table\<close> is a list of \<^verbatim>\<open>MAX_EDGE_CALL\<close> entries, \<open>None\<close> standing
  for \<^verbatim>\<open>NULL\<close>; an access past its end is the value \<open>Inl (Table_Overrun i)\<close>.
\<close>

section \<open>The table and its operations\<close>

type_synonym 'w edgecallwrapper = "u64 \<Rightarrow> mem \<times> 'w \<Rightarrow> mem \<times> 'w"
type_synonym 'w call_table = "'w edgecallwrapper option list"

datatype access_fault = Table_Overrun u64

definition MAX_EDGE_CALL :: u64 where
  [layout]: "MAX_EDGE_CALL = 40"

definition EDGECALL_SYSCALL :: u64 where
  [layout]: "EDGECALL_SYSCALL = 41"

definition CALL_STATUS_OK :: u64 where
  [layout]: "CALL_STATUS_OK = 0"

definition CALL_STATUS_BAD_CALL_ID :: u64 where
  [layout]: "CALL_STATUS_BAD_CALL_ID = 1"

definition CALL_STATUS_SYSCALL_FAILED :: u64 where
  [layout]: "CALL_STATUS_SYSCALL_FAILED = 5"

definition edge_call_table_init :: "'w call_table" where
  "edge_call_table_init = replicate 40 None"

definition table_read :: "'w call_table \<Rightarrow> u64 \<Rightarrow> access_fault + 'w edgecallwrapper option" where
  "table_read tab i = (if unat i < length tab then Inr (tab ! unat i) else Inl (Table_Overrun i))"

definition register_call ::
  "'w call_table \<Rightarrow> u64 \<Rightarrow> 'w edgecallwrapper option \<Rightarrow> access_fault + int \<times> 'w call_table" where
  "register_call tab cid f =
     (if cid > MAX_EDGE_CALL then Inr (- 1, tab)
      else if unat cid < length tab then Inr (0, tab[unat cid := f])
      else Inl (Table_Overrun cid))"

section \<open>The syscall proxy\<close>

record 'w libc =
  l_openat :: "i32 \<Rightarrow> u64 \<Rightarrow> i32 \<Rightarrow> i32 \<Rightarrow> mem \<times> 'w \<Rightarrow> i32 \<times> mem \<times> 'w"
  l_unlinkat :: "i32 \<Rightarrow> u64 \<Rightarrow> i32 \<Rightarrow> mem \<times> 'w \<Rightarrow> i32 \<times> mem \<times> 'w"
  l_ftruncate :: "i32 \<Rightarrow> i64 \<Rightarrow> mem \<times> 'w \<Rightarrow> i32 \<times> mem \<times> 'w"
  l_fstatat :: "i32 \<Rightarrow> u64 \<Rightarrow> u64 \<Rightarrow> i32 \<Rightarrow> mem \<times> 'w \<Rightarrow> i32 \<times> mem \<times> 'w"
  l_write :: "i32 \<Rightarrow> u64 \<Rightarrow> u64 \<Rightarrow> mem \<times> 'w \<Rightarrow> i64 \<times> mem \<times> 'w"
  l_read :: "i32 \<Rightarrow> u64 \<Rightarrow> u64 \<Rightarrow> mem \<times> 'w \<Rightarrow> i64 \<times> mem \<times> 'w"
  l_sync :: "mem \<times> 'w \<Rightarrow> mem \<times> 'w"
  l_fsync :: "i32 \<Rightarrow> mem \<times> 'w \<Rightarrow> i32 \<times> mem \<times> 'w"
  l_close :: "i32 \<Rightarrow> mem \<times> 'w \<Rightarrow> i32 \<times> mem \<times> 'w"
  l_lseek :: "i32 \<Rightarrow> i64 \<Rightarrow> i32 \<Rightarrow> mem \<times> 'w \<Rightarrow> i64 \<times> mem \<times> 'w"
  l_sizeof_stat :: u64

definition SYS_unlinkat :: u64 where [layout]: "SYS_unlinkat = 35"
definition SYS_ftruncate :: u64 where [layout]: "SYS_ftruncate = 46"
definition SYS_openat :: u64 where [layout]: "SYS_openat = 56"
definition SYS_close :: u64 where [layout]: "SYS_close = 57"
definition SYS_lseek :: u64 where [layout]: "SYS_lseek = 62"
definition SYS_read :: u64 where [layout]: "SYS_read = 63"
definition SYS_write :: u64 where [layout]: "SYS_write = 64"
definition SYS_fstatat :: u64 where [layout]: "SYS_fstatat = 79"
definition SYS_sync :: u64 where [layout]: "SYS_sync = 81"
definition SYS_fsync :: u64 where [layout]: "SYS_fsync = 82"

text \<open>An \<^verbatim>\<open>int\<close> result assigned to the \<^verbatim>\<open>int64_t ret\<close> is sign extended.\<close>

definition ret_of_int :: "i32 \<times> mem \<times> 'w \<Rightarrow> i64 \<times> mem \<times> 'w" where
  "ret_of_int p = (scast (fst p), snd p)"

text \<open>
  The \<^verbatim>\<open>switch\<close> of \<^verbatim>\<open>incoming_syscall\<close>: the arguments are read at the offsets of the \<^verbatim>\<open>sargs_SYS_*\<close>
  structures from \<open>data\<close>; \<open>None\<close> is the \<^verbatim>\<open>default\<close> branch.
\<close>

definition run_syscall ::
  "'w libc \<Rightarrow> u64 \<Rightarrow> u64 \<Rightarrow> mem \<times> 'w \<Rightarrow> (i64 \<times> mem \<times> 'w) option" where
  "run_syscall L num data st =
     (let int_at = (\<lambda>off. load32 (fst st) (data + off)); long_at = (\<lambda>off. load64 (fst st) (data + off))
      in if num = SYS_openat
           then Some (ret_of_int (l_openat L (int_at 0) (data + 12) (int_at 4) (int_at 8) st))
         else if num = SYS_unlinkat
           then Some (ret_of_int (l_unlinkat L (int_at 0) (data + 12) (int_at 4) st))
         else if num = SYS_ftruncate
           then Some (ret_of_int (l_ftruncate L (int_at 0) (long_at 8) st))
         else if num = SYS_fstatat
           then Some (ret_of_int (l_fstatat L (int_at 0) (data + 8 + l_sizeof_stat L) (data + 8)
                  (int_at 4) st))
         else if num = SYS_write then Some (l_write L (int_at 0) (data + 16) (long_at 8) st)
         else if num = SYS_read then Some (l_read L (int_at 0) (data + 16) (long_at 8) st)
         else if num = SYS_sync then Some (0, l_sync L st)
         else if num = SYS_fsync then Some (ret_of_int (l_fsync L (int_at 0) st))
         else if num = SYS_close then Some (ret_of_int (l_close L (int_at 0) st))
         else if num = SYS_lseek then Some (l_lseek L (int_at 0) (long_at 8) (int_at 16) st)
         else None)"

definition syscall_error :: "u64 \<Rightarrow> mem \<times> 'w \<Rightarrow> mem \<times> 'w" where
  "syscall_error ec st = (set_call_status (fst st) ec CALL_STATUS_SYSCALL_FAILED, snd st)"

definition incoming_syscall :: "edge_region \<Rightarrow> 'w libc \<Rightarrow> u64 \<Rightarrow> mem \<times> 'w \<Rightarrow> mem \<times> 'w" where
  "incoming_syscall r L ec st =
     (case edge_call_args_ptr r (fst st) ec of
        Inl e \<Rightarrow> syscall_error ec st
      | Inr syscall_info \<Rightarrow>
          let st = (set_call_status (fst st) ec CALL_STATUS_OK, snd st)
          in case run_syscall L (load64 (fst st) syscall_info) (syscall_info + 8) st of
               None \<Rightarrow> syscall_error ec st
             | Some (ret, st) \<Rightarrow>
                 let ret_data_ptr = edge_call_data_ptr r;
                     m = store64 (fst st) ret_data_ptr ret;
                     res = edge_call_setup_ret r m ec ret_data_ptr 8
                 in if fst res \<noteq> 0 then syscall_error ec (snd res, snd st)
                    else (snd res, snd st))"

text \<open>\<open>wrapping\<close> says whether the library was built with \<^verbatim>\<open>IO_SYSCALL_WRAPPING\<close>.\<close>

definition incoming_call_dispatch ::
  "bool \<Rightarrow> edge_region \<Rightarrow> 'w libc \<Rightarrow> 'w call_table \<Rightarrow> u64 \<Rightarrow> mem \<times> 'w \<Rightarrow> access_fault + mem \<times> 'w" where
  "incoming_call_dispatch wrapping r L tab buffer st =
     (let cid = call_id (read_edge_call (fst st) buffer);
          fatal = (set_call_status (fst st) buffer CALL_STATUS_BAD_CALL_ID, snd st)
      in if wrapping \<and> cid = EDGECALL_SYSCALL then Inr (incoming_syscall r L buffer st)
         else if cid > MAX_EDGE_CALL then Inr fatal
         else case table_read tab cid of
                Inl e \<Rightarrow> Inl e
              | Inr None \<Rightarrow> Inr fatal
              | Inr (Some f) \<Rightarrow> Inr (f buffer st))"

section \<open>The registry contract\<close>

locale call_registry =
  fixes register :: "'t \<Rightarrow> u64 \<Rightarrow> 'f option \<Rightarrow> 't option"
    and handler :: "'t \<Rightarrow> u64 \<Rightarrow> 'f option"
  assumes handler_register: "register t i f = Some t' \<Longrightarrow> handler t' j = (if j = i then f else handler t j)"
begin

lemma handler_register_same: "register t i f = Some t' \<Longrightarrow> handler t' i = f"
  by (simp add: handler_register)

lemma register_commute:
  "i \<noteq> j \<Longrightarrow> register t i f = Some t1 \<Longrightarrow> register t1 j g = Some t2 \<Longrightarrow>
   register t j g = Some u1 \<Longrightarrow> register u1 i f = Some u2 \<Longrightarrow> handler t2 = handler u2"
  by (rule ext) (simp add: handler_register)

end

text \<open>Registration seen as an update of the table: \<open>None\<close> where it is refused or overruns.\<close>

definition registered :: "'w call_table \<Rightarrow> u64 \<Rightarrow> 'w edgecallwrapper option \<Rightarrow> 'w call_table option" where
  "registered tab i f = (case register_call tab i f of Inr (s, tab') \<Rightarrow> if s = 0 then Some tab' else None
                         | Inl e \<Rightarrow> None)"

definition table_handler :: "'w call_table \<Rightarrow> u64 \<Rightarrow> 'w edgecallwrapper option" where
  "table_handler tab i = (case table_read tab i of Inr h \<Rightarrow> h | Inl e \<Rightarrow> None)"

interpretation registry: call_registry registered table_handler
proof unfold_locales
  fix t t' :: "'w call_table" and i j :: u64 and f :: "'w edgecallwrapper option"
  assume "registered t i f = Some t'"
  then have "unat i < length t" and "t' = t[unat i := f]"
    by (auto simp: registered_def register_call_def split: if_splits)
  then show "table_handler t' j = (if j = i then f else table_handler t j)"
    by (auto simp: table_handler_def table_read_def nth_list_update word_unat_eq_iff)
qed

text \<open>
  The calls of \<^verbatim>\<open>register_call\<close> a host makes, one after the other; a refused one leaves the table, one
  past its end is a fault.
\<close>

primrec register_calls ::
  "'w call_table \<Rightarrow> (u64 \<times> 'w edgecallwrapper option) list \<Rightarrow> access_fault + 'w call_table" where
  "register_calls tab [] = Inr tab"
| "register_calls tab (c # cs) = (case register_call tab (fst c) (snd c) of
     Inl e \<Rightarrow> Inl e | Inr (s, tab) \<Rightarrow> register_calls tab cs)"

lemma register_call_cases:
  assumes "register_call tab i f = Inr (s, tab')"
  obtains "registered tab i f = Some tab'" "s = 0" "unat i < length tab"
    | "MAX_EDGE_CALL < i" "tab' = tab" "s = - 1"
  using assms by (auto simp: registered_def register_call_def split: if_splits)

lemma register_calls_append:
  "register_calls tab (xs @ ys) = (case register_calls tab xs of Inl e \<Rightarrow> Inl e | Inr tab \<Rightarrow> register_calls tab ys)"
  by (induction xs arbitrary: tab) (auto split: sum.split)

section \<open>Lemmas on the dispatch\<close>

lemma dispatch_wrapper:
  assumes "call_id (read_edge_call (fst st) buffer) = i" and "\<not> (wrapping \<and> i = EDGECALL_SYSCALL)"
    and "i \<le> MAX_EDGE_CALL" and "unat i < length tab"
  shows "incoming_call_dispatch wrapping r L tab buffer st =
    Inr (case table_handler tab i of
           None \<Rightarrow> (set_call_status (fst st) buffer CALL_STATUS_BAD_CALL_ID, snd st)
         | Some f \<Rightarrow> f buffer st)"
  using assms
  by (auto simp: incoming_call_dispatch_def table_handler_def table_read_def Let_def
      split: option.splits)

lemma registered_length: "registered tab i f = Some tab' \<Longrightarrow> length tab' = length tab \<and> unat i < length tab"
  by (auto simp: registered_def register_call_def split: if_splits)

lemma register_calls_length: "register_calls tab cs = Inr tab' \<Longrightarrow> length tab' = length tab"
proof (induction cs arbitrary: tab)
  case (Cons c cs)
  then obtain s tab1 where c: "register_call tab (fst c) (snd c) = Inr (s, tab1)" "register_calls tab1 cs = Inr tab'"
    by (auto split: sum.splits)
  from c(1) have "length tab1 = length tab" by (cases rule: register_call_cases) (auto dest: registered_length)
  with Cons.IH [OF c(2)] show ?case by simp
qed simp

lemma register_calls_other:
  "register_calls tab cs = Inr tab' \<Longrightarrow> i \<notin> fst ` set cs \<Longrightarrow> table_handler tab' i = table_handler tab i"
proof (induction cs arbitrary: tab)
  case (Cons c cs)
  then obtain s tab1 where c: "register_call tab (fst c) (snd c) = Inr (s, tab1)" "register_calls tab1 cs = Inr tab'"
    by (auto split: sum.splits)
  from c(1) have "table_handler tab1 i = table_handler tab i"
  proof (cases rule: register_call_cases)
    case 1
    then show ?thesis using registry.handler_register [OF 1(1), of i] Cons.prems(2) by simp
  qed simp
  with Cons.IH [OF c(2)] Cons.prems(2) show ?case by simp
qed simp

lemma length_table_init [simp]: "length edge_call_table_init = 40"
  by (simp add: edge_call_table_init_def)

section \<open>What a proxied request asks for\<close>

text \<open>
  A request as the enclave means it, one constructor per handled system call with the members of its
  \<^verbatim>\<open>sargs_SYS_*\<close> structure in \<^verbatim>\<open>edge_syscall.h\<close>; the flexible array at the end is a list of bytes, and so is
  the \<^verbatim>\<open>struct stat\<close> of \<^verbatim>\<open>fstatat\<close>.
\<close>

datatype syscall_request =
    Openat (rq_dirfd: i32) (rq_flags: i32) (rq_mode: i32) (rq_path: "u8 list")
  | Unlinkat (rq_dirfd: i32) (rq_flags: i32) (rq_mode: i32) (rq_path: "u8 list")
  | Ftruncate (rq_fd: i32) (rq_offset: i64)
  | Fstatat (rq_dirfd: i32) (rq_flags: i32) (rq_stats: "u8 list") (rq_path: "u8 list")
  | Write (rq_fd: i32) (rq_len: u64) (rq_buf: "u8 list")
  | Read (rq_fd: i32) (rq_len: u64) (rq_buf: "u8 list")
  | Sync
  | Fsync (rq_fd: i32)
  | Close (rq_fd: i32)
  | Lseek (rq_fd: i32) (rq_offset: i64) (rq_whence: i32)

fun request_num :: "syscall_request \<Rightarrow> u64" where
  "request_num (Openat _ _ _ _) = 56"
| "request_num (Unlinkat _ _ _ _) = 35"
| "request_num (Ftruncate _ _) = 46"
| "request_num (Fstatat _ _ _ _) = 79"
| "request_num (Write _ _ _) = 64"
| "request_num (Read _ _ _) = 63"
| "request_num Sync = 81"
| "request_num (Fsync _) = 82"
| "request_num (Close _) = 57"
| "request_num (Lseek _ _ _) = 62"

text \<open>The structure in memory: \<open>pad\<close> are the four bytes that align an 8-byte member after an \<^verbatim>\<open>int\<close>.\<close>

fun request_args :: "u8 list \<Rightarrow> syscall_request \<Rightarrow> u8 list" where
  "request_args pad (Openat dirfd flags mode path) = le_bytes 4 dirfd @ le_bytes 4 flags @ le_bytes 4 mode @ path"
| "request_args pad (Unlinkat dirfd flags mode path) = le_bytes 4 dirfd @ le_bytes 4 flags @ le_bytes 4 mode @ path"
| "request_args pad (Ftruncate fd off) = le_bytes 4 fd @ pad @ le_bytes 8 off"
| "request_args pad (Fstatat dirfd flags stats path) = le_bytes 4 dirfd @ le_bytes 4 flags @ stats @ path"
| "request_args pad (Write fd len buf) = le_bytes 4 fd @ pad @ le_bytes 8 len @ buf"
| "request_args pad (Read fd len buf) = le_bytes 4 fd @ pad @ le_bytes 8 len @ buf"
| "request_args pad Sync = []"
| "request_args pad (Fsync fd) = le_bytes 4 fd"
| "request_args pad (Close fd) = le_bytes 4 fd"
| "request_args pad (Lseek fd off whence) = le_bytes 4 fd @ pad @ le_bytes 8 off @ le_bytes 4 whence"

definition request_bytes :: "u8 list \<Rightarrow> syscall_request \<Rightarrow> u8 list" where
  "request_bytes pad q = le_bytes 8 (request_num q) @ request_args pad q"

text \<open>
  The call of the host's library a request stands for, \<open>data\<close> being the address of the structure: paths
  and buffers are passed as pointers to the bytes of the request, an \<^verbatim>\<open>int\<close> result is sign extended.
\<close>

fun perform :: "'w libc \<Rightarrow> syscall_request \<Rightarrow> u64 \<Rightarrow> mem \<times> 'w \<Rightarrow> i64 \<times> mem \<times> 'w" where
  "perform L (Openat dirfd flags mode path) data st = apfst scast (l_openat L dirfd (data + 12) flags mode st)"
| "perform L (Unlinkat dirfd flags mode path) data st = apfst scast (l_unlinkat L dirfd (data + 12) flags st)"
| "perform L (Ftruncate fd off) data st = apfst scast (l_ftruncate L fd off st)"
| "perform L (Fstatat dirfd flags stats path) data st =
     apfst scast (l_fstatat L dirfd (data + 8 + of_nat (length stats)) (data + 8) flags st)"
| "perform L (Write fd len buf) data st = l_write L fd (data + 16) len st"
| "perform L (Read fd len buf) data st = l_read L fd (data + 16) len st"
| "perform L Sync data st = (0, l_sync L st)"
| "perform L (Fsync fd) data st = apfst scast (l_fsync L fd st)"
| "perform L (Close fd) data st = apfst scast (l_close L fd st)"
| "perform L (Lseek fd off whence) data st = l_lseek L fd off whence st"

text \<open>\<open>request_at L m p q\<close>: the memory holds the request \<open>q\<close>, its number first, at \<open>p\<close>.\<close>

definition request_at :: "'w libc \<Rightarrow> mem \<Rightarrow> u64 \<Rightarrow> u8 list \<Rightarrow> syscall_request \<Rightarrow> bool" where
  "request_at L m p pad q \<longleftrightarrow> length pad = 4 \<and>
     load_bytes m p (length (request_bytes pad q)) = request_bytes pad q \<and>
     (case q of Fstatat _ _ stats _ \<Rightarrow> length stats = unat (l_sizeof_stat L) | _ \<Rightarrow> True)"

lemma load_bytes_part:
  "load_bytes m a n = bs \<Longrightarrow> k + l \<le> n \<Longrightarrow> load_bytes m (a + of_nat k) l = take l (drop k bs)"
  by (rule nth_equalityI) (auto simp: add.assoc simp flip: of_nat_add)

lemma request_fields:
  assumes "load_bytes m p n = bs"
  shows "8 \<le> n \<Longrightarrow> load64 m p = le_word (take 8 bs)"
    and "12 \<le> n \<Longrightarrow> load32 m (p + 8) = le_word (take 4 (drop 8 bs))"
    and "16 \<le> n \<Longrightarrow> load32 m (p + 12) = le_word (take 4 (drop 12 bs))"
    and "20 \<le> n \<Longrightarrow> load32 m (p + 16) = le_word (take 4 (drop 16 bs))"
    and "28 \<le> n \<Longrightarrow> load32 m (p + 24) = le_word (take 4 (drop 24 bs))"
    and "24 \<le> n \<Longrightarrow> load64 m (p + 16) = le_word (take 8 (drop 16 bs))"
  using load_bytes_part [OF assms, of 0 8] load_bytes_part [OF assms, of 8 4]
    load_bytes_part [OF assms, of 12 4] load_bytes_part [OF assms, of 16 4]
    load_bytes_part [OF assms, of 24 4] load_bytes_part [OF assms, of 16 8]
  by (simp_all add: load64_def load32_def)

text \<open>The \<^verbatim>\<open>switch\<close> decodes every request and makes its call.\<close>

lemma run_syscall_request:
  assumes "request_at L m p pad q"
  shows "run_syscall L (load64 m p) (p + 8) (m, w) = Some (perform L q (p + 8) (m, w))"
proof -
  have pad: "length pad = 4" and bytes: "load_bytes m p (length (request_bytes pad q)) = request_bytes pad q"
    and stat: "case q of Fstatat _ _ stats _ \<Rightarrow> length stats = unat (l_sizeof_stat L) | _ \<Rightarrow> True"
    using assms by (simp_all add: request_at_def)
  note f = request_fields [OF bytes]
  have num: "load64 m p = request_num q"
    using f(1) by (simp add: request_bytes_def le_word_le_bytes)
  have ext: "ret_of_int x = apfst scast x" for x :: "i32 \<times> mem \<times> 'a"
    by (simp add: ret_of_int_def apfst_def map_prod_def split: prod.split)
  show ?thesis
    using f(2-) pad stat unfolding num
    by (cases q) (simp_all add: run_syscall_def layout Let_def ext request_bytes_def le_word_le_bytes add.assoc)
qed

lemma request_at_cong:
  "request_at L m p pad q \<Longrightarrow> load_bytes m' p (length (request_bytes pad q)) = load_bytes m p (length (request_bytes pad q)) \<Longrightarrow>
   request_at L m' p pad q"
  by (simp add: request_at_def)

section \<open>Sample inputs for the witnesses\<close>

text \<open>A libc whose every call reports 7 and changes nothing, and an \<^verbatim>\<open>fsync\<close> request.\<close>

definition sample_libc :: "unit libc" where
  "sample_libc =
     \<lparr>l_openat = \<lambda>_ _ _ _ st. (7, st), l_unlinkat = \<lambda>_ _ _ st. (7, st),
      l_ftruncate = \<lambda>_ _ st. (7, st), l_fstatat = \<lambda>_ _ _ _ st. (7, st),
      l_write = \<lambda>_ _ _ st. (7, st), l_read = \<lambda>_ _ _ st. (7, st), l_sync = \<lambda>st. st,
      l_fsync = \<lambda>_ st. (7, st), l_close = \<lambda>_ st. (7, st), l_lseek = \<lambda>_ _ _ st. (7, st),
      l_sizeof_stat = 128\<rparr>"

definition sample_request :: mem where
  "sample_request = store64 (store64 (store64 (\<lambda>_. 0) 4104 64) 4112 12) 4160 82"

lemma sample_request_args:
  "edge_call_args_ptr \<lparr>shared_start = 4096, shared_len = 256\<rparr> sample_request 4096 = Inr 4160"
  by (simp add: edge_call_args_ptr_def read_edge_call_def sample_request_def mem_simps apart_def
      edge_call_get_ptr_from_offset_def)

lemma sample_request_at: "request_at sample_libc sample_request 4160 [0, 0, 0, 0] (Fsync 0)"
proof -
  have "load_bytes sample_request 4160 12 = le_bytes 8 (82 :: u64) @ le_bytes 4 (0 :: i32)"
    unfolding sample_request_def by code_simp
  then show ?thesis by (simp add: request_at_def request_bytes_def)
qed

section \<open>Properties\<close>

text \<open>
  (C24) After any sequence of \<^verbatim>\<open>register_call\<close>s, refused ones included, that does not run past the end of
  the table (C24), an incoming call with an id below 40 runs, on the buffer, the wrapper that was
  registered last for this id.
\<close>

theorem dispatch_runs_registered:
  assumes "register_calls edge_call_table_init (before @ (i, Some f) # after) = Inr tab"
    and "i < MAX_EDGE_CALL" and "i \<notin> fst ` set after"
    and "call_id (read_edge_call (fst st) buffer) = i"
  shows "incoming_call_dispatch wrapping r L tab buffer st = Inr (f buffer st)"
proof -
  obtain tab1 where "register_calls edge_call_table_init before = Inr tab1"
    and rest: "register_calls tab1 ((i, Some f) # after) = Inr tab"
    using assms(1) by (auto simp: register_calls_append split: sum.splits)
  then have len: "length tab1 = 40" using register_calls_length by fastforce
  obtain tab2 where reg: "registered tab1 i (Some f) = Some tab2" and tail: "register_calls tab2 after = Inr tab"
    using rest assms(2) len by (auto simp: registered_def register_call_def layout split: if_splits sum.splits)
  have "table_handler tab i = Some f"
    using register_calls_other [OF tail assms(3)] registry.handler_register_same [OF reg] by simp
  moreover have "length tab = 40"
    using register_calls_length [OF tail] registered_length [OF reg] len by simp
  moreover have "i \<le> MAX_EDGE_CALL" and "\<not> (wrapping \<and> i = EDGECALL_SYSCALL)" and "unat i < 40"
    using assms(2) by (auto simp: layout word_less_nat_alt word_le_nat_alt)
  ultimately show ?thesis using assms(4) by (simp add: dispatch_wrapper)
qed

theorem dispatch_runs_registered_witness:
  "\<exists>tab. register_calls edge_call_table_init
      [(3, None), (3, Some (\<lambda>buffer st. (\<lambda>_. 9, ()))), (7, None), (99, None), (7, Some (\<lambda>buffer st. st))] = Inr tab \<and>
    incoming_call_dispatch True \<lparr>shared_start = 0, shared_len = 64\<rparr> sample_libc tab 0 (store64 (\<lambda>_. 0) 0 3, ()) =
      Inr (\<lambda>_. 9, ())"
proof -
  let ?f = "\<lambda>buffer st. (\<lambda>_. 9, ())" and ?after = "[(7, None), (99, None), (7, Some (\<lambda>buffer st. st))]"
  obtain tab where tab: "register_calls edge_call_table_init ([(3, None)] @ (3, Some ?f) # ?after) = Inr tab"
    by (simp add: register_call_def layout)
  then show ?thesis
    using dispatch_runs_registered [OF tab, of "(store64 (\<lambda>_. 0) 0 3, ())" 0 True "\<lparr>shared_start = 0, shared_len = 64\<rparr>" sample_libc]
    by (auto simp: layout read_edge_call_def mem_simps)
qed

text \<open>
  (C36) A call whose id no wrapper is registered for, in particular any id above 40 (41 is the syscall
  proxy's own, when it is built in), runs no wrapper: the status of the call becomes
  \<^verbatim>\<open>CALL_STATUS_BAD_CALL_ID\<close>, every other byte of memory and the rest of the host are as before.  The one
  exception is id 40, for which the code reads past the end of the table (C36).
\<close>

theorem dispatch_rejects_unregistered:
  assumes "length tab = 40" and "call_id (read_edge_call (fst st) buffer) = i"
    and "\<not> (wrapping \<and> i = EDGECALL_SYSCALL)" and "table_handler tab i = None"
  shows "if i = MAX_EDGE_CALL then incoming_call_dispatch wrapping r L tab buffer st = Inl (Table_Overrun i)
    else \<exists>m'. incoming_call_dispatch wrapping r L tab buffer st = Inr (m', snd st) \<and>
      call_status (return_data (read_edge_call m' buffer)) = CALL_STATUS_BAD_CALL_ID \<and>
      (\<forall>x. 8 \<le> unat (x - (buffer + 24)) \<longrightarrow> m' x = fst st x)"
proof (cases "i = MAX_EDGE_CALL")
  case True
  then show ?thesis using assms(1,2)
    by (simp add: incoming_call_dispatch_def table_read_def layout Let_def)
next
  case ne: False
  let ?m = "set_call_status (fst st) buffer CALL_STATUS_BAD_CALL_ID"
  have "incoming_call_dispatch wrapping r L tab buffer st = Inr (?m, snd st)"
  proof (cases "i > MAX_EDGE_CALL")
    case True
    with assms show ?thesis by (auto simp: incoming_call_dispatch_def Let_def)
  next
    case False
    then have "i \<le> MAX_EDGE_CALL" by simp
    moreover from this ne have "unat i < length tab"
      using assms(1) by (simp add: layout word_le_nat_alt word_unat_eq_iff)
    ultimately show ?thesis using assms by (simp add: dispatch_wrapper)
  qed
  then show ?thesis using ne by (auto simp: edge_fields)
qed

theorem dispatch_rejects_unregistered_witness:
  "\<exists>m'. incoming_call_dispatch True \<lparr>shared_start = 0, shared_len = 64\<rparr> sample_libc
      edge_call_table_init 0 (store64 (\<lambda>_. 0) 0 3, ()) = Inr (m', ()) \<and>
    call_status (return_data (read_edge_call m' 0)) = CALL_STATUS_BAD_CALL_ID"
  using dispatch_rejects_unregistered [of "edge_call_table_init :: unit call_table"
      "(store64 (\<lambda>_. 0) 0 3, ())" 0 3 True "\<lparr>shared_start = 0, shared_len = 64\<rparr>" sample_libc]
  by (auto simp: edge_call_table_init_def table_handler_def table_read_def layout
      read_edge_call_def mem_simps)

text \<open>
  (C10) With the 40 entries the table has, dispatch and registration reach past its end for exactly
  one id, 40, which both guards (\<^verbatim>\<open>call_id > MAX_EDGE_CALL\<close>) let through.
\<close>

theorem dispatch_overrun_iff:
  assumes "length tab = 40"
  shows "((\<exists>e. incoming_call_dispatch wrapping r L tab buffer st = Inl e) \<longleftrightarrow>
           call_id (read_edge_call (fst st) buffer) = MAX_EDGE_CALL) \<and>
         ((\<exists>e. register_call tab i f = Inl e) \<longleftrightarrow> i = MAX_EDGE_CALL)"
  using assms
  by (auto simp: incoming_call_dispatch_def register_call_def table_read_def layout Let_def
      word_less_nat_alt word_le_nat_alt word_unat_eq_iff not_less split: option.splits)

theorem dispatch_overrun_iff_witness:
  "\<exists>e. register_call (edge_call_table_init :: unit call_table) 40 None = Inl e"
  using dispatch_overrun_iff [of "edge_call_table_init :: unit call_table" False
      "\<lparr>shared_start = 0, shared_len = 64\<rparr>" sample_libc 0 "(\<lambda>_. 0, ())" 40 None]
  by (simp add: layout)

text \<open>The effect of a handled call, in terms of the \<^verbatim>\<open>switch\<close>.\<close>

lemma syscall_returned:
  assumes "region_valid r" and "56 \<le> unat (shared_len r)"
    and "edge_call_args_ptr r (fst st) (shared_start r) = Inr p"
    and "st1 = (set_call_status (fst st) (shared_start r) CALL_STATUS_OK, snd st)"
    and "run_syscall L (load64 (fst st1) p) (p + 8) st1 = Some (ret, st2)"
    and "load_bytes (fst st2) (shared_start r) 48 = load_bytes (fst st1) (shared_start r) 48"
    and "incoming_syscall r L (shared_start r) st = (m', w')"
  shows "w' = snd st2 \<and> edge_call_ret_ptr r m' (shared_start r) = Inr (shared_start r + 48) \<and>
    load64 m' (shared_start r + 48) = ret \<and>
    call_status (return_data (read_edge_call m' (shared_start r))) = CALL_STATUS_OK"
proof -
  let ?s = "shared_start r"
  have off: "edge_call_get_offset_from_ptr r (?s + 48) 8 = Inr 48"
    using assms(1,2)
    by (simp add: get_offset_Inr_iff in_region_def region_valid_def unat_add64_no_wrap)
  have ptr: "edge_call_get_ptr_from_offset r 48 8 = Inr (?s + 48)"
    using off by (rule edge.to_ptr_to_offset)
  have "m' = store64 (store64 (store64 (fst st2) (?s + 48) ret) (?s + 40) 8) (?s + 32) 48"
    and w: "w' = snd st2"
    using assms(3,5,7) off
    by (auto simp: incoming_syscall_def edge_call_data_ptr_def edge_call_setup_ret_def layout Let_def
        assms(4))
  note m' = this(1)
  have status: "load64 (fst st2) (?s + 24) = load64 (fst st1) (?s + 24)"
  proof -
    have "load_bytes (fst st2) (?s + of_nat 24) 8 = load_bytes (fst st1) (?s + of_nat 24) 8"
    proof (rule load_bytes_cong)
      fix i :: nat assume "i < 8"
      then have "load_bytes (fst st2) ?s 48 ! (24 + i) = load_bytes (fst st1) ?s 48 ! (24 + i)"
        using assms(6) by simp
      with \<open>i < 8\<close> show "fst st2 (?s + of_nat 24 + of_nat i) = fst st1 (?s + of_nat 24 + of_nat i)"
        by (simp add: add.assoc)
    qed
    then show ?thesis by (simp add: load64_def)
  qed
  then have "load64 m' (?s + 24) = CALL_STATUS_OK"
    by (simp add: m' assms(4) layout mem_simps)
  then show ?thesis
    using w ptr by (simp add: m' read_edge_call_def edge_call_ret_ptr_def mem_simps)
qed

text \<open>
  (C25) A proxied request: when the enclave has put the \<^verbatim>\<open>sargs_SYS_*\<close> structure of one of the ten handled
  system calls, behind its number, where the edge call's arguments point, apart from the 48 bytes of
  the edge call, then the host makes exactly the library call the request stands for, with the
  request's values and pointers to its path or buffer, and leaves the result where the enclave reads
  it: \<^verbatim>\<open>edge_call_ret_ptr\<close> gives the address after the edge call, which holds the 64-bit result, and the
  status is \<^verbatim>\<open>CALL_STATUS_OK\<close>.  The hypothesis on libc is that the call leaves the edge call alone.
\<close>

theorem syscall_returns_result:
  assumes "region_valid r" and "56 \<le> unat (shared_len r)"
    and "edge_call_args_ptr r (fst st) (shared_start r) = Inr p"
    and "request_at L (fst st) p pad q" and "apart p (length (request_bytes pad q)) (shared_start r) 48"
    and "st1 = (set_call_status (fst st) (shared_start r) CALL_STATUS_OK, snd st)"
    and "perform L q (p + 8) st1 = (ret, st2)"
    and "load_bytes (fst st2) (shared_start r) 48 = load_bytes (fst st1) (shared_start r) 48"
    and "incoming_syscall r L (shared_start r) st = (m', w')"
  shows "w' = snd st2 \<and> edge_call_ret_ptr r m' (shared_start r) = Inr (shared_start r + 48) \<and>
    load64 m' (shared_start r + 48) = ret \<and>
    call_status (return_data (read_edge_call m' (shared_start r))) = CALL_STATUS_OK"
proof (rule syscall_returned [OF assms(1-3,6) _ assms(8,9)])
  have "load_bytes (fst st1) p (length (request_bytes pad q)) = load_bytes (fst st) p (length (request_bytes pad q))"
    using apart_part [OF assms(5), of 24 8] by (simp add: assms(6) layout mem_simps)
  from request_at_cong [OF assms(4) this] have "request_at L (fst st1) p pad q" .
  from run_syscall_request [OF this, of "snd st1"] assms(7)
  show "run_syscall L (load64 (fst st1) p) (p + 8) st1 = Some (ret, st2)" by simp
qed

theorem syscall_returns_result_witness:
  "edge_call_ret_ptr \<lparr>shared_start = 4096, shared_len = 256\<rparr>
     (fst (incoming_syscall \<lparr>shared_start = 4096, shared_len = 256\<rparr> sample_libc 4096 (sample_request, ())))
     4096 = Inr 4144"
proof -
  let ?r = "\<lparr>shared_start = 4096, shared_len = 256\<rparr> :: edge_region"
  let ?st1 = "(set_call_status sample_request 4096 CALL_STATUS_OK, ())"
  have run: "perform sample_libc (Fsync 0) (4160 + 8) ?st1 = (7, ?st1)"
    by (simp add: sample_libc_def)
  obtain m' w' where eq: "incoming_syscall ?r sample_libc 4096 (sample_request, ()) = (m', w')"
    by (rule prod.exhaust)
  have "apart 4160 (length (request_bytes [0, 0, 0, 0] (Fsync 0))) (shared_start ?r) 48"
    by (simp add: apart_def request_bytes_def)
  from syscall_returns_result [of ?r "(sample_request, ())" 4160, OF _ _ _ _ this refl _ _]
  show ?thesis
    using sample_request_args sample_request_at run eq
    by (simp add: region_valid_def)
qed

text \<open>
  (C37) When the argument range is not in the region, or the number is not handled, no host call is
  made: the rest of the host is untouched, the status is \<^verbatim>\<open>CALL_STATUS_SYSCALL_FAILED\<close> and no
  byte outside the status field changes.
\<close>

theorem syscall_rejected:
  assumes "(\<exists>e. edge_call_args_ptr r (fst st) ec = Inl e) \<or>
      (\<exists>p. edge_call_args_ptr r (fst st) ec = Inr p \<and>
           load64 (set_call_status (fst st) ec CALL_STATUS_OK) p \<notin>
             {35, 46, 56, 57, 62, 63, 64, 79, 81, 82})"
    and "incoming_syscall r L ec st = (m', w')"
  shows "w' = snd st \<and> call_status (return_data (read_edge_call m' ec)) = CALL_STATUS_SYSCALL_FAILED \<and>
    (\<forall>x. 8 \<le> unat (x - (ec + 24)) \<longrightarrow> m' x = fst st x)"
proof -
  let ?ok = "(set_call_status (fst st) ec CALL_STATUS_OK, snd st)"
  have "run_syscall L n d s = None" if "n \<notin> {35, 46, 56, 57, 62, 63, 64, 79, 81, 82}" for n d s
    using that by (simp add: run_syscall_def layout)
  with assms have "(m', w') = syscall_error ec st \<or> (m', w') = syscall_error ec ?ok"
    by (auto simp: incoming_syscall_def Let_def)
  then show ?thesis
    by (auto simp: syscall_error_def edge_fields)
qed

theorem syscall_rejected_witness:
  "call_status (return_data (read_edge_call (fst (incoming_syscall
     \<lparr>shared_start = 4096, shared_len = 64\<rparr> sample_libc 4096 (sample_request, ()))) 4096)) = 5"
proof -
  let ?r = "\<lparr>shared_start = 4096, shared_len = 64\<rparr> :: edge_region"
  have "edge_call_args_ptr ?r sample_request 4096 = Inl (- 1)"
    by (simp add: edge_call_args_ptr_def read_edge_call_def sample_request_def mem_simps apart_def
        edge_call_get_ptr_from_offset_def)
  moreover obtain m' w'
    where eq: "incoming_syscall ?r sample_libc 4096 (sample_request, ()) = (m', w')"
    by (rule prod.exhaust)
  ultimately show ?thesis
    using syscall_rejected [of ?r "(sample_request, ())" 4096 sample_libc m' w']
    by (simp add: CALL_STATUS_SYSCALL_FAILED_def)
qed

end
