(* ===== verification/SignedLimbs.thy ===== *)
theory SignedLimbs
  imports Prelude
begin

text \<open>
  Signed machine arithmetic on limbs, shared by the field and scalar arithmetic of
  \<^verbatim>\<open>lib/verifier/ed25519\<close>: a word with its exact integer value and a bound on it, one rule per C
  operator that says when the operator does not wrap, and rules that walk through a block of
  assignments keeping value and bound of every variable; then carries that leave digits, and the
  little-endian integer of a byte string.

  \<open>sv w v B\<close> says that the signed reading of \<open>w\<close> is \<open>v\<close> and \<open>\<bar>v\<bar> \<le> B\<close>.
\<close>

abbreviation asr :: "'a::len word \<Rightarrow> nat \<Rightarrow> 'a word" where
  "asr w n \<equiv> signed_drop_bit n w"

abbreviation shl :: "'a::len word \<Rightarrow> nat \<Rightarrow> 'a word" where
  "shl w n \<equiv> push_bit n w"

abbreviation lsr :: "'a::len word \<Rightarrow> nat \<Rightarrow> 'a word" where
  "lsr w n \<equiv> drop_bit n w"

definition sv :: "'a::len word \<Rightarrow> int \<Rightarrow> int \<Rightarrow> bool" where
  "sv w v B \<longleftrightarrow> sint w = v \<and> \<bar>v\<bar> \<le> B"

lemma svI: "sint w = v \<Longrightarrow> \<bar>v\<bar> \<le> B \<Longrightarrow> sv w v B"
  by (simp add: sv_def)

lemma sv_sint: "sv w v B \<Longrightarrow> sint w = v"
  by (simp add: sv_def)

lemma sv_bound: "sv w v B \<Longrightarrow> \<bar>v\<bar> \<le> B"
  by (simp add: sv_def)

lemma sv_weaken: "sv w v B \<Longrightarrow> B \<le> C \<Longrightarrow> sv w v C"
  by (simp add: sv_def)

lemma signed_take_bit_id:
  "- (2 ^ n) \<le> v \<Longrightarrow> v < 2 ^ n \<Longrightarrow> signed_take_bit n (v :: int) = v"
  by (simp add: signed_take_bit_int_eq_self)

lemma sv_add:
  fixes a b :: "'a::len word"
  assumes "sv a x A" and "sv b y B" and "A + B < 2 ^ (LENGTH('a) - 1)"
  shows "sv (a + b) (x + y) (A + B)"
  using assms by (auto simp: sv_def sint_word_add intro!: signed_take_bit_id)

lemma sv_diff:
  fixes a b :: "'a::len word"
  assumes "sv a x A" and "sv b y B" and "A + B < 2 ^ (LENGTH('a) - 1)"
  shows "sv (a - b) (x - y) (A + B)"
  using assms by (auto simp: sv_def sint_word_diff intro!: signed_take_bit_id)

lemma sv_minus:
  fixes a :: "'a::len word"
  assumes "sv a x A" and "A < 2 ^ (LENGTH('a) - 1)"
  shows "sv (- a) (- x) A"
  using assms by (auto simp: sv_def sint_word_minus intro!: signed_take_bit_id)

lemma sv_mult:
  fixes a b :: "'a::len word"
  assumes "sv a x A" and "sv b y B" and "A * B < 2 ^ (LENGTH('a) - 1)"
  shows "sv (a * b) (x * y) (A * B)"
proof -
  have "\<bar>x * y\<bar> \<le> A * B"
    using assms(1,2) by (auto simp: sv_def abs_mult intro: mult_mono)
  with assms show ?thesis
    by (auto simp: sv_def sint_word_mult intro!: signed_take_bit_id)
qed

lemma sv_scast:
  assumes "sv (a :: 'a::len word) x A" and "A < 2 ^ (LENGTH('b) - 1)"
  shows "sv (scast a :: 'b::len word) x A"
  using assms by (auto simp: sv_def signed_scast_eq intro!: signed_take_bit_id)

text \<open>The conversion \<^verbatim>\<open>(int32_t) h\<close> of a 64-bit value that fits.\<close>

lemma sv_ucast_down:
  assumes "sv (a :: i64) x A" and "A < 2147483648"
  shows "sv (ucast a :: i32) x A"
proof -
  have "sint (ucast a :: i32) = signed_take_bit 31 (signed_take_bit 63 (uint a))"
    by (simp add: signed_ucast_eq)
  also have "\<dots> = signed_take_bit 31 (sint a)"
    by (simp add: sint_uint)
  finally show ?thesis
    using assms by (auto simp: sv_def intro!: signed_take_bit_id)
qed

lemma sv_numeral:
  "numeral n < (2 :: int) ^ (LENGTH('a::len) - 1) \<Longrightarrow> sv (numeral n :: 'a word) (numeral n) (numeral n)"
proof -
  assume "numeral n < (2 :: int) ^ (LENGTH('a) - 1)"
  moreover have "sint (numeral n :: 'a word) = signed_take_bit (LENGTH('a) - 1) (numeral n)"
    by simp
  ultimately show ?thesis
    by (simp add: sv_def signed_take_bit_id order.trans [of _ 0])
qed

lemma sv_shl:
  fixes a :: "'a::len word"
  assumes "sv a x A" and "A * 2 ^ n < 2 ^ (LENGTH('a) - 1)" and "n < LENGTH('a) - 1"
  shows "sv (shl a n) (x * 2 ^ n) (A * 2 ^ n)"
proof -
  have "\<bar>x * 2 ^ n\<bar> \<le> A * 2 ^ n"
    using assms(1) by (simp add: sv_def abs_mult)
  moreover have "sint (shl a n) = signed_take_bit (LENGTH('a) - 1) (sint a * 2 ^ n)"
    proof -
    have "shl a n = word_of_int (sint a * 2 ^ n)"
      by (simp add: push_bit_eq_mult)
    then show ?thesis by (simp only: sint_sbintrunc')
  qed
  ultimately show ?thesis
    using assms by (auto simp: sv_def intro!: signed_take_bit_id)
qed

lemma sint_asr: "sint (asr w n) = sint w div 2 ^ n"
  by (simp add: sint_signed_drop_bit_eq drop_bit_eq_div)

section \<open>Walking through assignments\<close>

text \<open>\<open>wp Q t\<close> is \<open>Q t\<close>, marked so that the rules below consume the assignments of \<open>t\<close> in order.\<close>

definition wp :: "('b \<Rightarrow> bool) \<Rightarrow> 'b \<Rightarrow> bool" where
  "wp Q t = Q t"

lemma wpI: "Q t \<Longrightarrow> wp Q t"
  by (simp add: wp_def)

lemma wpD: "wp Q t \<Longrightarrow> Q t"
  by (simp add: wp_def)

lemma wp_let:
  "sv t v B \<Longrightarrow> (\<And>x. sv x v B \<Longrightarrow> wp Q (f x)) \<Longrightarrow> wp Q (Let t f)"
  by (simp add: wp_def)

lemma div_round_bound:
  fixes v B :: int
  assumes "\<bar>v\<bar> \<le> B" and "n = Suc k"
  shows "\<bar>(v + 2 ^ k) div 2 ^ n\<bar> \<le> (B + 2 ^ k) div 2 ^ n"
    and "\<bar>v - (v + 2 ^ k) div 2 ^ n * 2 ^ n\<bar> \<le> 2 ^ k"
proof -
  let ?c = "(v + 2 ^ k) div 2 ^ n" and ?m = "(v + 2 ^ k) mod 2 ^ n"
  have n: "(2 :: int) ^ n = 2 * 2 ^ k" using assms by simp
  have split: "v + 2 ^ k = ?c * 2 ^ n + ?m" by (rule div_mult_mod_eq [symmetric])
  have m: "0 \<le> ?m" "?m < 2 ^ n" by simp_all
  show "\<bar>v - ?c * 2 ^ n\<bar> \<le> 2 ^ k"
    using split m n by linarith
  have up: "?c \<le> (B + 2 ^ k) div 2 ^ n"
    using assms by (intro zdiv_mono1) auto
  have "- ?c * 2 ^ n \<le> B + 2 ^ k"
    using split m n assms(1) by linarith
  then have "(- ?c * 2 ^ n) div 2 ^ n \<le> (B + 2 ^ k) div 2 ^ n"
    by (intro zdiv_mono1) auto
  then have "- ?c \<le> (B + 2 ^ k) div 2 ^ n"
    by (simp only: nonzero_mult_div_cancel_right power_not_zero zero_neq_numeral not_False_eq_True)
  with up show "\<bar>?c\<bar> \<le> (B + 2 ^ k) div 2 ^ n" by linarith
qed

text \<open>The rounding carry \<^verbatim>\<open>c = (h + (1 << k)) >> n\<close> with \<open>n = k + 1\<close>.\<close>

lemma sv_round:
  fixes h :: "'a::len word"
  assumes "sv h v B" and "n = Suc k" and "n < LENGTH('a) - 1" and "B + 2 ^ n < 2 ^ (LENGTH('a) - 1)"
  shows "sv (asr (h + shl 1 k) n) ((v + 2 ^ k) div 2 ^ n) ((B + 2 ^ k) div 2 ^ n)"
    and "sv (h - shl (asr (h + shl 1 k) n) n) (v - (v + 2 ^ k) div 2 ^ n * 2 ^ n) (2 ^ k)"
proof -
  have B: "0 \<le> B" using assms(1) by (auto simp: sv_def)
  have n: "(2 :: int) ^ n = 2 * 2 ^ k" using assms(2) by simp
  have kl: "(2 :: int) ^ k < 2 ^ (LENGTH('a) - 1)"
    using assms(2,3) by (intro power_strict_increasing) auto
  have "sv (1 :: 'a word) 1 1"
    using assms(3) by (simp add: sv_def)
  then have one: "sv (shl 1 k :: 'a word) (2 ^ k) (2 ^ k)"
    using sv_shl [of "1 :: 'a word" 1 1 k] kl assms(2,3) by simp
  have "B + 2 ^ k < 2 ^ (LENGTH('a) - 1)"
    using assms(4) n zero_less_power [of "2 :: int" k] by linarith
  then have "sv (h + shl 1 k) (v + 2 ^ k) (B + 2 ^ k)"
    by (rule sv_add [OF assms(1) one])
  then show c: "sv (asr (h + shl 1 k) n) ((v + 2 ^ k) div 2 ^ n) ((B + 2 ^ k) div 2 ^ n)"
    using div_round_bound(1) [OF _ assms(2)] assms(1) by (auto simp: sv_def sint_asr)
  have "(B + 2 ^ k) div 2 ^ n * 2 ^ n \<le> B + 2 ^ k"
    by (metis div_mult_mod_eq le_add_same_cancel1 pos_mod_sign zero_less_numeral zero_less_power)
  then have "(B + 2 ^ k) div 2 ^ n * 2 ^ n < 2 ^ (LENGTH('a) - 1)"
    using assms(4) n by (smt (verit) zero_le_power)
  then have "sv (shl (asr (h + shl 1 k) n) n) ((v + 2 ^ k) div 2 ^ n * 2 ^ n)
      ((B + 2 ^ k) div 2 ^ n * 2 ^ n)"
    using assms(3) by (intro sv_shl [OF c]) auto
  then have "sint (h - shl (asr (h + shl 1 k) n) n) =
      signed_take_bit (LENGTH('a) - 1) (v - (v + 2 ^ k) div 2 ^ n * 2 ^ n)"
    using assms(1) by (simp add: sv_def sint_word_diff)
  moreover note div_round_bound(2) [OF sv_bound [OF assms(1)] assms(2)]
  moreover from this kl
  have "signed_take_bit (LENGTH('a) - 1) (v - (v + 2 ^ k) div 2 ^ n * 2 ^ n) =
      v - (v + 2 ^ k) div 2 ^ n * 2 ^ n"
    by (intro signed_take_bit_id) linarith+
  ultimately show "sv (h - shl (asr (h + shl 1 k) n) n) (v - (v + 2 ^ k) div 2 ^ n * 2 ^ n) (2 ^ k)"
    by (simp only: sv_def)
qed

lemma wp_carry_round:
  fixes h0 h1 :: "'a::len word"
  assumes h0: "sv h0 v0 B0" and h1: "sv h1 v1 B1" and n: "n = Suc k" and l: "n < LENGTH('a) - 1"
    and b0: "B0 + 2 ^ n < 2 ^ (LENGTH('a) - 1)" and C: "(B0 + 2 ^ k) div 2 ^ n = C"
    and B1': "B1 + C = B1'" and b1: "B1' < 2 ^ (LENGTH('a) - 1)" and H: "2 ^ k = H"
    and cont: "\<And>c w h1' h0'. sv h1' (v1 + c) B1' \<Longrightarrow> sv h0' (v0 - c * 2 ^ n) H \<Longrightarrow>
      wp Q (f w h1' h0')"
  shows "wp Q (Let (asr (h0 + shl 1 k) n) (\<lambda>w. Let (h1 + w) (\<lambda>h1'. Let (h0 - shl w n) (\<lambda>h0'. f w h1' h0'))))"
proof -
  note c = sv_round [OF h0 n l b0]
  have "sv (h1 + asr (h0 + shl 1 k) n) (v1 + (v0 + 2 ^ k) div 2 ^ n) B1'"
    using sv_add [OF h1 c(1)] B1' b1 C by simp
  from cont [OF this] c(2) H show ?thesis by (simp add: Let_def)
qed

text \<open>The same where the carry re-enters multiplied by a constant (\<^verbatim>\<open>h0 += carry9 * 19\<close>).\<close>

lemma wp_carry_round_mult:
  fixes h0 h1 :: "'a::len word"
  assumes h0: "sv h0 v0 B0" and h1: "sv h1 v1 B1" and n: "n = Suc k" and l: "n < LENGTH('a) - 1"
    and b0: "B0 + 2 ^ n < 2 ^ (LENGTH('a) - 1)" and C: "(B0 + 2 ^ k) div 2 ^ n = C"
    and m: "sv m (M :: int) M" and B1': "B1 + C * M = B1'" and b1: "B1' < 2 ^ (LENGTH('a) - 1)"
    and CM: "C * M < 2 ^ (LENGTH('a) - 1)" and H: "2 ^ k = H"
    and cont: "\<And>c w h1' h0'. sv h1' (v1 + c * M) B1' \<Longrightarrow> sv h0' (v0 - c * 2 ^ n) H \<Longrightarrow>
      wp Q (f w h1' h0')"
  shows "wp Q (Let (asr (h0 + shl 1 k) n) (\<lambda>w. Let (h1 + w * m) (\<lambda>h1'. Let (h0 - shl w n) (\<lambda>h0'. f w h1' h0'))))"
proof -
  note c = sv_round [OF h0 n l b0]
  have "sv (asr (h0 + shl 1 k) n * m) ((v0 + 2 ^ k) div 2 ^ n * M) (C * M)"
    using sv_mult [OF c(1) m] CM C by simp
  then have "sv (h1 + asr (h0 + shl 1 k) n * m) (v1 + (v0 + 2 ^ k) div 2 ^ n * M) B1'"
    using sv_add [OF h1] B1' b1 by fastforce
  from cont [OF this] c(2) H show ?thesis by (simp add: Let_def)
qed

section \<open>Floor carries\<close>

lemma div_floor_bound:
  fixes v B :: int
  assumes "\<bar>v\<bar> \<le> B"
  shows "\<bar>v div 2 ^ n\<bar> \<le> B div 2 ^ n + 1"
proof -
  have "v div 2 ^ n \<le> B div 2 ^ n"
    using assms by (intro zdiv_mono1) auto
  moreover have "(- B) div 2 ^ n \<le> v div 2 ^ n"
    using assms by (intro zdiv_mono1) auto
  moreover have "- (B div 2 ^ n) - 1 \<le> (- B) div 2 ^ n"
    by (simp add: zdiv_zminus1_eq_if)
  ultimately show ?thesis by linarith
qed

lemma sv_asr: "sv w v B \<Longrightarrow> sv (asr w n) (v div 2 ^ n) (B div 2 ^ n + 1)"
  by (simp add: sv_def sint_asr div_floor_bound)

text \<open>The floor carry \<^verbatim>\<open>c = h >> n\<close>: what stays behind is a digit of \<open>n\<close> bits.\<close>

lemma sv_floor:
  fixes h :: "'a::len word"
  assumes "sv h v B" and "n < LENGTH('a) - 1" and "(B div 2 ^ n + 1) * 2 ^ n < 2 ^ (LENGTH('a) - 1)"
  shows "sv (h - shl (asr h n) n) (v - v div 2 ^ n * 2 ^ n) (2 ^ n - 1)"
proof -
  note c = sv_asr [OF assms(1), of n]
  have m: "v - v div 2 ^ n * 2 ^ n = v mod 2 ^ n"
    by (simp add: minus_div_mult_eq_mod)
  have b: "0 \<le> v mod 2 ^ n" "v mod 2 ^ n < 2 ^ n" by simp_all
  have l: "(2 :: int) ^ n < 2 ^ (LENGTH('a) - 1)"
    using assms(2) by (intro power_strict_increasing) auto
  have "sv (shl (asr h n) n) (v div 2 ^ n * 2 ^ n) ((B div 2 ^ n + 1) * 2 ^ n)"
    using assms by (intro sv_shl [OF c]) auto
  then have "sint (h - shl (asr h n) n) = signed_take_bit (LENGTH('a) - 1) (v mod 2 ^ n)"
    using assms(1) m by (simp add: sv_def sint_word_diff)
  also have "\<dots> = v mod 2 ^ n"
    using b l zero_le_power [of "2 :: int" "LENGTH('a) - 1"] by (intro signed_take_bit_id) linarith+
  finally show ?thesis
    unfolding m sv_def using b by linarith
qed

lemma wp_carry_floor:
  fixes h0 h1 :: "'a::len word"
  assumes h0: "sv h0 v0 B0" and h1: "sv h1 v1 B1" and l: "n < LENGTH('a) - 1"
    and C: "B0 div 2 ^ n + 1 = C" and b0: "C * 2 ^ n < 2 ^ (LENGTH('a) - 1)"
    and B1': "B1 + C = B1'" and b1: "B1' < 2 ^ (LENGTH('a) - 1)" and H: "2 ^ n - 1 = H"
    and cont: "\<And>c w h1' h0'. sv h1' (v1 + c) B1' \<Longrightarrow> sv h0' (v0 - c * 2 ^ n) H \<Longrightarrow>
      0 \<le> v0 - c * 2 ^ n \<Longrightarrow> wp Q (f w h1' h0')"
  shows "wp Q (Let (asr h0 n) (\<lambda>w. Let (h1 + w) (\<lambda>h1'. Let (h0 - shl w n) (\<lambda>h0'. f w h1' h0'))))"
proof -
  note c = sv_asr [OF h0, of n] and d = sv_floor [OF h0 l b0 [folded C]]
  have "sv (h1 + asr h0 n) (v1 + v0 div 2 ^ n) B1'"
    using sv_add [OF h1 c] B1' b1 C by simp
  from cont [OF this] d H show ?thesis by (simp add: Let_def minus_div_mult_eq_mod)
qed

text \<open>The last carry, which is taken off but not added anywhere.\<close>

lemma wp_carry_drop:
  fixes h0 :: "'a::len word"
  assumes h0: "sv h0 v0 B0" and l: "n < LENGTH('a) - 1"
    and C: "B0 div 2 ^ n + 1 = C" and b0: "C * 2 ^ n < 2 ^ (LENGTH('a) - 1)" and H: "2 ^ n - 1 = H"
    and cont: "\<And>c w h0'. sv h0' (v0 - c * 2 ^ n) H \<Longrightarrow> 0 \<le> v0 - c * 2 ^ n \<Longrightarrow> wp Q (f w h0')"
  shows "wp Q (Let (asr h0 n) (\<lambda>w. Let (h0 - shl w n) (\<lambda>h0'. f w h0')))"
proof -
  note sv_floor [OF h0 l b0 [folded C]]
  from cont [OF this [unfolded H]] show ?thesis by (simp add: Let_def minus_div_mult_eq_mod)
qed

section \<open>Bytes and integers\<close>

text \<open>The little-endian integer of a byte string, and the bytes of limbs shifted into place.\<close>

primrec le_int :: "u8 list \<Rightarrow> int" where
  "le_int [] = 0"
| "le_int (b # bs) = uint b + 256 * le_int bs"

lemma le_int_nonneg [simp]: "0 \<le> le_int bs"
  by (induction bs) simp_all

lemma le_int_less: "le_int bs < 256 ^ length bs"
proof (induction bs)
  case (Cons b bs)
  have "uint b < 256" using uint_lt2p [of b] by simp
  with Cons show ?case by simp
qed simp

lemma le_int_append: "le_int (as @ bs) = le_int as + 256 ^ length as * le_int bs"
  by (induction as) (simp_all add: algebra_simps)

lemma byte_digit_unique:
  "0 \<le> a \<Longrightarrow> a < 256 \<Longrightarrow> 0 \<le> b \<Longrightarrow> b < 256 \<Longrightarrow> a + 256 * x = b + 256 * y \<Longrightarrow> a = b \<and> x = y"
  for a b x y :: int
proof -
  assume "0 \<le> a" "a < 256" "0 \<le> b" "b < 256" and eq: "a + 256 * x = b + 256 * y"
  then have "x = (a + 256 * x) div 256" "y = (b + 256 * y) div 256" by simp_all
  with eq show ?thesis by simp
qed

lemma le_int_inj: "length as = length bs \<Longrightarrow> le_int as = le_int bs \<Longrightarrow> as = bs"
proof (induction as bs rule: list_induct2)
  case (Cons a as b bs)
  have "uint a < 256" "uint b < 256" using uint_lt2p [of a] uint_lt2p [of b] by simp_all
  moreover have "0 \<le> uint a" "0 \<le> uint b" by simp_all
  ultimately have "uint a = uint b \<and> le_int as = le_int bs"
    using Cons.prems by (intro byte_digit_unique) simp_all
  with Cons.IH show ?case by (simp add: word_uint_eq_iff)
qed simp

lemma le_int_eq_sum: "le_int bs = (\<Sum>i<length bs. 256 ^ i * uint (bs ! i))"
proof (induction bs)
  case (Cons b bs)
  show ?case
    by (simp del: sum.lessThan_Suc add: sum.lessThan_Suc_shift Cons sum_distrib_left algebra_simps)
qed simp

lemma uint_byte: "8 \<le> LENGTH('a) \<Longrightarrow> uint (ucast (w :: 'a::len word) :: u8) = sint w mod 256"
proof -
  assume l: "8 \<le> LENGTH('a)"
  have "uint (ucast w :: u8) = take_bit 8 (uint w)"
    by (simp add: unsigned_ucast_eq)
  also have "\<dots> = take_bit 8 (sint w)"
    using l by (simp add: uint_sint min_def)
  finally show ?thesis by (simp add: take_bit_eq_mod)
qed

lemma sint_shl_raw:
  "sint (shl b s :: 'a::len word) = signed_take_bit (LENGTH('a) - 1) (sint b * 2 ^ s)"
proof -
  have "shl b s = word_of_int (sint b * 2 ^ s)"
    by (simp add: push_bit_eq_mult)
  then show ?thesis by (simp only: sint_sbintrunc')
qed

lemma uint_pack1:
  "8 \<le> LENGTH('a) \<Longrightarrow> uint (ucast (asr (w :: 'a::len word) k) :: u8) = sint w div 2 ^ k mod 256"
  by (simp add: uint_byte sint_asr)

lemma mod_pow_add:
  fixes x y :: int
  assumes "0 \<le> x" and "x < 2 ^ s" and "s \<le> 8"
  shows "(x + 2 ^ s * y) mod 256 = x + 2 ^ s * (y mod 2 ^ (8 - s))"
proof -
  have "(256 :: int) = 2 ^ s * 2 ^ (8 - s)"
    using assms(3) by (simp flip: power_add)
  then have "(x + 2 ^ s * y) mod 256 = (x + 2 ^ s * y) mod (2 ^ s * 2 ^ (8 - s))"
    by simp
  also have "\<dots> = 2 ^ s * ((x + 2 ^ s * y) div 2 ^ s mod 2 ^ (8 - s)) + (x + 2 ^ s * y) mod 2 ^ s"
    by (rule zmod_zmult2_eq) simp
  finally show ?thesis
    using assms by simp
qed

lemma uint_pack2:
  fixes a b :: "'a::len word"
  assumes "0 \<le> sint a" and "sint a < 2 ^ (k + s)" and "s \<le> 8" and l: "8 \<le> LENGTH('a)"
  shows "uint (ucast (asr a k OR shl b s) :: u8) = sint a div 2 ^ k + 2 ^ s * (sint b mod 2 ^ (8 - s))"
proof -
  let ?x = "sint a div 2 ^ k"
  have "sint a < 2 ^ s * 2 ^ k"
    using assms(2) by (simp add: power_add mult.commute)
  moreover have "?x * 2 ^ k \<le> sint a"
    by (simp add: minus_mod_eq_div_mult [symmetric])
  ultimately have "?x * 2 ^ k < 2 ^ s * 2 ^ k" by (rule le_less_trans [rotated])
  then have x: "0 \<le> ?x" "?x < 2 ^ s"
    using assms(1) by (simp_all add: pos_imp_zdiv_nonneg_iff)
  have shl: "take_bit 8 (sint (shl b s)) = take_bit 8 (push_bit s (sint b))"
  proof -
    have "sint (shl b s) = signed_take_bit (LENGTH('a) - 1) (push_bit s (sint b))"
      unfolding push_bit_eq_mult [of s "sint b"] by (rule sint_shl_raw)
    then show ?thesis using l
      by (simp add: take_bit_signed_take_bit)
  qed
  have x_take: "take_bit s ?x = ?x"
    using x by (simp add: take_bit_int_eq_self)
  have "?x AND push_bit s (sint b) = 0"
    by (subst x_take [symmetric]) (auto simp: bit_eq_iff bit_simps)
  then have disj: "?x OR push_bit s (sint b) = ?x + 2 ^ s * sint b"
    by (simp flip: disjunctive_add_eq_or) (simp add: push_bit_eq_mult)
  have "uint (ucast (asr a k OR shl b s) :: u8) = take_bit 8 (sint (asr a k OR shl b s))"
    using l by (simp add: uint_byte take_bit_eq_mod)
  also have "\<dots> = take_bit 8 (?x OR push_bit s (sint b))"
    by (simp only: signed_or_eq take_bit_or shl sint_asr)
  also have "\<dots> = (?x + 2 ^ s * sint b) mod 256"
    by (simp add: disj take_bit_eq_mod)
  finally show ?thesis
    using mod_pow_add [OF x assms(3)] by simp
qed

lemma split_byte: "x div 2 ^ k mod 256 + 256 * (x div 2 ^ (k + 8)) = x div 2 ^ k" for x :: int
  by (simp add: power_add zdiv_zmult2_eq)

lemma limb_split:
  fixes x :: int
  assumes "b = a + 8" and "c = a + 16"
  shows "x mod 2 ^ a + 2 ^ a * (x div 2 ^ a mod 256) + 2 ^ b * (x div 2 ^ b mod 256) + 2 ^ c * (x div 2 ^ c) = x"
proof -
  have "x = x mod 2 ^ a + 2 ^ a * (x div 2 ^ a)" by simp
  also have "x div 2 ^ a = x div 2 ^ a mod 256 + 256 * (x div 2 ^ b mod 256 + 256 * (x div 2 ^ c))"
    using split_byte [of x a] split_byte [of x b] assms by (simp add: add.assoc)
  finally show ?thesis
    using assms by (simp add: power_add algebra_simps)
qed

lemma uint_byte_i32: "uint (ucast (asr (w :: i32) k) :: u8) = sint w div 2 ^ k mod 256"
  by (simp add: uint_pack1)

lemma uint_byte_i64: "uint (ucast (asr (w :: i64) k) :: u8) = sint w div 2 ^ k mod 256"
  by (simp add: uint_pack1)

end
