(* ===== verification/Fe25519Mul.thy ===== *)
theory Fe25519Mul
  imports Fe25519
begin

text \<open>
  \<^verbatim>\<open>fe_mul\<close>, \<^verbatim>\<open>fe_sq\<close>, \<^verbatim>\<open>fe_sq2\<close> and \<^verbatim>\<open>fe_mul121666\<close> compute products modulo \<open>2^255 - 19\<close>
  and their results are within the bounds their comments state; \<^verbatim>\<open>fe_add\<close>, \<^verbatim>\<open>fe_sub\<close> and \<^verbatim>\<open>fe_neg\<close>
  are exact; \<^verbatim>\<open>fe_cmov\<close> and \<^verbatim>\<open>fe_cswap\<close> select.  Every proof walks through the assignments with
  the rules of \<open>SignedLimbs\<close>, which carry the exact value and a bound of every variable.
\<close>

section \<open>Walking through elements\<close>

text \<open>\<open>fe_is A B v\<close>: an element within the bounds that represents \<open>v\<close> modulo \<open>2^255 - 19\<close>.\<close>

definition fe_is :: "int \<Rightarrow> int \<Rightarrow> int \<Rightarrow> fe \<Rightarrow> bool" where
  "fe_is A B v t \<longleftrightarrow> fe_within A B t \<and> fe_val t mod p25519 = v mod p25519"

lemma wp_Fe:
  assumes "sv r0 x0 B0" and "sv r1 x1 B1" and "sv r2 x2 B2" and "sv r3 x3 B3" and "sv r4 x4 B4"
    and "sv r5 x5 B5" and "sv r6 x6 B6" and "sv r7 x7 B7" and "sv r8 x8 B8" and "sv r9 x9 B9"
    and "B0 \<le> A" and "B1 \<le> B" and "B2 \<le> A" and "B3 \<le> B" and "B4 \<le> A"
    and "B5 \<le> B" and "B6 \<le> A" and "B7 \<le> B" and "B8 \<le> A" and "B9 \<le> B"
    and "radix_val x0 x1 x2 x3 x4 x5 x6 x7 x8 x9 mod p25519 = v mod p25519"
  shows "wp (fe_is A B v) (Fe r0 r1 r2 r3 r4 r5 r6 r7 r8 r9)"
  using assms by (simp add: wp_def sv_def fe_is_def)

text \<open>
  \<open>wide_is m v\<close>: 64-bit limbs within \<open>m\<close> times the bounds of the sums of \<^verbatim>\<open>fe_mul\<close> (1 for
  \<^verbatim>\<open>fe_mul\<close> and \<^verbatim>\<open>fe_sq\<close>, 2 for \<^verbatim>\<open>fe_sq2\<close>) that represent \<open>v\<close>.
\<close>

primrec wide_within :: "int \<Rightarrow> limbs \<Rightarrow> bool" where
  "wide_within m (Limbs h0 h1 h2 h3 h4 h5 h6 h7 h8 h9) =
    (\<bar>sint h0\<bar> \<le> m * 1526500696134443485 \<and>
     \<bar>sint h1\<bar> \<le> m * 944100830127147000 \<and>
     \<bar>sint h2\<bar> \<le> m * 1195452352106279851 \<and>
     \<bar>sint h3\<bar> \<le> m * 723401934772749000 \<and>
     \<bar>sint h4\<bar> \<le> m * 864404008078116217 \<and>
     \<bar>sint h5\<bar> \<le> m * 502703039418351000 \<and>
     \<bar>sint h6\<bar> \<le> m * 533355664049952583 \<and>
     \<bar>sint h7\<bar> \<le> m * 282004144063953000 \<and>
     \<bar>sint h8\<bar> \<le> m * 202307320021788949 \<and>
     \<bar>sint h9\<bar> \<le> m * 61305248709555000)"

definition wide_is :: "int \<Rightarrow> int \<Rightarrow> limbs \<Rightarrow> bool" where
  "wide_is m v t \<longleftrightarrow> wide_within m t \<and> limbs_val t mod p25519 = v mod p25519"

lemma wp_Limbs:
  assumes "sv r0 x0 B0" and "sv r1 x1 B1" and "sv r2 x2 B2" and "sv r3 x3 B3" and "sv r4 x4 B4"
    and "sv r5 x5 B5" and "sv r6 x6 B6" and "sv r7 x7 B7" and "sv r8 x8 B8" and "sv r9 x9 B9"
    and "B0 \<le> m * 1526500696134443485" and "B1 \<le> m * 944100830127147000" and "B2 \<le> m * 1195452352106279851" and "B3 \<le> m * 723401934772749000" and "B4 \<le> m * 864404008078116217"
    and "B5 \<le> m * 502703039418351000" and "B6 \<le> m * 533355664049952583" and "B7 \<le> m * 282004144063953000" and "B8 \<le> m * 202307320021788949" and "B9 \<le> m * 61305248709555000"
    and "radix_val x0 x1 x2 x3 x4 x5 x6 x7 x8 x9 mod p25519 = v mod p25519"
  shows "wp (wide_is m v) (Limbs r0 r1 r2 r3 r4 r5 r6 r7 r8 r9)"
  using assms by (simp add: wp_def sv_def wide_is_def)

lemma wide_within_mono: "wide_within m t \<Longrightarrow> m \<le> n \<Longrightarrow> wide_within n t"
  by (cases t) simp

lemma mod_p_eqI: "\<exists>k. a = b + p25519 * k \<Longrightarrow> a mod p25519 = b mod p25519"
  by auto

lemma fe_within_sv:
  assumes "fe_within A B (Fe f0 f1 f2 f3 f4 f5 f6 f7 f8 f9)"
  shows "sv f0 (sint f0) A" and "sv f1 (sint f1) B" and "sv f2 (sint f2) A" and "sv f3 (sint f3) B" and "sv f4 (sint f4) A"
    and "sv f5 (sint f5) B" and "sv f6 (sint f6) A" and "sv f7 (sint f7) B" and "sv f8 (sint f8) A" and "sv f9 (sint f9) B"
  using assms by (simp_all add: sv_def)

lemma sv_mult_const:
  "sv (a :: i64) x A \<Longrightarrow> sv (numeral n :: i64) c C \<Longrightarrow> A * C < 2 ^ (LENGTH(64) - 1) \<Longrightarrow> A * C \<le> B \<Longrightarrow>
    sv (a * numeral n) (x * c) B"
  by (rule sv_weaken [OF sv_mult]) auto

lemma sv_of_bound: "\<bar>sint w\<bar> \<le> B \<Longrightarrow> sv w (sint w) B"
  by (simp add: sv_def)

section \<open>Products\<close>

text \<open>The schoolbook sums, with the limbs above \<open>2^255\<close> folded back times 19.\<close>

lemma radix_mult:
  "radix_val
      (F0 * G0 + 2 * F1 * (19 * G9) + F2 * (19 * G8) + 2 * F3 * (19 * G7) + F4 * (19 * G6) + 2 * F5 * (19 * G5) + F6 * (19 * G4) + 2 * F7 * (19 * G3) + F8 * (19 * G2) + 2 * F9 * (19 * G1))
      (F0 * G1 + F1 * G0 + F2 * (19 * G9) + F3 * (19 * G8) + F4 * (19 * G7) + F5 * (19 * G6) + F6 * (19 * G5) + F7 * (19 * G4) + F8 * (19 * G3) + F9 * (19 * G2))
      (F0 * G2 + 2 * F1 * G1 + F2 * G0 + 2 * F3 * (19 * G9) + F4 * (19 * G8) + 2 * F5 * (19 * G7) + F6 * (19 * G6) + 2 * F7 * (19 * G5) + F8 * (19 * G4) + 2 * F9 * (19 * G3))
      (F0 * G3 + F1 * G2 + F2 * G1 + F3 * G0 + F4 * (19 * G9) + F5 * (19 * G8) + F6 * (19 * G7) + F7 * (19 * G6) + F8 * (19 * G5) + F9 * (19 * G4))
      (F0 * G4 + 2 * F1 * G3 + F2 * G2 + 2 * F3 * G1 + F4 * G0 + 2 * F5 * (19 * G9) + F6 * (19 * G8) + 2 * F7 * (19 * G7) + F8 * (19 * G6) + 2 * F9 * (19 * G5))
      (F0 * G5 + F1 * G4 + F2 * G3 + F3 * G2 + F4 * G1 + F5 * G0 + F6 * (19 * G9) + F7 * (19 * G8) + F8 * (19 * G7) + F9 * (19 * G6))
      (F0 * G6 + 2 * F1 * G5 + F2 * G4 + 2 * F3 * G3 + F4 * G2 + 2 * F5 * G1 + F6 * G0 + 2 * F7 * (19 * G9) + F8 * (19 * G8) + 2 * F9 * (19 * G7))
      (F0 * G7 + F1 * G6 + F2 * G5 + F3 * G4 + F4 * G3 + F5 * G2 + F6 * G1 + F7 * G0 + F8 * (19 * G9) + F9 * (19 * G8))
      (F0 * G8 + 2 * F1 * G7 + F2 * G6 + 2 * F3 * G5 + F4 * G4 + 2 * F5 * G3 + F6 * G2 + 2 * F7 * G1 + F8 * G0 + 2 * F9 * (19 * G9))
      (F0 * G9 + F1 * G8 + F2 * G7 + F3 * G6 + F4 * G5 + F5 * G4 + F6 * G3 + F7 * G2 + F8 * G1 + F9 * G0) mod p25519 =
    radix_val F0 F1 F2 F3 F4 F5 F6 F7 F8 F9 * radix_val G0 G1 G2 G3 G4 G5 G6 G7 G8 G9 mod p25519" (is "radix_val ?h0 ?h1 ?h2 ?h3 ?h4 ?h5 ?h6 ?h7 ?h8 ?h9 mod _ = _")
proof -
  let ?k = "2 ^ 1 * (F1 * G9)
      + 2 ^ 0 * (F2 * G8) + 2 ^ 26 * (F2 * G9)
      + 2 ^ 1 * (F3 * G7) + 2 ^ 26 * (F3 * G8) + 2 ^ 52 * (F3 * G9)
      + 2 ^ 0 * (F4 * G6) + 2 ^ 26 * (F4 * G7) + 2 ^ 51 * (F4 * G8) + 2 ^ 77 * (F4 * G9)
      + 2 ^ 1 * (F5 * G5) + 2 ^ 26 * (F5 * G6) + 2 ^ 52 * (F5 * G7) + 2 ^ 77 * (F5 * G8) + 2 ^ 103 * (F5 * G9)
      + 2 ^ 0 * (F6 * G4) + 2 ^ 26 * (F6 * G5) + 2 ^ 51 * (F6 * G6) + 2 ^ 77 * (F6 * G7) + 2 ^ 102 * (F6 * G8) + 2 ^ 128 * (F6 * G9)
      + 2 ^ 1 * (F7 * G3) + 2 ^ 26 * (F7 * G4) + 2 ^ 52 * (F7 * G5) + 2 ^ 77 * (F7 * G6) + 2 ^ 103 * (F7 * G7) + 2 ^ 128 * (F7 * G8) + 2 ^ 154 * (F7 * G9)
      + 2 ^ 0 * (F8 * G2) + 2 ^ 26 * (F8 * G3) + 2 ^ 51 * (F8 * G4) + 2 ^ 77 * (F8 * G5) + 2 ^ 102 * (F8 * G6) + 2 ^ 128 * (F8 * G7) + 2 ^ 153 * (F8 * G8) + 2 ^ 179 * (F8 * G9)
      + 2 ^ 1 * (F9 * G1) + 2 ^ 26 * (F9 * G2) + 2 ^ 52 * (F9 * G3) + 2 ^ 77 * (F9 * G4) + 2 ^ 103 * (F9 * G5) + 2 ^ 128 * (F9 * G6) + 2 ^ 154 * (F9 * G7) + 2 ^ 179 * (F9 * G8) + 2 ^ 205 * (F9 * G9)"
  have "radix_val F0 F1 F2 F3 F4 F5 F6 F7 F8 F9 * radix_val G0 G1 G2 G3 G4 G5 G6 G7 G8 G9 = radix_val ?h0 ?h1 ?h2 ?h3 ?h4 ?h5 ?h6 ?h7 ?h8 ?h9 + p25519 * ?k"
    unfolding radix_val_def p25519_def by algebra
  then show ?thesis by simp
qed

lemma fe_mul_wide_wp:
  assumes f0: "sv f0 F0 110729625" and f1: "sv f1 F1 55364812" and f2: "sv f2 F2 110729625"
    and f3: "sv f3 F3 55364812" and f4: "sv f4 F4 110729625" and f5: "sv f5 F5 55364812"
    and f6: "sv f6 F6 110729625" and f7: "sv f7 F7 55364812" and f8: "sv f8 F8 110729625"
    and f9: "sv f9 F9 55364812" and g0: "sv g0 G0 110729625" and g1: "sv g1 G1 55364812"
    and g2: "sv g2 G2 110729625" and g3: "sv g3 G3 55364812" and g4: "sv g4 G4 110729625"
    and g5: "sv g5 G5 55364812" and g6: "sv g6 G6 110729625" and g7: "sv g7 G7 55364812"
    and g8: "sv g8 G8 110729625" and g9: "sv g9 G9 55364812"
  shows "wp (wide_is 1 (radix_val F0 F1 F2 F3 F4 F5 F6 F7 F8 F9 * radix_val G0 G1 G2 G3 G4 G5 G6 G7 G8 G9))
    (fe_mul_wide (Fe f0 f1 f2 f3 f4 f5 f6 f7 f8 f9)
      (Fe g0 g1 g2 g3 g4 g5 g6 g7 g8 g9))"
  using assms unfolding fe_mul_wide_def fe.case
  apply -
  apply (assumption | rule wp_Limbs wp_let sv_scast sv_add sv_mult sv_numeral radix_mult
     | (simp (no_asm); fail) | (unfold mult_1_left, simp (no_asm); fail))+
  done

lemma radix_square:
  "radix_val
      (F0 * F0 + 2 * F1 * (38 * F9) + 2 * F2 * (19 * F8) + 2 * F3 * (38 * F7) + 2 * F4 * (19 * F6) + F5 * (38 * F5))
      (2 * F0 * F1 + F2 * (38 * F9) + 2 * F3 * (19 * F8) + F4 * (38 * F7) + 2 * F5 * (19 * F6))
      (2 * F0 * F2 + 2 * F1 * F1 + 2 * F3 * (38 * F9) + 2 * F4 * (19 * F8) + 2 * F5 * (38 * F7) + F6 * (19 * F6))
      (2 * F0 * F3 + 2 * F1 * F2 + F4 * (38 * F9) + 2 * F5 * (19 * F8) + F6 * (38 * F7))
      (2 * F0 * F4 + 2 * F1 * (2 * F3) + F2 * F2 + 2 * F5 * (38 * F9) + 2 * F6 * (19 * F8) + F7 * (38 * F7))
      (2 * F0 * F5 + 2 * F1 * F4 + 2 * F2 * F3 + F6 * (38 * F9) + 2 * F7 * (19 * F8))
      (2 * F0 * F6 + 2 * F1 * (2 * F5) + 2 * F2 * F4 + 2 * F3 * F3 + 2 * F7 * (38 * F9) + F8 * (19 * F8))
      (2 * F0 * F7 + 2 * F1 * F6 + 2 * F2 * F5 + 2 * F3 * F4 + F8 * (38 * F9))
      (2 * F0 * F8 + 2 * F1 * (2 * F7) + 2 * F2 * F6 + 2 * F3 * (2 * F5) + F4 * F4 + F9 * (38 * F9))
      (2 * F0 * F9 + 2 * F1 * F8 + 2 * F2 * F7 + 2 * F3 * F6 + 2 * F4 * F5) mod p25519 =
    radix_val F0 F1 F2 F3 F4 F5 F6 F7 F8 F9 * radix_val F0 F1 F2 F3 F4 F5 F6 F7 F8 F9 mod p25519" (is "radix_val ?h0 ?h1 ?h2 ?h3 ?h4 ?h5 ?h6 ?h7 ?h8 ?h9 mod _ = _")
proof -
  let ?k = "2 ^ 1 * (F1 * F9)
      + 2 ^ 0 * (F2 * F8) + 2 ^ 26 * (F2 * F9)
      + 2 ^ 1 * (F3 * F7) + 2 ^ 26 * (F3 * F8) + 2 ^ 52 * (F3 * F9)
      + 2 ^ 0 * (F4 * F6) + 2 ^ 26 * (F4 * F7) + 2 ^ 51 * (F4 * F8) + 2 ^ 77 * (F4 * F9)
      + 2 ^ 1 * (F5 * F5) + 2 ^ 26 * (F5 * F6) + 2 ^ 52 * (F5 * F7) + 2 ^ 77 * (F5 * F8) + 2 ^ 103 * (F5 * F9)
      + 2 ^ 0 * (F6 * F4) + 2 ^ 26 * (F6 * F5) + 2 ^ 51 * (F6 * F6) + 2 ^ 77 * (F6 * F7) + 2 ^ 102 * (F6 * F8) + 2 ^ 128 * (F6 * F9)
      + 2 ^ 1 * (F7 * F3) + 2 ^ 26 * (F7 * F4) + 2 ^ 52 * (F7 * F5) + 2 ^ 77 * (F7 * F6) + 2 ^ 103 * (F7 * F7) + 2 ^ 128 * (F7 * F8) + 2 ^ 154 * (F7 * F9)
      + 2 ^ 0 * (F8 * F2) + 2 ^ 26 * (F8 * F3) + 2 ^ 51 * (F8 * F4) + 2 ^ 77 * (F8 * F5) + 2 ^ 102 * (F8 * F6) + 2 ^ 128 * (F8 * F7) + 2 ^ 153 * (F8 * F8) + 2 ^ 179 * (F8 * F9)
      + 2 ^ 1 * (F9 * F1) + 2 ^ 26 * (F9 * F2) + 2 ^ 52 * (F9 * F3) + 2 ^ 77 * (F9 * F4) + 2 ^ 103 * (F9 * F5) + 2 ^ 128 * (F9 * F6) + 2 ^ 154 * (F9 * F7) + 2 ^ 179 * (F9 * F8) + 2 ^ 205 * (F9 * F9)"
  have "radix_val F0 F1 F2 F3 F4 F5 F6 F7 F8 F9 * radix_val F0 F1 F2 F3 F4 F5 F6 F7 F8 F9 = radix_val ?h0 ?h1 ?h2 ?h3 ?h4 ?h5 ?h6 ?h7 ?h8 ?h9 + p25519 * ?k"
    unfolding radix_val_def p25519_def by algebra
  then show ?thesis by simp
qed

lemma fe_sq_wide_wp:
  assumes f0: "sv f0 F0 110729625" and f1: "sv f1 F1 55364812" and f2: "sv f2 F2 110729625"
    and f3: "sv f3 F3 55364812" and f4: "sv f4 F4 110729625" and f5: "sv f5 F5 55364812"
    and f6: "sv f6 F6 110729625" and f7: "sv f7 F7 55364812" and f8: "sv f8 F8 110729625"
    and f9: "sv f9 F9 55364812"
  shows "wp (wide_is 1 (radix_val F0 F1 F2 F3 F4 F5 F6 F7 F8 F9 * radix_val F0 F1 F2 F3 F4 F5 F6 F7 F8 F9))
    (fe_sq_wide (Fe f0 f1 f2 f3 f4 f5 f6 f7 f8 f9))"
  using assms unfolding fe_sq_wide_def fe.case
  apply -
  apply (assumption | rule wp_Limbs wp_let sv_scast sv_add sv_mult sv_numeral radix_square
     | (simp (no_asm); fail) | (unfold mult_1_left, simp (no_asm); fail))+
  done

section \<open>Carries\<close>

lemma carry_chain_val:
  "radix_val (x0 - c0 * 2 ^ 26 + c9 * 19 - d0 * 2 ^ 26)
      (x1 + c0 - c1 * 2 ^ 25 + d0)
      (x2 + c1 - c2 * 2 ^ 26)
      (x3 + c2 - c3 * 2 ^ 25)
      (x4 - c4 * 2 ^ 26 + c3 - d4 * 2 ^ 26)
      (x5 + c4 - c5 * 2 ^ 25 + d4)
      (x6 + c5 - c6 * 2 ^ 26)
      (x7 + c6 - c7 * 2 ^ 25)
      (x8 + c7 - c8 * 2 ^ 26)
      (x9 + c8 - c9 * 2 ^ 25) mod p25519 =
    radix_val x0 x1 x2 x3 x4 x5 x6 x7 x8 x9 mod p25519"
proof (rule mod_p_eqI)
  show "\<exists>k. radix_val (x0 - c0 * 2 ^ 26 + c9 * 19 - d0 * 2 ^ 26)
      (x1 + c0 - c1 * 2 ^ 25 + d0)
      (x2 + c1 - c2 * 2 ^ 26)
      (x3 + c2 - c3 * 2 ^ 25)
      (x4 - c4 * 2 ^ 26 + c3 - d4 * 2 ^ 26)
      (x5 + c4 - c5 * 2 ^ 25 + d4)
      (x6 + c5 - c6 * 2 ^ 26)
      (x7 + c6 - c7 * 2 ^ 25)
      (x8 + c7 - c8 * 2 ^ 26)
      (x9 + c8 - c9 * 2 ^ 25) =
      radix_val x0 x1 x2 x3 x4 x5 x6 x7 x8 x9 + p25519 * k"
    unfolding radix_val_def p25519_def by algebra
qed

lemma fe_carry_wp:
  assumes "sv h0 x0 3053001392268886970" and "sv h1 x1 1888201660254294000" and "sv h2 x2 2390904704212559702"
    and "sv h3 x3 1446803869545498000" and "sv h4 x4 1728808016156232434" and "sv h5 x5 1005406078836702000"
    and "sv h6 x6 1066711328099905166" and "sv h7 x7 564008288127906000" and "sv h8 x8 404614640043577898"
    and "sv h9 x9 122610497419110000"
  shows "wp (fe_is 33889976 16944988 (radix_val x0 x1 x2 x3 x4 x5 x6 x7 x8 x9)) (fe_carry (Limbs h0 h1 h2 h3 h4 h5 h6 h7 h8 h9))"
  using assms unfolding fe_carry_def limbs.case
  apply -
  apply ((rule wp_carry_round, assumption, assumption) | (rule wp_carry_round_mult, assumption, assumption) |
     assumption | rule wp_Fe sv_numeral sv_ucast_down carry_chain_val | (simp (no_asm); fail))+
  done

lemma carry_parallel_val:
  "radix_val (x0 + c9 * 19 - c0 * 2 ^ 26)
      (x1 - c1 * 2 ^ 25 + c0)
      (x2 + c1 - c2 * 2 ^ 26)
      (x3 - c3 * 2 ^ 25 + c2)
      (x4 + c3 - c4 * 2 ^ 26)
      (x5 - c5 * 2 ^ 25 + c4)
      (x6 + c5 - c6 * 2 ^ 26)
      (x7 - c7 * 2 ^ 25 + c6)
      (x8 + c7 - c8 * 2 ^ 26)
      (x9 - c9 * 2 ^ 25 + c8) mod p25519 =
    radix_val x0 x1 x2 x3 x4 x5 x6 x7 x8 x9 mod p25519"
proof (rule mod_p_eqI)
  show "\<exists>k. radix_val (x0 + c9 * 19 - c0 * 2 ^ 26)
      (x1 - c1 * 2 ^ 25 + c0)
      (x2 + c1 - c2 * 2 ^ 26)
      (x3 - c3 * 2 ^ 25 + c2)
      (x4 + c3 - c4 * 2 ^ 26)
      (x5 - c5 * 2 ^ 25 + c4)
      (x6 + c5 - c6 * 2 ^ 26)
      (x7 - c7 * 2 ^ 25 + c6)
      (x8 + c7 - c8 * 2 ^ 26)
      (x9 - c9 * 2 ^ 25 + c8) =
      radix_val x0 x1 x2 x3 x4 x5 x6 x7 x8 x9 + p25519 * k"
    unfolding radix_val_def p25519_def by algebra
qed

lemma fe_carry_parallel_wp:
  assumes "sv h0 x0 8981353703500" and "sv h1 x1 4490676851750" and "sv h2 x2 8981353703500"
    and "sv h3 x3 4490676851750" and "sv h4 x4 8981353703500" and "sv h5 x5 4490676851750"
    and "sv h6 x6 8981353703500" and "sv h7 x7 4490676851750" and "sv h8 x8 8981353703500"
    and "sv h9 x9 4490676851750"
  shows "wp (fe_is 33889976 16944988 (radix_val x0 x1 x2 x3 x4 x5 x6 x7 x8 x9)) (fe_carry_parallel (Limbs h0 h1 h2 h3 h4 h5 h6 h7 h8 h9))"
  using assms unfolding fe_carry_parallel_def limbs.case
  apply -
  apply ((rule wp_carry_round, assumption, assumption) | (rule wp_carry_round_mult, assumption, assumption) |
     assumption | rule wp_Fe sv_numeral sv_ucast_down carry_parallel_val | (simp (no_asm); fail))+
  done

lemma fe_carry_is:
  assumes "wide_is m v t" and "m \<le> 2"
  shows "fe_is 33889976 16944988 v (fe_carry t)"
proof (cases t)
  case (Limbs h0 h1 h2 h3 h4 h5 h6 h7 h8 h9)
  have "wide_within 2 t" and v: "limbs_val t mod p25519 = v mod p25519"
    using assms wide_within_mono by (auto simp: wide_is_def)
  then have "wp (fe_is 33889976 16944988 (limbs_val t)) (fe_carry t)"
    unfolding Limbs limbs_val.simps
    by (intro fe_carry_wp) (simp_all add: sv_def)
  then show ?thesis
    using v by (auto dest!: wpD simp: fe_is_def)
qed

lemma limbs_double_is:
  assumes "wide_is 1 v t"
  shows "wide_is 2 (2 * v) (limbs_double t)"
proof (cases t)
  case (Limbs h0 h1 h2 h3 h4 h5 h6 h7 h8 h9)
  have w: "wide_within 1 t" and v: "limbs_val t mod p25519 = v mod p25519"
    using assms by (simp_all add: wide_is_def)
  have "wp (wide_is 2 (2 * limbs_val t)) (limbs_double t)"
    using w [unfolded Limbs wide_within.simps mult_1_left] unfolding Limbs limbs_double_def limbs.case limbs_val.simps
    apply (elim conjE)
    apply (drule sv_of_bound)+
    apply (assumption | rule wp_Limbs wp_let sv_add | (simp (no_asm); fail))+
    apply (simp (no_asm) add: radix_val_def algebra_simps)
    done
  moreover have "(2 * limbs_val t) mod p25519 = (2 * v) mod p25519"
    using v by (metis mod_mult_right_eq)
  ultimately show ?thesis
    by (auto dest!: wpD simp: wide_is_def)
qed

lemma fe_mul_is:
  assumes "fe_mulable f" and "fe_mulable g"
  shows "fe_is 33889976 16944988 (fe_val f * fe_val g) (fe_mul f g)"
proof (cases f; cases g)
  fix f0 f1 f2 f3 f4 f5 f6 f7 f8 f9 g0 g1 g2 g3 g4 g5 g6 g7 g8 g9
  assume f: "f = Fe f0 f1 f2 f3 f4 f5 f6 f7 f8 f9" and g: "g = Fe g0 g1 g2 g3 g4 g5 g6 g7 g8 g9"
  note bounds = fe_within_sv [OF assms(1) [unfolded f fe_mulable_def]]
    fe_within_sv [OF assms(2) [unfolded g fe_mulable_def]]
  have "wide_is 1 (fe_val f * fe_val g) (fe_mul_wide f g)"
    unfolding f g fe_val.simps by (rule wpD [OF fe_mul_wide_wp [OF bounds]])
  then show ?thesis
    unfolding fe_mul_def by (rule fe_carry_is) simp
qed

lemma fe_sq_wide_is:
  assumes "fe_mulable f"
  shows "wide_is 1 (fe_val f * fe_val f) (fe_sq_wide f)"
proof (cases f)
  fix f0 f1 f2 f3 f4 f5 f6 f7 f8 f9
  assume f: "f = Fe f0 f1 f2 f3 f4 f5 f6 f7 f8 f9"
  show ?thesis
    unfolding f fe_val.simps
    by (rule wpD [OF fe_sq_wide_wp [OF fe_within_sv [OF assms [unfolded f fe_mulable_def]]]])
qed

lemma fe_sq_is: "fe_mulable f \<Longrightarrow> fe_is 33889976 16944988 (fe_val f * fe_val f) (fe_sq f)"
  unfolding fe_sq_def by (rule fe_carry_is [OF fe_sq_wide_is]) simp_all

lemma fe_sq2_is: "fe_mulable f \<Longrightarrow> fe_is 33889976 16944988 (2 * (fe_val f * fe_val f)) (fe_sq2 f)"
  unfolding fe_sq2_def by (rule fe_carry_is [OF limbs_double_is [OF fe_sq_wide_is]]) simp_all

lemma fe_mul121666_is:
  assumes "fe_loose f"
  shows "fe_is 33889976 16944988 (121666 * fe_val f) (fe_mul121666 f)"
proof (cases f)
  fix f0 f1 f2 f3 f4 f5 f6 f7 f8 f9
  assume f: "f = Fe f0 f1 f2 f3 f4 f5 f6 f7 f8 f9"
  have scale: "radix_val (x0 * 121666) (x1 * 121666) (x2 * 121666) (x3 * 121666) (x4 * 121666) (x5 * 121666) (x6 * 121666) (x7 * 121666) (x8 * 121666) (x9 * 121666) =
      121666 * radix_val x0 x1 x2 x3 x4 x5 x6 x7 x8 x9" for x0 x1 x2 x3 x4 x5 x6 x7 x8 x9
    unfolding radix_val_def by algebra
  have "wp (fe_is 33889976 16944988 (121666 * fe_val f)) (fe_carry_parallel (fe_mul121666_wide f))"
    unfolding f fe_mul121666_wide_def fe.case Let_def fe_val.simps
    apply (subst scale [symmetric])
    apply (rule fe_carry_parallel_wp)
    using fe_within_sv [OF assms [unfolded f fe_loose_def]]
    apply -
    apply (assumption | rule sv_mult_const sv_scast sv_numeral | (simp (no_asm); fail))+
    done
  then show ?thesis unfolding fe_mul121666_def by (rule wpD)
qed

section \<open>Sums, copies and selection\<close>

lemma fe_add_exact:
  assumes "fe_within A B f" and "fe_within C D g" and "A + C < 2 ^ 31" and "B + D < 2 ^ 31"
  shows "fe_within (A + C) (B + D) (fe_add f g) \<and> fe_val (fe_add f g) = fe_val f + fe_val g"
proof (cases f; cases g)
  fix f0 f1 f2 f3 f4 f5 f6 f7 f8 f9 g0 g1 g2 g3 g4 g5 g6 g7 g8 g9
  assume f: "f = Fe f0 f1 f2 f3 f4 f5 f6 f7 f8 f9" and g: "g = Fe g0 g1 g2 g3 g4 g5 g6 g7 g8 g9"
  note F = fe_within_sv [OF assms(1) [unfolded f]] and G = fe_within_sv [OF assms(2) [unfolded g]]
  note s = sv_add [OF F(1) G(1)] sv_add [OF F(2) G(2)] sv_add [OF F(3) G(3)] sv_add [OF F(4) G(4)] sv_add [OF F(5) G(5)] sv_add [OF F(6) G(6)] sv_add [OF F(7) G(7)] sv_add [OF F(8) G(8)] sv_add [OF F(9) G(9)] sv_add [OF F(10) G(10)]
  show ?thesis
    using assms(3,4) s by (simp add: f g fe_add_def sv_def radix_val_def)
qed

lemma fe_sub_exact:
  assumes "fe_within A B f" and "fe_within C D g" and "A + C < 2 ^ 31" and "B + D < 2 ^ 31"
  shows "fe_within (A + C) (B + D) (fe_sub f g) \<and> fe_val (fe_sub f g) = fe_val f - fe_val g"
proof (cases f; cases g)
  fix f0 f1 f2 f3 f4 f5 f6 f7 f8 f9 g0 g1 g2 g3 g4 g5 g6 g7 g8 g9
  assume f: "f = Fe f0 f1 f2 f3 f4 f5 f6 f7 f8 f9" and g: "g = Fe g0 g1 g2 g3 g4 g5 g6 g7 g8 g9"
  note F = fe_within_sv [OF assms(1) [unfolded f]] and G = fe_within_sv [OF assms(2) [unfolded g]]
  note s = sv_diff [OF F(1) G(1)] sv_diff [OF F(2) G(2)] sv_diff [OF F(3) G(3)] sv_diff [OF F(4) G(4)] sv_diff [OF F(5) G(5)] sv_diff [OF F(6) G(6)] sv_diff [OF F(7) G(7)] sv_diff [OF F(8) G(8)] sv_diff [OF F(9) G(9)] sv_diff [OF F(10) G(10)]
  show ?thesis
    using assms(3,4) s by (simp add: f g fe_sub_def sv_def radix_val_def)
qed

lemma fe_neg_exact:
  assumes "fe_within A B f" and "A < 2 ^ 31" and "B < 2 ^ 31"
  shows "fe_within A B (fe_neg f) \<and> fe_val (fe_neg f) = - fe_val f"
proof (cases f)
  fix f0 f1 f2 f3 f4 f5 f6 f7 f8 f9
  assume f: "f = Fe f0 f1 f2 f3 f4 f5 f6 f7 f8 f9"
  note s = fe_within_sv [OF assms(1) [unfolded f], THEN sv_minus]
  show ?thesis
    using assms(2,3) s by (simp add: f fe_neg_def sv_def radix_val_def)
qed

lemma fe_copy_id [simp]: "fe_copy f = f"
  by (cases f) (simp add: fe_copy_def)

lemma fe_0_val [simp]: "fe_val fe_0 = 0" and fe_0_tight: "fe_tight fe_0"
  by (simp_all add: fe_0_def radix_val_def fe_bounds)

lemma fe_1_val [simp]: "fe_val fe_1 = 1" and fe_1_tight: "fe_tight fe_1"
  by (simp_all add: fe_1_def radix_val_def fe_bounds)

lemma cmov_word [simp]: "f XOR ((f XOR g) AND - 0) = f" "f XOR ((f XOR g) AND - 1) = g" for f g :: i32
  by (simp_all add: xor.assoc [symmetric])

lemma cswap_word [simp]: "g XOR f XOR g = f" for f g :: i32
  by (rule bit_word_eqI) (auto simp: bit_simps)

lemma fe_cmov_0 [simp]: "fe_cmov f g 0 = f"
  by (cases f; cases g) (simp add: fe_cmov_def Let_def)

lemma fe_cmov_1 [simp]: "fe_cmov f g 1 = g"
  by (cases f; cases g) (simp add: fe_cmov_def Let_def xor.assoc [symmetric])

lemma fe_cswap_0: "fe_cswap f g 0 = (f, g)"
  by (cases f; cases g) (simp add: fe_cswap_def Let_def)

lemma fe_cswap_1: "fe_cswap f g 1 = (g, f)"
  by (cases f; cases g) (simp add: fe_cswap_def Let_def)

lemma fe_mul_tight [intro]: "fe_mulable f \<Longrightarrow> fe_mulable g \<Longrightarrow> fe_tight (fe_mul f g)"
  using fe_mul_is [of f g] by (simp add: fe_is_def fe_tight_def)

lemma fe_mul_mod: "fe_mulable f \<Longrightarrow> fe_mulable g \<Longrightarrow>
    fe_val (fe_mul f g) mod p25519 = fe_val f * fe_val g mod p25519"
  using fe_mul_is [of f g] by (simp add: fe_is_def)

lemma fe_sq_tight [intro]: "fe_mulable f \<Longrightarrow> fe_tight (fe_sq f)"
  using fe_sq_is [of f] by (simp add: fe_is_def fe_tight_def)

lemma fe_sq_mod: "fe_mulable f \<Longrightarrow> fe_val (fe_sq f) mod p25519 = fe_val f * fe_val f mod p25519"
  using fe_sq_is [of f] by (simp add: fe_is_def)

lemma fe_sq2_tight [intro]: "fe_mulable f \<Longrightarrow> fe_tight (fe_sq2 f)"
  using fe_sq2_is [of f] by (simp add: fe_is_def fe_tight_def)

lemma fe_sq2_mod: "fe_mulable f \<Longrightarrow> fe_val (fe_sq2 f) mod p25519 = 2 * (fe_val f * fe_val f) mod p25519"
  using fe_sq2_is [of f] by (simp add: fe_is_def)

lemma fe_add_val: "fe_reduced f \<Longrightarrow> fe_reduced g \<Longrightarrow> fe_val (fe_add f g) = fe_val f + fe_val g"
  and fe_add_loose [intro]: "fe_reduced f \<Longrightarrow> fe_reduced g \<Longrightarrow> fe_loose (fe_add f g)"
  using fe_add_exact [of 36909875 18454937 f 36909875 18454937 g]
  by (auto simp: fe_bounds elim: fe_within_mono)

lemma fe_sub_val: "fe_reduced f \<Longrightarrow> fe_reduced g \<Longrightarrow> fe_val (fe_sub f g) = fe_val f - fe_val g"
  and fe_sub_loose [intro]: "fe_reduced f \<Longrightarrow> fe_reduced g \<Longrightarrow> fe_loose (fe_sub f g)"
  using fe_sub_exact [of 36909875 18454937 f 36909875 18454937 g]
  by (auto simp: fe_bounds elim: fe_within_mono)

lemma fe_neg_val: "fe_reduced f \<Longrightarrow> fe_val (fe_neg f) = - fe_val f"
  and fe_neg_reduced [intro]: "fe_reduced f \<Longrightarrow> fe_reduced (fe_neg f)"
  using fe_neg_exact [of 36909875 18454937 f] by (simp_all add: fe_bounds)

section \<open>Properties\<close>

text \<open>Two elements at the edge of the argument bounds, for the applications below.\<close>

definition fe_sample_f :: fe where
  "fe_sample_f = Fe 110729625 (- 55364812) 110729625 55364812 (- 110729625) 55364812 7 (- 55364812) 110729625 55364812"

definition fe_sample_g :: fe where
  "fe_sample_g = Fe (- 110729625) 55364812 110729625 (- 55364812) 110729625 55364812 110729625 (- 3) 0 55364812"

definition fe_sample_r :: fe where
  "fe_sample_r = Fe 36909875 (- 18454937) 36909875 18454937 (- 36909875) 1 0 (- 18454937) 36909875 18454937"

lemma fe_samples: "fe_mulable fe_sample_f" "fe_mulable fe_sample_g" "fe_reduced fe_sample_r"
    "fe_loose fe_sample_r"
  by (simp_all add: fe_sample_f_def fe_sample_g_def fe_sample_r_def fe_bounds)

text \<open>
  (C29) For arguments within the documented bounds, \<^verbatim>\<open>fe_mul\<close> returns the product modulo
  \<open>2^255 - 19\<close>, and the limbs of the result are within the documented bounds.
\<close>

theorem fe_mul_correct:
  assumes "fe_mulable f" and "fe_mulable g"
  shows "fe_tight (fe_mul f g) \<and> fe_val (fe_mul f g) mod p25519 = fe_val f * fe_val g mod p25519"
  using assms by (simp add: fe_mul_tight fe_mul_mod)

theorem fe_mul_correct_witness:
  "fe_tight (fe_mul fe_sample_f fe_sample_g) \<and>
   fe_val (fe_mul fe_sample_f fe_sample_g) mod p25519 = fe_val fe_sample_f * fe_val fe_sample_g mod p25519"
  by (rule fe_mul_correct [OF fe_samples(1,2)])

text \<open>
  \<^verbatim>\<open>fe_sq\<close> and \<^verbatim>\<open>fe_sq2\<close>, which share the symmetric products, compute \<open>f * f\<close> and \<open>2 * f * f\<close>
  modulo \<open>2^255 - 19\<close> within the documented bounds.
\<close>

lemma fe_square_correct:
  assumes "fe_mulable f"
  shows "fe_tight (fe_sq f) \<and> fe_val (fe_sq f) mod p25519 = fe_val f * fe_val f mod p25519 \<and>
    fe_tight (fe_sq2 f) \<and> fe_val (fe_sq2 f) mod p25519 = 2 * (fe_val f * fe_val f) mod p25519"
  using assms by (simp add: fe_sq_tight fe_sq_mod fe_sq2_tight fe_sq2_mod)

text \<open>
  \<^verbatim>\<open>fe_add\<close>, \<^verbatim>\<open>fe_sub\<close> and \<^verbatim>\<open>fe_neg\<close> are exact over the integers, and their limbs grow no
  further than documented.
\<close>

lemma fe_add_sub_neg_exact:
  assumes "fe_reduced f" and "fe_reduced g"
  shows "fe_loose (fe_add f g) \<and> fe_val (fe_add f g) = fe_val f + fe_val g \<and>
    fe_loose (fe_sub f g) \<and> fe_val (fe_sub f g) = fe_val f - fe_val g \<and>
    fe_reduced (fe_neg f) \<and> fe_val (fe_neg f) = - fe_val f"
  using assms
  by (simp add: fe_add_val fe_add_loose fe_sub_val fe_sub_loose fe_neg_val fe_neg_reduced)

text \<open>
  The branch-free selections: \<^verbatim>\<open>fe_cmov\<close> keeps \<open>f\<close> for \<open>b = 0\<close> and takes \<open>g\<close> for \<open>b = 1\<close>;
  \<^verbatim>\<open>fe_cswap\<close> keeps or exchanges both.
\<close>

lemma fe_cmov_cswap_select:
  "fe_cmov f g 0 = f \<and> fe_cmov f g 1 = g \<and> fe_cswap f g 0 = (f, g) \<and> fe_cswap f g 1 = (g, f)"
  by (simp add: fe_cswap_0 fe_cswap_1)

text \<open>\<^verbatim>\<open>fe_mul121666\<close> multiplies by the curve constant 121666 modulo \<open>2^255 - 19\<close>.\<close>

lemma fe_mul121666_correct:
  assumes "fe_loose f"
  shows "fe_tight (fe_mul121666 f) \<and>
    fe_val (fe_mul121666 f) mod p25519 = 121666 * fe_val f mod p25519"
  using fe_mul121666_is [OF assms] by (simp add: fe_is_def fe_tight_def)

end
