(* ===== verification/Fe25519Pow.thy ===== *)
theory Fe25519Pow
  imports Fe25519Mul
begin

text \<open>
  \<^verbatim>\<open>fe_invert\<close> and \<^verbatim>\<open>fe_pow22523\<close>: the addition chains of \<^verbatim>\<open>fe.c\<close> raise their argument to
  \<open>p - 2\<close> and to \<open>(p - 5) / 8\<close>.  \<open>pow_of z e t\<close> says that \<open>t\<close> represents the \<open>e\<close>-th power of \<open>z\<close>;
  the rules below follow the chain and compute the exponent of every temporary.
\<close>

definition pow_of :: "fe \<Rightarrow> nat \<Rightarrow> fe \<Rightarrow> bool" where
  "pow_of z e t \<longleftrightarrow> fe_mulable t \<and> fe_val t mod p25519 = fe_val z ^ e mod p25519"

lemma pow_of_self: "fe_mulable z \<Longrightarrow> pow_of z 1 z"
  by (simp add: pow_of_def)

lemma pow_of_mul:
  assumes "pow_of z a t" and "pow_of z b u" and "a + b = c"
  shows "fe_tight (fe_mul t u) \<and> pow_of z c (fe_mul t u)"
proof -
  have m: "fe_mulable t" "fe_mulable u"
    and v: "fe_val t mod p25519 = fe_val z ^ a mod p25519" "fe_val u mod p25519 = fe_val z ^ b mod p25519"
    using assms by (simp_all add: pow_of_def)
  have "fe_val (fe_mul t u) mod p25519 = fe_val z ^ c mod p25519"
    using mod_mult_cong [OF v] by (simp add: fe_mul_mod m power_add flip: assms(3))
  with fe_mul_tight [OF m] show ?thesis
    by (simp add: pow_of_def fe_weaken)
qed

lemma pow_of_sq:
  assumes "pow_of z a t" and "2 * a = c"
  shows "pow_of z c (fe_sq t)"
proof -
  have m: "fe_mulable t" and v: "fe_val t mod p25519 = fe_val z ^ a mod p25519"
    using assms by (simp_all add: pow_of_def)
  have "fe_val (fe_sq t) mod p25519 = fe_val z ^ c mod p25519"
    using mod_mult_cong [OF v v] by (simp add: fe_sq_mod m power_add mult_2 flip: assms(2))
  with fe_sq_tight [OF m] show ?thesis
    by (simp add: pow_of_def fe_weaken)
qed

declare fe_sq_loop.simps [simp del]

lemma pow_of_sq_loop: "pow_of z a t \<Longrightarrow> a * 2 ^ (n - i) = c \<Longrightarrow> pow_of z c (fe_sq_loop i n t)"
proof (induction i n t arbitrary: a rule: fe_sq_loop.induct)
  case (1 i n t)
  show ?case
  proof (cases "i < n")
    case True
    then have "n - i = Suc (n - (i + 1))" by simp
    then have "2 * a * 2 ^ (n - (i + 1)) = c" using "1.prems"(2) by simp
    with True "1.IH" [OF True pow_of_sq [OF "1.prems"(1) refl]] show ?thesis
      by (subst fe_sq_loop.simps) simp
  next
    case False
    with "1.prems" show ?thesis by (subst fe_sq_loop.simps) simp
  qed
qed

lemma wp_let_pow:
  "pow_of z e t \<Longrightarrow> (\<And>x. pow_of z e x \<Longrightarrow> wp Q (f x)) \<Longrightarrow> wp Q (Let t f)"
  by (simp add: wp_def)

lemma wp_pow_mul:
  "pow_of z a t \<Longrightarrow> pow_of z b u \<Longrightarrow> a + b = c \<Longrightarrow>
    wp (\<lambda>t. fe_tight t \<and> pow_of z c t) (fe_mul t u)"
  using pow_of_mul by (simp add: wp_def)

lemma fe_invert_pow:
  assumes "fe_mulable z"
  shows "fe_tight (fe_invert z) \<and> pow_of z (2 ^ 255 - 21) (fe_invert z)"
proof -
  have "wp (\<lambda>t. fe_tight t \<and> pow_of z (2 ^ 255 - 21) t) (fe_invert z)"
    using pow_of_self [OF assms] unfolding fe_invert_def
    apply -
    apply (assumption | rule wp_let_pow pow_of_sq_loop pow_of_sq wp_pow_mul pow_of_mul [THEN conjunct2]
      | (simp (no_asm); fail))+
    done
  then show ?thesis by (rule wpD)
qed

lemma fe_pow22523_pow:
  assumes "fe_mulable z"
  shows "fe_tight (fe_pow22523 z) \<and> pow_of z (2 ^ 252 - 3) (fe_pow22523 z)"
proof -
  have "wp (\<lambda>t. fe_tight t \<and> pow_of z (2 ^ 252 - 3) t) (fe_pow22523 z)"
    using pow_of_self [OF assms] unfolding fe_pow22523_def
    apply -
    apply (assumption | rule wp_let_pow pow_of_sq_loop pow_of_sq wp_pow_mul pow_of_mul [THEN conjunct2]
      | (simp (no_asm); fail))+
    done
  then show ?thesis by (rule wpD)
qed

section \<open>Properties\<close>

text \<open>
  (C30) \<^verbatim>\<open>fe_invert\<close> computes \<open>z^(p-2)\<close> for \<open>p = 2^255 - 19\<close> (the inverse of \<open>z\<close>, by Fermat's little
  theorem), with limbs that every operation accepts.
\<close>

theorem fe_invert_correct:
  assumes "fe_mulable z"
  shows "fe_tight (fe_invert z) \<and>
    fe_val (fe_invert z) mod p25519 = fe_val z ^ nat (p25519 - 2) mod p25519"
  using fe_invert_pow [OF assms] by (simp add: pow_of_def p25519_def)

theorem fe_invert_correct_witness:
  "fe_tight (fe_invert fe_sample_f) \<and>
   fe_val (fe_invert fe_sample_f) mod p25519 = fe_val fe_sample_f ^ nat (p25519 - 2) mod p25519"
  by (rule fe_invert_correct [OF fe_samples(1)])

text \<open>
  \<^verbatim>\<open>fe_pow22523\<close> computes \<open>z^((p-5)/8)\<close>, the power that the decompression of a point uses to
  take a square root.
\<close>

lemma fe_pow22523_correct:
  assumes "fe_mulable z"
  shows "fe_tight (fe_pow22523 z) \<and>
    fe_val (fe_pow22523 z) mod p25519 = fe_val z ^ nat ((p25519 - 5) div 8) mod p25519"
  using fe_pow22523_pow [OF assms] by (simp add: pow_of_def p25519_def)

end
