(* ===== verification/Fe25519Bytes.thy ===== *)
theory Fe25519Bytes
  imports Fe25519Mul
begin

text \<open>
  \<^verbatim>\<open>fe_tobytes\<close>, \<^verbatim>\<open>fe_frombytes\<close> and the tests that read the bytes: the encoding is the
  canonical one, 32 little-endian bytes of the representative in \<open>0 \<dots> 2^255 - 20\<close>.
\<close>

section \<open>The quotient\<close>

text \<open>A chain of shifts is one division.\<close>

lemma div_chain: "(b + a div 2 ^ m) div 2 ^ n = (a + 2 ^ m * b) div 2 ^ (m + n)" for a b :: int
proof -
  have "(b + a div 2 ^ m) div 2 ^ n = (a + 2 ^ m * b) div 2 ^ m div 2 ^ n"
    by (simp add: add.commute)
  also have "\<dots> = (a + 2 ^ m * b) div (2 ^ m * 2 ^ n)"
    by (simp add: zdiv_zmult2_eq)
  finally show ?thesis by (simp add: power_add)
qed

lemma sv_one_shl: "sv (shl 1 24 :: i32) (2 ^ 24) (2 ^ 24)"
  by (simp add: sv_def)

lemma quot_chain:
  "(x9 + (x8 + (x7 + (x6 + (x5 + (x4 + (x3 + (x2 + (x1 + (x0 + q) div 2 ^ 26) div 2 ^ 25) div 2 ^ 26) div 2 ^ 25) div 2 ^ 26) div 2 ^ 25) div 2 ^ 26) div 2 ^ 25) div 2 ^ 26) div 2 ^ 25 =
    (radix_val x0 x1 x2 x3 x4 x5 x6 x7 x8 x9 + q) div 2 ^ 255"
proof -
  have "(x9 + (x8 + (x7 + (x6 + (x5 + (x4 + (x3 + (x2 + (x1 + (x0 + q) div 2 ^ 26) div 2 ^ 25) div 2 ^ 26) div 2 ^ 25) div 2 ^ 26) div 2 ^ 25) div 2 ^ 26) div 2 ^ 25) div 2 ^ 26) div 2 ^ 25 =
      (x0 + q + 2 ^ 26 * x1 + 2 ^ 51 * x2 + 2 ^ 77 * x3 + 2 ^ 102 * x4 +
        2 ^ 128 * x5 + 2 ^ 153 * x6 + 2 ^ 179 * x7 + 2 ^ 204 * x8 + 2 ^ 230 * x9) div 2 ^ 255"
    by (simp only: div_chain) (simp add: algebra_simps)
  then show ?thesis
    by (simp only: radix_val_def ac_simps)
qed

lemma wp_quot: "sv q x B \<Longrightarrow> x = y \<Longrightarrow> B \<le> 3 \<Longrightarrow> wp (\<lambda>q. sint q = y \<and> \<bar>sint q\<bar> \<le> 3) q"
  by (simp add: sv_def wp_def)

lemma fe_tobytes_quot_wp:
  assumes "sv h0 x0 73819750" and "sv h1 x1 36909875" and "sv h2 x2 73819750" and "sv h3 x3 36909875" and "sv h4 x4 73819750"
    and "sv h5 x5 36909875" and "sv h6 x6 73819750" and "sv h7 x7 36909875" and "sv h8 x8 73819750" and "sv h9 x9 36909875"
  shows "wp (\<lambda>q. sint q = (radix_val x0 x1 x2 x3 x4 x5 x6 x7 x8 x9 + (19 * x9 + 2 ^ 24) div 2 ^ 25) div 2 ^ 255 \<and> \<bar>sint q\<bar> \<le> 3)
    (fe_tobytes_quot (Fe h0 h1 h2 h3 h4 h5 h6 h7 h8 h9))"
  using assms unfolding fe_tobytes_quot_def fe.case
  apply -
  apply (assumption | rule wp_let sv_asr sv_add sv_mult sv_numeral sv_one_shl wp_quot quot_chain | (simp (no_asm); fail))+
  done

text \<open>
  The estimate of the quotient is exact (the argument in the comment before \<^verbatim>\<open>fe_tobytes\<close>).
\<close>

lemma canonical_quot:
  assumes "\<bar>x0\<bar> \<le> 73819750" and "\<bar>x1\<bar> \<le> 36909875" and "\<bar>x2\<bar> \<le> 73819750" and "\<bar>x3\<bar> \<le> 36909875" and "\<bar>x4\<bar> \<le> 73819750" and "\<bar>x5\<bar> \<le> 36909875" and "\<bar>x6\<bar> \<le> 73819750" and "\<bar>x7\<bar> \<le> 36909875" and "\<bar>x8\<bar> \<le> 73819750" and "\<bar>x9\<bar> \<le> 36909875"
    and q: "q = (radix_val x0 x1 x2 x3 x4 x5 x6 x7 x8 x9 + (19 * x9 + 2 ^ 24) div 2 ^ 25) div 2 ^ 255"
  shows "radix_val x0 x1 x2 x3 x4 x5 x6 x7 x8 x9 + 19 * q - 2 ^ 255 * q = radix_val x0 x1 x2 x3 x4 x5 x6 x7 x8 x9 mod p25519"
proof -
  let ?H = "radix_val x0 x1 x2 x3 x4 x5 x6 x7 x8 x9"
  define L where "L = ?H - 2 ^ 230 * x9"
  define Q where "Q = ?H div p25519"
  define r where "r = ?H mod p25519"
  define q0 where "q0 = (19 * x9 + 2 ^ 24) div 2 ^ 25"
  define m where "m = (19 * x9 + 2 ^ 24) mod 2 ^ 25"
  have H: "?H = p25519 * Q + r" "0 \<le> r" "r < p25519"
    unfolding Q_def r_def by (simp_all add: p25519_def)
  have HL: "?H = L + 2 ^ 230 * x9" by (simp add: L_def)
  have L: "\<bar>L\<bar> \<le> 2 ^ 231"
    using assms(1-9) unfolding L_def radix_val_def abs_le_iff by simp
  have q0: "19 * x9 + 2 ^ 24 = 2 ^ 25 * q0 + m" "0 \<le> m" "m < 2 ^ 25"
    unfolding q0_def m_def by (simp_all only: mult_div_mod_eq pos_mod_sign pos_mod_bound zero_less_power zero_less_numeral)
  have "0 \<le> r + q0 - 19 * Q" and "r + q0 - 19 * Q < 2 ^ 255"
    using H HL L q0 assms(10) unfolding p25519_def abs_le_iff by simp_all
  moreover have "?H + q0 = 2 ^ 255 * Q + (r + q0 - 19 * Q)"
    using H(1) by (simp add: p25519_def algebra_simps)
  ultimately have "q = Q"
    unfolding q q0_def [symmetric] by (simp add: int_div_pos_eq)
  then have "?H + 19 * q - 2 ^ 255 * q = r"
    using H(1) by (simp add: p25519_def algebra_simps)
  then show ?thesis by (simp only: r_def)
qed

section \<open>The digits\<close>

primrec fe_digits :: "fe \<Rightarrow> bool" where
  "fe_digits (Fe h0 h1 h2 h3 h4 h5 h6 h7 h8 h9) =
    (0 \<le> sint h0 \<and> sint h0 < 2 ^ 26 \<and> 0 \<le> sint h1 \<and> sint h1 < 2 ^ 25 \<and>
     0 \<le> sint h2 \<and> sint h2 < 2 ^ 26 \<and> 0 \<le> sint h3 \<and> sint h3 < 2 ^ 25 \<and>
     0 \<le> sint h4 \<and> sint h4 < 2 ^ 26 \<and> 0 \<le> sint h5 \<and> sint h5 < 2 ^ 25 \<and>
     0 \<le> sint h6 \<and> sint h6 < 2 ^ 26 \<and> 0 \<le> sint h7 \<and> sint h7 < 2 ^ 25 \<and>
     0 \<le> sint h8 \<and> sint h8 < 2 ^ 26 \<and> 0 \<le> sint h9 \<and> sint h9 < 2 ^ 25)"

lemma wp_digits:
  assumes "sv r0 x0 67108863" and "sv r1 x1 33554431" and "sv r2 x2 67108863" and "sv r3 x3 33554431" and "sv r4 x4 67108863"
    and "sv r5 x5 33554431" and "sv r6 x6 67108863" and "sv r7 x7 33554431" and "sv r8 x8 67108863" and "sv r9 x9 33554431"
    and "0 \<le> x0" and "0 \<le> x1" and "0 \<le> x2" and "0 \<le> x3" and "0 \<le> x4"
    and "0 \<le> x5" and "0 \<le> x6" and "0 \<le> x7" and "0 \<le> x8" and "0 \<le> x9"
    and "radix_val x0 x1 x2 x3 x4 x5 x6 x7 x8 x9 = v - 2 ^ 255 * k"
  shows "wp (\<lambda>t. fe_digits t \<and> (\<exists>k. fe_val t = v - 2 ^ 255 * k)) (Fe r0 r1 r2 r3 r4 r5 r6 r7 r8 r9)"
  using assms by (auto simp: wp_def sv_def)

lemma digits_val:
  "radix_val (x0 + 19 * v - c0 * 2 ^ 26)
      (x1 + c0 - c1 * 2 ^ 25)
      (x2 + c1 - c2 * 2 ^ 26)
      (x3 + c2 - c3 * 2 ^ 25)
      (x4 + c3 - c4 * 2 ^ 26)
      (x5 + c4 - c5 * 2 ^ 25)
      (x6 + c5 - c6 * 2 ^ 26)
      (x7 + c6 - c7 * 2 ^ 25)
      (x8 + c7 - c8 * 2 ^ 26)
      (x9 + c8 - c9 * 2 ^ 25) =
    radix_val x0 x1 x2 x3 x4 x5 x6 x7 x8 x9 + 19 * v - 2 ^ 255 * c9"
  unfolding radix_val_def by algebra

lemma fe_tobytes_carry_wp:
  assumes "sv h0 x0 73819750" and "sv h1 x1 36909875" and "sv h2 x2 73819750" and "sv h3 x3 36909875" and "sv h4 x4 73819750"
    and "sv h5 x5 36909875" and "sv h6 x6 73819750" and "sv h7 x7 36909875" and "sv h8 x8 73819750" and "sv h9 x9 36909875"
    and "sv q v 3"
  shows "wp (\<lambda>t. fe_digits t \<and> (\<exists>k. fe_val t = radix_val x0 x1 x2 x3 x4 x5 x6 x7 x8 x9 + 19 * v - 2 ^ 255 * k))
    (fe_tobytes_carry (Fe h0 h1 h2 h3 h4 h5 h6 h7 h8 h9) q)"
  using assms unfolding fe_tobytes_carry_def fe.case
  apply -
  apply ((rule wp_carry_floor, assumption, assumption) | (rule wp_carry_drop, assumption) |
     assumption | rule wp_digits wp_let sv_add sv_mult sv_numeral digits_val | (simp (no_asm); fail))+
  done

section \<open>The bytes\<close>

lemma limb_split_first:
  "x div 2 ^ 0 mod 256 + 2 ^ 8 * (x div 2 ^ 8 mod 256) + 2 ^ 16 * (x div 2 ^ 16 mod 256) + 2 ^ 24 * (x div 2 ^ 24) = x"
    for x :: int
  using limb_split [of 16 8 24 x] by simp

lemma limb_split_last:
  fixes x :: int
  assumes "0 \<le> x" and "x < 2 ^ 26"
  shows "x mod 2 ^ 2 + 2 ^ 2 * (x div 2 ^ 2 mod 256) + 2 ^ 10 * (x div 2 ^ 10 mod 256) + 2 ^ 18 * (x div 2 ^ 18 mod 256) = x"
proof -
  have "x div 2 ^ 18 \<le> (2 ^ 26 - 1) div 2 ^ 18"
    using assms by (intro zdiv_mono1) simp_all
  then have e: "x div 2 ^ 18 mod 256 = x div 2 ^ 18"
    using assms by (intro mod_pos_pos_trivial) (simp_all add: pos_imp_zdiv_nonneg_iff)
  show ?thesis
    unfolding e by (rule limb_split) simp_all
qed


lemma radix_bytes:
  "radix_val
      (a0_0 + 2 ^ 8 * (a0_8) + 2 ^ 16 * (a0_16) + 2 ^ 24 * (t0))
      (m1 + 2 ^ 6 * (a1_6) + 2 ^ 14 * (a1_14) + 2 ^ 22 * (t1))
      (m2 + 2 ^ 5 * (a2_5) + 2 ^ 13 * (a2_13) + 2 ^ 21 * (t2))
      (m3 + 2 ^ 3 * (a3_3) + 2 ^ 11 * (a3_11) + 2 ^ 19 * (t3))
      (m4 + 2 ^ 2 * (a4_2) + 2 ^ 10 * (a4_10) + 2 ^ 18 * (a4_18))
      (a5_0 + 2 ^ 8 * (a5_8) + 2 ^ 16 * (a5_16) + 2 ^ 24 * (t5))
      (m6 + 2 ^ 7 * (a6_7) + 2 ^ 15 * (a6_15) + 2 ^ 23 * (t6))
      (m7 + 2 ^ 5 * (a7_5) + 2 ^ 13 * (a7_13) + 2 ^ 21 * (t7))
      (m8 + 2 ^ 4 * (a8_4) + 2 ^ 12 * (a8_12) + 2 ^ 20 * (t8))
      (m9 + 2 ^ 2 * (a9_2) + 2 ^ 10 * (a9_10) + 2 ^ 18 * (a9_18)) =
    a0_0 + 256 * (a0_8 + 256 * (a0_16 + 256 * ((t0 + 2 ^ 2 * m1) + 256 * (a1_6 + 256 * (a1_14 + 256 * ((t1 + 2 ^ 3 * m2) + 256 * (a2_5 + 256 * (a2_13 + 256 * ((t2 + 2 ^ 5 * m3) + 256 * (a3_3 + 256 * (a3_11 + 256 * ((t3 + 2 ^ 6 * m4) + 256 * (a4_2 + 256 * (a4_10 + 256 * (a4_18 + 256 * (a5_0 + 256 * (a5_8 + 256 * (a5_16 + 256 * ((t5 + 2 ^ 1 * m6) + 256 * (a6_7 + 256 * (a6_15 + 256 * ((t6 + 2 ^ 3 * m7) + 256 * (a7_5 + 256 * (a7_13 + 256 * ((t7 + 2 ^ 4 * m8) + 256 * (a8_4 + 256 * (a8_12 + 256 * ((t8 + 2 ^ 6 * m9) + 256 * (a9_2 + 256 * (a9_10 + 256 * (a9_18 + 256 * 0)))))))))))))))))))))))))))))))"
  unfolding radix_val_def by algebra

lemma length_fe_tobytes_pack [simp]: "length (fe_tobytes_pack f) = 32"
  by (cases f) (simp add: fe_tobytes_pack_def)

lemma le_int_pack:
  assumes "fe_digits f"
  shows "le_int (fe_tobytes_pack f) = fe_val f"
proof (cases f)
  case (Fe h0 h1 h2 h3 h4 h5 h6 h7 h8 h9)
  note d = assms [unfolded Fe fe_digits.simps]
  have h9: "sint h9 < 67108864" using d by (elim conjE, simp)
  have shared: "uint (ucast (asr h0 24 OR shl h1 2) :: u8) = sint h0 div 2 ^ 24 + 2 ^ 2 * (sint h1 mod 2 ^ 6)"
    "uint (ucast (asr h1 22 OR shl h2 3) :: u8) = sint h1 div 2 ^ 22 + 2 ^ 3 * (sint h2 mod 2 ^ 5)"
    "uint (ucast (asr h2 21 OR shl h3 5) :: u8) = sint h2 div 2 ^ 21 + 2 ^ 5 * (sint h3 mod 2 ^ 3)"
    "uint (ucast (asr h3 19 OR shl h4 6) :: u8) = sint h3 div 2 ^ 19 + 2 ^ 6 * (sint h4 mod 2 ^ 2)"
    "uint (ucast (asr h5 24 OR shl h6 1) :: u8) = sint h5 div 2 ^ 24 + 2 ^ 1 * (sint h6 mod 2 ^ 7)"
    "uint (ucast (asr h6 23 OR shl h7 3) :: u8) = sint h6 div 2 ^ 23 + 2 ^ 3 * (sint h7 mod 2 ^ 5)"
    "uint (ucast (asr h7 21 OR shl h8 4) :: u8) = sint h7 div 2 ^ 21 + 2 ^ 4 * (sint h8 mod 2 ^ 4)"
    "uint (ucast (asr h8 20 OR shl h9 6) :: u8) = sint h8 div 2 ^ 20 + 2 ^ 6 * (sint h9 mod 2 ^ 2)"
    by (rule uint_pack2 [THEN trans]; simp add: d [simplified])+
  have limbs: "sint h0 div 2 ^ 0 mod 256 + 2 ^ 8 * (sint h0 div 2 ^ 8 mod 256) + 2 ^ 16 * (sint h0 div 2 ^ 16 mod 256) + 2 ^ 24 * (sint h0 div 2 ^ 24) = sint h0"
    "sint h1 mod 2 ^ 6 + 2 ^ 6 * (sint h1 div 2 ^ 6 mod 256) + 2 ^ 14 * (sint h1 div 2 ^ 14 mod 256) + 2 ^ 22 * (sint h1 div 2 ^ 22) = sint h1"
    "sint h2 mod 2 ^ 5 + 2 ^ 5 * (sint h2 div 2 ^ 5 mod 256) + 2 ^ 13 * (sint h2 div 2 ^ 13 mod 256) + 2 ^ 21 * (sint h2 div 2 ^ 21) = sint h2"
    "sint h3 mod 2 ^ 3 + 2 ^ 3 * (sint h3 div 2 ^ 3 mod 256) + 2 ^ 11 * (sint h3 div 2 ^ 11 mod 256) + 2 ^ 19 * (sint h3 div 2 ^ 19) = sint h3"
    "sint h4 mod 2 ^ 2 + 2 ^ 2 * (sint h4 div 2 ^ 2 mod 256) + 2 ^ 10 * (sint h4 div 2 ^ 10 mod 256) + 2 ^ 18 * (sint h4 div 2 ^ 18 mod 256) = sint h4"
    "sint h5 div 2 ^ 0 mod 256 + 2 ^ 8 * (sint h5 div 2 ^ 8 mod 256) + 2 ^ 16 * (sint h5 div 2 ^ 16 mod 256) + 2 ^ 24 * (sint h5 div 2 ^ 24) = sint h5"
    "sint h6 mod 2 ^ 7 + 2 ^ 7 * (sint h6 div 2 ^ 7 mod 256) + 2 ^ 15 * (sint h6 div 2 ^ 15 mod 256) + 2 ^ 23 * (sint h6 div 2 ^ 23) = sint h6"
    "sint h7 mod 2 ^ 5 + 2 ^ 5 * (sint h7 div 2 ^ 5 mod 256) + 2 ^ 13 * (sint h7 div 2 ^ 13 mod 256) + 2 ^ 21 * (sint h7 div 2 ^ 21) = sint h7"
    "sint h8 mod 2 ^ 4 + 2 ^ 4 * (sint h8 div 2 ^ 4 mod 256) + 2 ^ 12 * (sint h8 div 2 ^ 12 mod 256) + 2 ^ 20 * (sint h8 div 2 ^ 20) = sint h8"
    "sint h9 mod 2 ^ 2 + 2 ^ 2 * (sint h9 div 2 ^ 2 mod 256) + 2 ^ 10 * (sint h9 div 2 ^ 10 mod 256) + 2 ^ 18 * (sint h9 div 2 ^ 18 mod 256) = sint h9"
    by (rule limb_split_first limb_split_last limb_split | simp add: d [simplified] h9)+
  have "fe_val f = radix_val
      (sint h0 div 2 ^ 0 mod 256 + 2 ^ 8 * (sint h0 div 2 ^ 8 mod 256) + 2 ^ 16 * (sint h0 div 2 ^ 16 mod 256) + 2 ^ 24 * (sint h0 div 2 ^ 24))
      (sint h1 mod 2 ^ 6 + 2 ^ 6 * (sint h1 div 2 ^ 6 mod 256) + 2 ^ 14 * (sint h1 div 2 ^ 14 mod 256) + 2 ^ 22 * (sint h1 div 2 ^ 22))
      (sint h2 mod 2 ^ 5 + 2 ^ 5 * (sint h2 div 2 ^ 5 mod 256) + 2 ^ 13 * (sint h2 div 2 ^ 13 mod 256) + 2 ^ 21 * (sint h2 div 2 ^ 21))
      (sint h3 mod 2 ^ 3 + 2 ^ 3 * (sint h3 div 2 ^ 3 mod 256) + 2 ^ 11 * (sint h3 div 2 ^ 11 mod 256) + 2 ^ 19 * (sint h3 div 2 ^ 19))
      (sint h4 mod 2 ^ 2 + 2 ^ 2 * (sint h4 div 2 ^ 2 mod 256) + 2 ^ 10 * (sint h4 div 2 ^ 10 mod 256) + 2 ^ 18 * (sint h4 div 2 ^ 18 mod 256))
      (sint h5 div 2 ^ 0 mod 256 + 2 ^ 8 * (sint h5 div 2 ^ 8 mod 256) + 2 ^ 16 * (sint h5 div 2 ^ 16 mod 256) + 2 ^ 24 * (sint h5 div 2 ^ 24))
      (sint h6 mod 2 ^ 7 + 2 ^ 7 * (sint h6 div 2 ^ 7 mod 256) + 2 ^ 15 * (sint h6 div 2 ^ 15 mod 256) + 2 ^ 23 * (sint h6 div 2 ^ 23))
      (sint h7 mod 2 ^ 5 + 2 ^ 5 * (sint h7 div 2 ^ 5 mod 256) + 2 ^ 13 * (sint h7 div 2 ^ 13 mod 256) + 2 ^ 21 * (sint h7 div 2 ^ 21))
      (sint h8 mod 2 ^ 4 + 2 ^ 4 * (sint h8 div 2 ^ 4 mod 256) + 2 ^ 12 * (sint h8 div 2 ^ 12 mod 256) + 2 ^ 20 * (sint h8 div 2 ^ 20))
      (sint h9 mod 2 ^ 2 + 2 ^ 2 * (sint h9 div 2 ^ 2 mod 256) + 2 ^ 10 * (sint h9 div 2 ^ 10 mod 256) + 2 ^ 18 * (sint h9 div 2 ^ 18 mod 256))"
    unfolding Fe fe_val.simps limbs ..
  also have "\<dots> = le_int (fe_tobytes_pack f)"
    unfolding Fe fe_tobytes_pack_def fe.case le_int.simps shared
    unfolding uint_byte_i32 by (rule radix_bytes)
  finally show ?thesis ..
qed

section \<open>Encoding\<close>

lemma fe_digits_range: "fe_digits f \<Longrightarrow> 0 \<le> fe_val f \<and> fe_val f < 2 ^ 255"
  by (cases f) (simp add: radix_val_def)

lemma residue_unique:
  "a = b + m * k \<Longrightarrow> 0 \<le> a \<Longrightarrow> a < m \<Longrightarrow> 0 \<le> b \<Longrightarrow> b < m \<Longrightarrow> a = b" for a b m k :: int
  by (metis mod_mult_self2 mod_pos_pos_trivial)

lemma length_fe_tobytes [simp]: "length (fe_tobytes f) = 32"
  by (simp add: fe_tobytes_def)

lemma le_int_fe_tobytes:
  assumes "fe_loose h"
  shows "le_int (fe_tobytes h) = fe_val h mod p25519"
proof (cases h)
  case (Fe h0 h1 h2 h3 h4 h5 h6 h7 h8 h9)
  note b = fe_within_sv [OF assms [unfolded Fe fe_loose_def]]
  define q where "q = fe_tobytes_quot h"
  define t where "t = fe_tobytes_carry h q"
  have q: "sint q = (fe_val h + (19 * sint h9 + 2 ^ 24) div 2 ^ 25) div 2 ^ 255" "sv q (sint q) 3"
    using wpD [OF fe_tobytes_quot_wp [OF b]] by (auto simp only: q_def Fe fe_val.simps sv_def)
  have canon: "fe_val h + 19 * sint q - 2 ^ 255 * sint q = fe_val h mod p25519"
    using canonical_quot [OF b [THEN sv_bound] q(1) [unfolded Fe fe_val.simps]] by (simp add: Fe)
  have t: "fe_digits t" and "\<exists>k. fe_val t = fe_val h + 19 * sint q - 2 ^ 255 * k"
    using wpD [OF fe_tobytes_carry_wp [OF b q(2)]] by (simp_all add: t_def Fe)
  then obtain k where "fe_val t = fe_val h + 19 * sint q - 2 ^ 255 * k" by blast
  with canon have eq: "fe_val t = fe_val h mod p25519 + 2 ^ 255 * (sint q - k)"
    by (simp add: algebra_simps)
  have r: "0 \<le> fe_val h mod p25519" "fe_val h mod p25519 < 2 ^ 255"
    using pos_mod_bound [of p25519 "fe_val h"] by (simp_all add: p25519_def)
  have "fe_val t = fe_val h mod p25519"
    using fe_digits_range [OF t] by (intro residue_unique [OF eq _ _ r]) simp_all
  then show ?thesis
    using le_int_pack [OF t] by (simp add: fe_tobytes_def t_def q_def)
qed

section \<open>Decoding\<close>

lemma uint_or_shl:
  fixes a b :: u64
  assumes "uint a < 2 ^ k" and "uint b * 2 ^ k < 2 ^ 64"
  shows "uint (a OR shl b k) = uint a + 2 ^ k * uint b"
proof -
  have a: "take_bit k (uint a) = uint a"
    using assms(1) by (simp add: take_bit_int_eq_self)
  have "uint (shl b k) = push_bit k (uint b)"
    using assms(2) unfolding unsigned_push_bit_eq by (simp add: push_bit_eq_mult take_bit_int_eq_self)
  then have "uint (a OR shl b k) = uint a OR push_bit k (uint b)"
    by (simp add: unsigned_or_eq)
  moreover have "uint a AND push_bit k (uint b) = 0"
    by (subst a [symmetric]) (auto simp: bit_eq_iff bit_simps)
  ultimately show ?thesis
    by (simp add: push_bit_eq_mult flip: disjunctive_add_eq_or)
qed

lemma uint_byte_less: "uint (b :: u8) < 256"
  using uint_lt2p [of b] by simp

lemma sv_of_uint: "uint (w :: i64) = v \<Longrightarrow> v \<le> B \<Longrightarrow> B < 2 ^ 63 \<Longrightarrow> sv w v B"
proof -
  assume v: "uint w = v" "v \<le> B" "B < 2 ^ 63"
  have "sint w = signed_take_bit 63 (uint w)" by (simp add: sint_uint)
  moreover have "0 \<le> v" using v(1) by auto
  ultimately have "sint w = v" "0 \<le> v" using v by (simp_all add: signed_take_bit_id)
  then show ?thesis using v(2) by (simp add: sv_def)
qed

lemma uint_or_byte:
  assumes "uint (w :: u64) = v" and "v < 2 ^ k" and "k \<le> 56"
  shows "uint (w OR shl (ucast (b :: u8)) k) = v + 2 ^ k * uint b"
proof -
  have u: "uint (ucast b :: u64) = uint b"
    by (simp add: unsigned_ucast_eq take_bit_int_eq_self uint_byte_less [THEN less_trans])
  have "uint b * 2 ^ k < 256 * 2 ^ k" by (simp add: uint_byte_less)
  also have "(2 :: int) ^ k \<le> 2 ^ 56" using assms(3) by (intro power_increasing) auto
  finally show ?thesis
    using assms u uint_or_shl [of w k "ucast b"] by simp
qed

lemma uint_ucast_byte: "uint (ucast (b :: u8) :: u64) = uint b"
  by (simp add: unsigned_ucast_eq take_bit_int_eq_self uint_byte_less [THEN less_trans])

lemma uint_load_3: "uint (load_3 s i) = uint (s ! i) + 2 ^ 8 * uint (s ! (i + 1)) + 2 ^ 16 * uint (s ! (i + 2))"
  unfolding load_3_def Let_def
  using uint_byte_less [of "s ! i"] uint_byte_less [of "s ! (i + 1)"]
  by (intro uint_or_byte uint_ucast_byte) auto

lemma uint_load_4: "uint (load_4 s i) =
    uint (s ! i) + 2 ^ 8 * uint (s ! (i + 1)) + 2 ^ 16 * uint (s ! (i + 2)) + 2 ^ 24 * uint (s ! (i + 3))"
  unfolding load_4_def Let_def
  using uint_byte_less [of "s ! i"] uint_byte_less [of "s ! (i + 1)"] uint_byte_less [of "s ! (i + 2)"]
  by (intro uint_or_byte uint_ucast_byte) auto

lemma sv_load_3: "sv (load_3 s i) (uint (load_3 s i)) 16777215"
  using uint_byte_less [of "s ! i"] uint_byte_less [of "s ! (i + 1)"] uint_byte_less [of "s ! (i + 2)"]
  by (intro sv_of_uint refl) (simp_all add: uint_load_3)

lemma sv_load_4: "sv (load_4 s i) (uint (load_4 s i)) 4294967295"
  using uint_byte_less [of "s ! i"] uint_byte_less [of "s ! (i + 1)"] uint_byte_less [of "s ! (i + 2)"]
    uint_byte_less [of "s ! (i + 3)"]
  by (intro sv_of_uint refl) (simp_all add: uint_load_4)

lemma sv_top: "sv (load_3 s i AND 8388607) (uint (load_3 s i) mod 2 ^ 23) 8388607"
proof (rule sv_of_uint)
  have "(8388607 :: u64) = mask 23" by (simp add: mask_eq_exp_minus_1)
  then have "load_3 s i AND 8388607 = take_bit 23 (load_3 s i)"
    by (simp only: take_bit_eq_mask)
  then have "uint (load_3 s i AND 8388607) = take_bit 23 (uint (load_3 s i))"
    by (simp only: unsigned_take_bit_eq)
  then show "uint (load_3 s i AND 8388607) = uint (load_3 s i) mod 2 ^ 23"
    by (simp only: take_bit_eq_mod)
qed simp_all

lemma le_int_32:
  assumes "length s = 32"
  shows "le_int s = uint (load_4 s 0) + 2 ^ 32 * uint (load_3 s 4) + 2 ^ 56 * uint (load_3 s 7) +
    2 ^ 80 * uint (load_3 s 10) + 2 ^ 104 * uint (load_3 s 13) + 2 ^ 128 * uint (load_4 s 16) +
    2 ^ 160 * uint (load_3 s 20) + 2 ^ 184 * uint (load_3 s 23) + 2 ^ 208 * uint (load_3 s 26) +
    2 ^ 232 * uint (load_3 s 29)"
  unfolding le_int_eq_sum assms uint_load_3 uint_load_4
  by (simp add: eval_nat_numeral)

lemma frombytes_val:
  assumes "length s = 32"
  shows "radix_val
      (uint (load_4 s 0))
      (uint (load_3 s 4) * 2 ^ 6)
      (uint (load_3 s 7) * 2 ^ 5)
      (uint (load_3 s 10) * 2 ^ 3)
      (uint (load_3 s 13) * 2 ^ 2)
      (uint (load_4 s 16))
      (uint (load_3 s 20) * 2 ^ 7)
      (uint (load_3 s 23) * 2 ^ 5)
      (uint (load_3 s 26) * 2 ^ 4)
      (uint (load_3 s 29) mod 2 ^ 23 * 2 ^ 2) = le_int s mod 2 ^ 255" (is "?l = _")
proof -
  let ?t = "uint (load_3 s 29)"
  have b3: "0 \<le> uint (load_3 s i)" "uint (load_3 s i) \<le> 16777215"
    and b4: "0 \<le> uint (load_4 s i)" "uint (load_4 s i) \<le> 4294967295" for i
    using sv_load_3 [of s i] sv_load_4 [of s i] by (simp_all add: sv_def)
  obtain m d where t: "?t = m + 2 ^ 23 * d" and md: "?t mod 2 ^ 23 = m" "?t div 2 ^ 23 = d"
    by (metis mod_mult_div_eq)
  have "le_int s = ?l + 2 ^ 255 * (?t div 2 ^ 23)"
    unfolding le_int_32 [OF assms] radix_val_def md by (simp add: t algebra_simps)
  moreover have "0 \<le> ?l"
    unfolding radix_val_def using b3 b4 by (intro add_nonneg_nonneg mult_nonneg_nonneg) simp_all
  moreover have "?l < 2 ^ 255"
  proof -
    have "?t mod 2 ^ 23 \<le> 2 ^ 23 - 1" using pos_mod_bound [of "2 ^ 23" ?t] by simp
    then show ?thesis
      unfolding radix_val_def
      using b3(2) [of 4] b3(2) [of 7] b3(2) [of 10] b3(2) [of 13] b3(2) [of 20] b3(2) [of 23]
        b3(2) [of 26] b4(2) [of 0] b4(2) [of 16] by simp
  qed
  ultimately show ?thesis by simp
qed

lemma fe_frombytes_is:
  assumes "length s = 32"
  shows "fe_is 33889976 16944988 (le_int s mod 2 ^ 255) (fe_frombytes s)"
proof -
  have "wp (fe_is 33889976 16944988 (le_int s mod 2 ^ 255)) (fe_frombytes s)"
    unfolding fe_frombytes_def fe_frombytes_wide_def Let_def frombytes_val [OF assms, symmetric]
    apply (rule fe_carry_parallel_wp)
    apply (rule sv_weaken, (rule sv_load_3 sv_load_4 sv_top sv_shl | (simp (no_asm); fail))+)+
    done
  then show ?thesis by (rule wpD)
qed

lemma fe_frombytes_tight [intro]: "length s = 32 \<Longrightarrow> fe_tight (fe_frombytes s)"
  using fe_frombytes_is [of s] by (simp add: fe_is_def fe_tight_def)

lemma fe_frombytes_mod:
  "length s = 32 \<Longrightarrow> fe_val (fe_frombytes s) mod p25519 = le_int s mod 2 ^ 255 mod p25519"
  using fe_frombytes_is [of s] by (simp only: fe_is_def)

section \<open>Tests on the bytes\<close>

lemma foldl_or_zero:
  "foldl (\<lambda>r i. r OR s ! i) (r :: u8) is = 0 \<longleftrightarrow> r = 0 \<and> (\<forall>i\<in>set is. s ! i = 0)"
proof (induction "is" arbitrary: r)
  case (Cons i "is")
  have "r OR s ! i = 0 \<longleftrightarrow> r = 0 \<and> s ! i = 0"
    by (auto simp: or_eq_0_iff)
  with Cons show ?case by auto
qed simp

lemma le_int_zero: "le_int bs = 0 \<longleftrightarrow> (\<forall>b\<in>set bs. b = 0)"
proof (induction bs)
  case (Cons b bs)
  have "uint b + 256 * le_int bs = 0 \<longleftrightarrow> uint b = 0 \<and> le_int bs = 0"
    using le_int_nonneg [of bs] by (smt (verit) uint_ge_0)
  with Cons show ?case by (simp add: uint_0_iff)
qed simp

lemma fe_isnonzero_iff:
  assumes "fe_loose f"
  shows "fe_isnonzero f \<longleftrightarrow> fe_val f mod p25519 \<noteq> 0"
proof -
  let ?s = "fe_tobytes f"
  have "foldl (\<lambda>r i. r OR ?s ! i) (?s ! 0) [1..<32] = 0 \<longleftrightarrow> (\<forall>i<32. ?s ! i = 0)"
    unfolding foldl_or_zero by (auto simp: less_Suc_eq_0_disj Suc_le_eq neq0_conv)
  also have "\<dots> \<longleftrightarrow> le_int ?s = 0"
    by (simp add: le_int_zero all_set_conv_all_nth)
  finally show ?thesis
    by (simp add: fe_isnonzero_def le_int_fe_tobytes [OF assms])
qed

lemma fe_isnegative_eq:
  assumes "fe_loose f"
  shows "sint (fe_isnegative f) = fe_val f mod p25519 mod 2"
proof -
  obtain b bs where s: "fe_tobytes f = b # bs"
    using length_fe_tobytes [of f] by (cases "fe_tobytes f") auto
  have "uint (ucast b AND 1 :: i32) = uint b mod 2"
    by (simp add: uint_mod unsigned_ucast_eq and_one_eq take_bit_int_eq_self uint_byte_less [THEN less_trans])
  then have "sint (ucast b AND 1 :: i32) = signed_take_bit 31 (uint b mod 2)"
    by (simp add: sint_uint)
  also have "\<dots> = uint b mod 2"
    by (intro signed_take_bit_id) (auto intro: order.trans less_trans [of _ 2])
  also have "\<dots> = le_int (fe_tobytes f) mod 2"
    by (simp add: s mod_add_eq [symmetric])
  finally show ?thesis
    unfolding le_int_fe_tobytes [OF assms] by (simp add: fe_isnegative_def s)
qed

section \<open>Properties\<close>

definition fe_sample_bytes :: "u8 list" where
  "fe_sample_bytes = map word_of_nat [200..<232]"

text \<open>
  (C31) \<^verbatim>\<open>fe_tobytes\<close> writes the canonical encoding: 32 bytes that read, little endian, as the value
  modulo \<open>2^255 - 19\<close>, whatever representation the limbs hold.
\<close>

theorem fe_tobytes_canonical:
  assumes "fe_loose h"
  shows "length (fe_tobytes h) = 32 \<and> le_int (fe_tobytes h) = fe_val h mod p25519"
  using le_int_fe_tobytes [OF assms] by simp

theorem fe_tobytes_canonical_witness:
  "length (fe_tobytes fe_sample_r) = 32 \<and> le_int (fe_tobytes fe_sample_r) = fe_val fe_sample_r mod p25519"
  by (rule fe_tobytes_canonical [OF fe_samples(4)])

text \<open>
  Decoding and encoding: the bytes of any integer below \<open>2^255 - 19\<close> come back unchanged from
  \<^verbatim>\<open>fe_frombytes\<close> followed by \<^verbatim>\<open>fe_tobytes\<close>.
\<close>

lemma fe_bytes_roundtrip:
  assumes "length s = 32" and "le_int s < p25519"
  shows "fe_tobytes (fe_frombytes s) = s"
proof (rule le_int_inj)
  have "fe_loose (fe_frombytes s)"
    using assms(1) by (intro fe_weaken fe_frombytes_tight)
  then have "le_int (fe_tobytes (fe_frombytes s)) = le_int s mod 2 ^ 255 mod p25519"
    using le_int_fe_tobytes fe_frombytes_mod assms(1) by presburger
  also have "\<dots> = le_int s"
    using assms(2) by (simp add: p25519_def)
  finally show "le_int (fe_tobytes (fe_frombytes s)) = le_int s" .
qed (simp add: assms)

text \<open>
  \<^verbatim>\<open>fe_frombytes\<close> ignores the top bit: for any 32 bytes it returns, within tight bounds, the
  low 255 bits modulo \<open>2^255 - 19\<close>, also when they exceed the modulus.
\<close>

lemma fe_frombytes_correct:
  assumes "length s = 32"
  shows "fe_tight (fe_frombytes s) \<and>
    fe_val (fe_frombytes s) mod p25519 = le_int s mod 2 ^ 255 mod p25519"
  using fe_frombytes_tight [OF assms] fe_frombytes_mod [OF assms] by (rule conjI)

text \<open>
  \<^verbatim>\<open>fe_isnonzero\<close> and \<^verbatim>\<open>fe_isnegative\<close> decide about the residue, not about the limbs: zero in
  any representation is recognised, and the sign is the parity of the canonical representative.
\<close>

lemma fe_tests_correct:
  assumes "fe_loose f"
  shows "(fe_isnonzero f \<longleftrightarrow> fe_val f mod p25519 \<noteq> 0) \<and>
    sint (fe_isnegative f) = fe_val f mod p25519 mod 2"
  using fe_isnonzero_iff [OF assms] fe_isnegative_eq [OF assms] by simp

end
