(* ===== verification/Sc25519.thy ===== *)
theory Sc25519
  imports Fe25519Bytes
begin

text \<open>
  \<^verbatim>\<open>lib/verifier/ed25519/sc.c\<close>: arithmetic modulo the group order
  \<open>l = 2^252 + 27742317777372353535851937790883648493\<close> on signed 64-bit limbs in radix \<open>2^21\<close>.

  The two functions are straight-line code over the variables \<^verbatim>\<open>s0 \<dots> s23\<close>, here a list of 24 words.
  After the limbs are loaded (\<^verbatim>\<open>sc_reduce\<close>) or multiplied (\<^verbatim>\<open>sc_muladd\<close>), the code repeats three
  groups of statements; each is one \<open>sc_step\<close>, and the program is the list of steps in source order:
  \<^item> \<open>Fold k\<close>: \<^verbatim>\<open>s[k-12] += s[k] * 666643; \<dots>; s[k-7] -= s[k] * 683901; s[k] = 0\<close>
  \<^item> \<open>Round k\<close>: \<^verbatim>\<open>carry = (s[k] + (1 << 20)) >> 21; s[k+1] += carry; s[k] -= carry << 21\<close>
  \<^item> \<open>Floor k\<close>: \<^verbatim>\<open>carry = s[k] >> 21; s[k+1] += carry; s[k] -= carry << 21\<close>

  The proof runs the same steps on intervals (\<open>itv_step\<close>): the run shows that no 64-bit operation
  wraps and gives the range of every limb at the end; each step preserves the value modulo \<open>l\<close>.
\<close>

section \<open>Code\<close>

definition l25519 :: int where
  "l25519 = 2 ^ 252 + 27742317777372353535851937790883648493"

datatype sc_step = Fold nat | Round nat | Floor nat

fun sc_do :: "sc_step \<Rightarrow> i64 list \<Rightarrow> i64 list" where
  "sc_do (Fold k) s =
    (let
       s = s[k - 12 := s ! (k - 12) + s ! k * 666643];
       s = s[k - 11 := s ! (k - 11) + s ! k * 470296];
       s = s[k - 10 := s ! (k - 10) + s ! k * 654183];
       s = s[k - 9 := s ! (k - 9) - s ! k * 997805];
       s = s[k - 8 := s ! (k - 8) + s ! k * 136657];
       s = s[k - 7 := s ! (k - 7) - s ! k * 683901]
     in s[k := 0])"
| "sc_do (Round k) s =
    (let
       carry = asr (s ! k + shl 1 20) 21;
       s = s[k + 1 := s ! (k + 1) + carry]
     in s[k := s ! k - shl carry 21])"
| "sc_do (Floor k) s =
    (let
       carry = asr (s ! k) 21;
       s = s[k + 1 := s ! (k + 1) + carry]
     in s[k := s ! k - shl carry 21])"

definition sc_run :: "sc_step list \<Rightarrow> i64 list \<Rightarrow> i64 list" where
  "sc_run = fold sc_do"

text \<open>From \<^verbatim>\<open>s11 += s23 * 666643\<close> on, the same in both functions.\<close>

definition sc_tail_steps :: "sc_step list" where
  "sc_tail_steps =
     map Fold [23, 22, 21, 20, 19, 18] @
     map Round [6, 8, 10, 12, 14, 16, 7, 9, 11, 13, 15] @
     map Fold [17, 16, 15, 14, 13, 12] @
     map Round [0, 2, 4, 6, 8, 10, 1, 3, 5, 7, 9, 11] @
     map Fold [12] @
     map Floor [0, 1, 2, 3, 4, 5, 6, 7, 8, 9, 10, 11] @
     map Fold [12] @
     map Floor [0, 1, 2, 3, 4, 5, 6, 7, 8, 9, 10]"

definition sc_product_steps :: "sc_step list" where
  "sc_product_steps = map Round [0, 2, 4, 6, 8, 10, 12, 14, 16, 18, 20, 22, 1, 3, 5, 7, 9, 11, 13, 15, 17, 19, 21]"

definition sc_load_64 :: "u8 list \<Rightarrow> i64 list" where
  "sc_load_64 s =
    [2097151 AND load_3 s 0,
     2097151 AND lsr (load_4 s 2) 5,
     2097151 AND lsr (load_3 s 5) 2,
     2097151 AND lsr (load_4 s 7) 7,
     2097151 AND lsr (load_4 s 10) 4,
     2097151 AND lsr (load_3 s 13) 1,
     2097151 AND lsr (load_4 s 15) 6,
     2097151 AND lsr (load_3 s 18) 3,
     2097151 AND load_3 s 21,
     2097151 AND lsr (load_4 s 23) 5,
     2097151 AND lsr (load_3 s 26) 2,
     2097151 AND lsr (load_4 s 28) 7,
     2097151 AND lsr (load_4 s 31) 4,
     2097151 AND lsr (load_3 s 34) 1,
     2097151 AND lsr (load_4 s 36) 6,
     2097151 AND lsr (load_3 s 39) 3,
     2097151 AND load_3 s 42,
     2097151 AND lsr (load_4 s 44) 5,
     2097151 AND lsr (load_3 s 47) 2,
     2097151 AND lsr (load_4 s 49) 7,
     2097151 AND lsr (load_4 s 52) 4,
     2097151 AND lsr (load_3 s 55) 1,
     2097151 AND lsr (load_4 s 57) 6,
     lsr (load_4 s 60) 3]"

definition sc_load_32 :: "u8 list \<Rightarrow> i64 list" where
  "sc_load_32 s =
    [2097151 AND load_3 s 0,
     2097151 AND lsr (load_4 s 2) 5,
     2097151 AND lsr (load_3 s 5) 2,
     2097151 AND lsr (load_4 s 7) 7,
     2097151 AND lsr (load_4 s 10) 4,
     2097151 AND lsr (load_3 s 13) 1,
     2097151 AND lsr (load_4 s 15) 6,
     2097151 AND lsr (load_3 s 18) 3,
     2097151 AND load_3 s 21,
     2097151 AND lsr (load_4 s 23) 5,
     2097151 AND lsr (load_3 s 26) 2,
     lsr (load_4 s 28) 7]"

definition sc_products :: "i64 list \<Rightarrow> i64 list \<Rightarrow> i64 list \<Rightarrow> i64 list" where
  "sc_products a b c =
    [c ! 0 + a ! 0 * b ! 0,
     c ! 1 + a ! 0 * b ! 1 + a ! 1 * b ! 0,
     c ! 2 + a ! 0 * b ! 2 + a ! 1 * b ! 1 + a ! 2 * b ! 0,
     c ! 3 + a ! 0 * b ! 3 + a ! 1 * b ! 2 + a ! 2 * b ! 1 + a ! 3 * b ! 0,
     c ! 4 + a ! 0 * b ! 4 + a ! 1 * b ! 3 + a ! 2 * b ! 2 + a ! 3 * b ! 1 + a ! 4 * b ! 0,
     c ! 5 + a ! 0 * b ! 5 + a ! 1 * b ! 4 + a ! 2 * b ! 3 + a ! 3 * b ! 2 + a ! 4 * b ! 1 + a ! 5 * b ! 0,
     c ! 6 + a ! 0 * b ! 6 + a ! 1 * b ! 5 + a ! 2 * b ! 4 + a ! 3 * b ! 3 + a ! 4 * b ! 2 + a ! 5 * b ! 1 + a ! 6 * b ! 0,
     c ! 7 + a ! 0 * b ! 7 + a ! 1 * b ! 6 + a ! 2 * b ! 5 + a ! 3 * b ! 4 + a ! 4 * b ! 3 + a ! 5 * b ! 2 + a ! 6 * b ! 1 + a ! 7 * b ! 0,
     c ! 8 + a ! 0 * b ! 8 + a ! 1 * b ! 7 + a ! 2 * b ! 6 + a ! 3 * b ! 5 + a ! 4 * b ! 4 + a ! 5 * b ! 3 + a ! 6 * b ! 2 + a ! 7 * b ! 1 + a ! 8 * b ! 0,
     c ! 9 + a ! 0 * b ! 9 + a ! 1 * b ! 8 + a ! 2 * b ! 7 + a ! 3 * b ! 6 + a ! 4 * b ! 5 + a ! 5 * b ! 4 + a ! 6 * b ! 3 + a ! 7 * b ! 2 + a ! 8 * b ! 1 + a ! 9 * b ! 0,
     c ! 10 + a ! 0 * b ! 10 + a ! 1 * b ! 9 + a ! 2 * b ! 8 + a ! 3 * b ! 7 + a ! 4 * b ! 6 + a ! 5 * b ! 5 + a ! 6 * b ! 4 + a ! 7 * b ! 3 + a ! 8 * b ! 2 + a ! 9 * b ! 1 + a ! 10 * b ! 0,
     c ! 11 + a ! 0 * b ! 11 + a ! 1 * b ! 10 + a ! 2 * b ! 9 + a ! 3 * b ! 8 + a ! 4 * b ! 7 + a ! 5 * b ! 6 + a ! 6 * b ! 5 + a ! 7 * b ! 4 + a ! 8 * b ! 3 + a ! 9 * b ! 2 + a ! 10 * b ! 1 + a ! 11 * b ! 0,
     a ! 1 * b ! 11 + a ! 2 * b ! 10 + a ! 3 * b ! 9 + a ! 4 * b ! 8 + a ! 5 * b ! 7 + a ! 6 * b ! 6 + a ! 7 * b ! 5 + a ! 8 * b ! 4 + a ! 9 * b ! 3 + a ! 10 * b ! 2 + a ! 11 * b ! 1,
     a ! 2 * b ! 11 + a ! 3 * b ! 10 + a ! 4 * b ! 9 + a ! 5 * b ! 8 + a ! 6 * b ! 7 + a ! 7 * b ! 6 + a ! 8 * b ! 5 + a ! 9 * b ! 4 + a ! 10 * b ! 3 + a ! 11 * b ! 2,
     a ! 3 * b ! 11 + a ! 4 * b ! 10 + a ! 5 * b ! 9 + a ! 6 * b ! 8 + a ! 7 * b ! 7 + a ! 8 * b ! 6 + a ! 9 * b ! 5 + a ! 10 * b ! 4 + a ! 11 * b ! 3,
     a ! 4 * b ! 11 + a ! 5 * b ! 10 + a ! 6 * b ! 9 + a ! 7 * b ! 8 + a ! 8 * b ! 7 + a ! 9 * b ! 6 + a ! 10 * b ! 5 + a ! 11 * b ! 4,
     a ! 5 * b ! 11 + a ! 6 * b ! 10 + a ! 7 * b ! 9 + a ! 8 * b ! 8 + a ! 9 * b ! 7 + a ! 10 * b ! 6 + a ! 11 * b ! 5,
     a ! 6 * b ! 11 + a ! 7 * b ! 10 + a ! 8 * b ! 9 + a ! 9 * b ! 8 + a ! 10 * b ! 7 + a ! 11 * b ! 6,
     a ! 7 * b ! 11 + a ! 8 * b ! 10 + a ! 9 * b ! 9 + a ! 10 * b ! 8 + a ! 11 * b ! 7,
     a ! 8 * b ! 11 + a ! 9 * b ! 10 + a ! 10 * b ! 9 + a ! 11 * b ! 8,
     a ! 9 * b ! 11 + a ! 10 * b ! 10 + a ! 11 * b ! 9,
     a ! 10 * b ! 11 + a ! 11 * b ! 10,
     a ! 11 * b ! 11,
     0]"

definition sc_pack :: "i64 list \<Rightarrow> u8 list" where
  "sc_pack s =
    [ucast (asr (s ! 0) 0),
     ucast (asr (s ! 0) 8),
     ucast (asr (s ! 0) 16 OR shl (s ! 1) 5),
     ucast (asr (s ! 1) 3),
     ucast (asr (s ! 1) 11),
     ucast (asr (s ! 1) 19 OR shl (s ! 2) 2),
     ucast (asr (s ! 2) 6),
     ucast (asr (s ! 2) 14 OR shl (s ! 3) 7),
     ucast (asr (s ! 3) 1),
     ucast (asr (s ! 3) 9),
     ucast (asr (s ! 3) 17 OR shl (s ! 4) 4),
     ucast (asr (s ! 4) 4),
     ucast (asr (s ! 4) 12),
     ucast (asr (s ! 4) 20 OR shl (s ! 5) 1),
     ucast (asr (s ! 5) 7),
     ucast (asr (s ! 5) 15 OR shl (s ! 6) 6),
     ucast (asr (s ! 6) 2),
     ucast (asr (s ! 6) 10),
     ucast (asr (s ! 6) 18 OR shl (s ! 7) 3),
     ucast (asr (s ! 7) 5),
     ucast (asr (s ! 7) 13),
     ucast (asr (s ! 8) 0),
     ucast (asr (s ! 8) 8),
     ucast (asr (s ! 8) 16 OR shl (s ! 9) 5),
     ucast (asr (s ! 9) 3),
     ucast (asr (s ! 9) 11),
     ucast (asr (s ! 9) 19 OR shl (s ! 10) 2),
     ucast (asr (s ! 10) 6),
     ucast (asr (s ! 10) 14 OR shl (s ! 11) 7),
     ucast (asr (s ! 11) 1),
     ucast (asr (s ! 11) 9),
     ucast (asr (s ! 11) 17)]"

text \<open>\<^verbatim>\<open>sc_reduce\<close> overwrites the first 32 of the 64 bytes in place.\<close>

definition sc_reduce :: "u8 list \<Rightarrow> u8 list" where
  "sc_reduce s = sc_pack (sc_run sc_tail_steps (sc_load_64 s)) @ drop 32 s"

definition sc_muladd :: "u8 list \<Rightarrow> u8 list \<Rightarrow> u8 list \<Rightarrow> u8 list" where
  "sc_muladd a b c =
    sc_pack (sc_run sc_tail_steps (sc_run sc_product_steps
      (sc_products (sc_load_32 a) (sc_load_32 b) (sc_load_32 c))))"

text \<open>
  The same steps on unbounded integers, undefined as soon as the result of one of their multiplications,
  additions, subtractions or shifts leaves the range of \<^verbatim>\<open>int64_t\<close> (a shift of the carry to the left is
  a multiplication).
\<close>

definition chk64 :: "int \<Rightarrow> int option" where
  "chk64 v = (if - (2 ^ 63) \<le> v \<and> v < 2 ^ 63 then Some v else None)"

definition chk_add_mult :: "nat \<Rightarrow> nat \<Rightarrow> int \<Rightarrow> int list \<Rightarrow> int list option" where
  "chk_add_mult i k c s = Option.bind (chk64 (s ! k * c)) (\<lambda>p. map_option (\<lambda>v. s[i := v]) (chk64 (s ! i + p)))"

definition chk_sub_mult :: "nat \<Rightarrow> nat \<Rightarrow> int \<Rightarrow> int list \<Rightarrow> int list option" where
  "chk_sub_mult i k c s = Option.bind (chk64 (s ! k * c)) (\<lambda>p. map_option (\<lambda>v. s[i := v]) (chk64 (s ! i - p)))"

definition chk_carry :: "nat \<Rightarrow> int \<Rightarrow> int list \<Rightarrow> int list option" where
  "chk_carry k carry s =
    Option.bind (chk64 (s ! (k + 1) + carry)) (\<lambda>v. let s = s[k + 1 := v] in
      Option.bind (chk64 (carry * 2 ^ 21)) (\<lambda>w. map_option (\<lambda>v. s[k := v]) (chk64 (s ! k - w))))"

fun sc_do_checked :: "sc_step \<Rightarrow> int list \<Rightarrow> int list option" where
  "sc_do_checked (Fold k) s =
    Option.bind (chk_add_mult (k - 12) k 666643 s) (\<lambda>s.
    Option.bind (chk_add_mult (k - 11) k 470296 s) (\<lambda>s.
    Option.bind (chk_add_mult (k - 10) k 654183 s) (\<lambda>s.
    Option.bind (chk_sub_mult (k - 9) k 997805 s) (\<lambda>s.
    Option.bind (chk_add_mult (k - 8) k 136657 s) (\<lambda>s.
    Option.bind (chk_sub_mult (k - 7) k 683901 s) (\<lambda>s.
    Some (s[k := 0])))))))"
| "sc_do_checked (Round k) s = Option.bind (chk64 (s ! k + 2 ^ 20)) (\<lambda>t. chk_carry k (t div 2 ^ 21) s)"
| "sc_do_checked (Floor k) s = chk_carry k (s ! k div 2 ^ 21) s"

primrec sc_run_checked :: "sc_step list \<Rightarrow> int list \<Rightarrow> int list option" where
  "sc_run_checked [] s = Some s"
| "sc_run_checked (t # ts) s = Option.bind (sc_do_checked t s) (sc_run_checked ts)"

section \<open>Values and intervals\<close>

definition sc_val :: "i64 list \<Rightarrow> int" where
  "sc_val s = (\<Sum>i<length s. sint (s ! i) * 2 ^ (21 * i))"

type_synonym itv = "int \<times> int"

definition within :: "itv list \<Rightarrow> i64 list \<Rightarrow> bool" where
  "within B s \<longleftrightarrow> length B = length s \<and>
    (\<forall>i<length s. fst (B ! i) \<le> sint (s ! i) \<and> sint (s ! i) \<le> snd (B ! i))"

definition fits :: "itv \<Rightarrow> bool" where
  "fits I \<longleftrightarrow> - (2 ^ 63) < fst I \<and> snd I < 2 ^ 63"

definition itv_add :: "itv \<Rightarrow> itv \<Rightarrow> itv" where
  "itv_add I J = (fst I + fst J, snd I + snd J)"

definition itv_scale :: "int \<Rightarrow> itv \<Rightarrow> itv" where
  "itv_scale c I = (if 0 \<le> c then (c * fst I, c * snd I) else (c * snd I, c * fst I))"

definition itv_div :: "itv \<Rightarrow> itv" where
  "itv_div I = (fst I div 2 ^ 21, snd I div 2 ^ 21)"

definition itv_acc :: "nat \<Rightarrow> nat \<Rightarrow> int \<Rightarrow> itv list \<Rightarrow> itv list option" where
  "itv_acc i k c B =
    (let P = itv_scale c (B ! k); S = itv_add (B ! i) P in
     if i < length B \<and> k < length B \<and> i \<noteq> k \<and> fits P \<and> fits S then Some (B[i := S]) else None)"

definition itv_carry :: "itv \<Rightarrow> itv \<Rightarrow> nat \<Rightarrow> itv list \<Rightarrow> itv list option" where
  "itv_carry C D k B =
    (let S = itv_add (B ! (k + 1)) C in
     if k + 1 < length B \<and> fits (itv_scale (2 ^ 21) C) \<and> fits S
     then Some (B[k + 1 := S, k := D]) else None)"

fun itv_step :: "sc_step \<Rightarrow> itv list \<Rightarrow> itv list option" where
  "itv_step (Fold k) B =
    (if k < 12 then None else
     Option.bind (itv_acc (k - 12) k 666643 B) (\<lambda>B.
     Option.bind (itv_acc (k - 11) k 470296 B) (\<lambda>B.
     Option.bind (itv_acc (k - 10) k 654183 B) (\<lambda>B.
     Option.bind (itv_acc (k - 9) k (- 997805) B) (\<lambda>B.
     Option.bind (itv_acc (k - 8) k 136657 B) (\<lambda>B.
     Option.bind (itv_acc (k - 7) k (- 683901) B) (\<lambda>B.
     Some (B[k := (0, 0)]))))))))"
| "itv_step (Round k) B =
    (let I = itv_add (B ! k) (2 ^ 20, 2 ^ 20) in
     if fits I then itv_carry (itv_div I) (- (2 ^ 20), 2 ^ 20 - 1) k B else None)"
| "itv_step (Floor k) B = itv_carry (itv_div (B ! k)) (0, 2 ^ 21 - 1) k B"

fun itv_run :: "sc_step list \<Rightarrow> itv list \<Rightarrow> itv list option" where
  "itv_run [] B = Some B"
| "itv_run (t # ts) B = Option.bind (itv_step t B) (itv_run ts)"

lemma withinD: "within B s \<Longrightarrow> i < length s \<Longrightarrow> fst (B ! i) \<le> sint (s ! i) \<and> sint (s ! i) \<le> snd (B ! i)"
  by (simp add: within_def)

lemma within_length: "within B s \<Longrightarrow> length B = length s"
  by (simp add: within_def)

lemma within_update:
  assumes "within B s" and "fst I \<le> sint w" and "sint w \<le> snd I"
  shows "within (B[i := I]) (s[i := w])"
  using assms by (cases "i < length s") (auto simp: within_def nth_list_update)

lemma sc_val_update:
  assumes "i < length s"
  shows "sc_val (s[i := w]) = sc_val s + (sint w - sint (s ! i)) * 2 ^ (21 * i)"
proof -
  have "sc_val (s[i := w]) = (\<Sum>j<length s. sint (s ! j) * 2 ^ (21 * j) +
      (if j = i then (sint w - sint (s ! i)) * 2 ^ (21 * i) else 0))"
    unfolding sc_val_def by (intro sum.cong) (auto simp: nth_list_update algebra_simps)
  also have "\<dots> = sc_val s + (sint w - sint (s ! i)) * 2 ^ (21 * i)"
    using assms by (simp add: sum.distrib sc_val_def)
  finally show ?thesis .
qed

text \<open>A result that fits in 64 bits is exact.\<close>

lemma sint_exact:
  assumes "sint (w :: i64) = signed_take_bit 63 v" and "fst I \<le> v" and "v \<le> snd I" and "fits I"
  shows "sint w = v"
  using assms by (simp add: fits_def signed_take_bit_int_eq_self)

lemma itv_scale_in:
  "fst I \<le> x \<Longrightarrow> x \<le> snd I \<Longrightarrow> fst (itv_scale c I) \<le> c * x \<and> c * x \<le> snd (itv_scale c I)"
  by (auto simp: itv_scale_def intro: mult_left_mono mult_left_mono_neg)

lemma itv_div_in:
  "fst I \<le> x \<Longrightarrow> x \<le> snd I \<Longrightarrow> fst (itv_div I) \<le> x div 2 ^ 21 \<and> x div 2 ^ 21 \<le> snd (itv_div I)"
  by (auto simp: itv_div_def intro: zdiv_mono1)

section \<open>Soundness of a step\<close>

definition sc_acc :: "nat \<Rightarrow> nat \<Rightarrow> i64 \<Rightarrow> i64 list \<Rightarrow> i64 list" where
  "sc_acc i k c s = s[i := s ! i + s ! k * c]"

lemma chk64_sint [simp]: "chk64 (sint (w :: i64)) = Some (sint w)"
  using sint_ge [of w] sint_lt [of w] by (simp add: chk64_def)

lemma chk64_eq: "sint (w :: i64) = v \<Longrightarrow> chk64 v = Some (sint w)"
  using chk64_sint [of w] by simp

lemma chk_exact:
  assumes "i < length s" and "k < length s" and "sint (s ! k * w) = sint (s ! k) * c"
    and "sint (s ! k * - w) = sint (s ! k) * - c" and "sint (s ! i + s ! k * w) = sint (s ! i) + sint (s ! k) * c"
  shows "chk_add_mult i k c (map sint s) = Some (map sint (sc_acc i k w s))"
    and "chk_sub_mult i k (- c) (map sint s) = Some (map sint (sc_acc i k w s))"
  using assms(1,2) chk64_eq [OF assms(3), unfolded assms(3)] chk64_eq [OF assms(4), unfolded assms(4)]
    chk64_eq [OF assms(5), unfolded assms(5)]
  by (simp_all add: chk_add_mult_def chk_sub_mult_def sc_acc_def assms(5) map_update)

lemma itv_acc_sound:
  assumes "itv_acc i k c B = Some B'" and "within B s" and "sint w = c"
  shows "within B' (sc_acc i k w s) \<and> length (sc_acc i k w s) = length s \<and>
    sc_acc i k w s ! k = s ! k \<and>
    chk_add_mult i k c (map sint s) = Some (map sint (sc_acc i k w s)) \<and>
    chk_sub_mult i k (- c) (map sint s) = Some (map sint (sc_acc i k w s)) \<and>
    sc_val (sc_acc i k w s) = sc_val s + sint (s ! k) * (c * 2 ^ (21 * i))"
proof -
  let ?P = "itv_scale c (B ! k)"
  let ?S = "itv_add (B ! i) ?P"
  have len: "length B = length s" using assms(2) by (rule within_length)
  have ok: "i < length s" "k < length s" "i \<noteq> k" "fits ?P" "fits ?S" and B': "B' = B[i := ?S]"
    using assms(1) len by (auto simp: itv_acc_def Let_def split: if_splits)
  note bi = withinD [OF assms(2) ok(1)] and bk = withinD [OF assms(2) ok(2)]
  have p: "fst ?P \<le> c * sint (s ! k)" "c * sint (s ! k) \<le> snd ?P"
    using itv_scale_in bk by blast+
  have pw: "sint (s ! k * w) = c * sint (s ! k)"
    by (rule sint_exact [of _ _ ?P]) (use p ok(4) assms(3) in \<open>simp_all add: sint_word_mult mult.commute\<close>)
  have mw: "sint (s ! k * - w) = - (c * sint (s ! k))"
  proof -
    have "sint (- (s ! k * w)) = - sint (s ! k * w)"
      using p ok(4) pw by (simp add: sint_word_minus fits_def signed_take_bit_int_eq_self)
    then show ?thesis using pw by simp
  qed
  have s: "fst ?S \<le> sint (s ! i) + c * sint (s ! k)" "sint (s ! i) + c * sint (s ! k) \<le> snd ?S"
    using bi p by (simp_all add: itv_add_def)
  have sw: "sint (s ! i + s ! k * w) = sint (s ! i) + c * sint (s ! k)"
    by (rule sint_exact [of _ _ ?S]) (use s ok(5) pw in \<open>simp_all add: sint_word_add\<close>)
  have "within B' (sc_acc i k w s)"
    unfolding B' sc_acc_def using s sw by (intro within_update assms(2)) linarith+
  moreover have "sc_val (sc_acc i k w s) = sc_val s + sint (s ! k) * (c * 2 ^ (21 * i))"
    unfolding sc_acc_def sc_val_update [OF ok(1)] sw by (simp add: mult.commute mult.left_commute)
  ultimately show ?thesis
    using ok(3) chk_exact [OF ok(1,2), of w c] pw mw sw by (simp add: sc_acc_def mult.commute)
qed

lemma itv_carry_sound:
  assumes "itv_carry C D k B = Some B'" and "within B s"
    and "fst C \<le> sint c" and "sint c \<le> snd C"
    and "fst D \<le> sint (s ! k) - sint c * 2 ^ 21" and "sint (s ! k) - sint c * 2 ^ 21 \<le> snd D" and "fits D"
    and u: "u = s[k + 1 := s ! (k + 1) + c]"
  shows "within B' (u[k := u ! k - shl c 21]) \<and> sc_val (u[k := u ! k - shl c 21]) = sc_val s \<and>
    chk_carry k (sint c) (map sint s) = Some (map sint (u[k := u ! k - shl c 21]))"
proof -
  let ?S = "itv_add (B ! (k + 1)) C"
  have len: "length B = length s" using assms(2) by (rule within_length)
  have ok: "k + 1 < length s" "fits (itv_scale (2 ^ 21) C)" "fits ?S" and B': "B' = B[k + 1 := ?S, k := D]"
    using assms(1) len by (auto simp: itv_carry_def Let_def split: if_splits)
  have s: "fst ?S \<le> sint (s ! (k + 1)) + sint c" "sint (s ! (k + 1)) + sint c \<le> snd ?S"
    using withinD [OF assms(2) ok(1)] assms(3,4) by (simp_all add: itv_add_def)
  have sw: "sint (s ! (k + 1) + c) = sint (s ! (k + 1)) + sint c"
    by (rule sint_exact [of _ _ ?S]) (use s ok(3) in \<open>simp_all add: sint_word_add\<close>)
  have sh: "sint (shl c 21) = 2 ^ 21 * sint c"
    by (rule sint_exact [of _ _ "itv_scale (2 ^ 21) C"]) (use itv_scale_in [OF assms(3,4), of "2 ^ 21"] ok(2) in \<open>simp_all add: sint_shl_raw mult.commute\<close>)
  have dw: "sint (s ! k - shl c 21) = sint (s ! k) - sint c * 2 ^ 21"
    by (rule sint_exact [of _ _ D]) (use assms(5-7) sh in \<open>simp_all add: sint_word_diff mult.commute\<close>)
  have uk: "u ! k = s ! k" "length u = length s" "k < length u" using u ok(1) by simp_all
  have "within B' (u[k := u ! k - shl c 21])"
    unfolding B' using s dw sw assms(5,6) uk(1)
    by (intro within_update) (simp_all only: u within_update [OF assms(2)])
  moreover have "sc_val u = sc_val s + sint c * 2 ^ (21 * (k + 1))"
    unfolding u using ok(1) sw by (simp add: sc_val_update)
  moreover have "(2 :: int) ^ (21 * (k + 1)) = 2 ^ 21 * 2 ^ (21 * k)"
    by (simp add: power_add)
  moreover have "chk_carry k (sint c) (map sint s) = Some (map sint (u[k := u ! k - shl c 21]))"
    using chk64_eq [OF sw] chk64_eq [OF sh] chk64_eq [OF dw] ok(1) sw dw
    by (simp add: chk_carry_def Let_def u map_update sh mult.commute [of "sint c"])
  ultimately show ?thesis
    using uk dw by (simp add: sc_val_update)
qed

lemma itv_step_round:
  assumes "itv_step (Round k) B = Some B'" and "within B s"
  shows "within B' (sc_do (Round k) s) \<and> sc_val (sc_do (Round k) s) = sc_val s \<and>
    sc_do_checked (Round k) (map sint s) = Some (map sint (sc_do (Round k) s))"
proof -
  let ?I = "itv_add (B ! k) (2 ^ 20, 2 ^ 20)" and ?c = "asr (s ! k + shl 1 20) 21"
  have ok: "fits ?I" and carry: "itv_carry (itv_div ?I) (- (2 ^ 20), 2 ^ 20 - 1) k B = Some B'"
    using assms(1) by (auto simp: Let_def split: if_splits)
  then have "k < length s"
    using within_length [OF assms(2)] by (auto simp: itv_carry_def Let_def split: if_splits)
  note b = withinD [OF assms(2) this]
  have a: "sint (s ! k + shl 1 20) = sint (s ! k) + 2 ^ 20"
    by (rule sint_exact [of _ _ ?I]) (use b ok in \<open>simp_all add: sint_word_add itv_add_def\<close>)
  then have c: "sint ?c = (sint (s ! k) + 2 ^ 20) div 2 ^ 21"
    by (simp add: sint_asr)
  have chk: "sc_do_checked (Round k) (map sint s) = chk_carry k (sint ?c) (map sint s)"
    using chk64_eq [OF a] a c \<open>k < length s\<close> by simp
  have rem: "- (2 ^ 20) \<le> v - (v + 2 ^ 20) div 2 ^ 21 * 2 ^ 21"
      "v - (v + 2 ^ 20) div 2 ^ 21 * 2 ^ 21 \<le> 2 ^ 20 - 1" for v :: int
  proof -
    have e: "v - (v + 2 ^ 20) div 2 ^ 21 * 2 ^ 21 = (v + 2 ^ 20) mod 2 ^ 21 - 2 ^ 20"
      using div_mult_mod_eq [of "v + 2 ^ 20" "2 ^ 21"] by linarith
    show "- (2 ^ 20) \<le> v - (v + 2 ^ 20) div 2 ^ 21 * 2 ^ 21" "v - (v + 2 ^ 20) div 2 ^ 21 * 2 ^ 21 \<le> 2 ^ 20 - 1"
      unfolding e using pos_mod_bound [of "2 ^ 21" "v + 2 ^ 20"] by simp_all
  qed
  have i: "fst (itv_div ?I) \<le> sint ?c" "sint ?c \<le> snd (itv_div ?I)"
    unfolding c using b itv_div_in [of ?I "sint (s ! k) + 2 ^ 20"] by (simp_all add: itv_add_def)
  have d: "fst (- (2 ^ 20) :: int, 2 ^ 20 - 1 :: int) \<le> sint (s ! k) - sint ?c * 2 ^ 21"
    "sint (s ! k) - sint ?c * 2 ^ 21 \<le> snd (- (2 ^ 20) :: int, 2 ^ 20 - 1 :: int)"
    unfolding c fst_conv snd_conv by (rule rem)+
  show ?thesis
    unfolding chk sc_do.simps Let_def
    by (rule itv_carry_sound [OF carry assms(2) i d _ refl]) (simp add: fits_def)
qed

lemma itv_step_floor:
  assumes "itv_step (Floor k) B = Some B'" and "within B s"
  shows "within B' (sc_do (Floor k) s) \<and> sc_val (sc_do (Floor k) s) = sc_val s \<and>
    sc_do_checked (Floor k) (map sint s) = Some (map sint (sc_do (Floor k) s))"
proof -
  let ?c = "asr (s ! k) 21"
  have carry: "itv_carry (itv_div (B ! k)) (0, 2 ^ 21 - 1) k B = Some B'"
    using assms(1) by simp
  then have "k < length s"
    using within_length [OF assms(2)] by (auto simp: itv_carry_def Let_def split: if_splits)
  note b = withinD [OF assms(2) this]
  have c: "sint ?c = sint (s ! k) div 2 ^ 21"
    by (simp add: sint_asr)
  then have chk: "sc_do_checked (Floor k) (map sint s) = chk_carry k (sint ?c) (map sint s)"
    using \<open>k < length s\<close> by simp
  have i: "fst (itv_div (B ! k)) \<le> sint ?c" "sint ?c \<le> snd (itv_div (B ! k))"
    unfolding c using b itv_div_in by blast+
  have m: "sint (s ! k) - sint ?c * 2 ^ 21 = sint (s ! k) mod 2 ^ 21"
    unfolding c by (simp add: minus_div_mult_eq_mod)
  have d: "fst (0 :: int, 2 ^ 21 - 1 :: int) \<le> sint (s ! k) - sint ?c * 2 ^ 21"
    "sint (s ! k) - sint ?c * 2 ^ 21 \<le> snd (0 :: int, 2 ^ 21 - 1 :: int)"
    unfolding m using pos_mod_bound [of "2 ^ 21" "sint (s ! k)"] by simp_all
  show ?thesis
    unfolding chk sc_do.simps Let_def
    by (rule itv_carry_sound [OF carry assms(2) i d _ refl]) (simp add: fits_def)
qed

text \<open>A fold takes \<open>l\<close> times the folded limb off the value.\<close>

lemma fold_constant:
  fixes x :: int
  assumes "12 \<le> k"
  shows "x * (666643 * 2 ^ (21 * (k - 12))) + x * (470296 * 2 ^ (21 * (k - 11))) + x * (654183 * 2 ^ (21 * (k - 10))) +
    x * (- 997805 * 2 ^ (21 * (k - 9))) + x * (136657 * 2 ^ (21 * (k - 8))) + x * (- 683901 * 2 ^ (21 * (k - 7)))
    - x * 2 ^ (21 * k) = - (l25519 * (x * 2 ^ (21 * (k - 12))))"
proof -
  obtain j where k: "k = j + 12" using assms by (metis le_add_diff_inverse2)
  show ?thesis
    unfolding k l25519_def by (simp add: power_add algebra_simps)
qed

lemma itv_step_fold:
  assumes "itv_step (Fold k) B = Some B'" and "within B s"
  shows "within B' (sc_do (Fold k) s) \<and>
    sc_val (sc_do (Fold k) s) = sc_val s - l25519 * (sint (s ! k) * 2 ^ (21 * (k - 12))) \<and>
    sc_do_checked (Fold k) (map sint s) = Some (map sint (sc_do (Fold k) s))"
proof -
  have k: "12 \<le> k" using assms(1) by (auto split: if_splits)
  obtain B1 B2 B3 B4 B5 B6 where B:
    "itv_acc (k - 12) k 666643 B = Some B1" "itv_acc (k - 11) k 470296 B1 = Some B2"
    "itv_acc (k - 10) k 654183 B2 = Some B3" "itv_acc (k - 9) k (- 997805) B3 = Some B4"
    "itv_acc (k - 8) k 136657 B4 = Some B5" "itv_acc (k - 7) k (- 683901) B5 = Some B6"
    and B': "B' = B6[k := (0, 0)]"
    using assms(1) k by (auto simp: bind_eq_Some_conv)
  define t1 where "t1 = sc_acc (k - 12) k 666643 s"
  define t2 where "t2 = sc_acc (k - 11) k 470296 t1"
  define t3 where "t3 = sc_acc (k - 10) k 654183 t2"
  define t4 where "t4 = sc_acc (k - 9) k (- 997805) t3"
  define t5 where "t5 = sc_acc (k - 8) k 136657 t4"
  define t6 where "t6 = sc_acc (k - 7) k (- 683901) t5"
  note s1 = itv_acc_sound [OF B(1) assms(2), of 666643, folded t1_def, simplified]
  note s2 = itv_acc_sound [OF B(2) s1 [THEN conjunct1], of 470296, folded t2_def, simplified]
  note s3 = itv_acc_sound [OF B(3) s2 [THEN conjunct1], of 654183, folded t3_def, simplified]
  note s4 = itv_acc_sound [OF B(4) s3 [THEN conjunct1], of "- 997805", folded t4_def, simplified]
  note s5 = itv_acc_sound [OF B(5) s4 [THEN conjunct1], of 136657, folded t5_def, simplified]
  note s6 = itv_acc_sound [OF B(6) s5 [THEN conjunct1], of "- 683901", folded t6_def, simplified]
  have chk: "sc_do_checked (Fold k) (map sint s) = Some (map sint (t6[k := 0]))"
    using s1 s2 s3 s4 s5 s6 by (simp add: map_update)
  have "sc_do (Fold k) s = t6[k := 0]"
    unfolding t6_def t5_def t4_def t3_def t2_def t1_def by (simp add: Let_def sc_acc_def)
  moreover have "k < length s" using B(1) within_length [OF assms(2)]
    by (auto simp: itv_acc_def Let_def split: if_splits)
  then have len: "k < length t6" and tk: "t6 ! k = s ! k" and w6: "within B6 t6"
    using s1 s2 s3 s4 s5 s6 by simp_all
  have "within B' (t6[k := 0])"
    unfolding B' by (rule within_update [OF w6]) simp_all
  moreover have "sc_val (t6[k := 0]) = sc_val s - l25519 * (sint (s ! k) * 2 ^ (21 * (k - 12)))"
    unfolding sc_val_update [OF len] tk
    using s1 s2 s3 s4 s5 s6 fold_constant [OF k, of "sint (s ! k)"] by (simp add: algebra_simps)
  ultimately show ?thesis using chk by (simp only:)
qed

definition sc_sound :: "itv list \<Rightarrow> i64 list \<Rightarrow> i64 list \<Rightarrow> bool" where
  "sc_sound B' s t \<longleftrightarrow> within B' t \<and> (\<exists>k. sc_val t = sc_val s + l25519 * k)"

lemma itv_step_checked:
  "itv_step t B = Some B' \<Longrightarrow> within B s \<Longrightarrow>
    within B' (sc_do t s) \<and> sc_do_checked t (map sint s) = Some (map sint (sc_do t s))"
  by (cases t) (simp_all only: itv_step_fold itv_step_round itv_step_floor simp_thms)

lemma itv_run_checked:
  "itv_run ts B = Some B' \<Longrightarrow> within B s \<Longrightarrow>
    within B' (sc_run ts s) \<and> sc_run_checked ts (map sint s) = Some (map sint (sc_run ts s))"
proof (induction ts arbitrary: B s)
  case (Cons t ts)
  then obtain B1 where B1: "itv_step t B = Some B1" "itv_run ts B1 = Some B'"
    by (auto simp: bind_eq_Some_conv)
  from itv_step_checked [OF B1(1) Cons.prems(2)] Cons.IH [OF B1(2)] show ?case
    by (simp add: sc_run_def)
qed (simp add: sc_run_def)

lemma itv_step_sound: "itv_step t B = Some B' \<Longrightarrow> within B s \<Longrightarrow> sc_sound B' s (sc_do t s)"
proof (cases t)
  case (Fold k)
  assume "itv_step t B = Some B'" "within B s"
  from itv_step_fold [OF this [unfolded Fold]] show ?thesis
    unfolding sc_sound_def Fold by (metis diff_conv_add_uminus mult_minus_right)
next
  case (Round k)
  assume "itv_step t B = Some B'" "within B s"
  from itv_step_round [OF this [unfolded Round]] show ?thesis
    unfolding sc_sound_def Round by (metis add.right_neutral mult_zero_right)
next
  case (Floor k)
  assume "itv_step t B = Some B'" "within B s"
  from itv_step_floor [OF this [unfolded Floor]] show ?thesis
    unfolding sc_sound_def Floor by (metis add.right_neutral mult_zero_right)
qed

lemma itv_run_sound: "itv_run ts B = Some B' \<Longrightarrow> within B s \<Longrightarrow> sc_sound B' s (sc_run ts s)"
proof (induction ts arbitrary: B s)
  case Nil
  then show ?case by (simp add: sc_sound_def sc_run_def)
next
  case (Cons t ts)
  then obtain B1 where B1: "itv_step t B = Some B1" "itv_run ts B1 = Some B'"
    by (auto simp: bind_eq_Some_conv)
  from itv_step_sound [OF B1(1) Cons.prems(2)] obtain k
    where w: "within B1 (sc_do t s)" and k: "sc_val (sc_do t s) = sc_val s + l25519 * k"
    by (auto simp: sc_sound_def)
  from Cons.IH [OF B1(2) w] obtain m
    where "within B' (sc_run ts (sc_do t s))" "sc_val (sc_run ts (sc_do t s)) = sc_val (sc_do t s) + l25519 * m"
    by (auto simp: sc_sound_def)
  with k have "sc_val (sc_run (t # ts) s) = sc_val s + l25519 * (k + m)"
    by (simp add: sc_run_def algebra_simps)
  with \<open>within B' (sc_run ts (sc_do t s))\<close> show ?case
    by (auto simp: sc_sound_def sc_run_def)
qed

section \<open>The run\<close>

text \<open>All steps but the last twelve: they end with digits and a quotient of \<open>-1\<close> or \<open>0\<close> in limb 12.\<close>

definition sc_front_steps :: "sc_step list" where
  "sc_front_steps =
     map Fold [23, 22, 21, 20, 19, 18] @
     map Round [6, 8, 10, 12, 14, 16, 7, 9, 11, 13, 15] @
     map Fold [17, 16, 15, 14, 13, 12] @
     map Round [0, 2, 4, 6, 8, 10, 1, 3, 5, 7, 9, 11] @
     map Fold [12] @
     map Floor [0, 1, 2, 3, 4, 5, 6, 7, 8, 9, 10, 11]"

definition sc_last_steps :: "sc_step list" where
  "sc_last_steps = Fold 12 # map Floor [0, 1, 2, 3, 4, 5, 6, 7, 8, 9, 10]"

lemma sc_tail_split: "sc_tail_steps = sc_front_steps @ sc_last_steps"
  by (simp add: sc_tail_steps_def sc_front_steps_def sc_last_steps_def)

definition itv_load_64 :: "itv list" where
  "itv_load_64 = replicate 23 (0, 2097151) @ [(0, 536870911)]"

definition itv_products :: "itv list" where
  "itv_products = map (\<lambda>b. (- b, b))
    [4398044413952, 8796086730753, 13194129047554, 17592171364355, 21990213681156, 26388255997957, 30786298314758, 35184340631559, 39582382948360, 43980425265161, 48378467581962, 184717873774603, 180319797903371, 175921755586570, 171523713269769, 167125670952968, 162727628636167, 158329586319366, 153931544002565, 149533501685764, 145135459368963, 140737417052162, 1125899839733761, 0]"

definition itv_front :: "itv list" where
  "itv_front = replicate 12 (0, 2097151) @ [(- 1, 0)] @ replicate 11 (0, 0)"

definition itv_last :: "itv list" where
  "itv_last = replicate 11 (0, 2097151) @ [(- 1, 2097152)] @ replicate 12 (0, 0)"

lemma itv_run_reduce: "itv_run sc_front_steps itv_load_64 = Some itv_front"
  by code_simp

lemma itv_run_muladd: "itv_run (sc_product_steps @ sc_front_steps) itv_products = Some itv_front"
  by code_simp

lemma itv_run_last: "itv_run sc_last_steps itv_front = Some itv_last"
  by code_simp

section \<open>Loading\<close>

lemma le_int_drop: "n \<le> length s \<Longrightarrow> le_int (drop n s) = le_int s div 256 ^ n"
proof -
  assume n: "n \<le> length s"
  have "le_int s = le_int (take n s) + 256 ^ n * le_int (drop n s)"
    using le_int_append [of "take n s" "drop n s"] n by simp
  moreover have "le_int (take n s) < 256 ^ n" "0 \<le> le_int (take n s)"
    using le_int_less [of "take n s"] n by simp_all
  ultimately show ?thesis by simp
qed

lemma le_int_take: "n \<le> length s \<Longrightarrow> le_int (take n s) = le_int s mod 256 ^ n"
proof -
  assume n: "n \<le> length s"
  have "le_int s = le_int (take n s) + 256 ^ n * le_int (drop n s)"
    using le_int_append [of "take n s" "drop n s"] n by simp
  moreover have "le_int (take n s) < 256 ^ n" "0 \<le> le_int (take n s)"
    using le_int_less [of "take n s"] n by simp_all
  ultimately show ?thesis by simp
qed

lemma pow_256: "(256 :: int) ^ n = 2 ^ (8 * n)"
  by (simp add: power_mult)

lemma le_int_window:
  "i + n \<le> length s \<Longrightarrow> le_int (take n (drop i s)) = take_bit (8 * n) (drop_bit (8 * i) (le_int s))"
  by (simp add: le_int_take le_int_drop pow_256 take_bit_eq_mod drop_bit_eq_div)

lemma uint_load_3_window:
  assumes "i + 3 \<le> length s"
  shows "uint (load_3 s i) = take_bit 24 (drop_bit (8 * i) (le_int s))"
proof -
  have "take 3 (drop i s) = [s ! i, s ! (i + 1), s ! (i + 2)]"
    using assms by (simp add: numeral_eq_Suc Cons_nth_drop_Suc [symmetric] take_Suc_Cons)
  then have "uint (load_3 s i) = le_int (take 3 (drop i s))"
    by (simp add: uint_load_3)
  then show ?thesis using le_int_window [of i 3 s] assms by simp
qed

lemma uint_load_4_window:
  assumes "i + 4 \<le> length s"
  shows "uint (load_4 s i) = take_bit 32 (drop_bit (8 * i) (le_int s))"
proof -
  have "take 4 (drop i s) = [s ! i, s ! (i + 1), s ! (i + 2), s ! (i + 3)]"
    using assms by (simp add: numeral_eq_Suc Cons_nth_drop_Suc [symmetric] take_Suc_Cons)
  then have "uint (load_4 s i) = le_int (take 4 (drop i s))"
    by (simp add: uint_load_4)
  then show ?thesis using le_int_window [of i 4 s] assms by simp
qed

text \<open>The 21-bit digit at bit \<open>k\<close>.\<close>

definition digit :: "nat \<Rightarrow> int \<Rightarrow> int" where
  "digit k n = take_bit 21 (drop_bit k n)"

lemma digit_range: "0 \<le> digit k n" "digit k n < 2097152"
  using take_bit_int_less_exp [of 21 "drop_bit k n"] by (simp_all add: digit_def)

lemma take_drop_take: "k + m \<le> w \<Longrightarrow> take_bit m (drop_bit k (take_bit w n)) = take_bit m (drop_bit k n)" for n :: int
  by (auto simp: bit_eq_iff bit_simps)

lemma sint_of_uint: "uint (w :: i64) = v \<Longrightarrow> v < 2 ^ 63 \<Longrightarrow> sint w = v"
proof -
  assume v: "uint w = v" "v < 2 ^ 63"
  have "0 \<le> uint w" by simp
  then show ?thesis using v by (simp add: sint_uint signed_take_bit_id)
qed

lemma uint_lsr: "uint (lsr (w :: i64) k) = drop_bit k (uint w)"
proof -
  have "take_bit 64 (uint w) = uint w"
    using uint_lt2p [of w] by (simp add: take_bit_int_eq_self)
  then show ?thesis by (simp only: unsigned_drop_bit_eq) simp
qed

lemma uint_mask_lsr: "uint (2097151 AND lsr w k) = take_bit 21 (drop_bit k (uint (w :: i64)))"
proof -
  have "(2097151 :: i64) = mask 21" by (simp add: mask_eq_exp_minus_1)
  then have "2097151 AND lsr w k = take_bit 21 (lsr w k)"
    by (simp only: take_bit_eq_mask and.commute)
  then show ?thesis by (simp only: unsigned_take_bit_eq uint_lsr)
qed

lemma sint_digit_4:
  assumes "i + 4 \<le> length s" and "k \<le> 11"
  shows "sint (2097151 AND lsr (load_4 s i) k) = digit (8 * i + k) (le_int s)"
proof (rule sint_of_uint)
  show "uint (2097151 AND lsr (load_4 s i) k) = digit (8 * i + k) (le_int s)"
    using assms by (simp only: uint_mask_lsr uint_load_4_window)
      (simp add: take_drop_take digit_def drop_bit_drop_bit add.commute)
qed (use digit_range(2) [of "8 * i + k" "le_int s"] in simp)

lemma sint_digit_3:
  assumes "i + 3 \<le> length s" and "k \<le> 3"
  shows "sint (2097151 AND lsr (load_3 s i) k) = digit (8 * i + k) (le_int s)"
proof (rule sint_of_uint)
  show "uint (2097151 AND lsr (load_3 s i) k) = digit (8 * i + k) (le_int s)"
    using assms by (simp only: uint_mask_lsr uint_load_3_window)
      (simp add: take_drop_take digit_def drop_bit_drop_bit add.commute)
qed (use digit_range(2) [of "8 * i + k" "le_int s"] in simp)

lemmas sint_digit_3_0 = sint_digit_3 [where k = 0, unfolded drop_bit_0 id_apply]

lemma sint_top:
  assumes "i + 4 = length s" and "0 < k"
  shows "sint (lsr (load_4 s i) k) = drop_bit (8 * i + k) (le_int s)"
proof (rule sint_of_uint)
  have "le_int s < 2 ^ (8 * (i + 4))" using le_int_less [of s] assms(1) by (simp add: pow_256)
  then have "le_int s < 2 ^ 32 * 2 ^ (8 * i)"
    by (simp add: power_add mult.commute)
  moreover have "drop_bit (8 * i) (le_int s) * 2 ^ (8 * i) \<le> le_int s"
    by (simp add: drop_bit_eq_div minus_mod_eq_div_mult [symmetric])
  ultimately have "drop_bit (8 * i) (le_int s) * 2 ^ (8 * i) < 2 ^ 32 * 2 ^ (8 * i)"
    by (rule le_less_trans [rotated])
  then have "drop_bit (8 * i) (le_int s) < 2 ^ 32" by simp
  then have "uint (load_4 s i) = drop_bit (8 * i) (le_int s)"
    using assms by (simp add: uint_load_4_window take_bit_int_eq_self)
  then show "uint (lsr (load_4 s i) k) = drop_bit (8 * i + k) (le_int s)"
    by (simp add: uint_lsr add.commute)
  have "drop_bit (8 * i + k) (le_int s) = drop_bit k (drop_bit (8 * i) (le_int s))"
    by (simp add: add.commute)
  also have "\<dots> \<le> drop_bit (8 * i) (le_int s)"
    unfolding drop_bit_eq_div [of k] using zdiv_mono2 [of "drop_bit (8 * i) (le_int s)" 1 "2 ^ k"] by simp
  finally show "drop_bit (8 * i + k) (le_int s) < 2 ^ 63"
    using \<open>drop_bit (8 * i) (le_int s) < 2 ^ 32\<close> by simp
qed

lemma digit_sum: "(\<Sum>i<n. digit (21 * i) m * 2 ^ (21 * i)) + drop_bit (21 * n) m * 2 ^ (21 * n) = m"
proof (induction n)
  case (Suc n)
  have "drop_bit (21 * n) m = digit (21 * n) m + 2 ^ 21 * drop_bit (21 * Suc n) m"
    using bits_ident [of 21 "drop_bit (21 * n) m"] by (simp add: digit_def push_bit_eq_mult add.commute)
  with Suc show ?case by (simp add: algebra_simps power_add)
qed simp

definition limbs_of :: "nat \<Rightarrow> int \<Rightarrow> int list" where
  "limbs_of n m = map (\<lambda>i. digit (21 * i) m) [0..<n] @ [drop_bit (21 * n) m]"

lemma sc_val_limbs_of: "map sint s = limbs_of n m \<Longrightarrow> sc_val s = m"
proof -
  assume s: "map sint s = limbs_of n m"
  have len: "length s = Suc n" using arg_cong [OF s, of length] by (simp add: limbs_of_def)
  have "sc_val s = (\<Sum>i<Suc n. map sint s ! i * 2 ^ (21 * i))"
    unfolding sc_val_def len by (intro sum.cong) (simp_all add: len)
  also have "\<dots> = (\<Sum>i<n. digit (21 * i) m * 2 ^ (21 * i)) + drop_bit (21 * n) m * 2 ^ (21 * n)"
    unfolding s by (simp add: limbs_of_def nth_append)
  finally show ?thesis by (simp only: digit_sum)
qed

lemma within_alt: "within B s \<longleftrightarrow> list_all2 (\<lambda>I v. fst I \<le> v \<and> v \<le> snd I) B (map sint s)"
  by (auto simp: within_def list_all2_conv_all_nth)

lemma sc_load_64_limbs:
  assumes "length s = 64"
  shows "map sint (sc_load_64 s) = limbs_of 23 (le_int s)"
  using assms
  by (simp add: sc_load_64_def limbs_of_def upt_rec sint_digit_4 sint_digit_3 sint_digit_3_0 sint_top)

lemma sc_load_32_limbs:
  assumes "length s = 32"
  shows "map sint (sc_load_32 s) = limbs_of 11 (le_int s)"
  using assms
  by (simp add: sc_load_32_def limbs_of_def upt_rec sint_digit_4 sint_digit_3 sint_digit_3_0 sint_top)

section \<open>Products\<close>

definition sv_pair :: "i64 \<Rightarrow> int \<times> int \<Rightarrow> bool" where
  "sv_pair w p = sv w (fst p) (snd p)"

lemma sv_pairs:
  assumes "list_all2 sv_pair ws vs"
  shows "map sint ws = map fst vs" and "within (map (\<lambda>b. (- b, b)) (map snd vs)) ws"
  using assms
  by (induction rule: list_all2_induct)
    (auto simp: within_alt sv_pair_def sv_def)

definition sc_product_values :: "i64 list \<Rightarrow> i64 list \<Rightarrow> i64 list \<Rightarrow> (int \<times> int) list" where
  "sc_product_values a b c =
    [(sint (c ! 0) + sint (a ! 0) * sint (b ! 0), 4398044413952),
     (sint (c ! 1) + sint (a ! 0) * sint (b ! 1) + sint (a ! 1) * sint (b ! 0), 8796086730753),
     (sint (c ! 2) + sint (a ! 0) * sint (b ! 2) + sint (a ! 1) * sint (b ! 1) + sint (a ! 2) * sint (b ! 0), 13194129047554),
     (sint (c ! 3) + sint (a ! 0) * sint (b ! 3) + sint (a ! 1) * sint (b ! 2) + sint (a ! 2) * sint (b ! 1) + sint (a ! 3) * sint (b ! 0), 17592171364355),
     (sint (c ! 4) + sint (a ! 0) * sint (b ! 4) + sint (a ! 1) * sint (b ! 3) + sint (a ! 2) * sint (b ! 2) + sint (a ! 3) * sint (b ! 1) + sint (a ! 4) * sint (b ! 0), 21990213681156),
     (sint (c ! 5) + sint (a ! 0) * sint (b ! 5) + sint (a ! 1) * sint (b ! 4) + sint (a ! 2) * sint (b ! 3) + sint (a ! 3) * sint (b ! 2) + sint (a ! 4) * sint (b ! 1) + sint (a ! 5) * sint (b ! 0), 26388255997957),
     (sint (c ! 6) + sint (a ! 0) * sint (b ! 6) + sint (a ! 1) * sint (b ! 5) + sint (a ! 2) * sint (b ! 4) + sint (a ! 3) * sint (b ! 3) + sint (a ! 4) * sint (b ! 2) + sint (a ! 5) * sint (b ! 1) + sint (a ! 6) * sint (b ! 0), 30786298314758),
     (sint (c ! 7) + sint (a ! 0) * sint (b ! 7) + sint (a ! 1) * sint (b ! 6) + sint (a ! 2) * sint (b ! 5) + sint (a ! 3) * sint (b ! 4) + sint (a ! 4) * sint (b ! 3) + sint (a ! 5) * sint (b ! 2) + sint (a ! 6) * sint (b ! 1) + sint (a ! 7) * sint (b ! 0), 35184340631559),
     (sint (c ! 8) + sint (a ! 0) * sint (b ! 8) + sint (a ! 1) * sint (b ! 7) + sint (a ! 2) * sint (b ! 6) + sint (a ! 3) * sint (b ! 5) + sint (a ! 4) * sint (b ! 4) + sint (a ! 5) * sint (b ! 3) + sint (a ! 6) * sint (b ! 2) + sint (a ! 7) * sint (b ! 1) + sint (a ! 8) * sint (b ! 0), 39582382948360),
     (sint (c ! 9) + sint (a ! 0) * sint (b ! 9) + sint (a ! 1) * sint (b ! 8) + sint (a ! 2) * sint (b ! 7) + sint (a ! 3) * sint (b ! 6) + sint (a ! 4) * sint (b ! 5) + sint (a ! 5) * sint (b ! 4) + sint (a ! 6) * sint (b ! 3) + sint (a ! 7) * sint (b ! 2) + sint (a ! 8) * sint (b ! 1) + sint (a ! 9) * sint (b ! 0), 43980425265161),
     (sint (c ! 10) + sint (a ! 0) * sint (b ! 10) + sint (a ! 1) * sint (b ! 9) + sint (a ! 2) * sint (b ! 8) + sint (a ! 3) * sint (b ! 7) + sint (a ! 4) * sint (b ! 6) + sint (a ! 5) * sint (b ! 5) + sint (a ! 6) * sint (b ! 4) + sint (a ! 7) * sint (b ! 3) + sint (a ! 8) * sint (b ! 2) + sint (a ! 9) * sint (b ! 1) + sint (a ! 10) * sint (b ! 0), 48378467581962),
     (sint (c ! 11) + sint (a ! 0) * sint (b ! 11) + sint (a ! 1) * sint (b ! 10) + sint (a ! 2) * sint (b ! 9) + sint (a ! 3) * sint (b ! 8) + sint (a ! 4) * sint (b ! 7) + sint (a ! 5) * sint (b ! 6) + sint (a ! 6) * sint (b ! 5) + sint (a ! 7) * sint (b ! 4) + sint (a ! 8) * sint (b ! 3) + sint (a ! 9) * sint (b ! 2) + sint (a ! 10) * sint (b ! 1) + sint (a ! 11) * sint (b ! 0), 184717873774603),
     (sint (a ! 1) * sint (b ! 11) + sint (a ! 2) * sint (b ! 10) + sint (a ! 3) * sint (b ! 9) + sint (a ! 4) * sint (b ! 8) + sint (a ! 5) * sint (b ! 7) + sint (a ! 6) * sint (b ! 6) + sint (a ! 7) * sint (b ! 5) + sint (a ! 8) * sint (b ! 4) + sint (a ! 9) * sint (b ! 3) + sint (a ! 10) * sint (b ! 2) + sint (a ! 11) * sint (b ! 1), 180319797903371),
     (sint (a ! 2) * sint (b ! 11) + sint (a ! 3) * sint (b ! 10) + sint (a ! 4) * sint (b ! 9) + sint (a ! 5) * sint (b ! 8) + sint (a ! 6) * sint (b ! 7) + sint (a ! 7) * sint (b ! 6) + sint (a ! 8) * sint (b ! 5) + sint (a ! 9) * sint (b ! 4) + sint (a ! 10) * sint (b ! 3) + sint (a ! 11) * sint (b ! 2), 175921755586570),
     (sint (a ! 3) * sint (b ! 11) + sint (a ! 4) * sint (b ! 10) + sint (a ! 5) * sint (b ! 9) + sint (a ! 6) * sint (b ! 8) + sint (a ! 7) * sint (b ! 7) + sint (a ! 8) * sint (b ! 6) + sint (a ! 9) * sint (b ! 5) + sint (a ! 10) * sint (b ! 4) + sint (a ! 11) * sint (b ! 3), 171523713269769),
     (sint (a ! 4) * sint (b ! 11) + sint (a ! 5) * sint (b ! 10) + sint (a ! 6) * sint (b ! 9) + sint (a ! 7) * sint (b ! 8) + sint (a ! 8) * sint (b ! 7) + sint (a ! 9) * sint (b ! 6) + sint (a ! 10) * sint (b ! 5) + sint (a ! 11) * sint (b ! 4), 167125670952968),
     (sint (a ! 5) * sint (b ! 11) + sint (a ! 6) * sint (b ! 10) + sint (a ! 7) * sint (b ! 9) + sint (a ! 8) * sint (b ! 8) + sint (a ! 9) * sint (b ! 7) + sint (a ! 10) * sint (b ! 6) + sint (a ! 11) * sint (b ! 5), 162727628636167),
     (sint (a ! 6) * sint (b ! 11) + sint (a ! 7) * sint (b ! 10) + sint (a ! 8) * sint (b ! 9) + sint (a ! 9) * sint (b ! 8) + sint (a ! 10) * sint (b ! 7) + sint (a ! 11) * sint (b ! 6), 158329586319366),
     (sint (a ! 7) * sint (b ! 11) + sint (a ! 8) * sint (b ! 10) + sint (a ! 9) * sint (b ! 9) + sint (a ! 10) * sint (b ! 8) + sint (a ! 11) * sint (b ! 7), 153931544002565),
     (sint (a ! 8) * sint (b ! 11) + sint (a ! 9) * sint (b ! 10) + sint (a ! 10) * sint (b ! 9) + sint (a ! 11) * sint (b ! 8), 149533501685764),
     (sint (a ! 9) * sint (b ! 11) + sint (a ! 10) * sint (b ! 10) + sint (a ! 11) * sint (b ! 9), 145135459368963),
     (sint (a ! 10) * sint (b ! 11) + sint (a ! 11) * sint (b ! 10), 140737417052162),
     (sint (a ! 11) * sint (b ! 11), 1125899839733761),
     (0, 0)]"

lemma sc_products_sv:
  assumes "sv (a ! 0) (sint (a ! 0)) 2097151" and "sv (a ! 1) (sint (a ! 1)) 2097151" and "sv (a ! 2) (sint (a ! 2)) 2097151"
    and "sv (a ! 3) (sint (a ! 3)) 2097151" and "sv (a ! 4) (sint (a ! 4)) 2097151" and "sv (a ! 5) (sint (a ! 5)) 2097151"
    and "sv (a ! 6) (sint (a ! 6)) 2097151" and "sv (a ! 7) (sint (a ! 7)) 2097151" and "sv (a ! 8) (sint (a ! 8)) 2097151"
    and "sv (a ! 9) (sint (a ! 9)) 2097151" and "sv (a ! 10) (sint (a ! 10)) 2097151" and "sv (a ! 11) (sint (a ! 11)) 33554431"
    and "sv (b ! 0) (sint (b ! 0)) 2097151" and "sv (b ! 1) (sint (b ! 1)) 2097151" and "sv (b ! 2) (sint (b ! 2)) 2097151"
    and "sv (b ! 3) (sint (b ! 3)) 2097151" and "sv (b ! 4) (sint (b ! 4)) 2097151" and "sv (b ! 5) (sint (b ! 5)) 2097151"
    and "sv (b ! 6) (sint (b ! 6)) 2097151" and "sv (b ! 7) (sint (b ! 7)) 2097151" and "sv (b ! 8) (sint (b ! 8)) 2097151"
    and "sv (b ! 9) (sint (b ! 9)) 2097151" and "sv (b ! 10) (sint (b ! 10)) 2097151" and "sv (b ! 11) (sint (b ! 11)) 33554431"
    and "sv (c ! 0) (sint (c ! 0)) 2097151" and "sv (c ! 1) (sint (c ! 1)) 2097151" and "sv (c ! 2) (sint (c ! 2)) 2097151"
    and "sv (c ! 3) (sint (c ! 3)) 2097151" and "sv (c ! 4) (sint (c ! 4)) 2097151" and "sv (c ! 5) (sint (c ! 5)) 2097151"
    and "sv (c ! 6) (sint (c ! 6)) 2097151" and "sv (c ! 7) (sint (c ! 7)) 2097151" and "sv (c ! 8) (sint (c ! 8)) 2097151"
    and "sv (c ! 9) (sint (c ! 9)) 2097151" and "sv (c ! 10) (sint (c ! 10)) 2097151" and "sv (c ! 11) (sint (c ! 11)) 33554431"
  shows "list_all2 sv_pair (sc_products a b c) (sc_product_values a b c)"
  using assms
  unfolding sc_products_def sc_product_values_def list_all2_Cons list_all2_Nil2 sv_pair_def fst_conv snd_conv
  apply -
  apply (intro conjI)
  apply (assumption | rule TrueI | rule sv_add sv_mult | (simp (no_asm); fail) | (simp (no_asm) add: sv_def; fail) |
    rule sv_weaken)+
  done

lemma product_sum:
  "(a0 * 2 ^ 0 + a1 * 2 ^ 21 + a2 * 2 ^ 42 + a3 * 2 ^ 63 + a4 * 2 ^ 84 + a5 * 2 ^ 105 + a6 * 2 ^ 126 + a7 * 2 ^ 147 + a8 * 2 ^ 168 + a9 * 2 ^ 189 + a10 * 2 ^ 210 + a11 * 2 ^ 231) *
   (b0 * 2 ^ 0 + b1 * 2 ^ 21 + b2 * 2 ^ 42 + b3 * 2 ^ 63 + b4 * 2 ^ 84 + b5 * 2 ^ 105 + b6 * 2 ^ 126 + b7 * 2 ^ 147 + b8 * 2 ^ 168 + b9 * 2 ^ 189 + b10 * 2 ^ 210 + b11 * 2 ^ 231) +
   (c0 * 2 ^ 0 + c1 * 2 ^ 21 + c2 * 2 ^ 42 + c3 * 2 ^ 63 + c4 * 2 ^ 84 + c5 * 2 ^ 105 + c6 * 2 ^ 126 + c7 * 2 ^ 147 + c8 * 2 ^ 168 + c9 * 2 ^ 189 + c10 * 2 ^ 210 + c11 * 2 ^ 231) =
   (c0 + a0 * b0) * 2 ^ 0 +
   (c1 + a0 * b1 + a1 * b0) * 2 ^ 21 +
   (c2 + a0 * b2 + a1 * b1 + a2 * b0) * 2 ^ 42 +
   (c3 + a0 * b3 + a1 * b2 + a2 * b1 + a3 * b0) * 2 ^ 63 +
   (c4 + a0 * b4 + a1 * b3 + a2 * b2 + a3 * b1 + a4 * b0) * 2 ^ 84 +
   (c5 + a0 * b5 + a1 * b4 + a2 * b3 + a3 * b2 + a4 * b1 + a5 * b0) * 2 ^ 105 +
   (c6 + a0 * b6 + a1 * b5 + a2 * b4 + a3 * b3 + a4 * b2 + a5 * b1 + a6 * b0) * 2 ^ 126 +
   (c7 + a0 * b7 + a1 * b6 + a2 * b5 + a3 * b4 + a4 * b3 + a5 * b2 + a6 * b1 + a7 * b0) * 2 ^ 147 +
   (c8 + a0 * b8 + a1 * b7 + a2 * b6 + a3 * b5 + a4 * b4 + a5 * b3 + a6 * b2 + a7 * b1 + a8 * b0) * 2 ^ 168 +
   (c9 + a0 * b9 + a1 * b8 + a2 * b7 + a3 * b6 + a4 * b5 + a5 * b4 + a6 * b3 + a7 * b2 + a8 * b1 + a9 * b0) * 2 ^ 189 +
   (c10 + a0 * b10 + a1 * b9 + a2 * b8 + a3 * b7 + a4 * b6 + a5 * b5 + a6 * b4 + a7 * b3 + a8 * b2 + a9 * b1 + a10 * b0) * 2 ^ 210 +
   (c11 + a0 * b11 + a1 * b10 + a2 * b9 + a3 * b8 + a4 * b7 + a5 * b6 + a6 * b5 + a7 * b4 + a8 * b3 + a9 * b2 + a10 * b1 + a11 * b0) * 2 ^ 231 +
   (a1 * b11 + a2 * b10 + a3 * b9 + a4 * b8 + a5 * b7 + a6 * b6 + a7 * b5 + a8 * b4 + a9 * b3 + a10 * b2 + a11 * b1) * 2 ^ 252 +
   (a2 * b11 + a3 * b10 + a4 * b9 + a5 * b8 + a6 * b7 + a7 * b6 + a8 * b5 + a9 * b4 + a10 * b3 + a11 * b2) * 2 ^ 273 +
   (a3 * b11 + a4 * b10 + a5 * b9 + a6 * b8 + a7 * b7 + a8 * b6 + a9 * b5 + a10 * b4 + a11 * b3) * 2 ^ 294 +
   (a4 * b11 + a5 * b10 + a6 * b9 + a7 * b8 + a8 * b7 + a9 * b6 + a10 * b5 + a11 * b4) * 2 ^ 315 +
   (a5 * b11 + a6 * b10 + a7 * b9 + a8 * b8 + a9 * b7 + a10 * b6 + a11 * b5) * 2 ^ 336 +
   (a6 * b11 + a7 * b10 + a8 * b9 + a9 * b8 + a10 * b7 + a11 * b6) * 2 ^ 357 +
   (a7 * b11 + a8 * b10 + a9 * b9 + a10 * b8 + a11 * b7) * 2 ^ 378 +
   (a8 * b11 + a9 * b10 + a10 * b9 + a11 * b8) * 2 ^ 399 +
   (a9 * b11 + a10 * b10 + a11 * b9) * 2 ^ 420 +
   (a10 * b11 + a11 * b10) * 2 ^ 441 +
   (a11 * b11) * 2 ^ 462 +
   (0) * 2 ^ 483" for a0 a1 a2 a3 a4 a5 a6 a7 a8 a9 a10 a11 b0 b1 b2 b3 b4 b5 b6 b7 b8 b9 b10 b11 c0 c1 c2 c3 c4 c5 c6 c7 c8 c9 c10 c11 :: int
  by algebra

section \<open>Packing\<close>

text \<open>Twelve digits in radix \<open>2^21\<close>.\<close>

definition radix21 :: "int \<Rightarrow> int \<Rightarrow> int \<Rightarrow> int \<Rightarrow> int \<Rightarrow> int \<Rightarrow> int \<Rightarrow> int \<Rightarrow> int \<Rightarrow> int \<Rightarrow> int \<Rightarrow> int \<Rightarrow> int" where
  "radix21 y0 y1 y2 y3 y4 y5 y6 y7 y8 y9 y10 y11 =
    y0 + 2 ^ 21 * y1 + 2 ^ 42 * y2 + 2 ^ 63 * y3 + 2 ^ 84 * y4 + 2 ^ 105 * y5 + 2 ^ 126 * y6 + 2 ^ 147 * y7 + 2 ^ 168 * y8 + 2 ^ 189 * y9 + 2 ^ 210 * y10 + 2 ^ 231 * y11"

lemma radix21_bytes:
  "radix21
      (a0_0 + 2 ^ 8 * (a0_8) + 2 ^ 16 * (t0))
      (m1 + 2 ^ 3 * (a1_3) + 2 ^ 11 * (a1_11) + 2 ^ 19 * (t1))
      (m2 + 2 ^ 6 * (a2_6) + 2 ^ 14 * (t2))
      (m3 + 2 ^ 1 * (a3_1) + 2 ^ 9 * (a3_9) + 2 ^ 17 * (t3))
      (m4 + 2 ^ 4 * (a4_4) + 2 ^ 12 * (a4_12) + 2 ^ 20 * (t4))
      (m5 + 2 ^ 7 * (a5_7) + 2 ^ 15 * (t5))
      (m6 + 2 ^ 2 * (a6_2) + 2 ^ 10 * (a6_10) + 2 ^ 18 * (t6))
      (m7 + 2 ^ 5 * (a7_5) + 2 ^ 13 * (a7_13))
      (a8_0 + 2 ^ 8 * (a8_8) + 2 ^ 16 * (t8))
      (m9 + 2 ^ 3 * (a9_3) + 2 ^ 11 * (a9_11) + 2 ^ 19 * (t9))
      (m10 + 2 ^ 6 * (a10_6) + 2 ^ 14 * (t10))
      (m11 + 2 ^ 1 * (a11_1) + 2 ^ 9 * (a11_9) + 2 ^ 17 * (a11_17)) =
    a0_0 + 256 * (a0_8 + 256 * ((t0 + 2 ^ 5 * m1) + 256 * (a1_3 + 256 * (a1_11 + 256 * ((t1 + 2 ^ 2 * m2) + 256 * (a2_6 + 256 * ((t2 + 2 ^ 7 * m3) + 256 * (a3_1 + 256 * (a3_9 + 256 * ((t3 + 2 ^ 4 * m4) + 256 * (a4_4 + 256 * (a4_12 + 256 * ((t4 + 2 ^ 1 * m5) + 256 * (a5_7 + 256 * ((t5 + 2 ^ 6 * m6) + 256 * (a6_2 + 256 * (a6_10 + 256 * ((t6 + 2 ^ 3 * m7) + 256 * (a7_5 + 256 * (a7_13 + 256 * (a8_0 + 256 * (a8_8 + 256 * ((t8 + 2 ^ 5 * m9) + 256 * (a9_3 + 256 * (a9_11 + 256 * ((t9 + 2 ^ 2 * m10) + 256 * (a10_6 + 256 * ((t10 + 2 ^ 7 * m11) + 256 * (a11_1 + 256 * (a11_9 + 256 * (a11_17 + 256 * 0)))))))))))))))))))))))))))))))"
  unfolding radix21_def by algebra

lemma limb_split1:
  fixes x :: int
  assumes "b = a + 8"
  shows "x mod 2 ^ a + 2 ^ a * (x div 2 ^ a mod 256) + 2 ^ b * (x div 2 ^ b) = x"
proof -
  have "x = x mod 2 ^ a + 2 ^ a * (x div 2 ^ a)" by simp
  also have "x div 2 ^ a = x div 2 ^ a mod 256 + 256 * (x div 2 ^ b)"
    using split_byte [of x a] assms by simp
  finally show ?thesis
    using assms by (simp add: power_add algebra_simps)
qed

lemma limb_split1_first:
  "x div 2 ^ 0 mod 256 + 2 ^ 8 * (x div 2 ^ 8 mod 256) + 2 ^ 16 * (x div 2 ^ 16) = x" for x :: int
  using limb_split1 [of 16 8 x] by simp

lemma top_byte:
  fixes x :: int
  assumes "0 \<le> x" and "x < 2 ^ (k + 8)"
  shows "x div 2 ^ k mod 256 = x div 2 ^ k"
proof (rule mod_pos_pos_trivial)
  have "x div 2 ^ k * 2 ^ k \<le> x" by (simp add: minus_mod_eq_div_mult [symmetric])
  also have "x < 256 * 2 ^ k" using assms(2) by (simp add: power_add mult.commute)
  finally show "x div 2 ^ k < 256" by simp
qed (use assms in \<open>simp add: pos_imp_zdiv_nonneg_iff\<close>)

lemma le_int_sc_pack:
  assumes "sint (s ! 0) = y0" and "sint (s ! 1) = y1" and "sint (s ! 2) = y2" and "sint (s ! 3) = y3"
    and "sint (s ! 4) = y4" and "sint (s ! 5) = y5" and "sint (s ! 6) = y6" and "sint (s ! 7) = y7"
    and "sint (s ! 8) = y8" and "sint (s ! 9) = y9" and "sint (s ! 10) = y10" and "sint (s ! 11) = y11"
    and "0 \<le> y0" and "y0 < 2 ^ 21" and "0 \<le> y1" and "y1 < 2 ^ 21" and "0 \<le> y2" and "y2 < 2 ^ 21"
    and "0 \<le> y3" and "y3 < 2 ^ 21" and "0 \<le> y4" and "y4 < 2 ^ 21" and "0 \<le> y5" and "y5 < 2 ^ 21"
    and "0 \<le> y6" and "y6 < 2 ^ 21" and "0 \<le> y7" and "y7 < 2 ^ 21" and "0 \<le> y8" and "y8 < 2 ^ 21"
    and "0 \<le> y9" and "y9 < 2 ^ 21" and "0 \<le> y10" and "y10 < 2 ^ 21" and "0 \<le> y11" and "y11 < 2 ^ 22"
  shows "le_int (sc_pack s) = radix21 y0 y1 y2 y3 y4 y5 y6 y7 y8 y9 y10 y11"
proof -
  note d = assms
  have shared: "uint (ucast (asr (s ! 0) 16 OR shl (s ! 1) 5) :: u8) = y0 div 2 ^ 16 + 2 ^ 5 * (y1 mod 2 ^ 3)"
    "uint (ucast (asr (s ! 1) 19 OR shl (s ! 2) 2) :: u8) = y1 div 2 ^ 19 + 2 ^ 2 * (y2 mod 2 ^ 6)"
    "uint (ucast (asr (s ! 2) 14 OR shl (s ! 3) 7) :: u8) = y2 div 2 ^ 14 + 2 ^ 7 * (y3 mod 2 ^ 1)"
    "uint (ucast (asr (s ! 3) 17 OR shl (s ! 4) 4) :: u8) = y3 div 2 ^ 17 + 2 ^ 4 * (y4 mod 2 ^ 4)"
    "uint (ucast (asr (s ! 4) 20 OR shl (s ! 5) 1) :: u8) = y4 div 2 ^ 20 + 2 ^ 1 * (y5 mod 2 ^ 7)"
    "uint (ucast (asr (s ! 5) 15 OR shl (s ! 6) 6) :: u8) = y5 div 2 ^ 15 + 2 ^ 6 * (y6 mod 2 ^ 2)"
    "uint (ucast (asr (s ! 6) 18 OR shl (s ! 7) 3) :: u8) = y6 div 2 ^ 18 + 2 ^ 3 * (y7 mod 2 ^ 5)"
    "uint (ucast (asr (s ! 8) 16 OR shl (s ! 9) 5) :: u8) = y8 div 2 ^ 16 + 2 ^ 5 * (y9 mod 2 ^ 3)"
    "uint (ucast (asr (s ! 9) 19 OR shl (s ! 10) 2) :: u8) = y9 div 2 ^ 19 + 2 ^ 2 * (y10 mod 2 ^ 6)"
    "uint (ucast (asr (s ! 10) 14 OR shl (s ! 11) 7) :: u8) = y10 div 2 ^ 14 + 2 ^ 7 * (y11 mod 2 ^ 1)"
    by (rule uint_pack2 [THEN trans]; simp add: d [simplified])+
  have single: "uint (ucast (asr (s ! 0) 0) :: u8) = y0 div 2 ^ 0 mod 256"
    "uint (ucast (asr (s ! 0) 8) :: u8) = y0 div 2 ^ 8 mod 256"
    "uint (ucast (asr (s ! 1) 3) :: u8) = y1 div 2 ^ 3 mod 256"
    "uint (ucast (asr (s ! 1) 11) :: u8) = y1 div 2 ^ 11 mod 256"
    "uint (ucast (asr (s ! 2) 6) :: u8) = y2 div 2 ^ 6 mod 256"
    "uint (ucast (asr (s ! 3) 1) :: u8) = y3 div 2 ^ 1 mod 256"
    "uint (ucast (asr (s ! 3) 9) :: u8) = y3 div 2 ^ 9 mod 256"
    "uint (ucast (asr (s ! 4) 4) :: u8) = y4 div 2 ^ 4 mod 256"
    "uint (ucast (asr (s ! 4) 12) :: u8) = y4 div 2 ^ 12 mod 256"
    "uint (ucast (asr (s ! 5) 7) :: u8) = y5 div 2 ^ 7 mod 256"
    "uint (ucast (asr (s ! 6) 2) :: u8) = y6 div 2 ^ 2 mod 256"
    "uint (ucast (asr (s ! 6) 10) :: u8) = y6 div 2 ^ 10 mod 256"
    "uint (ucast (asr (s ! 7) 5) :: u8) = y7 div 2 ^ 5 mod 256"
    "uint (ucast (asr (s ! 7) 13) :: u8) = y7 div 2 ^ 13 mod 256"
    "uint (ucast (asr (s ! 8) 0) :: u8) = y8 div 2 ^ 0 mod 256"
    "uint (ucast (asr (s ! 8) 8) :: u8) = y8 div 2 ^ 8 mod 256"
    "uint (ucast (asr (s ! 9) 3) :: u8) = y9 div 2 ^ 3 mod 256"
    "uint (ucast (asr (s ! 9) 11) :: u8) = y9 div 2 ^ 11 mod 256"
    "uint (ucast (asr (s ! 10) 6) :: u8) = y10 div 2 ^ 6 mod 256"
    "uint (ucast (asr (s ! 11) 1) :: u8) = y11 div 2 ^ 1 mod 256"
    "uint (ucast (asr (s ! 11) 9) :: u8) = y11 div 2 ^ 9 mod 256"
    "uint (ucast (asr (s ! 11) 17) :: u8) = y11 div 2 ^ 17 mod 256"
    by (simp_all only: uint_byte_i64 d)
  have tops: "y7 div 2 ^ 13 mod 256 = y7 div 2 ^ 13" "y11 div 2 ^ 17 mod 256 = y11 div 2 ^ 17"
    using d by (simp_all add: top_byte)
  have limbs: "y0 div 2 ^ 0 mod 256 + 2 ^ 8 * (y0 div 2 ^ 8 mod 256) + 2 ^ 16 * (y0 div 2 ^ 16) = y0"
    "y1 mod 2 ^ 3 + 2 ^ 3 * (y1 div 2 ^ 3 mod 256) + 2 ^ 11 * (y1 div 2 ^ 11 mod 256) + 2 ^ 19 * (y1 div 2 ^ 19) = y1"
    "y2 mod 2 ^ 6 + 2 ^ 6 * (y2 div 2 ^ 6 mod 256) + 2 ^ 14 * (y2 div 2 ^ 14) = y2"
    "y3 mod 2 ^ 1 + 2 ^ 1 * (y3 div 2 ^ 1 mod 256) + 2 ^ 9 * (y3 div 2 ^ 9 mod 256) + 2 ^ 17 * (y3 div 2 ^ 17) = y3"
    "y4 mod 2 ^ 4 + 2 ^ 4 * (y4 div 2 ^ 4 mod 256) + 2 ^ 12 * (y4 div 2 ^ 12 mod 256) + 2 ^ 20 * (y4 div 2 ^ 20) = y4"
    "y5 mod 2 ^ 7 + 2 ^ 7 * (y5 div 2 ^ 7 mod 256) + 2 ^ 15 * (y5 div 2 ^ 15) = y5"
    "y6 mod 2 ^ 2 + 2 ^ 2 * (y6 div 2 ^ 2 mod 256) + 2 ^ 10 * (y6 div 2 ^ 10 mod 256) + 2 ^ 18 * (y6 div 2 ^ 18) = y6"
    "y7 mod 2 ^ 5 + 2 ^ 5 * (y7 div 2 ^ 5 mod 256) + 2 ^ 13 * (y7 div 2 ^ 13 mod 256) = y7"
    "y8 div 2 ^ 0 mod 256 + 2 ^ 8 * (y8 div 2 ^ 8 mod 256) + 2 ^ 16 * (y8 div 2 ^ 16) = y8"
    "y9 mod 2 ^ 3 + 2 ^ 3 * (y9 div 2 ^ 3 mod 256) + 2 ^ 11 * (y9 div 2 ^ 11 mod 256) + 2 ^ 19 * (y9 div 2 ^ 19) = y9"
    "y10 mod 2 ^ 6 + 2 ^ 6 * (y10 div 2 ^ 6 mod 256) + 2 ^ 14 * (y10 div 2 ^ 14) = y10"
    "y11 mod 2 ^ 1 + 2 ^ 1 * (y11 div 2 ^ 1 mod 256) + 2 ^ 9 * (y11 div 2 ^ 9 mod 256) + 2 ^ 17 * (y11 div 2 ^ 17 mod 256) = y11"
    unfolding tops by (rule limb_split1_first limb_split1 limb_split | simp)+
  have "radix21 y0 y1 y2 y3 y4 y5 y6 y7 y8 y9 y10 y11 = radix21
      (y0 div 2 ^ 0 mod 256 + 2 ^ 8 * (y0 div 2 ^ 8 mod 256) + 2 ^ 16 * (y0 div 2 ^ 16))
      (y1 mod 2 ^ 3 + 2 ^ 3 * (y1 div 2 ^ 3 mod 256) + 2 ^ 11 * (y1 div 2 ^ 11 mod 256) + 2 ^ 19 * (y1 div 2 ^ 19))
      (y2 mod 2 ^ 6 + 2 ^ 6 * (y2 div 2 ^ 6 mod 256) + 2 ^ 14 * (y2 div 2 ^ 14))
      (y3 mod 2 ^ 1 + 2 ^ 1 * (y3 div 2 ^ 1 mod 256) + 2 ^ 9 * (y3 div 2 ^ 9 mod 256) + 2 ^ 17 * (y3 div 2 ^ 17))
      (y4 mod 2 ^ 4 + 2 ^ 4 * (y4 div 2 ^ 4 mod 256) + 2 ^ 12 * (y4 div 2 ^ 12 mod 256) + 2 ^ 20 * (y4 div 2 ^ 20))
      (y5 mod 2 ^ 7 + 2 ^ 7 * (y5 div 2 ^ 7 mod 256) + 2 ^ 15 * (y5 div 2 ^ 15))
      (y6 mod 2 ^ 2 + 2 ^ 2 * (y6 div 2 ^ 2 mod 256) + 2 ^ 10 * (y6 div 2 ^ 10 mod 256) + 2 ^ 18 * (y6 div 2 ^ 18))
      (y7 mod 2 ^ 5 + 2 ^ 5 * (y7 div 2 ^ 5 mod 256) + 2 ^ 13 * (y7 div 2 ^ 13 mod 256))
      (y8 div 2 ^ 0 mod 256 + 2 ^ 8 * (y8 div 2 ^ 8 mod 256) + 2 ^ 16 * (y8 div 2 ^ 16))
      (y9 mod 2 ^ 3 + 2 ^ 3 * (y9 div 2 ^ 3 mod 256) + 2 ^ 11 * (y9 div 2 ^ 11 mod 256) + 2 ^ 19 * (y9 div 2 ^ 19))
      (y10 mod 2 ^ 6 + 2 ^ 6 * (y10 div 2 ^ 6 mod 256) + 2 ^ 14 * (y10 div 2 ^ 14))
      (y11 mod 2 ^ 1 + 2 ^ 1 * (y11 div 2 ^ 1 mod 256) + 2 ^ 9 * (y11 div 2 ^ 9 mod 256) + 2 ^ 17 * (y11 div 2 ^ 17 mod 256))"
    unfolding limbs ..
  also have "\<dots> = le_int (sc_pack s)"
    unfolding sc_pack_def le_int.simps shared single by (rule radix21_bytes)
  finally show ?thesis ..
qed

section \<open>The result\<close>

lemma itv_run_floors:
  "itv_run (map Floor ks) B = Some B' \<Longrightarrow> within B s \<Longrightarrow>
    within B' (sc_run (map Floor ks) s) \<and> sc_val (sc_run (map Floor ks) s) = sc_val s"
proof (induction ks arbitrary: B s)
  case (Cons k ks)
  then obtain B1 where B1: "itv_step (Floor k) B = Some B1" "itv_run (map Floor ks) B1 = Some B'"
    by (auto simp: bind_eq_Some_conv simp del: itv_step.simps)
  from itv_step_floor [OF B1(1) Cons.prems(2)] Cons.IH [OF B1(2)] show ?case
    by (simp add: sc_run_def del: sc_do.simps)
qed (simp add: sc_run_def)

lemma sc_val_24:
  assumes "length s = 24" and "\<And>i. 13 \<le> i \<Longrightarrow> i < 24 \<Longrightarrow> sint (s ! i) = 0"
  shows "sc_val s = radix21 (sint (s ! 0)) (sint (s ! 1)) (sint (s ! 2)) (sint (s ! 3)) (sint (s ! 4)) (sint (s ! 5)) (sint (s ! 6)) (sint (s ! 7)) (sint (s ! 8)) (sint (s ! 9)) (sint (s ! 10)) (sint (s ! 11)) + 2 ^ 252 * sint (s ! 12)"
  unfolding sc_val_def assms(1) radix21_def
  by (simp add: assms(2) eval_nat_numeral)

lemma radix21_range:
  assumes "0 \<le> y0" and "0 \<le> y1" and "0 \<le> y2" and "0 \<le> y3" and "0 \<le> y4" and "0 \<le> y5" and "0 \<le> y6" and "0 \<le> y7" and "0 \<le> y8" and "0 \<le> y9" and "0 \<le> y10" and "0 \<le> y11"
    and "y0 \<le> 2097151" and "y1 \<le> 2097151" and "y2 \<le> 2097151" and "y3 \<le> 2097151" and "y4 \<le> 2097151" and "y5 \<le> 2097151" and "y6 \<le> 2097151" and "y7 \<le> 2097151" and "y8 \<le> 2097151" and "y9 \<le> 2097151" and "y10 \<le> 2097151" and "y11 \<le> 2097151"
  shows "0 \<le> radix21 y0 y1 y2 y3 y4 y5 y6 y7 y8 y9 y10 y11 \<and>
    radix21 y0 y1 y2 y3 y4 y5 y6 y7 y8 y9 y10 y11 < 2 ^ 252"
  using assms unfolding radix21_def by simp

lemma top_digit_nonneg:
  assumes "y0 \<le> 2097151" and "y1 \<le> 2097151" and "y2 \<le> 2097151" and "y3 \<le> 2097151" and "y4 \<le> 2097151" and "y5 \<le> 2097151" and "y6 \<le> 2097151" and "y7 \<le> 2097151" and "y8 \<le> 2097151" and "y9 \<le> 2097151" and "y10 \<le> 2097151"
    and "0 \<le> radix21 y0 y1 y2 y3 y4 y5 y6 y7 y8 y9 y10 y11"
  shows "0 \<le> y11"
  using assms unfolding radix21_def by simp

lemma itv_front_nth:
  "i < 12 \<Longrightarrow> itv_front ! i = (0, 2097151)" "itv_front ! 12 = (- 1, 0)"
  "13 \<le> i \<Longrightarrow> i < 24 \<Longrightarrow> itv_front ! i = (0, 0)"
  by (simp_all add: itv_front_def nth_append)

lemma itv_last_nth:
  "i < 11 \<Longrightarrow> itv_last ! i = (0, 2097151)" "itv_last ! 11 = (- 1, 2097152)"
  "12 \<le> i \<Longrightarrow> i < 24 \<Longrightarrow> itv_last ! i = (0, 0)"
  by (simp_all add: itv_last_def nth_append)

text \<open>The last fold leaves a value in \<open>0 \<dots> l - 1\<close>, and the floor carries do not change it.\<close>

lemma sc_last_correct:
  assumes "within itv_front s"
  shows "le_int (sc_pack (sc_run sc_last_steps s)) = sc_val s mod l25519"
proof -
  have len: "length s = 24" using within_length [OF assms] by (simp add: itv_front_def)
  define q where "q = sint (s ! 12)"
  define R where "R = radix21 (sint (s ! 0)) (sint (s ! 1)) (sint (s ! 2)) (sint (s ! 3)) (sint (s ! 4)) (sint (s ! 5)) (sint (s ! 6)) (sint (s ! 7)) (sint (s ! 8)) (sint (s ! 9)) (sint (s ! 10)) (sint (s ! 11))"
  define u where "u = sc_do (Fold 12) s"
  define t where "t = sc_run (map Floor [0, 1, 2, 3, 4, 5, 6, 7, 8, 9, 10]) u"
  have t: "sc_run sc_last_steps s = t" by (simp add: t_def u_def sc_last_steps_def sc_run_def del: sc_do.simps)
  have d: "0 \<le> sint (s ! i)" "sint (s ! i) \<le> 2097151" if "i < 12" for i
    using withinD [OF assms, of i] that len by (simp_all add: itv_front_nth)
  have q: "- 1 \<le> q" "q \<le> 0" using withinD [OF assms, of 12] len by (simp_all add: itv_front_nth q_def)
  have z: "sint (s ! i) = 0" if "13 \<le> i" "i < 24" for i
    using withinD [OF assms, of i] that len by (simp add: itv_front_nth)
  have vs: "sc_val s = R + 2 ^ 252 * q"
    unfolding R_def q_def by (rule sc_val_24 [OF len z])
  obtain B1 where B1: "itv_step (Fold 12) itv_front = Some B1"
      "itv_run (map Floor [0, 1, 2, 3, 4, 5, 6, 7, 8, 9, 10]) B1 = Some itv_last"
    using itv_run_last unfolding sc_last_steps_def by (auto simp: bind_eq_Some_conv simp del: itv_step.simps)
  note f = itv_step_fold [OF B1(1) assms, folded u_def q_def]
  note g = itv_run_floors [OF B1(2) f [THEN conjunct1], folded t_def]
  have vt: "sc_val t = sc_val s - l25519 * q" using f g by simp
  have R: "0 \<le> R" "R < 2 ^ 252" unfolding R_def using radix21_range d by simp_all
  have range: "0 \<le> sc_val t" "sc_val t < l25519"
    using R q unfolding vt vs l25519_def by (cases "q = 0"; simp)+
  have wt: "within itv_last t" using g ..
  have lent: "length t = 24" using within_length [OF wt] by (simp add: itv_last_def)
  have dt: "0 \<le> sint (t ! i)" "sint (t ! i) \<le> 2097151" if "i < 11" for i
    using withinD [OF wt, of i] that lent by (simp_all add: itv_last_nth)
  have dt': "sint (t ! i) < 2 ^ 21" if "i < 11" for i using dt(2) [OF that] by simp
  have zt: "sint (t ! i) = 0" if "12 \<le> i" "i < 24" for i
    using withinD [OF wt, of i] that lent by (simp add: itv_last_nth)
  have e: "sint (t ! 11) \<le> 2097152"
    using withinD [OF wt, of 11] lent by (simp add: itv_last_nth)
  have val: "sc_val t = radix21 (sint (t ! 0)) (sint (t ! 1)) (sint (t ! 2)) (sint (t ! 3)) (sint (t ! 4)) (sint (t ! 5)) (sint (t ! 6)) (sint (t ! 7)) (sint (t ! 8)) (sint (t ! 9)) (sint (t ! 10)) (sint (t ! 11))"
    using sc_val_24 [OF lent] zt [of 12] by (simp add: zt)
  have e0: "0 \<le> sint (t ! 11)"
    by (rule top_digit_nonneg [rotated 11, OF range(1) [unfolded val]]; rule dt(2); simp)
  have e': "sint (t ! 11) < 2 ^ 22" using e by simp
  have "le_int (sc_pack t) = sc_val t"
    unfolding val by (rule le_int_sc_pack; (rule refl | rule e0 | rule e' | (rule dt dt', simp)))
  moreover have "sc_val t = sc_val s mod l25519"
  proof -
    have "sc_val s mod l25519 = (sc_val t + l25519 * q) mod l25519" by (simp add: vt)
    then show ?thesis using range by simp
  qed
  ultimately show ?thesis by (simp add: t)
qed

lemma sc_run_append: "sc_run (xs @ ys) s = sc_run ys (sc_run xs s)"
  by (simp add: sc_run_def)

lemma sc_chain_correct:
  assumes "itv_run ts B = Some itv_front" and "within B s"
  shows "le_int (sc_pack (sc_run sc_last_steps (sc_run ts s))) = sc_val s mod l25519"
proof -
  obtain k where "within itv_front (sc_run ts s)" and "sc_val (sc_run ts s) = sc_val s + l25519 * k"
    using itv_run_sound [OF assms] by (auto simp: sc_sound_def)
  then show ?thesis using sc_last_correct by simp
qed

lemma within_limbs_of:
  assumes "map sint s = limbs_of n m" and "0 \<le> m" and "m < (b + 1) * 2 ^ (21 * n)"
  shows "within (replicate n (0, 2097151) @ [(0, b)]) s"
proof -
  have "list_all2 (\<lambda>I v. fst I \<le> v \<and> v \<le> snd I) (replicate n (0, 2097151)) (map (\<lambda>i. digit (21 * i) m) [0..<n])"
    using digit_range(1) digit_range(2) [THEN zless_imp_add1_zle] by (auto simp: list_all2_conv_all_nth)
  moreover have "0 \<le> drop_bit (21 * n) m" using assms(2) by simp
  moreover have "drop_bit (21 * n) m \<le> b"
  proof -
    have "drop_bit (21 * n) m * 2 ^ (21 * n) \<le> m"
      by (simp add: drop_bit_eq_div minus_mod_eq_div_mult [symmetric])
    with assms(3) have "drop_bit (21 * n) m * 2 ^ (21 * n) < (b + 1) * 2 ^ (21 * n)" by (rule le_less_trans [rotated])
    then show ?thesis by simp
  qed
  ultimately show ?thesis
    unfolding within_alt assms(1) limbs_of_def by (intro list_all2_appendI) simp_all
qed

lemma sc_load_64_within: "length s = 64 \<Longrightarrow> within itv_load_64 (sc_load_64 s)"
  unfolding itv_load_64_def
  using le_int_less [of s] by (intro within_limbs_of [OF sc_load_64_limbs]) simp_all

lemma itv_run_append: "itv_run (xs @ ys) B = Option.bind (itv_run xs B) (itv_run ys)"
  by (induction xs arbitrary: B) (simp_all split: Option.bind_split)

lemma sc_reduce_exact:
  assumes "length s = 64"
  shows "sc_run_checked sc_tail_steps (map sint (sc_load_64 s)) = Some (map sint (sc_run sc_tail_steps (sc_load_64 s)))"
proof -
  have "itv_run sc_tail_steps itv_load_64 = Some itv_last"
    unfolding sc_tail_split itv_run_append itv_run_reduce by (simp add: itv_run_last)
  from itv_run_checked [OF this sc_load_64_within [OF assms]] show ?thesis ..
qed

lemma sc_reduce_value:
  assumes "length s = 64"
  shows "le_int (take 32 (sc_reduce s)) = le_int s mod l25519"
proof -
  have "within itv_load_64 (sc_load_64 s)" by (rule sc_load_64_within [OF assms])
  then have "le_int (sc_pack (sc_run sc_tail_steps (sc_load_64 s))) = sc_val (sc_load_64 s) mod l25519"
    unfolding sc_tail_split sc_run_append by (rule sc_chain_correct [OF itv_run_reduce])
  moreover have "sc_val (sc_load_64 s) = le_int s"
    by (rule sc_val_limbs_of [OF sc_load_64_limbs [OF assms]])
  ultimately show ?thesis
    by (simp add: sc_reduce_def sc_pack_def)
qed

lemma sc_load_32_sv:
  assumes "length s = 32"
  shows "i < 11 \<Longrightarrow> sv (sc_load_32 s ! i) (sint (sc_load_32 s ! i)) 2097151"
    and "sv (sc_load_32 s ! 11) (sint (sc_load_32 s ! 11)) 33554431"
proof -
  have w: "within (replicate 11 (0, 2097151) @ [(0, 33554431)]) (sc_load_32 s)"
    using le_int_less [of s] assms by (intro within_limbs_of [OF sc_load_32_limbs [OF assms]]) simp_all
  have len: "length (sc_load_32 s) = 12" by (simp add: sc_load_32_def)
  show "i < 11 \<Longrightarrow> sv (sc_load_32 s ! i) (sint (sc_load_32 s ! i)) 2097151"
    using withinD [OF w, of i] len by (simp add: nth_append sv_def)
  show "sv (sc_load_32 s ! 11) (sint (sc_load_32 s ! 11)) 33554431"
    using withinD [OF w, of 11] len by (simp add: nth_append sv_def)
qed

lemma sc_val_12: "length s = 12 \<Longrightarrow> sc_val s = sint (s ! 0) * 2 ^ 0 + sint (s ! 1) * 2 ^ 21 + sint (s ! 2) * 2 ^ 42 + sint (s ! 3) * 2 ^ 63 + sint (s ! 4) * 2 ^ 84 + sint (s ! 5) * 2 ^ 105 + sint (s ! 6) * 2 ^ 126 + sint (s ! 7) * 2 ^ 147 + sint (s ! 8) * 2 ^ 168 + sint (s ! 9) * 2 ^ 189 + sint (s ! 10) * 2 ^ 210 + sint (s ! 11) * 2 ^ 231"
  unfolding sc_val_def by (simp add: eval_nat_numeral)

lemma sc_val_values:
  assumes "map sint s = map fst vs"
  shows "sc_val s = (\<Sum>i<length vs. fst (vs ! i) * 2 ^ (21 * i))"
proof -
  have len: "length s = length vs" using arg_cong [OF assms, of length] by simp
  have "sint (s ! i) = fst (vs ! i)" if "i < length vs" for i
    using arg_cong [OF assms, of "\<lambda>l. l ! i"] that len by simp
  then show ?thesis unfolding sc_val_def len by (intro sum.cong) simp_all
qed

lemma sc_product_values_sum:
  assumes "length a = 12" and "length b = 12" and "length c = 12"
  shows "(\<Sum>i<length (sc_product_values a b c). fst (sc_product_values a b c ! i) * 2 ^ (21 * i)) =
    sc_val a * sc_val b + sc_val c"
proof -
  have "length (sc_product_values a b c) = 24" by (simp add: sc_product_values_def)
  then have "(\<Sum>i<length (sc_product_values a b c). fst (sc_product_values a b c ! i) * 2 ^ (21 * i)) =
      (\<Sum>i\<leftarrow>[0..<24]. fst (sc_product_values a b c ! i) * 2 ^ (21 * i))"
    by (simp add: sum_list_distinct_conv_sum_set atLeast_upt lessThan_atLeast0)
  also have "\<dots> = sc_val a * sc_val b + sc_val c"
    unfolding sc_val_12 [OF assms(1)] sc_val_12 [OF assms(2)] sc_val_12 [OF assms(3)] product_sum
    by (simp add: upt_rec sc_product_values_def)
  finally show ?thesis .
qed

lemma sc_muladd_value:
  assumes "length a = 32" and "length b = 32" and "length c = 32"
  shows "le_int (sc_muladd a b c) = (le_int a * le_int b + le_int c) mod l25519"
proof -
  let ?a = "sc_load_32 a" and ?b = "sc_load_32 b" and ?c = "sc_load_32 c"
  let ?p = "sc_products ?a ?b ?c"
  note sva = sc_load_32_sv [OF assms(1)] and svb = sc_load_32_sv [OF assms(2)] and svc = sc_load_32_sv [OF assms(3)]
  have "list_all2 sv_pair ?p (sc_product_values ?a ?b ?c)"
    by (rule sc_products_sv; (rule sva(2) svb(2) svc(2) | (rule sva(1) svb(1) svc(1), simp)))
  note p = sv_pairs [OF this]
  have "map snd (sc_product_values ?a ?b ?c) = [4398044413952, 8796086730753, 13194129047554, 17592171364355, 21990213681156, 26388255997957, 30786298314758, 35184340631559, 39582382948360, 43980425265161, 48378467581962, 184717873774603, 180319797903371, 175921755586570, 171523713269769, 167125670952968, 162727628636167, 158329586319366, 153931544002565, 149533501685764, 145135459368963, 140737417052162, 1125899839733761, 0]"
    by (simp add: sc_product_values_def)
  with p(2) have "within itv_products ?p"
    by (simp add: itv_products_def)
  then have "le_int (sc_muladd a b c) = sc_val ?p mod l25519"
    unfolding sc_muladd_def sc_tail_split sc_run_append
    using sc_chain_correct [OF itv_run_muladd] by (simp add: sc_run_append)
  also have "sc_val ?p = sc_val ?a * sc_val ?b + sc_val ?c"
    unfolding sc_val_values [OF p(1)] by (rule sc_product_values_sum) (simp_all add: sc_load_32_def)
  also have "sc_val ?a = le_int a" by (rule sc_val_limbs_of [OF sc_load_32_limbs [OF assms(1)]])
  also have "sc_val ?b = le_int b" by (rule sc_val_limbs_of [OF sc_load_32_limbs [OF assms(2)]])
  also have "sc_val ?c = le_int c" by (rule sc_val_limbs_of [OF sc_load_32_limbs [OF assms(3)]])
  finally show ?thesis .
qed

lemma length_sc_pack [simp]: "length (sc_pack s) = 32"
  by (simp add: sc_pack_def)

lemma length_sc_muladd [simp]: "length (sc_muladd a b c) = 32"
  by (simp add: sc_muladd_def)

section \<open>Properties\<close>

text \<open>
  (C11) \<^verbatim>\<open>sc_reduce\<close> replaces the first 32 of its 64 bytes by the little-endian encoding of the
  64-byte integer reduced modulo the group order, in \<open>0 \<dots> l - 1\<close> for every input, and leaves the other
  32 bytes alone.  None of the 64-bit multiplications, additions, subtractions and shifts of its folds
  and carries overflows: the run on unbounded integers that is undefined on the first result out of
  range is defined, and gives the same limbs.
\<close>

theorem sc_reduce_correct:
  assumes "length s = 64"
  shows "le_int (take 32 (sc_reduce s)) = le_int s mod l25519 \<and>
    drop 32 (sc_reduce s) = drop 32 s \<and> length (sc_reduce s) = 64 \<and>
    sc_run_checked sc_tail_steps (map sint (sc_load_64 s)) = Some (map sint (sc_run sc_tail_steps (sc_load_64 s)))"
  using sc_reduce_value [OF assms] sc_reduce_exact [OF assms] assms by (simp add: sc_reduce_def)

theorem sc_reduce_correct_witness:
  "le_int (take 32 (sc_reduce (replicate 64 255))) = le_int (replicate 64 255) mod l25519 \<and>
   drop 32 (sc_reduce (replicate 64 255)) = drop 32 (replicate 64 255) \<and>
   length (sc_reduce (replicate 64 255)) = 64 \<and>
   sc_run_checked sc_tail_steps (map sint (sc_load_64 (replicate 64 255))) =
     Some (map sint (sc_run sc_tail_steps (sc_load_64 (replicate 64 255))))"
  by (rule sc_reduce_correct) simp

text \<open>
  (C12) \<^verbatim>\<open>sc_muladd\<close> returns the 32-byte encoding of \<open>(a * b + c) mod l\<close> in canonical form, for any
  three 32-byte integers (also those at or above \<open>l\<close>).
\<close>

theorem sc_muladd_correct:
  assumes "length a = 32" and "length b = 32" and "length c = 32"
  shows "length (sc_muladd a b c) = 32 \<and>
    le_int (sc_muladd a b c) = (le_int a * le_int b + le_int c) mod l25519"
  using sc_muladd_value [OF assms] by simp

theorem sc_muladd_correct_witness:
  "length (sc_muladd (replicate 32 255) (replicate 32 254) (replicate 32 1)) = 32 \<and>
   le_int (sc_muladd (replicate 32 255) (replicate 32 254) (replicate 32 1)) =
     (le_int (replicate 32 255) * le_int (replicate 32 254) + le_int (replicate 32 1)) mod l25519"
  by (rule sc_muladd_correct) simp_all

end
