(* ===== verification/Sha3.thy ===== *)
theory Sha3
  imports Prelude
begin

text \<open>
  \<^verbatim>\<open>lib/verifier/sha3/sha3.c\<close> and \<^verbatim>\<open>sha3.h\<close>: Keccak-f[1600] and the SHA-3 sponge.

  The union of the context, 200 bytes \<^verbatim>\<open>st.b\<close> over 25 words \<^verbatim>\<open>st.q\<close>, is the list of words; on the
  little-endian target byte \<open>j\<close> is byte \<open>j mod 8\<close> of word \<open>j div 8\<close> (\<open>st_b\<close>, \<open>st_b_xor\<close>), and the
  conversions under \<^verbatim>\<open>#if __BYTE_ORDER__ != __ORDER_LITTLE_ENDIAN__\<close> are absent.  The fields
  \<^verbatim>\<open>pt, rsiz, mdlen\<close> are integers ("these don't overflow").  Loops run over their index range in
  order.

  The theorems compare the code with the definitions of FIPS 202: the steps of a round, the constant
  tables, and the sponge with its padding.
\<close>

section \<open>Code\<close>

definition KECCAKF_ROUNDS :: nat where
  "KECCAKF_ROUNDS = 24"

definition ROTL64 :: "u64 \<Rightarrow> nat \<Rightarrow> u64" where
  "ROTL64 x y = push_bit y x OR drop_bit (64 - y) x"

definition keccakf_rndc :: "u64 list" where
  "keccakf_rndc =
    [0x0000000000000001, 0x0000000000008082, 0x800000000000808a,
     0x8000000080008000, 0x000000000000808b, 0x0000000080000001,
     0x8000000080008081, 0x8000000000008009, 0x000000000000008a,
     0x0000000000000088, 0x0000000080008009, 0x000000008000000a,
     0x000000008000808b, 0x800000000000008b, 0x8000000000008089,
     0x8000000000008003, 0x8000000000008002, 0x8000000000000080,
     0x000000000000800a, 0x800000008000000a, 0x8000000080008081,
     0x8000000000008080, 0x0000000080000001, 0x8000000080008008]"

definition keccakf_rotc :: "nat list" where
  "keccakf_rotc =
    [1, 3, 6, 10, 15, 21, 28, 36, 45, 55, 2, 14,
     27, 41, 56, 8, 25, 43, 62, 18, 39, 61, 20, 44]"

definition keccakf_piln :: "nat list" where
  "keccakf_piln =
    [10, 7, 11, 17, 18, 3, 5, 16, 8, 21, 24, 4,
     15, 23, 19, 13, 12, 2, 20, 14, 22, 9, 6, 1]"

definition theta :: "u64 list \<Rightarrow> u64 list" where
  "theta st =
    (let bc = map (\<lambda>i. st ! i XOR st ! (i + 5) XOR st ! (i + 10) XOR st ! (i + 15) XOR st ! (i + 20)) [0..<5]
     in fold (\<lambda>i st.
          let t = bc ! ((i + 4) mod 5) XOR ROTL64 (bc ! ((i + 1) mod 5)) 1
          in fold (\<lambda>j st. st[j + i := st ! (j + i) XOR t]) [0, 5, 10, 15, 20] st) [0..<5] st)"

text \<open>The loop carries the state and \<^verbatim>\<open>t\<close>; \<^verbatim>\<open>bc[0]\<close> holds the old lane.\<close>

definition rho_pi :: "u64 list \<Rightarrow> u64 list" where
  "rho_pi st =
    fst (fold (\<lambda>i (st, t).
      let j = keccakf_piln ! i;
          bc0 = st ! j;
          st = st[j := ROTL64 t (keccakf_rotc ! i)]
      in (st, bc0)) [0..<24] (st, st ! 1))"

definition chi :: "u64 list \<Rightarrow> u64 list" where
  "chi st =
    fold (\<lambda>j st.
      let bc = map (\<lambda>i. st ! (j + i)) [0..<5]
      in fold (\<lambda>i st. st[j + i := st ! (j + i) XOR (NOT (bc ! ((i + 1) mod 5)) AND bc ! ((i + 2) mod 5))]) [0..<5] st)
      [0, 5, 10, 15, 20] st"

definition iota :: "nat \<Rightarrow> u64 list \<Rightarrow> u64 list" where
  "iota r st = st[0 := st ! 0 XOR keccakf_rndc ! r]"

definition sha3_keccakf :: "u64 list \<Rightarrow> u64 list" where
  "sha3_keccakf st = fold (\<lambda>r st. iota r (chi (rho_pi (theta st)))) [0..<KECCAKF_ROUNDS] st"

record sha3_ctx_t =
  ctx_st :: "u64 list"
  ctx_pt :: int
  ctx_rsiz :: int
  ctx_mdlen :: int

definition st_b :: "u64 list \<Rightarrow> nat \<Rightarrow> u8" where
  "st_b q j = ucast (drop_bit (8 * (j mod 8)) (q ! (j div 8)))"

text \<open>\<^verbatim>\<open>st.b[j] ^= v\<close>\<close>

definition st_b_xor :: "u64 list \<Rightarrow> nat \<Rightarrow> u8 \<Rightarrow> u64 list" where
  "st_b_xor q j v = q[j div 8 := q ! (j div 8) XOR push_bit (8 * (j mod 8)) (ucast v)]"

definition sha3_init :: "int \<Rightarrow> sha3_ctx_t" where
  "sha3_init mdlen = \<lparr>ctx_st = replicate 25 0, ctx_pt = 0, ctx_rsiz = 200 - 2 * mdlen, ctx_mdlen = mdlen\<rparr>"

text \<open>The loop of \<^verbatim>\<open>sha3_update\<close> over the data, with \<^verbatim>\<open>j\<close> and the state.\<close>

fun sha3_update_loop :: "int \<Rightarrow> u8 list \<Rightarrow> int \<Rightarrow> u64 list \<Rightarrow> int \<times> u64 list" where
  "sha3_update_loop rsiz [] j q = (j, q)"
| "sha3_update_loop rsiz (d # data) j q =
    (let q = st_b_xor q (nat j) d;
         j = j + 1
     in if rsiz \<le> j then sha3_update_loop rsiz data 0 (sha3_keccakf q)
        else sha3_update_loop rsiz data j q)"

definition sha3_update :: "sha3_ctx_t \<Rightarrow> u8 list \<Rightarrow> sha3_ctx_t" where
  "sha3_update c data =
    (let (j, q) = sha3_update_loop (ctx_rsiz c) data (ctx_pt c) (ctx_st c) in c\<lparr>ctx_st := q, ctx_pt := j\<rparr>)"

definition sha3_final :: "sha3_ctx_t \<Rightarrow> u8 list \<times> sha3_ctx_t" where
  "sha3_final c =
    (let c = c\<lparr>ctx_st := st_b_xor (ctx_st c) (nat (ctx_pt c)) 0x06\<rparr>;
         c = c\<lparr>ctx_st := st_b_xor (ctx_st c) (nat (ctx_rsiz c - 1)) 0x80\<rparr>;
         c = c\<lparr>ctx_st := sha3_keccakf (ctx_st c)\<rparr>
     in (map (\<lambda>i. st_b (ctx_st c) i) [0..<nat (ctx_mdlen c)], c))"

definition sha3 :: "u8 list \<Rightarrow> int \<Rightarrow> u8 list" where
  "sha3 inp mdlen = fst (sha3_final (sha3_update (sha3_init mdlen) inp))"

section \<open>The permutation of FIPS 202\<close>

text \<open>Lane \<open>(x, y)\<close> of the state array is word \<open>x + 5 y\<close>.\<close>

definition lane :: "u64 list \<Rightarrow> nat \<Rightarrow> nat \<Rightarrow> u64" where
  "lane A x y = A ! (x mod 5 + 5 * (y mod 5))"

definition of_lanes :: "(nat \<Rightarrow> nat \<Rightarrow> u64) \<Rightarrow> u64 list" where
  "of_lanes f = map (\<lambda>i. f (i mod 5) (i div 5)) [0..<25]"

definition spec_theta :: "u64 list \<Rightarrow> u64 list" where
  "spec_theta A =
    (let C = (\<lambda>x. lane A x 0 XOR lane A x 1 XOR lane A x 2 XOR lane A x 3 XOR lane A x 4);
         D = (\<lambda>x. C (x + 4) XOR word_rotl 1 (C (x + 1)))
     in of_lanes (\<lambda>x y. lane A x y XOR D x))"

text \<open>
  The offset of \<open>\<rho>\<close> for the lane that step \<open>t\<close> of the walk \<open>(x, y) \<mapsto> (y, 2 x + 3 y)\<close> from \<open>(1, 0)\<close>
  reaches is \<open>(t + 1) (t + 2) / 2\<close>.
\<close>

primrec rho_walk :: "nat \<Rightarrow> nat \<times> nat" where
  "rho_walk 0 = (1, 0)"
| "rho_walk (Suc t) = (let (x, y) = rho_walk t in (y, (2 * x + 3 * y) mod 5))"

definition rho_offset :: "nat \<Rightarrow> nat \<Rightarrow> nat" where
  "rho_offset x y =
    (case find (\<lambda>t. rho_walk t = (x mod 5, y mod 5)) [0..<24] of
       None \<Rightarrow> 0 | Some t \<Rightarrow> (t + 1) * (t + 2) div 2 mod 64)"

definition spec_rho :: "u64 list \<Rightarrow> u64 list" where
  "spec_rho A = of_lanes (\<lambda>x y. word_rotl (rho_offset x y) (lane A x y))"

definition spec_pi :: "u64 list \<Rightarrow> u64 list" where
  "spec_pi A = of_lanes (\<lambda>x y. lane A (x + 3 * y) x)"

definition spec_chi :: "u64 list \<Rightarrow> u64 list" where
  "spec_chi A = of_lanes (\<lambda>x y. lane A x y XOR (NOT (lane A (x + 1) y) AND lane A (x + 2) y))"

text \<open>The round constants: bit \<open>2^j - 1\<close> of the constant of round \<open>r\<close> is bit \<open>j + 7 r\<close> of an LFSR.\<close>

definition lfsr_step :: "bool list \<Rightarrow> bool list" where
  "lfsr_step R = (let R = False # R; top = R ! 8 in
     take 8 (R[0 := R ! 0 \<noteq> top, 4 := R ! 4 \<noteq> top, 5 := R ! 5 \<noteq> top, 6 := R ! 6 \<noteq> top]))"

primrec lfsr_run :: "nat \<Rightarrow> bool list \<Rightarrow> bool list" where
  "lfsr_run 0 R = []"
| "lfsr_run (Suc n) R = R ! 0 # lfsr_run n (lfsr_step R)"

definition lfsr_bits :: "bool list" where
  "lfsr_bits = lfsr_run 168 [True, False, False, False, False, False, False, False]"

definition spec_rndc :: "nat \<Rightarrow> nat" where
  "spec_rndc r = (\<Sum>j\<leftarrow>[0..<7]. if lfsr_bits ! (j + 7 * r) then 2 ^ (2 ^ j - 1) else 0)"

lemma lfsr_bits_table:
  "lfsr_bits =
    [True, False, False, False, False, False, False, False, True, False, True, True, False, False, False,
     True, True, True, True, False, True, False, False, False, False, True, True, True, True, True, True,
     True, True, False, False, True, False, False, False, False, True, False, True, False, False, True,
     True, True, True, True, False, True, False, True, False, True, False, True, True, True, False,
     False, False, False, False, True, True, False, False, False, True, False, True, False, True, True,
     False, False, True, True, False, False, True, False, True, True, True, True, True, True, False,
     True, True, True, True, False, False, True, True, False, True, True, True, False, True, True, True,
     False, False, True, False, True, False, True, False, False, True, False, True, False, False, False,
     True, False, False, True, False, True, True, False, True, False, False, False, True, True, False,
     False, True, True, True, False, False, True, True, True, True, False, False, False, True, True,
     False, True, True, False, False, False, False, True, False, False, False, True, False, True, True,
     True]"
  unfolding lfsr_bits_def by code_simp

lemma rndc_table: "map of_nat (map spec_rndc [0..<24]) = keccakf_rndc"
proof -
  have "map spec_rndc [0..<24] =
    [0x0000000000000001, 0x0000000000008082, 0x800000000000808a,
     0x8000000080008000, 0x000000000000808b, 0x0000000080000001,
     0x8000000080008081, 0x8000000000008009, 0x000000000000008a,
     0x0000000000000088, 0x0000000080008009, 0x000000008000000a,
     0x000000008000808b, 0x800000000000008b, 0x8000000000008089,
     0x8000000000008003, 0x8000000000008002, 0x8000000000000080,
     0x000000000000800a, 0x800000008000000a, 0x8000000080008081,
     0x8000000000008080, 0x0000000080000001, 0x8000000080008008]"
    by (simp add: spec_rndc_def lfsr_bits_table upt_rec)
  then show ?thesis by (simp add: keccakf_rndc_def)
qed

lemma list_25:
  assumes "length A = 25"
  obtains s0 s1 s2 s3 s4 s5 s6 s7 s8 s9 s10 s11 s12 s13 s14 s15 s16 s17 s18 s19 s20 s21 s22 s23 s24 where
    "A = [s0, s1, s2, s3, s4, s5, s6, s7, s8, s9, s10, s11, s12, s13, s14, s15, s16, s17, s18, s19, s20, s21, s22, s23, s24]"
  using assms by (auto simp: numeral_eq_Suc length_Suc_conv)

lemma bit_rotl64:
  assumes "0 < y" "y < 64" "n < 64"
  shows "bit (word_rotl y (x::u64)) n = (if y \<le> n then bit x (n - y) else bit x (64 - y + n))"
proof -
  have "(n + (64 - y)) mod 64 = (if y \<le> n then n - y else 64 - y + n)"
  proof (cases "y \<le> n")
    case True
    then have "n + (64 - y) = n - y + 64" using assms by simp
    then have "(n + (64 - y)) mod 64 = (n - y) mod 64" by simp
    then show ?thesis using True assms by simp
  qed (use assms in simp)
  then show ?thesis using assms by (simp add: bit_word_rotl_iff)
qed

lemma ROTL64_word_rotl: "y < 64 \<Longrightarrow> 0 < y \<Longrightarrow> ROTL64 x y = word_rotl y x"
proof (rule bit_word_eqI)
  fix n assume y: "y < 64" "0 < y" and n: "n < LENGTH(64)"
  have "y \<le> n \<Longrightarrow> \<not> bit x (64 - y + n)"
    using y by (auto dest: bit_imp_le_length)
  then show "bit (ROTL64 x y) n = bit (word_rotl y x) n"
    using y n by (simp add: ROTL64_def bit_or_iff bit_push_bit_iff bit_drop_bit_eq bit_rotl64)
qed

lemma rotl_0: "word_rotl 0 (x::u64) = x"
  by (rule bit_word_eqI) (simp add: bit_word_rotl_iff)

lemma rotl_1: "ROTL64 x (Suc 0) = word_rotl 1 x"
  by (simp add: ROTL64_word_rotl)

lemma theta_spec: "length A = 25 \<Longrightarrow> theta A = spec_theta A"
  by (erule list_25) (simp add: theta_def spec_theta_def of_lanes_def lane_def upt_rec Let_def rotl_1)

lemma rho_offsets:
  "map (\<lambda>i. rho_offset (i mod 5) (i div 5)) [0..<25] =
    [0, 1, 62, 28, 27, 36, 44, 6, 55, 20, 3, 10, 43, 25, 39, 41, 45, 15, 21, 8, 18, 2, 61, 56, 14]"
  by code_simp

lemma spec_rho_table:
  assumes "length A = 25"
  shows "spec_rho A = map2 word_rotl
    [0, 1, 62, 28, 27, 36, 44, 6, 55, 20, 3, 10, 43, 25, 39, 41, 45, 15, 21, 8, 18, 2, 61, 56, 14] A"
proof -
  have "spec_rho A = map2 word_rotl (map (\<lambda>i. rho_offset (i mod 5) (i div 5)) [0..<25]) A"
    using assms by (intro nth_equalityI) (simp_all add: spec_rho_def of_lanes_def lane_def)
  then show ?thesis unfolding rho_offsets .
qed

lemma rho_pi_spec: "length A = 25 \<Longrightarrow> rho_pi A = spec_pi (spec_rho A)"
  apply (simp only: spec_rho_table)
  by (erule list_25) (simp add: rho_pi_def spec_pi_def of_lanes_def lane_def upt_rec Let_def ROTL64_word_rotl rotl_0 rotl_1
     keccakf_piln_def keccakf_rotc_def)

lemma chi_spec: "length A = 25 \<Longrightarrow> chi A = spec_chi A"
  by (erule list_25) (simp add: chi_def spec_chi_def of_lanes_def lane_def upt_rec Let_def)



definition spec_round :: "nat \<Rightarrow> u64 list \<Rightarrow> u64 list" where
  "spec_round r A =
    (let B = spec_chi (spec_pi (spec_rho (spec_theta A))) in B[0 := B ! 0 XOR of_nat (spec_rndc r)])"

definition spec_keccak_f :: "u64 list \<Rightarrow> u64 list" where
  "spec_keccak_f A = fold spec_round [0..<24] A"

lemma length_of_lanes [simp]: "length (of_lanes f) = 25"
  by (simp add: of_lanes_def)

lemma spec_lengths [simp]:
  "length (spec_theta A) = 25" "length (spec_rho A) = 25" "length (spec_pi A) = 25" "length (spec_chi A) = 25"
  "length (spec_round r A) = 25"
  by (simp_all add: spec_theta_def spec_rho_def spec_pi_def spec_chi_def spec_round_def Let_def)

lemma rndc_nth: "r < 24 \<Longrightarrow> keccakf_rndc ! r = of_nat (spec_rndc r)"
  using arg_cong [OF rndc_table, of "\<lambda>xs. xs ! r"] by simp

lemma round_spec:
  "length A = 25 \<Longrightarrow> r < 24 \<Longrightarrow> iota r (chi (rho_pi (theta A))) = spec_round r A"
  by (simp add: iota_def spec_round_def theta_spec rho_pi_spec chi_spec rndc_nth Let_def)

lemma rounds_spec:
  "length A = 25 \<Longrightarrow> list_all (\<lambda>r. r < 24) rs \<Longrightarrow>
    fold (\<lambda>r st. iota r (chi (rho_pi (theta st)))) rs A = fold spec_round rs A"
  by (induction rs arbitrary: A) (simp_all add: round_spec)

lemma keccakf_spec: "length A = 25 \<Longrightarrow> sha3_keccakf A = spec_keccak_f A"
  by (simp add: sha3_keccakf_def KECCAKF_ROUNDS_def spec_keccak_f_def rounds_spec list_all_iff)

lemma length_fold_round [simp]: "length A = 25 \<Longrightarrow> length (fold spec_round rs A) = 25"
  by (induction rs arbitrary: A) simp_all

lemma length_spec_keccak_f [simp]: "length A = 25 \<Longrightarrow> length (spec_keccak_f A) = 25"
  by (simp add: spec_keccak_f_def)

section \<open>The sponge of FIPS 202\<close>

text \<open>Strings of bits, the low bit of a byte first, the suffix \<open>01\<close> and the padding \<open>10*1\<close>.\<close>

definition bits_of_byte :: "u8 \<Rightarrow> bool list" where
  "bits_of_byte b = map (bit b) [0..<8]"

definition bits_of :: "u8 list \<Rightarrow> bool list" where
  "bits_of bs = concat (map bits_of_byte bs)"

definition pad10_1 :: "nat \<Rightarrow> nat \<Rightarrow> bool list" where
  "pad10_1 x m = [True] @ replicate (nat ((- int m - 2) mod int x)) False @ [True]"

definition spec_pad :: "nat \<Rightarrow> u8 list \<Rightarrow> bool list" where
  "spec_pad r m = (let N = bits_of m @ [False, True] in N @ pad10_1 (8 * r) (length N))"

text \<open>A lane is 64 bits, the state 25 lanes; a block of the rate fills the first lanes.\<close>

definition lanes_of_bits :: "bool list \<Rightarrow> u64 list" where
  "lanes_of_bits bs = map (\<lambda>i. horner_sum of_bool 2 (take 64 (drop (64 * i) bs))) [0..<25]"

function spec_absorb :: "nat \<Rightarrow> bool list \<Rightarrow> u64 list \<Rightarrow> u64 list" where
  "spec_absorb x bs A =
    (if bs = [] \<or> x = 0 then A
     else spec_absorb x (drop x bs) (spec_keccak_f (map2 (XOR) A (lanes_of_bits (take x bs)))))"
  by pat_completeness auto
termination by (relation "measure (\<lambda>(x, bs, A). length bs)") auto

definition bits_of_lanes :: "u64 list \<Rightarrow> bool list" where
  "bits_of_lanes A = concat (map (\<lambda>w. map (bit w) [0..<64]) A)"

definition spec_sha3 :: "u8 list \<Rightarrow> nat \<Rightarrow> bool list" where
  "spec_sha3 m mdlen =
    take (8 * mdlen) (bits_of_lanes (spec_absorb (8 * (200 - 2 * mdlen)) (spec_pad (200 - 2 * mdlen) m) (replicate 25 0)))"

declare spec_absorb.simps [simp del]

section \<open>Bytes of the state\<close>

lemma bit_u8_less: "bit (v::u8) n \<Longrightarrow> n < 8"
  by (drule bit_imp_le_length) simp

lemma bit_st_b: "bit (st_b q j) n \<longleftrightarrow> n < 8 \<and> bit (q ! (j div 8)) (8 * (j mod 8) + n)"
  proof -
  have "bit (ucast w :: u8) n \<longleftrightarrow> n < 8 \<and> bit w n" for w :: u64
    by (subst bit_ucast_iff) auto
  then show ?thesis by (simp add: st_b_def bit_drop_bit_eq)
qed

lemma length_st_b_xor [simp]: "length (st_b_xor q j v) = length q"
  by (simp add: st_b_xor_def)

text \<open>Bit \<open>n\<close> of the state, counting through the lanes.\<close>

definition sbit :: "u64 list \<Rightarrow> nat \<Rightarrow> bool" where
  "sbit A n = bit (A ! (n div 64)) (n mod 64)"

lemma state_eqI:
  assumes "length A = 25" "length B = 25" "\<And>n. n < 1600 \<Longrightarrow> sbit A n = sbit B n"
  shows "A = B"
proof (rule nth_equalityI)
  fix i assume i: "i < length A"
  show "A ! i = B ! i"
  proof (rule bit_word_eqI)
    fix n assume "n < LENGTH(64)"
    then show "bit (A ! i) n = bit (B ! i) n"
      using assms(3) [of "64 * i + n"] i assms(1) by (simp add: sbit_def)
  qed
qed (use assms in simp)


lemma byte_offset_unique: "(w::nat) < 8 \<Longrightarrow> 8 * t \<le> 8 * u + w \<Longrightarrow> 8 * u + w - 8 * t < 8 \<Longrightarrow> t = u"
  by arith

lemma bit_st_b_xor:
  assumes "length q = 25" "i' < 25" "k < 8" "k' < 8" "b < 8"
  shows "bit (st_b_xor q (8 * i' + k') v ! i) (8 * k + b) = (bit (q ! i) (8 * k + b) \<noteq> (i = i' \<and> k = k' \<and> bit v b))"
proof (cases "i = i'")
  case True
  have "8 * k' \<le> 8 * k + b \<and> bit v (8 * k + b - 8 * k') \<longleftrightarrow> k = k' \<and> bit v b"
    using byte_offset_unique [of b k' k] bit_u8_less [of v "8 * k + b - 8 * k'"] assms by auto
  then have "bit (push_bit (8 * k') (ucast v :: u64)) (8 * k + b) \<longleftrightarrow> k = k' \<and> bit v b"
    using assms by (auto simp: bit_push_bit_iff bit_ucast_iff)
  then show ?thesis using True assms by (simp add: st_b_xor_def bit_xor_iff)
qed (use assms in \<open>simp add: st_b_xor_def\<close>)

lemma sbit_st_b_xor:
  assumes "length q = 25" "j < 200"
  shows "sbit (st_b_xor q j v) n = (sbit q n \<noteq> (n div 8 = j \<and> bit v (n mod 8)))"
proof -
  let ?i = "n div 64" and ?k = "n div 8 mod 8" and ?b = "n mod 8" and ?i' = "j div 8" and ?k' = "j mod 8"
  have m: "n mod 64 = 8 * ?k + ?b" and d: "n div 64 = n div 8 div 8"
    using mod_mult2_eq [of n 8 8] div_mult2_eq [of n 8 8] by simp_all
  have j: "8 * ?i' + ?k' = j" by (rule mult_div_mod_eq)
  have "?i' < 25" "?k < 8" "?k' < 8" "?b < 8" using assms(2) by simp_all
  from bit_st_b_xor [OF assms(1) this, of v ?i]
  have "sbit (st_b_xor q j v) n = (sbit q n \<noteq> ((?i = ?i' \<and> ?k = ?k') \<and> bit v ?b))"
    unfolding sbit_def j m by simp
  also have "(?i = ?i' \<and> ?k = ?k') = (n div 8 = j)"
    unfolding d by (metis mult_div_mod_eq)
  finally show ?thesis .
qed


section \<open>Blocks\<close>

primrec xor_at :: "u8 list \<Rightarrow> nat \<Rightarrow> u64 list \<Rightarrow> u64 list" where
  "xor_at [] j q = q"
| "xor_at (d # ds) j q = xor_at ds (Suc j) (st_b_xor q j d)"

lemma xor_at_append: "xor_at (as @ bs) j q = xor_at bs (j + length as) (xor_at as j q)"
  by (induction as arbitrary: j q) simp_all

lemma length_xor_at [simp]: "length (xor_at P j q) = length q"
  by (induction P arbitrary: j q) simp_all

lemma sbit_xor_at:
  "length q = 25 \<Longrightarrow> j + length P \<le> 200 \<Longrightarrow>
    sbit (xor_at P j q) n =
      (sbit q n \<noteq> (j \<le> n div 8 \<and> n div 8 < j + length P \<and> bit (P ! (n div 8 - j)) (n mod 8)))"
proof (induction P arbitrary: j q)
  case (Cons d P)
  show ?case
  proof (cases "n div 8 = j")
    case False
    then have "j \<le> n div 8 \<longleftrightarrow> Suc j \<le> n div 8" unfolding Suc_le_eq by (metis nat_less_le)
    then show ?thesis using Cons False
      by (auto simp: sbit_st_b_xor nth_Cons' Suc_diff_le [symmetric] simp del: Suc_eq_plus1)
  qed (use Cons in \<open>simp add: sbit_st_b_xor\<close>)
qed simp

lemma length_lanes_of_bits [simp]: "length (lanes_of_bits bs) = 25"
  by (simp add: lanes_of_bits_def)

lemma sbit_xor_lanes:
  assumes "length A = 25" "n < 1600"
  shows "sbit (map2 (XOR) A (lanes_of_bits bs)) n = (sbit A n \<noteq> (n < length bs \<and> bs ! n))"
proof -
  have i: "n div 64 < 25" and k: "n mod 64 < 64" using assms(2) by simp_all
  have n: "64 * (n div 64) + n mod 64 = n" by (rule mult_div_mod_eq)
  have "bit (lanes_of_bits bs ! (n div 64)) (n mod 64) \<longleftrightarrow> n < length bs \<and> bs ! n"
  proof -
    have "bit (lanes_of_bits bs ! (n div 64)) (n mod 64) \<longleftrightarrow>
        n mod 64 < length bs - 64 * (n div 64) \<and> bs ! (64 * (n div 64) + n mod 64)"
      using i k by (auto simp add: lanes_of_bits_def bit_horner_sum_bit_word_iff)
    also have "n mod 64 < length bs - 64 * (n div 64) \<longleftrightarrow> 64 * (n div 64) + n mod 64 < length bs"
      by (simp only: less_diff_conv add.commute)
    finally show ?thesis unfolding n .
  qed
  then show ?thesis
    using i assms(1) by (simp add: sbit_def bit_xor_iff)
qed

lemma length_bits_of [simp]: "length (bits_of bs) = 8 * length bs"
  by (induction bs) (simp_all add: bits_of_def bits_of_byte_def)

lemma bits_of_Nil [simp]: "bits_of [] = []"
  by (simp add: bits_of_def)

lemma bits_of_append: "bits_of (as @ bs) = bits_of as @ bits_of bs"
  by (simp add: bits_of_def)

lemma bits_of_take: "take (8 * n) (bits_of bs) = bits_of (take n bs)"
proof (cases "n \<le> length bs")
  case True
  have "bits_of bs = bits_of (take n bs) @ bits_of (drop n bs)"
    by (simp add: bits_of_append [symmetric])
  then show ?thesis using True by simp
qed simp

lemma bits_of_drop: "drop (8 * n) (bits_of bs) = bits_of (drop n bs)"
proof (cases "n \<le> length bs")
  case True
  have "bits_of bs = bits_of (take n bs) @ bits_of (drop n bs)"
    by (simp add: bits_of_append [symmetric])
  then show ?thesis using True by simp
qed simp

lemma bits_of_nth: "n < 8 * length bs \<Longrightarrow> bits_of bs ! n = bit (bs ! (n div 8)) (n mod 8)"
proof (induction bs arbitrary: n)
  case (Cons b bs)
  show ?case
  proof (cases "n < 8")
    case False
    then obtain m where m: "n = 8 + m" by (metis le_add_diff_inverse not_less)
    then have "bits_of (b # bs) ! n = bits_of bs ! m"
      by (simp add: bits_of_def bits_of_byte_def nth_append)
    moreover have "(8 + m) div 8 = Suc (m div 8)" by simp
    ultimately show ?thesis using Cons m by simp
  qed (simp add: bits_of_def bits_of_byte_def nth_append)
qed simp

lemma xor_block_eq:
  assumes "length A = 25" "length P \<le> 200"
  shows "xor_at P 0 A = map2 (XOR) A (lanes_of_bits (bits_of P))"
proof (rule state_eqI)
  fix n :: nat assume n: "n < 1600"
  have "n div 8 < length P \<longleftrightarrow> n < 8 * length P"
    by (simp add: div_less_iff_less_mult mult.commute)
  then show "sbit (xor_at P 0 A) n = sbit (map2 (XOR) A (lanes_of_bits (bits_of P))) n"
    using assms n by (auto simp: sbit_xor_at sbit_xor_lanes bits_of_nth)
qed (use assms in simp_all)

section \<open>Padding\<close>

definition pad_bytes :: "nat \<Rightarrow> nat \<Rightarrow> u8 list" where
  "pad_bytes r k = (if k = r - 1 then [0x86] else [0x06] @ replicate (r - 2 - k) 0 @ [0x80])"

lemma length_pad_bytes: "k < r \<Longrightarrow> 2 \<le> r \<Longrightarrow> length (pad_bytes r k) = r - k"
  by (auto simp: pad_bytes_def)

lemma bits_of_zeros: "bits_of (replicate n 0) = replicate (8 * n) False"
  by (induction n) (simp_all add: bits_of_def bits_of_byte_def upt_rec replicate_add numeral_eq_Suc)

lemma pad_count:
  assumes "0 < r"
  shows "nat ((- int (8 * L + 2) - 2) mod int (8 * r)) = 8 * (r - L mod r) - 4"
proof -
  have k: "L mod r < r" using assms by simp
  have "- int (8 * L + 2) - 2 = (8 * int (r - L mod r) - 4) + (- int (L div r) - 1) * int (8 * r)"
  proof -
    have "int L = int (L div r) * int r + int (L mod r)"
      by (metis div_mult_mod_eq of_nat_add of_nat_mult)
    then show ?thesis using k by (simp add: algebra_simps of_nat_diff)
  qed
  then have "(- int (8 * L + 2) - 2) mod int (8 * r) = (8 * int (r - L mod r) - 4) mod int (8 * r)"
    by (simp only: mod_mult_self1)
  also have "\<dots> = 8 * int (r - L mod r) - 4"
    by (rule mod_pos_pos_trivial) (use k in auto)
  finally show ?thesis by (simp add: nat_diff_distrib nat_mult_distrib)
qed

lemma bits_of_singleton: "bits_of [b] = bits_of_byte b" "bits_of (b # bs) = bits_of_byte b @ bits_of bs"
  by (simp_all add: bits_of_def)

lemma spec_pad_eq:
  assumes "2 \<le> r"
  shows "spec_pad r m = bits_of (m @ pad_bytes r (length m mod r))"
proof -
  let ?k = "length m mod r"
  have k: "?k < r" using assms by simp
  have b: "bits_of_byte 0x06 = [False, True, True, False, False, False, False, False]"
    "bits_of_byte 0x86 = [False, True, True, False, False, False, False, True]"
    "bits_of_byte 0x80 = [False, False, False, False, False, False, False, True]"
    by (simp_all add: bits_of_byte_def upt_rec)
  have f: "replicate 4 False = [False, False, False, False]" "replicate 5 False = [False, False, False, False, False]"
    "replicate 7 False = [False, False, False, False, False, False, False]"
    by (simp_all add: numeral_eq_Suc)
  have "spec_pad r m = bits_of m @ [False, True, True] @ replicate (8 * (r - ?k) - 4) False @ [True]"
    using pad_count [of r "length m"] assms by (simp add: spec_pad_def pad10_1_def Let_def)
  also have "[False, True, True] @ replicate (8 * (r - ?k) - 4) False @ [True] = bits_of (pad_bytes r ?k)"
  proof (cases "?k = r - 1")
    case True
    then have "8 * (r - ?k) - 4 = 4" using assms by simp
    then show ?thesis using True by (simp add: pad_bytes_def bits_of_def b f)
  next
    case False
    then have "8 * (r - ?k) - 4 = 5 + (8 * (r - 2 - ?k) + 7)" using k by simp
    then have "replicate (8 * (r - ?k) - 4) False = replicate 5 False @ replicate (8 * (r - 2 - ?k)) False @ replicate 7 False"
      by (simp only: replicate_add)
    then show ?thesis using False
      by (simp add: pad_bytes_def bits_of_append bits_of_zeros) (simp add: bits_of_singleton bits_of_append bits_of_zeros b f)
  qed
  finally show ?thesis by (simp add: bits_of_append)
qed


section \<open>The sponge\<close>

lemma length_sha3_keccakf [simp]: "length A = 25 \<Longrightarrow> length (sha3_keccakf A) = 25"
  by (simp add: keccakf_spec)

lemma update_loop_append:
  "sha3_update_loop r (as @ bs) j q = (let (j, q) = sha3_update_loop r as j q in sha3_update_loop r bs j q)"
  by (induction r as j q rule: sha3_update_loop.induct) (simp_all add: Let_def split: prod.splits)

lemma update_loop_part:
  "j + length P < r \<Longrightarrow> sha3_update_loop (int r) P (int j) q = (int (j + length P), xor_at P j q)"
proof (induction P arbitrary: j q)
  case (Cons d P)
  have "sha3_update_loop (int r) P (int (Suc j)) (st_b_xor q j d) = (int (Suc j + length P), xor_at P (Suc j) (st_b_xor q j d))"
    by (rule Cons.IH) (use Cons.prems in simp)
  then show ?case using Cons.prems by (simp add: add.commute)
qed simp

lemma update_loop_block:
  assumes "length P = r" "0 < r"
  shows "sha3_update_loop (int r) P 0 q = (0, sha3_keccakf (xor_at P 0 q))"
proof -
  obtain P' d where P: "P = P' @ [d]" using assms by (metis length_greater_0_conv rev_exhaust)
  have "sha3_update_loop (int r) P' (int 0) q = (int (length P'), xor_at P' 0 q)"
    using update_loop_part [of 0 P' r q] assms P by simp
  then show ?thesis using assms P
    by (simp add: update_loop_append xor_at_append Let_def)
qed

text \<open>Absorbing all full blocks: the bytes left over and the state.\<close>

function absorb :: "nat \<Rightarrow> u8 list \<Rightarrow> u64 list \<Rightarrow> u8 list \<times> u64 list" where
  "absorb r bs q =
    (if r = 0 \<or> length bs < r then (bs, q)
     else absorb r (drop r bs) (sha3_keccakf (xor_at (take r bs) 0 q)))"
  by pat_completeness auto
termination by (relation "measure (\<lambda>(r, bs, q). length bs)") auto

declare absorb.simps [simp del]

lemma update_loop_absorb:
  "0 < r \<Longrightarrow>
    sha3_update_loop (int r) bs 0 q =
      (let (rest, q') = absorb r bs q in (int (length rest), xor_at rest 0 q'))"
proof (induction r bs q rule: absorb.induct)
  case (1 r bs q)
  show ?case
  proof (cases "length bs < r")
    case True
    then show ?thesis using update_loop_part [of 0 bs r q] by (subst absorb.simps) simp
  next
    case False
    have "sha3_update_loop (int r) (take r bs @ drop r bs) 0 q =
        sha3_update_loop (int r) (drop r bs) 0 (sha3_keccakf (xor_at (take r bs) 0 q))"
      using False 1(2) by (simp only: update_loop_append update_loop_block length_take) simp
    then show ?thesis using 1 False by (subst absorb.simps) simp
  qed
qed

lemma absorb_length:
  "0 < r \<Longrightarrow> length q = 25 \<Longrightarrow>
    length (fst (absorb r bs q)) = length bs mod r \<and> length (snd (absorb r bs q)) = 25"
proof (induction r bs q rule: absorb.induct)
  case (1 r bs q)
  show ?case
    by (subst absorb.simps, subst absorb.simps) (use 1 in \<open>simp add: mod_if [of "length bs"]\<close>)
qed

lemma absorb_append:
  "0 < r \<Longrightarrow> absorb r (bs @ cs) q = (let (rest, q') = absorb r bs q in absorb r (rest @ cs) q')"
proof (induction r bs q rule: absorb.induct)
  case (1 r bs q)
  show ?case
  proof (cases "length bs < r")
    case True
    then show ?thesis by (simp add: absorb.simps [of r bs])
  next
    case False
    then show ?thesis using 1
      by (simp add: absorb.simps [of r bs] absorb.simps [of r "bs @ cs"])
  qed
qed

lemma spec_absorb_bytes:
  "r dvd length bs \<Longrightarrow> 0 < r \<Longrightarrow> r \<le> 200 \<Longrightarrow> length q = 25 \<Longrightarrow>
    spec_absorb (8 * r) (bits_of bs) q = snd (absorb r bs q)"
proof (induction r bs q rule: absorb.induct)
  case (1 r bs q)
  show ?case
  proof (cases "bs = []")
    case True
    then show ?thesis using 1 by (simp add: spec_absorb.simps absorb.simps)
  next
    case False
    then have l: "r \<le> length bs" using 1 by (auto dest: dvd_imp_le)
    have ne: "bits_of bs \<noteq> []" using False by (metis length_bits_of length_0_conv mult_eq_0_iff zero_neq_numeral)
    have d: "r dvd length (drop r bs)" using 1(2) l by (simp add: dvd_minus_self)
    let ?q = "sha3_keccakf (xor_at (take r bs) 0 q)"
    have "spec_absorb (8 * r) (bits_of bs) q = spec_absorb (8 * r) (bits_of (drop r bs)) ?q"
      using 1 l ne by (subst spec_absorb.simps) (simp add: bits_of_take bits_of_drop xor_block_eq keccakf_spec)
    also have "\<dots> = snd (absorb r (drop r bs) ?q)"
      using 1 l d by simp
    also have "\<dots> = snd (absorb r bs q)"
      using l 1 by (simp add: absorb.simps [of r bs])
    finally show ?thesis .
  qed
qed

lemma pad_bytes_nth:
  assumes "k \<le> p" "p < r"
  shows "pad_bytes r k ! (p - k) = (if k = r - 1 then 0x86 else if p = k then 0x06 else if p = r - 1 then 0x80 else 0)"
proof -
  consider "k = r - 1" | "k \<noteq> r - 1" "p = k" | "k \<noteq> r - 1" "p = r - 1" "p \<noteq> k"
    | "k \<noteq> r - 1" "p \<noteq> r - 1" "p \<noteq> k" by blast
  then show ?thesis
  proof cases
    case 3
    then have "p - k = Suc (r - 2 - k)" using assms by simp
    then show ?thesis using 3 by (simp add: pad_bytes_def nth_append)
  next
    case 4
    then have "p - k = Suc (p - k - 1)" "p - k - 1 < r - 2 - k" using assms by simp_all
    then show ?thesis using 4 by (metis (no_types, lifting) append_Cons append_Nil length_replicate nth_Cons_Suc nth_append nth_replicate pad_bytes_def)
  qed (use assms in \<open>simp_all add: pad_bytes_def\<close>)
qed

lemma pad_bit_cases:
  "k \<le> p \<Longrightarrow> p < r \<Longrightarrow> k < r \<Longrightarrow>
    (if k = r - (1::nat) then a \<noteq> b else if p = k then a else if p = r - 1 then b else False) =
    ((p = k \<and> a) \<noteq> (p = r - 1 \<and> b))"
  by auto

lemma final_pad:
  assumes "length q = 25" "k < r" "2 \<le> r" "r \<le> 200"
  shows "st_b_xor (st_b_xor q k 0x06) (r - 1) 0x80 = xor_at (pad_bytes r k) k q"
proof (rule state_eqI)
  fix n :: nat assume "n < 1600"
  have x: "bit (0x86 :: u8) t = (bit (0x06 :: u8) t \<noteq> bit (0x80 :: u8) t)" for t
  proof -
    have "(0x86 :: u8) = 0x06 XOR 0x80" by simp
    then show ?thesis by (simp only: bit_xor_iff)
  qed
  have len: "k + length (pad_bytes r k) = r" using assms by (simp add: length_pad_bytes)
  have "(k \<le> p \<and> p < r \<and> bit (pad_bytes r k ! (p - k)) t) =
      ((p = k \<and> bit (0x06 :: u8) t) \<noteq> (p = r - 1 \<and> bit (0x80 :: u8) t))" for p t
  proof (cases "k \<le> p \<and> p < r")
    case True
    then have "bit (pad_bytes r k ! (p - k)) t =
        (if k = r - 1 then bit (0x06 :: u8) t \<noteq> bit (0x80 :: u8) t else if p = k then bit (0x06 :: u8) t
         else if p = r - 1 then bit (0x80 :: u8) t else False)"
      by (simp only: pad_bytes_nth x bit_0_eq bot_apply bot_bool_def split: if_split) simp
    also have "\<dots> = ((p = k \<and> bit (0x06 :: u8) t) \<noteq> (p = r - 1 \<and> bit (0x80 :: u8) t))"
      by (rule pad_bit_cases) (use True assms(2) in simp_all)
    finally show ?thesis using True by (simp only: simp_thms)
  qed (use assms in auto)
  then show "sbit (st_b_xor (st_b_xor q k 0x06) (r - 1) 0x80) n = sbit (xor_at (pad_bytes r k) k q) n"
    using assms len by (simp add: sbit_st_b_xor sbit_xor_at) blast
qed (use assms in simp_all)

lemma bits_of_lanes_nth: "n < 64 * length A \<Longrightarrow> bits_of_lanes A ! n = sbit A n"
proof (induction A arbitrary: n)
  case (Cons w A)
  show ?case
  proof (cases "n < 64")
    case False
    then obtain m where m: "n = 64 + m" by (metis le_add_diff_inverse not_less)
    then have "bits_of_lanes (w # A) ! n = bits_of_lanes A ! m"
      by (simp add: bits_of_lanes_def nth_append)
    moreover have "(64 + m) div 64 = Suc (m div 64)" by simp
    ultimately show ?thesis using Cons m by (simp add: sbit_def)
  qed (simp add: bits_of_lanes_def nth_append sbit_def)
qed simp

lemma length_bits_of_lanes [simp]: "length (bits_of_lanes A) = 64 * length A"
  by (induction A) (simp_all add: bits_of_lanes_def)

lemma bits_of_output:
  assumes "length A = 25" "d \<le> 200"
  shows "bits_of (map (st_b A) [0..<d]) = take (8 * d) (bits_of_lanes A)"
proof (rule nth_equalityI)
  fix n assume "n < length (bits_of (map (st_b A) [0..<d]))"
  then have n: "n < 8 * d" "n div 8 < d" by simp_all
  have m: "n mod 64 = 8 * (n div 8 mod 8) + n mod 8" and e: "n div 64 = n div 8 div 8"
    using mod_mult2_eq [of n 8 8] div_mult2_eq [of n 8 8] by simp_all
  have "bits_of (map (st_b A) [0..<d]) ! n = sbit A n"
    using n by (simp add: bits_of_nth bit_st_b) (simp only: sbit_def m e)
  then show "bits_of (map (st_b A) [0..<d]) ! n = take (8 * d) (bits_of_lanes A) ! n"
    using n assms by (simp add: bits_of_lanes_nth)
qed (use assms in simp)

lemma length_spec_absorb: "length q = 25 \<Longrightarrow> length (spec_absorb x bs q) = 25"
proof (induction x bs q rule: spec_absorb.induct)
  case (1 x bs q)
  then show ?case by (subst spec_absorb.simps) simp
qed

lemma update_append: "sha3_update (sha3_update c as) bs = sha3_update c (as @ bs)"
  by (simp add: sha3_update_def update_loop_append Let_def split: prod.splits)

lemma sha3_state:
  assumes "0 < mdlen" "mdlen < 100"
  defines "r \<equiv> 200 - 2 * mdlen"
  shows "ctx_st (snd (sha3_final (sha3_update (sha3_init (int mdlen)) m))) =
    spec_absorb (8 * r) (spec_pad r m) (replicate 25 0)"
proof -
  let ?q = "replicate 25 0 :: u64 list"
  have r: "2 \<le> r" "r \<le> 200" "0 < r" and ri: "200 - 2 * int mdlen = int r" using assms by simp_all
  obtain rest q where a: "absorb r m ?q = (rest, q)" by force
  then have rest: "length rest = length m mod r" and q: "length q = 25"
    using absorb_length [OF r(3), of ?q m] by simp_all
  let ?k = "length m mod r" and ?p = "pad_bytes r (length m mod r)"
  have k: "?k < r" using r by simp
  have lp: "length rest + length ?p = r" using rest k r by (simp add: length_pad_bytes)
  have ri1: "int r - 1 = int (r - 1)" using r by simp
  have "ctx_st (snd (sha3_final (sha3_update (sha3_init (int mdlen)) m))) =
      sha3_keccakf (st_b_xor (st_b_xor (xor_at rest 0 q) ?k 0x06) (r - 1) 0x80)"
    using update_loop_absorb [OF r(3), of m ?q] a rest
    by (simp add: sha3_final_def sha3_update_def sha3_init_def ri ri1 Let_def)
  also have "\<dots> = sha3_keccakf (xor_at (rest @ ?p) 0 q)"
    using final_pad [OF _ k r(1,2), of "xor_at rest 0 q"] q rest by (simp add: xor_at_append)
  also have "\<dots> = snd (absorb r (rest @ ?p) q)"
    using lp r by (simp add: absorb.simps)
  also have "\<dots> = snd (absorb r (m @ ?p) ?q)"
    by (simp add: absorb_append [OF r(3), of m] a)
  also have "\<dots> = spec_absorb (8 * r) (bits_of (m @ ?p)) ?q"
  proof -
    have "length (m @ ?p) = length m div r * r + (length m mod r + length ?p)"
      unfolding length_append add.assoc [symmetric] div_mult_mod_eq ..
    also have "length m mod r + length ?p = r" using lp rest by (simp only:)
    finally have "length (m @ ?p) = length m div r * r + r" .
    then have "r dvd length (m @ ?p)" by simp
    then show ?thesis by (simp only: spec_absorb_bytes r length_replicate)
  qed
  finally show ?thesis by (simp add: spec_pad_eq r)
qed

text \<open>
  (C7) The library's SHA3 is the SHA3 of FIPS 202: for every digest length up to the rate (the four
  standard ones among them) and every message, the bits of the digest are the first \<open>8 mdlen\<close> bits
  of the sponge over the specification's Keccak-f[1600], whose \<open>\<theta>, \<rho>, \<pi>, \<chi>, \<iota>\<close> are defined on lanes
  with the offsets and the round constants computed from their definitions, absorbing the message
  followed by the bits \<open>01\<close> and the padding \<open>10*1\<close>.
\<close>

theorem sha3_correct:
  assumes "0 < mdlen" "mdlen \<le> 66"
  shows "bits_of (sha3 m (int mdlen)) = spec_sha3 m mdlen"
proof -
  let ?f = "sha3_final (sha3_update (sha3_init (int mdlen)) m)"
  have st: "ctx_st (snd ?f) = spec_absorb (8 * (200 - 2 * mdlen)) (spec_pad (200 - 2 * mdlen) m) (replicate 25 0)"
    by (rule sha3_state) (use assms in simp_all)
  have "length (ctx_st (snd ?f)) = 25"
    unfolding st by (rule length_spec_absorb) simp
  moreover have "sha3 m (int mdlen) = map (st_b (ctx_st (snd ?f))) [0..<mdlen]"
    by (simp add: sha3_def sha3_final_def sha3_update_def sha3_init_def Let_def split: prod.splits)
  ultimately show ?thesis using assms by (simp add: bits_of_output st spec_sha3_def)
qed

theorem sha3_correct_witness: "bits_of (sha3 [0x61, 0x62] (int 64)) = spec_sha3 [0x61, 0x62] 64"
  by (rule sha3_correct) simp_all

text \<open>The state after any updates: the full blocks absorbed, the rest exclusive-ored into the block begun.\<close>

lemma foldl_update: "foldl sha3_update c chunks = sha3_update c (concat chunks)"
proof (induction chunks rule: rev_induct)
  case Nil
  then show ?case by (simp add: sha3_update_def)
next
  case (snoc x xs)
  then show ?case by (simp add: update_append)
qed

lemma absorb_split:
  "0 < r \<Longrightarrow> length q = 25 \<Longrightarrow> r \<le> 200 \<Longrightarrow> absorb r bs q =
    (drop (length bs div r * r) bs, spec_absorb (8 * r) (bits_of (take (length bs div r * r) bs)) q)"
proof -
  assume r: "0 < r" "r \<le> 200" and q: "length q = 25"
  let ?k = "length bs div r * r"
  let ?q = "spec_absorb (8 * r) (bits_of (take ?k bs)) q"
  have k: "?k \<le> length bs" by (simp add: div_times_less_eq_dividend)
  have d: "r dvd length (take ?k bs)" using k by simp
  have "snd (absorb r (take ?k bs) q) = ?q"
    using spec_absorb_bytes [OF d r(1,2) q] by simp
  moreover have "length (fst (absorb r (take ?k bs) q)) = 0"
    using absorb_length [OF r(1) q, of "take ?k bs"] d by (simp only: dvd_eq_mod_eq_0)
  ultimately have "absorb r (take ?k bs) q = ([], ?q)" by (simp add: prod_eq_iff)
  then have "absorb r (take ?k bs @ drop ?k bs) q = absorb r (drop ?k bs) ?q"
    by (subst absorb_append [OF r(1)]) simp
  moreover have "length (drop ?k bs) < r"
    using r(1) by (simp add: minus_div_mult_eq_mod)
  ultimately show ?thesis by (simp add: absorb.simps [of r "drop ?k bs"])
qed

text \<open>
  (C38) Streaming: after \<^verbatim>\<open>sha3_init\<close> and any sequence of \<^verbatim>\<open>sha3_update\<close>s, however the message is cut into
  pieces, the context holds exactly what the sponge of FIPS 202 holds: \<^verbatim>\<open>pt\<close> is the number of bytes in
  the block begun, always below the rate \<^verbatim>\<open>rsiz\<close>, and the state is the specification's state after
  the full blocks of the concatenated message, with the bytes of the block begun exclusive-ored into
  its first lanes.
\<close>

theorem sha3_update_streams:
  fixes chunks :: "u8 list list"
  assumes "mdlen < 100"
  defines "r \<equiv> 200 - 2 * mdlen" and "m \<equiv> concat chunks"
  shows "let c = foldl sha3_update (sha3_init (int mdlen)) chunks; k = length m div r * r
    in ctx_pt c = int (length m mod r) \<and> ctx_pt c < ctx_rsiz c \<and> ctx_rsiz c = int r \<and>
      ctx_st c = map2 (XOR) (spec_absorb (8 * r) (bits_of (take k m)) (replicate 25 0)) (lanes_of_bits (bits_of (drop k m)))"
proof -
  let ?q = "replicate 25 0 :: u64 list" and ?k = "length m div r * r"
  let ?A = "spec_absorb (8 * r) (bits_of (take ?k m)) ?q"
  have r: "0 < r" "r \<le> 200" "200 - 2 * int mdlen = int r" using assms by simp_all
  have len: "length (drop ?k m) = length m mod r" by (simp add: minus_div_mult_eq_mod)
  have "length m mod r < r" using r(1) by simp
  then have "xor_at (drop ?k m) 0 ?A = map2 (XOR) ?A (lanes_of_bits (bits_of (drop ?k m)))"
    using len r(2) by (intro xor_block_eq length_spec_absorb) simp_all
  then show ?thesis
    using update_loop_absorb [OF r(1), of m ?q] absorb_split [OF r(1) _ r(2), of ?q m] len r(1)
    by (simp add: foldl_update sha3_update_def sha3_init_def r(3) Let_def del: length_drop flip: m_def)
qed

theorem sha3_update_streams_witness:
  "ctx_pt (foldl sha3_update (sha3_init (int 64)) [replicate 70 1, [], replicate 5 2]) = int 3"
  using sha3_update_streams [of 64 "[replicate 70 1, [], replicate 5 2]"] by (simp add: Let_def)

end
