(* ===== verification/CString.thy ===== *)
theory CString
  imports Prelude
begin

text \<open>
  \<^verbatim>\<open>lib/app/src/string.c\<close>: the enclave's own \<^verbatim>\<open>mem*\<close> and \<^verbatim>\<open>str*\<close> functions, on the byte
  memory of \<open>Prelude\<close>.  Every C loop is a \<open>partial_function\<close> into \<open>option\<close> over the loop
  variables (pointers and counters are 64-bit words, \<^verbatim>\<open>int\<close> is a 32-bit word), so that a loop that
  never ends is \<open>None\<close>; the theorems show that the loops end and what memory they leave.
  \<^verbatim>\<open>char\<close> is unsigned on RISC-V.
\<close>

section \<open>Code\<close>

text \<open>\<^verbatim>\<open>while (d < lim) *d++ = *s++;\<close>\<close>

partial_function (option) copy_bytes :: "u64 \<Rightarrow> u64 \<Rightarrow> u64 \<Rightarrow> mem \<Rightarrow> mem option" where
  "copy_bytes d s lim m =
    (if d < lim then copy_bytes (d + 1) (s + 1) lim (m(d := m s)) else Some m)"

text \<open>The loop over words; it returns both pointers for the loop over the remaining bytes.\<close>

partial_function (option) copy_words :: "u64 \<Rightarrow> u64 \<Rightarrow> u64 \<Rightarrow> mem \<Rightarrow> (u64 \<times> u64 \<times> mem) option" where
  "copy_words d s lim m =
    (if d < lim then copy_words (d + 8) (s + 8) lim (store64 m d (load64 m s)) else Some (d, s, m))"

definition memcpy :: "u64 \<Rightarrow> u64 \<Rightarrow> u64 \<Rightarrow> mem \<Rightarrow> mem option" where
  "memcpy dest src len m =
    Option.bind
      (if (dest OR src) AND (8 - 1) = 0
       then copy_words dest src (dest + len - (8 - 1)) m
       else Some (dest, src, m))
      (\<lambda>(d, s, m). copy_bytes d s (dest + len) m)"

partial_function (option) set_bytes :: "u64 \<Rightarrow> u8 \<Rightarrow> u64 \<Rightarrow> mem \<Rightarrow> mem option" where
  "set_bytes d byte lim m =
    (if d < lim then set_bytes (d + 1) byte lim (m(d := byte)) else Some m)"

partial_function (option) set_words :: "u64 \<Rightarrow> u64 \<Rightarrow> u64 \<Rightarrow> mem \<Rightarrow> mem option" where
  "set_words d word lim m =
    (if d < lim then set_words (d + 8) word lim (store64 m d word) else Some m)"

definition memset :: "u64 \<Rightarrow> i32 \<Rightarrow> u64 \<Rightarrow> mem \<Rightarrow> mem option" where
  "memset dest byte len m =
    (if (dest OR len) AND (8 - 1) = 0 then
       let word = ucast (byte AND 0xFF) :: u64;
           word = word OR push_bit 8 word;
           word = word OR push_bit 16 word;
           word = word OR push_bit 16 (push_bit 16 word)
       in set_words dest word (dest + len) m
     else set_bytes dest (ucast byte) (dest + len) m)"

text \<open>The counter \<^verbatim>\<open>n--\<close> in the condition ends at \<open>n = 0\<close>; the result is an \<^verbatim>\<open>int\<close>.\<close>

partial_function (option) memcmp :: "u64 \<Rightarrow> u64 \<Rightarrow> u64 \<Rightarrow> mem \<Rightarrow> i32 option" where
  "memcmp s1 s2 n m =
    (if n = 0 then Some 0
     else let u1 = m s1; u2 = m s2 in
       if u1 \<noteq> u2 then Some (ucast u1 - ucast u2)
       else memcmp (s1 + 1) (s2 + 1) (n - 1) m)"

text \<open>The two loops of \<^verbatim>\<open>memmove\<close>.\<close>

partial_function (option) move_up :: "u64 \<Rightarrow> u64 \<Rightarrow> u64 \<Rightarrow> mem \<Rightarrow> mem option" where
  "move_up tmp s count m =
    (if count = 0 then Some m else move_up (tmp + 1) (s + 1) (count - 1) (m(tmp := m s)))"

partial_function (option) move_down :: "u64 \<Rightarrow> u64 \<Rightarrow> u64 \<Rightarrow> mem \<Rightarrow> mem option" where
  "move_down tmp s count m =
    (if count = 0 then Some m
     else let tmp = tmp - 1; s = s - 1 in move_down tmp s (count - 1) (m(tmp := m s)))"

definition memmove :: "u64 \<Rightarrow> u64 \<Rightarrow> u64 \<Rightarrow> mem \<Rightarrow> mem option" where
  "memmove dest src count m =
    (if dest \<le> src then move_up dest src count m
     else move_down (dest + count) (src + count) count m)"

partial_function (option) strlen_loop :: "u64 \<Rightarrow> u64 \<Rightarrow> mem \<Rightarrow> u64 option" where
  "strlen_loop str len m = (if m str \<noteq> 0 then strlen_loop (str + 1) (len + 1) m else Some len)"

definition strlen :: "u64 \<Rightarrow> mem \<Rightarrow> u64 option" where
  "strlen str m = strlen_loop str 0 m"

text \<open>The loop of \<^verbatim>\<open>strcmp\<close>: \<^verbatim>\<open>i\<close> and \<^verbatim>\<open>len\<close> are \<^verbatim>\<open>int\<close>s, compared signed and sign extended as indices.\<close>

partial_function (option) strcmp_loop :: "u64 \<Rightarrow> u64 \<Rightarrow> i32 \<Rightarrow> i32 \<Rightarrow> mem \<Rightarrow> i32 option" where
  "strcmp_loop s1 s2 i len m =
    (if i <s len then
       (if m (s1 + scast i) \<noteq> m (s2 + scast i) then Some 1 else strcmp_loop s1 s2 (i + 1) len m)
     else Some 0)"

definition strcmp :: "u64 \<Rightarrow> u64 \<Rightarrow> mem \<Rightarrow> i32 option" where
  "strcmp s1 s2 m =
    Option.bind (strlen s1 m) (\<lambda>n1. let len = ucast n1 :: i32 in
    Option.bind (strlen s2 m) (\<lambda>n2.
      if scast len \<noteq> n2 then Some 1 else strcmp_loop s1 s2 0 len m))"

text \<open>\<^verbatim>\<open>strcpy\<close> counts with an \<^verbatim>\<open>int\<close>.\<close>

partial_function (option) strcpy_loop :: "u64 \<Rightarrow> u64 \<Rightarrow> i32 \<Rightarrow> mem \<Rightarrow> mem option" where
  "strcpy_loop dest source i m =
    (let m' = m(dest + scast i := m (source + scast i)) in
     if m' (dest + scast i) = 0 then Some m' else strcpy_loop dest source (i + 1) m')"

definition strcpy :: "u64 \<Rightarrow> u64 \<Rightarrow> mem \<Rightarrow> mem option" where
  "strcpy dest source m = strcpy_loop dest source 0 m"

partial_function (option) strncpy_copy :: "u64 \<Rightarrow> u64 \<Rightarrow> u64 \<Rightarrow> u64 \<Rightarrow> mem \<Rightarrow> (u64 \<times> mem) option" where
  "strncpy_copy dest src n i m =
    (if i < n \<and> m (src + i) \<noteq> 0 then strncpy_copy dest src n (i + 1) (m(dest + i := m (src + i)))
     else Some (i, m))"

partial_function (option) strncpy_pad :: "u64 \<Rightarrow> u64 \<Rightarrow> u64 \<Rightarrow> mem \<Rightarrow> mem option" where
  "strncpy_pad dest n i m =
    (if i < n then strncpy_pad dest n (i + 1) (m(dest + i := 0)) else Some m)"

definition strncpy :: "u64 \<Rightarrow> u64 \<Rightarrow> u64 \<Rightarrow> mem \<Rightarrow> mem option" where
  "strncpy dest src n m =
    Option.bind (strncpy_copy dest src n 0 m) (\<lambda>(i, m). strncpy_pad dest n i m)"

definition tolower :: "i32 \<Rightarrow> i32" where
  "tolower c = (if c \<le>s 90 \<and> 65 \<le>s c then c + 32 else c)"

section \<open>Blocks of bytes\<close>

lemma store_bytes_append:
  assumes "length as + length bs \<le> 18446744073709551616"
  shows "store_bytes m a (as @ bs) = store_bytes (store_bytes m a as) (a + of_nat (length as)) bs"
proof
  fix x
  let ?k = "unat (x - a)" and ?n = "length as"
  show "store_bytes m a (as @ bs) x = store_bytes (store_bytes m a as) (a + of_nat ?n) bs x"
  proof (cases "bs = []")
    case True
    then show ?thesis by (simp add: store_bytes_def)
  next
    case False
    then have n: "?n < 18446744073709551616" using assms by (cases bs) auto
    then have un: "unat (of_nat ?n :: u64) = ?n" by (rule unat_of_nat64)
    have e: "x - (a + of_nat ?n) = (x - a) - of_nat ?n" by simp
    show ?thesis
    proof (cases "?k < ?n")
      case True
      then have "x - a < of_nat ?n" using un by (simp add: word_less_nat_alt)
      then have "unat (x - (a + of_nat ?n)) = 18446744073709551616 + ?k - ?n"
        unfolding e by (simp add: unat_sub64_wrap un)
      then have "length bs \<le> unat (x - (a + of_nat ?n))" using assms by linarith
      with True show ?thesis by (simp add: store_bytes_def nth_append)
    next
      case False
      then have "of_nat ?n \<le> x - a" using un by (simp add: word_le_nat_alt)
      then have "unat (x - (a + of_nat ?n)) = ?k - ?n"
        unfolding e by (simp add: unat_sub64 un)
      with False show ?thesis by (auto simp: store_bytes_def nth_append)
    qed
  qed
qed

lemma store_bytes_Nil [simp]: "store_bytes m a [] = m"
  by (simp add: store_bytes_def)

lemma store_bytes_single: "store_bytes m a [b] = m(a := b)"
proof
  fix x
  have "unat (x - a) < 1 \<longleftrightarrow> x = a" by (auto simp: unat_eq_0)
  then show "store_bytes m a [b] x = (m(a := b)) x" by (auto simp: store_bytes_def)
qed

lemma store_bytes_Cons:
  "Suc (length bs) \<le> 18446744073709551616 \<Longrightarrow>
    store_bytes m a (b # bs) = store_bytes (m(a := b)) (a + 1) bs"
  using store_bytes_append [of "[b]" bs m a] by (simp add: store_bytes_single)

lemma load_bytes_Suc: "load_bytes m a (Suc n) = m a # load_bytes m (a + 1) n"
  by (simp add: load_bytes_def upt_conv_Cons map_Suc_upt [symmetric] add.assoc del: upt_Suc)

lemma load_bytes_snoc: "load_bytes m a (Suc n) = load_bytes m a n @ [m (a + of_nat n)]"
  by (simp add: load_bytes_def)

lemma load_bytes_upd: "(\<And>j. j < n \<Longrightarrow> a + of_nat j \<noteq> x) \<Longrightarrow> load_bytes (m(x := v)) a n = load_bytes m a n"
  by (rule load_bytes_cong) auto

lemma store64_load64: "store64 m d (load64 m s) = store_bytes m d (load_bytes m s 8)"
  using le_bytes_le_word [of "load_bytes m s 8", where 'a = 64]
  by (simp add: store64_def load64_def)

text \<open>Copying forward byte by byte, the reference for the copying loops.\<close>

primrec copy_fwd :: "nat \<Rightarrow> u64 \<Rightarrow> u64 \<Rightarrow> mem \<Rightarrow> mem" where
  "copy_fwd 0 d s m = m"
| "copy_fwd (Suc n) d s m = copy_fwd n (d + 1) (s + 1) (m(d := m s))"

text \<open>No byte is overwritten before it is read.\<close>

definition fwd_ok :: "nat \<Rightarrow> u64 \<Rightarrow> u64 \<Rightarrow> bool" where
  "fwd_ok n d s \<longleftrightarrow> (\<forall>j<n. \<forall>i<j. d + of_nat i \<noteq> s + of_nat j)"

lemma fwd_ok_shift: "fwd_ok (k + n) d s \<Longrightarrow> fwd_ok n (d + of_nat k) (s + of_nat k)"
  unfolding fwd_ok_def
proof (intro allI impI)
  fix j i assume ok: "\<forall>j<k + n. \<forall>i<j. d + of_nat i \<noteq> s + of_nat j" and ij: "j < n" "i < j"
  then have "d + of_nat (k + i) \<noteq> s + of_nat (k + j)"
    using ok [rule_format, of "k + j" "k + i"] by linarith
  then show "d + of_nat k + of_nat i \<noteq> s + of_nat k + of_nat j" by (simp add: add.assoc)
qed

lemma fwd_ok_mono: "fwd_ok n d s \<Longrightarrow> k \<le> n \<Longrightarrow> fwd_ok k d s"
  by (auto simp: fwd_ok_def)

lemma copy_fwd_eq:
  "fwd_ok n d s \<Longrightarrow> n < 18446744073709551616 \<Longrightarrow> copy_fwd n d s m = store_bytes m d (load_bytes m s n)"
proof (induction n arbitrary: d s m)
  case 0
  then show ?case by (simp add: load_bytes_def)
next
  case (Suc n)
  have "fwd_ok n (d + 1) (s + 1)" using fwd_ok_shift [of 1 n d s] Suc.prems(1) by simp
  then have "copy_fwd (Suc n) d s m =
      store_bytes (m(d := m s)) (d + 1) (load_bytes (m(d := m s)) (s + 1) n)"
    using Suc by simp
  also have "load_bytes (m(d := m s)) (s + 1) n = load_bytes m (s + 1) n"
  proof (rule load_bytes_upd)
    fix j assume "j < n"
    then have "d + of_nat 0 \<noteq> s + of_nat (Suc j)"
      using Suc.prems(1) unfolding fwd_ok_def by blast
    then show "s + 1 + of_nat j \<noteq> d" by (auto simp: add.assoc)
  qed
  finally show ?case
    using Suc.prems(2) by (simp add: load_bytes_Suc store_bytes_Cons fun_upd_def)
qed

lemma copy_fwd_add:
  "copy_fwd (a + b) d s m = copy_fwd b (d + of_nat a) (s + of_nat a) (copy_fwd a d s m)"
  by (induction a arbitrary: d s m) (simp_all add: add.assoc)

lemma fwd_ok_apart:
  assumes "apart d n s n"
  shows "fwd_ok n d s"
  unfolding fwd_ok_def
proof (intro allI impI notI)
  fix j i assume ij: "j < n" "i < j" and eq: "d + of_nat i = s + of_nat j"
  have "n \<le> unat (d + of_nat i - s)"
    using apart_offset [OF assms, of i] ij by simp
  moreover have "d + of_nat i - s = of_nat j" using eq by simp
  moreover have "n \<le> unat (s - d)" using assms by (simp add: apart_def)
  then have "unat (of_nat j :: u64) = j"
    using ij unat_le_max64 [of "s - d"] by (intro unat_of_nat64) linarith
  ultimately show False using ij by simp
qed

lemma fwd_ok_below:
  assumes "d \<le> s" and "unat s + n \<le> 18446744073709551616"
  shows "fwd_ok n d s"
  unfolding fwd_ok_def
proof (intro allI impI notI)
  fix j i assume ij: "j < n" "i < j" and eq: "d + of_nat i = s + of_nat j"
  have ds: "unat d \<le> unat s" using assms(1) by (simp add: word_le_nat_alt)
  have "unat (of_nat j :: u64) = j" "unat (of_nat i :: u64) = i"
    using ij assms(2) by (simp_all add: unat_of_nat64)
  then have "unat (s + of_nat j) = unat s + j" "unat (d + of_nat i) = unat d + i"
    using ij assms(2) ds by (simp_all add: unat_add64_no_wrap)
  then show False using eq ij ds by simp
qed

section \<open>Copying\<close>

lemma less_add_nat:
  assumes "unat (d :: u64) + n < 18446744073709551616"
  shows "d < d + of_nat n \<longleftrightarrow> 0 < n" and "unat (d + of_nat n) = unat d + n"
proof -
  have "unat (of_nat n :: u64) = n" using assms by (intro unat_of_nat64) linarith
  then show u: "unat (d + of_nat n) = unat d + n" using assms by (simp add: unat_add64_no_wrap)
  show "d < d + of_nat n \<longleftrightarrow> 0 < n" unfolding word_less_nat_alt u by simp
qed

lemma copy_bytes_eq:
  "unat d + n < 18446744073709551616 \<Longrightarrow>
    copy_bytes d s (d + of_nat n) m = Some (copy_fwd n d s m)"
proof (induction n arbitrary: d s m)
  case 0
  then show ?case by (simp add: copy_bytes.simps [of d])
next
  case (Suc n)
  then have "unat (d + 1) + n < 18446744073709551616" using less_add_nat(2) [of d 1] by simp
  with Suc.IH have "copy_bytes (d + 1) (s + 1) (d + 1 + of_nat n) (m(d := m s)) =
      Some (copy_fwd n (d + 1) (s + 1) (m(d := m s)))" by blast
  moreover have "d < d + of_nat (Suc n)" using less_add_nat(1) [OF Suc.prems] by simp
  ultimately show ?case
    by (subst copy_bytes.simps) (simp add: add.assoc)
qed

lemma copy_words_eq:
  assumes "8 \<le> unat d" and "unat d + n < 18446744073709551616" and "fwd_ok n d s"
  shows "copy_words d s (d + of_nat n - 7) m =
    Some (d + of_nat (8 * (n div 8)), s + of_nat (8 * (n div 8)), copy_fwd (8 * (n div 8)) d s m)"
  using assms
proof (induction n arbitrary: d s m rule: less_induct)
  case (less n)
  have lim: "unat (d + of_nat n - 7) = unat d + n - 7"
    using less_add_nat(2) [OF less.prems(2)] less.prems(1) by (subst unat_sub64) (simp_all add: word_le_nat_alt)
  show ?case
  proof (cases "n < 8")
    case True
    then have "\<not> d < d + of_nat n - 7" unfolding word_less_nat_alt lim using less.prems(1) by linarith
    with True show ?thesis by (subst copy_words.simps) simp
  next
    case False
    then obtain k where n: "n = 8 + k" by (metis not_less le_add_diff_inverse)
    then have n8: "8 * (n div 8) = 8 + 8 * (k div 8)" by presburger
    have "d < d + of_nat n - 7" unfolding word_less_nat_alt lim using less.prems(1) n by linarith
    moreover have "unat (d + 8) = unat d + 8" using less_add_nat(2) [of d 8] less.prems(2) n by simp
    moreover have "fwd_ok k (d + 8) (s + 8)" using fwd_ok_shift [of 8 k d s] less.prems(3) n by simp
    moreover have "store64 m d (load64 m s) = copy_fwd 8 d s m"
      using fwd_ok_mono [OF less.prems(3), of 8] n by (simp add: store64_load64 copy_fwd_eq)
    moreover have "d + of_nat n - 7 = d + 8 + of_nat k - 7" using n by simp
    ultimately have "copy_words d s (d + of_nat n - 7) m =
        Some (d + 8 + of_nat (8 * (k div 8)), s + 8 + of_nat (8 * (k div 8)),
          copy_fwd (8 * (k div 8)) (d + 8) (s + 8) (copy_fwd 8 d s m))"
      using less.IH [of k "d + 8" "s + 8" "copy_fwd 8 d s m"] less.prems(1,2) n
      by (subst copy_words.simps) simp
    also have "copy_fwd (8 * (k div 8)) (d + 8) (s + 8) (copy_fwd 8 d s m) = copy_fwd (8 * (n div 8)) d s m"
      unfolding n8 using copy_fwd_add [of 8 "8 * (k div 8)" d s m] by simp
    finally show ?thesis unfolding n8 by (simp add: algebra_simps)
  qed
qed

lemma aligned_nonzero: "(dest OR src) AND 7 = 0 \<Longrightarrow> dest \<noteq> 0 \<Longrightarrow> 8 \<le> unat (dest :: u64)"
proof -
  assume "(dest OR src) AND 7 = 0" "dest \<noteq> 0"
  then have "dest AND mask 3 = 0"
    by (auto simp: bit_eq_iff bit_simps mask_eq_exp_minus_1)
  then have "take_bit 3 dest = 0" by (simp add: take_bit_eq_mask)
  moreover have "unat (take_bit 3 dest) = take_bit 3 (unat dest)"
    by (simp only: unsigned_take_bit_eq)
  ultimately have "take_bit 3 (unat dest) = 0" by simp
  then have "unat dest mod 8 = 0" by (simp add: take_bit_eq_mod)
  moreover have "unat dest \<noteq> 0" using \<open>dest \<noteq> 0\<close> by (simp add: unat_eq_0)
  ultimately show ?thesis by (cases "unat dest < 8") auto
qed

lemma memcpy_eq:
  assumes "dest \<noteq> 0" and "unat dest + unat len < 18446744073709551616" and "fwd_ok (unat len) dest src"
  shows "memcpy dest src len m = Some (store_bytes m dest (load_bytes m src (unat len)))"
proof -
  let ?n = "unat len"
  have len: "len = of_nat ?n" by simp
  have "memcpy dest src len m = Some (copy_fwd ?n dest src m)"
  proof (cases "(dest OR src) AND 7 = 0")
    case True
    let ?k = "8 * (?n div 8)"
    have le: "?k \<le> ?n" by simp
    have words: "copy_words dest src (dest + len - 7) m =
        Some (dest + of_nat ?k, src + of_nat ?k, copy_fwd ?k dest src m)"
      using copy_words_eq [OF aligned_nonzero [OF True assms(1)] assms(2,3)] by simp
    have "unat (dest + of_nat ?k) + (?n - ?k) < 18446744073709551616"
      using less_add_nat(2) [of dest ?k] assms(2) le by linarith
    from copy_bytes_eq [OF this, of "src + of_nat ?k" "copy_fwd ?k dest src m"]
    have "copy_bytes (dest + of_nat ?k) (src + of_nat ?k) (dest + of_nat ?k + of_nat (?n - ?k)) (copy_fwd ?k dest src m) =
        Some (copy_fwd ?n dest src m)"
      using copy_fwd_add [of ?k "?n - ?k" dest src m] le by simp
    moreover have "dest + of_nat ?k + of_nat (?n - ?k) = dest + len"
      using le by (metis add.assoc len of_nat_add le_add_diff_inverse)
    ultimately show ?thesis
      using True words by (simp add: memcpy_def)
  next
    case False
    then show ?thesis
      using copy_bytes_eq [OF assms(2), of src m] by (simp add: memcpy_def)
  qed
  then show ?thesis using assms(3) by (simp add: copy_fwd_eq)
qed

lemma move_up_eq:
  "n < 18446744073709551616 \<Longrightarrow> move_up d s (of_nat n) m = Some (copy_fwd n d s m)"
proof (induction n arbitrary: d s m)
  case 0
  then show ?case by (simp add: move_up.simps)
next
  case (Suc n)
  then have "unat (of_nat (Suc n) :: u64) = Suc n" by (intro unat_of_nat64)
  then have "(of_nat (Suc n) :: u64) \<noteq> 0" by (metis unsigned_0 nat.distinct(1))
  with Suc show ?case by (subst move_up.simps) simp
qed

lemma store_bytes_last_first:
  "length bs < 18446744073709551616 \<Longrightarrow>
    store_bytes (m(a + of_nat (length bs) := x)) a bs = store_bytes m a (bs @ [x])"
proof
  fix y
  assume l: "length bs < 18446744073709551616"
  then have u: "unat (of_nat (length bs) :: u64) = length bs" by (rule unat_of_nat64)
  have "y = a + of_nat (length bs) \<longleftrightarrow> unat (y - a) = length bs"
  proof
    assume "unat (y - a) = length bs"
    then have "y - a = of_nat (length bs)" using u by (simp add: word_unat_eq_iff)
    then show "y = a + of_nat (length bs)" by (simp add: algebra_simps)
  qed (simp add: u)
  then show "store_bytes (m(a + of_nat (length bs) := x)) a bs y = store_bytes m a (bs @ [x]) y"
    by (auto simp: store_bytes_def nth_append)
qed

lemma move_down_eq:
  assumes "n < 18446744073709551616" and "\<forall>i<n. \<forall>j<i. d + of_nat i \<noteq> s + of_nat j"
  shows "move_down (d + of_nat n) (s + of_nat n) (of_nat n) m = Some (store_bytes m d (load_bytes m s n))"
  using assms
proof (induction n arbitrary: m)
  case 0
  then show ?case by (subst move_down.simps) (simp add: load_bytes_def)
next
  case (Suc n)
  let ?m = "m(d + of_nat n := m (s + of_nat n))"
  have "unat (of_nat (Suc n) :: u64) = Suc n" using Suc.prems by (intro unat_of_nat64)
  then have nz: "(of_nat (Suc n) :: u64) \<noteq> 0" by (metis unsigned_0 nat.distinct(1))
  have "move_down (d + of_nat n) (s + of_nat n) (of_nat n) ?m = Some (store_bytes ?m d (load_bytes ?m s n))"
    using Suc by simp
  also have "load_bytes ?m s n = load_bytes m s n"
    using Suc.prems(2) by (intro load_bytes_upd) (metis lessI)
  also have "store_bytes ?m d (load_bytes m s n) = store_bytes m d (load_bytes m s (Suc n))"
    using store_bytes_last_first [of "load_bytes m s n" m d "m (s + of_nat n)"] Suc.prems(1)
    by (simp add: load_bytes_snoc)
  finally show ?case
    using nz by (subst move_down.simps) (simp add: Let_def fun_upd_def)
qed

lemma memmove_eq:
  assumes "unat dest + unat count \<le> 18446744073709551616" and "unat src + unat count \<le> 18446744073709551616"
  shows "memmove dest src count m = Some (store_bytes m dest (load_bytes m src (unat count)))"
proof (cases "dest \<le> src")
  case True
  then show ?thesis
    using move_up_eq [of "unat count" dest src m] fwd_ok_below [OF True assms(2)] unat_less_2p64 [of count]
    by (simp add: memmove_def copy_fwd_eq del: unat_less_2p64)
next
  case False
  have "\<forall>i<unat count. \<forall>j<i. dest + of_nat i \<noteq> src + of_nat j"
  proof (intro allI impI notI)
    fix i j assume ij: "i < unat count" "j < i" and eq: "dest + of_nat i = src + of_nat j"
    have u: "unat (of_nat i :: u64) = i" "unat (of_nat j :: u64) = j"
      using ij unat_le_max64 [of count] by (simp_all add: unat_of_nat64)
    have "unat (dest + of_nat i) = unat dest + i" "unat (src + of_nat j) = unat src + j"
      using ij assms u by (simp_all add: unat_add64_no_wrap)
    then show False using eq ij False by (simp add: word_le_nat_alt)
  qed
  from move_down_eq [OF unat_less_2p64 this] False show ?thesis
    by (simp add: memmove_def)
qed

section \<open>Filling\<close>

lemma set_bytes_eq:
  "unat d + n < 18446744073709551616 \<Longrightarrow>
    set_bytes d b (d + of_nat n) m = Some (store_bytes m d (replicate n b))"
proof (induction n arbitrary: d m)
  case 0
  then show ?case by (simp add: set_bytes.simps [of d])
next
  case (Suc n)
  then have "unat (d + 1) + n < 18446744073709551616" using less_add_nat(2) [of d 1] by simp
  with Suc.IH have "set_bytes (d + 1) b (d + 1 + of_nat n) (m(d := b)) =
      Some (store_bytes (m(d := b)) (d + 1) (replicate n b))" by blast
  moreover have "d < d + of_nat (Suc n)" using less_add_nat(1) [OF Suc.prems] by simp
  ultimately show ?case
    using Suc.prems by (subst set_bytes.simps) (simp add: add.assoc store_bytes_Cons fun_upd_def)
qed

lemma set_words_eq:
  assumes "unat d + 8 * k < 18446744073709551616" and "le_bytes 8 w = replicate 8 b"
  shows "set_words d w (d + of_nat (8 * k)) m = Some (store_bytes m d (replicate (8 * k) b))"
  using assms(1)
proof (induction k arbitrary: d m)
  case 0
  then show ?case by (simp add: set_words.simps [of d])
next
  case (Suc k)
  have "unat (d + 8) = unat d + 8" using less_add_nat(2) [of d 8] Suc.prems by simp
  then have "set_words (d + 8) w (d + 8 + of_nat (8 * k)) (store64 m d w) =
      Some (store_bytes (store64 m d w) (d + 8) (replicate (8 * k) b))"
    using Suc by simp
  moreover have "d < d + of_nat (8 * Suc k)" using less_add_nat(1) [OF Suc.prems] by simp
  moreover have "store_bytes (store64 m d w) (d + 8) (replicate (8 * k) b) =
      store_bytes m d (replicate (8 * Suc k) b)"
    using store_bytes_append [of "replicate 8 b" "replicate (8 * k) b" m d] Suc.prems assms(2)
    by (simp add: store64_def flip: replicate_add)
  ultimately show ?case
    by (subst set_words.simps) (simp add: add.assoc)
qed

lemma byte_word_bits:
  fixes b :: u8
  defines "w0 \<equiv> ucast b :: u64"
  defines "w1 \<equiv> w0 OR push_bit 8 w0"
  defines "w2 \<equiv> w1 OR push_bit 16 w1"
  shows "le_bytes 8 (w2 OR push_bit 16 (push_bit 16 w2)) = replicate 8 b"
proof -
  have "replicate 8 b = [b, b, b, b, b, b, b, b]" by (simp add: eval_nat_numeral)
  then have "le_word (replicate 8 b) = w2 OR push_bit 16 (push_bit 16 w2)"
    unfolding w2_def w1_def w0_def
    by (simp only: le_word.simps push_bit_or push_bit_push_bit push_bit_of_0 or.right_neutral or.assoc) simp
  then show ?thesis
    using le_bytes_le_word [of "replicate 8 b", where 'a = 64] by simp
qed

lemma memset_eq:
  assumes "unat dest + unat len < 18446744073709551616"
  shows "memset dest byte len m = Some (store_bytes m dest (replicate (unat len) (ucast byte)))"
proof (cases "(dest OR len) AND 7 = 0")
  case True
  have e: "ucast (byte AND 0xFF) = (ucast (ucast byte :: u8) :: u64)"
  proof (rule bit_word_eqI)
    fix k assume "k < LENGTH(64)"
    have "(0xFF :: i32) = mask 8" by (simp add: mask_eq_exp_minus_1)
    then have "byte AND 0xFF = take_bit 8 byte" by (simp only: take_bit_eq_mask)
    then show "bit (ucast (byte AND 0xFF) :: u64) k = bit (ucast (ucast byte :: u8) :: u64) k"
      by (auto simp: bit_simps)
  qed
  have "take_bit 3 len = 0"
  proof -
    have "len AND mask 3 = 0" using True by (auto simp: bit_eq_iff bit_simps mask_eq_exp_minus_1)
    then show ?thesis by (simp add: take_bit_eq_mask)
  qed
  moreover have "unat (take_bit 3 len) = take_bit 3 (unat len)" by (simp only: unsigned_take_bit_eq)
  ultimately have "unat len mod 8 = 0" by (simp add: take_bit_eq_mod)
  then obtain k where k: "unat len = 8 * k" by (auto simp: mod_eq_0_iff_dvd elim!: dvdE)
  have "len = of_nat (unat len)" by simp
  then have "len = of_nat (8 * k)" by (simp only: k)
  with True show ?thesis
    using set_words_eq [of dest k _ "ucast byte" m] byte_word_bits [of "ucast byte"] assms k
    by (simp add: memset_def Let_def e)
next
  case False
  then show ?thesis
    using set_bytes_eq [OF assms, of "ucast byte" m] by (simp add: memset_def)
qed

section \<open>Comparing\<close>

text \<open>The difference of the first two bytes that differ.\<close>

fun byte_diff :: "u8 list \<Rightarrow> u8 list \<Rightarrow> int" where
  "byte_diff (a # as) (b # bs) = (if a \<noteq> b then uint a - uint b else byte_diff as bs)"
| "byte_diff _ _ = 0"

lemma byte_diff_zero: "length as = length bs \<Longrightarrow> byte_diff as bs = 0 \<longleftrightarrow> as = bs"
  by (induction as bs rule: list_induct2) (auto simp: word_uint_eq_iff)

lemma sint_byte_diff: "sint (ucast a - ucast b :: i32) = uint a - uint b" for a b :: u8
proof -
  have u: "sint (ucast x :: i32) = uint x" "0 \<le> uint x" "uint x < 256" for x :: u8
  proof -
    show r: "0 \<le> uint x" "uint x < 256" using uint_lt2p [of x] by simp_all
    then show "sint (ucast x :: i32) = uint x"
      by (simp add: sint_uint unsigned_ucast_eq take_bit_int_eq_self signed_take_bit_int_eq_self
          order.trans [of _ 0])
  qed
  have "sint (ucast a - ucast b :: i32) = signed_take_bit 31 (uint a - uint b)"
    by (simp add: sint_word_diff u(1))
  then show ?thesis
    using u(2,3) [of a] u(2,3) [of b] by (simp add: signed_take_bit_int_eq_self)
qed

lemma memcmp_eq:
  "n < 18446744073709551616 \<Longrightarrow>
    \<exists>r. memcmp s1 s2 (of_nat n) m = Some r \<and> sint r = byte_diff (load_bytes m s1 n) (load_bytes m s2 n)"
proof (induction n arbitrary: s1 s2)
  case 0
  then show ?case by (subst memcmp.simps) (simp add: load_bytes_def)
next
  case (Suc n)
  then have "unat (of_nat (Suc n) :: u64) = Suc n" by (intro unat_of_nat64)
  then have "(of_nat (Suc n) :: u64) \<noteq> 0" by (metis unsigned_0 nat.distinct(1))
  with Suc show ?case
    by (subst memcmp.simps) (auto simp: Let_def load_bytes_Suc sint_byte_diff)
qed

section \<open>Strings\<close>

text \<open>\<open>cstring m p cs\<close>: at \<open>p\<close> there are the characters \<open>cs\<close>, none of them 0, and a 0 after them.\<close>

definition cstring :: "mem \<Rightarrow> u64 \<Rightarrow> u8 list \<Rightarrow> bool" where
  "cstring m p cs \<longleftrightarrow> load_bytes m p (Suc (length cs)) = cs @ [0] \<and> 0 \<notin> set cs"

lemma cstring_Nil: "cstring m p [] \<longleftrightarrow> m p = 0"
  by (simp add: cstring_def load_bytes_def)

lemma cstring_Cons: "cstring m p (c # cs) \<longleftrightarrow> m p = c \<and> c \<noteq> 0 \<and> cstring m (p + 1) cs"
  by (auto simp: cstring_def load_bytes_Suc [of m p])

lemma cstring_nth: "cstring m p cs \<Longrightarrow> i < length cs \<Longrightarrow> m (p + of_nat i) = cs ! i \<and> cs ! i \<noteq> 0"
proof -
  assume c: "cstring m p cs" and i: "i < length cs"
  have "load_bytes m p (Suc (length cs)) ! i = (cs @ [0]) ! i" using c by (simp add: cstring_def)
  then have "m (p + of_nat i) = cs ! i" using i by (simp add: nth_append)
  moreover have "cs ! i \<noteq> 0" using c i by (metis cstring_def nth_mem)
  ultimately show ?thesis by simp
qed

lemma cstring_end: "cstring m p cs \<Longrightarrow> m (p + of_nat (length cs)) = 0"
proof -
  assume c: "cstring m p cs"
  have "load_bytes m p (Suc (length cs)) ! length cs = (cs @ [0]) ! length cs" using c by (simp add: cstring_def)
  then show ?thesis by (simp add: nth_append)
qed

lemma strlen_loop_eq: "cstring m p cs \<Longrightarrow> strlen_loop p k m = Some (k + of_nat (length cs))"
proof (induction cs arbitrary: p k)
  case Nil
  then show ?case by (subst strlen_loop.simps) (simp add: cstring_Nil)
next
  case (Cons c cs)
  then have "strlen_loop (p + 1) (k + 1) m = Some (k + 1 + of_nat (length cs))"
    by (simp add: cstring_Cons)
  with Cons.prems show ?case
    by (subst strlen_loop.simps) (simp add: cstring_Cons add.assoc)
qed

lemma strlen_eq: "cstring m p cs \<Longrightarrow> strlen p m = Some (of_nat (length cs))"
  by (simp add: strlen_def strlen_loop_eq)

lemma sint_of_nat32: "k < 2147483648 \<Longrightarrow> sint (of_nat k :: i32) = int k"
proof -
  assume k: "k < 2147483648"
  have "(of_nat k :: i32) = word_of_int (int k)" by simp
  then have "sint (of_nat k :: i32) = signed_take_bit 31 (int k)" by (simp only: sint_sbintrunc') simp
  then show ?thesis using k by (simp add: signed_take_bit_int_eq_self order.trans [of _ 0])
qed

lemma scast_of_nat32: "k < 2147483648 \<Longrightarrow> (scast (of_nat k :: i32) :: u64) = of_nat k"
  by (simp add: scast_eq sint_of_nat32)

lemma ucast_of_nat32: "(ucast (of_nat k :: u64) :: i32) = of_nat k"
  by (simp add: unsigned_of_nat word_of_nat_eq_iff take_bit_take_bit min_def)

lemma strcmp_loop_eq:
  assumes "cstring m p xs" and "cstring m q ys" and "length xs = length ys" and "length xs < 2147483648"
    and "i \<le> length xs"
  shows "strcmp_loop p q (of_nat i) (of_nat (length xs)) m = Some (if drop i xs = drop i ys then 0 else 1)"
  using assms(5)
proof (induction "length xs - i" arbitrary: i)
  case 0
  then have "i = length xs" by simp
  then show ?case using assms(3) by (subst strcmp_loop.simps) (simp add: word_sless_alt)
next
  case (Suc k)
  then have i: "i < length xs" by simp
  have d: "drop i xs = xs ! i # drop (Suc i) xs" "drop i ys = ys ! i # drop (Suc i) ys"
    using i assms(3) by (simp_all add: Cons_nth_drop_Suc)
  have "strcmp_loop p q (of_nat i + 1) (of_nat (length xs)) m =
      Some (if drop (Suc i) xs = drop (Suc i) ys then 0 else 1)"
    using Suc.hyps(1) [of "Suc i"] Suc.hyps(2) i by (simp add: add.commute)
  moreover have "of_nat i <s (of_nat (length xs) :: i32)"
    using i assms(4) by (simp add: word_sless_alt sint_of_nat32)
  moreover have "m (p + scast (of_nat i :: i32)) = xs ! i" "m (q + scast (of_nat i :: i32)) = ys ! i"
    using cstring_nth [OF assms(1) i] cstring_nth [OF assms(2), of i] i assms(3,4) by (simp_all add: scast_of_nat32)
  ultimately show ?case
    unfolding d by (subst strcmp_loop.simps) auto
qed

lemma strcmp_eq:
  assumes "cstring m p xs" and "cstring m q ys" and "length xs < 2147483648" and "length ys < 2147483648"
  shows "strcmp p q m = Some (if xs = ys then 0 else 1)"
proof -
  have u: "(ucast (of_nat (length xs) :: u64) :: i32) = of_nat (length xs)"
    by (rule ucast_of_nat32)
  show ?thesis
  proof (cases "length xs = length ys")
    case True
    with strcmp_loop_eq [OF assms(1,2) True assms(3), of 0] show ?thesis
      by (simp add: strcmp_def strlen_eq [OF assms(1)] strlen_eq [OF assms(2)] Let_def ucast_of_nat32 scast_of_nat32 assms(4))
  next
    case False
    have "unat (of_nat (length xs) :: u64) \<noteq> unat (of_nat (length ys) :: u64)"
      using False assms(3,4) by (simp add: unat_of_nat64)
    with False show ?thesis
      by (auto simp: strcmp_def strlen_eq [OF assms(1)] strlen_eq [OF assms(2)] Let_def u scast_of_nat32 [OF assms(3)])
  qed
qed

text \<open>A string of \<open>2^31\<close> characters or more (and fewer than \<open>2^32\<close>) differs even from itself.\<close>

lemma strcmp_long:
  assumes "cstring m p xs" and "2147483648 \<le> length xs" and "length xs < 4294967296"
  shows "strcmp p p m = Some 1"
proof -
  let ?n = "length xs"
  have "(of_nat ?n :: i32) = word_of_int (int ?n - 2 ^ 32)" by (simp add: of_int_diff)
  then have "sint (of_nat ?n :: i32) = signed_take_bit 31 (int ?n - 2 ^ 32)"
    by (simp only: sint_sbintrunc') simp
  also have "\<dots> = int ?n - 2 ^ 32" using assms(2,3) by (intro signed_take_bit_int_eq_self) simp_all
  finally have "(scast (of_nat ?n :: i32) :: u64) = of_nat ?n - 4294967296" by (simp add: scast_eq)
  then have "(scast (of_nat ?n :: i32) :: u64) \<noteq> of_nat ?n" by simp
  then show ?thesis
    by (simp add: strcmp_def strlen_eq [OF assms(1)] Let_def ucast_of_nat32)
qed

lemma store_bytes_snoc:
  "length bs < 18446744073709551616 \<Longrightarrow>
    (store_bytes m a bs)(a + of_nat (length bs) := x) = store_bytes m a (bs @ [x])"
  using store_bytes_append [of bs "[x]" m a] by (simp add: store_bytes_single)

lemma apart_mono: "apart a n b k \<Longrightarrow> n' \<le> n \<Longrightarrow> k' \<le> k \<Longrightarrow> apart a n' b k'"
  by (auto simp: apart_def)

lemma strcpy_loop_eq:
  assumes "cstring m src cs" and "apart src (Suc (length cs)) dest (Suc (length cs))" and "length cs < 2147483648"
    and "i \<le> length cs"
  shows "strcpy_loop dest src (of_nat i) (store_bytes m dest (take i cs)) = Some (store_bytes m dest (cs @ [0]))"
  using assms(4)
proof (induction "length cs - i" arbitrary: i)
  case 0
  then have i: "i = length cs" by simp
  have "store_bytes m dest cs (src + of_nat i) = m (src + of_nat i)"
    using store_bytes_apart [OF apart_mono [OF assms(2)], of "Suc (length cs)" cs i m] i by simp
  moreover have "store_bytes m dest (cs @ [0]) (dest + of_nat i) = 0"
    using i assms(3) by (simp flip: store_bytes_snoc)
  ultimately show ?case
    using i assms(3) cstring_end [OF assms(1)]
    by (subst strcpy_loop.simps) (simp add: Let_def scast_of_nat32 store_bytes_snoc)
next
  case (Suc k)
  then have i: "i < length cs" by simp
  have "store_bytes m dest (take i cs) (src + of_nat i) = m (src + of_nat i)"
    using store_bytes_apart [OF apart_mono [OF assms(2)], of "Suc (length cs)" "take i cs" i m] i by simp
  moreover have upd: "(store_bytes m dest (take i cs))(dest + of_nat i := cs ! i) = store_bytes m dest (take (Suc i) cs)"
    using store_bytes_snoc [of "take i cs" m dest "cs ! i"] i assms(3) by (simp add: take_Suc_conv_app_nth min_def)
  moreover have "store_bytes m dest (take (Suc i) cs) (dest + of_nat i) = cs ! i"
    by (simp flip: upd)
  moreover have "strcpy_loop dest src (of_nat i + 1) (store_bytes m dest (take (Suc i) cs)) =
      Some (store_bytes m dest (cs @ [0]))"
    using Suc.hyps(1) [of "Suc i"] Suc.hyps(2) i by (simp add: add.commute)
  ultimately show ?case
    using cstring_nth [OF assms(1) i] i assms(3)
    by (subst strcpy_loop.simps) (simp add: Let_def scast_of_nat32)
qed

lemma strcpy_eq:
  assumes "cstring m src cs" and "apart src (Suc (length cs)) dest (Suc (length cs))" and "length cs < 2147483648"
  shows "strcpy dest src m = Some (store_bytes m dest (cs @ [0]))"
  using strcpy_loop_eq [OF assms, of 0] by (simp add: strcpy_def)

text \<open>What \<^verbatim>\<open>strncpy\<close> leaves: the characters before the first 0, then zeros up to \<open>n\<close>.\<close>

definition strncpy_bytes :: "u8 list \<Rightarrow> u8 list" where
  "strncpy_bytes bs = (let cs = takeWhile (\<lambda>b. b \<noteq> 0) bs in cs @ replicate (length bs - length cs) 0)"

lemma less_of_nat64: "i < 18446744073709551616 \<Longrightarrow> (of_nat i :: u64) < w \<longleftrightarrow> i < unat w"
  by (simp add: word_less_nat_alt unat_of_nat64)

lemma strncpy_copy_eq:
  fixes m :: mem
  assumes "apart src (unat n) dest (unat n)"
  defines "cs \<equiv> takeWhile (\<lambda>b. b \<noteq> 0) (load_bytes m src (unat n))"
  assumes "i \<le> length cs"
  shows "strncpy_copy dest src n (of_nat i) (store_bytes m dest (take i cs)) =
    Some (of_nat (length cs), store_bytes m dest cs)"
proof -
  have len: "length cs \<le> unat n" unfolding cs_def by (metis length_takeWhile_le length_load_bytes)
  note small = unat_le_max64 [of n]
  have frame: "store_bytes m dest (take i cs) (src + of_nat i) = m (src + of_nat i)" if "i < unat n" for i
    using store_bytes_apart [OF apart_mono [OF assms(1)], of "unat n" "take i cs" i m] that len by simp
  show ?thesis
    using assms(3)
  proof (induction "length cs - i" arbitrary: i)
    case 0
    then have i: "i = length cs" by simp
    have "i < unat n \<Longrightarrow> m (src + of_nat i) = 0"
    proof -
      assume l: "i < unat n"
      then have "length cs < length (load_bytes m src (unat n))" using i by simp
      then have "load_bytes m src (unat n) ! length cs = 0"
        unfolding cs_def using nth_length_takeWhile by blast
      then show ?thesis using l i by simp
    qed
    then show ?case
      using i frame [of "length cs"] len small by (subst strncpy_copy.simps) (auto simp: less_of_nat64)
  next
    case (Suc k)
    then have i: "i < length cs" by simp
    have "cs ! i = m (src + of_nat i)"
      using i len takeWhile_nth [of i "\<lambda>b. b \<noteq> 0" "load_bytes m src (unat n)"] unfolding cs_def by simp
    moreover have "cs ! i \<noteq> 0"
      using i nth_mem [OF i] unfolding cs_def by (metis set_takeWhileD)
    moreover have "(store_bytes m dest (take i cs))(dest + of_nat i := cs ! i) = store_bytes m dest (take (Suc i) cs)"
      using store_bytes_snoc [of "take i cs" m dest "cs ! i"] i len small by (simp add: take_Suc_conv_app_nth min_def)
    moreover have "strncpy_copy dest src n (of_nat i + 1) (store_bytes m dest (take (Suc i) cs)) =
        Some (of_nat (length cs), store_bytes m dest cs)"
      using Suc.hyps(1) [of "Suc i"] Suc.hyps(2) i by (simp add: add.commute)
    ultimately show ?case
      using frame [of i] i len small by (subst strncpy_copy.simps) (simp add: less_of_nat64)
  qed
qed

lemma strncpy_pad_eq:
  assumes "i \<le> unat n" and "length bs = i"
  shows "strncpy_pad dest n (of_nat i) (store_bytes m dest bs) =
    Some (store_bytes m dest (bs @ replicate (unat n - i) 0))"
  using assms
proof (induction "unat n - i" arbitrary: i bs)
  case 0
  then have "i = unat n" by simp
  then show ?case by (subst strncpy_pad.simps) simp
next
  case (Suc k)
  then have i: "i < unat n" by simp
  note small = unat_le_max64 [of n]
  have "unat n - i = Suc (unat n - Suc i)" using i by simp
  moreover have "strncpy_pad dest n (of_nat i + 1) (store_bytes m dest (bs @ [0])) =
      Some (store_bytes m dest ((bs @ [0]) @ replicate (unat n - Suc i) 0))"
    using Suc.hyps(1) [of "Suc i" "bs @ [0]"] Suc.hyps(2) Suc.prems i by (simp add: add.commute)
  moreover have "(store_bytes m dest bs)(dest + of_nat i := 0) = store_bytes m dest (bs @ [0])"
    using store_bytes_snoc [of bs m dest 0] Suc.prems small by simp
  ultimately show ?case
    using i small by (subst strncpy_pad.simps) (simp add: less_of_nat64)
qed

lemma strncpy_eq:
  assumes "apart src (unat n) dest (unat n)"
  shows "strncpy dest src n m = Some (store_bytes m dest (strncpy_bytes (load_bytes m src (unat n))))"
proof -
  let ?cs = "takeWhile (\<lambda>b. b \<noteq> 0) (load_bytes m src (unat n))"
  have "length ?cs \<le> unat n" by (metis length_takeWhile_le length_load_bytes)
  then show ?thesis
    using strncpy_copy_eq [OF assms, of 0 m] strncpy_pad_eq [of "length ?cs" n ?cs dest m]
    by (simp add: strncpy_def strncpy_bytes_def Let_def)
qed

section \<open>Properties\<close>

text \<open>A memory for the applications: the string "abc" at 4096 and at 4100, zeros elsewhere.\<close>

definition sample_text :: mem where
  "sample_text = store_bytes (\<lambda>_. 0) 4096 [97, 98, 99, 0, 97, 98, 99, 0]"

lemma sample_text_at [simp]:
  "sample_text 4096 = 97" "sample_text 4097 = 98" "sample_text 4098 = 99" "sample_text 4099 = 0"
  "sample_text 4100 = 97" "sample_text 4101 = 98" "sample_text 4102 = 99" "sample_text 4103 = 0"
  by (simp_all add: sample_text_def store_bytes_def)

lemma sample_cstring: "cstring sample_text 4096 [97, 98, 99]" "cstring sample_text 4100 [97, 98, 99]"
  "cstring sample_text 4098 [99]"
  by (simp_all add: cstring_Cons cstring_Nil)

text \<open>
  (C27) \<^verbatim>\<open>memcpy\<close> returns and copies exactly \<open>len\<close> bytes, through its word loop as well as through
  its byte loop, and changes nothing else, for ranges that do not overlap and do not reach the end of
  the address space.
\<close>

theorem memcpy_correct:
  assumes "dest \<noteq> 0" and "unat dest + unat len < 18446744073709551616" and "apart dest (unat len) src (unat len)"
  shows "memcpy dest src len m = Some (store_bytes m dest (load_bytes m src (unat len)))"
  by (rule memcpy_eq [OF assms(1,2) fwd_ok_apart [OF assms(3)]])

theorem memcpy_correct_witness:
  "memcpy 8192 4096 11 sample_text = Some (store_bytes sample_text 8192 (load_bytes sample_text 4096 (unat (11 :: u64))))"
  by (rule memcpy_correct) (simp_all add: apart_def)

text \<open>
  (C26) \<^verbatim>\<open>memmove\<close> returns and leaves at the destination what was at the source before the call, also
  when the ranges overlap in either direction.
\<close>

theorem memmove_correct:
  assumes "unat dest + unat count \<le> 18446744073709551616" and "unat src + unat count \<le> 18446744073709551616"
  shows "memmove dest src count m = Some (store_bytes m dest (load_bytes m src (unat count)))"
  by (rule memmove_eq [OF assms])

theorem memmove_correct_witness:
  "memmove 4098 4096 6 sample_text = Some (store_bytes sample_text 4098 (load_bytes sample_text 4096 (unat (6 :: u64))))"
  by (rule memmove_correct) simp_all

text \<open>
  \<^verbatim>\<open>memset\<close> fills exactly \<open>len\<close> bytes with the low byte of its argument; the loop over words
  that it uses for aligned blocks leaves the same memory as the loop over bytes.
\<close>

lemma memset_correct:
  assumes "unat dest + unat len < 18446744073709551616"
  shows "memset dest byte len m = Some (store_bytes m dest (replicate (unat len) (ucast byte)))"
  by (rule memset_eq [OF assms])

text \<open>
  \<^verbatim>\<open>memcmp\<close> returns for every length, and its result is the difference of the first two bytes
  that differ, 0 exactly when the blocks are equal.
\<close>

lemma memcmp_correct:
  "\<exists>r. memcmp s1 s2 n m = Some r \<and>
    sint r = byte_diff (load_bytes m s1 (unat n)) (load_bytes m s2 (unat n)) \<and>
    (sint r = 0 \<longleftrightarrow> load_bytes m s1 (unat n) = load_bytes m s2 (unat n))"
proof -
  obtain r where "memcmp s1 s2 n m = Some r"
      and "sint r = byte_diff (load_bytes m s1 (unat n)) (load_bytes m s2 (unat n))"
    using memcmp_eq [OF unat_less_2p64 [of n], of s1 s2 m] by auto
  then show ?thesis using byte_diff_zero [of "load_bytes m s1 (unat n)" "load_bytes m s2 (unat n)"] by auto
qed

text \<open>
  (C40) \<^verbatim>\<open>strcmp\<close> decides equality of strings shorter than \<open>2^31\<close> characters; for any two that differ
  the result is 1, so its sign does not order them.
\<close>

theorem strcmp_decides_equality:
  assumes "cstring m p xs" and "cstring m q ys" and "length xs < 2147483648" and "length ys < 2147483648"
  shows "strcmp p q m = Some (if xs = ys then 0 else 1)"
  by (rule strcmp_eq [OF assms])

theorem strcmp_decides_equality_witness:
  "strcmp 4096 4098 sample_text = Some (if [97, 98, 99] = [99 :: u8] then 0 else 1)"
  by (rule strcmp_decides_equality [OF sample_cstring(1,3)]) simp_all

text \<open>
  (C39) \<^verbatim>\<open>strncpy\<close> writes exactly \<open>n\<close> bytes: the source up to its first 0, padded with zeros; without
  a 0 among the first \<open>n\<close> characters the copy is not terminated.
\<close>

theorem strncpy_correct:
  assumes "apart src (unat n) dest (unat n)"
  shows "strncpy dest src n m = Some (store_bytes m dest (strncpy_bytes (load_bytes m src (unat n))))"
  by (rule strncpy_eq [OF assms])

theorem strncpy_correct_witness:
  "strncpy 8192 4096 6 sample_text =
    Some (store_bytes sample_text 8192 (strncpy_bytes (load_bytes sample_text 4096 (unat (6 :: u64)))))"
  by (rule strncpy_correct) (simp add: apart_def)

end
