(* ===== verification/Ge25519.thy ===== *)
theory Ge25519
  imports Fe25519Pow Fe25519Bytes GeTables
begin

text \<open>
  \<^verbatim>\<open>lib/verifier/ed25519/ge.c\<close> and the types of \<^verbatim>\<open>ge.h\<close>: points of the curve in four coordinate
  systems, statement by statement on the limb vectors of \<open>Fe25519\<close>.  A C function that writes through
  its pointer argument returns the structure; the statements that overwrite a field of it several times
  are a chain of \<open>let\<close>s with the field's name.  A \<^verbatim>\<open>signed char\<close> array is a list of 8-bit words
  (\<open>i8\<close>), read as C does by sign extension.  \<open>GeOps\<close> and \<open>GeScalar\<close> prove the functions correct.
\<close>

type_synonym i8 = "8 word"

record ge_p2 =
  p2_X :: fe
  p2_Y :: fe
  p2_Z :: fe

record ge_p3 =
  p3_X :: fe
  p3_Y :: fe
  p3_Z :: fe
  p3_T :: fe

record ge_p1p1 =
  p1_X :: fe
  p1_Y :: fe
  p1_Z :: fe
  p1_T :: fe

record ge_cached =
  ca_YplusX :: fe
  ca_YminusX :: fe
  ca_Z :: fe
  ca_T2d :: fe

section \<open>Additions\<close>

definition ge_add :: "ge_p3 \<Rightarrow> ge_cached \<Rightarrow> ge_p1p1" where
  "ge_add p q =
    (let X = fe_add (p3_Y p) (p3_X p);
         Y = fe_sub (p3_Y p) (p3_X p);
         Z = fe_mul X (ca_YplusX q);
         Y = fe_mul Y (ca_YminusX q);
         T = fe_mul (ca_T2d q) (p3_T p);
         X = fe_mul (p3_Z p) (ca_Z q);
         t0 = fe_add X X;
         X = fe_sub Z Y;
         Y = fe_add Z Y;
         Z = fe_add t0 T;
         T = fe_sub t0 T
     in \<lparr>p1_X = X, p1_Y = Y, p1_Z = Z, p1_T = T\<rparr>)"

definition ge_sub :: "ge_p3 \<Rightarrow> ge_cached \<Rightarrow> ge_p1p1" where
  "ge_sub p q =
    (let X = fe_add (p3_Y p) (p3_X p);
         Y = fe_sub (p3_Y p) (p3_X p);
         Z = fe_mul X (ca_YminusX q);
         Y = fe_mul Y (ca_YplusX q);
         T = fe_mul (ca_T2d q) (p3_T p);
         X = fe_mul (p3_Z p) (ca_Z q);
         t0 = fe_add X X;
         X = fe_sub Z Y;
         Y = fe_add Z Y;
         Z = fe_sub t0 T;
         T = fe_add t0 T
     in \<lparr>p1_X = X, p1_Y = Y, p1_Z = Z, p1_T = T\<rparr>)"

definition ge_madd :: "ge_p3 \<Rightarrow> ge_precomp \<Rightarrow> ge_p1p1" where
  "ge_madd p q =
    (let X = fe_add (p3_Y p) (p3_X p);
         Y = fe_sub (p3_Y p) (p3_X p);
         Z = fe_mul X (yplusx q);
         Y = fe_mul Y (yminusx q);
         T = fe_mul (xy2d q) (p3_T p);
         t0 = fe_add (p3_Z p) (p3_Z p);
         X = fe_sub Z Y;
         Y = fe_add Z Y;
         Z = fe_add t0 T;
         T = fe_sub t0 T
     in \<lparr>p1_X = X, p1_Y = Y, p1_Z = Z, p1_T = T\<rparr>)"

definition ge_msub :: "ge_p3 \<Rightarrow> ge_precomp \<Rightarrow> ge_p1p1" where
  "ge_msub p q =
    (let X = fe_add (p3_Y p) (p3_X p);
         Y = fe_sub (p3_Y p) (p3_X p);
         Z = fe_mul X (yminusx q);
         Y = fe_mul Y (yplusx q);
         T = fe_mul (xy2d q) (p3_T p);
         t0 = fe_add (p3_Z p) (p3_Z p);
         X = fe_sub Z Y;
         Y = fe_add Z Y;
         Z = fe_sub t0 T;
         T = fe_add t0 T
     in \<lparr>p1_X = X, p1_Y = Y, p1_Z = Z, p1_T = T\<rparr>)"

section \<open>Conversions and doubling\<close>

definition ge_p1p1_to_p2 :: "ge_p1p1 \<Rightarrow> ge_p2" where
  "ge_p1p1_to_p2 p =
    \<lparr>p2_X = fe_mul (p1_X p) (p1_T p),
     p2_Y = fe_mul (p1_Y p) (p1_Z p),
     p2_Z = fe_mul (p1_Z p) (p1_T p)\<rparr>"

definition ge_p1p1_to_p3 :: "ge_p1p1 \<Rightarrow> ge_p3" where
  "ge_p1p1_to_p3 p =
    \<lparr>p3_X = fe_mul (p1_X p) (p1_T p),
     p3_Y = fe_mul (p1_Y p) (p1_Z p),
     p3_Z = fe_mul (p1_Z p) (p1_T p),
     p3_T = fe_mul (p1_X p) (p1_Y p)\<rparr>"

definition ge_p2_0 :: ge_p2 where
  "ge_p2_0 = \<lparr>p2_X = fe_0, p2_Y = fe_1, p2_Z = fe_1\<rparr>"

definition ge_p2_dbl :: "ge_p2 \<Rightarrow> ge_p1p1" where
  "ge_p2_dbl p =
    (let X = fe_sq (p2_X p);
         Z = fe_sq (p2_Y p);
         T = fe_sq2 (p2_Z p);
         Y = fe_add (p2_X p) (p2_Y p);
         t0 = fe_sq Y;
         Y = fe_add Z X;
         Z = fe_sub Z X;
         X = fe_sub t0 Y;
         T = fe_sub T Z
     in \<lparr>p1_X = X, p1_Y = Y, p1_Z = Z, p1_T = T\<rparr>)"

definition ge_p3_0 :: ge_p3 where
  "ge_p3_0 = \<lparr>p3_X = fe_0, p3_Y = fe_1, p3_Z = fe_1, p3_T = fe_0\<rparr>"

definition ge_p3_to_p2 :: "ge_p3 \<Rightarrow> ge_p2" where
  "ge_p3_to_p2 p = \<lparr>p2_X = fe_copy (p3_X p), p2_Y = fe_copy (p3_Y p), p2_Z = fe_copy (p3_Z p)\<rparr>"

definition ge_p3_dbl :: "ge_p3 \<Rightarrow> ge_p1p1" where
  "ge_p3_dbl p = (let q = ge_p3_to_p2 p in ge_p2_dbl q)"

definition ge_d :: fe where
  "ge_d = Fe (- 10913610) 13857413 (- 15372611) 6949391 114729 (- 8787816) (- 6275908) (- 3247719) (- 18696448) (- 12055116)"

definition ge_sqrtm1 :: fe where
  "ge_sqrtm1 = Fe (- 32595792) (- 7943725) 9377950 3500415 12389472 (- 272473) (- 25146209) (- 2005654) 326686 11406482"

definition ge_d2 :: fe where
  "ge_d2 = Fe (- 21827239) (- 5839606) (- 30745221) 13898782 229458 15978800 (- 12551817) (- 6495438) 29715968 9444199"

definition ge_p3_to_cached :: "ge_p3 \<Rightarrow> ge_cached" where
  "ge_p3_to_cached p =
    \<lparr>ca_YplusX = fe_add (p3_Y p) (p3_X p),
     ca_YminusX = fe_sub (p3_Y p) (p3_X p),
     ca_Z = fe_copy (p3_Z p),
     ca_T2d = fe_mul (p3_T p) ge_d2\<rparr>"

section \<open>Encoding\<close>

text \<open>\<^verbatim>\<open>s[31] ^= fe_isnegative(x) << 7\<close>\<close>

definition ge_p3_tobytes :: "ge_p3 \<Rightarrow> u8 list" where
  "ge_p3_tobytes h =
    (let recip = fe_invert (p3_Z h);
         x = fe_mul (p3_X h) recip;
         y = fe_mul (p3_Y h) recip;
         s = fe_tobytes y
     in s[31 := s ! 31 XOR ucast (push_bit 7 (fe_isnegative x))])"

definition ge_tobytes :: "ge_p2 \<Rightarrow> u8 list" where
  "ge_tobytes h =
    (let recip = fe_invert (p2_Z h);
         x = fe_mul (p2_X h) recip;
         y = fe_mul (p2_Y h) recip;
         s = fe_tobytes y
     in s[31 := s ! 31 XOR ucast (push_bit 7 (fe_isnegative x))])"

text \<open>\<open>None\<close> is the return value \<^verbatim>\<open>-1\<close>; the structure is only used after the return value 0.\<close>

definition ge_frombytes_negate_vartime :: "u8 list \<Rightarrow> ge_p3 option" where
  "ge_frombytes_negate_vartime s =
    (let Y = fe_frombytes s;
         Z = fe_1;
         u = fe_sq Y;
         v = fe_mul u ge_d;
         u = fe_sub u Z;
         v = fe_add v Z;
         v3 = fe_sq v;
         v3 = fe_mul v3 v;
         X = fe_sq v3;
         X = fe_mul X v;
         X = fe_mul X u;
         X = fe_pow22523 X;
         X = fe_mul X v3;
         X = fe_mul X u;
         vxx = fe_sq X;
         vxx = fe_mul vxx v;
         check = fe_sub vxx u
     in if fe_isnonzero check \<and> fe_isnonzero (fe_add vxx u) then None
        else
          let X = (if fe_isnonzero check then fe_mul X ge_sqrtm1 else X);
              X = (if fe_isnegative X = ucast (drop_bit 7 (s ! 31)) then fe_neg X else X);
              T = fe_mul X Y
          in Some \<lparr>p3_X = X, p3_Y = Y, p3_Z = Z, p3_T = T\<rparr>)"

section \<open>Sliding windows\<close>

text \<open>
  The digits are integers here; every store into the array goes through \<open>schar\<close>, the conversion of
  \<^verbatim>\<open>int\<close> to \<^verbatim>\<open>signed char\<close>.
\<close>

definition schar :: "int \<Rightarrow> int" where
  "schar n = sint (word_of_int n :: i8)"

text \<open>\<^verbatim>\<open>for (k = i + b; k < 256; ++k) { if (!r[k]) { r[k] = 1; break; } r[k] = 0; }\<close>\<close>

function slide_carry :: "nat \<Rightarrow> int list \<Rightarrow> int list" where
  "slide_carry k r =
    (if k < 256 then (if r ! k = 0 then r[k := 1] else slide_carry (k + 1) (r[k := 0])) else r)"
  by pat_completeness auto
termination by (relation "measure (\<lambda>(k, r). 256 - k)") auto

text \<open>\<^verbatim>\<open>for (b = 1; b <= 6 && i + b < 256; ++b)\<close>\<close>

function slide_window :: "nat \<Rightarrow> nat \<Rightarrow> int list \<Rightarrow> int list" where
  "slide_window i b r =
    (if b \<le> 6 \<and> i + b < 256 then
       if r ! (i + b) \<noteq> 0 then
         if r ! i + push_bit b (r ! (i + b)) \<le> 15 then
           slide_window i (b + 1) (r[i := schar (r ! i + push_bit b (r ! (i + b))), i + b := 0])
         else if - 15 \<le> r ! i - push_bit b (r ! (i + b)) then
           slide_window i (b + 1) (slide_carry (i + b) (r[i := schar (r ! i - push_bit b (r ! (i + b)))]))
         else r
       else slide_window i (b + 1) r
     else r)"
  by pat_completeness auto
termination by (relation "measure (\<lambda>(i, b, r). 7 - b)") auto

definition slide :: "u8 list \<Rightarrow> int list" where
  "slide a =
    (let r = map (\<lambda>i. uint (1 AND drop_bit (i mod 8) (a ! (i div 8)))) [0..<256]
     in fold (\<lambda>i r. if r ! i \<noteq> 0 then slide_window i 1 r else r) [0..<256] r)"

section \<open>The two scalar multiplications\<close>

text \<open>The table \<^verbatim>\<open>Ai\<close>: \<open>A, 3A, \<dots>, 15A\<close>.\<close>

definition ge_odd_multiples :: "ge_p3 \<Rightarrow> ge_cached list" where
  "ge_odd_multiples A =
    (let Ai0 = ge_p3_to_cached A;
         A2 = ge_p1p1_to_p3 (ge_p3_dbl A);
         Ai1 = ge_p3_to_cached (ge_p1p1_to_p3 (ge_add A2 Ai0));
         Ai2 = ge_p3_to_cached (ge_p1p1_to_p3 (ge_add A2 Ai1));
         Ai3 = ge_p3_to_cached (ge_p1p1_to_p3 (ge_add A2 Ai2));
         Ai4 = ge_p3_to_cached (ge_p1p1_to_p3 (ge_add A2 Ai3));
         Ai5 = ge_p3_to_cached (ge_p1p1_to_p3 (ge_add A2 Ai4));
         Ai6 = ge_p3_to_cached (ge_p1p1_to_p3 (ge_add A2 Ai5));
         Ai7 = ge_p3_to_cached (ge_p1p1_to_p3 (ge_add A2 Ai6))
     in [Ai0, Ai1, Ai2, Ai3, Ai4, Ai5, Ai6, Ai7])"

text \<open>The search for the top non-zero digit: the number of digits the main loop runs over.\<close>

primrec ge_top :: "int list \<Rightarrow> int list \<Rightarrow> nat \<Rightarrow> nat" where
  "ge_top aslide bslide 0 = 0"
| "ge_top aslide bslide (Suc i) =
    (if aslide ! i \<noteq> 0 \<or> bslide ! i \<noteq> 0 then Suc i else ge_top aslide bslide i)"

definition ge_double_step :: "ge_cached list \<Rightarrow> int \<Rightarrow> int \<Rightarrow> ge_p2 \<Rightarrow> ge_p2" where
  "ge_double_step Ai a b r =
    (let t = ge_p2_dbl r;
         t = (if 0 < a then ge_add (ge_p1p1_to_p3 t) (Ai ! nat (a div 2))
              else if a < 0 then ge_sub (ge_p1p1_to_p3 t) (Ai ! nat ((- a) div 2))
              else t);
         t = (if 0 < b then ge_madd (ge_p1p1_to_p3 t) (Bi ! nat (b div 2))
              else if b < 0 then ge_msub (ge_p1p1_to_p3 t) (Bi ! nat ((- b) div 2))
              else t)
     in ge_p1p1_to_p2 t)"

primrec ge_double_loop :: "ge_cached list \<Rightarrow> int list \<Rightarrow> int list \<Rightarrow> nat \<Rightarrow> ge_p2 \<Rightarrow> ge_p2" where
  "ge_double_loop Ai aslide bslide 0 r = r"
| "ge_double_loop Ai aslide bslide (Suc i) r =
    ge_double_loop Ai aslide bslide i (ge_double_step Ai (aslide ! i) (bslide ! i) r)"

definition ge_double_scalarmult_vartime :: "u8 list \<Rightarrow> ge_p3 \<Rightarrow> u8 list \<Rightarrow> ge_p2" where
  "ge_double_scalarmult_vartime a A b =
    (let aslide = slide a; bslide = slide b; Ai = ge_odd_multiples A
     in ge_double_loop Ai aslide bslide (ge_top aslide bslide 256) ge_p2_0)"

text \<open>Constant time selection.  The \<^verbatim>\<open>signed char\<close>s are promoted to \<^verbatim>\<open>int\<close>.\<close>

definition ge_equal :: "i8 \<Rightarrow> i8 \<Rightarrow> u8" where
  "ge_equal b c =
    (let x = b XOR c;
         y = (ucast x :: u64);
         y = y - 1;
         y = drop_bit 63 y
     in ucast y)"

definition negative :: "i8 \<Rightarrow> u8" where
  "negative b = (let x = (scast b :: u64) in ucast (drop_bit 63 x))"

definition cmov :: "ge_precomp \<Rightarrow> ge_precomp \<Rightarrow> u8 \<Rightarrow> ge_precomp" where
  "cmov t u b =
    \<lparr>yplusx = fe_cmov (yplusx t) (yplusx u) (ucast b),
     yminusx = fe_cmov (yminusx t) (yminusx u) (ucast b),
     xy2d = fe_cmov (xy2d t) (xy2d u) (ucast b)\<rparr>"

definition select :: "nat \<Rightarrow> i8 \<Rightarrow> ge_precomp" where
  "select pos b =
    (let bnegative = negative b;
         babs = (ucast ((scast b :: i32) - push_bit 1 ((- ucast bnegative) AND scast b)) :: u8);
         t = \<lparr>yplusx = fe_1, yminusx = fe_1, xy2d = fe_0\<rparr>;
         t = cmov t (base ! pos ! 0) (ge_equal babs 1);
         t = cmov t (base ! pos ! 1) (ge_equal babs 2);
         t = cmov t (base ! pos ! 2) (ge_equal babs 3);
         t = cmov t (base ! pos ! 3) (ge_equal babs 4);
         t = cmov t (base ! pos ! 4) (ge_equal babs 5);
         t = cmov t (base ! pos ! 5) (ge_equal babs 6);
         t = cmov t (base ! pos ! 6) (ge_equal babs 7);
         t = cmov t (base ! pos ! 7) (ge_equal babs 8);
         minust = \<lparr>yplusx = fe_copy (yminusx t), yminusx = fe_copy (yplusx t), xy2d = fe_neg (xy2d t)\<rparr>
     in cmov t minust bnegative)"

text \<open>\<^verbatim>\<open>e[i] += carry; carry = e[i] + 8; carry >>= 4; e[i] -= carry << 4\<close> for \<open>i < 63\<close>, then \<^verbatim>\<open>e[63] += carry\<close>\<close>

definition radix16_carry :: "nat \<Rightarrow> i8 list \<times> i8 \<Rightarrow> i8 list \<times> i8" where
  "radix16_carry i = (\<lambda>(e, carry).
    let e = e[i := e ! i + carry];
        carry = e ! i + 8;
        carry = signed_drop_bit 4 carry;
        e = e[i := e ! i - push_bit 4 carry]
    in (e, carry))"

definition radix16 :: "u8 list \<Rightarrow> i8 list" where
  "radix16 a =
    (let e = concat (map (\<lambda>i. [drop_bit 0 (a ! i) AND 15, drop_bit 4 (a ! i) AND 15]) [0..<32]);
         (e, carry) = fold radix16_carry [0..<63] (e, 0)
     in e[63 := e ! 63 + carry])"

definition ge_base_step :: "i8 list \<Rightarrow> nat \<Rightarrow> ge_p3 \<Rightarrow> ge_p3" where
  "ge_base_step e i h =
    (let t = select (i div 2) (e ! i);
         r = ge_madd h t
     in ge_p1p1_to_p3 r)"

definition ge_scalarmult_base :: "u8 list \<Rightarrow> ge_p3" where
  "ge_scalarmult_base a =
    (let e = radix16 a;
         h = ge_p3_0;
         h = fold (\<lambda>k. ge_base_step e (2 * k + 1)) [0..<32] h;
         r = ge_p3_dbl h;
         s = ge_p1p1_to_p2 r;
         r = ge_p2_dbl s;
         s = ge_p1p1_to_p2 r;
         r = ge_p2_dbl s;
         s = ge_p1p1_to_p2 r;
         r = ge_p2_dbl s;
         h = ge_p1p1_to_p3 r
     in fold (\<lambda>k. ge_base_step e (2 * k)) [0..<32] h)"

end
