(* ===== verification/GeSlide.thy ===== *)
theory GeSlide
  imports Ge25519
begin

text \<open>
  \<^verbatim>\<open>slide\<close> of \<^verbatim>\<open>ge.c\<close>: the 256 digits it computes have the value of the scalar, and every digit is zero
  or odd and between -15 and 15, so that the tables of odd multiples have an entry for it.
\<close>

section \<open>The value of the digits from a position on\<close>

function dval :: "int list \<Rightarrow> nat \<Rightarrow> int" where
  "dval r k = (if k < 256 then r ! k * 2 ^ k + dval r (k + 1) else 0)"
  by pat_completeness auto
termination by (relation "measure (\<lambda>(r, k). 256 - k)") auto

declare dval.simps [simp del] slide_carry.simps [simp del] slide_window.simps [simp del]

lemma dval_step: "k < 256 \<Longrightarrow> dval r k = r ! k * 2 ^ k + dval r (k + 1)"
  by (subst dval.simps) simp

lemma dval_end [simp]: "256 \<le> k \<Longrightarrow> dval r k = 0"
  by (subst dval.simps) simp

text \<open>The digits from \<open>k\<close> on are bits.\<close>

definition bits_from :: "int list \<Rightarrow> nat \<Rightarrow> bool" where
  "bits_from r k \<longleftrightarrow> (\<forall>j. k \<le> j \<longrightarrow> j < 256 \<longrightarrow> r ! j = 0 \<or> r ! j = 1)"

lemma bits_from_mono: "bits_from r k \<Longrightarrow> k \<le> m \<Longrightarrow> bits_from r m"
  by (simp add: bits_from_def)

lemma bits_from_update: "bits_from r k \<Longrightarrow> i < k \<Longrightarrow> bits_from (r[i := x]) k"
  by (simp add: bits_from_def)

lemma dval_update: "i < k \<Longrightarrow> dval (r[i := x]) k = dval r k"
proof (induction r k rule: dval.induct)
  case (1 r k)
  show ?case
  proof (cases "k < 256")
    case True
    then show ?thesis using 1(1)[OF True] 1(2) by (simp add: dval_step)
  qed simp
qed

lemma dval_eq_from:
  "(\<And>j. k \<le> j \<Longrightarrow> j < 256 \<Longrightarrow> r ! j = s ! j) \<Longrightarrow> dval r k = dval s k"
proof (induction r k rule: dval.induct)
  case (1 r k)
  show ?case
  proof (cases "k < 256")
    case True
    then show ?thesis using 1(1)[OF True] 1(2) by (simp add: dval_step)
  qed simp
qed

lemma dval_nonneg: "bits_from r k \<Longrightarrow> 0 \<le> dval r k"
proof (induction r k rule: dval.induct)
  case (1 r k)
  show ?case
  proof (cases "k < 256")
    case True
    then have "0 \<le> dval r (k + 1)" "r ! k = 0 \<or> r ! k = 1"
      using 1 by (auto simp: bits_from_def)
    then show ?thesis using True by (auto simp: dval_step)
  qed simp
qed

lemma dval_dvd: "(2::int) ^ k dvd dval r k"
proof (induction r k rule: dval.induct)
  case (1 r k)
  show ?case
  proof (cases "k < 256")
    case True
    have "(2::int) ^ k dvd 2 ^ (k + 1)" by (rule le_imp_power_dvd) simp
    also have "\<dots> dvd dval r (k + 1)" using 1 [OF True] .
    finally show ?thesis using True by (simp add: dval_step)
  qed simp
qed

lemmas dval_bits = dval_nonneg dval_dvd

text \<open>The bits from \<open>k\<close> on leave room for one more unit below \<open>2\<^sup>2\<^sup>5\<^sup>3\<close>, or are all zero.\<close>

definition room :: "int list \<Rightarrow> nat \<Rightarrow> bool" where
  "room r k \<longleftrightarrow> dval r k + 2 ^ k \<le> 2 ^ 255 \<or> dval r k = 0"

lemma multiple_below:
  assumes "(2::int) ^ k dvd v" "v < 2 ^ n" "k \<le> n"
  shows "v + 2 ^ k \<le> 2 ^ n"
proof -
  obtain q where q: "v = 2 ^ k * q" using assms(1) by (auto elim: dvdE)
  have n: "(2::int) ^ n = 2 ^ k * 2 ^ (n - k)" using assms(3) by (simp add: power_add [symmetric])
  have "2 ^ k * q < 2 ^ k * 2 ^ (n - k)" using assms(2) unfolding q n by simp
  then have "q + 1 \<le> 2 ^ (n - k)" by simp
  then have "2 ^ k * (q + 1) \<le> 2 ^ k * (2::int) ^ (n - k)" by (rule mult_left_mono) simp
  then show ?thesis unfolding q n by (simp add: algebra_simps)
qed

lemma room_next:
  assumes "room r k" "bits_from r k" "k < 256"
  shows "room r (k + 1)"
proof -
  note k = assms(3)
  have b: "bits_from r (k + 1)" using assms(2) by (rule bits_from_mono) simp
  have rk: "r ! k = 0 \<or> r ! k = 1" using assms(2) k by (simp add: bits_from_def)
  have le: "dval r (k + 1) \<le> dval r k" using rk by (auto simp: dval_step [OF k])
  show ?thesis
  proof (cases "dval r (k + 1) = 0")
    case False
    then have p: "0 < dval r (k + 1)" using dval_bits(1) [OF b] by simp
    then have "dval r k \<noteq> 0" using le by simp
    then have "dval r k + 2 ^ k \<le> 2 ^ 255" using assms(1) by (simp add: room_def)
    moreover have "(0::int) < 2 ^ k" by simp
    ultimately have lt: "dval r (k + 1) < 2 ^ 255" using le by linarith
    have "(2::int) ^ (k + 1) \<le> dval r (k + 1)" using zdvd_imp_le [OF dval_dvd p] .
    then have "(2::int) ^ (k + 1) < 2 ^ 255" using lt by linarith
    then have "k + 1 \<le> 255" by (metis less_imp_le_nat power_less_imp_less_exp one_less_numeral_iff semiring_norm(76))
    then show ?thesis unfolding room_def using multiple_below [OF dval_dvd lt] by simp
  qed (simp add: room_def)
qed

section \<open>The carry\<close>

lemma slide_carry:
  assumes "bits_from r k" "dval r k + 2 ^ k < 2 ^ 256" "k \<le> 256" "length r = 256"
  shows "length (slide_carry k r) = 256" "bits_from (slide_carry k r) k"
    "dval (slide_carry k r) k = dval r k + 2 ^ k" "\<And>j. j < k \<Longrightarrow> slide_carry k r ! j = r ! j"
    "k < 256 \<Longrightarrow> r ! k \<noteq> 0 \<Longrightarrow> slide_carry k r ! k = 0"
proof -
  have "length (slide_carry k r) = 256 \<and> bits_from (slide_carry k r) k \<and>
    dval (slide_carry k r) k = dval r k + 2 ^ k \<and> (\<forall>j<k. slide_carry k r ! j = r ! j) \<and>
    (k < 256 \<longrightarrow> r ! k \<noteq> 0 \<longrightarrow> slide_carry k r ! k = 0)"
    using assms
  proof (induction k r rule: slide_carry.induct)
    case (1 k r)
    show ?case
    proof (cases "k < 256")
      case False
      then have "k = 256" using 1(4) by simp
      then show ?thesis using 1(3) by simp
    next
      case k: True
      have eq: "slide_carry k r = (if r ! k = 0 then r[k := 1] else slide_carry (k + 1) (r[k := 0]))"
        by (subst slide_carry.simps) (simp add: k)
      show ?thesis
      proof (cases "r ! k = 0")
        case True
        let ?s = "r[k := 1]"
        have "dval ?s k = dval r k + 2 ^ k"
          using True k 1(5) dval_update [of k "k + 1" r 1] by (simp add: dval_step [OF k])
        moreover have "bits_from ?s k" using 1(2,5) by (simp add: bits_from_def nth_list_update)
        moreover have "slide_carry k r = ?s" using eq True by simp
        ultimately show ?thesis using True 1(5) by (simp only:) simp
      next
        case False
        then have rk: "r ! k = 1" using 1(2) k by (auto simp: bits_from_def)
        let ?s = "r[k := 0]"
        have d: "dval ?s (k + 1) = dval r (k + 1)" by (simp add: dval_update)
        have b: "bits_from ?s (k + 1)" by (rule bits_from_update [OF bits_from_mono [OF 1(2)]]) simp_all
        have "dval ?s (k + 1) + 2 ^ (k + 1) < 2 ^ 256" using 1(3) unfolding d dval_step [OF k] rk by simp
        then have ih: "length (slide_carry (k + 1) ?s) = 256" "bits_from (slide_carry (k + 1) ?s) (k + 1)"
            "dval (slide_carry (k + 1) ?s) (k + 1) = dval ?s (k + 1) + 2 ^ (k + 1)"
            "\<And>j. j < k + 1 \<Longrightarrow> slide_carry (k + 1) ?s ! j = ?s ! j"
          using 1(1) [OF k False b _ _] k 1(5) by simp_all
        have z: "slide_carry (k + 1) ?s ! k = 0" using ih(4) [of k] k 1(5) by simp
        have "bits_from (slide_carry (k + 1) ?s) k"
          using ih(2) z unfolding bits_from_def by (metis Suc_eq_plus1 le_eq_less_or_eq Suc_le_eq)
        then show ?thesis
          unfolding eq using False ih z rk d k by (simp add: dval_step [OF k])
      qed
    qed
  qed
  then show "length (slide_carry k r) = 256" "bits_from (slide_carry k r) k"
    "dval (slide_carry k r) k = dval r k + 2 ^ k" "\<And>j. j < k \<Longrightarrow> slide_carry k r ! j = r ! j"
    "k < 256 \<Longrightarrow> r ! k \<noteq> 0 \<Longrightarrow> slide_carry k r ! k = 0"
    by blast+
qed

section \<open>One window\<close>

text \<open>Before position \<open>i + b\<close> is looked at: the digit collected so far and the untouched bits above.\<close>

definition window :: "nat \<Rightarrow> nat \<Rightarrow> int list \<Rightarrow> bool" where
  "window i b r \<longleftrightarrow> length r = 256 \<and> i < 256 \<and> bits_from r (i + 1) \<and>
    (\<forall>j. i < j \<longrightarrow> j < i + b \<longrightarrow> j < 256 \<longrightarrow> r ! j = 0) \<and>
    odd (r ! i) \<and> 0 < r ! i \<and> r ! i < 2 ^ b \<and> room r (i + b)"

definition window_done :: "nat \<Rightarrow> int list \<Rightarrow> int list \<Rightarrow> bool" where
  "window_done i r r' \<longleftrightarrow> length r' = 256 \<and> bits_from r' (i + 1) \<and> odd (r' ! i) \<and> - 15 \<le> r' ! i \<and> r' ! i \<le> 15 \<and>
    dval r' i = dval r i \<and> (\<forall>j<i. r' ! j = r ! j) \<and> dval r' (i + 1) \<le> 2 ^ 255"

lemma schar_id: "- 128 \<le> n \<Longrightarrow> n < 128 \<Longrightarrow> schar n = n"
  by (simp add: schar_def sint_sbintrunc' signed_take_bit_int_eq_self)

lemma slide_window_stop: "256 \<le> i + b \<or> 6 < b \<Longrightarrow> slide_window i b r = r"
  by (subst slide_window.simps) auto

lemma slide_window_skip: "b \<le> 6 \<Longrightarrow> i + b < 256 \<Longrightarrow> r ! (i + b) = 0 \<Longrightarrow> slide_window i b r = slide_window i (b + 1) r"
  by (subst slide_window.simps) simp

lemma slide_window_add:
  "b \<le> 6 \<Longrightarrow> i + b < 256 \<Longrightarrow> r ! (i + b) = 1 \<Longrightarrow> r ! i + 2 ^ b \<le> 15 \<Longrightarrow> 0 < r ! i \<Longrightarrow>
    slide_window i b r = slide_window i (b + 1) (r[i := r ! i + 2 ^ b, i + b := 0])"
  by (subst slide_window.simps) (simp add: push_bit_eq_mult schar_id add_pos_nonneg order_trans [OF _ order_less_imp_le [OF add_pos_nonneg]])

lemma slide_window_sub:
  "b \<le> 6 \<Longrightarrow> i + b < 256 \<Longrightarrow> r ! (i + b) = 1 \<Longrightarrow> \<not> r ! i + 2 ^ b \<le> 15 \<Longrightarrow> - 15 \<le> r ! i - 2 ^ b \<Longrightarrow> r ! i \<le> 15 \<Longrightarrow>
    slide_window i b r = slide_window i (b + 1) (slide_carry (i + b) (r[i := r ! i - 2 ^ b]))"
  by (subst slide_window.simps) (simp add: push_bit_eq_mult schar_id)

lemma slide_window_break:
  "b \<le> 6 \<Longrightarrow> i + b < 256 \<Longrightarrow> r ! (i + b) = 1 \<Longrightarrow> \<not> r ! i + 2 ^ b \<le> 15 \<Longrightarrow> \<not> - 15 \<le> r ! i - 2 ^ b \<Longrightarrow>
    slide_window i b r = r"
  by (subst slide_window.simps) (simp add: push_bit_eq_mult)

text \<open>From \<open>b = 5\<close> on a set bit ends the window.\<close>

lemma slide_window_tail:
  assumes "5 \<le> b" "bits_from r (i + 1)" "- 15 \<le> r ! i" "r ! i \<le> 15"
  shows "slide_window i b r = r"
  using assms(1)
proof (induction "7 - b" arbitrary: b)
  case 0
  then show ?case by (intro slide_window_stop) simp
next
  case (Suc n)
  show ?case
  proof (cases "i + b < 256")
    case True
    have b: "b \<le> 6" using Suc.hyps(2) by simp
    have "(2::int) ^ 5 \<le> 2 ^ b" using Suc.prems by (intro power_increasing) simp_all
    then have w: "\<not> r ! i + 2 ^ b \<le> 15" "\<not> - 15 \<le> r ! i - 2 ^ b" using assms(3,4) by simp_all
    have "r ! (i + b) = 0 \<or> r ! (i + b) = 1" using assms(2) True Suc.prems by (simp add: bits_from_def)
    then show ?thesis
    proof
      assume "r ! (i + b) = 0"
      then have "slide_window i b r = slide_window i (b + 1) r" using b True by (intro slide_window_skip)
      also have "\<dots> = r" using Suc.hyps Suc.prems by (intro Suc.hyps(1)) simp_all
      finally show ?thesis .
    next
      assume "r ! (i + b) = 1"
      then show ?thesis using b True w by (intro slide_window_break)
    qed
  qed (simp add: slide_window_stop)
qed

text \<open>The digits between \<open>i\<close> and the next position looked at are zero.\<close>

lemma dval_zeros: "(\<And>j. k \<le> j \<Longrightarrow> j < m \<Longrightarrow> j < 256 \<Longrightarrow> r ! j = 0) \<Longrightarrow> k \<le> m \<Longrightarrow> dval r k = dval r m"
proof (induction "m - k" arbitrary: k)
  case (Suc n)
  show ?case
  proof (cases "k < 256")
    case True
    have "dval r k = dval r (k + 1)" using Suc.prems(1) [of k] True Suc.hyps(2) by (simp add: dval_step [OF True])
    also have "\<dots> = dval r m" using Suc by (intro Suc.hyps(1)) simp_all
    finally show ?thesis .
  qed (use Suc.prems in simp)
qed simp

lemma window_dval: "window i b r \<Longrightarrow> 1 \<le> b \<Longrightarrow> dval r (i + 1) = dval r (i + b)"
  by (rule dval_zeros) (simp_all add: window_def)

lemma room_le: "room r k \<Longrightarrow> dval r k \<le> 2 ^ 255"
  by (auto simp: room_def intro: order_trans [rotated])

lemma window_end: "window i b r \<Longrightarrow> 1 \<le> b \<Longrightarrow> b \<le> 4 \<Longrightarrow> window_done i r r"
proof -
  assume w: "window i b r" "1 \<le> b" "b \<le> 4"
  have "(2::int) ^ b \<le> 2 ^ 4" using w(3) by (rule power_increasing) simp
  then have "r ! i \<le> 15" using w(1) by (simp add: window_def)
  moreover have "dval r (i + 1) \<le> 2 ^ 255"
    unfolding window_dval [OF w(1,2)] using w(1) by (intro room_le) (simp add: window_def)
  ultimately show ?thesis using w(1) by (simp add: window_def window_done_def)
qed

lemma window_next:
  assumes w: "window i b r" and b: "1 \<le> b" "b \<le> 3" and ib: "i + b < 256"
  shows "\<exists>s. slide_window i b r = slide_window i (b + 1) s \<and> window i (b + 1) s \<and> dval s i = dval r i \<and>
    (\<forall>j<i. s ! j = r ! j)"
proof -
  have i: "i < 256" "length r = 256" using w by (simp_all add: window_def)
  have bits: "bits_from r (i + b)" using w b by (auto simp: window_def intro: bits_from_mono)
  have room: "room r (i + b + 1)" using w bits ib by (intro room_next) (simp_all add: window_def)
  have lt: "(2::int) ^ b < 2 ^ (b + 1)" by simp
  consider "r ! (i + b) = 0" | "r ! (i + b) = 1" using bits ib by (auto simp: bits_from_def)
  then show ?thesis
  proof cases
    case 1
    have "\<forall>j. i < j \<longrightarrow> j < i + (b + 1) \<longrightarrow> j < 256 \<longrightarrow> r ! j = 0"
    proof (intro allI impI)
      fix j assume "i < j" "j < i + (b + 1)" "j < 256"
      then show "r ! j = 0" using w 1 by (cases "j = i + b") (simp_all add: window_def)
    qed
    then have "window i (b + 1) r" using w room lt by (simp add: window_def add.assoc)
    then show ?thesis using slide_window_skip [of b i r] 1 b ib by auto
  next
    case 2
    let ?s = "r[i := r ! i + 2 ^ b, i + b := 0]"
    have p: "0 < r ! i" "r ! i < 2 ^ b" "odd (r ! i)" using w by (simp_all add: window_def)
    have "(2::int) ^ b \<le> 2 ^ 3" using b(2) by (rule power_increasing) simp
    then have le: "r ! i + 2 ^ b \<le> 15" using p by simp
    have si: "?s ! i = r ! i + 2 ^ b" using b i ib by (simp add: nth_list_update)
    have sj: "?s ! j = (if j = i + b then 0 else r ! j)" if "j \<noteq> i" for j
      using that ib i by (simp add: nth_list_update)
    have z: "?s ! j = 0" if "i < j" "j < i + (b + 1)" "j < 256" for j
      using w that by (simp add: sj window_def)
    have d1: "dval ?s (i + b + 1) = dval r (i + b + 1)" using b by (simp add: dval_update)
    have d2: "dval ?s (i + 1) = dval ?s (i + b + 1)" by (rule dval_zeros) (simp_all add: z)
    have d3: "dval r (i + 1) = 2 ^ (i + b) + dval r (i + b + 1)"
      unfolding window_dval [OF w b(1)] dval_step [OF ib] 2 by simp
    have "dval ?s i = dval r i"
      unfolding dval_step [OF i(1)] si d1 d2 d3 by (simp add: algebra_simps power_add)
    moreover have "window i (b + 1) ?s"
    proof -
      have "bits_from ?s (i + 1)" using w b by (auto simp: window_def bits_from_def sj)
      moreover have "room ?s (i + b + 1)" using room unfolding room_def d1 .
      moreover have "odd (r ! i + 2 ^ b)" using p(3) b(1) by simp
      ultimately show ?thesis using i si p z by (simp add: window_def add.assoc)
    qed
    moreover have "slide_window i b r = slide_window i (b + 1) ?s"
      using b ib 2 le p(1) by (intro slide_window_add) simp_all
    moreover have "\<forall>j<i. ?s ! j = r ! j" by simp
    ultimately show ?thesis by blast
  qed
qed

lemma window_last: "window i 4 r \<Longrightarrow> window_done i r (slide_window i 4 r)"
proof -
  assume w: "window i 4 r"
  have i: "i < 256" "length r = 256" "0 < r ! i" "r ! i < 16" "odd (r ! i)" "bits_from r (i + 1)" "room r (i + 4)"
    using w by (simp_all add: window_def)
  show ?thesis
  proof (cases "i + 4 < 256")
    case False
    then show ?thesis using window_end [OF w] by (simp add: slide_window_stop)
  next
    case ib: True
    have bits: "bits_from r (i + 4)" using i(6) by (rule bits_from_mono) simp
    then consider "r ! (i + 4) = 0" | "r ! (i + 4) = 1" using ib by (auto simp: bits_from_def)
    then show ?thesis
    proof cases
      case 1
      have "slide_window i 4 r = slide_window i 5 r" using slide_window_skip [of 4 i r] 1 ib by simp
      also have "\<dots> = r" using i by (intro slide_window_tail) simp_all
      finally show ?thesis using window_end [OF w] by simp
    next
      case 2
      let ?t = "r[i := r ! i - 2 ^ 4]" and ?m = "i + 4"
      let ?s = "slide_carry ?m ?t"
      have d: "dval ?t ?m = dval r ?m" by (rule dval_update) simp
      have "0 \<le> dval r (?m + 1)" by (rule dval_nonneg [OF bits_from_mono [OF bits]]) simp
      moreover have "(0::int) < 2 ^ ?m" by simp
      ultimately have "0 < dval r ?m" unfolding dval_step [OF ib] 2 by linarith
      then have up: "dval r ?m + 2 ^ ?m \<le> 2 ^ 255" using i(7) by (simp add: room_def)
      have "dval ?t ?m + 2 ^ ?m < 2 ^ 256" unfolding d using up by simp
      note c = slide_carry [OF bits_from_update [OF bits, of i] this]
      have len: "length ?s = 256" "dval ?s ?m = dval r ?m + 2 ^ ?m" "bits_from ?s ?m"
        using c(1,2,3) ib i(2) d by simp_all
      have low: "?s ! j = ?t ! j" if "j < ?m" for j using c(4) ib i(2) that by simp
      have si: "?s ! i = r ! i - 16" using low [of i] i by simp
      have z: "?s ! j = 0" if "i < j" "j < ?m" for j using low [of j] that w ib by (simp add: window_def)
      have ds: "dval ?s (i + 1) = dval r ?m + 2 ^ ?m" using dval_zeros [of "i + 1" ?m ?s] z len(2) by simp
      have "dval ?s i = dval r i"
        unfolding dval_step [OF i(1)] ds si window_dval [OF w one_le_numeral] by (simp add: algebra_simps power_add)
      moreover have "bits_from ?s (i + 1)"
        using len(3) z unfolding bits_from_def by (metis Suc_eq_plus1 Suc_le_eq linorder_not_le)
      moreover have "odd (?s ! i)" "- 15 \<le> ?s ! i" "?s ! i \<le> 15" using i si by simp_all
      moreover have "\<forall>j<i. ?s ! j = r ! j" using low by simp
      ultimately have wd: "window_done i r ?s" using len(1) ds up by (simp add: window_done_def)
      have "slide_window i 4 r = slide_window i (4 + 1) ?s"
        using slide_window_sub [of 4 i r] 2 ib i by simp
      also have "\<dots> = ?s" using wd by (intro slide_window_tail) (simp_all add: window_done_def)
      finally show ?thesis using wd by simp
    qed
  qed
qed

lemma window_done_trans:
  "window_done i s r' \<Longrightarrow> dval s i = dval r i \<Longrightarrow> \<forall>j<i. s ! j = r ! j \<Longrightarrow> window_done i r r'"
  by (simp add: window_done_def)

lemma window_run: "window i b r \<Longrightarrow> 1 \<le> b \<Longrightarrow> b \<le> 4 \<Longrightarrow> window_done i r (slide_window i b r)"
proof (induction "4 - b" arbitrary: b r)
  case 0
  then show ?case using window_last by simp
next
  case (Suc n)
  show ?case
  proof (cases "i + b < 256")
    case True
    have "b \<le> 3" using Suc.hyps(2) by simp
    then obtain s where s: "slide_window i b r = slide_window i (b + 1) s" "window i (b + 1) s"
        "dval s i = dval r i" "\<forall>j<i. s ! j = r ! j"
      using window_next [OF Suc.prems(1,2) _ True] by blast
    have "window_done i s (slide_window i (b + 1) s)"
      using Suc.hyps \<open>b \<le> 3\<close> s(2) by (intro Suc.hyps(1)) simp_all
    then show ?thesis unfolding s(1) using s(3,4) by (rule window_done_trans)
  next
    case False
    then show ?thesis using window_end [OF Suc.prems] by (simp add: slide_window_stop)
  qed
qed

section \<open>All windows\<close>

definition digit_ok :: "int \<Rightarrow> bool" where
  "digit_ok x \<longleftrightarrow> x = 0 \<or> odd x \<and> - 15 \<le> x \<and> x \<le> 15"

text \<open>After the positions below \<open>k\<close>.\<close>

definition slid :: "int \<Rightarrow> nat \<Rightarrow> int list \<Rightarrow> bool" where
  "slid v k r \<longleftrightarrow> length r = 256 \<and> (\<forall>j<k. digit_ok (r ! j)) \<and> bits_from r k \<and> dval r 0 = v \<and> dval r k \<le> 2 ^ 255"

lemma dval_low: "(\<And>j. j < k \<Longrightarrow> s ! j = r ! j) \<Longrightarrow> dval s k = dval r k \<Longrightarrow> m \<le> k \<Longrightarrow> k \<le> 256 \<Longrightarrow> dval s m = dval r m"
proof (induction "k - m" arbitrary: m)
  case (Suc n)
  then have m: "m < 256" "m < k" by simp_all
  have "dval s (m + 1) = dval r (m + 1)"
    by (rule Suc.hyps(1)) (use Suc.prems m Suc.hyps(2) in simp_all)
  then show ?case unfolding dval_step [OF m(1)] Suc.prems(1) [OF m(2)] by simp
qed simp

lemma slid_step:
  assumes s: "slid v k r" and k: "k < 256"
  shows "slid v (k + 1) (if r ! k \<noteq> 0 then slide_window k 1 r else r)"
proof -
  have r: "length r = 256" "\<And>j. j < k \<Longrightarrow> digit_ok (r ! j)" "bits_from r k" "dval r 0 = v" "dval r k \<le> 2 ^ 255"
    using s by (simp_all add: slid_def)
  have b1: "bits_from r (k + 1)" using r(3) by (rule bits_from_mono) simp
  consider "r ! k = 0" | "r ! k = 1" using r(3) k by (auto simp: bits_from_def)
  then show ?thesis
  proof cases
    case 1
    have "dval r (k + 1) \<le> 2 ^ 255" using r(5) unfolding dval_step [OF k] 1 by simp
    then show ?thesis using 1 r b1 by (auto simp: slid_def less_Suc_eq digit_ok_def)
  next
    case 2
    have "room r (k + 1)"
    proof (cases "dval r (k + 1) = 0")
      case False
      then have p: "0 < dval r (k + 1)" using dval_nonneg [OF b1] by simp
      have "(0::int) < 2 ^ k" by simp
      then have lt: "dval r (k + 1) < 2 ^ 255" using r(5) unfolding dval_step [OF k] 2 by linarith
      have "(2::int) ^ (k + 1) < 2 ^ 255" using zdvd_imp_le [OF dval_dvd p] lt by linarith
      then have "k + 1 \<le> 255" by (metis less_imp_le_nat power_less_imp_less_exp one_less_numeral_iff semiring_norm(76))
      then show ?thesis unfolding room_def using multiple_below [OF dval_dvd lt] by simp
    qed (simp add: room_def)
    then have "window k 1 r" using r b1 k 2 by (simp add: window_def)
    then have w: "window_done k r (slide_window k 1 r)" by (rule window_run) simp_all
    let ?s = "slide_window k 1 r"
    have "dval ?s 0 = v" using w k r(4) by (subst dval_low [of k _ r]) (simp_all add: window_done_def)
    moreover have "digit_ok (?s ! j)" if "j < k + 1" for j
      using w r(2) [of j] that by (cases "j = k") (simp_all add: window_done_def digit_ok_def)
    ultimately show ?thesis using w 2 by (simp add: window_done_def slid_def)
  qed
qed

lemma slid_fold:
  "slid v 0 r \<Longrightarrow> k \<le> 256 \<Longrightarrow> slid v k (fold (\<lambda>i r. if r ! i \<noteq> 0 then slide_window i 1 r else r) [0..<k] r)"
proof (induction k)
  case (Suc k)
  then show ?case using slid_step [of v k] by simp
qed simp

section \<open>The bits of the scalar\<close>

definition scalar_bits :: "u8 list \<Rightarrow> int list" where
  "scalar_bits a = map (\<lambda>i. uint (1 AND drop_bit (i mod 8) (a ! (i div 8)))) [0..<256]"

lemma bit_value: "uint (1 AND drop_bit t (x :: u8)) = uint x div 2 ^ t mod 2"
proof -
  have "take_bit 8 (uint x) = uint x" using uint_bounded [of x] by (simp add: take_bit_int_eq_self)
  then have "uint (drop_bit t x) = drop_bit t (uint x)" by (simp add: unsigned_drop_bit_eq)
  then show ?thesis by (simp only: one_and_eq uint_mod drop_bit_eq_div [of t "uint x"]) simp
qed

lemma sum_of_bits: "c0 * P + (c1 * (2 * P) + (c2 * (4 * P) + (c3 * (8 * P) + (c4 * (16 * P) + (c5 * (32 * P) +
    (c6 * (64 * P) + (c7 * (128 * P) + d))))))) =
  P * (c0 + 2 * c1 + 4 * c2 + 8 * c3 + 16 * c4 + 32 * c5 + 64 * c6 + 128 * c7) + (d::int)"
  by (simp add: algebra_simps)

lemma byte_bits:
  assumes "0 \<le> n" "n < 256"
  shows "n mod 2 + 2 * (n div 2 mod 2) + 4 * (n div 4 mod 2) + 8 * (n div 8 mod 2) + 16 * (n div 16 mod 2) +
    32 * (n div 32 mod 2) + 64 * (n div 64 mod 2) + 128 * (n div 128 mod 2) = (n::int)"
proof -
  have s: "x = x mod 2 + 2 * (x div 2)" for x :: int by simp
  have d: "n div 4 = n div 2 div 2" "n div 8 = n div 4 div 2" "n div 16 = n div 8 div 2" "n div 32 = n div 16 div 2"
      "n div 64 = n div 32 div 2" "n div 128 = n div 64 div 2" "n div 256 = n div 128 div 2"
    by (simp_all add: zdiv_zmult2_eq [symmetric])
  have "n div 256 = 0" using assms by simp
  then show ?thesis
    using s [of n] s [of "n div 2"] s [of "n div 4"] s [of "n div 8"] s [of "n div 16"] s [of "n div 32"]
      s [of "n div 64"] s [of "n div 128"] unfolding d by linarith
qed

lemma dval_scalar_bits:
  assumes "length a = 32"
  shows "m \<le> 32 \<Longrightarrow> dval (scalar_bits a) (8 * m) = 2 ^ (8 * m) * le_int (drop m a)"
proof (induction "32 - m" arbitrary: m)
  case 0
  then show ?case using assms by simp
next
  case (Suc n)
  then have m: "m < 32" by simp
  let ?r = "scalar_bits a" and ?x = "uint (a ! m)"
  have ih: "dval ?r (8 * m + 8) = 2 ^ (8 * m + 8) * le_int (drop (m + 1) a)"
    using Suc.hyps(1) [of "m + 1"] Suc.hyps(2) m by (simp add: add.commute)
  have bit: "?r ! (8 * m + t) = ?x div 2 ^ t mod 2" if "t < 8" for t
    using that m by (simp add: scalar_bits_def bit_value)
  define P where "P = (2::int) ^ (8 * m)"
  define D where "D t = dval ?r (8 * m + t)" for t
  define c where "c t = ?x div 2 ^ t mod 2" for t :: nat
  have st: "D t = c t * (2 ^ t * P) + D (t + 1)" if "t < 8" for t
    using dval_step [of "8 * m + t" ?r] bit [OF that] that m by (simp add: power_add P_def D_def c_def)
  have "D 0 = c 0 * P + (c 1 * (2 * P) + (c 2 * (4 * P) + (c 3 * (8 * P) + (c 4 * (16 * P) + (c 5 * (32 * P) +
      (c 6 * (64 * P) + (c 7 * (128 * P) + D 8)))))))"
    using st [of 0] st [of 1] st [of 2] st [of 3] st [of 4] st [of 5] st [of 6] st [of 7] by (simp del: One_nat_def)
  then have "dval ?r (8 * m) = P * (c 0 + 2 * c 1 + 4 * c 2 + 8 * c 3 + 16 * c 4 + 32 * c 5 + 64 * c 6 + 128 * c 7) + dval ?r (8 * m + 8)"
    unfolding sum_of_bits by (simp add: D_def)
  also have "c 0 + 2 * c 1 + 4 * c 2 + 8 * c 3 + 16 * c 4 + 32 * c 5 + 64 * c 6 + 128 * c 7 = ?x"
    using byte_bits [OF uint_nonnegative uint_bounded [of "a ! m", simplified]] by (simp add: c_def)
  also have "P * ?x + dval ?r (8 * m + 8) = P * (?x + 256 * le_int (drop (m + 1) a))"
    unfolding ih by (simp add: power_add distrib_left P_def)
  also have "drop m a = a ! m # drop (m + 1) a" using m assms by (simp add: Cons_nth_drop_Suc)
  then have "?x + 256 * le_int (drop (m + 1) a) = le_int (drop m a)" by simp
  finally show ?case by (simp add: P_def)
qed

lemma bits_from_scalar_bits: "bits_from (scalar_bits a) 0"
  by (auto simp: bits_from_def scalar_bits_def bit_value)

lemma slide_slid:
  assumes "length a = 32" "le_int a \<le> 2 ^ 255"
  shows "slid (le_int a) 256 (slide a)"
proof -
  have v: "dval (scalar_bits a) 0 = le_int a" using dval_scalar_bits [OF assms(1), of 0] by simp
  have "slid (le_int a) 0 (scalar_bits a)"
    using assms(2) v bits_from_scalar_bits by (simp add: slid_def) (simp add: scalar_bits_def)
  from slid_fold [OF this, of 256] show ?thesis by (simp add: slide_def scalar_bits_def)
qed

text \<open>
  (C28) \<^verbatim>\<open>slide\<close> recodes a scalar up to \<open>2^255\<close> (every scalar below the group order is) into 256 digits
  of the same value; each digit is zero or odd and between -15 and 15.
\<close>

theorem slide_correct:
  assumes "length a = 32" "le_int a \<le> 2 ^ 255"
  shows "length (slide a) = 256 \<and> (\<Sum>j<256. slide a ! j * 2 ^ j) = le_int a \<and>
    (\<forall>j<256. slide a ! j = 0 \<or> odd (slide a ! j) \<and> - 15 \<le> slide a ! j \<and> slide a ! j \<le> 15)"
proof -
  have s: "slid (le_int a) 256 (slide a)" by (rule slide_slid [OF assms])
  have "(\<Sum>j<n. slide a ! j * 2 ^ j) + dval (slide a) n = dval (slide a) 0" if "n \<le> 256" for n
    using that
  proof (induction n)
    case (Suc n)
    then show ?case using dval_step [of n "slide a"] by simp
  qed simp
  from this [of 256] show ?thesis using s by (simp add: slid_def digit_ok_def)
qed

lemma le_int_replicate_255: "le_int (replicate n 255) = 256 ^ n - 1"
  by (induction n) simp_all

text \<open>Above the bound the carry out of position 255 can be lost: \<open>2^256 - 1\<close> is recoded into digits of value -1.\<close>

lemma slide_drops_carry: "slide (replicate 32 255) = - 1 # replicate 255 0"
  by code_simp

theorem slide_correct_witness:
  "(\<Sum>j<256. slide (replicate 31 255 @ [127]) ! j * 2 ^ j) = le_int (replicate 31 255 @ [127])"
proof -
  have "le_int (replicate 31 255 @ [127]) \<le> 2 ^ 255" by (simp add: le_int_append le_int_replicate_255)
  then show ?thesis using slide_correct [of "replicate 31 255 @ [127]"] by simp
qed

end
