(* ===== verification/HexArith.thy ===== *)
theory HexArith
  imports Main
begin

text \<open>
  Multiplication modulo \<open>2^255 - 19\<close> on lists of hexadecimal digits, fast enough for the simplifier to
  evaluate long chains of it: additions go digit by digit through a table of rewrite rules, a product
  is 64 additions of precomputed multiples, and \<open>2^256\<close> is folded to 38.  \<open>hval\<close> reads a list as an
  integer; every operation has the corresponding law.
\<close>

section \<open>Digits and addition\<close>

datatype hex = H0 | H1 | H2 | H3 | H4 | H5 | H6 | H7 | H8 | H9 | HA | HB | HC | HD | HE | HF

primrec hv :: "hex \<Rightarrow> int" where
  "hv H0 = 0"
| "hv H1 = 1"
| "hv H2 = 2"
| "hv H3 = 3"
| "hv H4 = 4"
| "hv H5 = 5"
| "hv H6 = 6"
| "hv H7 = 7"
| "hv H8 = 8"
| "hv H9 = 9"
| "hv HA = 10"
| "hv HB = 11"
| "hv HC = 12"
| "hv HD = 13"
| "hv HE = 14"
| "hv HF = 15"

definition digit :: "int \<Rightarrow> hex" where
  "digit n = [H0, H1, H2, H3, H4, H5, H6, H7, H8, H9, HA, HB, HC, HD, HE, HF] ! nat n"

lemma hv_range: "0 \<le> hv a" "hv a \<le> 15"
  by (cases a; simp)+

lemma digit_simps:
  "digit 0 = H0"
  "digit 1 = H1"
  "digit 2 = H2"
  "digit 3 = H3"
  "digit 4 = H4"
  "digit 5 = H5"
  "digit 6 = H6"
  "digit 7 = H7"
  "digit 8 = H8"
  "digit 9 = H9"
  "digit 10 = HA"
  "digit 11 = HB"
  "digit 12 = HC"
  "digit 13 = HD"
  "digit 14 = HE"
  "digit 15 = HF"
  by (simp_all add: digit_def numeral_eq_Suc)

lemma hv_digit: "0 \<le> n \<Longrightarrow> n \<le> 15 \<Longrightarrow> hv (digit n) = n"
proof -
  assume "0 \<le> n" "n \<le> 15"
  then have "n = 15 \<or> n = 14 \<or> n = 13 \<or> n = 12 \<or> n = 11 \<or> n = 10 \<or> n = 9 \<or> n = 8 \<or>
    n = 7 \<or> n = 6 \<or> n = 5 \<or> n = 4 \<or> n = 3 \<or> n = 2 \<or> n = 1 \<or> n = 0" by presburger
  then show ?thesis by (elim disjE) (simp_all add: digit_simps)
qed

primrec hval :: "hex list \<Rightarrow> int" where
  "hval [] = 0"
| "hval (a # as) = hv a + 16 * hval as"

lemma hval_append: "hval (as @ bs) = hval as + 16 ^ length as * hval bs"
  by (induction as) (simp_all add: algebra_simps)

lemma hval_zeros: "hval (replicate n H0) = 0"
  by (induction n) simp_all

fun hadd :: "hex list \<Rightarrow> hex list \<Rightarrow> hex \<Rightarrow> hex list" where
  "hadd [] [] c = (if c = H0 then [] else [c])"
| "hadd (a # as) [] c = digit ((hv a + hv c) mod 16) # hadd as [] (digit ((hv a + hv c) div 16))"
| "hadd [] (b # bs) c = digit ((hv b + hv c) mod 16) # hadd [] bs (digit ((hv b + hv c) div 16))"
| "hadd (a # as) (b # bs) c =
    digit ((hv a + hv b + hv c) mod 16) # hadd as bs (digit ((hv a + hv b + hv c) div 16))"

lemma hadd_val: "hv c \<le> 1 \<Longrightarrow> hval (hadd as bs c) = hval as + hval bs + hv c"
proof (induction as bs c rule: hadd.induct)
  case (2 a as c)
  then show ?case using hv_range [of a] hv_range [of c]
    by (simp add: hv_digit)
next
  case (3 b bs c)
  then show ?case using hv_range [of b] hv_range [of c]
    by (simp add: hv_digit)
next
  case (4 a as b bs c)
  then show ?case using hv_range [of a] hv_range [of b] hv_range [of c]
    by (simp add: hv_digit)
qed simp

lemma hadd_val_0 [simp]: "hval (hadd as bs H0) = hval as + hval bs"
  by (simp add: hadd_val)

lemma hadd_Nil: "hadd as [] H0 = as" "hadd [] bs H0 = bs"
proof -
  show "hadd as [] H0 = as"
  proof (induction as)
    case (Cons a as)
    then show ?case by (cases a) (simp_all add: digit_simps)
  qed simp
  show "hadd [] bs H0 = bs"
  proof (induction bs)
    case (Cons b bs)
    then show ?case by (cases b) (simp_all add: digit_simps)
  qed simp
qed

lemma hadd_table_0:
  "hadd (H0 # as) (H0 # bs) H0 = H0 # hadd as bs H0"
  "hadd (H0 # as) (H1 # bs) H0 = H1 # hadd as bs H0"
  "hadd (H0 # as) (H2 # bs) H0 = H2 # hadd as bs H0"
  "hadd (H0 # as) (H3 # bs) H0 = H3 # hadd as bs H0"
  "hadd (H0 # as) (H4 # bs) H0 = H4 # hadd as bs H0"
  "hadd (H0 # as) (H5 # bs) H0 = H5 # hadd as bs H0"
  "hadd (H0 # as) (H6 # bs) H0 = H6 # hadd as bs H0"
  "hadd (H0 # as) (H7 # bs) H0 = H7 # hadd as bs H0"
  "hadd (H0 # as) (H8 # bs) H0 = H8 # hadd as bs H0"
  "hadd (H0 # as) (H9 # bs) H0 = H9 # hadd as bs H0"
  "hadd (H0 # as) (HA # bs) H0 = HA # hadd as bs H0"
  "hadd (H0 # as) (HB # bs) H0 = HB # hadd as bs H0"
  "hadd (H0 # as) (HC # bs) H0 = HC # hadd as bs H0"
  "hadd (H0 # as) (HD # bs) H0 = HD # hadd as bs H0"
  "hadd (H0 # as) (HE # bs) H0 = HE # hadd as bs H0"
  "hadd (H0 # as) (HF # bs) H0 = HF # hadd as bs H0"
  "hadd (H1 # as) (H0 # bs) H0 = H1 # hadd as bs H0"
  "hadd (H1 # as) (H1 # bs) H0 = H2 # hadd as bs H0"
  "hadd (H1 # as) (H2 # bs) H0 = H3 # hadd as bs H0"
  "hadd (H1 # as) (H3 # bs) H0 = H4 # hadd as bs H0"
  "hadd (H1 # as) (H4 # bs) H0 = H5 # hadd as bs H0"
  "hadd (H1 # as) (H5 # bs) H0 = H6 # hadd as bs H0"
  "hadd (H1 # as) (H6 # bs) H0 = H7 # hadd as bs H0"
  "hadd (H1 # as) (H7 # bs) H0 = H8 # hadd as bs H0"
  "hadd (H1 # as) (H8 # bs) H0 = H9 # hadd as bs H0"
  "hadd (H1 # as) (H9 # bs) H0 = HA # hadd as bs H0"
  "hadd (H1 # as) (HA # bs) H0 = HB # hadd as bs H0"
  "hadd (H1 # as) (HB # bs) H0 = HC # hadd as bs H0"
  "hadd (H1 # as) (HC # bs) H0 = HD # hadd as bs H0"
  "hadd (H1 # as) (HD # bs) H0 = HE # hadd as bs H0"
  "hadd (H1 # as) (HE # bs) H0 = HF # hadd as bs H0"
  "hadd (H1 # as) (HF # bs) H0 = H0 # hadd as bs H1"
  "hadd (H2 # as) (H0 # bs) H0 = H2 # hadd as bs H0"
  "hadd (H2 # as) (H1 # bs) H0 = H3 # hadd as bs H0"
  "hadd (H2 # as) (H2 # bs) H0 = H4 # hadd as bs H0"
  "hadd (H2 # as) (H3 # bs) H0 = H5 # hadd as bs H0"
  "hadd (H2 # as) (H4 # bs) H0 = H6 # hadd as bs H0"
  "hadd (H2 # as) (H5 # bs) H0 = H7 # hadd as bs H0"
  "hadd (H2 # as) (H6 # bs) H0 = H8 # hadd as bs H0"
  "hadd (H2 # as) (H7 # bs) H0 = H9 # hadd as bs H0"
  "hadd (H2 # as) (H8 # bs) H0 = HA # hadd as bs H0"
  "hadd (H2 # as) (H9 # bs) H0 = HB # hadd as bs H0"
  "hadd (H2 # as) (HA # bs) H0 = HC # hadd as bs H0"
  "hadd (H2 # as) (HB # bs) H0 = HD # hadd as bs H0"
  "hadd (H2 # as) (HC # bs) H0 = HE # hadd as bs H0"
  "hadd (H2 # as) (HD # bs) H0 = HF # hadd as bs H0"
  "hadd (H2 # as) (HE # bs) H0 = H0 # hadd as bs H1"
  "hadd (H2 # as) (HF # bs) H0 = H1 # hadd as bs H1"
  "hadd (H3 # as) (H0 # bs) H0 = H3 # hadd as bs H0"
  "hadd (H3 # as) (H1 # bs) H0 = H4 # hadd as bs H0"
  "hadd (H3 # as) (H2 # bs) H0 = H5 # hadd as bs H0"
  "hadd (H3 # as) (H3 # bs) H0 = H6 # hadd as bs H0"
  "hadd (H3 # as) (H4 # bs) H0 = H7 # hadd as bs H0"
  "hadd (H3 # as) (H5 # bs) H0 = H8 # hadd as bs H0"
  "hadd (H3 # as) (H6 # bs) H0 = H9 # hadd as bs H0"
  "hadd (H3 # as) (H7 # bs) H0 = HA # hadd as bs H0"
  "hadd (H3 # as) (H8 # bs) H0 = HB # hadd as bs H0"
  "hadd (H3 # as) (H9 # bs) H0 = HC # hadd as bs H0"
  "hadd (H3 # as) (HA # bs) H0 = HD # hadd as bs H0"
  "hadd (H3 # as) (HB # bs) H0 = HE # hadd as bs H0"
  "hadd (H3 # as) (HC # bs) H0 = HF # hadd as bs H0"
  "hadd (H3 # as) (HD # bs) H0 = H0 # hadd as bs H1"
  "hadd (H3 # as) (HE # bs) H0 = H1 # hadd as bs H1"
  "hadd (H3 # as) (HF # bs) H0 = H2 # hadd as bs H1"
  "hadd (H4 # as) (H0 # bs) H0 = H4 # hadd as bs H0"
  "hadd (H4 # as) (H1 # bs) H0 = H5 # hadd as bs H0"
  "hadd (H4 # as) (H2 # bs) H0 = H6 # hadd as bs H0"
  "hadd (H4 # as) (H3 # bs) H0 = H7 # hadd as bs H0"
  "hadd (H4 # as) (H4 # bs) H0 = H8 # hadd as bs H0"
  "hadd (H4 # as) (H5 # bs) H0 = H9 # hadd as bs H0"
  "hadd (H4 # as) (H6 # bs) H0 = HA # hadd as bs H0"
  "hadd (H4 # as) (H7 # bs) H0 = HB # hadd as bs H0"
  "hadd (H4 # as) (H8 # bs) H0 = HC # hadd as bs H0"
  "hadd (H4 # as) (H9 # bs) H0 = HD # hadd as bs H0"
  "hadd (H4 # as) (HA # bs) H0 = HE # hadd as bs H0"
  "hadd (H4 # as) (HB # bs) H0 = HF # hadd as bs H0"
  "hadd (H4 # as) (HC # bs) H0 = H0 # hadd as bs H1"
  "hadd (H4 # as) (HD # bs) H0 = H1 # hadd as bs H1"
  "hadd (H4 # as) (HE # bs) H0 = H2 # hadd as bs H1"
  "hadd (H4 # as) (HF # bs) H0 = H3 # hadd as bs H1"
  "hadd (H5 # as) (H0 # bs) H0 = H5 # hadd as bs H0"
  "hadd (H5 # as) (H1 # bs) H0 = H6 # hadd as bs H0"
  "hadd (H5 # as) (H2 # bs) H0 = H7 # hadd as bs H0"
  "hadd (H5 # as) (H3 # bs) H0 = H8 # hadd as bs H0"
  "hadd (H5 # as) (H4 # bs) H0 = H9 # hadd as bs H0"
  "hadd (H5 # as) (H5 # bs) H0 = HA # hadd as bs H0"
  "hadd (H5 # as) (H6 # bs) H0 = HB # hadd as bs H0"
  "hadd (H5 # as) (H7 # bs) H0 = HC # hadd as bs H0"
  "hadd (H5 # as) (H8 # bs) H0 = HD # hadd as bs H0"
  "hadd (H5 # as) (H9 # bs) H0 = HE # hadd as bs H0"
  "hadd (H5 # as) (HA # bs) H0 = HF # hadd as bs H0"
  "hadd (H5 # as) (HB # bs) H0 = H0 # hadd as bs H1"
  "hadd (H5 # as) (HC # bs) H0 = H1 # hadd as bs H1"
  "hadd (H5 # as) (HD # bs) H0 = H2 # hadd as bs H1"
  "hadd (H5 # as) (HE # bs) H0 = H3 # hadd as bs H1"
  "hadd (H5 # as) (HF # bs) H0 = H4 # hadd as bs H1"
  "hadd (H6 # as) (H0 # bs) H0 = H6 # hadd as bs H0"
  "hadd (H6 # as) (H1 # bs) H0 = H7 # hadd as bs H0"
  "hadd (H6 # as) (H2 # bs) H0 = H8 # hadd as bs H0"
  "hadd (H6 # as) (H3 # bs) H0 = H9 # hadd as bs H0"
  "hadd (H6 # as) (H4 # bs) H0 = HA # hadd as bs H0"
  "hadd (H6 # as) (H5 # bs) H0 = HB # hadd as bs H0"
  "hadd (H6 # as) (H6 # bs) H0 = HC # hadd as bs H0"
  "hadd (H6 # as) (H7 # bs) H0 = HD # hadd as bs H0"
  "hadd (H6 # as) (H8 # bs) H0 = HE # hadd as bs H0"
  "hadd (H6 # as) (H9 # bs) H0 = HF # hadd as bs H0"
  "hadd (H6 # as) (HA # bs) H0 = H0 # hadd as bs H1"
  "hadd (H6 # as) (HB # bs) H0 = H1 # hadd as bs H1"
  "hadd (H6 # as) (HC # bs) H0 = H2 # hadd as bs H1"
  "hadd (H6 # as) (HD # bs) H0 = H3 # hadd as bs H1"
  "hadd (H6 # as) (HE # bs) H0 = H4 # hadd as bs H1"
  "hadd (H6 # as) (HF # bs) H0 = H5 # hadd as bs H1"
  "hadd (H7 # as) (H0 # bs) H0 = H7 # hadd as bs H0"
  "hadd (H7 # as) (H1 # bs) H0 = H8 # hadd as bs H0"
  "hadd (H7 # as) (H2 # bs) H0 = H9 # hadd as bs H0"
  "hadd (H7 # as) (H3 # bs) H0 = HA # hadd as bs H0"
  "hadd (H7 # as) (H4 # bs) H0 = HB # hadd as bs H0"
  "hadd (H7 # as) (H5 # bs) H0 = HC # hadd as bs H0"
  "hadd (H7 # as) (H6 # bs) H0 = HD # hadd as bs H0"
  "hadd (H7 # as) (H7 # bs) H0 = HE # hadd as bs H0"
  "hadd (H7 # as) (H8 # bs) H0 = HF # hadd as bs H0"
  "hadd (H7 # as) (H9 # bs) H0 = H0 # hadd as bs H1"
  "hadd (H7 # as) (HA # bs) H0 = H1 # hadd as bs H1"
  "hadd (H7 # as) (HB # bs) H0 = H2 # hadd as bs H1"
  "hadd (H7 # as) (HC # bs) H0 = H3 # hadd as bs H1"
  "hadd (H7 # as) (HD # bs) H0 = H4 # hadd as bs H1"
  "hadd (H7 # as) (HE # bs) H0 = H5 # hadd as bs H1"
  "hadd (H7 # as) (HF # bs) H0 = H6 # hadd as bs H1"
  "hadd (H8 # as) (H0 # bs) H0 = H8 # hadd as bs H0"
  "hadd (H8 # as) (H1 # bs) H0 = H9 # hadd as bs H0"
  "hadd (H8 # as) (H2 # bs) H0 = HA # hadd as bs H0"
  "hadd (H8 # as) (H3 # bs) H0 = HB # hadd as bs H0"
  "hadd (H8 # as) (H4 # bs) H0 = HC # hadd as bs H0"
  "hadd (H8 # as) (H5 # bs) H0 = HD # hadd as bs H0"
  "hadd (H8 # as) (H6 # bs) H0 = HE # hadd as bs H0"
  "hadd (H8 # as) (H7 # bs) H0 = HF # hadd as bs H0"
  "hadd (H8 # as) (H8 # bs) H0 = H0 # hadd as bs H1"
  "hadd (H8 # as) (H9 # bs) H0 = H1 # hadd as bs H1"
  "hadd (H8 # as) (HA # bs) H0 = H2 # hadd as bs H1"
  "hadd (H8 # as) (HB # bs) H0 = H3 # hadd as bs H1"
  "hadd (H8 # as) (HC # bs) H0 = H4 # hadd as bs H1"
  "hadd (H8 # as) (HD # bs) H0 = H5 # hadd as bs H1"
  "hadd (H8 # as) (HE # bs) H0 = H6 # hadd as bs H1"
  "hadd (H8 # as) (HF # bs) H0 = H7 # hadd as bs H1"
  "hadd (H9 # as) (H0 # bs) H0 = H9 # hadd as bs H0"
  "hadd (H9 # as) (H1 # bs) H0 = HA # hadd as bs H0"
  "hadd (H9 # as) (H2 # bs) H0 = HB # hadd as bs H0"
  "hadd (H9 # as) (H3 # bs) H0 = HC # hadd as bs H0"
  "hadd (H9 # as) (H4 # bs) H0 = HD # hadd as bs H0"
  "hadd (H9 # as) (H5 # bs) H0 = HE # hadd as bs H0"
  "hadd (H9 # as) (H6 # bs) H0 = HF # hadd as bs H0"
  "hadd (H9 # as) (H7 # bs) H0 = H0 # hadd as bs H1"
  "hadd (H9 # as) (H8 # bs) H0 = H1 # hadd as bs H1"
  "hadd (H9 # as) (H9 # bs) H0 = H2 # hadd as bs H1"
  "hadd (H9 # as) (HA # bs) H0 = H3 # hadd as bs H1"
  "hadd (H9 # as) (HB # bs) H0 = H4 # hadd as bs H1"
  "hadd (H9 # as) (HC # bs) H0 = H5 # hadd as bs H1"
  "hadd (H9 # as) (HD # bs) H0 = H6 # hadd as bs H1"
  "hadd (H9 # as) (HE # bs) H0 = H7 # hadd as bs H1"
  "hadd (H9 # as) (HF # bs) H0 = H8 # hadd as bs H1"
  "hadd (HA # as) (H0 # bs) H0 = HA # hadd as bs H0"
  "hadd (HA # as) (H1 # bs) H0 = HB # hadd as bs H0"
  "hadd (HA # as) (H2 # bs) H0 = HC # hadd as bs H0"
  "hadd (HA # as) (H3 # bs) H0 = HD # hadd as bs H0"
  "hadd (HA # as) (H4 # bs) H0 = HE # hadd as bs H0"
  "hadd (HA # as) (H5 # bs) H0 = HF # hadd as bs H0"
  "hadd (HA # as) (H6 # bs) H0 = H0 # hadd as bs H1"
  "hadd (HA # as) (H7 # bs) H0 = H1 # hadd as bs H1"
  "hadd (HA # as) (H8 # bs) H0 = H2 # hadd as bs H1"
  "hadd (HA # as) (H9 # bs) H0 = H3 # hadd as bs H1"
  "hadd (HA # as) (HA # bs) H0 = H4 # hadd as bs H1"
  "hadd (HA # as) (HB # bs) H0 = H5 # hadd as bs H1"
  "hadd (HA # as) (HC # bs) H0 = H6 # hadd as bs H1"
  "hadd (HA # as) (HD # bs) H0 = H7 # hadd as bs H1"
  "hadd (HA # as) (HE # bs) H0 = H8 # hadd as bs H1"
  "hadd (HA # as) (HF # bs) H0 = H9 # hadd as bs H1"
  "hadd (HB # as) (H0 # bs) H0 = HB # hadd as bs H0"
  "hadd (HB # as) (H1 # bs) H0 = HC # hadd as bs H0"
  "hadd (HB # as) (H2 # bs) H0 = HD # hadd as bs H0"
  "hadd (HB # as) (H3 # bs) H0 = HE # hadd as bs H0"
  "hadd (HB # as) (H4 # bs) H0 = HF # hadd as bs H0"
  "hadd (HB # as) (H5 # bs) H0 = H0 # hadd as bs H1"
  "hadd (HB # as) (H6 # bs) H0 = H1 # hadd as bs H1"
  "hadd (HB # as) (H7 # bs) H0 = H2 # hadd as bs H1"
  "hadd (HB # as) (H8 # bs) H0 = H3 # hadd as bs H1"
  "hadd (HB # as) (H9 # bs) H0 = H4 # hadd as bs H1"
  "hadd (HB # as) (HA # bs) H0 = H5 # hadd as bs H1"
  "hadd (HB # as) (HB # bs) H0 = H6 # hadd as bs H1"
  "hadd (HB # as) (HC # bs) H0 = H7 # hadd as bs H1"
  "hadd (HB # as) (HD # bs) H0 = H8 # hadd as bs H1"
  "hadd (HB # as) (HE # bs) H0 = H9 # hadd as bs H1"
  "hadd (HB # as) (HF # bs) H0 = HA # hadd as bs H1"
  "hadd (HC # as) (H0 # bs) H0 = HC # hadd as bs H0"
  "hadd (HC # as) (H1 # bs) H0 = HD # hadd as bs H0"
  "hadd (HC # as) (H2 # bs) H0 = HE # hadd as bs H0"
  "hadd (HC # as) (H3 # bs) H0 = HF # hadd as bs H0"
  "hadd (HC # as) (H4 # bs) H0 = H0 # hadd as bs H1"
  "hadd (HC # as) (H5 # bs) H0 = H1 # hadd as bs H1"
  "hadd (HC # as) (H6 # bs) H0 = H2 # hadd as bs H1"
  "hadd (HC # as) (H7 # bs) H0 = H3 # hadd as bs H1"
  "hadd (HC # as) (H8 # bs) H0 = H4 # hadd as bs H1"
  "hadd (HC # as) (H9 # bs) H0 = H5 # hadd as bs H1"
  "hadd (HC # as) (HA # bs) H0 = H6 # hadd as bs H1"
  "hadd (HC # as) (HB # bs) H0 = H7 # hadd as bs H1"
  "hadd (HC # as) (HC # bs) H0 = H8 # hadd as bs H1"
  "hadd (HC # as) (HD # bs) H0 = H9 # hadd as bs H1"
  "hadd (HC # as) (HE # bs) H0 = HA # hadd as bs H1"
  "hadd (HC # as) (HF # bs) H0 = HB # hadd as bs H1"
  "hadd (HD # as) (H0 # bs) H0 = HD # hadd as bs H0"
  "hadd (HD # as) (H1 # bs) H0 = HE # hadd as bs H0"
  "hadd (HD # as) (H2 # bs) H0 = HF # hadd as bs H0"
  "hadd (HD # as) (H3 # bs) H0 = H0 # hadd as bs H1"
  "hadd (HD # as) (H4 # bs) H0 = H1 # hadd as bs H1"
  "hadd (HD # as) (H5 # bs) H0 = H2 # hadd as bs H1"
  "hadd (HD # as) (H6 # bs) H0 = H3 # hadd as bs H1"
  "hadd (HD # as) (H7 # bs) H0 = H4 # hadd as bs H1"
  "hadd (HD # as) (H8 # bs) H0 = H5 # hadd as bs H1"
  "hadd (HD # as) (H9 # bs) H0 = H6 # hadd as bs H1"
  "hadd (HD # as) (HA # bs) H0 = H7 # hadd as bs H1"
  "hadd (HD # as) (HB # bs) H0 = H8 # hadd as bs H1"
  "hadd (HD # as) (HC # bs) H0 = H9 # hadd as bs H1"
  "hadd (HD # as) (HD # bs) H0 = HA # hadd as bs H1"
  "hadd (HD # as) (HE # bs) H0 = HB # hadd as bs H1"
  "hadd (HD # as) (HF # bs) H0 = HC # hadd as bs H1"
  "hadd (HE # as) (H0 # bs) H0 = HE # hadd as bs H0"
  "hadd (HE # as) (H1 # bs) H0 = HF # hadd as bs H0"
  "hadd (HE # as) (H2 # bs) H0 = H0 # hadd as bs H1"
  "hadd (HE # as) (H3 # bs) H0 = H1 # hadd as bs H1"
  "hadd (HE # as) (H4 # bs) H0 = H2 # hadd as bs H1"
  "hadd (HE # as) (H5 # bs) H0 = H3 # hadd as bs H1"
  "hadd (HE # as) (H6 # bs) H0 = H4 # hadd as bs H1"
  "hadd (HE # as) (H7 # bs) H0 = H5 # hadd as bs H1"
  "hadd (HE # as) (H8 # bs) H0 = H6 # hadd as bs H1"
  "hadd (HE # as) (H9 # bs) H0 = H7 # hadd as bs H1"
  "hadd (HE # as) (HA # bs) H0 = H8 # hadd as bs H1"
  "hadd (HE # as) (HB # bs) H0 = H9 # hadd as bs H1"
  "hadd (HE # as) (HC # bs) H0 = HA # hadd as bs H1"
  "hadd (HE # as) (HD # bs) H0 = HB # hadd as bs H1"
  "hadd (HE # as) (HE # bs) H0 = HC # hadd as bs H1"
  "hadd (HE # as) (HF # bs) H0 = HD # hadd as bs H1"
  "hadd (HF # as) (H0 # bs) H0 = HF # hadd as bs H0"
  "hadd (HF # as) (H1 # bs) H0 = H0 # hadd as bs H1"
  "hadd (HF # as) (H2 # bs) H0 = H1 # hadd as bs H1"
  "hadd (HF # as) (H3 # bs) H0 = H2 # hadd as bs H1"
  "hadd (HF # as) (H4 # bs) H0 = H3 # hadd as bs H1"
  "hadd (HF # as) (H5 # bs) H0 = H4 # hadd as bs H1"
  "hadd (HF # as) (H6 # bs) H0 = H5 # hadd as bs H1"
  "hadd (HF # as) (H7 # bs) H0 = H6 # hadd as bs H1"
  "hadd (HF # as) (H8 # bs) H0 = H7 # hadd as bs H1"
  "hadd (HF # as) (H9 # bs) H0 = H8 # hadd as bs H1"
  "hadd (HF # as) (HA # bs) H0 = H9 # hadd as bs H1"
  "hadd (HF # as) (HB # bs) H0 = HA # hadd as bs H1"
  "hadd (HF # as) (HC # bs) H0 = HB # hadd as bs H1"
  "hadd (HF # as) (HD # bs) H0 = HC # hadd as bs H1"
  "hadd (HF # as) (HE # bs) H0 = HD # hadd as bs H1"
  "hadd (HF # as) (HF # bs) H0 = HE # hadd as bs H1"
  by (simp_all add: digit_simps)

lemma hadd_table_1:
  "hadd (H0 # as) (H0 # bs) H1 = H1 # hadd as bs H0"
  "hadd (H0 # as) (H1 # bs) H1 = H2 # hadd as bs H0"
  "hadd (H0 # as) (H2 # bs) H1 = H3 # hadd as bs H0"
  "hadd (H0 # as) (H3 # bs) H1 = H4 # hadd as bs H0"
  "hadd (H0 # as) (H4 # bs) H1 = H5 # hadd as bs H0"
  "hadd (H0 # as) (H5 # bs) H1 = H6 # hadd as bs H0"
  "hadd (H0 # as) (H6 # bs) H1 = H7 # hadd as bs H0"
  "hadd (H0 # as) (H7 # bs) H1 = H8 # hadd as bs H0"
  "hadd (H0 # as) (H8 # bs) H1 = H9 # hadd as bs H0"
  "hadd (H0 # as) (H9 # bs) H1 = HA # hadd as bs H0"
  "hadd (H0 # as) (HA # bs) H1 = HB # hadd as bs H0"
  "hadd (H0 # as) (HB # bs) H1 = HC # hadd as bs H0"
  "hadd (H0 # as) (HC # bs) H1 = HD # hadd as bs H0"
  "hadd (H0 # as) (HD # bs) H1 = HE # hadd as bs H0"
  "hadd (H0 # as) (HE # bs) H1 = HF # hadd as bs H0"
  "hadd (H0 # as) (HF # bs) H1 = H0 # hadd as bs H1"
  "hadd (H1 # as) (H0 # bs) H1 = H2 # hadd as bs H0"
  "hadd (H1 # as) (H1 # bs) H1 = H3 # hadd as bs H0"
  "hadd (H1 # as) (H2 # bs) H1 = H4 # hadd as bs H0"
  "hadd (H1 # as) (H3 # bs) H1 = H5 # hadd as bs H0"
  "hadd (H1 # as) (H4 # bs) H1 = H6 # hadd as bs H0"
  "hadd (H1 # as) (H5 # bs) H1 = H7 # hadd as bs H0"
  "hadd (H1 # as) (H6 # bs) H1 = H8 # hadd as bs H0"
  "hadd (H1 # as) (H7 # bs) H1 = H9 # hadd as bs H0"
  "hadd (H1 # as) (H8 # bs) H1 = HA # hadd as bs H0"
  "hadd (H1 # as) (H9 # bs) H1 = HB # hadd as bs H0"
  "hadd (H1 # as) (HA # bs) H1 = HC # hadd as bs H0"
  "hadd (H1 # as) (HB # bs) H1 = HD # hadd as bs H0"
  "hadd (H1 # as) (HC # bs) H1 = HE # hadd as bs H0"
  "hadd (H1 # as) (HD # bs) H1 = HF # hadd as bs H0"
  "hadd (H1 # as) (HE # bs) H1 = H0 # hadd as bs H1"
  "hadd (H1 # as) (HF # bs) H1 = H1 # hadd as bs H1"
  "hadd (H2 # as) (H0 # bs) H1 = H3 # hadd as bs H0"
  "hadd (H2 # as) (H1 # bs) H1 = H4 # hadd as bs H0"
  "hadd (H2 # as) (H2 # bs) H1 = H5 # hadd as bs H0"
  "hadd (H2 # as) (H3 # bs) H1 = H6 # hadd as bs H0"
  "hadd (H2 # as) (H4 # bs) H1 = H7 # hadd as bs H0"
  "hadd (H2 # as) (H5 # bs) H1 = H8 # hadd as bs H0"
  "hadd (H2 # as) (H6 # bs) H1 = H9 # hadd as bs H0"
  "hadd (H2 # as) (H7 # bs) H1 = HA # hadd as bs H0"
  "hadd (H2 # as) (H8 # bs) H1 = HB # hadd as bs H0"
  "hadd (H2 # as) (H9 # bs) H1 = HC # hadd as bs H0"
  "hadd (H2 # as) (HA # bs) H1 = HD # hadd as bs H0"
  "hadd (H2 # as) (HB # bs) H1 = HE # hadd as bs H0"
  "hadd (H2 # as) (HC # bs) H1 = HF # hadd as bs H0"
  "hadd (H2 # as) (HD # bs) H1 = H0 # hadd as bs H1"
  "hadd (H2 # as) (HE # bs) H1 = H1 # hadd as bs H1"
  "hadd (H2 # as) (HF # bs) H1 = H2 # hadd as bs H1"
  "hadd (H3 # as) (H0 # bs) H1 = H4 # hadd as bs H0"
  "hadd (H3 # as) (H1 # bs) H1 = H5 # hadd as bs H0"
  "hadd (H3 # as) (H2 # bs) H1 = H6 # hadd as bs H0"
  "hadd (H3 # as) (H3 # bs) H1 = H7 # hadd as bs H0"
  "hadd (H3 # as) (H4 # bs) H1 = H8 # hadd as bs H0"
  "hadd (H3 # as) (H5 # bs) H1 = H9 # hadd as bs H0"
  "hadd (H3 # as) (H6 # bs) H1 = HA # hadd as bs H0"
  "hadd (H3 # as) (H7 # bs) H1 = HB # hadd as bs H0"
  "hadd (H3 # as) (H8 # bs) H1 = HC # hadd as bs H0"
  "hadd (H3 # as) (H9 # bs) H1 = HD # hadd as bs H0"
  "hadd (H3 # as) (HA # bs) H1 = HE # hadd as bs H0"
  "hadd (H3 # as) (HB # bs) H1 = HF # hadd as bs H0"
  "hadd (H3 # as) (HC # bs) H1 = H0 # hadd as bs H1"
  "hadd (H3 # as) (HD # bs) H1 = H1 # hadd as bs H1"
  "hadd (H3 # as) (HE # bs) H1 = H2 # hadd as bs H1"
  "hadd (H3 # as) (HF # bs) H1 = H3 # hadd as bs H1"
  "hadd (H4 # as) (H0 # bs) H1 = H5 # hadd as bs H0"
  "hadd (H4 # as) (H1 # bs) H1 = H6 # hadd as bs H0"
  "hadd (H4 # as) (H2 # bs) H1 = H7 # hadd as bs H0"
  "hadd (H4 # as) (H3 # bs) H1 = H8 # hadd as bs H0"
  "hadd (H4 # as) (H4 # bs) H1 = H9 # hadd as bs H0"
  "hadd (H4 # as) (H5 # bs) H1 = HA # hadd as bs H0"
  "hadd (H4 # as) (H6 # bs) H1 = HB # hadd as bs H0"
  "hadd (H4 # as) (H7 # bs) H1 = HC # hadd as bs H0"
  "hadd (H4 # as) (H8 # bs) H1 = HD # hadd as bs H0"
  "hadd (H4 # as) (H9 # bs) H1 = HE # hadd as bs H0"
  "hadd (H4 # as) (HA # bs) H1 = HF # hadd as bs H0"
  "hadd (H4 # as) (HB # bs) H1 = H0 # hadd as bs H1"
  "hadd (H4 # as) (HC # bs) H1 = H1 # hadd as bs H1"
  "hadd (H4 # as) (HD # bs) H1 = H2 # hadd as bs H1"
  "hadd (H4 # as) (HE # bs) H1 = H3 # hadd as bs H1"
  "hadd (H4 # as) (HF # bs) H1 = H4 # hadd as bs H1"
  "hadd (H5 # as) (H0 # bs) H1 = H6 # hadd as bs H0"
  "hadd (H5 # as) (H1 # bs) H1 = H7 # hadd as bs H0"
  "hadd (H5 # as) (H2 # bs) H1 = H8 # hadd as bs H0"
  "hadd (H5 # as) (H3 # bs) H1 = H9 # hadd as bs H0"
  "hadd (H5 # as) (H4 # bs) H1 = HA # hadd as bs H0"
  "hadd (H5 # as) (H5 # bs) H1 = HB # hadd as bs H0"
  "hadd (H5 # as) (H6 # bs) H1 = HC # hadd as bs H0"
  "hadd (H5 # as) (H7 # bs) H1 = HD # hadd as bs H0"
  "hadd (H5 # as) (H8 # bs) H1 = HE # hadd as bs H0"
  "hadd (H5 # as) (H9 # bs) H1 = HF # hadd as bs H0"
  "hadd (H5 # as) (HA # bs) H1 = H0 # hadd as bs H1"
  "hadd (H5 # as) (HB # bs) H1 = H1 # hadd as bs H1"
  "hadd (H5 # as) (HC # bs) H1 = H2 # hadd as bs H1"
  "hadd (H5 # as) (HD # bs) H1 = H3 # hadd as bs H1"
  "hadd (H5 # as) (HE # bs) H1 = H4 # hadd as bs H1"
  "hadd (H5 # as) (HF # bs) H1 = H5 # hadd as bs H1"
  "hadd (H6 # as) (H0 # bs) H1 = H7 # hadd as bs H0"
  "hadd (H6 # as) (H1 # bs) H1 = H8 # hadd as bs H0"
  "hadd (H6 # as) (H2 # bs) H1 = H9 # hadd as bs H0"
  "hadd (H6 # as) (H3 # bs) H1 = HA # hadd as bs H0"
  "hadd (H6 # as) (H4 # bs) H1 = HB # hadd as bs H0"
  "hadd (H6 # as) (H5 # bs) H1 = HC # hadd as bs H0"
  "hadd (H6 # as) (H6 # bs) H1 = HD # hadd as bs H0"
  "hadd (H6 # as) (H7 # bs) H1 = HE # hadd as bs H0"
  "hadd (H6 # as) (H8 # bs) H1 = HF # hadd as bs H0"
  "hadd (H6 # as) (H9 # bs) H1 = H0 # hadd as bs H1"
  "hadd (H6 # as) (HA # bs) H1 = H1 # hadd as bs H1"
  "hadd (H6 # as) (HB # bs) H1 = H2 # hadd as bs H1"
  "hadd (H6 # as) (HC # bs) H1 = H3 # hadd as bs H1"
  "hadd (H6 # as) (HD # bs) H1 = H4 # hadd as bs H1"
  "hadd (H6 # as) (HE # bs) H1 = H5 # hadd as bs H1"
  "hadd (H6 # as) (HF # bs) H1 = H6 # hadd as bs H1"
  "hadd (H7 # as) (H0 # bs) H1 = H8 # hadd as bs H0"
  "hadd (H7 # as) (H1 # bs) H1 = H9 # hadd as bs H0"
  "hadd (H7 # as) (H2 # bs) H1 = HA # hadd as bs H0"
  "hadd (H7 # as) (H3 # bs) H1 = HB # hadd as bs H0"
  "hadd (H7 # as) (H4 # bs) H1 = HC # hadd as bs H0"
  "hadd (H7 # as) (H5 # bs) H1 = HD # hadd as bs H0"
  "hadd (H7 # as) (H6 # bs) H1 = HE # hadd as bs H0"
  "hadd (H7 # as) (H7 # bs) H1 = HF # hadd as bs H0"
  "hadd (H7 # as) (H8 # bs) H1 = H0 # hadd as bs H1"
  "hadd (H7 # as) (H9 # bs) H1 = H1 # hadd as bs H1"
  "hadd (H7 # as) (HA # bs) H1 = H2 # hadd as bs H1"
  "hadd (H7 # as) (HB # bs) H1 = H3 # hadd as bs H1"
  "hadd (H7 # as) (HC # bs) H1 = H4 # hadd as bs H1"
  "hadd (H7 # as) (HD # bs) H1 = H5 # hadd as bs H1"
  "hadd (H7 # as) (HE # bs) H1 = H6 # hadd as bs H1"
  "hadd (H7 # as) (HF # bs) H1 = H7 # hadd as bs H1"
  "hadd (H8 # as) (H0 # bs) H1 = H9 # hadd as bs H0"
  "hadd (H8 # as) (H1 # bs) H1 = HA # hadd as bs H0"
  "hadd (H8 # as) (H2 # bs) H1 = HB # hadd as bs H0"
  "hadd (H8 # as) (H3 # bs) H1 = HC # hadd as bs H0"
  "hadd (H8 # as) (H4 # bs) H1 = HD # hadd as bs H0"
  "hadd (H8 # as) (H5 # bs) H1 = HE # hadd as bs H0"
  "hadd (H8 # as) (H6 # bs) H1 = HF # hadd as bs H0"
  "hadd (H8 # as) (H7 # bs) H1 = H0 # hadd as bs H1"
  "hadd (H8 # as) (H8 # bs) H1 = H1 # hadd as bs H1"
  "hadd (H8 # as) (H9 # bs) H1 = H2 # hadd as bs H1"
  "hadd (H8 # as) (HA # bs) H1 = H3 # hadd as bs H1"
  "hadd (H8 # as) (HB # bs) H1 = H4 # hadd as bs H1"
  "hadd (H8 # as) (HC # bs) H1 = H5 # hadd as bs H1"
  "hadd (H8 # as) (HD # bs) H1 = H6 # hadd as bs H1"
  "hadd (H8 # as) (HE # bs) H1 = H7 # hadd as bs H1"
  "hadd (H8 # as) (HF # bs) H1 = H8 # hadd as bs H1"
  "hadd (H9 # as) (H0 # bs) H1 = HA # hadd as bs H0"
  "hadd (H9 # as) (H1 # bs) H1 = HB # hadd as bs H0"
  "hadd (H9 # as) (H2 # bs) H1 = HC # hadd as bs H0"
  "hadd (H9 # as) (H3 # bs) H1 = HD # hadd as bs H0"
  "hadd (H9 # as) (H4 # bs) H1 = HE # hadd as bs H0"
  "hadd (H9 # as) (H5 # bs) H1 = HF # hadd as bs H0"
  "hadd (H9 # as) (H6 # bs) H1 = H0 # hadd as bs H1"
  "hadd (H9 # as) (H7 # bs) H1 = H1 # hadd as bs H1"
  "hadd (H9 # as) (H8 # bs) H1 = H2 # hadd as bs H1"
  "hadd (H9 # as) (H9 # bs) H1 = H3 # hadd as bs H1"
  "hadd (H9 # as) (HA # bs) H1 = H4 # hadd as bs H1"
  "hadd (H9 # as) (HB # bs) H1 = H5 # hadd as bs H1"
  "hadd (H9 # as) (HC # bs) H1 = H6 # hadd as bs H1"
  "hadd (H9 # as) (HD # bs) H1 = H7 # hadd as bs H1"
  "hadd (H9 # as) (HE # bs) H1 = H8 # hadd as bs H1"
  "hadd (H9 # as) (HF # bs) H1 = H9 # hadd as bs H1"
  "hadd (HA # as) (H0 # bs) H1 = HB # hadd as bs H0"
  "hadd (HA # as) (H1 # bs) H1 = HC # hadd as bs H0"
  "hadd (HA # as) (H2 # bs) H1 = HD # hadd as bs H0"
  "hadd (HA # as) (H3 # bs) H1 = HE # hadd as bs H0"
  "hadd (HA # as) (H4 # bs) H1 = HF # hadd as bs H0"
  "hadd (HA # as) (H5 # bs) H1 = H0 # hadd as bs H1"
  "hadd (HA # as) (H6 # bs) H1 = H1 # hadd as bs H1"
  "hadd (HA # as) (H7 # bs) H1 = H2 # hadd as bs H1"
  "hadd (HA # as) (H8 # bs) H1 = H3 # hadd as bs H1"
  "hadd (HA # as) (H9 # bs) H1 = H4 # hadd as bs H1"
  "hadd (HA # as) (HA # bs) H1 = H5 # hadd as bs H1"
  "hadd (HA # as) (HB # bs) H1 = H6 # hadd as bs H1"
  "hadd (HA # as) (HC # bs) H1 = H7 # hadd as bs H1"
  "hadd (HA # as) (HD # bs) H1 = H8 # hadd as bs H1"
  "hadd (HA # as) (HE # bs) H1 = H9 # hadd as bs H1"
  "hadd (HA # as) (HF # bs) H1 = HA # hadd as bs H1"
  "hadd (HB # as) (H0 # bs) H1 = HC # hadd as bs H0"
  "hadd (HB # as) (H1 # bs) H1 = HD # hadd as bs H0"
  "hadd (HB # as) (H2 # bs) H1 = HE # hadd as bs H0"
  "hadd (HB # as) (H3 # bs) H1 = HF # hadd as bs H0"
  "hadd (HB # as) (H4 # bs) H1 = H0 # hadd as bs H1"
  "hadd (HB # as) (H5 # bs) H1 = H1 # hadd as bs H1"
  "hadd (HB # as) (H6 # bs) H1 = H2 # hadd as bs H1"
  "hadd (HB # as) (H7 # bs) H1 = H3 # hadd as bs H1"
  "hadd (HB # as) (H8 # bs) H1 = H4 # hadd as bs H1"
  "hadd (HB # as) (H9 # bs) H1 = H5 # hadd as bs H1"
  "hadd (HB # as) (HA # bs) H1 = H6 # hadd as bs H1"
  "hadd (HB # as) (HB # bs) H1 = H7 # hadd as bs H1"
  "hadd (HB # as) (HC # bs) H1 = H8 # hadd as bs H1"
  "hadd (HB # as) (HD # bs) H1 = H9 # hadd as bs H1"
  "hadd (HB # as) (HE # bs) H1 = HA # hadd as bs H1"
  "hadd (HB # as) (HF # bs) H1 = HB # hadd as bs H1"
  "hadd (HC # as) (H0 # bs) H1 = HD # hadd as bs H0"
  "hadd (HC # as) (H1 # bs) H1 = HE # hadd as bs H0"
  "hadd (HC # as) (H2 # bs) H1 = HF # hadd as bs H0"
  "hadd (HC # as) (H3 # bs) H1 = H0 # hadd as bs H1"
  "hadd (HC # as) (H4 # bs) H1 = H1 # hadd as bs H1"
  "hadd (HC # as) (H5 # bs) H1 = H2 # hadd as bs H1"
  "hadd (HC # as) (H6 # bs) H1 = H3 # hadd as bs H1"
  "hadd (HC # as) (H7 # bs) H1 = H4 # hadd as bs H1"
  "hadd (HC # as) (H8 # bs) H1 = H5 # hadd as bs H1"
  "hadd (HC # as) (H9 # bs) H1 = H6 # hadd as bs H1"
  "hadd (HC # as) (HA # bs) H1 = H7 # hadd as bs H1"
  "hadd (HC # as) (HB # bs) H1 = H8 # hadd as bs H1"
  "hadd (HC # as) (HC # bs) H1 = H9 # hadd as bs H1"
  "hadd (HC # as) (HD # bs) H1 = HA # hadd as bs H1"
  "hadd (HC # as) (HE # bs) H1 = HB # hadd as bs H1"
  "hadd (HC # as) (HF # bs) H1 = HC # hadd as bs H1"
  "hadd (HD # as) (H0 # bs) H1 = HE # hadd as bs H0"
  "hadd (HD # as) (H1 # bs) H1 = HF # hadd as bs H0"
  "hadd (HD # as) (H2 # bs) H1 = H0 # hadd as bs H1"
  "hadd (HD # as) (H3 # bs) H1 = H1 # hadd as bs H1"
  "hadd (HD # as) (H4 # bs) H1 = H2 # hadd as bs H1"
  "hadd (HD # as) (H5 # bs) H1 = H3 # hadd as bs H1"
  "hadd (HD # as) (H6 # bs) H1 = H4 # hadd as bs H1"
  "hadd (HD # as) (H7 # bs) H1 = H5 # hadd as bs H1"
  "hadd (HD # as) (H8 # bs) H1 = H6 # hadd as bs H1"
  "hadd (HD # as) (H9 # bs) H1 = H7 # hadd as bs H1"
  "hadd (HD # as) (HA # bs) H1 = H8 # hadd as bs H1"
  "hadd (HD # as) (HB # bs) H1 = H9 # hadd as bs H1"
  "hadd (HD # as) (HC # bs) H1 = HA # hadd as bs H1"
  "hadd (HD # as) (HD # bs) H1 = HB # hadd as bs H1"
  "hadd (HD # as) (HE # bs) H1 = HC # hadd as bs H1"
  "hadd (HD # as) (HF # bs) H1 = HD # hadd as bs H1"
  "hadd (HE # as) (H0 # bs) H1 = HF # hadd as bs H0"
  "hadd (HE # as) (H1 # bs) H1 = H0 # hadd as bs H1"
  "hadd (HE # as) (H2 # bs) H1 = H1 # hadd as bs H1"
  "hadd (HE # as) (H3 # bs) H1 = H2 # hadd as bs H1"
  "hadd (HE # as) (H4 # bs) H1 = H3 # hadd as bs H1"
  "hadd (HE # as) (H5 # bs) H1 = H4 # hadd as bs H1"
  "hadd (HE # as) (H6 # bs) H1 = H5 # hadd as bs H1"
  "hadd (HE # as) (H7 # bs) H1 = H6 # hadd as bs H1"
  "hadd (HE # as) (H8 # bs) H1 = H7 # hadd as bs H1"
  "hadd (HE # as) (H9 # bs) H1 = H8 # hadd as bs H1"
  "hadd (HE # as) (HA # bs) H1 = H9 # hadd as bs H1"
  "hadd (HE # as) (HB # bs) H1 = HA # hadd as bs H1"
  "hadd (HE # as) (HC # bs) H1 = HB # hadd as bs H1"
  "hadd (HE # as) (HD # bs) H1 = HC # hadd as bs H1"
  "hadd (HE # as) (HE # bs) H1 = HD # hadd as bs H1"
  "hadd (HE # as) (HF # bs) H1 = HE # hadd as bs H1"
  "hadd (HF # as) (H0 # bs) H1 = H0 # hadd as bs H1"
  "hadd (HF # as) (H1 # bs) H1 = H1 # hadd as bs H1"
  "hadd (HF # as) (H2 # bs) H1 = H2 # hadd as bs H1"
  "hadd (HF # as) (H3 # bs) H1 = H3 # hadd as bs H1"
  "hadd (HF # as) (H4 # bs) H1 = H4 # hadd as bs H1"
  "hadd (HF # as) (H5 # bs) H1 = H5 # hadd as bs H1"
  "hadd (HF # as) (H6 # bs) H1 = H6 # hadd as bs H1"
  "hadd (HF # as) (H7 # bs) H1 = H7 # hadd as bs H1"
  "hadd (HF # as) (H8 # bs) H1 = H8 # hadd as bs H1"
  "hadd (HF # as) (H9 # bs) H1 = H9 # hadd as bs H1"
  "hadd (HF # as) (HA # bs) H1 = HA # hadd as bs H1"
  "hadd (HF # as) (HB # bs) H1 = HB # hadd as bs H1"
  "hadd (HF # as) (HC # bs) H1 = HC # hadd as bs H1"
  "hadd (HF # as) (HD # bs) H1 = HD # hadd as bs H1"
  "hadd (HF # as) (HE # bs) H1 = HE # hadd as bs H1"
  "hadd (HF # as) (HF # bs) H1 = HF # hadd as bs H1"
  by (simp_all add: digit_simps)

lemma hadd_rest:
  "hadd [] [] H0 = []"
  "hadd [] [] H1 = [H1]"
  "hadd (H0 # as) [] H1 = H1 # hadd as [] H0"
  "hadd [] (H0 # as) H1 = H1 # hadd [] as H0"
  "hadd (H1 # as) [] H1 = H2 # hadd as [] H0"
  "hadd [] (H1 # as) H1 = H2 # hadd [] as H0"
  "hadd (H2 # as) [] H1 = H3 # hadd as [] H0"
  "hadd [] (H2 # as) H1 = H3 # hadd [] as H0"
  "hadd (H3 # as) [] H1 = H4 # hadd as [] H0"
  "hadd [] (H3 # as) H1 = H4 # hadd [] as H0"
  "hadd (H4 # as) [] H1 = H5 # hadd as [] H0"
  "hadd [] (H4 # as) H1 = H5 # hadd [] as H0"
  "hadd (H5 # as) [] H1 = H6 # hadd as [] H0"
  "hadd [] (H5 # as) H1 = H6 # hadd [] as H0"
  "hadd (H6 # as) [] H1 = H7 # hadd as [] H0"
  "hadd [] (H6 # as) H1 = H7 # hadd [] as H0"
  "hadd (H7 # as) [] H1 = H8 # hadd as [] H0"
  "hadd [] (H7 # as) H1 = H8 # hadd [] as H0"
  "hadd (H8 # as) [] H1 = H9 # hadd as [] H0"
  "hadd [] (H8 # as) H1 = H9 # hadd [] as H0"
  "hadd (H9 # as) [] H1 = HA # hadd as [] H0"
  "hadd [] (H9 # as) H1 = HA # hadd [] as H0"
  "hadd (HA # as) [] H1 = HB # hadd as [] H0"
  "hadd [] (HA # as) H1 = HB # hadd [] as H0"
  "hadd (HB # as) [] H1 = HC # hadd as [] H0"
  "hadd [] (HB # as) H1 = HC # hadd [] as H0"
  "hadd (HC # as) [] H1 = HD # hadd as [] H0"
  "hadd [] (HC # as) H1 = HD # hadd [] as H0"
  "hadd (HD # as) [] H1 = HE # hadd as [] H0"
  "hadd [] (HD # as) H1 = HE # hadd [] as H0"
  "hadd (HE # as) [] H1 = HF # hadd as [] H0"
  "hadd [] (HE # as) H1 = HF # hadd [] as H0"
  "hadd (HF # as) [] H1 = H0 # hadd as [] H1"
  "hadd [] (HF # as) H1 = H0 # hadd [] as H1"
  by (simp_all add: digit_simps)

section \<open>Numerals as digits\<close>

function hx :: "int \<Rightarrow> hex list" where
  "hx n = (if n \<le> 0 then [] else digit (n mod 16) # hx (n div 16))"
  by pat_completeness auto
termination by (relation "measure nat") auto

declare hx.simps [simp del]

lemma hval_hx: "0 \<le> n \<Longrightarrow> hval (hx n) = n"
proof (induction n rule: hx.induct)
  case (1 n)
  then show ?case by (subst hx.simps) (simp add: hv_digit)
qed

lemma hx_step: "0 \<le> d \<Longrightarrow> d < 16 \<Longrightarrow> 0 < n \<Longrightarrow> hx (16 * n + d) = digit d # hx n"
  by (subst hx.simps) (simp add: add.commute)

lemma hx_digits:
  "hx (numeral (num.Bit0 (num.Bit0 (num.Bit0 (num.Bit0 m))))) = H0 # hx (numeral m)"
  "hx (numeral (num.Bit1 (num.Bit0 (num.Bit0 (num.Bit0 m))))) = H1 # hx (numeral m)"
  "hx (numeral (num.Bit0 (num.Bit1 (num.Bit0 (num.Bit0 m))))) = H2 # hx (numeral m)"
  "hx (numeral (num.Bit1 (num.Bit1 (num.Bit0 (num.Bit0 m))))) = H3 # hx (numeral m)"
  "hx (numeral (num.Bit0 (num.Bit0 (num.Bit1 (num.Bit0 m))))) = H4 # hx (numeral m)"
  "hx (numeral (num.Bit1 (num.Bit0 (num.Bit1 (num.Bit0 m))))) = H5 # hx (numeral m)"
  "hx (numeral (num.Bit0 (num.Bit1 (num.Bit1 (num.Bit0 m))))) = H6 # hx (numeral m)"
  "hx (numeral (num.Bit1 (num.Bit1 (num.Bit1 (num.Bit0 m))))) = H7 # hx (numeral m)"
  "hx (numeral (num.Bit0 (num.Bit0 (num.Bit0 (num.Bit1 m))))) = H8 # hx (numeral m)"
  "hx (numeral (num.Bit1 (num.Bit0 (num.Bit0 (num.Bit1 m))))) = H9 # hx (numeral m)"
  "hx (numeral (num.Bit0 (num.Bit1 (num.Bit0 (num.Bit1 m))))) = HA # hx (numeral m)"
  "hx (numeral (num.Bit1 (num.Bit1 (num.Bit0 (num.Bit1 m))))) = HB # hx (numeral m)"
  "hx (numeral (num.Bit0 (num.Bit0 (num.Bit1 (num.Bit1 m))))) = HC # hx (numeral m)"
  "hx (numeral (num.Bit1 (num.Bit0 (num.Bit1 (num.Bit1 m))))) = HD # hx (numeral m)"
  "hx (numeral (num.Bit0 (num.Bit1 (num.Bit1 (num.Bit1 m))))) = HE # hx (numeral m)"
  "hx (numeral (num.Bit1 (num.Bit1 (num.Bit1 (num.Bit1 m))))) = HF # hx (numeral m)"
proof -
  define N where "N = (numeral m :: int)"
  have p: "0 < N" by (simp add: N_def)
  have "(numeral (num.Bit0 (num.Bit0 (num.Bit0 (num.Bit0 m)))) :: int) = ((((N + N) + (N + N)) + ((N + N) + (N + N))) + (((N + N) + (N + N)) + ((N + N) + (N + N))))"
    unfolding N_def numeral_Bit0 numeral_Bit1 by (rule refl)
  also have "\<dots> = 16 * N + 0" by simp
  finally show "hx (numeral (num.Bit0 (num.Bit0 (num.Bit0 (num.Bit0 m))))) = H0 # hx (numeral m)"
    using hx_step [of 0 N, OF _ _ p] by (simp add: digit_simps N_def)
  have "(numeral (num.Bit1 (num.Bit0 (num.Bit0 (num.Bit0 m)))) :: int) = ((((N + N) + (N + N)) + ((N + N) + (N + N))) + (((N + N) + (N + N)) + ((N + N) + (N + N))) + 1)"
    unfolding N_def numeral_Bit0 numeral_Bit1 by (rule refl)
  also have "\<dots> = 16 * N + 1" by simp
  finally show "hx (numeral (num.Bit1 (num.Bit0 (num.Bit0 (num.Bit0 m))))) = H1 # hx (numeral m)"
    using hx_step [of 1 N, OF _ _ p] by (simp add: digit_simps N_def)
  have "(numeral (num.Bit0 (num.Bit1 (num.Bit0 (num.Bit0 m)))) :: int) = ((((N + N) + (N + N)) + ((N + N) + (N + N)) + 1) + (((N + N) + (N + N)) + ((N + N) + (N + N)) + 1))"
    unfolding N_def numeral_Bit0 numeral_Bit1 by (rule refl)
  also have "\<dots> = 16 * N + 2" by simp
  finally show "hx (numeral (num.Bit0 (num.Bit1 (num.Bit0 (num.Bit0 m))))) = H2 # hx (numeral m)"
    using hx_step [of 2 N, OF _ _ p] by (simp add: digit_simps N_def)
  have "(numeral (num.Bit1 (num.Bit1 (num.Bit0 (num.Bit0 m)))) :: int) = ((((N + N) + (N + N)) + ((N + N) + (N + N)) + 1) + (((N + N) + (N + N)) + ((N + N) + (N + N)) + 1) + 1)"
    unfolding N_def numeral_Bit0 numeral_Bit1 by (rule refl)
  also have "\<dots> = 16 * N + 3" by simp
  finally show "hx (numeral (num.Bit1 (num.Bit1 (num.Bit0 (num.Bit0 m))))) = H3 # hx (numeral m)"
    using hx_step [of 3 N, OF _ _ p] by (simp add: digit_simps N_def)
  have "(numeral (num.Bit0 (num.Bit0 (num.Bit1 (num.Bit0 m)))) :: int) = ((((N + N) + (N + N) + 1) + ((N + N) + (N + N) + 1)) + (((N + N) + (N + N) + 1) + ((N + N) + (N + N) + 1)))"
    unfolding N_def numeral_Bit0 numeral_Bit1 by (rule refl)
  also have "\<dots> = 16 * N + 4" by simp
  finally show "hx (numeral (num.Bit0 (num.Bit0 (num.Bit1 (num.Bit0 m))))) = H4 # hx (numeral m)"
    using hx_step [of 4 N, OF _ _ p] by (simp add: digit_simps N_def)
  have "(numeral (num.Bit1 (num.Bit0 (num.Bit1 (num.Bit0 m)))) :: int) = ((((N + N) + (N + N) + 1) + ((N + N) + (N + N) + 1)) + (((N + N) + (N + N) + 1) + ((N + N) + (N + N) + 1)) + 1)"
    unfolding N_def numeral_Bit0 numeral_Bit1 by (rule refl)
  also have "\<dots> = 16 * N + 5" by simp
  finally show "hx (numeral (num.Bit1 (num.Bit0 (num.Bit1 (num.Bit0 m))))) = H5 # hx (numeral m)"
    using hx_step [of 5 N, OF _ _ p] by (simp add: digit_simps N_def)
  have "(numeral (num.Bit0 (num.Bit1 (num.Bit1 (num.Bit0 m)))) :: int) = ((((N + N) + (N + N) + 1) + ((N + N) + (N + N) + 1) + 1) + (((N + N) + (N + N) + 1) + ((N + N) + (N + N) + 1) + 1))"
    unfolding N_def numeral_Bit0 numeral_Bit1 by (rule refl)
  also have "\<dots> = 16 * N + 6" by simp
  finally show "hx (numeral (num.Bit0 (num.Bit1 (num.Bit1 (num.Bit0 m))))) = H6 # hx (numeral m)"
    using hx_step [of 6 N, OF _ _ p] by (simp add: digit_simps N_def)
  have "(numeral (num.Bit1 (num.Bit1 (num.Bit1 (num.Bit0 m)))) :: int) = ((((N + N) + (N + N) + 1) + ((N + N) + (N + N) + 1) + 1) + (((N + N) + (N + N) + 1) + ((N + N) + (N + N) + 1) + 1) + 1)"
    unfolding N_def numeral_Bit0 numeral_Bit1 by (rule refl)
  also have "\<dots> = 16 * N + 7" by simp
  finally show "hx (numeral (num.Bit1 (num.Bit1 (num.Bit1 (num.Bit0 m))))) = H7 # hx (numeral m)"
    using hx_step [of 7 N, OF _ _ p] by (simp add: digit_simps N_def)
  have "(numeral (num.Bit0 (num.Bit0 (num.Bit0 (num.Bit1 m)))) :: int) = ((((N + N + 1) + (N + N + 1)) + ((N + N + 1) + (N + N + 1))) + (((N + N + 1) + (N + N + 1)) + ((N + N + 1) + (N + N + 1))))"
    unfolding N_def numeral_Bit0 numeral_Bit1 by (rule refl)
  also have "\<dots> = 16 * N + 8" by simp
  finally show "hx (numeral (num.Bit0 (num.Bit0 (num.Bit0 (num.Bit1 m))))) = H8 # hx (numeral m)"
    using hx_step [of 8 N, OF _ _ p] by (simp add: digit_simps N_def)
  have "(numeral (num.Bit1 (num.Bit0 (num.Bit0 (num.Bit1 m)))) :: int) = ((((N + N + 1) + (N + N + 1)) + ((N + N + 1) + (N + N + 1))) + (((N + N + 1) + (N + N + 1)) + ((N + N + 1) + (N + N + 1))) + 1)"
    unfolding N_def numeral_Bit0 numeral_Bit1 by (rule refl)
  also have "\<dots> = 16 * N + 9" by simp
  finally show "hx (numeral (num.Bit1 (num.Bit0 (num.Bit0 (num.Bit1 m))))) = H9 # hx (numeral m)"
    using hx_step [of 9 N, OF _ _ p] by (simp add: digit_simps N_def)
  have "(numeral (num.Bit0 (num.Bit1 (num.Bit0 (num.Bit1 m)))) :: int) = ((((N + N + 1) + (N + N + 1)) + ((N + N + 1) + (N + N + 1)) + 1) + (((N + N + 1) + (N + N + 1)) + ((N + N + 1) + (N + N + 1)) + 1))"
    unfolding N_def numeral_Bit0 numeral_Bit1 by (rule refl)
  also have "\<dots> = 16 * N + 10" by simp
  finally show "hx (numeral (num.Bit0 (num.Bit1 (num.Bit0 (num.Bit1 m))))) = HA # hx (numeral m)"
    using hx_step [of 10 N, OF _ _ p] by (simp add: digit_simps N_def)
  have "(numeral (num.Bit1 (num.Bit1 (num.Bit0 (num.Bit1 m)))) :: int) = ((((N + N + 1) + (N + N + 1)) + ((N + N + 1) + (N + N + 1)) + 1) + (((N + N + 1) + (N + N + 1)) + ((N + N + 1) + (N + N + 1)) + 1) + 1)"
    unfolding N_def numeral_Bit0 numeral_Bit1 by (rule refl)
  also have "\<dots> = 16 * N + 11" by simp
  finally show "hx (numeral (num.Bit1 (num.Bit1 (num.Bit0 (num.Bit1 m))))) = HB # hx (numeral m)"
    using hx_step [of 11 N, OF _ _ p] by (simp add: digit_simps N_def)
  have "(numeral (num.Bit0 (num.Bit0 (num.Bit1 (num.Bit1 m)))) :: int) = ((((N + N + 1) + (N + N + 1) + 1) + ((N + N + 1) + (N + N + 1) + 1)) + (((N + N + 1) + (N + N + 1) + 1) + ((N + N + 1) + (N + N + 1) + 1)))"
    unfolding N_def numeral_Bit0 numeral_Bit1 by (rule refl)
  also have "\<dots> = 16 * N + 12" by simp
  finally show "hx (numeral (num.Bit0 (num.Bit0 (num.Bit1 (num.Bit1 m))))) = HC # hx (numeral m)"
    using hx_step [of 12 N, OF _ _ p] by (simp add: digit_simps N_def)
  have "(numeral (num.Bit1 (num.Bit0 (num.Bit1 (num.Bit1 m)))) :: int) = ((((N + N + 1) + (N + N + 1) + 1) + ((N + N + 1) + (N + N + 1) + 1)) + (((N + N + 1) + (N + N + 1) + 1) + ((N + N + 1) + (N + N + 1) + 1)) + 1)"
    unfolding N_def numeral_Bit0 numeral_Bit1 by (rule refl)
  also have "\<dots> = 16 * N + 13" by simp
  finally show "hx (numeral (num.Bit1 (num.Bit0 (num.Bit1 (num.Bit1 m))))) = HD # hx (numeral m)"
    using hx_step [of 13 N, OF _ _ p] by (simp add: digit_simps N_def)
  have "(numeral (num.Bit0 (num.Bit1 (num.Bit1 (num.Bit1 m)))) :: int) = ((((N + N + 1) + (N + N + 1) + 1) + ((N + N + 1) + (N + N + 1) + 1) + 1) + (((N + N + 1) + (N + N + 1) + 1) + ((N + N + 1) + (N + N + 1) + 1) + 1))"
    unfolding N_def numeral_Bit0 numeral_Bit1 by (rule refl)
  also have "\<dots> = 16 * N + 14" by simp
  finally show "hx (numeral (num.Bit0 (num.Bit1 (num.Bit1 (num.Bit1 m))))) = HE # hx (numeral m)"
    using hx_step [of 14 N, OF _ _ p] by (simp add: digit_simps N_def)
  have "(numeral (num.Bit1 (num.Bit1 (num.Bit1 (num.Bit1 m)))) :: int) = ((((N + N + 1) + (N + N + 1) + 1) + ((N + N + 1) + (N + N + 1) + 1) + 1) + (((N + N + 1) + (N + N + 1) + 1) + ((N + N + 1) + (N + N + 1) + 1) + 1) + 1)"
    unfolding N_def numeral_Bit0 numeral_Bit1 by (rule refl)
  also have "\<dots> = 16 * N + 15" by simp
  finally show "hx (numeral (num.Bit1 (num.Bit1 (num.Bit1 (num.Bit1 m))))) = HF # hx (numeral m)"
    using hx_step [of 15 N, OF _ _ p] by (simp add: digit_simps N_def)
qed

lemma hx_last:
  "hx 0 = []" "hx 1 = [H1]" "hx (numeral num.One) = [H1]"
  "hx (numeral (num.Bit0 num.One)) = [H2]"
  "hx (numeral (num.Bit1 num.One)) = [H3]"
  "hx (numeral (num.Bit0 (num.Bit0 num.One))) = [H4]"
  "hx (numeral (num.Bit1 (num.Bit0 num.One))) = [H5]"
  "hx (numeral (num.Bit0 (num.Bit1 num.One))) = [H6]"
  "hx (numeral (num.Bit1 (num.Bit1 num.One))) = [H7]"
  "hx (numeral (num.Bit0 (num.Bit0 (num.Bit0 num.One)))) = [H8]"
  "hx (numeral (num.Bit1 (num.Bit0 (num.Bit0 num.One)))) = [H9]"
  "hx (numeral (num.Bit0 (num.Bit1 (num.Bit0 num.One)))) = [HA]"
  "hx (numeral (num.Bit1 (num.Bit1 (num.Bit0 num.One)))) = [HB]"
  "hx (numeral (num.Bit0 (num.Bit0 (num.Bit1 num.One)))) = [HC]"
  "hx (numeral (num.Bit1 (num.Bit0 (num.Bit1 num.One)))) = [HD]"
  "hx (numeral (num.Bit0 (num.Bit1 (num.Bit1 num.One)))) = [HE]"
  "hx (numeral (num.Bit1 (num.Bit1 (num.Bit1 num.One)))) = [HF]"
  by (simp_all add: hx.simps digit_simps)

section \<open>Products\<close>

definition hsel :: "hex \<Rightarrow> hex list list \<Rightarrow> hex list" where
  "hsel d T = ([] # T) ! nat (hv d)"

definition hmults :: "hex list \<Rightarrow> hex list list" where
  "hmults a =
    (let m2 = hadd a a H0; m3 = hadd m2 a H0; m4 = hadd m2 m2 H0; m5 = hadd m4 a H0; m6 = hadd m4 m2 H0;
         m7 = hadd m4 m3 H0; m8 = hadd m4 m4 H0; m9 = hadd m8 a H0; m10 = hadd m8 m2 H0; m11 = hadd m8 m3 H0;
         m12 = hadd m8 m4 H0; m13 = hadd m8 m5 H0; m14 = hadd m8 m6 H0; m15 = hadd m8 m7 H0
     in [a, m2, m3, m4, m5, m6, m7, m8, m9, m10, m11, m12, m13, m14, m15])"

definition zeros64 :: "hex list" where "zeros64 = replicate 64 H0"

primrec hmt :: "hex list list \<Rightarrow> hex list \<Rightarrow> hex list" where
  "hmt T [] = []"
| "hmt T (d # ds) = hadd (hsel d T) (H0 # hmt T ds) H0"

lemma hsel_hmults: "hval (hsel d (hmults a)) = hv d * hval a"
  by (cases d) (simp_all add: hsel_def hmults_def Let_def numeral_eq_Suc algebra_simps)

lemma hval_hmt: "hval (hmt (hmults a) b) = hval a * hval b"
  by (induction b) (simp_all add: hsel_hmults algebra_simps)

section \<open>Reduction\<close>

definition hlo :: "hex list \<Rightarrow> hex list" where "hlo x = take 64 x"
definition hhi :: "hex list \<Rightarrow> hex list" where "hhi x = drop 64 x"

definition h38 :: "hex list \<Rightarrow> hex list" where
  "h38 y = (let y2 = hadd y y H0; y6 = hadd (hadd y2 y2 H0) y2 H0 in hadd y6 (H0 # y2) H0)"

definition hfold :: "hex list \<Rightarrow> hex list" where
  "hfold x = hadd (hlo x) (h38 (hhi x)) H0"

definition hmulmod :: "hex list \<Rightarrow> hex list \<Rightarrow> hex list" where
  "hmulmod a b = hfold (hfold (hadd (hmt (hmults a) b) zeros64 H0))"

lemma hval_h38: "hval (h38 y) = 38 * hval y"
  by (simp add: h38_def Let_def)

lemma hval_hfold: "\<exists>k. hval x = hval (hfold x) + k * (2 ^ 255 - 19)"
proof -
  have "hval x = hval (hlo x) + 16 ^ length (hlo x) * hval (hhi x)"
    by (metis append_take_drop_id hhi_def hlo_def hval_append)
  moreover have "hhi x = [] \<or> length (hlo x) = 64" by (auto simp: hhi_def hlo_def)
  ultimately have "hval x = hval (hlo x) + 2 ^ 256 * hval (hhi x)" by auto
  then have "hval x = hval (hfold x) + (2 * hval (hhi x)) * (2 ^ 255 - 19)"
    by (simp add: hfold_def hval_h38 algebra_simps)
  then show ?thesis by blast
qed

lemma hval_hmulmod: "\<exists>k. hval a * hval b = hval (hmulmod a b) + k * (2 ^ 255 - 19)"
proof -
  let ?z = "hadd (hmt (hmults a) b) zeros64 H0"
  have z: "hval ?z = hval a * hval b"
    by (simp add: hval_hmt zeros64_def hval_zeros)
  obtain k1 where 1: "hval ?z = hval (hfold ?z) + k1 * (2 ^ 255 - 19)"
    using hval_hfold by blast
  obtain k2 where 2: "hval (hfold ?z) = hval (hmulmod a b) + k2 * (2 ^ 255 - 19)"
    using hval_hfold unfolding hmulmod_def by blast
  have "hval a * hval b = hval (hmulmod a b) + (k1 + k2) * (2 ^ 255 - 19)"
    using 1 2 unfolding z by (simp add: distrib_right)
  then show ?thesis by blast
qed

text \<open>Digit complement, for subtraction: \<open>2^256 - 1 - y\<close> for 64 digits.\<close>

definition hneg :: "hex list \<Rightarrow> hex list" where
  "hneg y = map (\<lambda>d. digit (15 - hv d)) y"

lemma hval_hneg: "hval (hneg y) = 16 ^ length y - 1 - hval y"
proof (induction y)
  case (Cons d y)
  then show ?case using hv_range [of d] by (simp add: hneg_def hv_digit algebra_simps)
qed (simp add: hneg_def)

section \<open>Chains of squarings with quotients\<close>

fun heq :: "hex list \<Rightarrow> hex list \<Rightarrow> bool" where
  "heq [] [] = True"
| "heq [] (b # bs) = (b = H0 \<and> heq [] bs)"
| "heq (a # as) [] = (a = H0 \<and> heq as [])"
| "heq (a # as) (b # bs) = (a = b \<and> heq as bs)"

lemma heq_val: "heq as bs \<Longrightarrow> hval as = hval bs"
  by (induction as bs rule: heq.induct) auto

text \<open>
  Each step \<open>(d, q, r)\<close> squares, doubles when \<open>d\<close>, and reduces modulo \<open>n\<close> with the quotient \<open>q\<close> to
  \<open>r\<close>; \<open>bits k s\<close> is the exponent of 2 the chain reaches from exponent \<open>k\<close>.
\<close>

fun hsteps :: "hex list list \<Rightarrow> hex list \<Rightarrow> (bool \<times> int \<times> int) list \<Rightarrow> hex list \<Rightarrow> bool" where
  "hsteps N x [] e \<longleftrightarrow> heq x e"
| "hsteps N x ((d, q, r) # s) e \<longleftrightarrow>
    (let z = hmt (hmults x) x in
     heq (if d then hadd z z H0 else z) (hadd (hmt N (hx q)) (hx r) H0)) \<and>
    hsteps N (hx r) s e"

primrec chain_exp :: "nat \<Rightarrow> (bool \<times> int \<times> int) list \<Rightarrow> nat" where
  "chain_exp k [] = k"
| "chain_exp k (t # s) = chain_exp (if fst t then 2 * k + 1 else 2 * k) s"

lemma hsteps_sound:
  assumes "hsteps (hmults (hx n)) x s e" "hval x mod n = 2 ^ k mod n" "0 < n" "list_all (\<lambda>(d, q, r). 0 \<le> q \<and> 0 \<le> r) s"
  shows "hval e mod n = 2 ^ chain_exp k s mod n"
  using assms(1,2,4)
proof (induction s arbitrary: x k)
  case Nil
  then show ?case by (simp add: heq_val)
next
  case (Cons t s)
  obtain d q r where t: "t = (d, q, r)" by (cases t)
  have qr: "0 \<le> q" "0 \<le> r" using Cons.prems(3) t by simp_all
  let ?k = "if d then 2 * k + 1 else 2 * k"
  have sq: "c * ((A mod n) * (A mod n)) mod n = c * (A * A) mod n" for c A :: int
    by (metis mod_mult_eq mod_mult_right_eq)
  have "(if d then 2 else 1) * (hval x * hval x) = n * q + r"
    using Cons.prems(1) heq_val [of "if d then _ else _"] qr \<open>0 < n\<close>
    by (auto simp: t hval_hmt hval_hx Let_def dest!: heq_val split: if_splits)
  then have "r mod n = (if d then 2 else 1) * (hval x * hval x) mod n" by simp
  also have "\<dots> = (if d then 2 else 1) * ((hval x mod n) * (hval x mod n)) mod n"
    by (rule sq [symmetric])
  also have "\<dots> = (if d then 2 else 1) * (2 ^ k * 2 ^ k) mod n"
    unfolding Cons.prems(2) by (rule sq)
  also have "(if d then 2 else 1) * (2 ^ k * 2 ^ k) = (2::int) ^ ?k"
    by (simp add: power_even_eq power2_eq_square)
  finally have "hval (hx r) mod n = 2 ^ ?k mod n" using qr by (simp add: hval_hx)
  then show ?case using Cons.IH [of "hx r" ?k] Cons.prems(1,3) t by simp
qed

text \<open>The same modulo \<open>2^255 - 19\<close>, without quotients.\<close>

fun hdbl :: "bool \<Rightarrow> hex list \<Rightarrow> hex list" where
  "hdbl True z = hadd z z H0"
| "hdbl False z = z"

primrec hsq :: "hex list \<Rightarrow> bool list \<Rightarrow> hex list" where
  "hsq x [] = x"
| "hsq x (d # ds) = hsq (hdbl d (hmulmod x x)) ds"

primrec bits_exp :: "nat \<Rightarrow> bool list \<Rightarrow> nat" where
  "bits_exp k [] = k"
| "bits_exp k (d # ds) = bits_exp (if d then 2 * k + 1 else 2 * k) ds"

lemma hsq_sound:
  assumes "n = 2 ^ 255 - 19" "hval x mod n = 2 ^ k mod n"
  shows "hval (hsq x ds) mod n = 2 ^ bits_exp k ds mod n"
  using assms(2)
proof (induction ds arbitrary: x k)
  case (Cons d ds)
  let ?k = "if d then 2 * k + 1 else 2 * k" and ?z = "hmulmod x x"
  let ?y = "hdbl d ?z"
  obtain j where "hval x * hval x = hval ?z + j * n"
    using hval_hmulmod [of x x] unfolding assms(1) by blast
  then have "hval ?z = hval x * hval x - j * n" by simp
  moreover have "(hval x * hval x - j * n) mod n = hval x * hval x mod n"
    by (metis minus_mod_self2 mod_mult_self4 mod_diff_right_eq diff_0_right mod_mult_self2_is_0)
  ultimately have "hval ?z mod n = hval x * hval x mod n" by simp
  also have "\<dots> = (2 ^ k * 2 ^ k) mod n"
    using Cons.prems by (metis mod_mult_eq)
  finally have z: "hval ?z mod n = 2 ^ (2 * k) mod n" by (simp add: power_even_eq power2_eq_square)
  have "hval ?y mod n = 2 ^ ?k mod n"
  proof (cases d)
    case True
    have "2 * hval ?z mod n = 2 * 2 ^ (2 * k) mod n" using z by (metis mod_mult_right_eq)
    then show ?thesis using True by simp
  qed (use z in simp)
  then show ?case using Cons.IH [of ?y ?k] by simp
qed simp

section \<open>Evaluation rules\<close>

lemma hsel_table:
  "hsel H0 [m1, m2, m3, m4, m5, m6, m7, m8, m9, m10, m11, m12, m13, m14, m15] = []"
  "hsel H1 [m1, m2, m3, m4, m5, m6, m7, m8, m9, m10, m11, m12, m13, m14, m15] = m1"
  "hsel H2 [m1, m2, m3, m4, m5, m6, m7, m8, m9, m10, m11, m12, m13, m14, m15] = m2"
  "hsel H3 [m1, m2, m3, m4, m5, m6, m7, m8, m9, m10, m11, m12, m13, m14, m15] = m3"
  "hsel H4 [m1, m2, m3, m4, m5, m6, m7, m8, m9, m10, m11, m12, m13, m14, m15] = m4"
  "hsel H5 [m1, m2, m3, m4, m5, m6, m7, m8, m9, m10, m11, m12, m13, m14, m15] = m5"
  "hsel H6 [m1, m2, m3, m4, m5, m6, m7, m8, m9, m10, m11, m12, m13, m14, m15] = m6"
  "hsel H7 [m1, m2, m3, m4, m5, m6, m7, m8, m9, m10, m11, m12, m13, m14, m15] = m7"
  "hsel H8 [m1, m2, m3, m4, m5, m6, m7, m8, m9, m10, m11, m12, m13, m14, m15] = m8"
  "hsel H9 [m1, m2, m3, m4, m5, m6, m7, m8, m9, m10, m11, m12, m13, m14, m15] = m9"
  "hsel HA [m1, m2, m3, m4, m5, m6, m7, m8, m9, m10, m11, m12, m13, m14, m15] = m10"
  "hsel HB [m1, m2, m3, m4, m5, m6, m7, m8, m9, m10, m11, m12, m13, m14, m15] = m11"
  "hsel HC [m1, m2, m3, m4, m5, m6, m7, m8, m9, m10, m11, m12, m13, m14, m15] = m12"
  "hsel HD [m1, m2, m3, m4, m5, m6, m7, m8, m9, m10, m11, m12, m13, m14, m15] = m13"
  "hsel HE [m1, m2, m3, m4, m5, m6, m7, m8, m9, m10, m11, m12, m13, m14, m15] = m14"
  "hsel HF [m1, m2, m3, m4, m5, m6, m7, m8, m9, m10, m11, m12, m13, m14, m15] = m15"
  by (simp_all add: hsel_def numeral_eq_Suc)

lemma hlo_simp:
  "hlo (
    x0 # x1 # x2 # x3 # x4 # x5 # x6 # x7 # x8 # x9 # x10 # x11 # x12 # x13 # x14 # x15 # x16 # x17
    # x18 # x19 # x20 # x21 # x22 # x23 # x24 # x25 # x26 # x27 # x28 # x29 # x30 # x31 # x32 # x33
    # x34 # x35 # x36 # x37 # x38 # x39 # x40 # x41 # x42 # x43 # x44 # x45 # x46 # x47 # x48 # x49
    # x50 # x51 # x52 # x53 # x54 # x55 # x56 # x57 # x58 # x59 # x60 # x61 # x62 # x63 # xs) =
    [x0, x1, x2, x3, x4, x5, x6, x7, x8, x9, x10, x11, x12, x13, x14, x15, x16, x17, x18, x19, x20,
    x21, x22, x23, x24, x25, x26, x27, x28, x29, x30, x31, x32, x33, x34, x35, x36, x37, x38, x39,
    x40, x41, x42, x43, x44, x45, x46, x47, x48, x49, x50, x51, x52, x53, x54, x55, x56, x57, x58,
    x59, x60, x61, x62, x63]"
  by (simp add: hlo_def)

lemma hhi_simp:
  "hhi (
    x0 # x1 # x2 # x3 # x4 # x5 # x6 # x7 # x8 # x9 # x10 # x11 # x12 # x13 # x14 # x15 # x16 # x17
    # x18 # x19 # x20 # x21 # x22 # x23 # x24 # x25 # x26 # x27 # x28 # x29 # x30 # x31 # x32 # x33
    # x34 # x35 # x36 # x37 # x38 # x39 # x40 # x41 # x42 # x43 # x44 # x45 # x46 # x47 # x48 # x49
    # x50 # x51 # x52 # x53 # x54 # x55 # x56 # x57 # x58 # x59 # x60 # x61 # x62 # x63 # xs) = xs"
  by (simp add: hhi_def)

lemma zeros64_simp:
  "zeros64 =
    [H0, H0, H0, H0, H0, H0, H0, H0, H0, H0, H0, H0, H0, H0, H0, H0, H0, H0, H0, H0, H0, H0, H0, H0,
    H0, H0, H0, H0, H0, H0, H0, H0, H0, H0, H0, H0, H0, H0, H0, H0, H0, H0, H0, H0, H0, H0, H0, H0,
    H0, H0, H0, H0, H0, H0, H0, H0, H0, H0, H0, H0, H0, H0, H0, H0]"
  by (simp add: zeros64_def numeral_eq_Suc)

lemma hneg_simps:
  "hneg [] = []"
  "hneg (H0 # y) = HF # hneg y"
  "hneg (H1 # y) = HE # hneg y"
  "hneg (H2 # y) = HD # hneg y"
  "hneg (H3 # y) = HC # hneg y"
  "hneg (H4 # y) = HB # hneg y"
  "hneg (H5 # y) = HA # hneg y"
  "hneg (H6 # y) = H9 # hneg y"
  "hneg (H7 # y) = H8 # hneg y"
  "hneg (H8 # y) = H7 # hneg y"
  "hneg (H9 # y) = H6 # hneg y"
  "hneg (HA # y) = H5 # hneg y"
  "hneg (HB # y) = H4 # hneg y"
  "hneg (HC # y) = H3 # hneg y"
  "hneg (HD # y) = H2 # hneg y"
  "hneg (HE # y) = H1 # hneg y"
  "hneg (HF # y) = H0 # hneg y"
  by (simp_all add: hneg_def digit_simps)

lemma heq_table:
  "heq (H0 # as) (H0 # bs) = heq as bs"
  "heq (H1 # as) (H1 # bs) = heq as bs"
  "heq (H2 # as) (H2 # bs) = heq as bs"
  "heq (H3 # as) (H3 # bs) = heq as bs"
  "heq (H4 # as) (H4 # bs) = heq as bs"
  "heq (H5 # as) (H5 # bs) = heq as bs"
  "heq (H6 # as) (H6 # bs) = heq as bs"
  "heq (H7 # as) (H7 # bs) = heq as bs"
  "heq (H8 # as) (H8 # bs) = heq as bs"
  "heq (H9 # as) (H9 # bs) = heq as bs"
  "heq (HA # as) (HA # bs) = heq as bs"
  "heq (HB # as) (HB # bs) = heq as bs"
  "heq (HC # as) (HC # bs) = heq as bs"
  "heq (HD # as) (HD # bs) = heq as bs"
  "heq (HE # as) (HE # bs) = heq as bs"
  "heq (HF # as) (HF # bs) = heq as bs"
  "heq [] (H0 # bs) = heq [] bs" "heq (H0 # as) [] = heq as []" "heq [] [] = True"
  by simp_all

text \<open>
  The multiples as a chain of functions with the earlier multiples as arguments, so that rewriting
  evaluates each of them once.
\<close>

definition hm15 ::
  "hex list \<Rightarrow> hex list \<Rightarrow> hex list \<Rightarrow> hex list \<Rightarrow> hex list \<Rightarrow> hex list \<Rightarrow> hex list \<Rightarrow> hex list \<Rightarrow> hex list \<Rightarrow> hex list \<Rightarrow> hex list \<Rightarrow> hex list \<Rightarrow> hex list \<Rightarrow> hex list \<Rightarrow> hex list \<Rightarrow> hex list list" where
  "hm15 a m2 m3 m4 m5 m6 m7 m8 m9 m10 m11 m12 m13 m14 m15 =
    [a, m2, m3, m4, m5, m6, m7, m8, m9, m10, m11, m12, m13, m14, m15]"

definition hm14 ::
  "hex list \<Rightarrow> hex list \<Rightarrow> hex list \<Rightarrow> hex list \<Rightarrow> hex list \<Rightarrow> hex list \<Rightarrow> hex list \<Rightarrow> hex list \<Rightarrow> hex list \<Rightarrow> hex list \<Rightarrow> hex list \<Rightarrow> hex list \<Rightarrow> hex list \<Rightarrow> hex list \<Rightarrow> hex list list" where
  "hm14 a m2 m3 m4 m5 m6 m7 m8 m9 m10 m11 m12 m13 m14 =
    hm15 a m2 m3 m4 m5 m6 m7 m8 m9 m10 m11 m12 m13 m14 (hadd m8 m7 H0)"

definition hm13 ::
  "hex list \<Rightarrow> hex list \<Rightarrow> hex list \<Rightarrow> hex list \<Rightarrow> hex list \<Rightarrow> hex list \<Rightarrow> hex list \<Rightarrow> hex list \<Rightarrow> hex list \<Rightarrow> hex list \<Rightarrow> hex list \<Rightarrow> hex list \<Rightarrow> hex list \<Rightarrow> hex list list" where
  "hm13 a m2 m3 m4 m5 m6 m7 m8 m9 m10 m11 m12 m13 =
    hm14 a m2 m3 m4 m5 m6 m7 m8 m9 m10 m11 m12 m13 (hadd m8 m6 H0)"

definition hm12 ::
  "hex list \<Rightarrow> hex list \<Rightarrow> hex list \<Rightarrow> hex list \<Rightarrow> hex list \<Rightarrow> hex list \<Rightarrow> hex list \<Rightarrow> hex list \<Rightarrow> hex list \<Rightarrow> hex list \<Rightarrow> hex list \<Rightarrow> hex list \<Rightarrow> hex list list" where
  "hm12 a m2 m3 m4 m5 m6 m7 m8 m9 m10 m11 m12 =
    hm13 a m2 m3 m4 m5 m6 m7 m8 m9 m10 m11 m12 (hadd m8 m5 H0)"

definition hm11 ::
  "hex list \<Rightarrow> hex list \<Rightarrow> hex list \<Rightarrow> hex list \<Rightarrow> hex list \<Rightarrow> hex list \<Rightarrow> hex list \<Rightarrow> hex list \<Rightarrow> hex list \<Rightarrow> hex list \<Rightarrow> hex list \<Rightarrow> hex list list" where
  "hm11 a m2 m3 m4 m5 m6 m7 m8 m9 m10 m11 =
    hm12 a m2 m3 m4 m5 m6 m7 m8 m9 m10 m11 (hadd m8 m4 H0)"

definition hm10 ::
  "hex list \<Rightarrow> hex list \<Rightarrow> hex list \<Rightarrow> hex list \<Rightarrow> hex list \<Rightarrow> hex list \<Rightarrow> hex list \<Rightarrow> hex list \<Rightarrow> hex list \<Rightarrow> hex list \<Rightarrow> hex list list" where
  "hm10 a m2 m3 m4 m5 m6 m7 m8 m9 m10 =
    hm11 a m2 m3 m4 m5 m6 m7 m8 m9 m10 (hadd m8 m3 H0)"

definition hm9 ::
  "hex list \<Rightarrow> hex list \<Rightarrow> hex list \<Rightarrow> hex list \<Rightarrow> hex list \<Rightarrow> hex list \<Rightarrow> hex list \<Rightarrow> hex list \<Rightarrow> hex list \<Rightarrow> hex list list" where
  "hm9 a m2 m3 m4 m5 m6 m7 m8 m9 =
    hm10 a m2 m3 m4 m5 m6 m7 m8 m9 (hadd m8 m2 H0)"

definition hm8 ::
  "hex list \<Rightarrow> hex list \<Rightarrow> hex list \<Rightarrow> hex list \<Rightarrow> hex list \<Rightarrow> hex list \<Rightarrow> hex list \<Rightarrow> hex list \<Rightarrow> hex list list" where
  "hm8 a m2 m3 m4 m5 m6 m7 m8 =
    hm9 a m2 m3 m4 m5 m6 m7 m8 (hadd m8 a H0)"

definition hm7 ::
  "hex list \<Rightarrow> hex list \<Rightarrow> hex list \<Rightarrow> hex list \<Rightarrow> hex list \<Rightarrow> hex list \<Rightarrow> hex list \<Rightarrow> hex list list" where
  "hm7 a m2 m3 m4 m5 m6 m7 =
    hm8 a m2 m3 m4 m5 m6 m7 (hadd m4 m4 H0)"

definition hm6 ::
  "hex list \<Rightarrow> hex list \<Rightarrow> hex list \<Rightarrow> hex list \<Rightarrow> hex list \<Rightarrow> hex list \<Rightarrow> hex list list" where
  "hm6 a m2 m3 m4 m5 m6 =
    hm7 a m2 m3 m4 m5 m6 (hadd m4 m3 H0)"

definition hm5 ::
  "hex list \<Rightarrow> hex list \<Rightarrow> hex list \<Rightarrow> hex list \<Rightarrow> hex list \<Rightarrow> hex list list" where
  "hm5 a m2 m3 m4 m5 =
    hm6 a m2 m3 m4 m5 (hadd m4 m2 H0)"

definition hm4 ::
  "hex list \<Rightarrow> hex list \<Rightarrow> hex list \<Rightarrow> hex list \<Rightarrow> hex list list" where
  "hm4 a m2 m3 m4 =
    hm5 a m2 m3 m4 (hadd m4 a H0)"

definition hm3 ::
  "hex list \<Rightarrow> hex list \<Rightarrow> hex list \<Rightarrow> hex list list" where
  "hm3 a m2 m3 =
    hm4 a m2 m3 (hadd m2 m2 H0)"

definition hm2 ::
  "hex list \<Rightarrow> hex list \<Rightarrow> hex list list" where
  "hm2 a m2 =
    hm3 a m2 (hadd m2 a H0)"

lemmas hm_defs = hm2_def hm3_def hm4_def hm5_def hm6_def hm7_def hm8_def hm9_def hm10_def hm11_def hm12_def hm13_def hm14_def hm15_def

lemma hmults_chain: "hmults a = hm2 a (hadd a a H0)"
  by (simp add: hmults_def Let_def hm_defs)

definition h38_b :: "hex list \<Rightarrow> hex list \<Rightarrow> hex list" where
  "h38_b y2 y4 = hadd (hadd y4 y2 H0) (H0 # y2) H0"

definition h38_a :: "hex list \<Rightarrow> hex list" where
  "h38_a y2 = h38_b y2 (hadd y2 y2 H0)"

lemma h38_chain: "h38 y = h38_a (hadd y y H0)"
  by (simp add: h38_def h38_a_def h38_b_def Let_def)

lemmas hex_eval = Let_def hmulmod_def hfold_def h38_chain h38_a_def h38_b_def hmults_chain hm_defs hmt.simps zeros64_simp hsel_table
  hlo_simp hhi_simp hadd_Nil hadd_rest hadd_table_0 hadd_table_1 hx_digits hx_last heq_table

end
