(* ===== verification/PrimeCert.thy ===== *)
theory PrimeCert
  imports Main
begin

text \<open>
  Primality by certificates, for the moduli of the signature code: Fermat's little theorem, and
  Pocklington's criterion for a modulus one less than a multiple of a large prime.
\<close>

definition isprime :: "nat \<Rightarrow> bool" where
  "isprime r \<longleftrightarrow> 1 < r \<and> (\<forall>d. d dvd r \<longrightarrow> d = 1 \<or> d = r)"

lemma isprime_gt_1: "isprime r \<Longrightarrow> 1 < r"
  by (simp add: isprime_def)

lemma isprime_coprime: "isprime r \<Longrightarrow> \<not> r dvd a \<Longrightarrow> coprime r a"
  unfolding coprime_iff_gcd_eq_1 isprime_def by (metis gcd_dvd1 gcd_dvd2)

lemma isprime_dvd_mult: "isprime r \<Longrightarrow> r dvd a * b \<longleftrightarrow> r dvd a \<or> r dvd b"
  by (metis coprime_dvd_mult_right_iff dvd_mult dvd_mult2 isprime_coprime)

lemma isprime_dvd_power: "isprime r \<Longrightarrow> r dvd a ^ n \<Longrightarrow> r dvd a"
  by (induction n) (auto simp: isprime_dvd_mult isprime_def)

lemma factor_bounds:
  assumes "n = d * e" "1 < n" "d \<noteq> 1" "d \<noteq> (n::nat)"
  shows "1 < d" "1 < e" "d < n"
proof -
  have "d \<noteq> 0" "e \<noteq> 1" using assms by auto
  moreover have "e \<noteq> 0" using assms by (intro notI) simp
  ultimately have "d \<noteq> 0" "e \<noteq> 0" "e \<noteq> 1" by blast+
  then show "1 < d" "1 < e" using assms(3) by simp_all
  then show "d < n" unfolding assms(1) by simp
qed

lemma prime_divisor:
  assumes "1 < (n::nat)"
  shows "\<exists>r. isprime r \<and> r dvd n"
  using assms
proof (induction n rule: less_induct)
  case (less n)
  show ?case
  proof (cases "isprime n")
    case False
    then obtain d where d: "d dvd n" "d \<noteq> 1" "d \<noteq> n" using less.prems unfolding isprime_def by blast
    then obtain e where "n = d * e" by blast
    then have "d < n" "1 < d" using factor_bounds [of n d e] less.prems d by blast+
    then show ?thesis using less.IH [of d] d(1) by (meson dvd_trans)
  qed auto
qed

lemma small_prime_divisor:
  assumes "1 < (n::nat)" "\<not> isprime n"
  obtains r s where "isprime r" "n = r * s" "1 < s"
proof -
  obtain d where d: "d dvd n" "d \<noteq> 1" "d \<noteq> n" using assms unfolding isprime_def by blast
  obtain e where e: "n = d * e" using d(1) by blast
  have de: "1 < d" "1 < e" using factor_bounds [OF e assms(1)] d by blast+
  obtain r where r: "isprime r" "r dvd d" using prime_divisor [OF de(1)] by blast
  then obtain k where k: "d = r * k" by blast
  have "0 < k" using k de(1) by (cases k) auto
  then have "1 < k * e" using de(2) by (metis One_nat_def Suc_leI less_le_trans mult_le_mono1 nat_mult_1)
  then show ?thesis using that [of r "k * e"] r e k by (simp add: mult.assoc)
qed

lemma fermat:
  assumes "isprime r" "\<not> r dvd a"
  shows "a ^ (r - 1) mod r = 1"
proof -
  let ?S = "{1..<r}" and ?f = "\<lambda>i. a * i mod r"
  have r: "1 < r" using assms(1) by (rule isprime_gt_1)
  have co: "coprime r a" using assms by (rule isprime_coprime)
  have nz: "\<not> r dvd i" if "i \<in> ?S" for i using that by (auto dest: dvd_imp_le)
  have inj: "inj_on ?f ?S"
  proof (rule inj_onI)
    fix i j assume ij: "i \<in> ?S" "j \<in> ?S" "?f i = ?f j"
    have "i = j" if "i \<in> ?S" "j \<in> ?S" "?f i = ?f j" "i \<le> j" for i j
    proof -
      have "r dvd a * j - a * i" using that(3,4) by (metis mod_eq_dvd_iff_nat mult_le_mono2)
      then have "r dvd a * (j - i)" by (simp add: right_diff_distrib')
      then have "r dvd j - i" using assms isprime_dvd_mult by blast
      then show ?thesis using that by (auto dest: dvd_imp_le)
    qed
    then show "i = j" using ij by (metis linear)
  qed
  have sub: "?f ` ?S \<subseteq> ?S"
  proof
    fix y assume "y \<in> ?f ` ?S"
    then obtain i where i: "i \<in> ?S" "y = ?f i" by blast
    then have "\<not> r dvd a * i" using assms nz isprime_dvd_mult by blast
    then show "y \<in> ?S" using i r by (simp add: dvd_eq_mod_eq_0 Suc_le_eq)
  qed
  have "?f ` ?S = ?S" by (rule endo_inj_surj) (use inj sub in simp_all)
  then have "(\<Prod>i\<in>?S. i) = (\<Prod>i\<in>?S. ?f i)" using prod.reindex [OF inj, of "\<lambda>i. i"] by simp
  then have "(\<Prod>i\<in>?S. i) mod r = (\<Prod>i\<in>?S. a * i) mod r" by (simp only: mod_prod_eq)
  also have "(\<Prod>i\<in>?S. a * i) = a ^ (r - 1) * (\<Prod>i\<in>?S. i)" by (simp add: prod.distrib)
  finally have e: "(a ^ (r - 1) * (\<Prod>i\<in>?S. i)) mod r = (1 * (\<Prod>i\<in>?S. i)) mod r" by simp
  have cp: "coprime r (\<Prod>i\<in>?S. i)"
    by (rule prod_coprime_right) (use assms(1) nz isprime_coprime in blast)
  have ge: "1 \<le> a ^ (r - 1)" using assms(2) by (cases "a = 0") (simp_all add: Suc_le_eq)
  have "r dvd (a ^ (r - 1) - 1) * (\<Prod>i\<in>?S. i)"
    using e ge by (metis diff_mult_distrib mod_eq_dvd_iff_nat mult_le_mono1)
  then have "r dvd a ^ (r - 1) - 1" using cp coprime_dvd_mult_left_iff by blast
  then have "a ^ (r - 1) mod r = 1 mod r" using ge by (subst mod_eq_dvd_iff_nat) simp_all
  then show ?thesis using r by simp
qed

lemma order_divides:
  fixes b r :: nat
  assumes "isprime q" "1 < r" "b ^ q mod r = 1" "b ^ m mod r = 1" "b mod r \<noteq> 1"
  shows "q dvd m"
proof (rule ccontr)
  assume "\<not> q dvd m"
  then have co: "coprime q m" by (rule isprime_coprime [OF assms(1)])
  have "q \<noteq> 0" using assms(1) by (auto simp: isprime_def)
  then obtain x y where "q * x = m * y + gcd q m" using bezout_nat [of q m] by blast
  then have xy: "q * x = m * y + 1" using co by simp
  have one: "b ^ (k * j) mod r = 1" if "b ^ k mod r = 1" for k j
  proof -
    have "b ^ (k * j) mod r = (b ^ k mod r) ^ j mod r" unfolding power_mult by (rule power_mod [symmetric])
    then show ?thesis using that assms(2) by simp
  qed
  have "b ^ (m * y + 1) mod r = b * (b ^ (m * y) mod r) mod r"
    by (simp add: mod_mult_right_eq)
  then have "b ^ (m * y + 1) mod r = b mod r" unfolding one [OF assms(4)] by simp
  moreover have "b ^ (q * x) mod r = 1" by (rule one [OF assms(3)])
  ultimately show False using assms(5) xy by simp
qed

text \<open>
  If \<open>b\<close> has order \<open>q\<close> modulo every prime divisor of \<open>n\<close>, all of them are 1 modulo \<open>m = 2 q\<close>, and the
  two digits of \<open>(n - 1) / m\<close> in base \<open>m\<close> rule out a product of two such numbers.
\<close>

lemma pocklington:
  assumes q: "isprime q" "odd q" and n: "odd n" "1 < n"
    and b: "b ^ q mod n = 1" and c: "(b + n - 1) * c mod n = 1"
    and m: "m = 2 * q" "n = 1 + m * (R1 * m + R0)" "R1 + 1 < R0" "R0 < m"
  shows "isprime n"
proof (rule ccontr)
  assume "\<not> isprime n"
  then obtain r s where rs: "isprime r" "n = r * s" "1 < s" using small_prime_divisor [OF n(2)] by blast
  have r1: "1 < r" using rs(1) by (rule isprime_gt_1)
  have bq: "b ^ q mod r = 1"
    using b r1 rs(2) by (metis dvd_triv_left mod_less mod_mod_cancel)
  have ndvd: "\<not> r dvd b"
  proof
    assume "r dvd b"
    then have "r dvd b ^ q" using q(1) by (metis dvd_power dvd_trans isprime_def not_less0 neq0_conv less_trans zero_less_one)
    then show False using bq r1 by simp
  qed
  have "b mod r \<noteq> 1"
  proof
    assume "b mod r = 1"
    then have "b = r * (b div r) + 1" by (metis mult_div_mod_eq)
    then have "b + n - 1 = r * (b div r + s)" unfolding rs(2) by (simp add: distrib_left)
    then have "(b + n - 1) * c mod r = 0" by simp
    moreover have "(b + n - 1) * c mod r = 1"
      using c r1 rs(2) by (metis dvd_triv_left mod_less mod_mod_cancel)
    ultimately show False by simp
  qed
  then have "q dvd r - 1" using order_divides [OF q(1) r1 bq fermat [OF rs(1) ndvd]] by blast
  moreover have "2 dvd r - 1" using n(1) rs(2) by simp
  moreover have "coprime 2 q" using q(2) by simp
  ultimately have "m dvd r - 1" unfolding m(1) by (simp add: divides_mult)
  then obtain u where u: "r = 1 + u * m" using r1 by (metis dvdE le_add_diff_inverse less_imp_le mult.commute)
  have "n mod m = 1 mod m" unfolding m(2) by (rule mod_mult_self2)
  moreover have "n mod m = s mod m" unfolding rs(2) u by (simp add: distrib_right mult.commute mult.left_commute)
  ultimately have "m dvd s - 1" using rs(3) by (metis less_imp_le mod_eq_dvd_iff_nat)
  then obtain v where v: "s = 1 + v * m" using rs(3) by (metis dvdE le_add_diff_inverse less_imp_le mult.commute)
  have uv: "0 < u" "0 < v" using u v r1 rs(3) by (auto intro!: Nat.gr0I)
  have mpos: "0 < m" using q(1) m(1) by (auto simp: isprime_def)
  have "m * (R1 * m + R0) = m * (u * v * m + (u + v))"
    using m(2) rs(2) unfolding u v by (simp add: algebra_simps)
  then have R: "R1 * m + R0 = u * v * m + (u + v)" using mpos by simp
  have "u + v \<le> u * v + 1"
    using uv by (cases u; cases v) (auto simp: algebra_simps)
  have "u * v \<le> R1"
  proof (rule ccontr)
    assume "\<not> u * v \<le> R1"
    then have "(R1 + 1) * m \<le> u * v * m" by (intro mult_le_mono1) simp
    then show False using R m(4) uv by simp
  qed
  moreover have "R1 \<le> u * v"
  proof (rule ccontr)
    assume n: "\<not> R1 \<le> u * v"
    then have "(u * v + 1) * m \<le> R1 * m" by (intro mult_le_mono1) simp
    then have "m + R0 \<le> u + v" using R by simp
    then have "m \<le> u * v + 1" using \<open>u + v \<le> u * v + 1\<close> by simp
    then show False using n m(3,4) by simp
  qed
  ultimately show False using R m(3) \<open>u + v \<le> u * v + 1\<close> by simp
qed

end
