(* ===== verification/PrimeChain.thy ===== *)
theory PrimeChain
  imports HexArith PrimeCert
begin

text \<open>
  The certificates that \<open>2^255 - 19\<close> is prime: for each modulus of the chain the powers of 2 that
  Pocklington's criterion asks for, computed by squarings whose quotients are given.
\<close>

text \<open>The residue of a power of 2, opaque to evaluation.\<close>

definition pow2_mod :: "int \<Rightarrow> nat \<Rightarrow> int" where
  "pow2_mod n k = 2 ^ k mod n"

lemma pow2_chain:
  assumes "hval x mod n = pow2_mod n k" "hsteps (hmults (hx n)) x s e" "0 < n"
    "list_all (\<lambda>(d, q, r). 0 \<le> q \<and> 0 \<le> r) s" "chain_exp k s = k'"
  shows "hval e mod n = pow2_mod n k'"
  unfolding pow2_mod_def assms(5) [symmetric]
  by (rule hsteps_sound [OF assms(2) assms(1) [unfolded pow2_mod_def] assms(3,4)])

lemma pow2_bits:
  assumes "hval x mod n = pow2_mod n k" "n = 2 ^ 255 - 19" "heq (hsq x ds) e" "bits_exp k ds = k'"
  shows "hval e mod n = pow2_mod n k'"
  unfolding pow2_mod_def assms(4) [symmetric] heq_val [OF assms(3), symmetric]
  by (rule hsq_sound [OF assms(2) assms(1) [unfolded pow2_mod_def]])

lemma pow2_nat:
  assumes "hval (hx r) mod int n = pow2_mod (int n) k" "0 < n" "0 \<le> r" "r < int n"
  shows "(2::nat) ^ k mod n = nat r"
proof -
  have "int ((2::nat) ^ k mod n) = int (nat r)"
    using assms unfolding pow2_mod_def hval_hx [OF assms(3)] by (simp add: zmod_int)
  then show ?thesis by (simp only: of_nat_eq_iff)
qed

lemma isprime_5: "isprime 991"
proof -
  have L: "list_all (\<lambda>d. \<not> d dvd (991::nat)) [2..<32]" by (simp add: upt_rec)
  have all: "\<not> d dvd 991" if "2 \<le> d" "d < 32" for d :: nat
    proof -
    have "d \<in> set [2..<32]" unfolding set_upt atLeastLessThan_iff using that by blast
    then show ?thesis using L unfolding list_all_iff by blast
  qed
  have small: "\<not> d dvd 991" if "1 < d" "d * d \<le> 991" for d :: nat
  proof -
    have "d \<le> 31"
    proof (rule ccontr)
      assume "\<not> d \<le> 31"
      then have "32 * 32 \<le> d * d" by (intro mult_le_mono) simp_all
      then show False using that(2) by simp
    qed
    then show ?thesis using all [of d] that(1) by simp
  qed
  show ?thesis unfolding isprime_def
  proof (intro conjI allI impI)
    fix d :: nat assume "d dvd 991"
    then obtain e where e: "991 = d * e" by blast
    show "d = 1 \<or> d = 991"
    proof (rule ccontr)
      assume "\<not> (d = 1 \<or> d = 991)"
      then have b: "1 < d" "1 < e" using factor_bounds [OF e] by auto
      then have "991 < d * d" "991 < e * e" using small [of d] small [of e] e by (metis dvd_triv_left dvd_triv_right not_less)+
      then have "d * e < d * d" "d * e < e * e" using e by simp_all
      then have "e < d" "d < e" by simp_all
      then show False by simp
    qed
  qed simp
qed

lemma pow4_small_0:
  assumes "hval (hx 65536) mod 8574133 = pow2_mod 8574133 16"
  shows "hval (hx 3435729) mod 8574133 = pow2_mod 8574133 8652"
  using assms
proof (rule pow2_chain)
  let ?s = "[(True, 1001, 7227459),
      (True, 12184593, 6260493),
      (True, 9142329, 430341),
      (False, 21599, 677614),
      (False, 53551, 7336713),
      (True, 12555755, 2003323),
      (True, 936142, 69772),
      (False, 567, 6598573),
      (False, 5078200, 3435729)]"
  show "hsteps (hmults (hx 8574133)) (hx 65536) ?s (hx 3435729)"
    by (simp only: hsteps.simps if_True if_False simp_thms hex_eval)
  show "chain_exp 16 ?s = 8652" "list_all (\<lambda>(d::bool, q::int, r::int). 0 \<le> q \<and> 0 \<le> r) ?s" "(0::int) < 8574133" by simp_all
qed

lemma pow4_small: "(2::nat) ^ 8652 mod 8574133 = 3435729"
proof -
  have "hval (hx 65536) mod 8574133 = pow2_mod 8574133 16" by (simp add: hval_hx pow2_mod_def)
  from pow4_small_0 [OF this] have "hval (hx 3435729) mod 8574133 = pow2_mod 8574133 8652" .
  then have "(2::nat) ^ 8652 mod 8574133 = nat 3435729" by (rule pow2_nat [of 3435729 8574133 8652, unfolded of_nat_numeral]) simp_all
  also have "\<dots> = 3435729" by simp
  finally show ?thesis .
qed

lemma pow4_full_0:
  assumes "hval (hx 65536) mod 8574133 = pow2_mod 8574133 16"
  shows "hval (hx 1) mod 8574133 = pow2_mod 8574133 8574132"
  using assms
proof (rule pow2_chain)
  let ?s = "[(False, 500, 7900796),
      (True, 14560673, 7995723),
      (False, 7456332, 4032573),
      (True, 3793187, 168787),
      (True, 6645, 2988953),
      (False, 1041952, 5008593),
      (True, 5851554, 5426616),
      (False, 3434535, 1328301),
      (True, 411559, 5489855),
      (False, 3515050, 1719375),
      (False, 344787, 795954),
      (True, 147780, 165492),
      (False, 3194, 1821262),
      (True, 773721, 3786395),
      (True, 3344195, 1484115),
      (False, 256888, 5455121),
      (True, 6941423, 6238023),
      (False, 4538409, 8574132),
      (False, 8574131, 1)]"
  show "hsteps (hmults (hx 8574133)) (hx 65536) ?s (hx 1)"
    by (simp only: hsteps.simps if_True if_False simp_thms hex_eval)
  show "chain_exp 16 ?s = 8574132" "list_all (\<lambda>(d::bool, q::int, r::int). 0 \<le> q \<and> 0 \<le> r) ?s" "(0::int) < 8574133" by simp_all
qed

lemma pow4_full: "(2::nat) ^ 8574132 mod 8574133 = 1"
proof -
  have "hval (hx 65536) mod 8574133 = pow2_mod 8574133 16" by (simp add: hval_hx pow2_mod_def)
  from pow4_full_0 [OF this] have "hval (hx 1) mod 8574133 = pow2_mod 8574133 8574132" .
  then have "(2::nat) ^ 8574132 mod 8574133 = nat 1" by (rule pow2_nat [of 1 8574133 8574132, unfolded of_nat_numeral]) simp_all
  also have "\<dots> = 1" by simp
  finally show ?thesis .
qed

lemma isprime_4: "isprime 8574133"
proof (rule pocklington)
  show "isprime 991" by (rule isprime_5)
  show "odd (991::nat)" by simp
  show "odd (8574133::nat)" by simp
  show "1 < (8574133::nat)" by simp
  have "(3435729::nat) ^ 991 mod 8574133 = (2 ^ 8652 mod 8574133) ^ 991 mod 8574133" unfolding pow4_small ..
  also have "\<dots> = (2 ^ 8652) ^ 991 mod 8574133" by (rule power_mod)
  also have "\<dots> = 2 ^ (8652 * 991) mod 8574133" by (simp only: power_mult)
  also have "(8652 * 991 :: nat) = 8574132" by simp
  also have "(2::nat) ^ 8574132 mod 8574133 = 1" by (rule pow4_full)
  finally show "(3435729::nat) ^ 991 mod 8574133 = 1" .
  have "(3435729 + 8574133 - 1) * 1014251 = (1::nat) + 8574133 * 1420670" by simp
  also have "\<dots> mod 8574133 = 1 mod 8574133" by (rule mod_mult_self2)
  also have "\<dots> = 1" by simp
  finally show "(3435729 + 8574133 - 1) * 1014251 mod 8574133 = (1::nat)" .
  show "(1982::nat) = 2 * 991" by simp
  show "8574133 = 1 + 1982 * (2 * 1982 + (362::nat))" by simp
  show "2 + 1 < (362::nat)" by simp
  show "362 < (1982::nat)" by simp
qed

lemma pow3_small_0:
  assumes "hval (hx 67108864) mod 1919519569386763 = pow2_mod 1919519569386763 26"
  shows "hval (hx 1059928654987441) mod 1919519569386763 = pow2_mod 1919519569386763 223873314"
  using assms
proof (rule pow2_chain)
  let ?s = "[(True, 4, 1329120977193940),
      (False, 920314958071172, 1050703024027364),
      (True, 1150263703800570, 1672969091722082),
      (True, 2916173011720386, 925947007178930),
      (False, 446662734664136, 1131232746713132),
      (False, 666670737639295, 1867384059597339),
      (False, 1816664587145774, 439825148891359),
      (False, 100778426374213, 1175992818124362),
      (False, 720471481685335, 1417188017686439),
      (False, 1046314874568149, 230433742489034),
      (False, 27663020749752, 1384618485920380),
      (True, 1997550201756923, 708183098878551),
      (False, 261275430339817, 821990456217230),
      (False, 351998656793099, 1538409348524363),
      (True, 2465932998415072, 1639521232619602),
      (False, 1400365964004865, 1373123636036409),
      (False, 982260639543366, 280066608751023),
      (True, 81725976216389, 1337932286834251),
      (False, 932557725746660, 661679051269421),
      (False, 228087889215254, 1001669444392439),
      (False, 522704582871222, 1817493499934335),
      (True, 3441780615301434, 364420849266308),
      (False, 69185309437821, 1059928654987441)]"
  show "hsteps (hmults (hx 1919519569386763)) (hx 67108864) ?s (hx 1059928654987441)"
    by (simp only: hsteps.simps if_True if_False simp_thms hex_eval)
  show "chain_exp 26 ?s = 223873314" "list_all (\<lambda>(d::bool, q::int, r::int). 0 \<le> q \<and> 0 \<le> r) ?s" "(0::int) < 1919519569386763" by simp_all
qed

lemma pow3_small: "(2::nat) ^ 223873314 mod 1919519569386763 = 1059928654987441"
proof -
  have "hval (hx 67108864) mod 1919519569386763 = pow2_mod 1919519569386763 26" by (simp add: hval_hx pow2_mod_def)
  from pow3_small_0 [OF this] have "hval (hx 1059928654987441) mod 1919519569386763 = pow2_mod 1919519569386763 223873314" .
  then have "(2::nat) ^ 223873314 mod 1919519569386763 = nat 1059928654987441" by (rule pow2_nat [of 1059928654987441 1919519569386763 223873314, unfolded of_nat_numeral]) simp_all
  also have "\<dots> = 1059928654987441" by simp
  finally show ?thesis .
qed

lemma pow3_full_0:
  assumes "hval (hx 134217728) mod 1919519569386763 = pow2_mod 1919519569386763 27"
  shows "hval (hx 1009058406760638) mod 1919519569386763 = pow2_mod 1919519569386763 29992493271668"
  using assms
proof (rule pow2_chain)
  let ?s = "[(False, 9, 738722385001117),
      (True, 568590985791386, 727545914671860),
      (False, 275758094055179, 1707982561664023),
      (False, 1519757588030409, 1883053606468462),
      (False, 1847280403589061, 1218399375645901),
      (True, 1546738113275479, 1048428561119125),
      (True, 1145289128905818, 983029438644116),
      (True, 1006863272094369, 1276865007405365),
      (False, 849370995293977, 1782700633356774),
      (False, 1655633836119701, 155115138769213),
      (True, 25069508703241, 1540151232679855),
      (False, 1235760164864112, 1337673856271569),
      (True, 1864395002051589, 1240524135727115),
      (False, 801711092642386, 1605194465086707),
      (True, 2684681429497665, 1584898865799303),
      (True, 2617221991244825, 1234761903320143),
      (True, 1588560994330330, 1236775547659108),
      (True, 1593746455813585, 663762456135973),
      (True, 459052989302332, 319119283482142),
      (False, 53053440409930, 583227397151574),
      (True, 354415971801600, 1285925159134152),
      (False, 861467390729690, 1288133935665634),
      (False, 864429340901971, 982476880612083),
      (False, 502865840146461, 1576128850903146),
      (False, 1294168704642539, 102480519386059),
      (True, 10942588990631, 478332744685509),
      (False, 119197646269096, 1487279716212833),
      (False, 1152372181839647, 1304919163493228),
      (True, 1774208557608892, 1547425167823372),
      (False, 1247460400092810, 1260964203976354),
      (True, 1656696549561819, 1320395793464735),
      (False, 908271569201220, 1801342537169365),
      (False, 1690441185370361, 570314888571782),
      (True, 338896333555542, 1457759193220502),
      (True, 2214160146434757, 904421507342417),
      (True, 852273950199791, 980872974037245),
      (False, 501225309989436, 913994118954357),
      (True, 870410766116893, 1653595313679539),
      (False, 1424511375154407, 54183760337980),
      (False, 1529486821174, 1009058406760638)]"
  show "hsteps (hmults (hx 1919519569386763)) (hx 134217728) ?s (hx 1009058406760638)"
    by (simp only: hsteps.simps if_True if_False simp_thms hex_eval)
  show "chain_exp 27 ?s = 29992493271668" "list_all (\<lambda>(d::bool, q::int, r::int). 0 \<le> q \<and> 0 \<le> r) ?s" "(0::int) < 1919519569386763" by simp_all
qed

lemma pow3_full_1:
  assumes "hval (hx 1009058406760638) mod 1919519569386763 = pow2_mod 1919519569386763 29992493271668"
  shows "hval (hx 1) mod 1919519569386763 = pow2_mod 1919519569386763 1919519569386762"
  using assms
proof (rule pow2_chain)
  let ?s = "[(False, 530444640676211, 404389713772051),
      (False, 85193734522271, 1499052552647828),
      (True, 2341376031209599, 636366037097131),
      (False, 210970359265512, 828224193213505),
      (True, 714715624851176, 1919519569386762),
      (False, 1919519569386761, 1)]"
  show "hsteps (hmults (hx 1919519569386763)) (hx 1009058406760638) ?s (hx 1)"
    by (simp only: hsteps.simps if_True if_False simp_thms hex_eval)
  show "chain_exp 29992493271668 ?s = 1919519569386762" "list_all (\<lambda>(d::bool, q::int, r::int). 0 \<le> q \<and> 0 \<le> r) ?s" "(0::int) < 1919519569386763" by simp_all
qed

lemma pow3_full: "(2::nat) ^ 1919519569386762 mod 1919519569386763 = 1"
proof -
  have "hval (hx 134217728) mod 1919519569386763 = pow2_mod 1919519569386763 27" by (simp add: hval_hx pow2_mod_def)
  from pow3_full_0 [OF this] have "hval (hx 1009058406760638) mod 1919519569386763 = pow2_mod 1919519569386763 29992493271668" .
  from pow3_full_1 [OF this] have "hval (hx 1) mod 1919519569386763 = pow2_mod 1919519569386763 1919519569386762" .
  then have "(2::nat) ^ 1919519569386762 mod 1919519569386763 = nat 1" by (rule pow2_nat [of 1 1919519569386763 1919519569386762, unfolded of_nat_numeral]) simp_all
  also have "\<dots> = 1" by simp
  finally show ?thesis .
qed

lemma isprime_3: "isprime 1919519569386763"
proof (rule pocklington)
  show "isprime 8574133" by (rule isprime_4)
  show "odd (8574133::nat)" by simp
  show "odd (1919519569386763::nat)" by simp
  show "1 < (1919519569386763::nat)" by simp
  have "(1059928654987441::nat) ^ 8574133 mod 1919519569386763 = (2 ^ 223873314 mod 1919519569386763) ^ 8574133 mod 1919519569386763" unfolding pow3_small ..
  also have "\<dots> = (2 ^ 223873314) ^ 8574133 mod 1919519569386763" by (rule power_mod)
  also have "\<dots> = 2 ^ (223873314 * 8574133) mod 1919519569386763" by (simp only: power_mult)
  also have "(223873314 * 8574133 :: nat) = 1919519569386762" by simp
  also have "(2::nat) ^ 1919519569386762 mod 1919519569386763 = 1" by (rule pow3_full)
  finally show "(1059928654987441::nat) ^ 8574133 mod 1919519569386763 = 1" .
  have "(1059928654987441 + 1919519569386763 - 1) * 1290547218147893 = (1::nat) + 1919519569386763 * 2003167187719906" by simp
  also have "\<dots> mod 1919519569386763 = 1 mod 1919519569386763" by (rule mod_mult_self2)
  also have "\<dots> = 1" by simp
  finally show "(1059928654987441 + 1919519569386763 - 1) * 1290547218147893 mod 1919519569386763 = (1::nat)" .
  show "(17148266::nat) = 2 * 8574133" by simp
  show "1919519569386763 = 1 + 17148266 * (6 * 17148266 + (9047061::nat))" by simp
  show "6 + 1 < (9047061::nat)" by simp
  show "9047061 < (17148266::nat)" by simp
qed

lemma pow2_small_0:
  assumes "hval (hx 295147905179352825856) mod 75445702479781427272750846543864801 = pow2_mod 75445702479781427272750846543864801 68"
  shows "hval (hx 3782964574628778339320135515987822) mod 75445702479781427272750846543864801 = pow2_mod 75445702479781427272750846543864801 74967330248350"
  using assms
proof (rule pow2_chain)
  let ?s = "[(False, 1154635, 37249017818367551225803357327630101),
      (False, 18390568088419540713180144552603353, 102469992448),
      (True, 0, 21000198704586354065408),
      (False, 5845373972, 57540172156127493524011025089846892),
      (True, 87768323520986892609440763078941370, 54651969301387637110966512518401958),
      (True, 79178472738596464028603992035732427, 61606591580989321780200720816865501),
      (True, 100612016363528196112949330697066484, 51294626676562810936092654843532318),
      (False, 34874600400109785010110741815565865, 70907221727050507061373817639835259),
      (True, 133283511924261151466384833446453474, 32799974849867834837920162526425488),
      (False, 14259769805182405020291244956113789, 38671091502185017926787332828197155),
      (True, 39643167703849810160785550627061568, 64134687226725695320034102205120082),
      (True, 109038897391729833739089875975893259, 49129946330668696747602969976096989),
      (False, 31993228866829677464604812351954812, 52731668160668534429276816145493709),
      (False, 36856026726665311569831140646019472, 53232007837694667884745803777171609),
      (False, 37558755042300401026910323427360228, 6815899006979597721589967479114253),
      (True, 1231520888437489561043967924920373, 27351563169514572318976779253005245),
      (False, 9915846538991804092978480448020986, 36418643877802785581023883602796239),
      (False, 17579763701632442834351678143176982, 25515915370493845880933608929334539),
      (False, 8629543046122224655388998502785386, 57793553327652931187992881475744335),
      (True, 88543010309470439154820839753932743, 62153849922490962393205786330105307),
      (False, 51203725768512740208766088776196223, 61109090482572984699313167350717626),
      (True, 98993602468160378399605572779308692, 74425325943528844932868703682001460),
      (True, 146837499280623176155056190186076751, 12989690226474060391927371730921649),
      (False, 2236470025910010689164230430725332, 9010903371459702397200566003040269),
      (True, 2152445451523061074391132479695943, 41483535797710063532135253890982379),
      (True, 45619132322111234617260342837222865, 36992927490348523016874968511124417),
      (False, 18138563752825011389988221154025764, 513309348704093895960925166856925),
      (True, 6984797776589922606771900453178, 25107384053856714034524019378123672),
      (False, 8355422685563742011965376336700514, 48786791113838861753548469283555870),
      (True, 63095733990234880993683556426399714, 23550372780047042618185787221846886),
      (True, 14702495698222504060133497094678883, 34192708828629508492652582794096709),
      (False, 15496460349782741374426957909312839, 23725588849222751655399262015150642),
      (True, 14922084300115426627936480004087657, 74284037970676428699992465145163071),
      (False, 73140260026178284946026360103387949, 1679490236568257179254066873467892),
      (False, 37386986428869317886938646893687, 57875049575816904056842656006512377),
      (True, 88792900146987093422421437432117938, 69140185463195222053869748749479920),
      (True, 126723327870560004734161261178324345, 12685289843374237635476675559532455),
      (True, 4265758634921249914798644829340890, 13171760403748371563029534295641160),
      (True, 4599208872904276656265734953986787, 38784832849308944787944580903906813),
      (False, 19938355793717465847682208159383547, 3782964574628778339320135515987822)]"
  show "hsteps (hmults (hx 75445702479781427272750846543864801)) (hx 295147905179352825856) ?s (hx 3782964574628778339320135515987822)"
    by (simp only: hsteps.simps if_True if_False simp_thms hex_eval)
  show "chain_exp 68 ?s = 74967330248350" "list_all (\<lambda>(d::bool, q::int, r::int). 0 \<le> q \<and> 0 \<le> r) ?s" "(0::int) < 75445702479781427272750846543864801" by simp_all
qed

lemma pow2_small_1:
  assumes "hval (hx 3782964574628778339320135515987822) mod 75445702479781427272750846543864801 = pow2_mod 75445702479781427272750846543864801 74967330248350"
  shows "hval (hx 56747016255153332959347766392083459) mod 75445702479781427272750846543864801 = pow2_mod 75445702479781427272750846543864801 39304471641247389600"
  using assms
proof (rule pow2_chain)
  let ?s = "[(True, 379367425910877502586785532538328, 38877602689008559621761620122014640),
      (True, 40067702762777282563722963685911553, 14314454708794176124149993472713247),
      (True, 5431816707254639246062512913804549, 72466306610823254233320016583786269),
      (False, 69604568864888641168444927591077276, 52923723913192322483970867785578285),
      (False, 37124984734424324294785152761527766, 43675134191290428119386496951976659),
      (False, 25283313481485823676523318387740688, 11400356044965588482423009162079193),
      (True, 3445341846656232865445853964758427, 18935679146042012693248632693634471),
      (False, 4752556248222889451123733574281160, 60679732404325505920101321558000681),
      (True, 97607413110038762878864400532412072, 41712449112149596090570426404649850),
      (True, 46123989935674606507037057687651255, 6531672565481006475695702252069745),
      (True, 1130952329964462953850246691678513, 13823227504923762148479631860009137),
      (True, 5065407634161494487114558160920292, 72088510220800202732826346861527646),
      (False, 68880706720798111363682571039351209, 1888738652562569663194994370406907),
      (True, 94566915819754618137492420024240, 67921444504051573029934253803837058),
      (False, 61147586567349870743199647966593842, 44692679468887818587537417286939922),
      (False, 26475140829181573416469200498415960, 25373835843271755692855209936742124),
      (False, 8533707345012022015661890767769502, 65810772782638593774538249456932274),
      (False, 57406289184049389055471778293765177, 2709456275567807824939095492976299),
      (False, 97303796875390224746540460292342, 56747016255153332959347766392083459)]"
  show "hsteps (hmults (hx 75445702479781427272750846543864801)) (hx 3782964574628778339320135515987822) ?s (hx 56747016255153332959347766392083459)"
    by (simp only: hsteps.simps if_True if_False simp_thms hex_eval)
  show "chain_exp 74967330248350 ?s = 39304471641247389600" "list_all (\<lambda>(d::bool, q::int, r::int). 0 \<le> q \<and> 0 \<le> r) ?s" "(0::int) < 75445702479781427272750846543864801" by simp_all
qed

lemma pow2_small: "(2::nat) ^ 39304471641247389600 mod 75445702479781427272750846543864801 = 56747016255153332959347766392083459"
proof -
  have "hval (hx 295147905179352825856) mod 75445702479781427272750846543864801 = pow2_mod 75445702479781427272750846543864801 68" by (simp add: hval_hx pow2_mod_def)
  from pow2_small_0 [OF this] have "hval (hx 3782964574628778339320135515987822) mod 75445702479781427272750846543864801 = pow2_mod 75445702479781427272750846543864801 74967330248350" .
  from pow2_small_1 [OF this] have "hval (hx 56747016255153332959347766392083459) mod 75445702479781427272750846543864801 = pow2_mod 75445702479781427272750846543864801 39304471641247389600" .
  then have "(2::nat) ^ 39304471641247389600 mod 75445702479781427272750846543864801 = nat 56747016255153332959347766392083459" by (rule pow2_nat [of 56747016255153332959347766392083459 75445702479781427272750846543864801 39304471641247389600, unfolded of_nat_numeral]) simp_all
  also have "\<dots> = 56747016255153332959347766392083459" by simp
  finally show ?thesis .
qed

lemma pow2_full_0:
  assumes "hval (hx 288230376151711744) mod 75445702479781427272750846543864801 = pow2_mod 75445702479781427272750846543864801 58"
  shows "hval (hx 1568420735889759100484093464052164) mod 75445702479781427272750846543864801 = pow2_mod 75445702479781427272750846543864801 63904995729120"
  using assms
proof (rule pow2_chain)
  let ?s = "[(False, 1, 7631047256775814783737094723656735),
      (False, 771851547816808051379443778815459, 22009193676612644322150778486101566),
      (False, 6420572549171516046176593860100809, 33022602890864803253515466140928347),
      (True, 28908003129270132855419763652819504, 70920670989751728757172309344426114),
      (True, 133334077576771846642839878728962976, 3666131857123157179898322131674216),
      (True, 356296577592744755834612203261588, 25401643620139515029795923209865324),
      (True, 17104844342260377155191118617761288, 53020601934196140453117330471626264),
      (True, 74522050615615866528901395825227785, 28575338561705314560517295720499607),
      (False, 10823015056886887261668044373608357, 48331021020716018721794112955412492),
      (False, 30961174939432559984738738584029315, 848533773164639574462622689008749),
      (False, 9543413879590745612390818824318, 45310555848504975522005669435514283),
      (False, 27212238786572118819693610976292909, 72659396762334320014469372026007980),
      (True, 139951985715319802782717575504616292, 75115654692204849562303423817422908),
      (False, 74787050744880317833576541907568545, 16253006180525765547641381402891919),
      (True, 7002657572841888628464483393536952, 17986039111192952197589181705378570),
      (False, 4287820144507981290238773629741760, 27776406887544879715908757031455140),
      (True, 20452557381627174631868233265512926, 8878805395285718583017608002921474),
      (False, 1044899611988915660444025085319451, 15425342777689016851465101770788425),
      (False, 3153807201582730232094456086824652, 67408165950774277419106926032106373),
      (True, 120453801541971900053355372750195147, 10005173418326397981809162040109511),
      (False, 1326828326074791530425417056591862, 11328494954179109637847746107809659),
      (False, 1701021976185506177894356976435511, 2653889685712704246275783694347970),
      (False, 93353633572697574796185448788719, 8917658717885293657369277093140981),
      (True, 2108129009203334261133622343411113, 72164657861411213226753396050351209),
      (True, 138052604007502018451222615905547201, 72558332017281532167041635227551361),
      (True, 139562927299694608715632413544391673, 45958847638036517107644543883702569),
      (False, 27996500884623667420435143924148067, 671042825854817169564334903710094),
      (True, 11937021177631509171511817293558, 72730494059566331181901874714725714),
      (True, 140226006048951515550643993067215071, 62579464969018112921471466292003721),
      (True, 103814778233606042352647539079357791, 29585290492468826343356455945677091),
      (True, 23203161605085027457686910115065657, 73885246701094968368169048238205305),
      (False, 72357066083977699180045520576918136, 41118096192318202911291004101212089),
      (True, 44818930142079864549256404367283342, 33981126060794659516081780212042900),
      (True, 30610542162267458784582308358080773, 40288467135992077388000188531248827),
      (True, 43028576335488475641251044159569169, 36330444707391624204415264033831489),
      (False, 17494716985245889738608394253763934, 17328165532291647471499732182069987),
      (False, 3979886340046577149477472973859038, 33422583774579774592479576262258731),
      (False, 14806265558573926326230418156236496, 18214631634308223648371789179753065),
      (False, 4397504359674470949521980787952437, 64511884726821717771000457030424188),
      (False, 55162628674867767836158767029343180, 1568420735889759100484093464052164)]"
  show "hsteps (hmults (hx 75445702479781427272750846543864801)) (hx 288230376151711744) ?s (hx 1568420735889759100484093464052164)"
    by (simp only: hsteps.simps if_True if_False simp_thms hex_eval)
  show "chain_exp 58 ?s = 63904995729120" "list_all (\<lambda>(d::bool, q::int, r::int). 0 \<le> q \<and> 0 \<le> r) ?s" "(0::int) < 75445702479781427272750846543864801" by simp_all
qed

lemma pow2_full_1:
  assumes "hval (hx 1568420735889759100484093464052164) mod 75445702479781427272750846543864801 = pow2_mod 75445702479781427272750846543864801 63904995729120"
  shows "hval (hx 70209680790526841665283081887039825) mod 75445702479781427272750846543864801 = pow2_mod 75445702479781427272750846543864801 70264285877143430777593372"
  using assms
proof (rule pow2_chain)
  let ?s = "[(False, 32605483465784016117553503132009, 31025647283008206690781557961567687),
      (True, 25517445200741491635749351223738569, 373269120475705429462412059850169),
      (False, 1846756431727114921091744224038, 58443280288287018208066001403042123),
      (True, 90545038314690585729151912632905452, 39403710217996611059649496120899206),
      (False, 20579732548185144847843165374966669, 18955090873233773816598658194112567),
      (True, 9524610632629136865444052036528022, 42633892693946410887213151918705356),
      (True, 48184290065455906893236368133099501, 50883925065132556536787338661609171),
      (False, 34318373942212199395003219355572734, 60096831411452045530469413933371307),
      (True, 95741149647704955959868512600149897, 53089291438676901358685779159701001),
      (False, 37357633010522906255630588371906398, 51886847680512235165321472581505203),
      (False, 35684537007819210446477302226859212, 49840655314755229486864938926674397),
      (False, 32925545664710938880561163616926857, 45520326194272497356190822741453152),
      (False, 27464786312888658465645388256308953, 12912471922656530731785220892871751),
      (True, 4419918581792659853936465172959736, 54300938652674903527848974066959466),
      (False, 39082304778748024630635265073521629, 42251550788399836408018112961724327),
      (True, 47323929272264168801660546544978889, 63923979436728860874743583272019769),
      (True, 108323602610033582017702304908250862, 47120619430889036148662387133918260),
      (True, 58859622286523375400773844436846332, 23801074297811254038167421302095268),
      (True, 15017187702155587466082072505627193, 39222906842721171021682631194850055),
      (False, 20391306206010426744923801599057214, 27744432708764247686018176453778611),
      (False, 10202748745529044120012868028398902, 31767803252733235124306576616240819),
      (True, 26752837877672897617525915342998659, 74062341163093794085330143583279663),
      (False, 72704344956274686391157189808741468, 4776198761470204658446448715125701),
      (False, 302364135520944856992216994587885, 18710024028905304295913796078205516),
      (True, 9279918872941165399340898018341428, 10169410796074325407272506376376684),
      (True, 2741492557963194209676007709349556, 42122498252050953737874994404293356),
      (False, 23517639847936053940406944463800117, 115754809044341432461161369761019),
      (True, 355200505170795452952356421100, 43065186470477596355140615720135622),
      (True, 49164106762317459954868940441862303, 38510769545584726525888116656157065),
      (True, 39315145124152939114948633505931618, 59466506355214148198268088155650432),
      (True, 93743321670108453423228119801881632, 31186897834198124570994992750338016),
      (False, 12891689845175253577576619877130907, 23092477347457125080713115068311749),
      (False, 7068162831219294747801995350537192, 18698798374500036049255497881260209),
      (False, 4634393333986200328317558958439351, 21869121206656224245178971064539530),
      (False, 6339108082128186258628870511208919, 12652077428391528779183729931260781),
      (True, 4243450799518041716040183281473006, 28598385840957074477577761062398116),
      (True, 21680961163491933049892391326433752, 71375989008579367626260943189535560),
      (True, 135051610350320963652278521676015308, 43061262500733731668528957050653492),
      (False, 24577573900302943555059758083120298, 32672444468793351880644993920963366),
      (False, 14149097860841839966656012334961331, 70209680790526841665283081887039825)]"
  show "hsteps (hmults (hx 75445702479781427272750846543864801)) (hx 1568420735889759100484093464052164) ?s (hx 70209680790526841665283081887039825)"
    by (simp only: hsteps.simps if_True if_False simp_thms hex_eval)
  show "chain_exp 63904995729120 ?s = 70264285877143430777593372" "list_all (\<lambda>(d::bool, q::int, r::int). 0 \<le> q \<and> 0 \<le> r) ?s" "(0::int) < 75445702479781427272750846543864801" by simp_all
qed

lemma pow2_full_2:
  assumes "hval (hx 70209680790526841665283081887039825) mod 75445702479781427272750846543864801 = pow2_mod 75445702479781427272750846543864801 70264285877143430777593372"
  shows "hval (hx 1) mod 75445702479781427272750846543864801 = pow2_mod 75445702479781427272750846543864801 75445702479781427272750846543864800"
  using assms
proof (rule pow2_chain)
  let ?s = "[(True, 130674090496504969134018827651768795, 52503834489303885292749499281376455),
      (True, 73076465470487655495873936216625714, 17400049045635351684533718020641136),
      (True, 8025949705263923730563316570232921, 64908780416863095875975808887427271),
      (False, 55843469365715368362468480707808829, 69878509489605860253502975384379412),
      (False, 64722123699458232616333721538099691, 42111761612063696322752344005589253),
      (True, 47011305025532297537912876921461014, 49087257122501680141152876489827804),
      (False, 31937654930793781474880405364272074, 60893762817002960278746117535595142),
      (True, 98297191970798516002569059625159782, 43505566370828698512508536837366946),
      (False, 25087370692238060902812612345126444, 67404298166118396548341553467469272),
      (True, 120439979003033448417266417710996846, 23086303469702392307886813367002322),
      (True, 14128767852298133961808644817361610, 69745012537714770577004439339093758),
      (False, 64475067684465982501133245190500532, 47172212163931318384902249787988432),
      (True, 58988584566106527512851937131785000, 16904542676557169922233050131852248),
      (True, 7575343689857589041504428760550448, 46920499357148902318201176553326160),
      (False, 29180366642012458176251648635799663, 10454444063557555172302156146983537),
      (False, 1448663039585902268113875523803170, 37698059884210767352741902333811199),
      (True, 37673284821342637999663428757360586, 40901371546101489892846476765501816),
      (False, 22173856685880343095672505025355721, 27768446176039279899917307143421335),
      (False, 10220417832788193175143522916513345, 21857673977610154683191029340912880),
      (False, 6332473500919813117686273409683965, 3778066346658827974554880652278435),
      (True, 378385642935227281731222357250068, 47402446319426680179615426392041982),
      (True, 59565802775003540489587975525891621, 50973463510006534321207876498244227),
      (True, 68878515191830318193214070706977873, 10766594200423649952741019267106785),
      (True, 3072926538331623821743296868229081, 66188423355148447244671870825594569),
      (True, 116134047195448747364847061652810939, 47449036182200125127963758294733383),
      (False, 29841474870263003462022108898837555, 68050878837970674823646249073223134),
      (False, 61380860120709968955617829202648356, 75445702479781427272750846543864800),
      (False, 75445702479781427272750846543864799, 1),
      (False, 0, 1),
      (False, 0, 1)]"
  show "hsteps (hmults (hx 75445702479781427272750846543864801)) (hx 70209680790526841665283081887039825) ?s (hx 1)"
    by (simp only: hsteps.simps if_True if_False simp_thms hex_eval)
  show "chain_exp 70264285877143430777593372 ?s = 75445702479781427272750846543864800" "list_all (\<lambda>(d::bool, q::int, r::int). 0 \<le> q \<and> 0 \<le> r) ?s" "(0::int) < 75445702479781427272750846543864801" by simp_all
qed

lemma pow2_full: "(2::nat) ^ 75445702479781427272750846543864800 mod 75445702479781427272750846543864801 = 1"
proof -
  have "hval (hx 288230376151711744) mod 75445702479781427272750846543864801 = pow2_mod 75445702479781427272750846543864801 58" by (simp add: hval_hx pow2_mod_def)
  from pow2_full_0 [OF this] have "hval (hx 1568420735889759100484093464052164) mod 75445702479781427272750846543864801 = pow2_mod 75445702479781427272750846543864801 63904995729120" .
  from pow2_full_1 [OF this] have "hval (hx 70209680790526841665283081887039825) mod 75445702479781427272750846543864801 = pow2_mod 75445702479781427272750846543864801 70264285877143430777593372" .
  from pow2_full_2 [OF this] have "hval (hx 1) mod 75445702479781427272750846543864801 = pow2_mod 75445702479781427272750846543864801 75445702479781427272750846543864800" .
  then have "(2::nat) ^ 75445702479781427272750846543864800 mod 75445702479781427272750846543864801 = nat 1" by (rule pow2_nat [of 1 75445702479781427272750846543864801 75445702479781427272750846543864800, unfolded of_nat_numeral]) simp_all
  also have "\<dots> = 1" by simp
  finally show ?thesis .
qed

lemma isprime_2: "isprime 75445702479781427272750846543864801"
proof (rule pocklington)
  show "isprime 1919519569386763" by (rule isprime_3)
  show "odd (1919519569386763::nat)" by simp
  show "odd (75445702479781427272750846543864801::nat)" by simp
  show "1 < (75445702479781427272750846543864801::nat)" by simp
  have "(56747016255153332959347766392083459::nat) ^ 1919519569386763 mod 75445702479781427272750846543864801 = (2 ^ 39304471641247389600 mod 75445702479781427272750846543864801) ^ 1919519569386763 mod 75445702479781427272750846543864801" unfolding pow2_small ..
  also have "\<dots> = (2 ^ 39304471641247389600) ^ 1919519569386763 mod 75445702479781427272750846543864801" by (rule power_mod)
  also have "\<dots> = 2 ^ (39304471641247389600 * 1919519569386763) mod 75445702479781427272750846543864801" by (simp only: power_mult)
  also have "(39304471641247389600 * 1919519569386763 :: nat) = 75445702479781427272750846543864800" by simp
  also have "(2::nat) ^ 75445702479781427272750846543864800 mod 75445702479781427272750846543864801 = 1" by (rule pow2_full)
  finally show "(56747016255153332959347766392083459::nat) ^ 1919519569386763 mod 75445702479781427272750846543864801 = 1" .
  have "(56747016255153332959347766392083459 + 75445702479781427272750846543864801 - 1) * 74602835786463724888147869570305675 = (1::nat) + 75445702479781427272750846543864801 * 130715883924487458228144467679234624" by simp
  also have "\<dots> mod 75445702479781427272750846543864801 = 1 mod 75445702479781427272750846543864801" by (rule mod_mult_self2)
  also have "\<dots> = 1" by simp
  finally show "(56747016255153332959347766392083459 + 75445702479781427272750846543864801 - 1) * 74602835786463724888147869570305675 mod 75445702479781427272750846543864801 = (1::nat)" .
  show "(3839039138773526::nat) = 2 * 1919519569386763" by simp
  show "75445702479781427272750846543864801 = 1 + 3839039138773526 * (5119 * 3839039138773526 + (194469242015206::nat))" by simp
  show "5119 + 1 < (194469242015206::nat)" by simp
  show "194469242015206 < (3839039138773526::nat)" by simp
qed

lemma pow1_small_0:
  assumes "hval (hx 784637716923335095479473677900958302012794430558004314112) mod 74058212732561358302231226437062788676166966415465897661863160754340907 = pow2_mod 74058212732561358302231226437062788676166966415465897661863160754340907 189"
  shows "hval (hx 56850440753119798199641765124701563093724562108599945471550834900632544) mod 74058212732561358302231226437062788676166966415465897661863160754340907 = pow2_mod 74058212732561358302231226437062788676166966415465897661863160754340907 207863881365735"
  using assms
proof (rule pow2_chain)
  let ?s = "[(False, 8313140759174391779718174581384026376896512, 212676479325586539664609129644855132160),
      (False, 610753, 9257276591570169787778903304632848584520870801933237207732895094292629),
      (False, 1157159573946271223472362913079106073065108850241654650966611886786580, 42814904236012035268477427783926924703409027458941222085764639811103581),
      (False, 24752366511444457889588512937582753344158343999700394018332682390794398, 67350303327341567303664872675307345658867663549221305857041082473184575),
      (True, 122499941354661786233472485700937432900040061875414728670643570416423129, 35611163889389469987654922301840199380342240245497212783977253210223247),
      (True, 34247518182392854538658558488959479179165561695714089566764733098606499, 18418446759371592376799735687423774052183681127705011041697004266691425),
      (False, 4580709802609802649694377758614016532721444361670007055497436936751638, 50018382064960117726139413037012994628874463203589051724205103925874959),
      (True, 67564108073494849678595397947439726516616132207039525643727448587378233, 10820701348675090188781782904093358004259012783131519068556942373226031),
      (False, 1581020839647386328200544932585097837298665051318182793897979002137636, 53882086226459911720719223514639819256392573009799262795782854936937109),
      (False, 39202663809886529253829340683248242738319684636566099630114377491659839, 31026804441375728781910736262517853733312237591303124398479010334543908),
      (False, 12998728410037856559383389039278423275684310698596745005302581405835765, 47195183252526024137441526692345440730174986827957158703624900316773609),
      (True, 60152283995376325647994584946875018567274401010329036844172158211024392, 36291934579476949170961539441498659148733234289554665606497081457366218),
      (False, 17784719167843759080248451890735372301385571443822841055181066035614389, 42939280187358984190817754633417682473964471607542586091661680867112701),
      (True, 49792770173019843489725682141248297432707771882927195984556953030874538, 45426864663646518485482412603622655631572460763133737969073214472904836),
      (False, 27864567034871860577519570032741016091881146573544984347461671156536517, 10649518422501175337413347620245076517440441695780975935993576699785977),
      (False, 1531393189851146376704041272811734152287088311846553906206315285154993, 26468137062010504766510494899990372716311976644238514025378256550645878),
      (True, 18919232686946983744373444805709571712730402048416539839092954989149622, 66794171489631038307525793128576800918843618272561686581786016898594614),
      (True, 120485255594742648986484332523939123206351848922475636959752293680741737, 73723555997206006869384972328794329770427073036451337622245846298282533),
      (False, 73390411519929622829017518506288214258016127354227274680845614202410503, 47260047413850295524340801117859846689527409952507389999000405073549868),
      (False, 30158870963103383167930169422001574142469989357132966553994989329114467, 29758508075917093950376460550151922150999953377758899990487414539215855),
      (True, 23915478654673573194654470649307953392326271387887334466044588590288941, 15533081651677870270914748886790375115989360391793347345549385420752563),
      (True, 6515864120809629562991073281810391185062248833494516442093267749654094, 33032251797657976845775598082804288848602308872313537746715500337914680),
      (True, 29466810460688823946860703076646646679531392451812386380617098723491770, 6555666814127633506350188197211693389805847507378088565552137930169410),
      (True, 1160621240835282919050951948335245017146723158855308505665375786774892, 23106016685637634157287559334335934391370487219714175683276611963389156),
      (False, 7209031751886025387357323333454626263696774267179995147736760732841760, 9873998029049892886497741387572415978018053328879846957763859972516016),
      (True, 2632951390003365084335973123342242516486752734134481300714631218267153, 55979328769682415423166058127506160050484147169866874315296139590696741),
      (True, 84627622889592046404741497839485731337406975361735117551817279388666868, 3972333587906236889512936773951033395330448889846802252475024928072886),
      (True, 426135969297305335777391151775550010303196914667681621025775474146311, 27761516180245189731908187747824767962457452781687581946686976166293915),
      (True, 20813404811946240880143617252782535100322497885252814408259941941988084, 54086688036442362388769764764538014158049767788699155274639419664302262),
      (False, 39500950871114295143440728316281270050926568457830745950227210798568014, 62243176476028797547480952347273962206710983379796077722592821316367946),
      (False, 52313077441074672624183715521083514587340275789277486460515344096561948, 51023904306648405031493181512252039755800111751213581856066693820252080),
      (False, 35153951393554941235147189430086615163186688036328760545643930766393754, 71590560715488230603160546455438943176626670054473393316687045232831522),
      (True, 138410263884334697668989585783302797008286071685872971375087258913406678, 39357750593411277626853990861866899611033627664285504489485487331296022),
      (True, 41832835943989741901730126654307403538393699855890783072761033985881251, 73994299027674238557536821761741624074404976648766356356064316312414311),
      (True, 147860880963161488871598148691873729884102879153389967580661187774800616, 3030880329163152304462673657469374079447722318864915893063539017610730),
      (False, 124040740800502784159158201309001499428680217044235259742974989680252, 20186061522064547348942138738928635052949347431942743397747040877464336),
      (False, 5502118735217848572772976548618763168088411846233689071287546854155947, 31080597194559010657524423485039797717674499604036372503093027172496967),
      (True, 26087681199082037160337956481740719429391040715835570765273587255223214, 58440526477421557842028399989200600975360531510958556328261883512183080),
      (True, 92232718261552073960188940938004804758259176366793297784778916704704998, 41516042357108640934693520320558199706115539433164765985243275517819614),
      (True, 46546674822451590717534199232606053465495981671076303325335704820198264, 56850440753119798199641765124701563093724562108599945471550834900632544)]"
  show "hsteps (hmults (hx 74058212732561358302231226437062788676166966415465897661863160754340907)) (hx 784637716923335095479473677900958302012794430558004314112) ?s (hx 56850440753119798199641765124701563093724562108599945471550834900632544)"
    by (simp only: hsteps.simps if_True if_False simp_thms hex_eval)
  show "chain_exp 189 ?s = 207863881365735" "list_all (\<lambda>(d::bool, q::int, r::int). 0 \<le> q \<and> 0 \<le> r) ?s" "(0::int) < 74058212732561358302231226437062788676166966415465897661863160754340907" by simp_all
qed

lemma pow1_small_1:
  assumes "hval (hx 56850440753119798199641765124701563093724562108599945471550834900632544) mod 74058212732561358302231226437062788676166966415465897661863160754340907 = pow2_mod 74058212732561358302231226437062788676166966415465897661863160754340907 207863881365735"
  shows "hval (hx 68648931893065637410210464875532471739450541519771408167643509998449990) mod 74058212732561358302231226437062788676166966415465897661863160754340907 = pow2_mod 74058212732561358302231226437062788676166966415465897661863160754340907 228548754556276996467495304"
  using assms
proof (rule pow2_chain)
  let ?s = "[(False, 43640975046147379448907198182990012079866321109616377133488698686605918, 59905247070155557589792938963250773898075121489390557708937474376224310),
      (True, 96913994927089439735818909119857892936373873868475114751776280327832044, 51610221560379778677873092924641887428558216155829860483579101455328292),
      (False, 35966503527844003029378274477109145875613536457707873368619714971706678, 12607433573230962643467891411585419083539293033581933793753662675160318),
      (True, 4292498439772539875113245926749808401244742909257348505721785574529891, 7644206704861915064519872494262899263124054706753901718355019928171111),
      (False, 789026550744237461417279879360768391737729621402180595280289091941320, 3656616792795971615964429652879790037527250914219750234205407575397081),
      (False, 180545085764386863080941208067206450607736793694004694604330827698515, 44910072599201880858785016335765272683153853309518365827614176295667456),
      (True, 54468357969940630847903070755584533619290143295762725935134971578551561, 42823733237427961866644958426854511007334944364622345030286946804018045),
      (False, 24762576096899098336158060060456886499967271944551491259875345372347245, 44229501098471092128779605976169943203831069068326638942217283173370810),
      (False, 26415014557319269354969579381474410077524440398545516613213450453762340, 15709313432981918239605436276139977726167899692337037488190852642013720),
      (False, 3332277669552274439986146704874254702288430677915795500904412771491518, 64736048859960574996725171318638238837341298743207500270134321237311574),
      (False, 56587323233587066496277858691136475818689270052206261830675480492579315, 7070111891805060864548757543425365476045914473664363518210803907818771),
      (True, 1349924075082780276702753767445467218150842080270606888311729582469349, 73006098937535659217249858779868473560363143744827874117540793935541339),
      (True, 143937864158956110630592553985582406544529904432008671955108538038374068, 26261028886456709935438836247269744776045331597228431455996526695426166),
      (False, 9312156109758469703849824938210800892317925220974681000635591841851007, 59164004801848140152236676725967919273956568472762473385950375178216207),
      (True, 94530487167808446290027239163393343673157767949897615521410548333089510, 5074814565478457957282033174263980056348248120341405154030853789348128),
      (False, 347749991847549650111835462083637654481009403032134019260908499036193, 70469177349291559466123681724612771667726699584267318722499984723657333),
      (False, 67054075072251032263986933927948862439647103053025031552768932082185748, 55224902731661154825095012409331249029123573085174738085104203915879453),
      (False, 41180981408973794870941102491021225379444826167519209874220736658769210, 12219301287136083619979772169428104279429169654296992171429375052505739),
      (True, 4032269168714558224485966390252941702192553538323437086566338828580863, 43395268309710450924767376581795593145242126782251477239918119537609501),
      (True, 50855921097425868668342240572447226372236984656075340425431102992866322, 55268776644369205451234458373855931073298096374039012089695711263703948),
      (False, 41246440591215224387854183769107645143015597121762276314351387414069189, 31449701159615089460857935188139667440059681354380461699459251599772281),
      (False, 13355489776682415329489866032965129616121053900198373837916608007368668, 4270266321051578943348609850947362855436106466744013275257027353441085),
      (True, 492455158715702634150911974863731001342068732473452735588521925698743, 32447942494260381179317789457463668218690385819077244298629524728574549),
      (False, 14216775334734902284854741485048253965239136015444041419028832683728650, 54980755414433188203062458250353229448483829906751478486261111467667851),
      (True, 81635334000239669851652805874673961220647979182055961350941960933546749, 67956744329022132767714645437480684503377926765859351246559220350355059),
      (False, 62357960439539771786128189601645106508750870812756374588267956349195311, 65059046996379679682899910575007640085683652944613117515805467747006404),
      (False, 57153412699306839625973651182967669345816692900568340219861985411391345, 24299272528052384420260690148753539293873449786856489604039988297761301),
      (True, 15945689846035256996305345415711374281493662633141366364906721213568476, 63451802044238897392199271441770955419508672762410507456557591853977470),
      (False, 54364411914724758443541641883992307341046508006289583044300701856578485, 22597814082411409699612966302411864418534596497329094182886460976015005),
      (False, 6895402717148043514959193901617493506645197422235451317313759372319685, 41038390859567015992972922737202606252633949239260025002469908108295730),
      (False, 22740888042010760031754550134738071144892501565620546614805772040026926, 6863649637622606812243395657090806345933121645807069554558333472971018),
      (True, 1272233952449249670485281565529823906902578794808389441858449973350695, 17624207582733641917495387846056778294471677926149874945567454640532283),
      (True, 8388338887976380979233632060637142191133287221350053799020984786454163, 49193208058566577959104148180871418100167009799773547090851024499038337),
      (False, 32676615189626696606969688926059182374810154778338336992834428126877671, 61578077530096916426596978715402478932905687967287143836897864375537972),
      (False, 51201068624161522796693086448446449429537990654770489420832469529821372, 4105875347237545186198470304769667924697171896217700108781547111408380),
      (False, 227634609924105556505695070201995370181179909042028064268988017474773, 10828997928446210701989189866324491273221686470919068671602815019785289),
      (True, 3166892416314906918693693430858285187093676442534392119535258251078632, 48346849457390357025693369405251523959762280159930721241142046330427818),
      (False, 31561899298008145797706081370360994443202422805003922511586819844195260, 47059771906714119819812480879258455447475740669393630153716347794740304),
      (False, 29903802025433582900323457948355307970738108896316002842234649276338173, 40688680805101588592102734332792292787896502688139661668364615742469505),
      (False, 22354964892793509691491052911460174674276674138938529269381598747491505, 68648931893065637410210464875532471739450541519771408167643509998449990)]"
  show "hsteps (hmults (hx 74058212732561358302231226437062788676166966415465897661863160754340907)) (hx 56850440753119798199641765124701563093724562108599945471550834900632544) ?s (hx 68648931893065637410210464875532471739450541519771408167643509998449990)"
    by (simp only: hsteps.simps if_True if_False simp_thms hex_eval)
  show "chain_exp 207863881365735 ?s = 228548754556276996467495304" "list_all (\<lambda>(d::bool, q::int, r::int). 0 \<le> q \<and> 0 \<le> r) ?s" "(0::int) < 74058212732561358302231226437062788676166966415465897661863160754340907" by simp_all
qed

lemma pow1_small_2:
  assumes "hval (hx 68648931893065637410210464875532471739450541519771408167643509998449990) mod 74058212732561358302231226437062788676166966415465897661863160754340907 = pow2_mod 74058212732561358302231226437062788676166966415465897661863160754340907 228548754556276996467495304"
  shows "hval (hx 69490809710348678725736597923071784769591275419387514694139338586948360) mod 74058212732561358302231226437062788676166966415465897661863160754340907 = pow2_mod 74058212732561358302231226437062788676166966415465897661863160754340907 981609426360740691344999861639072106"
  using assms
proof (rule pow2_chain)
  let ?s = "[(True, 127269499929120772464615526585854164988136094233458206394173569538618142, 17818161401505918158556069249545863733577477380957474073626904299065406),
      (True, 8573981575186599190983813337084739610965500400993071700566079170689824, 44777293032195950306999229438824625693916416402529125060476520480059304),
      (True, 54146755567315981072578964901811582330213354162598612804536251080325523, 39730253019602770864519918142779519123052512407983580023337025838859471),
      (False, 21314219541077787215780681680441156076396487056065405556911207908716445, 69739347985785909195117120511593078001038509240396491072119825759284226),
      (True, 131344694343242240387140996989731845634947517757697103505563730114988853, 5714243634965736365600732601690172024192946701703246837947486037928481),
      (False, 440904244309287667153166437186660481486210696506512803525611201829458, 8966701809750480175132281441372376453010733244796307400251428263928955),
      (False, 1085655977620320063290744023886737844277678485243321116528451044092305, 38083218005577667609334965538993191743775586963748294557364486941971390),
      (True, 39167337156725204457292637679172753909629793556775606512403684320159701, 25367839317771031639952215701897139861415218974366781842116251919875393),
      (True, 17378957657975145986220623857802246461732111946846172678789774784278273, 10980063351514778157005549468018301628451670697274289593367167498595287),
      (True, 3255865534823263176614466836109888802190293622813622970500202692453021, 10622552789254092636906058105188141289654609219000383430847022521194691),
      (True, 3047295461152220427189866373814562132881496811975363930449659464845927, 37997587183541663779003367602879257353611870065895468345626288664735173),
      (True, 38991398212234826587318456173136271795483567459637684363610044019533792, 21856358015838061538321139640202557757811906244077066571949230072250514),
      (True, 12900672811037390088026761126188186993060667560218988915459697638922959, 21775303980155605413463449083452253346837572633045873128875810151344579),
      (False, 6402583129307733717762468072347783353048882562596280557838598256236721, 37207812695334010458645991763120351975762241618636847401056575066841294),
      (True, 37387381479768463221894128959083980892545541552905982316545567930718411, 37066768459898215312323199364324727412010576745391323375440717851850095),
      (False, 18552234429708552230906066971278449227825349130870566166955128734613604, 65626805947523963538669627678002060436780939641818486051885986015610197),
      (False, 58155301079529712686891825227722310086196770252801774077643867699556862, 25627939115667223615495161442228810027303364201690768059766515471224975),
      (True, 17737162134553459723163524430514104903164791560191599596628031593964703, 22215998879008375740440568544676670894116847390171418840696984340495629),
      (False, 6664360210452402490315611173150786364623480370785771235336876870711858, 35672966278453353814284990201267606061600807179621978912351760668730435),
      (False, 17183246477998790248640666963798796068560927665391050837232183657209882, 593108134046836163611118372097765501214679492636961049514195218046251),
      (True, 9500020205533612460863607035023226341966507504527386742282590405388, 66000338066974899546734582618282039671499733981041187452017325268703086),
      (False, 58819197280462360685460293366817666672279025779735201958445338425775591, 25128021495193710391433785416588563254141892544643471369982176932522359),
      (False, 8525961415556822751429961544556541119070489617166438859227337066592683, 43572807545398728076739399730915348192078017524923048607277794141141400),
      (True, 51272897018039938331575911114022356578353089632635441588719792364967345, 64430789838214670370977400022716497713195584758074789776176847535238085),
      (False, 56054913101500797078504486632617290810907833942075047478446719477245190, 23925621013128056732313651708555195202385702977930316835875695148479895),
      (True, 15459064423577447528741810599168204838058394903725897591957194247937479, 59871792106663572955832521242387634588680708476662779603162677650268597),
      (True, 96805779070265861016038157719736767487428588851836723333874565562545129, 39745327798338992893948292242152723184584720464885888454686274650404815),
      (False, 21330397041878268220440035344430235221085025770882907312885155271526734, 31696639904365753107769442767829799140366231137872339266966295574876487),
      (True, 27132088235915598731399234909181487362125011788829694942919061461604934, 44759233612880384862059565985245276826796294382194269589621359021687200),
      (False, 27051543909748800298682990317910115598901721947196911740163252889717035, 43289307772775068289359397777382943891461722110298613870449815488589255),
      (True, 50607869088423557493687882383678272885283588652159591838997884593648727, 25581444385703881019328578566098791501234095168041173362738593038334661),
      (False, 8836431135896618987616964895708495005000121305835174671583745728515123, 69490809710348678725736597923071784769591275419387514694139338586948360)]"
  show "hsteps (hmults (hx 74058212732561358302231226437062788676166966415465897661863160754340907)) (hx 68648931893065637410210464875532471739450541519771408167643509998449990) ?s (hx 69490809710348678725736597923071784769591275419387514694139338586948360)"
    by (simp only: hsteps.simps if_True if_False simp_thms hex_eval)
  show "chain_exp 228548754556276996467495304 ?s = 981609426360740691344999861639072106" "list_all (\<lambda>(d::bool, q::int, r::int). 0 \<le> q \<and> 0 \<le> r) ?s" "(0::int) < 74058212732561358302231226437062788676166966415465897661863160754340907" by simp_all
qed

lemma pow1_small: "(2::nat) ^ 981609426360740691344999861639072106 mod 74058212732561358302231226437062788676166966415465897661863160754340907 = 69490809710348678725736597923071784769591275419387514694139338586948360"
proof -
  have "hval (hx 784637716923335095479473677900958302012794430558004314112) mod 74058212732561358302231226437062788676166966415465897661863160754340907 = pow2_mod 74058212732561358302231226437062788676166966415465897661863160754340907 189" by (simp add: hval_hx pow2_mod_def)
  from pow1_small_0 [OF this] have "hval (hx 56850440753119798199641765124701563093724562108599945471550834900632544) mod 74058212732561358302231226437062788676166966415465897661863160754340907 = pow2_mod 74058212732561358302231226437062788676166966415465897661863160754340907 207863881365735" .
  from pow1_small_1 [OF this] have "hval (hx 68648931893065637410210464875532471739450541519771408167643509998449990) mod 74058212732561358302231226437062788676166966415465897661863160754340907 = pow2_mod 74058212732561358302231226437062788676166966415465897661863160754340907 228548754556276996467495304" .
  from pow1_small_2 [OF this] have "hval (hx 69490809710348678725736597923071784769591275419387514694139338586948360) mod 74058212732561358302231226437062788676166966415465897661863160754340907 = pow2_mod 74058212732561358302231226437062788676166966415465897661863160754340907 981609426360740691344999861639072106" .
  then have "(2::nat) ^ 981609426360740691344999861639072106 mod 74058212732561358302231226437062788676166966415465897661863160754340907 = nat 69490809710348678725736597923071784769591275419387514694139338586948360" by (rule pow2_nat [of 69490809710348678725736597923071784769591275419387514694139338586948360 74058212732561358302231226437062788676166966415465897661863160754340907 981609426360740691344999861639072106, unfolded of_nat_numeral]) simp_all
  also have "\<dots> = 69490809710348678725736597923071784769591275419387514694139338586948360" by simp
  finally show ?thesis .
qed

lemma pow1_full_0:
  assumes "hval (hx 2993155353253689176481146537402947624255349848014848) mod 74058212732561358302231226437062788676166966415465897661863160754340907 = pow2_mod 74058212732561358302231226437062788676166966415465897661863160754340907 171"
  shows "hval (hx 40729185305644356602471113997308306873711468525915510672642752299754772) mod 74058212732561358302231226437062788676166966415465897661863160754340907 = pow2_mod 74058212732561358302231226437062788676166966415465897661863160754340907 188770463451471"
  using assms
proof (rule pow2_chain)
  let ?s = "[(True, 241944239217974006306559737462784, 6189700196426901374495621120),
      (False, 0, 38312388521647221458958675678757729590468478054590054400),
      (True, 39640144153472861193266747385902530560000, 1014120480182583521197362564300800000),
      (False, 13, 65683582802456118417849795416527812824039352619930744988659550193568209),
      (True, 116511940825442459782292841703638125063030228513369450879955054967226566, 730750818665451459101842416358141509827966271488000000000000000000000),
      (True, 14421000434039473909530624000000000000000000000000000000000000000000, 368934881474191032320000000000000000000000000000000000000000000),
      (True, 3675836662704939085518685401140046680296925041297496916, 48809625924748483731799561722316200977022350985513074122619159554857188),
      (True, 64338025318464444342955632505924485856417067396673730327657275284651864, 67081965265659839634802011309121912357716721342572711216089355881534040),
      (True, 121525753805416138346706430465419786222643613467622023455459269458319525, 30154185761289111773970318579344453837419843928642106479836178173134025),
      (False, 12277840436278147552078235941909291386797414739826283931274334589850559, 55979714146881556420759296722019659924749169523733696577652506942183612),
      (False, 42314394046789586056170298750879232160358089862891485603888972641663161, 40097780151135862601136023226120261922348134251869195310714167864139517),
      (False, 21710380438899056550880882523674926494225350295417576107727986598290590, 1210888236669141735186113147451254750685152564225750524109014530828159),
      (True, 39597237567658272342972383747201565209443028065569145797417347431752, 28520090902772294742046987392738656069000542015245104328082450850379498),
      (True, 21966384418152920108892035586816546868272827355371715526077605686746527, 41710527951791149713114816387363791986883722089053417275356928181184019),
      (False, 23491900193430169338230511734225025668169639839191002159248911146484986, 34746133445292654476404191408099243906648796514322579982377258539870059),
      (False, 16301956864093628504845736357669873534101208890285929289259442799565959, 37168282550746136069562020480225900979641675608676994072986479886278668),
      (False, 18653990918750600808612360746129714363898173638984590966165350393279350, 30180817980606422945931729257869200279483962493746904484364669768483774),
      (True, 24599075250920990965964699924108170285272263897712958188511692950423425, 49776262735654995675949713078166983576478491690678278633806933354019677),
      (True, 66911588614117068699398198904270071263095738967568361097386900839281259, 31511304206676897539353435348422870797651826956634285735201501264206745),
      (False, 13407861953022192525515360583100287614807282997531869052634610591277547, 27071408473785301719267339466455760447765971657451334478969063010779896),
      (True, 19791489146545815957710465607018317600638300961522000315343557077080252, 24391468614948384584822873476414723340324948636000652721214898110073068),
      (False, 8033460695878117978682157814213164973805128294136129073486315269504367, 67991436203480062011377816698281207040786449478338401343544614655691755),
      (True, 124843288176717387873822850524755294937458186777864783524456997656225301, 880828378382020692075198874285136798836540666071079671388607397272043),
      (True, 20952669623958573490256909832744100882436509587586334947770868543999, 22906709256919254590005944459787451047742989873516294463124058323720605),
      (False, 7085201081963547004621310899972178859872023860771231827852045034468135, 71193885456389275711222123659939371302120480839112041332913070883067580),
      (False, 68440340906970955918417931053723558575222049878558585240858522205423169, 29596813727301841531266856669040513952004016718050767059676957224782117),
      (False, 11828146406555963407498340128829463776682417463180776224064809712746281, 60136936040100778026256873057448037088452343450894865905279539052584822),
      (False, 48832545950722327106968703327736863850574969650003431199148506143721019, 52248726147229723934982818896812307170100359754709075293969653677347451),
      (True, 73723879723279689681075846441963043174047828067315577063571933055945487, 5841746583726320904423855299782584688288008460993874986493030346258093),
      (False, 460799712676213109078599451342233557917315491938000279079920491277712, 61225978126980705145234224568666104933462598634206971520310012109031865),
      (False, 50617213936049451760329835836911741592497795996980314558122623020134983, 65844596459662995620483832892725162873656939931473157843798725246728644),
      (True, 117083864785995837582446063901718310733878952819052637374389001523679883, 20269069502620816045826404259086698194222588945148611863458302620283591),
      (False, 5547462777500169565927641909138379308051443465979013509197324566949899, 588689268238225880525105826480755253714375946370781501769488228636888),
      (True, 9358990495499417880797574914767462389414660853306623862857812540087, 54208291038285986846608731172563448427404381397389132408824583907210179),
      (False, 39678770373559422596579463319250590625830746047139749136302791641803688, 1903373312369808671736401335508154227937402110727764556046729759347025),
      (False, 48918679408647929858807711168237769945938890480377818395390656076058, 38744820234148713509762808072501451283394866837178441210523335723646019),
      (True, 40540030324455300949257782296521158712512606539462195184941912757687639, 37798037297565389228397042573846662626704094872312706911312376803148149),
      (True, 38582935526878786759394025651029532941714226794487982930667748980889568, 25891268270107415469466517377151780355649291799369648101454552092294226),
      (True, 18103536337163944864326810218785880679831479395602015558143254185273641, 15908287438488163818480650177431493194381694457278569326087031910745765),
      (True, 6834450897146503842002265860324869196607242540210851113752294300488154, 40729185305644356602471113997308306873711468525915510672642752299754772)]"
  show "hsteps (hmults (hx 74058212732561358302231226437062788676166966415465897661863160754340907)) (hx 2993155353253689176481146537402947624255349848014848) ?s (hx 40729185305644356602471113997308306873711468525915510672642752299754772)"
    by (simp only: hsteps.simps if_True if_False simp_thms hex_eval)
  show "chain_exp 171 ?s = 188770463451471" "list_all (\<lambda>(d::bool, q::int, r::int). 0 \<le> q \<and> 0 \<le> r) ?s" "(0::int) < 74058212732561358302231226437062788676166966415465897661863160754340907" by simp_all
qed

lemma pow1_full_1:
  assumes "hval (hx 40729185305644356602471113997308306873711468525915510672642752299754772) mod 74058212732561358302231226437062788676166966415465897661863160754340907 = pow2_mod 74058212732561358302231226437062788676166966415465897661863160754340907 188770463451471"
  shows "hval (hx 51664660411505319543700658924188458532239555282771118362962258462712369) mod 74058212732561358302231226437062788676166966415465897661863160754340907 = pow2_mod 74058212732561358302231226437062788676166966415465897661863160754340907 207555319545557691824614602"
  using assms
proof (rule pow2_chain)
  let ?s = "[(True, 44798989185764085087805109285957930200207618363493558989041277163666182, 6795530159490208196831931101530331812181693444406796752822567498436894),
      (True, 1247106254516382020535322853340860581486120327131864668180951923576370, 55802762359278333881226989276906773914815768748406544547543072971166882),
      (False, 42047305383552329065389796056815762550943742864003237672220601269223990, 1663190257379797455312707478216743777890029539443109098327944890842994),
      (True, 74703445578206725337880371510212540465338717546293321598425402665503, 14162800904931526615012748995142333227296089548240445547911808167136851),
      (False, 2708476508838804249589949099719298802085741610587571089441447117111464, 57211532943859799763179490378765801052502680223075031480627305988338353),
      (False, 44197117119290633377031165494278981764515687475426588704837601782045038, 72907279837916971497300275126577552617498010984657512108897279730983143),
      (False, 71774233501415137551310396610848049247142192561497618457390729234601608, 32328679742323808219068828510519929470394330636680182913290076587779993),
      (False, 14112459581707092939640859692748710450068367064333981774987523091351578, 69154356490087322061631554050411007707958335379094549133504182966678803),
      (True, 129150430319672724259410128078734413569652292497152383744766518651813647, 18402770134385423725185354813800355047402070047756377956366356666067789),
      (True, 9145830992222359328933659404161580131060258617162843878388149887352589, 42126851920915005625171105633964786856854733728541705473121395271638819),
      (True, 47926397013532734275927932079572006001817621927189168052086288634883675, 69857631736146941638172888169435319112487008579276313494290372736436297),
      (True, 131790615293568477940479791101471756477023285259219933120635646576137086, 54971131539354450080167780782426534409394490757801049490480321068567416),
      (False, 40803378737067416663211678580442507687233016445292123198127626149838996, 66585474824006023019233591479211333526341719200781927828928736390307684),
      (False, 59866762833570203175434000515249822549601329942551312020519837418097231, 64974567623958624928939173270096282043509708696028124184384972742715339),
      (True, 114010162604537429603397092469945552629739612186302982646856991095907394, 45143829606920028129673909172889586166806093048832988822411433993803484),
      (True, 55036849429194826205394413004231651025399103326518522442242498154493620, 26596996121627577852081410249423876413661278861323620857775274184563172),
      (False, 9551948076959842891510470332262714253283633962413599332716018210125653, 5169004220268844479662039395953943080061671322545161257583638790714313),
      (False, 360778415293969005705801296163636098162236537781129035199499132306740, 26426925306653506511956028880989540477808333972575967220542133529248789),
      (True, 18860362825266616604738181723031978496623246290742695436994668586214886, 69686016781411071573556506425205506628386200024346879272626804513791440),
      (False, 65571943416938469255479411601748511730792281704222321973416381770238343, 14842155056088000237117729575040584202820008981654614719133426552476499),
      (True, 5949092169006755644280529959686782227817844531137311494779797567746566, 27378136373781835887380960678823690592405020921155290137443961352018640),
      (True, 20242517977262340111082808093030316287576662699776115335757052434066608, 73897920342445066099554659736840845329445322776616809871444763037765744),
      (False, 73737974890897518168223147532165808207476750093432879294464560515998955, 11507059938801480943257649702941781109380472083653630088630755694121351),
      (False, 1787950634365658153654330154255912436475972925692615714648232989906020, 11575481651535816289095526060707621436894830536713696523528230942505061),
      (False, 1809276385711774710218255692895462635366600511830705055316713858574302, 73160989648500722026522734601311851100744409331112055870209121313041807),
      (False, 72274636517047210161838838299878735250120768525623608106380555677685718, 19677919667653376163205777550172168859062839113855364850020142752759023),
      (True, 10457193285097180032197860381909360352689418158927263166073390181877596, 61493201761240616122836949448005318528848131214881558422131556686209486),
      (False, 51060020534171794685584282432167144672638554553072715014847489029349633, 66895820984520153930884558881655022791892265993191813421871458899047065),
      (True, 120852251224404994312558357178129885501973565583621168084549210292802628, 41646374919127363639626962706346082991126921242761601502463380192724854),
      (True, 46839384314278590109111690303226737369832740128019584227836963478867183, 63771197083703303638928520175010618730578834685447334638218992541887651),
      (False, 54913093733093612969366581165866566352462485209116707759985417376257652, 4344743331522370801808607581166885845277142061742932513297732830927437),
      (False, 254891306720780509869741426372090695606780670421430349920818474074129, 42504708377583645764111761142422646144110649251708338747683099104293966),
      (True, 48790003636398720844135427358060673647845485752811357259749186790958484, 24043902206389682617894133330407712169336764096622551039823516468113324),
      (True, 15612292330037609068830135758322590335544423211108801601280396480629957, 17278778333687914028586444848967849751467247669258324457566774517906953),
      (False, 4031371669511758950850958966633089684386084544731198578557291190533331, 60233265726770213189450582006011692329433240180509170371870873245472992),
      (False, 48989114998133881404416340281097052230269767171664267672630033427453814, 60820270238998972862249066232796158277396963384580032146982953048062766),
      (True, 99897233148281726614189953888924404808250238257670667348407642724567184, 70640098909694273413588329749586013261595645984561894855608650190145624),
      (False, 67379746146336772436161749568212698472383248773092431963790485755510136, 4406678748180705506302781773185306899880917534396269136478702088416024),
      (True, 524420368063501753393595530269143180099376963496812007390816474711527, 56180952915245190993788456698826427684794825039644019230068422759402163),
      (False, 42619168813363208511569771229344720368800878184356190234174802364346600, 51664660411505319543700658924188458532239555282771118362962258462712369)]"
  show "hsteps (hmults (hx 74058212732561358302231226437062788676166966415465897661863160754340907)) (hx 40729185305644356602471113997308306873711468525915510672642752299754772) ?s (hx 51664660411505319543700658924188458532239555282771118362962258462712369)"
    by (simp only: hsteps.simps if_True if_False simp_thms hex_eval)
  show "chain_exp 188770463451471 ?s = 207555319545557691824614602" "list_all (\<lambda>(d::bool, q::int, r::int). 0 \<le> q \<and> 0 \<le> r) ?s" "(0::int) < 74058212732561358302231226437062788676166966415465897661863160754340907" by simp_all
qed

lemma pow1_full_2:
  assumes "hval (hx 51664660411505319543700658924188458532239555282771118362962258462712369) mod 74058212732561358302231226437062788676166966415465897661863160754340907 = pow2_mod 74058212732561358302231226437062788676166966415465897661863160754340907 207555319545557691824614602"
  shows "hval (hx 66267797832674393404470501047122165242061726151100426696985814639426464) mod 74058212732561358302231226437062788676166966415465897661863160754340907 = pow2_mod 74058212732561358302231226437062788676166966415465897661863160754340907 228209487247103966327799369350835919852"
  using assms
proof (rule pow2_chain)
  let ?s = "[(True, 72084838046937497703549266037183389428045118085910027509566679020829845, 1685424981771679104233551395510540837314303998250209591721423681214907),
      (False, 38357087814665907553205985506817556556466234281380663820675817697685, 12334987667742760053084921955351810396442917290110794341299433164318354),
      (True, 4108981709100008086870218149571624456683889633849458626552593310246090, 31304862361337566926401003864563934971240609838502601234876602998735002),
      (True, 26465516012416888691440439724500514468257624100928562686629143586206419, 67188599152476500874689596276645233373323937881120211430759801642197975),
      (True, 121912416989435366864920496114246600011202502113319428907221013424149238, 1724346344410183833957087761184970646040264191300951389144386291922384),
      (False, 40149096309118127213997439922872975442417757512317783437807047646245, 33984562432935311328468307985087061856833307323228393623644465611799241),
      (True, 31190341790419095539225854271449784415807002908531881436062815287881633, 43359525697595373534492882811674932240875324754652609195426505430491031),
      (False, 25386090203252069367653233068459727876966959837785149403798707608172487, 47187004159082483081724448004954366680502756479244549016220283315417252),
      (True, 60131436591644532903439796264455364036932917185970612363417097872066710, 12847847765631538722781430775144455135845590792712512921539177732557038),
      (False, 2228884361616086093427613451569548708055730289760187099865727586139650, 41526555005473071820040659994934019140970310808736237868957761713670894),
      (True, 46570250806616760940766832329998068584441785963827448536924460390587801, 17601061033416049584635823575318794839593260508838009914252889816042965),
      (True, 8366319900826542236336784451892163702131654462900497894741003212049942, 33035755916368915456977716356087298747415237788201918946351394874405056),
      (True, 29473062573276557771440180389483045446662140050962056101569171998843657, 34608180838089270840823085441893908061873628475607798697337812744149373),
      (False, 16172766486373524657696927765600885080963931174646428545869017745296365, 6522968632259737771027378940987292260324457273851785467142686378390074),
      (False, 574536141333813163093391742950352521009870550124385731868085988789261, 49421921693561797025135452013156968248492409362363954542714533127125749),
      (False, 32981167837590044084749169926450407903106652686916958552151924181896775, 3719270902293315676913879590351825470894680919292685433305143824936076),
      (False, 186785172558772210274367252790679558487493390513009926834740015802412, 26872085030823407601232587488278887734386583979467138670025759685410092),
      (True, 19501117492842546605525661584242433135700908834319973712863105630934657, 20797523938062385107636473558487426179008764296274767909801124011783029),
      (True, 11681000283283998875297055350928677822014479865972912473336535167562533, 53949796156249671765111839220045754263671811973865112270055265422392251),
      (False, 39301252324459481579418729155774110222894688396232575053438175285137182, 44155466570178235231746793219378044927823704343159774808887758215542927),
      (False, 26326657855907126762020450004385027141326385110646539089919402024375804, 67541925131790651374026940477084915069041771127582919051088165281513101),
      (True, 123197994717543772830557617818868253102064282042263959139607067999260492, 63655470315081472835443801685947839736590627812400790976250357204726158),
      (False, 54713970963177961893633941986720736359083196720595683613558171200480570, 59032841656826355744827068436173139724069086490056196771956619759763974),
      (False, 47055907312596119670687956905079191347877163758466819765741958644092488, 17003456201910042268455537999865231696299265181341204739845810598466060),
      (True, 7807844994972611886501010124359647896759955000000232346571103040751770, 11307252466868823978123244758450966712904123045199138913613301800191810),
      (True, 3452796216166238587215439921043093960653830186536296899860945722354308, 39731388950274938964332675378663441351547410625853272247101306710074844),
      (False, 21315438351430399708104930606656756798581526204128113964567988105612710, 22210738863175814643719246656298956898501988172999921136982108629496366),
      (True, 13322409565287567448862009401331391087826501265899296601740410454314156, 12555930738284717605221800068936190903814989045768415641056879114432420),
      (True, 4257499361317641753417502945323102616946903552967095840097525410606720, 53738843327677809785806468536116422374192007739281846609530456909017760),
      (False, 38994504129141477862489263227002511310986404755292057633218480429288697, 27485025906527658478771401216277066778545321415554191951216502935589421),
      (True, 20400887928810526748954386339043582748115609265398149939882103380027958, 29380218613773937568925503763498610646666484153405066650971161851152576),
      (True, 23311317244728064496052928125977837543162480976322105295795709476086436, 72885410000590038761575123319085450629785042909541386059367062320234100),
      (True, 143462360079841510390250664117972286220343782210688328026862213385906085, 25137699770428729501672369570826265739588416154349410591076020429900905),
      (True, 17065060752414885677817200105951939088729424245318239522682946198373942, 61060179921610788803594550077734425072989128526755825234331654906192656),
      (True, 100686890339178556989077209929243914080430182440261307014888864026888982, 43224207947713978688801966697801691685727988192724080544956128506481998),
      (False, 25227886061119674363874196504779428799854682813747659235477659153368279, 43610344547510440350454762450190574342242188659447340553401182612182951),
      (True, 51361275984894978142385904015726653108585354843345728720458736657162185, 60770911049761636692668892298401719223478869677737745221485788311135007),
      (True, 99735154105178261957482352426424680572112358220488747964896996707969553, 4173928215597823069758775732405228258212734161951505802098802423375527),
      (False, 235243008251855847210610737157342683541303875517121181365280221614701, 46175009929261682961633605127717391311692518097554279897886990305653922),
      (False, 28789940552129682194269331551976940047273675348116793676043142061951660, 66267797832674393404470501047122165242061726151100426696985814639426464)]"
  show "hsteps (hmults (hx 74058212732561358302231226437062788676166966415465897661863160754340907)) (hx 51664660411505319543700658924188458532239555282771118362962258462712369) ?s (hx 66267797832674393404470501047122165242061726151100426696985814639426464)"
    by (simp only: hsteps.simps if_True if_False simp_thms hex_eval)
  show "chain_exp 207555319545557691824614602 ?s = 228209487247103966327799369350835919852" "list_all (\<lambda>(d::bool, q::int, r::int). 0 \<le> q \<and> 0 \<le> r) ?s" "(0::int) < 74058212732561358302231226437062788676166966415465897661863160754340907" by simp_all
qed

lemma pow1_full_3:
  assumes "hval (hx 66267797832674393404470501047122165242061726151100426696985814639426464) mod 74058212732561358302231226437062788676166966415465897661863160754340907 = pow2_mod 74058212732561358302231226437062788676166966415465897661863160754340907 228209487247103966327799369350835919852"
  shows "hval (hx 64146323121780501790772438873864757920782118009658552924684459276777124) mod 74058212732561358302231226437062788676166966415465897661863160754340907 = pow2_mod 74058212732561358302231226437062788676166966415465897661863160754340907 250918984796989595158984577794883846663697238091676"
  using assms
proof (rule pow2_chain)
  let ?s = "[(True, 118593762057166633253663353951989434575567328401308381388121387221598797, 39420382232380275937187141601225203597660591858650231537001623207997713),
      (True, 41966082572331001496877800834194476917951773222383841389551992737893816, 48257209805730229101842072778521561073615999246804312603900098795329626),
      (False, 31444970278230530831318274809572508353950366721436080287693528769385449, 67100145689033418875040802211365771840091768724170831836868256562037633),
      (True, 121591634077064777060720356863116366221170097948256022629398995259021921, 31883895717314731501400458372106407226583725821538212481175137996463031),
      (True, 27453614355606429318163204060816016781305848672615527195827185278716237, 65572332690103799341317212542260920768975289175863125890785358285206963),
      (False, 58058798015404739050734018980819848464408754805656062743531556660894685, 60202360900183063175843834734374262996203530227822534885432731629304074),
      (False, 48938856667308888942624355463717991815067154273228352113491315633618401, 30873770386263388028027379186981350911836767754537063046821661250767769),
      (True, 25741633849735692324168196468275902870614685345190193116394524727193260, 19511929459557011745494177265406429735818009226034392658299692625787902),
      (True, 10281517125171958111582099330815074638707691759463214586733857873771233, 28664853416633696533245297446176271618923221953557438452339769167394877),
      (False, 11094972334321931806445148125206173209973747906146395544921359416067551, 50083665339571999901453157528322324678974241789743124432037324051236372),
      (False, 33870295289254028506715422887161685532169888246151617792962910941976914, 54420459838678711313062262204705926895975264192147026698902892135901386),
      (True, 79979960082161542122551288975516606357422513753806340547176808768144168, 66831750851970837154095734385505919531577486724420426262193317037561616),
      (False, 60310433605375343872067667957542336166875856200022022268674156070877818, 60993710531500889557467619745590608863780307348793147209901009480230530),
      (False, 50233898269122535370812160634506104455075601846484111811164957678358469, 25312200468660705119087111941185186638056780823555767023019320167489517),
      (False, 8651403658354365950512056765192429737825676794868618449442577376825401, 1632428298284055903792939127788568055920755048753152468010304533914582),
      (True, 71965607883673099319684998261430341864345641816014817391884246808469, 37100738299146412317848671375362022295887528214199392353262721383728065),
      (False, 18586254401148351430918545766482724117146762481066036309812130160383728, 12053259378776376607547404775574758213399343703264929587730561021082929),
      (True, 3923428780996887303506339052417387812253874045425035214474466415562237, 12106181457794696123156400140310079588551317081658839873916479016909123),
      (False, 1978978753083165853099225530645222004750445483988463053387987985845528, 50158997052850196156263669520171797259540197777147100756465453687215233),
      (False, 33972261718404280063673340839595905705713768357004220981264525938274862, 36933310750005739049702850162572125534446707461127682936868669050864455),
      (False, 18418881480200043867775457049512580892214822982992595159394441733059180, 30670870238916976211998749522309455782502670038340511423624669056570765),
      (True, 25404401389202907010478404551716936352220240991939304011936947864776338, 38830790641689920261660618126621514298733780334227306558172466746311884),
      (False, 20360068738140125222329236367141572554558562513965405662377333364984158, 60573575090487335294681566312639857066368736642309426361150524413278150),
      (False, 49544241804659160793103366359854295507167628220698737886287838388225951, 58047558531492412171294509217981555140488985426678404435591087269144943),
      (False, 45498249649029846458662985504298241629623034762092266108388774445501152, 71956345811095097043018662016819458469228319029010456966087001273248385),
      (True, 139828265129315058350567291859407338658655406199094507139493508402633582, 31516048918991027863909765562476480797649995385598915766609042375677576),
      (True, 26823799895120230366968158431507871297094071739328206043028718473447274, 13476776121212525161362788187960532316608594014644863451902338132634034),
      (False, 2452442314225998891430317586871079545140067130406663002193373961404937, 59307343457309437952483864704741626739534987323867616797677467804255297),
      (False, 47494543254306456634187540140861072791235376021289173464634916060199046, 48683791108696266531568100622383771238941977176667262092147205792383487),
      (True, 64006716588587097785199862212293423941673893610372226678199435486352884, 39790635832330873218509457357152036395280887709044957745541660301932550),
      (True, 42758112612270550546651416396006940563678933283567202089784152668361484, 34479642621743694635577181794735211116616616324950393341850817454579012),
      (True, 32105710128769057766473843996692965775879254377186648066842138082940994, 38663037850172365383115411625994481092194499770489887536609381660350730),
      (True, 40369067538855825639795474306325464020743987467434004885529017126612705, 13704275865888149275794676763287620894018348514550168763363331495642365),
      (False, 2535939905633055274842257795578661222912280550149851472602374548352879, 13551349414357860249908075916199745209512284495358581550701117881871972),
      (False, 2479658422397710330012625184756782827433614377674414740248090893697491, 33932284979406229403113260990952285179991263649839727073381857054604447),
      (True, 31094457223308029759053966049028257360517340476414384454268967601081011, 73525767946833325945475388437268047154731489947177759492627783246134641),
      (True, 145994302392736424327734583887392652190700359041474204977770915379056976, 43444524791103223440687318752434279504679972593740957081825886919880530),
      (True, 50971436244097556542171802180531959471079845931542472767146439481730603, 42913593086873152749705770531607006318314770849854076087203945949484879),
      (False, 24866607006518221665135324002937712779832279637647723828696695609444891, 5503157699251386519229540231365925115443018937762161837769708606188504),
      (False, 408931616702578686805731658412424481059421492054151328480712797574356, 64146323121780501790772438873864757920782118009658552924684459276777124)]"
  show "hsteps (hmults (hx 74058212732561358302231226437062788676166966415465897661863160754340907)) (hx 66267797832674393404470501047122165242061726151100426696985814639426464) ?s (hx 64146323121780501790772438873864757920782118009658552924684459276777124)"
    by (simp only: hsteps.simps if_True if_False simp_thms hex_eval)
  show "chain_exp 228209487247103966327799369350835919852 ?s = 250918984796989595158984577794883846663697238091676" "list_all (\<lambda>(d::bool, q::int, r::int). 0 \<le> q \<and> 0 \<le> r) ?s" "(0::int) < 74058212732561358302231226437062788676166966415465897661863160754340907" by simp_all
qed

lemma pow1_full_4:
  assumes "hval (hx 64146323121780501790772438873864757920782118009658552924684459276777124) mod 74058212732561358302231226437062788676166966415465897661863160754340907 = pow2_mod 74058212732561358302231226437062788676166966415465897661863160754340907 250918984796989595158984577794883846663697238091676"
  shows "hval (hx 62816709427018371758752275322786913405457365846212456517178180422197617) mod 74058212732561358302231226437062788676166966415465897661863160754340907 = pow2_mod 74058212732561358302231226437062788676166966415465897661863160754340907 275888341414039426677790382642532842890050137100614226094868632"
  using assms
proof (rule pow2_chain)
  let ?s = "[(False, 55561032574510525980811946533517515656256250334454406765601612170092534, 8448695484825664945238721065649273784968573624098830844940127998223038),
      (False, 963842533617200777529872551704294465739432868084547376299656793340100, 58218842247205537338930168241243444907978151046097012050548003000478744),
      (False, 45767153534273230119803183689658394174119338888071527602437551725596302, 3517868117704116821433767305011249521814711172584470600716643629291622),
      (True, 334207257694675226493145517048546871519223312689665784053143576878198, 34682534062405588826209638324503698278234708795114633810106470930936182),
      (True, 32484666442971057137475460141792734132135190829073254091761447090361023, 43021845738621842786194280271189811461611913004803748065086384866206387),
      (False, 24992220882262714322437353562598600958526235688608085836415601264907336, 47066334363725288404856629467803093493806134956241335006120413770400017),
      (True, 59824285483033482700310763785498556915632419499050892390328357621115896, 71656034249665291474297382609825600053444359999652331335496169046442906),
      (False, 69331773680944754514479899069051023238760945605998461367209747882034063, 4532302360208299749403241410270928214223685654265822641217187429409695),
      (True, 554746433282964599580543692920099043585547168473980960587457404612955, 5227283813084482351057592282595757205232929300754167317839829861335865),
      (True, 737919402975848926532617339139569812720628805554487898746227205291867, 2847114559590946038175189897136983487593681548170783648679622518093081),
      (False, 109455265207483659818413418817795214683932649600847222972059778418425, 5715366183194059776962833633270066047975495884770259774577830840061086),
      (True, 882154980595046217254413850801531376286308609089161787778731883961650, 17933614173297055511922295723820007865348816158729258544227326608782242),
      (True, 8685451766925398087735394539420545666846717508866261202517166924707319, 21301626889227226263625563291793148689220520457389901851489044625094795),
      (True, 12254125272141300667981376258331438027319661938469778968871149480582226, 70821372087203339451857537476944788478712781340909509991681790223265068),
      (True, 135452006178616666522928181057801551179630964561447692455416125547424853, 26973529761829739022345561867696200422970490834377115937555646051727577),
      (True, 19648632635511108246094495798290204070665746341189705553489474284927781, 19665966182876234773894961531385267549563018203118193934856893695544491),
      (True, 10444492558918809331152482095796181384956773143718507275283278331773493, 52187323999123130187600620080883698994007515539645557825728786292720011),
      (False, 36775351250030877848164639147076042724576521526205588205425533355366493, 4471128737530873481284777674846266020985451170124038560214503192810970),
      (False, 269936195459722907219766989625492426608213151971318212816958081951607, 37922230838219070753528911483387832304133275852565260739553414597853351),
      (False, 19418448524276665747052227245036427285895855799940499090992660732473022, 11033982827422101398945521420857576080426888604651567781262753533418247),
      (False, 1643960508141134817898618855031376917768182009896346667251303558838704, 21844806126079074109894001712787690717781434044294229504591652390488481),
      (False, 6443519726964354495139817960529472990220475209256097696624859394997208, 28910326956718588816415863524541457101931201421019134029175532648499705),
      (False, 11285811173470139117262896956251092048546541717293831227149243799562329, 33175761488626935141893194324837008986637658350459085929962373924194622),
      (False, 14861702838074903264906061111788974840240051981959729610077689958679402, 67669655054887480815198666427380935079507581610359144013526378706825270),
      (False, 61832199917972343505335105824854408023143002160785009623745373379282994, 18573837424811328134602619977051715522890118259630663428463053606937342),
      (True, 9316655748340532839129173678780078817116369614430638599059307013953268, 27991669789329847409119017525371437913417746441263231818342528389315852),
      (False, 10579968766251134632235376680884874103471235872838135027142423675061509, 24986173978925398832557262649792579047937169125637163149541932638637241),
      (False, 8429975111060670478121680428046347418402436421027935337414329474581678, 20900041245058112250503790054780818558090897407947872730601493163990135),
      (True, 11796442499160559715649844764145086002498299358939713438718642506862857, 36116959692707414051940197944129288971907897422201316999787947480645151),
      (False, 17613641071183020145148214416641903888405823497618050899645221035535719, 69487203005999170773463835168583453754519556391435070454236221678455668),
      (False, 65198324445574882092627146192950561993540215547731090022695844683255303, 12507583686202808041695131112942876322562025814023259963167936463746403),
      (False, 2112387592073018181881607718924988042356042399183352913390511783172580, 31507824184723945878832113918198168431772766076685992097063750960708349),
      (True, 26809801323195946135663716941227000144640189606897270503593969956933306, 41203322383448585388700040599864801103667270417501808011465282690063060),
      (False, 22924044650728617757396971204009796881211081587141699424277701838768201, 41228301801423507583633737205527941910280079533870771191245734271465293),
      (False, 22951848373217863006414109126907227344045372337350067861248336289862118, 56125151366490582836076494185473101342318992994627436971405044306514823),
      (True, 85069096314459046486005483223257024896516859384976130028554281753173860, 28323761401501423319740767466650676138144076600591380874351201756351638),
      (True, 21664996502851358033563678221940433639881523412145393339269683323210525, 61713465242387963666511984434176895115856388939392619341212151030119913),
      (False, 51426461045945709931077878611194005762970409335505083633698147530735675, 25677987152966124656899148729216654306172613138876553253444975702370344),
      (False, 8903253263874559108534599510582667504951660227310517946829518866381336, 64143741142054044476126401709388927497443333794931240198945431324566584),
      (False, 55556559845115457975148521832572028259277813177472938110199794949008877, 62816709427018371758752275322786913405457365846212456517178180422197617)]"
  show "hsteps (hmults (hx 74058212732561358302231226437062788676166966415465897661863160754340907)) (hx 64146323121780501790772438873864757920782118009658552924684459276777124) ?s (hx 62816709427018371758752275322786913405457365846212456517178180422197617)"
    by (simp only: hsteps.simps if_True if_False simp_thms hex_eval)
  show "chain_exp 250918984796989595158984577794883846663697238091676 ?s = 275888341414039426677790382642532842890050137100614226094868632" "list_all (\<lambda>(d::bool, q::int, r::int). 0 \<le> q \<and> 0 \<le> r) ?s" "(0::int) < 74058212732561358302231226437062788676166966415465897661863160754340907" by simp_all
qed

lemma pow1_full_5:
  assumes "hval (hx 62816709427018371758752275322786913405457365846212456517178180422197617) mod 74058212732561358302231226437062788676166966415465897661863160754340907 = pow2_mod 74058212732561358302231226437062788676166966415465897661863160754340907 275888341414039426677790382642532842890050137100614226094868632"
  shows "hval (hx 1) mod 74058212732561358302231226437062788676166966415465897661863160754340907 = pow2_mod 74058212732561358302231226437062788676166966415465897661863160754340907 74058212732561358302231226437062788676166966415465897661863160754340906"
  using assms
proof (rule pow2_chain)
  let ?s = "[(True, 106563170717824735821877229609777454951650256165801511649834694519992754, 53605215187800231406943822520335594815195613158644993794267991915169500),
      (True, 77601632264802451058902456180736783509576878675289213540364937881739406, 35392279588354369277993449029050445321426086244161024528575505200818758),
      (True, 33827806754766731082942017440750152200563215011024825764426215474781908, 13579505235554460919771912888675496432924108849128554118413807021414572),
      (True, 4979946332444345007054088109777354203951990246960909455785306641231212, 12905168316996862587497280861171246250276409168631769110130187731097084),
      (True, 4497634040709035314329848686269391067208787621571238969033350444162374, 44367265816835265920392817004338982583288201075085204477264586408172894),
      (False, 26579824214367570016128428951672519200001873387857709159464209172852359, 68649737656217639088429373915437396526988251581046571986587271131185623),
      (True, 127272487584497797956099697869743553450906921082534703332005528865775889, 44052610961805763982480161818411383224039063983382025675465361996804935),
      (True, 52408300469259545963078364539176642844114745895432879313819418519703425, 67584883153018401499646129463741082013570789564504231118977617895201975),
      (False, 61677378676448281631155529256291444843811171236668202924396310444121372, 154897093454864164673284149172368787040389364342111296446117471336221),
      (False, 323976351514297519352972091676551704304260822184369386738042145310, 5996887571432884123438277110117309742510610214550343191702649855364671),
      (True, 971199795876100115820377981384736540607655503349989044722150013749977, 68156330500015474086691528651616712821509879803100966198641816668467343),
      (False, 62724783867015135270872863355045327579570637439264391614276737304857226, 20335694180036956263044578371823592011105868227634549230537469291135667),
      (False, 5583991869711521878250766871642526098528744775747110816679283838593004, 60610485487539643929815319136520230057582842949063641416126294358320261),
      (False, 49604639586718777852514068025287067812506951152709812861161191980584447, 42732548644083999593479100713225724899157858561619164308371159303034692),
      (False, 24657234440875619818912855734834011426994283728303767461221500039340629, 68352252903802304832858361082475876366669527947750335776421694793724361),
      (False, 63085919908666488397705547098528211924262849603331453152749747736732847, 2786068502745900137331916046524629063614996769852269060408656222186092),
      (False, 104811842138609507853813718162029486478777092290370493566120674335887, 61352076294671624087145649929828696798128712623770133243418458856002955),
      (True, 101651852692152443482070296074344756479986351125776182099306781882292818, 56259280756580902628877884367340347832555477781774206380530866367758124),
      (False, 42738091488618708585196030333883241738832486794588896120352483917557647, 14089565386620262440165445902014486780087349267751962340098937105233547),
      (False, 2680537991116896444346222810526362411811769618968717346310989742934646, 69529853600877686293661527628521915365708567600651392372158799708837287),
      (False, 65278385251038212909243676963413868554031372916388830518355303177304370, 61931814477778937429008662884532670820208057811185456178089965160656779),
      (False, 51791010112017504347938927686146680973294750337136069882326296139115700, 10464509856658871519864692477362649148353176417673175016912935322714941),
      (True, 2957294336431208945892095356056039616653902407857070108411605172800352, 31114441842078133924436296787384452518187950854211847891728777031667698),
      (False, 13072263769584759036951504788660681830372047370536091154590209563847902, 28971653454968445710694108194287351302172831323253192144090114291892090),
      (True, 22667484751377021302471908717174759355659454968494349782144967342564599, 6403130495642331776968542037196945651880428015040772196646625093384907),
      (False, 553619627471757853402618358293982562180842736178066726090886863796111, 24459794481472842914152717352883748826152361873207615800257387020585972),
      (True, 16157061425081931724191962349576967558364483024451733902105846052138466, 74058212732561358302231226437062788676166966415465897661863160754340906),
      (False, 74058212732561358302231226437062788676166966415465897661863160754340905, 1)]"
  show "hsteps (hmults (hx 74058212732561358302231226437062788676166966415465897661863160754340907)) (hx 62816709427018371758752275322786913405457365846212456517178180422197617) ?s (hx 1)"
    by (simp only: hsteps.simps if_True if_False simp_thms hex_eval)
  show "chain_exp 275888341414039426677790382642532842890050137100614226094868632 ?s = 74058212732561358302231226437062788676166966415465897661863160754340906" "list_all (\<lambda>(d::bool, q::int, r::int). 0 \<le> q \<and> 0 \<le> r) ?s" "(0::int) < 74058212732561358302231226437062788676166966415465897661863160754340907" by simp_all
qed

lemma pow1_full: "(2::nat) ^ 74058212732561358302231226437062788676166966415465897661863160754340906 mod 74058212732561358302231226437062788676166966415465897661863160754340907 = 1"
proof -
  have "hval (hx 2993155353253689176481146537402947624255349848014848) mod 74058212732561358302231226437062788676166966415465897661863160754340907 = pow2_mod 74058212732561358302231226437062788676166966415465897661863160754340907 171" by (simp add: hval_hx pow2_mod_def)
  from pow1_full_0 [OF this] have "hval (hx 40729185305644356602471113997308306873711468525915510672642752299754772) mod 74058212732561358302231226437062788676166966415465897661863160754340907 = pow2_mod 74058212732561358302231226437062788676166966415465897661863160754340907 188770463451471" .
  from pow1_full_1 [OF this] have "hval (hx 51664660411505319543700658924188458532239555282771118362962258462712369) mod 74058212732561358302231226437062788676166966415465897661863160754340907 = pow2_mod 74058212732561358302231226437062788676166966415465897661863160754340907 207555319545557691824614602" .
  from pow1_full_2 [OF this] have "hval (hx 66267797832674393404470501047122165242061726151100426696985814639426464) mod 74058212732561358302231226437062788676166966415465897661863160754340907 = pow2_mod 74058212732561358302231226437062788676166966415465897661863160754340907 228209487247103966327799369350835919852" .
  from pow1_full_3 [OF this] have "hval (hx 64146323121780501790772438873864757920782118009658552924684459276777124) mod 74058212732561358302231226437062788676166966415465897661863160754340907 = pow2_mod 74058212732561358302231226437062788676166966415465897661863160754340907 250918984796989595158984577794883846663697238091676" .
  from pow1_full_4 [OF this] have "hval (hx 62816709427018371758752275322786913405457365846212456517178180422197617) mod 74058212732561358302231226437062788676166966415465897661863160754340907 = pow2_mod 74058212732561358302231226437062788676166966415465897661863160754340907 275888341414039426677790382642532842890050137100614226094868632" .
  from pow1_full_5 [OF this] have "hval (hx 1) mod 74058212732561358302231226437062788676166966415465897661863160754340907 = pow2_mod 74058212732561358302231226437062788676166966415465897661863160754340907 74058212732561358302231226437062788676166966415465897661863160754340906" .
  then have "(2::nat) ^ 74058212732561358302231226437062788676166966415465897661863160754340906 mod 74058212732561358302231226437062788676166966415465897661863160754340907 = nat 1" by (rule pow2_nat [of 1 74058212732561358302231226437062788676166966415465897661863160754340907 74058212732561358302231226437062788676166966415465897661863160754340906, unfolded of_nat_numeral]) simp_all
  also have "\<dots> = 1" by simp
  finally show ?thesis .
qed

lemma isprime_1: "isprime 74058212732561358302231226437062788676166966415465897661863160754340907"
proof (rule pocklington)
  show "isprime 75445702479781427272750846543864801" by (rule isprime_2)
  show "odd (75445702479781427272750846543864801::nat)" by simp
  show "odd (74058212732561358302231226437062788676166966415465897661863160754340907::nat)" by simp
  show "1 < (74058212732561358302231226437062788676166966415465897661863160754340907::nat)" by simp
  have "(69490809710348678725736597923071784769591275419387514694139338586948360::nat) ^ 75445702479781427272750846543864801 mod 74058212732561358302231226437062788676166966415465897661863160754340907 = (2 ^ 981609426360740691344999861639072106 mod 74058212732561358302231226437062788676166966415465897661863160754340907) ^ 75445702479781427272750846543864801 mod 74058212732561358302231226437062788676166966415465897661863160754340907" unfolding pow1_small ..
  also have "\<dots> = (2 ^ 981609426360740691344999861639072106) ^ 75445702479781427272750846543864801 mod 74058212732561358302231226437062788676166966415465897661863160754340907" by (rule power_mod)
  also have "\<dots> = 2 ^ (981609426360740691344999861639072106 * 75445702479781427272750846543864801) mod 74058212732561358302231226437062788676166966415465897661863160754340907" by (simp only: power_mult)
  also have "(981609426360740691344999861639072106 * 75445702479781427272750846543864801 :: nat) = 74058212732561358302231226437062788676166966415465897661863160754340906" by simp
  also have "(2::nat) ^ 74058212732561358302231226437062788676166966415465897661863160754340906 mod 74058212732561358302231226437062788676166966415465897661863160754340907 = 1" by (rule pow1_full)
  finally show "(69490809710348678725736597923071784769591275419387514694139338586948360::nat) ^ 75445702479781427272750846543864801 mod 74058212732561358302231226437062788676166966415465897661863160754340907 = 1" .
  have "(69490809710348678725736597923071784769591275419387514694139338586948360 + 74058212732561358302231226437062788676166966415465897661863160754340907 - 1) * 70463328703800545008217672123162676565183935400628861884889913886334520 = (1::nat) + 74058212732561358302231226437062788676166966415465897661863160754340907 * 136580962195658683469611413900812535587668186987855916800302518265776717" by simp
  also have "\<dots> mod 74058212732561358302231226437062788676166966415465897661863160754340907 = 1 mod 74058212732561358302231226437062788676166966415465897661863160754340907" by (rule mod_mult_self2)
  also have "\<dots> = 1" by simp
  finally show "(69490809710348678725736597923071784769591275419387514694139338586948360 + 74058212732561358302231226437062788676166966415465897661863160754340907 - 1) * 70463328703800545008217672123162676565183935400628861884889913886334520 mod 74058212732561358302231226437062788676166966415465897661863160754340907 = (1::nat)" .
  show "(150891404959562854545501693087729602::nat) = 2 * 75445702479781427272750846543864801" by simp
  show "74058212732561358302231226437062788676166966415465897661863160754340907 = 1 + 150891404959562854545501693087729602 * (3 * 150891404959562854545501693087729602 + (38130498301681782035994851556347247::nat))" by simp
  show "3 + 1 < (38130498301681782035994851556347247::nat)" by simp
  show "38130498301681782035994851556347247 < (150891404959562854545501693087729602::nat)" by simp
qed

lemma pow0_small_start: "hval (hx 1569275433846670190958947355801916604025588861116008628224) mod 57896044618658097711785492504343953926634992332820282019728792003956564819949 = pow2_mod 57896044618658097711785492504343953926634992332820282019728792003956564819949 190"
  by (simp add: hval_hx pow2_mod_def)

lemma pow0_small_0:
  assumes "hval (hx 1569275433846670190958947355801916604025588861116008628224) mod 57896044618658097711785492504343953926634992332820282019728792003956564819949 = pow2_mod 57896044618658097711785492504343953926634992332820282019728792003956564819949 190"
  shows "hval (hx 58323138817310073971325837347118515600524937525475360525233733254431935781430) mod 57896044618658097711785492504343953926634992332820282019728792003956564819949 = pow2_mod 57896044618658097711785492504343953926634992332820282019728792003956564819949 781764"
  using assms
proof (rule pow2_bits)
  let ?s = "[True, True, False, True, True, True, False, False, False, True, False, False]"
  show "heq (hsq (hx 1569275433846670190958947355801916604025588861116008628224) ?s) (hx 58323138817310073971325837347118515600524937525475360525233733254431935781430)"
    by (simp only: append.simps hsq.simps hdbl.simps if_True if_False simp_thms hex_eval)
  show "57896044618658097711785492504343953926634992332820282019728792003956564819949 = 2 ^ 255 - (19::int)" "bits_exp 190 ?s = 781764" by simp_all
qed

lemmas pow0_small_at_0 = pow0_small_0 [OF pow0_small_start]

lemma pow0_small_exp_0: "(2::nat) ^ 781764 mod 57896044618658097711785492504343953926634992332820282019728792003956564819949 = 427094198651976259540344842774561673889945192655078505504941250475370961481"
proof -
  have "hval (hx 427094198651976259540344842774561673889945192655078505504941250475370961481) mod int 57896044618658097711785492504343953926634992332820282019728792003956564819949 = pow2_mod (int 57896044618658097711785492504343953926634992332820282019728792003956564819949) 781764"
    using pow0_small_at_0 by (simp add: hval_hx)
  then have "(2::nat) ^ 781764 mod 57896044618658097711785492504343953926634992332820282019728792003956564819949 = nat 427094198651976259540344842774561673889945192655078505504941250475370961481" by (rule pow2_nat) simp_all
  also have "\<dots> = 427094198651976259540344842774561673889945192655078505504941250475370961481" by simp
  finally show ?thesis .
qed

lemma pow0_full_start: "hval (hx 57896044618658097711785492504343953926634992332820282019728792003956564819968) mod 57896044618658097711785492504343953926634992332820282019728792003956564819949 = pow2_mod 57896044618658097711785492504343953926634992332820282019728792003956564819949 255"
  by (simp add: hval_hx pow2_mod_def)

lemma pow0_full_0:
  assumes "hval (hx 57896044618658097711785492504343953926634992332820282019728792003956564819968) mod 57896044618658097711785492504343953926634992332820282019728792003956564819949 = pow2_mod 57896044618658097711785492504343953926634992332820282019728792003956564819949 255"
  shows "hval (hx 173009039784688025492398704328930856314267125620842153266152539085365669541492) mod 57896044618658097711785492504343953926634992332820282019728792003956564819949 = pow2_mod 57896044618658097711785492504343953926634992332820282019728792003956564819949 281474976710655"
  using assms
proof (rule pow2_bits)
  let ?s = "[True, True, True, True, True, True, True, True, True, True] @ [True, True, True, True, True, True, True, True, True, True] @ [True, True, True, True, True, True, True, True, True, True] @ [True, True, True, True, True, True, True, True, True, True]"
  show "heq (hsq (hx 57896044618658097711785492504343953926634992332820282019728792003956564819968) ?s) (hx 173009039784688025492398704328930856314267125620842153266152539085365669541492)"
    by (simp only: append.simps hsq.simps hdbl.simps if_True if_False simp_thms hex_eval)
  show "57896044618658097711785492504343953926634992332820282019728792003956564819949 = 2 ^ 255 - (19::int)" "bits_exp 255 ?s = 281474976710655" by simp_all
qed

lemmas pow0_full_at_0 = pow0_full_0 [OF pow0_full_start]

lemma pow0_full_1:
  assumes "hval (hx 173009039784688025492398704328930856314267125620842153266152539085365669541492) mod 57896044618658097711785492504343953926634992332820282019728792003956564819949 = pow2_mod 57896044618658097711785492504343953926634992332820282019728792003956564819949 281474976710655"
  shows "hval (hx 10206601475148846935039781527637194584781325524341657018546582116449603416692) mod 57896044618658097711785492504343953926634992332820282019728792003956564819949 = pow2_mod 57896044618658097711785492504343953926634992332820282019728792003956564819949 309485009821345068724781055"
  using assms
proof (rule pow2_bits)
  let ?s = "[True, True, True, True, True, True, True, True, True, True] @ [True, True, True, True, True, True, True, True, True, True] @ [True, True, True, True, True, True, True, True, True, True] @ [True, True, True, True, True, True, True, True, True, True]"
  show "heq (hsq (hx 173009039784688025492398704328930856314267125620842153266152539085365669541492) ?s) (hx 10206601475148846935039781527637194584781325524341657018546582116449603416692)"
    by (simp only: append.simps hsq.simps hdbl.simps if_True if_False simp_thms hex_eval)
  show "57896044618658097711785492504343953926634992332820282019728792003956564819949 = 2 ^ 255 - (19::int)" "bits_exp 281474976710655 ?s = 309485009821345068724781055" by simp_all
qed

lemmas pow0_full_at_1 = pow0_full_1 [OF pow0_full_at_0]

lemma pow0_full_2:
  assumes "hval (hx 10206601475148846935039781527637194584781325524341657018546582116449603416692) mod 57896044618658097711785492504343953926634992332820282019728792003956564819949 = pow2_mod 57896044618658097711785492504343953926634992332820282019728792003956564819949 309485009821345068724781055"
  shows "hval (hx 84859478886688222202018361729709287869681990480150267887901455620066798251880) mod 57896044618658097711785492504343953926634992332820282019728792003956564819949 = pow2_mod 57896044618658097711785492504343953926634992332820282019728792003956564819949 340282366920938463463374607431768211455"
  using assms
proof (rule pow2_bits)
  let ?s = "[True, True, True, True, True, True, True, True, True, True] @ [True, True, True, True, True, True, True, True, True, True] @ [True, True, True, True, True, True, True, True, True, True] @ [True, True, True, True, True, True, True, True, True, True]"
  show "heq (hsq (hx 10206601475148846935039781527637194584781325524341657018546582116449603416692) ?s) (hx 84859478886688222202018361729709287869681990480150267887901455620066798251880)"
    by (simp only: append.simps hsq.simps hdbl.simps if_True if_False simp_thms hex_eval)
  show "57896044618658097711785492504343953926634992332820282019728792003956564819949 = 2 ^ 255 - (19::int)" "bits_exp 309485009821345068724781055 ?s = 340282366920938463463374607431768211455" by simp_all
qed

lemmas pow0_full_at_2 = pow0_full_2 [OF pow0_full_at_1]

lemma pow0_full_3:
  assumes "hval (hx 84859478886688222202018361729709287869681990480150267887901455620066798251880) mod 57896044618658097711785492504343953926634992332820282019728792003956564819949 = pow2_mod 57896044618658097711785492504343953926634992332820282019728792003956564819949 340282366920938463463374607431768211455"
  shows "hval (hx 101256891187952091532061185554728146082965762259212615188246093835340774572384) mod 57896044618658097711785492504343953926634992332820282019728792003956564819949 = pow2_mod 57896044618658097711785492504343953926634992332820282019728792003956564819949 374144419156711147060143317175368453031918731001855"
  using assms
proof (rule pow2_bits)
  let ?s = "[True, True, True, True, True, True, True, True, True, True] @ [True, True, True, True, True, True, True, True, True, True] @ [True, True, True, True, True, True, True, True, True, True] @ [True, True, True, True, True, True, True, True, True, True]"
  show "heq (hsq (hx 84859478886688222202018361729709287869681990480150267887901455620066798251880) ?s) (hx 101256891187952091532061185554728146082965762259212615188246093835340774572384)"
    by (simp only: append.simps hsq.simps hdbl.simps if_True if_False simp_thms hex_eval)
  show "57896044618658097711785492504343953926634992332820282019728792003956564819949 = 2 ^ 255 - (19::int)" "bits_exp 340282366920938463463374607431768211455 ?s = 374144419156711147060143317175368453031918731001855" by simp_all
qed

lemmas pow0_full_at_3 = pow0_full_3 [OF pow0_full_at_2]

lemma pow0_full_4:
  assumes "hval (hx 101256891187952091532061185554728146082965762259212615188246093835340774572384) mod 57896044618658097711785492504343953926634992332820282019728792003956564819949 = pow2_mod 57896044618658097711785492504343953926634992332820282019728792003956564819949 374144419156711147060143317175368453031918731001855"
  shows "hval (hx 85185402567384811323772034711933447109198151437895974004265026055527346326632) mod 57896044618658097711785492504343953926634992332820282019728792003956564819949 = pow2_mod 57896044618658097711785492504343953926634992332820282019728792003956564819949 411376139330301510538742295639337626245683966408394965837152255"
  using assms
proof (rule pow2_bits)
  let ?s = "[True, True, True, True, True, True, True, True, True, True] @ [True, True, True, True, True, True, True, True, True, True] @ [True, True, True, True, True, True, True, True, True, True] @ [True, True, True, True, True, True, True, True, True, True]"
  show "heq (hsq (hx 101256891187952091532061185554728146082965762259212615188246093835340774572384) ?s) (hx 85185402567384811323772034711933447109198151437895974004265026055527346326632)"
    by (simp only: append.simps hsq.simps hdbl.simps if_True if_False simp_thms hex_eval)
  show "57896044618658097711785492504343953926634992332820282019728792003956564819949 = 2 ^ 255 - (19::int)" "bits_exp 374144419156711147060143317175368453031918731001855 ?s = 411376139330301510538742295639337626245683966408394965837152255" by simp_all
qed

lemmas pow0_full_at_4 = pow0_full_4 [OF pow0_full_at_3]

lemma pow0_full_5:
  assumes "hval (hx 85185402567384811323772034711933447109198151437895974004265026055527346326632) mod 57896044618658097711785492504343953926634992332820282019728792003956564819949 = pow2_mod 57896044618658097711785492504343953926634992332820282019728792003956564819949 411376139330301510538742295639337626245683966408394965837152255"
  shows "hval (hx 199373534252232361962666020297733313395157545772525551586719232151276250249188) mod 57896044618658097711785492504343953926634992332820282019728792003956564819949 = pow2_mod 57896044618658097711785492504343953926634992332820282019728792003956564819949 452312848583266388373324160190187140051835877600158453279131187530910662655"
  using assms
proof (rule pow2_bits)
  let ?s = "[True, True, True, True, True, True, True, True, True, True] @ [True, True, True, True, True, True, True, True, True, True] @ [True, True, True, True, True, True, True, True, True, True] @ [True, True, True, True, True, True, True, True, True, True]"
  show "heq (hsq (hx 85185402567384811323772034711933447109198151437895974004265026055527346326632) ?s) (hx 199373534252232361962666020297733313395157545772525551586719232151276250249188)"
    by (simp only: append.simps hsq.simps hdbl.simps if_True if_False simp_thms hex_eval)
  show "57896044618658097711785492504343953926634992332820282019728792003956564819949 = 2 ^ 255 - (19::int)" "bits_exp 411376139330301510538742295639337626245683966408394965837152255 ?s = 452312848583266388373324160190187140051835877600158453279131187530910662655" by simp_all
qed

lemmas pow0_full_at_5 = pow0_full_5 [OF pow0_full_at_4]

lemma pow0_full_6:
  assumes "hval (hx 199373534252232361962666020297733313395157545772525551586719232151276250249188) mod 57896044618658097711785492504343953926634992332820282019728792003956564819949 = pow2_mod 57896044618658097711785492504343953926634992332820282019728792003956564819949 452312848583266388373324160190187140051835877600158453279131187530910662655"
  shows "hval (hx 57896044618658097711785492504343953926634992332820282019728792003956564819948) mod 57896044618658097711785492504343953926634992332820282019728792003956564819949 = pow2_mod 57896044618658097711785492504343953926634992332820282019728792003956564819949 28948022309329048855892746252171976963317496166410141009864396001978282409974"
  using assms
proof (rule pow2_bits)
  let ?s = "[True, True, False, True, True, False]"
  show "heq (hsq (hx 199373534252232361962666020297733313395157545772525551586719232151276250249188) ?s) (hx 57896044618658097711785492504343953926634992332820282019728792003956564819948)"
    by (simp only: append.simps hsq.simps hdbl.simps if_True if_False simp_thms hex_eval)
  show "57896044618658097711785492504343953926634992332820282019728792003956564819949 = 2 ^ 255 - (19::int)" "bits_exp 452312848583266388373324160190187140051835877600158453279131187530910662655 ?s = 28948022309329048855892746252171976963317496166410141009864396001978282409974" by simp_all
qed

lemmas pow0_full_at_6 = pow0_full_6 [OF pow0_full_at_5]

lemma pow0_full_7:
  assumes "hval (hx 57896044618658097711785492504343953926634992332820282019728792003956564819948) mod 57896044618658097711785492504343953926634992332820282019728792003956564819949 = pow2_mod 57896044618658097711785492504343953926634992332820282019728792003956564819949 28948022309329048855892746252171976963317496166410141009864396001978282409974"
  shows "hval (hx 57896044618658097711785492504343953926634992332820282019728792003956564819950) mod 57896044618658097711785492504343953926634992332820282019728792003956564819949 = pow2_mod 57896044618658097711785492504343953926634992332820282019728792003956564819949 57896044618658097711785492504343953926634992332820282019728792003956564819948"
  using assms
proof (rule pow2_bits)
  let ?s = "[False]"
  show "heq (hsq (hx 57896044618658097711785492504343953926634992332820282019728792003956564819948) ?s) (hx 57896044618658097711785492504343953926634992332820282019728792003956564819950)"
    by (simp only: append.simps hsq.simps hdbl.simps if_True if_False simp_thms hex_eval)
  show "57896044618658097711785492504343953926634992332820282019728792003956564819949 = 2 ^ 255 - (19::int)" "bits_exp 28948022309329048855892746252171976963317496166410141009864396001978282409974 ?s = 57896044618658097711785492504343953926634992332820282019728792003956564819948" by simp_all
qed

lemmas pow0_full_at_7 = pow0_full_7 [OF pow0_full_at_6]

lemma pow0_full_exp_0: "(2::nat) ^ 28948022309329048855892746252171976963317496166410141009864396001978282409974 mod 57896044618658097711785492504343953926634992332820282019728792003956564819949 = 57896044618658097711785492504343953926634992332820282019728792003956564819948"
proof -
  have "hval (hx 57896044618658097711785492504343953926634992332820282019728792003956564819948) mod int 57896044618658097711785492504343953926634992332820282019728792003956564819949 = pow2_mod (int 57896044618658097711785492504343953926634992332820282019728792003956564819949) 28948022309329048855892746252171976963317496166410141009864396001978282409974"
    using pow0_full_at_6 by (simp add: hval_hx)
  then have "(2::nat) ^ 28948022309329048855892746252171976963317496166410141009864396001978282409974 mod 57896044618658097711785492504343953926634992332820282019728792003956564819949 = nat 57896044618658097711785492504343953926634992332820282019728792003956564819948" by (rule pow2_nat) simp_all
  also have "\<dots> = 57896044618658097711785492504343953926634992332820282019728792003956564819948" by simp
  finally show ?thesis .
qed

lemma pow0_full_exp_1: "(2::nat) ^ 57896044618658097711785492504343953926634992332820282019728792003956564819948 mod 57896044618658097711785492504343953926634992332820282019728792003956564819949 = 1"
proof -
  have "hval (hx 1) mod int 57896044618658097711785492504343953926634992332820282019728792003956564819949 = pow2_mod (int 57896044618658097711785492504343953926634992332820282019728792003956564819949) 57896044618658097711785492504343953926634992332820282019728792003956564819948"
    using pow0_full_at_7 by (simp add: hval_hx)
  then have "(2::nat) ^ 57896044618658097711785492504343953926634992332820282019728792003956564819948 mod 57896044618658097711785492504343953926634992332820282019728792003956564819949 = nat 1" by (rule pow2_nat) simp_all
  also have "\<dots> = 1" by simp
  finally show ?thesis .
qed

lemma isprime_0: "isprime 57896044618658097711785492504343953926634992332820282019728792003956564819949"
proof (rule pocklington)
  show "isprime 74058212732561358302231226437062788676166966415465897661863160754340907" by (rule isprime_1)
  show "odd (74058212732561358302231226437062788676166966415465897661863160754340907::nat)" by simp
  show "odd (57896044618658097711785492504343953926634992332820282019728792003956564819949::nat)" by simp
  show "1 < (57896044618658097711785492504343953926634992332820282019728792003956564819949::nat)" by simp
  have "(427094198651976259540344842774561673889945192655078505504941250475370961481::nat) ^ 74058212732561358302231226437062788676166966415465897661863160754340907 mod 57896044618658097711785492504343953926634992332820282019728792003956564819949 = (2 ^ 781764 mod 57896044618658097711785492504343953926634992332820282019728792003956564819949) ^ 74058212732561358302231226437062788676166966415465897661863160754340907 mod 57896044618658097711785492504343953926634992332820282019728792003956564819949" unfolding pow0_small_exp_0 ..
  also have "\<dots> = (2 ^ 781764) ^ 74058212732561358302231226437062788676166966415465897661863160754340907 mod 57896044618658097711785492504343953926634992332820282019728792003956564819949" by (rule power_mod)
  also have "\<dots> = 2 ^ (781764 * 74058212732561358302231226437062788676166966415465897661863160754340907) mod 57896044618658097711785492504343953926634992332820282019728792003956564819949" by (simp only: power_mult)
  also have "(781764 * 74058212732561358302231226437062788676166966415465897661863160754340907 :: nat) = 57896044618658097711785492504343953926634992332820282019728792003956564819948" by simp
  also have "(2::nat) ^ 57896044618658097711785492504343953926634992332820282019728792003956564819948 mod 57896044618658097711785492504343953926634992332820282019728792003956564819949 = 1" by (rule pow0_full_exp_1)
  finally show "(427094198651976259540344842774561673889945192655078505504941250475370961481::nat) ^ 74058212732561358302231226437062788676166966415465897661863160754340907 mod 57896044618658097711785492504343953926634992332820282019728792003956564819949 = 1" .
  have "(427094198651976259540344842774561673889945192655078505504941250475370961481 + 57896044618658097711785492504343953926634992332820282019728792003956564819949 - 1) * 55540832096118778044507775605005710249233119951144946814680141076505643269084 = (1::nat) + 57896044618658097711785492504343953926634992332820282019728792003956564819949 * 55950552092239397598219982322519308357857968011929960664182527642122296848215" by simp
  also have "\<dots> mod 57896044618658097711785492504343953926634992332820282019728792003956564819949 = 1 mod 57896044618658097711785492504343953926634992332820282019728792003956564819949" by (rule mod_mult_self2)
  also have "\<dots> = 1" by simp
  finally show "(427094198651976259540344842774561673889945192655078505504941250475370961481 + 57896044618658097711785492504343953926634992332820282019728792003956564819949 - 1) * 55540832096118778044507775605005710249233119951144946814680141076505643269084 mod 57896044618658097711785492504343953926634992332820282019728792003956564819949 = (1::nat)" .
  show "(148116425465122716604462452874125577352333932830931795323726321508681814::nat) = 2 * 74058212732561358302231226437062788676166966415465897661863160754340907" by simp
  show "57896044618658097711785492504343953926634992332820282019728792003956564819949 = 1 + 148116425465122716604462452874125577352333932830931795323726321508681814 * (0 * 148116425465122716604462452874125577352333932830931795323726321508681814 + (390882::nat))" by simp
  show "0 + 1 < (390882::nat)" by simp
  show "390882 < (148116425465122716604462452874125577352333932830931795323726321508681814::nat)" by simp
qed

end
