(* ===== verification/Gf25519.thy ===== *)
theory Gf25519
  imports PrimeChain Fe25519
begin

text \<open>
  The field of \<open>2^255 - 19\<close> elements, as a type of the library's class \<open>field\<close>: the residues modulo
  \<open>p25519\<close>, which \<open>PrimeChain\<close> shows to be prime.  \<open>gfe\<close> is the element a limb vector of \<^verbatim>\<open>fe.c\<close>
  stands for.
\<close>

lemma isprime_p25519: "isprime (nat p25519)"
  using isprime_0 by (simp add: p25519_def)

lemma p25519_pos [simp]: "0 < p25519" "1 < p25519" "p25519 \<noteq> 0" "0 \<le> p25519"
  by (simp_all add: p25519_def)

section \<open>The type\<close>

typedef gf = "{0..<p25519}"
  by (rule exI [of _ 0]) simp

setup_lifting type_definition_gf

instantiation gf :: comm_ring_1
begin

lift_definition zero_gf :: gf is 0 by simp
lift_definition one_gf :: gf is 1 by simp
lift_definition plus_gf :: "gf \<Rightarrow> gf \<Rightarrow> gf" is "\<lambda>a b. (a + b) mod p25519" by simp
lift_definition minus_gf :: "gf \<Rightarrow> gf \<Rightarrow> gf" is "\<lambda>a b. (a - b) mod p25519" by simp
lift_definition uminus_gf :: "gf \<Rightarrow> gf" is "\<lambda>a. - a mod p25519" by simp
lift_definition times_gf :: "gf \<Rightarrow> gf \<Rightarrow> gf" is "\<lambda>a b. a * b mod p25519" by simp

instance
proof
  fix a b c :: gf
  show "a * b * c = a * (b * c)" by transfer (simp add: mod_mult_left_eq mod_mult_right_eq mult.assoc)
  show "a * b = b * a" by transfer (simp add: mult.commute)
  show "1 * a = a" by transfer simp
  show "a + b + c = a + (b + c)" by transfer (simp add: mod_simps add.assoc)
  show "a + b = b + a" by transfer (simp add: add.commute)
  show "0 + a = a" by transfer simp
  show "- a + a = 0" by transfer (simp add: mod_simps)
  show "a - b = a + - b" by transfer (simp add: mod_simps)
  show "(a + b) * c = a * c + b * c" by transfer (simp add: mod_simps distrib_right)
  show "(0::gf) \<noteq> 1" by transfer simp
qed

end

lemma Rep_gf_of_nat: "Rep_gf (of_nat n) = int n mod p25519"
  by (induction n) (simp_all add: zero_gf.rep_eq plus_gf.rep_eq one_gf.rep_eq mod_simps)

lemma Rep_gf_of_int: "Rep_gf (of_int z) = z mod p25519"
proof (cases z rule: int_cases2)
  case (nonneg n)
  then show ?thesis by (simp add: Rep_gf_of_nat)
next
  case (nonpos n)
  then show ?thesis by (simp add: Rep_gf_of_nat uminus_gf.rep_eq mod_simps)
qed

lemma gf_of_int_eq_iff: "(of_int a :: gf) = of_int b \<longleftrightarrow> a mod p25519 = b mod p25519"
  by (simp add: Rep_gf_inject [symmetric] Rep_gf_of_int)

lemma gf_of_int_mod: "(of_int (a mod p25519) :: gf) = of_int a"
  by (simp add: gf_of_int_eq_iff)

lemma gf_of_int_Rep: "of_int (Rep_gf x) = x"
  using Rep_gf [of x] by (simp add: Rep_gf_inject [symmetric] Rep_gf_of_int)

lemma gf_p_zero: "(of_int p25519 :: gf) = 0"
  using gf_of_int_eq_iff [of p25519 0] by simp

section \<open>Inverses\<close>

lemma gf_fermat:
  assumes "(x::gf) \<noteq> 0"
  shows "x ^ nat (p25519 - 1) = 1"
proof -
  define n where "n = nat (Rep_gf x)"
  have r: "0 \<le> Rep_gf x" "Rep_gf x < p25519" using Rep_gf [of x] by auto
  have x: "x = of_nat n" using gf_of_int_Rep [of x] r(1) by (simp add: n_def)
  have "Rep_gf x \<noteq> 0" using assms by (simp add: Rep_gf_inject [symmetric] zero_gf.rep_eq)
  then have "0 < n" "n < nat p25519" using r by (auto simp: n_def)
  then have "\<not> nat p25519 dvd n" by (auto dest: dvd_imp_le)
  then have "n ^ (nat p25519 - 1) mod nat p25519 = 1" by (rule fermat [OF isprime_p25519])
  moreover have "nat p25519 - 1 = nat (p25519 - 1)" by (simp add: nat_diff_distrib)
  ultimately have "int (n ^ nat (p25519 - 1)) mod p25519 = 1 mod p25519"
    by (metis int_nat_eq of_nat_1 p25519_pos(2,4) zmod_int mod_pos_pos_trivial zero_le_one)
  then have "(of_int (int (n ^ nat (p25519 - 1))) :: gf) = of_int 1"
    by (simp only: gf_of_int_eq_iff)
  then show ?thesis by (simp add: x)
qed

instantiation gf :: field
begin

definition inverse_gf :: "gf \<Rightarrow> gf" where "inverse_gf x = x ^ nat (p25519 - 2)"
definition divide_gf :: "gf \<Rightarrow> gf \<Rightarrow> gf" where "divide_gf x y = x * inverse y"

instance
proof
  fix x y :: gf
  show "x \<noteq> 0 \<Longrightarrow> inverse x * x = 1"
  proof -
    assume "x \<noteq> 0"
    then have "x ^ nat (p25519 - 1) = 1" by (rule gf_fermat)
    moreover have "nat (p25519 - 1) = Suc (nat (p25519 - 2))" by (simp add: p25519_def)
    ultimately show ?thesis by (simp only: inverse_gf_def power_Suc mult.commute)
  qed
  show "x div y = x * inverse y" by (rule divide_gf_def)
  show "inverse (0::gf) = 0" unfolding inverse_gf_def by (rule zero_power) (simp add: p25519_def)
qed

end

lemma gf_numeral_neq_0:
  "(2::gf) \<noteq> 0"
proof -
  have "(of_int 2 :: gf) \<noteq> of_int 0" unfolding gf_of_int_eq_iff by (simp add: p25519_def)
  then show ?thesis by simp
qed

lemma gf_two_half: "(2::gf) * x = 2 * y \<longleftrightarrow> x = y"
  using gf_numeral_neq_0 by simp

section \<open>The element of a limb vector\<close>

definition gfe :: "fe \<Rightarrow> gf" where
  "gfe f = of_int (fe_val f)"

lemma gfe_eqI: "fe_val f mod p25519 = v mod p25519 \<Longrightarrow> gfe f = of_int v"
  by (simp add: gfe_def gf_of_int_eq_iff)

section \<open>Squares\<close>

text \<open>2 is not a square (its power \<open>(p - 1) / 2\<close> is \<open>- 1\<close>).\<close>

lemma gf_pow2:
  assumes "(2::nat) ^ k mod nat p25519 = r"
  shows "(2::gf) ^ k = of_nat r"
proof -
  have "int (2 ^ k) mod p25519 = int r mod p25519"
    using assms by (metis int_nat_eq mod_mod_trivial p25519_pos(4) zmod_int)
  then have "(of_int (int (2 ^ k)) :: gf) = of_int (int r)" by (simp only: gf_of_int_eq_iff)
  then show ?thesis by simp
qed

lemma two_nonsquare: "(x::gf) * x \<noteq> 2"
proof
  assume x: "x * x = 2"
  let ?h = "28948022309329048855892746252171976963317496166410141009864396001978282409974 :: nat"
  have p: "nat p25519 = 57896044618658097711785492504343953926634992332820282019728792003956564819949" by (simp add: p25519_def)
  have "(2::gf) ^ ?h = of_nat 57896044618658097711785492504343953926634992332820282019728792003956564819948"
    by (rule gf_pow2) (unfold p, rule pow0_full_exp_0)
  also have "\<dots> = of_int (p25519 - 1)" by (simp add: p25519_def)
  also have "\<dots> = - 1" unfolding of_int_diff gf_p_zero by simp
  finally have m: "(2::gf) ^ ?h = - 1" .
  have "x \<noteq> 0" using x gf_numeral_neq_0 by auto
  then have "x ^ nat (p25519 - 1) = 1" by (rule gf_fermat)
  moreover have "nat (p25519 - 1) = 2 * ?h" by (simp add: p25519_def)
  ultimately have "(x ^ 2) ^ ?h = 1" by (simp only: power_mult)
  then have "(2::gf) ^ ?h = 1" using x by (simp only: power2_eq_square)
  then have "(1::gf) = - 1" unfolding m by (rule sym)
  then have "(2::gf) = 0" by (metis add.right_inverse one_add_one)
  then show False using gf_numeral_neq_0 by simp
qed

end
