(* ===== verification/Edwards.thy ===== *)
theory Edwards
  imports Gf25519
begin

text \<open>
  The group of \<^verbatim>\<open>ge.h\<close>: "the set of pairs (x,y) of field elements satisfying \<open>-x^2 + y^2 = 1 + d x^2y^2\<close>
  where \<open>d = -121665/121666\<close>".  The addition law is total on the curve because \<open>d\<close> is not a square, and
  the curve is an abelian group; the polynomial identities behind associativity and closure are given
  with their cofactors of the curve equations.  \<open>smul\<close> is the multiple of a point by an integer, and
  the type \<open>pt\<close> of curve points is an instance of \<open>ab_group_add\<close>.
\<close>

section \<open>Polynomial identities\<close>

lemma assoc_x_identity:
  fixes d :: "'a::field"
  assumes "e12 = d * x1 * x2 * y1 * y2" "e23 = d * x2 * x3 * y2 * y3"
  shows "((x1 * y2 + x2 * y1) * y3 * (1 - e12) + x3 * (y1 * y2 + x1 * x2) * (1 + e12)) * ((1 + e23) * (1 - e23) + d * x1 * y1 * (x2 * y3 + x3 * y2) * (y2 * y3 + x2 * x3)) -
    (x1 * (y2 * y3 + x2 * x3) * (1 + e23) + y1 * (x2 * y3 + x3 * y2) * (1 - e23)) * ((1 + e12) * (1 - e12) + d * x3 * y3 * (x1 * y2 + x2 * y1) * (y1 * y2 + x1 * x2)) =
    (0 - y1 * x2 * y2 ^ 4 * x3 ^ 2 * y3 * d - y1 * x2 ^ 2 * y2 ^ 3 * x3 * d - y1 * x2 ^ 2 * y2 ^ 3 * x3 ^ 3 *
      d - y1 * x2 ^ 3 * y2 ^ 2 * y3 * d + y1 * x2 ^ 3 * y2 ^ 2 * y3 ^ 3 * d + y1 * x2 ^ 3 * y2 ^ 4 * x3 ^ 2 *
      y3 * d ^ 2 + y1 * x2 ^ 4 * y2 * x3 * y3 ^ 2 * d + y1 * x2 ^ 4 * y2 ^ 3 * x3 * y3 ^ 2 * d ^ 2 + x1 * x2 *
      y2 ^ 4 * x3 * y3 ^ 2 * d - x1 * x2 ^ 2 * y2 ^ 3 * y3 * d + x1 * x2 ^ 2 * y2 ^ 3 * y3 ^ 3 * d - x1 * x2 ^
      3 * y2 ^ 2 * x3 * d - x1 * x2 ^ 3 * y2 ^ 2 * x3 ^ 3 * d - x1 * x2 ^ 3 * y2 ^ 4 * x3 * y3 ^ 2 * d ^ 2 -
      x1 * x2 ^ 4 * y2 * x3 ^ 2 * y3 * d - x1 * x2 ^ 4 * y2 ^ 3 * x3 ^ 2 * y3 * d ^ 2) *
      (y1 * y1 - x1 * x1 - (1 + d * x1 * x1 * y1 * y1)) +
    (y1 * y2 * x3 - y1 * y2 * x3 * y3 ^ 2 + y1 * y2 * x3 ^ 3 + y1 * y2 * x3 ^ 3 * y3 ^ 2 * d + y1 * x2 * y3 -
      y1 * x2 * y3 ^ 3 + y1 * x2 * x3 ^ 2 * y3 + y1 * x2 * x3 ^ 2 * y3 ^ 3 * d - y1 * x2 * y2 ^ 2 * x3 ^ 2 *
      y3 * d - y1 * x2 ^ 2 * y2 * x3 * y3 ^ 2 * d - y1 ^ 3 * y2 * x3 + y1 ^ 3 * y2 * x3 * y3 ^ 2 - y1 ^ 3 * y2
      * x3 ^ 3 - y1 ^ 3 * y2 * x3 ^ 3 * y3 ^ 2 * d - y1 ^ 3 * x2 * y3 + y1 ^ 3 * x2 * y3 ^ 3 - y1 ^ 3 * x2 *
      x3 ^ 2 * y3 - y1 ^ 3 * x2 * x3 ^ 2 * y3 ^ 3 * d + y1 ^ 3 * x2 * y2 ^ 2 * x3 ^ 2 * y3 * d + y1 ^ 3 * x2 ^
      2 * y2 * x3 * y3 ^ 2 * d + x1 * y2 * y3 - x1 * y2 * y3 ^ 3 + x1 * y2 * x3 ^ 2 * y3 + x1 * y2 * x3 ^ 2 *
      y3 ^ 3 * d + x1 * x2 * x3 - x1 * x2 * x3 * y3 ^ 2 + x1 * x2 * x3 ^ 3 + x1 * x2 * x3 ^ 3 * y3 ^ 2 * d +
      x1 * x2 * y2 ^ 2 * x3 * y3 ^ 2 * d + x1 * x2 ^ 2 * y2 * x3 ^ 2 * y3 * d - x1 * y1 ^ 2 * y2 * y3 + x1 *
      y1 ^ 2 * y2 * y3 ^ 3 - x1 * y1 ^ 2 * y2 * x3 ^ 2 * y3 - x1 * y1 ^ 2 * y2 * x3 ^ 2 * y3 ^ 3 * d - x1 * y1
      ^ 2 * x2 * x3 + x1 * y1 ^ 2 * x2 * x3 * y3 ^ 2 - x1 * y1 ^ 2 * x2 * x3 ^ 3 - x1 * y1 ^ 2 * x2 * x3 ^ 3 *
      y3 ^ 2 * d - x1 * y1 ^ 2 * x2 * y2 ^ 2 * x3 * y3 ^ 2 * d + x1 * y1 ^ 2 * x2 * y2 ^ 2 * x3 ^ 3 * y3 ^ 2 *
      d ^ 2 - x1 * y1 ^ 2 * x2 ^ 2 * y2 * x3 ^ 2 * y3 * d - x1 * y1 ^ 2 * x2 ^ 2 * y2 * x3 ^ 2 * y3 ^ 3 * d ^
      2 + x1 ^ 2 * y1 * y2 * x3 - x1 ^ 2 * y1 * y2 * x3 * y3 ^ 2 + x1 ^ 2 * y1 * y2 * x3 ^ 3 + x1 ^ 2 * y1 *
      y2 * x3 ^ 3 * y3 ^ 2 * d + x1 ^ 2 * y1 * x2 * y3 - x1 ^ 2 * y1 * x2 * y3 ^ 3 + x1 ^ 2 * y1 * x2 * x3 ^ 2
      * y3 + x1 ^ 2 * y1 * x2 * x3 ^ 2 * y3 ^ 3 * d - x1 ^ 2 * y1 * x2 * y2 ^ 2 * x3 ^ 2 * y3 * d - x1 ^ 2 *
      y1 * x2 * y2 ^ 2 * x3 ^ 2 * y3 ^ 3 * d ^ 2 - x1 ^ 2 * y1 * x2 ^ 2 * y2 * x3 * y3 ^ 2 * d + x1 ^ 2 * y1 *
      x2 ^ 2 * y2 * x3 ^ 3 * y3 ^ 2 * d ^ 2 + x1 ^ 3 * y2 * y3 - x1 ^ 3 * y2 * y3 ^ 3 + x1 ^ 3 * y2 * x3 ^ 2 *
      y3 + x1 ^ 3 * y2 * x3 ^ 2 * y3 ^ 3 * d + x1 ^ 3 * x2 * x3 - x1 ^ 3 * x2 * x3 * y3 ^ 2 + x1 ^ 3 * x2 * x3
      ^ 3 + x1 ^ 3 * x2 * x3 ^ 3 * y3 ^ 2 * d + x1 ^ 3 * x2 * y2 ^ 2 * x3 * y3 ^ 2 * d + x1 ^ 3 * x2 ^ 2 * y2
      * x3 ^ 2 * y3 * d) *
      (y2 * y2 - x2 * x2 - (1 + d * x2 * x2 * y2 * y2)) +
    (0 - y1 * y2 * x3 + y1 * y2 ^ 3 * x3 - y1 * x2 * y3 + y1 * x2 * y2 ^ 2 * y3 - y1 * x2 ^ 2 * y2 * x3 - y1
      * x2 ^ 3 * y3 + y1 ^ 3 * y2 * x3 - y1 ^ 3 * y2 ^ 3 * x3 + y1 ^ 3 * x2 * y3 - y1 ^ 3 * x2 * y2 ^ 2 * y3 +
      y1 ^ 3 * x2 ^ 2 * y2 * x3 + y1 ^ 3 * x2 ^ 3 * y3 - x1 * y2 * y3 + x1 * y2 ^ 3 * y3 - x1 * x2 * x3 + x1 *
      x2 * y2 ^ 2 * x3 - x1 * x2 ^ 2 * y2 * y3 - x1 * x2 ^ 3 * x3 + x1 * y1 ^ 2 * y2 * y3 - x1 * y1 ^ 2 * y2 ^
      3 * y3 + x1 * y1 ^ 2 * x2 * x3 - x1 * y1 ^ 2 * x2 * y2 ^ 2 * x3 - x1 * y1 ^ 2 * x2 * y2 ^ 2 * x3 * d +
      x1 * y1 ^ 2 * x2 ^ 2 * y2 * y3 + x1 * y1 ^ 2 * x2 ^ 2 * y2 * y3 * d + x1 * y1 ^ 2 * x2 ^ 3 * x3 - x1 ^ 2
      * y1 * y2 * x3 + x1 ^ 2 * y1 * y2 ^ 3 * x3 - x1 ^ 2 * y1 * x2 * y3 + x1 ^ 2 * y1 * x2 * y2 ^ 2 * y3 + x1
      ^ 2 * y1 * x2 * y2 ^ 2 * y3 * d - x1 ^ 2 * y1 * x2 ^ 2 * y2 * x3 - x1 ^ 2 * y1 * x2 ^ 2 * y2 * x3 * d -
      x1 ^ 2 * y1 * x2 ^ 3 * y3 - x1 ^ 3 * y2 * y3 + x1 ^ 3 * y2 ^ 3 * y3 - x1 ^ 3 * x2 * x3 + x1 ^ 3 * x2 *
      y2 ^ 2 * x3 - x1 ^ 3 * x2 ^ 2 * y2 * y3 - x1 ^ 3 * x2 ^ 3 * x3) *
      (y3 * y3 - x3 * x3 - (1 + d * x3 * x3 * y3 * y3))"
  unfolding assms by algebra

lemma assoc_y_identity:
  fixes d :: "'a::field"
  assumes "e12 = d * x1 * x2 * y1 * y2" "e23 = d * x2 * x3 * y2 * y3"
  shows "((y1 * y2 + x1 * x2) * y3 * (1 + e12) + x3 * (x1 * y2 + x2 * y1) * (1 - e12)) * ((1 + e23) * (1 - e23) - d * x1 * y1 * (x2 * y3 + x3 * y2) * (y2 * y3 + x2 * x3)) -
    (y1 * (y2 * y3 + x2 * x3) * (1 + e23) + x1 * (x2 * y3 + x3 * y2) * (1 - e23)) * ((1 + e12) * (1 - e12) - d * x3 * y3 * (x1 * y2 + x2 * y1) * (y1 * y2 + x1 * x2)) =
    (y1 * x2 * y2 ^ 4 * x3 * y3 ^ 2 * d - y1 * x2 ^ 2 * y2 ^ 3 * y3 * d + y1 * x2 ^ 2 * y2 ^ 3 * y3 ^ 3 * d -
      y1 * x2 ^ 3 * y2 ^ 2 * x3 * d - y1 * x2 ^ 3 * y2 ^ 2 * x3 ^ 3 * d - y1 * x2 ^ 3 * y2 ^ 4 * x3 * y3 ^ 2 *
      d ^ 2 - y1 * x2 ^ 4 * y2 * x3 ^ 2 * y3 * d - y1 * x2 ^ 4 * y2 ^ 3 * x3 ^ 2 * y3 * d ^ 2 - x1 * x2 * y2 ^
      4 * x3 ^ 2 * y3 * d - x1 * x2 ^ 2 * y2 ^ 3 * x3 * d - x1 * x2 ^ 2 * y2 ^ 3 * x3 ^ 3 * d - x1 * x2 ^ 3 *
      y2 ^ 2 * y3 * d + x1 * x2 ^ 3 * y2 ^ 2 * y3 ^ 3 * d + x1 * x2 ^ 3 * y2 ^ 4 * x3 ^ 2 * y3 * d ^ 2 + x1 *
      x2 ^ 4 * y2 * x3 * y3 ^ 2 * d + x1 * x2 ^ 4 * y2 ^ 3 * x3 * y3 ^ 2 * d ^ 2) *
      (y1 * y1 - x1 * x1 - (1 + d * x1 * x1 * y1 * y1)) +
    (y1 * y2 * y3 - y1 * y2 * y3 ^ 3 + y1 * y2 * x3 ^ 2 * y3 + y1 * y2 * x3 ^ 2 * y3 ^ 3 * d + y1 * x2 * x3 -
      y1 * x2 * x3 * y3 ^ 2 + y1 * x2 * x3 ^ 3 + y1 * x2 * x3 ^ 3 * y3 ^ 2 * d + y1 * x2 * y2 ^ 2 * x3 * y3 ^
      2 * d + y1 * x2 ^ 2 * y2 * x3 ^ 2 * y3 * d - y1 ^ 3 * y2 * y3 + y1 ^ 3 * y2 * y3 ^ 3 - y1 ^ 3 * y2 * x3
      ^ 2 * y3 - y1 ^ 3 * y2 * x3 ^ 2 * y3 ^ 3 * d - y1 ^ 3 * x2 * x3 + y1 ^ 3 * x2 * x3 * y3 ^ 2 - y1 ^ 3 *
      x2 * x3 ^ 3 - y1 ^ 3 * x2 * x3 ^ 3 * y3 ^ 2 * d - y1 ^ 3 * x2 * y2 ^ 2 * x3 * y3 ^ 2 * d - y1 ^ 3 * x2 ^
      2 * y2 * x3 ^ 2 * y3 * d + x1 * y2 * x3 - x1 * y2 * x3 * y3 ^ 2 + x1 * y2 * x3 ^ 3 + x1 * y2 * x3 ^ 3 *
      y3 ^ 2 * d + x1 * x2 * y3 - x1 * x2 * y3 ^ 3 + x1 * x2 * x3 ^ 2 * y3 + x1 * x2 * x3 ^ 2 * y3 ^ 3 * d -
      x1 * x2 * y2 ^ 2 * x3 ^ 2 * y3 * d - x1 * x2 ^ 2 * y2 * x3 * y3 ^ 2 * d - x1 * y1 ^ 2 * y2 * x3 + x1 *
      y1 ^ 2 * y2 * x3 * y3 ^ 2 - x1 * y1 ^ 2 * y2 * x3 ^ 3 - x1 * y1 ^ 2 * y2 * x3 ^ 3 * y3 ^ 2 * d - x1 * y1
      ^ 2 * x2 * y3 + x1 * y1 ^ 2 * x2 * y3 ^ 3 - x1 * y1 ^ 2 * x2 * x3 ^ 2 * y3 - x1 * y1 ^ 2 * x2 * x3 ^ 2 *
      y3 ^ 3 * d + x1 * y1 ^ 2 * x2 * y2 ^ 2 * x3 ^ 2 * y3 * d + x1 * y1 ^ 2 * x2 * y2 ^ 2 * x3 ^ 2 * y3 ^ 3 *
      d ^ 2 + x1 * y1 ^ 2 * x2 ^ 2 * y2 * x3 * y3 ^ 2 * d - x1 * y1 ^ 2 * x2 ^ 2 * y2 * x3 ^ 3 * y3 ^ 2 * d ^
      2 + x1 ^ 2 * y1 * y2 * y3 - x1 ^ 2 * y1 * y2 * y3 ^ 3 + x1 ^ 2 * y1 * y2 * x3 ^ 2 * y3 + x1 ^ 2 * y1 *
      y2 * x3 ^ 2 * y3 ^ 3 * d + x1 ^ 2 * y1 * x2 * x3 - x1 ^ 2 * y1 * x2 * x3 * y3 ^ 2 + x1 ^ 2 * y1 * x2 *
      x3 ^ 3 + x1 ^ 2 * y1 * x2 * x3 ^ 3 * y3 ^ 2 * d + x1 ^ 2 * y1 * x2 * y2 ^ 2 * x3 * y3 ^ 2 * d - x1 ^ 2 *
      y1 * x2 * y2 ^ 2 * x3 ^ 3 * y3 ^ 2 * d ^ 2 + x1 ^ 2 * y1 * x2 ^ 2 * y2 * x3 ^ 2 * y3 * d + x1 ^ 2 * y1 *
      x2 ^ 2 * y2 * x3 ^ 2 * y3 ^ 3 * d ^ 2 + x1 ^ 3 * y2 * x3 - x1 ^ 3 * y2 * x3 * y3 ^ 2 + x1 ^ 3 * y2 * x3
      ^ 3 + x1 ^ 3 * y2 * x3 ^ 3 * y3 ^ 2 * d + x1 ^ 3 * x2 * y3 - x1 ^ 3 * x2 * y3 ^ 3 + x1 ^ 3 * x2 * x3 ^ 2
      * y3 + x1 ^ 3 * x2 * x3 ^ 2 * y3 ^ 3 * d - x1 ^ 3 * x2 * y2 ^ 2 * x3 ^ 2 * y3 * d - x1 ^ 3 * x2 ^ 2 * y2
      * x3 * y3 ^ 2 * d) *
      (y2 * y2 - x2 * x2 - (1 + d * x2 * x2 * y2 * y2)) +
    (0 - y1 * y2 * y3 + y1 * y2 ^ 3 * y3 - y1 * x2 * x3 + y1 * x2 * y2 ^ 2 * x3 - y1 * x2 ^ 2 * y2 * y3 - y1
      * x2 ^ 3 * x3 + y1 ^ 3 * y2 * y3 - y1 ^ 3 * y2 ^ 3 * y3 + y1 ^ 3 * x2 * x3 - y1 ^ 3 * x2 * y2 ^ 2 * x3 +
      y1 ^ 3 * x2 ^ 2 * y2 * y3 + y1 ^ 3 * x2 ^ 3 * x3 - x1 * y2 * x3 + x1 * y2 ^ 3 * x3 - x1 * x2 * y3 + x1 *
      x2 * y2 ^ 2 * y3 - x1 * x2 ^ 2 * y2 * x3 - x1 * x2 ^ 3 * y3 + x1 * y1 ^ 2 * y2 * x3 - x1 * y1 ^ 2 * y2 ^
      3 * x3 + x1 * y1 ^ 2 * x2 * y3 - x1 * y1 ^ 2 * x2 * y2 ^ 2 * y3 - x1 * y1 ^ 2 * x2 * y2 ^ 2 * y3 * d +
      x1 * y1 ^ 2 * x2 ^ 2 * y2 * x3 + x1 * y1 ^ 2 * x2 ^ 2 * y2 * x3 * d + x1 * y1 ^ 2 * x2 ^ 3 * y3 - x1 ^ 2
      * y1 * y2 * y3 + x1 ^ 2 * y1 * y2 ^ 3 * y3 - x1 ^ 2 * y1 * x2 * x3 + x1 ^ 2 * y1 * x2 * y2 ^ 2 * x3 + x1
      ^ 2 * y1 * x2 * y2 ^ 2 * x3 * d - x1 ^ 2 * y1 * x2 ^ 2 * y2 * y3 - x1 ^ 2 * y1 * x2 ^ 2 * y2 * y3 * d -
      x1 ^ 2 * y1 * x2 ^ 3 * x3 - x1 ^ 3 * y2 * x3 + x1 ^ 3 * y2 ^ 3 * x3 - x1 ^ 3 * x2 * y3 + x1 ^ 3 * x2 *
      y2 ^ 2 * y3 - x1 ^ 3 * x2 ^ 2 * y2 * x3 - x1 ^ 3 * x2 ^ 3 * y3) *
      (y3 * y3 - x3 * x3 - (1 + d * x3 * x3 * y3 * y3))"
  unfolding assms by algebra

lemma closed_identity:
  fixes d :: "'a::field"
  assumes "e12 = d * x1 * x2 * y1 * y2"
  shows "d ^ 2 * (((y1 * y2 + x1 * x2) * (1 + e12)) * ((y1 * y2 + x1 * x2) * (1 + e12)) - ((x1 * y2 + x2 * y1) * (1 - e12)) * ((x1 * y2 + x2 * y1) * (1 - e12)) -
      (1 + e12) * (1 + e12) * ((1 - e12) * (1 - e12)) - d * (x1 * y2 + x2 * y1) * (x1 * y2 + x2 * y1) * (y1 * y2 + x1 * x2) * (y1 * y2 + x1 * x2)) =
    (y2 ^ 4 * d ^ 2 - 4 * x2 ^ 2 * y2 ^ 2 * d ^ 2 - 2 * x2 ^ 2 * y2 ^ 2 * d ^ 3 + 2 * x2 ^ 2 * y2 ^ 4 * d ^ 2
      + x2 ^ 4 * d ^ 2 - 2 * x2 ^ 4 * y2 ^ 2 * d ^ 2 - 2 * x2 ^ 4 * y2 ^ 4 * d ^ 3 - x2 ^ 4 * y2 ^ 4 * d ^ 4 -
      y1 ^ 2 * x2 ^ 2 * y2 ^ 4 * d ^ 3 + y1 ^ 2 * x2 ^ 4 * y2 ^ 2 * d ^ 3 + y1 ^ 2 * x2 ^ 4 * y2 ^ 4 * d ^ 4 +
      x1 ^ 2 * x2 ^ 2 * y2 ^ 4 * d ^ 3 - x1 ^ 2 * x2 ^ 4 * y2 ^ 2 * d ^ 3 - x1 ^ 2 * x2 ^ 4 * y2 ^ 4 * d ^ 4 +
      x1 ^ 2 * y1 ^ 2 * x2 ^ 4 * y2 ^ 4 * d ^ 5) *
      (y1 * y1 - x1 * x1 - (1 + d * x1 * x1 * y1 * y1)) +
    (0 + 0 * d + d ^ 2 + 0 * y2 ^ 2 * d + y2 ^ 2 * d ^ 2 + 0 * x2 ^ 2 * d - x2 ^ 2 * d ^ 2 + 2 * x2 ^ 2 * y2
      ^ 2 * d ^ 2 + x2 ^ 2 * y2 ^ 2 * d ^ 3 + 0 * y1 ^ 2 + 0 * y1 ^ 2 * d + 0 * y1 ^ 2 * d ^ 2 + 0 * y1 ^ 2 *
      y2 ^ 2 * d - y1 ^ 2 * y2 ^ 2 * d ^ 2 + 0 * y1 ^ 2 * x2 ^ 2 * d + y1 ^ 2 * x2 ^ 2 * d ^ 2 - 2 * y1 ^ 2 *
      x2 ^ 2 * y2 ^ 2 * d ^ 2 - 2 * y1 ^ 2 * x2 ^ 2 * y2 ^ 2 * d ^ 3 + 0 * y1 ^ 4 * d + 0 * y1 ^ 4 * d ^ 2 + 0
      * y1 ^ 4 * y2 ^ 2 * d ^ 2 + 0 * y1 ^ 4 * x2 ^ 2 * d ^ 2 + y1 ^ 4 * x2 ^ 2 * y2 ^ 2 * d ^ 3 + 0 * x1 ^ 2
      + 0 * x1 ^ 2 * d + 0 * x1 ^ 2 * d ^ 2 + 0 * x1 ^ 2 * y2 ^ 2 * d + x1 ^ 2 * y2 ^ 2 * d ^ 2 + 0 * x1 ^ 2 *
      x2 ^ 2 * d - x1 ^ 2 * x2 ^ 2 * d ^ 2 + 2 * x1 ^ 2 * x2 ^ 2 * y2 ^ 2 * d ^ 2 + 2 * x1 ^ 2 * x2 ^ 2 * y2 ^
      2 * d ^ 3 + 0 * x1 ^ 4 * d + 0 * x1 ^ 4 * d ^ 2 + 0 * x1 ^ 4 * y2 ^ 2 * d ^ 2 + 0 * x1 ^ 4 * x2 ^ 2 * d
      ^ 2 + x1 ^ 4 * x2 ^ 2 * y2 ^ 2 * d ^ 3) *
      (y2 * y2 - x2 * x2 - (1 + d * x2 * x2 * y2 * y2))"
  unfolding assms by algebra

section \<open>The constants\<close>

definition ed_d :: gf where
  "ed_d = - (121665 / 121666)"

lemma gf_121666: "(121666 :: gf) \<noteq> 0"
proof -
  have "(of_int 121666 :: gf) \<noteq> of_int 0" unfolding gf_of_int_eq_iff by (simp add: p25519_def)
  then show ?thesis by simp
qed

lemma ed_d_eq: "121666 * ed_d = - 121665"
  using gf_121666 by (simp add: ed_d_def)

lemma ed_d_nonzero: "ed_d \<noteq> 0"
proof -
  have "(of_int 121665 :: gf) \<noteq> of_int 0" unfolding gf_of_int_eq_iff by (simp add: p25519_def)
  then show ?thesis using gf_121666 by (simp add: ed_d_def)
qed

definition sqrt_m1 :: gf where
  "sqrt_m1 = of_int 19681161376707505956807079304988542015446066515923890162744021073123829784752"

lemma sqrt_m1: "sqrt_m1 * sqrt_m1 = - 1"
proof -
  have "(19681161376707505956807079304988542015446066515923890162744021073123829784752::int) * 19681161376707505956807079304988542015446066515923890162744021073123829784752 = - 1 + 6690407189080634018507799843845558368979872843924222843531373839242004886245 * p25519" unfolding p25519_def by simp
  then have "(19681161376707505956807079304988542015446066515923890162744021073123829784752 * 19681161376707505956807079304988542015446066515923890162744021073123829784752 :: int) mod p25519 = - 1 mod p25519" by (simp only: mod_mult_self1)
  then have "(of_int (19681161376707505956807079304988542015446066515923890162744021073123829784752 * 19681161376707505956807079304988542015446066515923890162744021073123829784752) :: gf) = of_int (- 1)" by (simp only: gf_of_int_eq_iff)
  then show ?thesis by (simp only: sqrt_m1_def of_int_mult of_int_minus of_int_1)
qed

lemma two_d_square: "\<exists>s. s * s = 2 * ed_d"
proof
  let ?s = "of_int 55487632915927625549282413919184614932259505768049324239291840100650878933168 :: gf"
  have "121666 * (55487632915927625549282413919184614932259505768049324239291840100650878933168 * 55487632915927625549282413919184614932259505768049324239291840100650878933168) = (- 243330::int) + 6470125913096052187458079416878450731264338945710080427977576419193736907026458186 * p25519" unfolding p25519_def by simp
  then have "(121666 * (55487632915927625549282413919184614932259505768049324239291840100650878933168 * 55487632915927625549282413919184614932259505768049324239291840100650878933168) :: int) mod p25519 = - 243330 mod p25519" by (simp only: mod_mult_self1)
  then have "(of_int (121666 * (55487632915927625549282413919184614932259505768049324239291840100650878933168 * 55487632915927625549282413919184614932259505768049324239291840100650878933168)) :: gf) = of_int (- 243330)" by (simp only: gf_of_int_eq_iff)
  then have "121666 * (?s * ?s) = - 243330"
    by (simp only: of_int_mult of_int_minus of_int_numeral)
  also have "\<dots> = 2 * (121666 * ed_d)" by (simp add: ed_d_eq)
  also have "\<dots> = 121666 * (2 * ed_d)" by (simp only: mult.left_commute)
  finally show "?s * ?s = 2 * ed_d" by (rule mult_left_cancel [OF gf_121666, THEN iffD1])
qed

lemma d_nonsquare: "t * t \<noteq> ed_d * (u * u)" if "u \<noteq> 0" for t u :: gf
proof
  assume t: "t * t = ed_d * (u * u)"
  obtain s where s: "s * s = 2 * ed_d" using two_d_square by blast
  have "t \<noteq> 0" using t that ed_d_nonzero by auto
  then have "(s * u / t) * (s * u / t) = 2"
    using t s ed_d_nonzero that by (simp add: field_simps)
  then show False using two_nonsquare by blast
qed

section \<open>The addition law\<close>

definition on_curve :: "gf \<times> gf \<Rightarrow> bool" where
  "on_curve = (\<lambda>(x, y). y * y - x * x = 1 + ed_d * x * x * y * y)"

definition ed_add :: "gf \<times> gf \<Rightarrow> gf \<times> gf \<Rightarrow> gf \<times> gf" where
  "ed_add = (\<lambda>(x1, y1) (x2, y2).
    ((x1 * y2 + x2 * y1) / (1 + ed_d * x1 * x2 * y1 * y2), (y1 * y2 + x1 * x2) / (1 - ed_d * x1 * x2 * y1 * y2)))"

lemma complete_aux:
  fixes d :: "'a::field"
  assumes "y1 * y1 - x1 * x1 = 1 + d * x1 * x1 * y1 * y1" "y2 * y2 - x2 * x2 = 1 + d * x2 * x2 * y2 * y2"
    and "s * s = - 1" "e = d * x1 * x2 * y1 * y2" "e * e = 1"
  shows "(s * x1 + e * y1) * (s * x1 + e * y1) = d * (x1 * y1 * (s * x2 + y2) * (x1 * y1 * (s * x2 + y2)))"
proof -
  have "d * (x1 * y1 * (s * x2 + y2) * (x1 * y1 * (s * x2 + y2))) =
      d * x1 * x1 * y1 * y1 * (y2 * y2 + (s * s) * (x2 * x2)) + 2 * s * x1 * y1 * (d * x1 * x2 * y1 * y2)"
    by algebra
  also have "y2 * y2 + (s * s) * (x2 * x2) = 1 + d * x2 * x2 * y2 * y2"
    using assms(2,3) by simp
  also have "d * x1 * x1 * y1 * y1 * (1 + d * x2 * x2 * y2 * y2) = d * x1 * x1 * y1 * y1 + e * e"
    unfolding assms(4) by algebra
  also have "d * x1 * x1 * y1 * y1 + e * e = y1 * y1 - x1 * x1" using assms(1,5) by simp
  also have "y1 * y1 - x1 * x1 + 2 * s * x1 * y1 * (d * x1 * x2 * y1 * y2) =
      (e * e) * (y1 * y1) + (s * s) * (x1 * x1) + 2 * s * x1 * y1 * e"
    unfolding assms(3,5) assms(4) [symmetric] by simp
  also have "\<dots> = (s * x1 + e * y1) * (s * x1 + e * y1)" by algebra
  finally show ?thesis ..
qed

lemma complete:
  assumes "on_curve (x1, y1)" "on_curve (x2, y2)"
  shows "1 + ed_d * x1 * x2 * y1 * y2 \<noteq> 0" "1 - ed_d * x1 * x2 * y1 * y2 \<noteq> 0"
proof -
  let ?e = "ed_d * x1 * x2 * y1 * y2"
  have c: "y1 * y1 - x1 * x1 = 1 + ed_d * x1 * x1 * y1 * y1" "y2 * y2 - x2 * x2 = 1 + ed_d * x2 * x2 * y2 * y2"
    using assms by (simp_all add: on_curve_def)
  have ne: "?e * ?e \<noteq> 1"
  proof
    assume e: "?e * ?e = 1"
    then have nz: "x1 * y1 \<noteq> 0" "y2 \<noteq> 0" by auto
    have sq: "s * x2 + y2 = 0" if "s * s = - 1" for s
    proof (rule ccontr)
      assume "s * x2 + y2 \<noteq> 0"
      then have "x1 * y1 * (s * x2 + y2) \<noteq> 0" using nz by simp
      from d_nonsquare [OF this] show False using complete_aux [OF c that refl e] by blast
    qed
    have "(- sqrt_m1) * (- sqrt_m1) = - 1" using sqrt_m1 by simp
    have "2 * y2 = (- sqrt_m1 * x2 + y2) + (sqrt_m1 * x2 + y2)" by algebra
    also have "\<dots> = 0" unfolding sq [OF \<open>(- sqrt_m1) * (- sqrt_m1) = - 1\<close>] sq [OF sqrt_m1] by simp
    finally have "2 * y2 = 0" .
    then show False using nz gf_numeral_neq_0 by simp
  qed
  show "1 + ?e \<noteq> 0"
  proof
    assume "1 + ?e = 0"
    then have "?e = - 1" by (simp add: add_eq_0_iff)
    then show False using ne by simp
  qed
  show "1 - ?e \<noteq> 0" using ne by auto
qed

lemma ed_add_components:
  assumes "on_curve (x1, y1)" "on_curve (x2, y2)" "ed_add (x1, y1) (x2, y2) = (x3, y3)" "e = ed_d * x1 * x2 * y1 * y2"
  shows "x3 * (1 + e) = x1 * y2 + x2 * y1" "y3 * (1 - e) = y1 * y2 + x1 * x2" "1 + e \<noteq> 0" "1 - e \<noteq> 0"
  using assms complete [OF assms(1,2)] by (auto simp: ed_add_def)

lemma ed_add_closed:
  assumes "on_curve p" "on_curve q"
  shows "on_curve (ed_add p q)"
proof -
  obtain x1 y1 x2 y2 where p: "p = (x1, y1)" and q: "q = (x2, y2)" by (cases p, cases q)
  obtain x3 y3 where r: "ed_add (x1, y1) (x2, y2) = (x3, y3)" by (cases "ed_add (x1, y1) (x2, y2)")
  define e where "e = ed_d * x1 * x2 * y1 * y2"
  note c = ed_add_components [OF assms [unfolded p q] r e_def]
  have z: "y1 * y1 - x1 * x1 - (1 + ed_d * x1 * x1 * y1 * y1) = 0" "y2 * y2 - x2 * x2 - (1 + ed_d * x2 * x2 * y2 * y2) = 0"
    using assms by (simp_all add: on_curve_def p q)
  let ?k = "(1 + e) * (1 + e) * ((1 - e) * (1 - e))"
  have "ed_d ^ 2 * (((y3 * (1 - e)) * (1 + e)) * ((y3 * (1 - e)) * (1 + e)) - ((x3 * (1 + e)) * (1 - e)) * ((x3 * (1 + e)) * (1 - e)) -
      (1 + e) * (1 + e) * ((1 - e) * (1 - e)) - ed_d * (x3 * (1 + e)) * (x3 * (1 + e)) * (y3 * (1 - e)) * (y3 * (1 - e))) = 0"
    using closed_identity [OF e_def] unfolding c(1,2) z by simp
  then have "(((y3 * (1 - e)) * (1 + e)) * ((y3 * (1 - e)) * (1 + e)) - ((x3 * (1 + e)) * (1 - e)) * ((x3 * (1 + e)) * (1 - e)) -
      (1 + e) * (1 + e) * ((1 - e) * (1 - e)) - ed_d * (x3 * (1 + e)) * (x3 * (1 + e)) * (y3 * (1 - e)) * (y3 * (1 - e))) = 0"
    using ed_d_nonzero by (metis mult_eq_0_iff power_not_zero)
  moreover have "(((y3 * (1 - e)) * (1 + e)) * ((y3 * (1 - e)) * (1 + e)) - ((x3 * (1 + e)) * (1 - e)) * ((x3 * (1 + e)) * (1 - e)) -
      (1 + e) * (1 + e) * ((1 - e) * (1 - e)) - ed_d * (x3 * (1 + e)) * (x3 * (1 + e)) * (y3 * (1 - e)) * (y3 * (1 - e))) =
      ?k * (y3 * y3 - x3 * x3 - (1 + ed_d * x3 * x3 * y3 * y3))" by algebra
  ultimately have "y3 * y3 - x3 * x3 - (1 + ed_d * x3 * x3 * y3 * y3) = 0"
    using c(3,4) by (metis mult_eq_0_iff)
  then show ?thesis by (simp add: p q r on_curve_def)
qed

lemma ed_add_commute: "ed_add p q = ed_add q p"
  by (cases p; cases q) (simp add: ed_add_def ac_simps)

lemma ed_add_zero: "ed_add (0, 1) p = p"
  by (cases p) (simp add: ed_add_def)

lemma on_curve_zero: "on_curve (0, 1)"
  by (simp add: on_curve_def)

lemma on_curve_neg: "on_curve (x, y) \<Longrightarrow> on_curve (- x, y)"
  by (simp add: on_curve_def)

lemma ed_add_neg:
  assumes "on_curve (x, y)"
  shows "ed_add (- x, y) (x, y) = (0, 1)"
proof -
  have "1 + ed_d * x * x * y * y = y * y - x * x" using assms by (simp add: on_curve_def)
  moreover have "1 - ed_d * (- x) * x * y * y \<noteq> 0" by (rule complete(2) [OF on_curve_neg [OF assms] assms])
  ultimately show ?thesis by (simp add: ed_add_def)
qed

lemma frac_cross:
  fixes n1 :: "'a::field"
  assumes "x * (D1 * k) = n1" "x' * (D2 * k') = n2" "n1 * (D2 * k') = n2 * (D1 * k)" "D1 * k \<noteq> 0" "D2 * k' \<noteq> 0"
  shows "x = x'"
proof -
  have "x * (D1 * k) * (D2 * k') = x' * (D1 * k) * (D2 * k')"
    using assms(3) unfolding assms(1) assms(2) [symmetric] by (simp add: ac_simps)
  then show ?thesis using assms(4,5) by simp
qed

lemma ed_add_assoc:
  assumes "on_curve p" "on_curve q" "on_curve r"
  shows "ed_add (ed_add p q) r = ed_add p (ed_add q r)"
proof -
  obtain x1 y1 x2 y2 x3 y3 where p: "p = (x1, y1)" and q: "q = (x2, y2)" and r: "r = (x3, y3)"
    by (cases p, cases q, cases r)
  obtain x12 y12 where pq: "ed_add (x1, y1) (x2, y2) = (x12, y12)" by (cases "ed_add (x1, y1) (x2, y2)")
  obtain x23 y23 where qr: "ed_add (x2, y2) (x3, y3) = (x23, y23)" by (cases "ed_add (x2, y2) (x3, y3)")
  obtain u v where l: "ed_add (x12, y12) (x3, y3) = (u, v)" by (cases "ed_add (x12, y12) (x3, y3)")
  obtain u' v' where rr: "ed_add (x1, y1) (x23, y23) = (u', v')" by (cases "ed_add (x1, y1) (x23, y23)")
  note on = assms [unfolded p q r]
  have on12: "on_curve (x12, y12)" using ed_add_closed [OF on(1,2)] by (simp add: pq)
  have on23: "on_curve (x23, y23)" using ed_add_closed [OF on(2,3)] by (simp add: qr)
  define e12 where "e12 = ed_d * x1 * x2 * y1 * y2"
  define e23 where "e23 = ed_d * x2 * x3 * y2 * y3"
  note c12 = ed_add_components [OF on(1,2) pq e12_def]
  note c23 = ed_add_components [OF on(2,3) qr e23_def]
  note cl = ed_add_components [OF on12 on(3) l refl]
  note cr = ed_add_components [OF on(1) on23 rr refl]
  have z: "y1 * y1 - x1 * x1 - (1 + ed_d * x1 * x1 * y1 * y1) = 0" "y2 * y2 - x2 * x2 - (1 + ed_d * x2 * x2 * y2 * y2) = 0"
    "y3 * y3 - x3 * x3 - (1 + ed_d * x3 * x3 * y3 * y3) = 0"
    using on by (simp_all add: on_curve_def)
  let ?k12 = "(1 + e12) * (1 - e12)" and ?k23 = "(1 + e23) * (1 - e23)"
  have nz: "?k12 \<noteq> 0" "?k23 \<noteq> 0" using c12(3,4) c23(3,4) by simp_all
  have X: "((x1 * y2 + x2 * y1) * y3 * (1 - e12) + x3 * (y1 * y2 + x1 * x2) * (1 + e12)) *
        (?k23 + ed_d * x1 * y1 * (x2 * y3 + x3 * y2) * (y2 * y3 + x2 * x3)) =
      (x1 * (y2 * y3 + x2 * x3) * (1 + e23) + y1 * (x2 * y3 + x3 * y2) * (1 - e23)) *
        (?k12 + ed_d * x3 * y3 * (x1 * y2 + x2 * y1) * (y1 * y2 + x1 * x2))"
    using assoc_x_identity [OF e12_def e23_def] unfolding z by simp
  have Y: "((y1 * y2 + x1 * x2) * y3 * (1 + e12) + x3 * (x1 * y2 + x2 * y1) * (1 - e12)) *
        (?k23 - ed_d * x1 * y1 * (x2 * y3 + x3 * y2) * (y2 * y3 + x2 * x3)) =
      (y1 * (y2 * y3 + x2 * x3) * (1 + e23) + x1 * (x2 * y3 + x3 * y2) * (1 - e23)) *
        (?k12 - ed_d * x3 * y3 * (x1 * y2 + x2 * y1) * (y1 * y2 + x1 * x2))"
    using assoc_y_identity [OF e12_def e23_def] unfolding z by simp
  have "u = u'"
  proof (rule frac_cross)
    show "u * ((1 + ed_d * x12 * x3 * y12 * y3) * ?k12) =
        (x1 * y2 + x2 * y1) * y3 * (1 - e12) + x3 * (y1 * y2 + x1 * x2) * (1 + e12)"
      using cl(1) unfolding c12(1,2) [symmetric] by algebra
    show "u' * ((1 + ed_d * x1 * x23 * y1 * y23) * ?k23) =
        x1 * (y2 * y3 + x2 * x3) * (1 + e23) + y1 * (x2 * y3 + x3 * y2) * (1 - e23)"
      using cr(1) unfolding c23(1,2) [symmetric] by algebra
    have "(1 + ed_d * x12 * x3 * y12 * y3) * ?k12 = ?k12 + ed_d * x3 * y3 * (x1 * y2 + x2 * y1) * (y1 * y2 + x1 * x2)"
      unfolding c12(1,2) [symmetric] by algebra
    moreover have "(1 + ed_d * x1 * x23 * y1 * y23) * ?k23 = ?k23 + ed_d * x1 * y1 * (x2 * y3 + x3 * y2) * (y2 * y3 + x2 * x3)"
      unfolding c23(1,2) [symmetric] by algebra
    ultimately show "((x1 * y2 + x2 * y1) * y3 * (1 - e12) + x3 * (y1 * y2 + x1 * x2) * (1 + e12)) * ((1 + ed_d * x1 * x23 * y1 * y23) * ?k23) =
      (x1 * (y2 * y3 + x2 * x3) * (1 + e23) + y1 * (x2 * y3 + x3 * y2) * (1 - e23)) * ((1 + ed_d * x12 * x3 * y12 * y3) * ?k12)"
      using X by simp
    show "(1 + ed_d * x12 * x3 * y12 * y3) * ?k12 \<noteq> 0" "(1 + ed_d * x1 * x23 * y1 * y23) * ?k23 \<noteq> 0"
      using cl(3) cr(3) nz by simp_all
  qed
  moreover have "v = v'"
  proof (rule frac_cross)
    show "v * ((1 - ed_d * x12 * x3 * y12 * y3) * ?k12) =
        (y1 * y2 + x1 * x2) * y3 * (1 + e12) + x3 * (x1 * y2 + x2 * y1) * (1 - e12)"
      using cl(2) unfolding c12(1,2) [symmetric] by algebra
    show "v' * ((1 - ed_d * x1 * x23 * y1 * y23) * ?k23) =
        y1 * (y2 * y3 + x2 * x3) * (1 + e23) + x1 * (x2 * y3 + x3 * y2) * (1 - e23)"
      using cr(2) unfolding c23(1,2) [symmetric] by algebra
    have "(1 - ed_d * x12 * x3 * y12 * y3) * ?k12 = ?k12 - ed_d * x3 * y3 * (x1 * y2 + x2 * y1) * (y1 * y2 + x1 * x2)"
      unfolding c12(1,2) [symmetric] by algebra
    moreover have "(1 - ed_d * x1 * x23 * y1 * y23) * ?k23 = ?k23 - ed_d * x1 * y1 * (x2 * y3 + x3 * y2) * (y2 * y3 + x2 * x3)"
      unfolding c23(1,2) [symmetric] by algebra
    ultimately show "((y1 * y2 + x1 * x2) * y3 * (1 + e12) + x3 * (x1 * y2 + x2 * y1) * (1 - e12)) * ((1 - ed_d * x1 * x23 * y1 * y23) * ?k23) =
      (y1 * (y2 * y3 + x2 * x3) * (1 + e23) + x1 * (x2 * y3 + x3 * y2) * (1 - e23)) * ((1 - ed_d * x12 * x3 * y12 * y3) * ?k12)"
      using Y by simp
    show "(1 - ed_d * x12 * x3 * y12 * y3) * ?k12 \<noteq> 0" "(1 - ed_d * x1 * x23 * y1 * y23) * ?k23 \<noteq> 0"
      using cl(4) cr(4) nz by simp_all
  qed
  ultimately show ?thesis by (simp add: p q r pq qr l rr)
qed

section \<open>The group of points\<close>

typedef pt = "{p. on_curve p}"
  using on_curve_zero by blast

setup_lifting type_definition_pt

instantiation pt :: ab_group_add
begin

lift_definition zero_pt :: pt is "(0, 1)" by (rule on_curve_zero)
lift_definition plus_pt :: "pt \<Rightarrow> pt \<Rightarrow> pt" is ed_add by (rule ed_add_closed)
lift_definition uminus_pt :: "pt \<Rightarrow> pt" is "\<lambda>(x, y). (- x, y)"
  using on_curve_neg by auto
definition minus_pt :: "pt \<Rightarrow> pt \<Rightarrow> pt" where "minus_pt p q = p + - q"

instance
proof
  fix a b c :: pt
  show "a + b + c = a + (b + c)" by transfer (rule ed_add_assoc)
  show "a + b = b + a" by transfer (rule ed_add_commute)
  show "0 + a = a" by transfer (rule ed_add_zero)
  show "- a + a = 0" by transfer (auto simp: ed_add_neg)
  show "a - b = a + - b" by (rule minus_pt_def)
qed

end

definition px :: "pt \<Rightarrow> gf" where "px p = fst (Rep_pt p)"
definition py :: "pt \<Rightarrow> gf" where "py p = snd (Rep_pt p)"

lemma pt_curve: "py p * py p - px p * px p = 1 + ed_d * px p * px p * py p * py p"
  using Rep_pt [of p] by (auto simp: on_curve_def px_def py_def)

lemma pt_on_curve: "on_curve (px p, py p)"
  using Rep_pt [of p] by (simp add: px_def py_def)

lemma pt_eqI: "px p = px q \<Longrightarrow> py p = py q \<Longrightarrow> p = q"
  by (simp add: px_def py_def Rep_pt_inject [symmetric] prod_eq_iff)

definition mk_pt :: "gf \<Rightarrow> gf \<Rightarrow> pt" where "mk_pt x y = Abs_pt (x, y)"

lemma mk_pt: "on_curve (x, y) \<Longrightarrow> px (mk_pt x y) = x \<and> py (mk_pt x y) = y"
  by (simp add: mk_pt_def px_def py_def Abs_pt_inverse)

lemma pt_zero [simp]: "px 0 = 0" "py 0 = 1"
  by (simp_all add: px_def py_def zero_pt.rep_eq)

lemma pt_uminus [simp]: "px (- p) = - px p" "py (- p) = py p"
  by (simp_all add: px_def py_def uminus_pt.rep_eq case_prod_beta)

lemma pt_add:
  "px (p + q) * (1 + ed_d * px p * px q * py p * py q) = px p * py q + px q * py p"
  "py (p + q) * (1 - ed_d * px p * px q * py p * py q) = py p * py q + px p * px q"
  "1 + ed_d * px p * px q * py p * py q \<noteq> 0"
  "1 - ed_d * px p * px q * py p * py q \<noteq> 0"
proof -
  have "ed_add (px p, py p) (px q, py q) = (px (p + q), py (p + q))"
    by (simp add: px_def py_def plus_pt.rep_eq)
  note c = ed_add_components [OF pt_on_curve pt_on_curve this refl]
  show "px (p + q) * (1 + ed_d * px p * px q * py p * py q) = px p * py q + px q * py p"
    "py (p + q) * (1 - ed_d * px p * px q * py p * py q) = py p * py q + px p * px q"
    "1 + ed_d * px p * px q * py p * py q \<noteq> 0"
    "1 - ed_d * px p * px q * py p * py q \<noteq> 0"
    by (rule c)+
qed

text \<open>A point is known by its \<open>y\<close> coordinate up to the sign of \<open>x\<close>.\<close>

lemma pt_same_y:
  assumes "py p = py q"
  shows "px p = px q \<or> px p = - px q"
proof -
  have "px p * px p * (1 + ed_d * (py q * py q)) = px q * px q * (1 + ed_d * (py q * py q))"
    using pt_curve [of p] pt_curve [of q] unfolding assms by algebra
  moreover have "1 + ed_d * (py q * py q) \<noteq> 0"
  proof
    assume "1 + ed_d * (py q * py q) = 0"
    then have e: "ed_d * (py q * py q) = - 1" by (simp add: add_eq_0_iff)
    then have "sqrt_m1 * sqrt_m1 = ed_d * (py q * py q)" by (simp add: sqrt_m1)
    moreover have "py q \<noteq> 0" using e by auto
    ultimately show False using d_nonsquare by blast
  qed
  ultimately have "px p * px p = px q * px q" by simp
  then show ?thesis by (simp add: square_eq_iff)
qed

section \<open>Multiples\<close>

primrec nsmul :: "nat \<Rightarrow> 'a::ab_group_add \<Rightarrow> 'a" where
  "nsmul 0 p = 0"
| "nsmul (Suc n) p = p + nsmul n p"

definition smul :: "int \<Rightarrow> 'a::ab_group_add \<Rightarrow> 'a" where
  "smul n p = nsmul (nat n) p - nsmul (nat (- n)) p"

lemma nsmul_add: "nsmul (m + n) p = nsmul m p + nsmul n p"
  by (induction m) (simp_all add: add.assoc)

lemma smul_diff: "smul (int a - int b) p = nsmul a p - nsmul b p"
proof (cases "b \<le> a")
  case True
  then have "nsmul a p = nsmul (a - b) p + nsmul b p" by (simp add: nsmul_add [symmetric])
  then show ?thesis using True by (simp add: smul_def nat_diff_distrib' [symmetric] of_nat_diff [symmetric] del: of_nat_diff)
next
  case False
  then have b: "a \<le> b" by simp
  then have "nsmul b p = nsmul (b - a) p + nsmul a p" by (simp add: nsmul_add [symmetric])
  moreover have "nat (int b - int a) = b - a" using b by (metis nat_int of_nat_diff)
  ultimately show ?thesis using b by (simp add: smul_def)
qed

lemma smul_0 [simp]: "smul 0 p = 0" by (simp add: smul_def)
lemma smul_1 [simp]: "smul 1 p = p" by (simp add: smul_def)

lemma smul_add: "smul (m + n) p = smul m p + smul n p"
proof -
  have split: "k = int (nat k) - int (nat (- k))" for k by simp
  have "m + n = int (nat m + nat n) - int (nat (- m) + nat (- n))" by simp
  then have "smul (m + n) p = nsmul (nat m + nat n) p - nsmul (nat (- m) + nat (- n)) p"
    by (metis smul_diff)
  then show ?thesis by (simp add: nsmul_add smul_def)
qed

lemma smul_uminus: "smul (- n) p = - smul n p"
  by (simp add: smul_def)

lemma smul_diff_int: "smul (m - n) p = smul m p - smul n p"
  using smul_add [of m "- n" p] by (simp add: smul_uminus)

lemma smul_smul: "smul (m * n) p = smul m (smul n p)"
proof (induction m rule: int_induct [where k = 0])
  case (step1 i)
  then show ?case by (simp add: smul_add distrib_right)
next
  case (step2 i)
  then show ?case by (simp add: smul_diff_int left_diff_distrib)
qed simp

lemma smul_point_add: "smul n (p + q) = smul n p + smul n q"
proof (induction n rule: int_induct [where k = 0])
  case (step1 i)
  then show ?case by (simp add: smul_add)
next
  case (step2 i)
  then show ?case by (simp add: smul_diff_int)
qed simp

lemma smul_zero [simp]: "smul n 0 = 0"
  using smul_point_add [of n 0 0] by simp

lemma smul_neg_point: "smul n (- p) = - smul n p"
  using smul_point_add [of n p "- p"] by (simp add: eq_neg_iff_add_eq_0 add.commute)

lemma smul_2: "smul 2 p = p + p"
  using smul_add [of 1 1 p] by simp

end
