(* ===== verification/HexGf.thy ===== *)
theory HexGf
  imports HexArith Edwards
begin

text \<open>
  Checks on hexadecimal digits that one point of the curve is the double, or the sum, of others.
  A point is given by \<open>a = y + x\<close> and \<open>b = y - x\<close>, as in the precomputed tables.
\<close>

section \<open>Digits as field elements\<close>

definition gfh :: "hex list \<Rightarrow> gf" where
  "gfh ds = of_int (hval ds)"

lemma gfh_hx: "0 \<le> n \<Longrightarrow> gfh (hx n) = of_int n"
  by (simp add: gfh_def hval_hx)

lemma gfh_hadd [simp]: "gfh (hadd a b H0) = gfh a + gfh b"
  by (simp add: gfh_def)

lemma gfh_zeros64: "gfh zeros64 = 0"
  by (simp add: gfh_def zeros64_def hval_zeros)

lemma gfh_congr: "hval a = hval b + k * (2 ^ 255 - 19) \<Longrightarrow> gfh a = gfh b"
  using gf_p_zero unfolding gfh_def p25519_def by simp

lemma gfh_hmulmod [simp]: "gfh (hmulmod a b) = gfh a * gfh b"
proof -
  obtain k where "hval a * hval b = hval (hmulmod a b) + k * (2 ^ 255 - 19)" using hval_hmulmod by blast
  then have "(of_int (hval a * hval b) :: gf) = of_int (hval (hmulmod a b) + k * p25519)"
    by (simp only: p25519_def)
  then show ?thesis by (simp add: gfh_def gf_p_zero)
qed

lemma gfh_hfold: "gfh (hfold x) = gfh x"
proof -
  obtain k where "hval x = hval (hfold x) + k * (2 ^ 255 - 19)" using hval_hfold by blast
  then show ?thesis by (rule gfh_congr [symmetric])
qed

text \<open>Subtraction, by the complement of 64 digits.\<close>

definition hsub :: "hex list \<Rightarrow> hex list \<Rightarrow> hex list" where
  "hsub a b =
    (if length b = 64 then hadd (hadd a (hneg b) H0) (hx 115792089237316195423570985008687907853269984665640564039457584007913129639861) H0
     else hx ((hval a - hval b) mod p25519))"

lemma gfh_hsub [simp]: "gfh (hsub a b) = gfh a - gfh b"
proof (cases "length b = 64")
  case True
  have "hval (hsub a b) = hval a - hval b + 4 * p25519"
    using True by (simp add: hsub_def hval_hneg hval_hx p25519_def)
  then show ?thesis by (simp add: gfh_def gf_p_zero)
next
  case False
  then show ?thesis by (simp add: hsub_def gfh_hx gf_of_int_mod) (simp add: gfh_def)
qed

text \<open>A nearly canonical form: the bits above \<open>2^255\<close> are folded to 19.\<close>

definition htop :: "hex list \<Rightarrow> hex list" where
  "htop z =
    (case drop 63 z of
       [d] \<Rightarrow> hadd (take 63 z @ [digit (hv d mod 8)]) (hx (19 * (hv d div 8))) H0
     | _ \<Rightarrow> z)"

lemma gfh_htop: "gfh (htop z) = gfh z"
proof (cases "\<exists>d. drop 63 z = [d]")
  case True
  then obtain d where d: "drop 63 z = [d]" by blast
  then have l: "length (take 63 z) = 63" by (metis length_drop length_take list.size(3,4) min.absorb2 nat_le_linear diff_is_0_eq One_nat_def add_diff_cancel_left' zero_neq_one add_0)
  have z: "hval z = hval (take 63 z) + 16 ^ 63 * hv d"
    using hval_append [of "take 63 z" "[d]"] d l by (metis append_take_drop_id hval.simps add_0_right mult_zero_right)
  define q r where "q = hv d div 8" and "r = hv d mod 8"
  have r: "0 \<le> r" "r \<le> 15" "0 \<le> q" "hv d = 8 * q + r"
    using hv_range [of d] by (auto simp: q_def r_def)
  have "hval (htop z) = hval (take 63 z) + 16 ^ 63 * r + 19 * q"
    using d l r(1-3) by (simp add: htop_def hval_append hv_digit hval_hx q_def [symmetric] r_def [symmetric])
  then have "hval z = hval (htop z) + q * (2 ^ 255 - 19)"
    unfolding z r(4) by simp
  then show ?thesis by (rule gfh_congr [symmetric])
next
  case False
  then show ?thesis by (auto simp: htop_def split: list.split)
qed

definition hcong :: "hex list \<Rightarrow> hex list \<Rightarrow> bool" where
  "hcong a b \<longleftrightarrow> heq (htop (hfold (hfold (hadd a zeros64 H0)))) (htop (hfold (hfold (hadd b zeros64 H0))))"

lemma hcong_gfh: "hcong a b \<Longrightarrow> gfh a = gfh b"
proof -
  assume "hcong a b"
  then have "gfh (htop (hfold (hfold (hadd a zeros64 H0)))) = gfh (htop (hfold (hfold (hadd b zeros64 H0))))"
    unfolding hcong_def gfh_def by (simp add: heq_val)
  then show "gfh a = gfh b"
    by (simp add: gfh_htop gfh_hfold gfh_zeros64)
qed

section \<open>Doubling and addition\<close>

definition pt_ab :: "pt \<Rightarrow> hex list \<Rightarrow> hex list \<Rightarrow> bool" where
  "pt_ab P a b \<longleftrightarrow> gfh a = py P + px P \<and> gfh b = py P - px P"

definition dbl_eqs :: "hex list \<Rightarrow> hex list \<Rightarrow> hex list \<Rightarrow> hex list \<Rightarrow> hex list \<Rightarrow> bool" where
  "dbl_eqs ws ab ss w3 s3 \<longleftrightarrow>
    hcong (hmulmod ab w3) ws \<and>
    hcong (hadd (hadd s3 s3 H0) (hadd ab ab H0) H0) (hadd ss (hmulmod ab s3) H0)"

definition dbl_step :: "hex list \<Rightarrow> hex list \<Rightarrow> hex list \<Rightarrow> hex list \<Rightarrow> bool" where
  "dbl_step a b a3 b3 \<longleftrightarrow>
    dbl_eqs (hmulmod (hsub a b) (hadd a b H0)) (hmulmod a b) (hmulmod (hadd a b H0) (hadd a b H0))
      (hsub a3 b3) (hadd a3 b3 H0)"

definition add_eqs :: "hex list \<Rightarrow> hex list \<Rightarrow> hex list \<Rightarrow> hex list \<Rightarrow> hex list \<Rightarrow> bool" where
  "add_eqs A B C w3 s3 \<longleftrightarrow>
    hcong (hadd (hmulmod (hx 8) (hadd w3 B H0)) (hmulmod C w3) H0) (hmulmod (hx 8) A) \<and>
    hcong (hmulmod (hx 8) s3) (hadd (hmulmod (hx 8) (hadd A B H0)) (hmulmod C s3) H0)"

definition add_step ::
  "hex list \<Rightarrow> hex list \<Rightarrow> hex list \<Rightarrow> hex list \<Rightarrow> hex list \<Rightarrow> hex list \<Rightarrow> hex list \<Rightarrow> bool" where
  "add_step a1 b1 a2 b2 t2 a3 b3 \<longleftrightarrow>
    add_eqs (hmulmod a1 a2) (hmulmod b1 b2) (hmulmod (hmulmod (hsub a1 b1) (hadd a1 b1 H0)) t2)
      (hsub a3 b3) (hadd a3 b3 H0)"

definition t_step :: "hex list \<Rightarrow> hex list \<Rightarrow> hex list \<Rightarrow> bool" where
  "t_step a b t \<longleftrightarrow>
    hcong (hadd t t H0) (hmulmod (hx 37095705934669439343138083508754565189542113879843219016388785533085940283555) (hmulmod (hsub a b) (hadd a b H0)))"

lemma gf_d_numeral: "of_int 37095705934669439343138083508754565189542113879843219016388785533085940283555 = ed_d"
proof -
  have "(of_int (121666 * 37095705934669439343138083508754565189542113879843219016388785533085940283555) :: gf) = of_int (- 121665 + 77955 * p25519)"
    by (simp add: p25519_def)
  also have "\<dots> = 121666 * ed_d"
    unfolding of_int_add of_int_mult gf_p_zero ed_d_eq by simp
  finally have "121666 * (of_int 37095705934669439343138083508754565189542113879843219016388785533085940283555 :: gf) = 121666 * ed_d"
    by (simp only: of_int_mult of_int_numeral)
  then show ?thesis by (rule mult_left_cancel [OF gf_121666, THEN iffD1])
qed

lemma pt_add_unique:
  assumes "x * (1 + ed_d * px P * px Q * py P * py Q) = px P * py Q + px Q * py P"
    and "y * (1 - ed_d * px P * px Q * py P * py Q) = py P * py Q + px P * px Q"
  shows "px (P + Q) = x" "py (P + Q) = y"
proof -
  note a = pt_add [of P Q]
  show "px (P + Q) = x" using a(1,3) assms(1) by (metis mult_right_cancel)
  show "py (P + Q) = y" using a(2,4) assms(2) by (metis mult_right_cancel)
qed

lemma half_cancel: "(2::gf) * a = 2 * b \<Longrightarrow> a = b"
  using gf_numeral_neq_0 by simp

lemma half_mult: "2 * (a / 2 * k) = a * (k::gf)"
  using gf_numeral_neq_0 by simp

lemma half_self: "2 * (a / 2) = (a::gf)"
  using gf_numeral_neq_0 by simp

lemma gf_8: "(8::gf) \<noteq> 0"
proof -
  have "(8::gf) = 2 * (2 * 2)" by simp
  then show ?thesis using gf_numeral_neq_0 by (metis mult_eq_0_iff)
qed

lemma pt_ab_intro:
  assumes "gfh a - gfh b = 2 * px P" "gfh a + gfh b = 2 * py P"
  shows "pt_ab P a b"
proof -
  have "2 * gfh a = 2 * (py P + px P)" "2 * gfh b = 2 * (py P - px P)" using assms by algebra+
  then show ?thesis unfolding pt_ab_def by (blast intro: half_cancel)
qed

lemma dbl_step_sound:
  assumes "pt_ab P a b" "dbl_step a b a3 b3"
  shows "pt_ab (P + P) a3 b3"
proof -
  let ?w = "gfh a3 - gfh b3" and ?s = "gfh a3 + gfh b3" and ?x = "px P" and ?y = "py P"
  have ab: "gfh a = ?y + ?x" "gfh b = ?y - ?x" using assms(1) by (simp_all add: pt_ab_def)
  have e: "gfh a * gfh b * ?w = (gfh a - gfh b) * (gfh a + gfh b)"
    "?s + ?s + (gfh a * gfh b + gfh a * gfh b) = (gfh a + gfh b) * (gfh a + gfh b) + gfh a * gfh b * ?s"
    using assms(2) by (auto simp: dbl_step_def dbl_eqs_def dest!: hcong_gfh)
  have c: "?y * ?y - ?x * ?x = 1 + ed_d * ?x * ?x * ?y * ?y" by (rule pt_curve)
  have "2 * (?w / 2 * (1 + ed_d * ?x * ?x * ?y * ?y)) = 2 * (?x * ?y + ?x * ?y)"
  proof -
    have "2 * (?w / 2 * (1 + ed_d * ?x * ?x * ?y * ?y)) = ?w * (?y * ?y - ?x * ?x)"
      unfolding c by (rule half_mult)
    also have "\<dots> = gfh a * gfh b * ?w" unfolding ab by algebra
    also have "\<dots> = (gfh a - gfh b) * (gfh a + gfh b)" by (rule e(1))
    also have "\<dots> = 2 * (?x * ?y + ?x * ?y)" unfolding ab by algebra
    finally show ?thesis .
  qed
  moreover have "2 * (?s / 2 * (1 - ed_d * ?x * ?x * ?y * ?y)) = 2 * (?y * ?y + ?x * ?x)"
  proof -
    have "1 - ed_d * ?x * ?x * ?y * ?y = 2 - gfh a * gfh b" unfolding ab using c by algebra
    then have "2 * (?s / 2 * (1 - ed_d * ?x * ?x * ?y * ?y)) = ?s * (2 - gfh a * gfh b)"
      using gf_numeral_neq_0 by simp
    also have "\<dots> = (gfh a + gfh b) * (gfh a + gfh b) - 2 * (gfh a * gfh b)" using e(2) by algebra
    also have "\<dots> = 2 * (?y * ?y + ?x * ?x)" unfolding ab by algebra
    finally show ?thesis .
  qed
  ultimately have "px (P + P) = ?w / 2" "py (P + P) = ?s / 2"
    by (blast intro: pt_add_unique half_cancel)+
  then show ?thesis by (intro pt_ab_intro) (simp_all only: half_self)
qed

lemma add_step_sound:
  assumes "pt_ab P a1 b1" "pt_ab Q a2 b2" "gfh t2 = 2 * ed_d * px Q * py Q" "add_step a1 b1 a2 b2 t2 a3 b3"
  shows "pt_ab (P + Q) a3 b3"
proof -
  let ?w = "gfh a3 - gfh b3" and ?s = "gfh a3 + gfh b3"
  let ?A = "gfh a1 * gfh a2" and ?B = "gfh b1 * gfh b2" and ?e = "ed_d * px P * px Q * py P * py Q"
  have ab: "gfh a1 = py P + px P" "gfh b1 = py P - px P" "gfh a2 = py Q + px Q" "gfh b2 = py Q - px Q"
    using assms(1,2) by (simp_all add: pt_ab_def)
  have C: "(gfh a1 - gfh b1) * (gfh a1 + gfh b1) * gfh t2 = 8 * ?e"
    unfolding ab assms(3) by algebra
  have "8 * (?w + ?B) + 8 * ?e * ?w = 8 * ?A" "8 * ?s = 8 * (?A + ?B) + 8 * ?e * ?s"
    using assms(4) unfolding C [symmetric]
    by (auto simp: add_step_def add_eqs_def gfh_hx dest!: hcong_gfh)
  then have "8 * (?w * (1 + ?e)) = 8 * (?A - ?B)" "8 * (?s * (1 - ?e)) = 8 * (?A + ?B)" by algebra+
  note this [THEN mult_left_cancel [OF gf_8, THEN iffD1]]
  then have "2 * (?w / 2 * (1 + ?e)) = 2 * (px P * py Q + px Q * py P)"
    "2 * (?s / 2 * (1 - ?e)) = 2 * (py P * py Q + px P * px Q)"
    unfolding half_mult ab by algebra+
  then have "px (P + Q) = ?w / 2" "py (P + Q) = ?s / 2"
    by (blast intro: pt_add_unique half_cancel)+
  then show ?thesis by (intro pt_ab_intro) (simp_all only: half_self)
qed

lemma t_step_sound:
  assumes "pt_ab P a b" "t_step a b t"
  shows "gfh t = 2 * ed_d * px P * py P"
proof (rule half_cancel)
  have ab: "gfh a = py P + px P" "gfh b = py P - px P" using assms(1) by (simp_all add: pt_ab_def)
  have "gfh t + gfh t = of_int 37095705934669439343138083508754565189542113879843219016388785533085940283555 * ((gfh a - gfh b) * (gfh a + gfh b))"
    using assms(2) by (auto simp: t_step_def gfh_hx simp del: of_int_numeral dest!: hcong_gfh)
  then show "2 * gfh t = 2 * (2 * ed_d * px P * py P)"
    unfolding gf_d_numeral ab by algebra
qed

section \<open>The base point\<close>

text \<open>"B is the Ed25519 base point (x,4/5) with x positive", that is, even.\<close>

definition ed_Bx :: int where "ed_Bx = 15112221349535400772501151409588531511454012693041857206046113283949847762202"
definition ed_By :: int where "ed_By = 46316835694926478169428394003475163141307993866256225615783033603165251855960"

lemma ed_By_4_5: "5 * (of_int ed_By :: gf) = 4"
proof -
  have "(of_int (5 * ed_By) :: gf) = of_int (4 + 4 * p25519)" by (simp add: ed_By_def p25519_def)
  then show ?thesis by (simp add: gf_p_zero)
qed

lemma ed_B_curve: "on_curve (of_int ed_Bx, of_int ed_By)"
proof -
  let ?x = "of_int ed_Bx :: gf" and ?y = "of_int ed_By :: gf"
  have "(of_int (1095010 * (ed_Bx * ed_Bx)) :: gf) = of_int (- 1094994 + 4319423663533848798735855754370739490579511111651593468892025027128615670086073666 * p25519)"
    by (simp add: ed_Bx_def p25519_def)
  then have x: "1095010 * (?x * ?x) = - 1094994"
    by (simp only: of_int_add of_int_mult of_int_minus gf_p_zero of_int_numeral mult_zero_right add_0_right)
  have "(25 * 121666) * (?y * ?y - ?x * ?x - (1 + ed_d * ?x * ?x * ?y * ?y)) =
      121666 * ((5 * ?y) * (5 * ?y)) - 25 * 121666 * (?x * ?x) - 25 * 121666 -
      (121666 * ed_d) * (?x * ?x) * ((5 * ?y) * (5 * ?y))" by algebra
  also have "\<dots> = - 1094994 - 1095010 * (?x * ?x)" unfolding ed_By_4_5 ed_d_eq by algebra
  also have "\<dots> = 0" unfolding x by simp
  finally have "(25 * 121666) * (?y * ?y - ?x * ?x - (1 + ed_d * ?x * ?x * ?y * ?y)) = 0" .
  moreover have "(25 * 121666 :: gf) \<noteq> 0"
  proof -
    have "(of_int 3041650 :: gf) \<noteq> of_int 0" unfolding gf_of_int_eq_iff by (simp add: p25519_def)
    then show ?thesis by simp
  qed
  ultimately have "?y * ?y - ?x * ?x - (1 + ed_d * ?x * ?x * ?y * ?y) = 0" by (metis mult_eq_0_iff)
  then show ?thesis by (simp add: on_curve_def)
qed

definition ed_B :: pt where "ed_B = mk_pt (of_int ed_Bx) (of_int ed_By)"

lemma ed_B_coords: "px ed_B = of_int ed_Bx" "py ed_B = of_int ed_By"
  using mk_pt [OF ed_B_curve] by (simp_all add: ed_B_def)

section \<open>Evaluation\<close>

fun hlow :: "hex \<Rightarrow> hex" where
  "hlow d = digit (hv d mod 8)"

fun hhigh :: "hex \<Rightarrow> hex list" where
  "hhigh d = hx (19 * (hv d div 8))"

lemma hlow_hhigh:
  "hlow H0 = H0" "hhigh H0 = hx 0"
  "hlow H1 = H1" "hhigh H1 = hx 0"
  "hlow H2 = H2" "hhigh H2 = hx 0"
  "hlow H3 = H3" "hhigh H3 = hx 0"
  "hlow H4 = H4" "hhigh H4 = hx 0"
  "hlow H5 = H5" "hhigh H5 = hx 0"
  "hlow H6 = H6" "hhigh H6 = hx 0"
  "hlow H7 = H7" "hhigh H7 = hx 0"
  "hlow H8 = H0" "hhigh H8 = hx 19"
  "hlow H9 = H1" "hhigh H9 = hx 19"
  "hlow HA = H2" "hhigh HA = hx 19"
  "hlow HB = H3" "hhigh HB = hx 19"
  "hlow HC = H4" "hhigh HC = hx 19"
  "hlow HD = H5" "hhigh HD = hx 19"
  "hlow HE = H6" "hhigh HE = hx 19"
  "hlow HF = H7" "hhigh HF = hx 19"
  by (simp_all add: digit_simps)

lemma hsub_simp:
  "hsub a
    [x0, x1, x2, x3, x4, x5, x6, x7, x8, x9, x10, x11, x12, x13, x14, x15, x16, x17, x18, x19, x20,
    x21, x22, x23, x24, x25, x26, x27, x28, x29, x30, x31, x32, x33, x34, x35, x36, x37, x38, x39,
    x40, x41, x42, x43, x44, x45, x46, x47, x48, x49, x50, x51, x52, x53, x54, x55, x56, x57, x58,
    x59, x60, x61, x62, x63] =
    hadd (hadd a (hneg
    [x0, x1, x2, x3, x4, x5, x6, x7, x8, x9, x10, x11, x12, x13, x14, x15, x16, x17, x18, x19, x20,
    x21, x22, x23, x24, x25, x26, x27, x28, x29, x30, x31, x32, x33, x34, x35, x36, x37, x38, x39,
    x40, x41, x42, x43, x44, x45, x46, x47, x48, x49, x50, x51, x52, x53, x54, x55, x56, x57, x58,
    x59, x60, x61, x62, x63]) H0) (hx 115792089237316195423570985008687907853269984665640564039457584007913129639861) H0"
  by (simp add: hsub_def)

lemma htop_simp:
  "htop
    [x0, x1, x2, x3, x4, x5, x6, x7, x8, x9, x10, x11, x12, x13, x14, x15, x16, x17, x18, x19, x20,
    x21, x22, x23, x24, x25, x26, x27, x28, x29, x30, x31, x32, x33, x34, x35, x36, x37, x38, x39,
    x40, x41, x42, x43, x44, x45, x46, x47, x48, x49, x50, x51, x52, x53, x54, x55, x56, x57, x58,
    x59, x60, x61, x62, d] =
    hadd (
    x0 # x1 # x2 # x3 # x4 # x5 # x6 # x7 # x8 # x9 # x10 # x11 # x12 # x13 # x14 # x15 # x16 # x17
    # x18 # x19 # x20 # x21 # x22 # x23 # x24 # x25 # x26 # x27 # x28 # x29 # x30 # x31 # x32 # x33
    # x34 # x35 # x36 # x37 # x38 # x39 # x40 # x41 # x42 # x43 # x44 # x45 # x46 # x47 # x48 # x49
    # x50 # x51 # x52 # x53 # x54 # x55 # x56 # x57 # x58 # x59 # x60 # x61 # x62 # [hlow d]) (hhigh d) H0"
  by (simp add: htop_def)

lemmas step_eval = dbl_step_def dbl_eqs_def add_step_def add_eqs_def t_step_def hcong_def
  hsub_simp htop_simp hlow_hhigh hneg_simps hex_eval simp_thms

section \<open>Rows of multiples\<close>

text \<open>An entry of a table for the point \<open>P\<close>, as three integers.\<close>

definition entry_ok :: "pt \<Rightarrow> int \<times> int \<times> int \<Rightarrow> bool" where
  "entry_ok P = (\<lambda>(a, b, t). pt_ab P (hx a) (hx b) \<and> gfh (hx t) = 2 * ed_d * px P * py P)"

lemma entry_okI: "pt_ab P (hx a) (hx b) \<Longrightarrow> t_step (hx a) (hx b) (hx t) \<Longrightarrow> entry_ok P (a, b, t)"
  by (simp add: entry_ok_def t_step_sound)

lemma smul_double: "smul (2 * n) P = smul n P + smul n P"
  by (simp only: mult_2 smul_add)

lemma dbl_step_smul:
  assumes "pt_ab (smul n P) (hx a) (hx b)" "dbl_step (hx a) (hx b) (hx a3) (hx b3)" "m = 2 * n"
  shows "pt_ab (smul m P) (hx a3) (hx b3)"
  unfolding assms(3) smul_double by (rule dbl_step_sound [OF assms(1,2)])

lemma add_step_smul:
  assumes "pt_ab (smul n P) (hx a1) (hx b1)" "entry_ok (smul k P) (a2, b2, t2)"
    "add_step (hx a1) (hx b1) (hx a2) (hx b2) (hx t2) (hx a3) (hx b3)" "m = n + k"
  shows "pt_ab (smul m P) (hx a3) (hx b3)"
  unfolding assms(4) smul_add
  using assms(2) by (auto simp only: entry_ok_def split_conv intro!: add_step_sound [OF assms(1) _ _ assms(3)])

end
