(* ===== verification/GeOps.thy ===== *)
theory GeOps
  imports Edwards Ge25519
begin

text \<open>
  The point operations of \<^verbatim>\<open>ge.c\<close> compute the group operations of \<open>Edwards\<close>.  For each coordinate
  system a relation says that the limbs are within their bounds and stand for a given point; every
  operation takes related arguments to a related result.
\<close>

section \<open>Limb vectors with a bound and a value\<close>

definition ftight :: "gf \<Rightarrow> fe \<Rightarrow> bool" where "ftight v f \<longleftrightarrow> fe_tight f \<and> gfe f = v"
definition floose :: "gf \<Rightarrow> fe \<Rightarrow> bool" where "floose v f \<longleftrightarrow> fe_loose f \<and> gfe f = v"
definition fmulable :: "gf \<Rightarrow> fe \<Rightarrow> bool" where "fmulable v f \<longleftrightarrow> fe_mulable f \<and> gfe f = v"

lemma ftight_loose: "ftight v f \<Longrightarrow> floose v f"
  by (simp add: ftight_def floose_def fe_weaken)

lemma floose_mulable: "floose v f \<Longrightarrow> fmulable v f"
  by (simp add: fmulable_def floose_def fe_weaken)

lemma ftight_mulable: "ftight v f \<Longrightarrow> fmulable v f"
  by (rule floose_mulable [OF ftight_loose])

lemma ftight_mul: "fmulable v f \<Longrightarrow> fmulable w g \<Longrightarrow> ftight (v * w) (fe_mul f g)"
  using gfe_eqI [OF fe_mul_mod, of f g] by (auto simp: ftight_def fmulable_def gfe_def)

lemma ftight_sq: "fmulable v f \<Longrightarrow> ftight (v * v) (fe_sq f)"
  using gfe_eqI [OF fe_sq_mod, of f] by (auto simp: ftight_def fmulable_def gfe_def)

lemma ftight_sq2: "fmulable v f \<Longrightarrow> ftight (2 * (v * v)) (fe_sq2 f)"
  using gfe_eqI [OF fe_sq2_mod, of f] by (auto simp: ftight_def fmulable_def gfe_def)

lemma floose_add: "ftight v f \<Longrightarrow> ftight w g \<Longrightarrow> floose (v + w) (fe_add f g)"
  by (auto simp: ftight_def floose_def gfe_def fe_add_val fe_weaken)

lemma floose_sub: "ftight v f \<Longrightarrow> ftight w g \<Longrightarrow> floose (v - w) (fe_sub f g)"
  by (auto simp: ftight_def floose_def gfe_def fe_sub_val fe_weaken)

lemma fmulable_add:
  assumes "floose v f" "ftight w g"
  shows "fmulable (v + w) (fe_add f g)"
  using assms fe_add_exact [of 73819750 36909875 f 33889976 16944988 g]
  by (auto simp: ftight_def floose_def fmulable_def gfe_def fe_bounds elim: fe_within_mono)

lemma fmulable_sub:
  assumes "floose v f" "ftight w g"
  shows "fmulable (v - w) (fe_sub f g)"
  using assms fe_sub_exact [of 73819750 36909875 f 33889976 16944988 g]
  by (auto simp: ftight_def floose_def fmulable_def gfe_def fe_bounds elim: fe_within_mono)

lemma fmulable_sub_tl:
  assumes "ftight v f" "floose w g"
  shows "fmulable (v - w) (fe_sub f g)"
  using assms fe_sub_exact [of 33889976 16944988 f 73819750 36909875 g]
  by (auto simp: ftight_def floose_def fmulable_def gfe_def fe_bounds elim: fe_within_mono)

lemma ftight_neg: "ftight v f \<Longrightarrow> ftight (- v) (fe_neg f)"
  using fe_neg_exact [of 33889976 16944988 f] by (auto simp: ftight_def gfe_def fe_bounds)

lemma ftight_consts: "ftight 0 fe_0" "ftight 1 fe_1"
  by (simp_all add: ftight_def gfe_def fe_0_tight fe_1_tight)

lemma ftight_eq: "ftight v f \<Longrightarrow> v = w \<Longrightarrow> ftight w f" by simp
lemma fmulable_eq: "fmulable v f \<Longrightarrow> v = w \<Longrightarrow> fmulable w f" by simp

section \<open>The relations\<close>

definition rep_p2 :: "pt \<Rightarrow> ge_p2 \<Rightarrow> bool" where
  "rep_p2 P r \<longleftrightarrow> (\<exists>z. z \<noteq> 0 \<and> ftight (px P * z) (p2_X r) \<and> ftight (py P * z) (p2_Y r) \<and> ftight z (p2_Z r))"

definition rep_p3 :: "pt \<Rightarrow> ge_p3 \<Rightarrow> bool" where
  "rep_p3 P r \<longleftrightarrow> (\<exists>z. z \<noteq> 0 \<and> ftight (px P * z) (p3_X r) \<and> ftight (py P * z) (p3_Y r) \<and> ftight z (p3_Z r) \<and>
    ftight (px P * py P * z) (p3_T r))"

definition rep_p1p1 :: "pt \<Rightarrow> ge_p1p1 \<Rightarrow> bool" where
  "rep_p1p1 P r \<longleftrightarrow> (\<exists>z t. z \<noteq> 0 \<and> t \<noteq> 0 \<and> fmulable (px P * z) (p1_X r) \<and> fmulable (py P * t) (p1_Y r) \<and>
    fmulable z (p1_Z r) \<and> fmulable t (p1_T r))"

definition rep_cached :: "pt \<Rightarrow> ge_cached \<Rightarrow> bool" where
  "rep_cached P r \<longleftrightarrow> (\<exists>z. z \<noteq> 0 \<and> floose ((py P + px P) * z) (ca_YplusX r) \<and> floose ((py P - px P) * z) (ca_YminusX r) \<and>
    ftight z (ca_Z r) \<and> ftight (2 * ed_d * px P * py P * z) (ca_T2d r))"

definition rep_precomp :: "pt \<Rightarrow> ge_precomp \<Rightarrow> bool" where
  "rep_precomp P r \<longleftrightarrow> ftight (py P + px P) (yplusx r) \<and> ftight (py P - px P) (yminusx r) \<and>
    ftight (2 * ed_d * px P * py P) (xy2d r)"

text \<open>A completed point from its four coordinates, scaled: the shape every addition ends in.\<close>

lemma rep_p1p1_add:
  assumes "fmulable (2 * k * (px P * py Q + px Q * py P)) (p1_X r)" "fmulable (2 * k * (py P * py Q + px P * px Q)) (p1_Y r)"
    and "fmulable (2 * k * (1 + ed_d * px P * px Q * py P * py Q)) (p1_Z r)"
    and "fmulable (2 * k * (1 - ed_d * px P * px Q * py P * py Q)) (p1_T r)" and "k \<noteq> 0"
  shows "rep_p1p1 (P + Q) r"
proof -
  note a = pt_add [of P Q]
  have "px (P + Q) * (2 * k * (1 + ed_d * px P * px Q * py P * py Q)) = 2 * k * (px P * py Q + px Q * py P)"
    unfolding a(1) [symmetric] by (simp only: mult_ac)
  moreover have "py (P + Q) * (2 * k * (1 - ed_d * px P * px Q * py P * py Q)) = 2 * k * (py P * py Q + px P * px Q)"
    unfolding a(2) [symmetric] by (simp only: mult_ac)
  moreover have "2 * k * (1 + ed_d * px P * px Q * py P * py Q) \<noteq> 0" "2 * k * (1 - ed_d * px P * px Q * py P * py Q) \<noteq> 0"
    using a(3,4) assms(5) gf_numeral_neq_0 by simp_all
  ultimately show ?thesis unfolding rep_p1p1_def using assms(1-4) by metis
qed

section \<open>The operations\<close>

lemma ge_add_rep:
  assumes "rep_p3 P p" "rep_cached Q q"
  shows "rep_p1p1 (P + Q) (ge_add p q)"
proof -
  obtain z w where p: "z \<noteq> 0" "ftight (px P * z) (p3_X p)" "ftight (py P * z) (p3_Y p)" "ftight z (p3_Z p)"
      "ftight (px P * py P * z) (p3_T p)"
    and q: "w \<noteq> 0" "floose ((py Q + px Q) * w) (ca_YplusX q)" "floose ((py Q - px Q) * w) (ca_YminusX q)"
      "ftight w (ca_Z q)" "ftight (2 * ed_d * px Q * py Q * w) (ca_T2d q)"
    using assms by (auto simp: rep_p3_def rep_cached_def)
  note X = ftight_mul [OF floose_mulable [OF floose_add [OF p(3,2)]] floose_mulable [OF q(2)]]
  note Y = ftight_mul [OF floose_mulable [OF floose_sub [OF p(3,2)]] floose_mulable [OF q(3)]]
  note T = ftight_mul [OF ftight_mulable [OF q(5)] ftight_mulable [OF p(5)]]
  note Z = ftight_mul [OF ftight_mulable [OF p(4)] ftight_mulable [OF q(4)]]
  note t0 = floose_add [OF Z Z]
  show ?thesis
  proof (rule rep_p1p1_add)
    show "z * w \<noteq> 0" using p(1) q(1) by simp
    show "fmulable (2 * (z * w) * (px P * py Q + px Q * py P)) (p1_X (ge_add p q))"
      unfolding ge_add_def Let_def ge_p1p1.simps
      by (rule fmulable_eq [OF floose_mulable [OF floose_sub [OF X Y]]]) algebra
    show "fmulable (2 * (z * w) * (py P * py Q + px P * px Q)) (p1_Y (ge_add p q))"
      unfolding ge_add_def Let_def ge_p1p1.simps
      by (rule fmulable_eq [OF floose_mulable [OF floose_add [OF X Y]]]) algebra
    show "fmulable (2 * (z * w) * (1 + ed_d * px P * px Q * py P * py Q)) (p1_Z (ge_add p q))"
      unfolding ge_add_def Let_def ge_p1p1.simps
      by (rule fmulable_eq [OF fmulable_add [OF t0 T]]) algebra
    show "fmulable (2 * (z * w) * (1 - ed_d * px P * px Q * py P * py Q)) (p1_T (ge_add p q))"
      unfolding ge_add_def Let_def ge_p1p1.simps
      by (rule fmulable_eq [OF fmulable_sub [OF t0 T]]) algebra
  qed
qed

lemma ge_sub_rep:
  assumes "rep_p3 P p" "rep_cached Q q"
  shows "rep_p1p1 (P - Q) (ge_sub p q)"
proof -
  let ?q = "\<lparr>ca_YplusX = ca_YminusX q, ca_YminusX = ca_YplusX q, ca_Z = ca_Z q, ca_T2d = ca_T2d q\<rparr>"
  obtain z w where p: "z \<noteq> 0" "ftight (px P * z) (p3_X p)" "ftight (py P * z) (p3_Y p)" "ftight z (p3_Z p)"
      "ftight (px P * py P * z) (p3_T p)"
    and q: "w \<noteq> 0" "floose ((py Q + px Q) * w) (ca_YplusX q)" "floose ((py Q - px Q) * w) (ca_YminusX q)"
      "ftight w (ca_Z q)" "ftight (2 * ed_d * px Q * py Q * w) (ca_T2d q)"
    using assms by (auto simp: rep_p3_def rep_cached_def)
  note X = ftight_mul [OF floose_mulable [OF floose_add [OF p(3,2)]] floose_mulable [OF q(3)]]
  note Y = ftight_mul [OF floose_mulable [OF floose_sub [OF p(3,2)]] floose_mulable [OF q(2)]]
  note T = ftight_mul [OF ftight_mulable [OF q(5)] ftight_mulable [OF p(5)]]
  note Z = ftight_mul [OF ftight_mulable [OF p(4)] ftight_mulable [OF q(4)]]
  note t0 = floose_add [OF Z Z]
  have "rep_p1p1 (P + - Q) (ge_sub p q)"
  proof (rule rep_p1p1_add, unfold pt_uminus)
    show "z * w \<noteq> 0" using p(1) q(1) by simp
    show "fmulable (2 * (z * w) * (px P * py Q + - px Q * py P)) (p1_X (ge_sub p q))"
      unfolding ge_sub_def Let_def ge_p1p1.simps
      by (rule fmulable_eq [OF floose_mulable [OF floose_sub [OF X Y]]]) algebra
    show "fmulable (2 * (z * w) * (py P * py Q + px P * - px Q)) (p1_Y (ge_sub p q))"
      unfolding ge_sub_def Let_def ge_p1p1.simps
      by (rule fmulable_eq [OF floose_mulable [OF floose_add [OF X Y]]]) algebra
    show "fmulable (2 * (z * w) * (1 + ed_d * px P * - px Q * py P * py Q)) (p1_Z (ge_sub p q))"
      unfolding ge_sub_def Let_def ge_p1p1.simps
      by (rule fmulable_eq [OF fmulable_sub [OF t0 T]]) algebra
    show "fmulable (2 * (z * w) * (1 - ed_d * px P * - px Q * py P * py Q)) (p1_T (ge_sub p q))"
      unfolding ge_sub_def Let_def ge_p1p1.simps
      by (rule fmulable_eq [OF fmulable_add [OF t0 T]]) algebra
  qed
  then show ?thesis by simp
qed

lemma ge_madd_rep:
  assumes "rep_p3 P p" "rep_precomp Q q"
  shows "rep_p1p1 (P + Q) (ge_madd p q)"
proof -
  obtain z where p: "z \<noteq> 0" "ftight (px P * z) (p3_X p)" "ftight (py P * z) (p3_Y p)" "ftight z (p3_Z p)"
      "ftight (px P * py P * z) (p3_T p)"
    using assms by (auto simp: rep_p3_def)
  have q: "ftight (py Q + px Q) (yplusx q)" "ftight (py Q - px Q) (yminusx q)" "ftight (2 * ed_d * px Q * py Q) (xy2d q)"
    using assms by (auto simp: rep_precomp_def)
  note X = ftight_mul [OF floose_mulable [OF floose_add [OF p(3,2)]] ftight_mulable [OF q(1)]]
  note Y = ftight_mul [OF floose_mulable [OF floose_sub [OF p(3,2)]] ftight_mulable [OF q(2)]]
  note T = ftight_mul [OF ftight_mulable [OF q(3)] ftight_mulable [OF p(5)]]
  note t0 = floose_add [OF p(4) p(4)]
  show ?thesis
  proof (rule rep_p1p1_add)
    show "z \<noteq> 0" by (rule p(1))
    show "fmulable (2 * z * (px P * py Q + px Q * py P)) (p1_X (ge_madd p q))"
      unfolding ge_madd_def Let_def ge_p1p1.simps
      by (rule fmulable_eq [OF floose_mulable [OF floose_sub [OF X Y]]]) algebra
    show "fmulable (2 * z * (py P * py Q + px P * px Q)) (p1_Y (ge_madd p q))"
      unfolding ge_madd_def Let_def ge_p1p1.simps
      by (rule fmulable_eq [OF floose_mulable [OF floose_add [OF X Y]]]) algebra
    show "fmulable (2 * z * (1 + ed_d * px P * px Q * py P * py Q)) (p1_Z (ge_madd p q))"
      unfolding ge_madd_def Let_def ge_p1p1.simps
      by (rule fmulable_eq [OF fmulable_add [OF t0 T]]) algebra
    show "fmulable (2 * z * (1 - ed_d * px P * px Q * py P * py Q)) (p1_T (ge_madd p q))"
      unfolding ge_madd_def Let_def ge_p1p1.simps
      by (rule fmulable_eq [OF fmulable_sub [OF t0 T]]) algebra
  qed
qed

text \<open>The negated entry, as \<^verbatim>\<open>select\<close> builds it.\<close>

lemma rep_precomp_neg:
  "rep_precomp Q q \<Longrightarrow>
    rep_precomp (- Q) \<lparr>yplusx = yminusx q, yminusx = yplusx q, xy2d = fe_neg (xy2d q)\<rparr>"
  using ftight_neg [of "2 * ed_d * px Q * py Q" "xy2d q"] by (simp add: rep_precomp_def)

lemma ge_msub_rep:
  assumes "rep_p3 P p" "rep_precomp Q q"
  shows "rep_p1p1 (P - Q) (ge_msub p q)"
proof -
  obtain z where p: "z \<noteq> 0" "ftight (px P * z) (p3_X p)" "ftight (py P * z) (p3_Y p)" "ftight z (p3_Z p)"
      "ftight (px P * py P * z) (p3_T p)"
    using assms by (auto simp: rep_p3_def)
  have q: "ftight (py Q + px Q) (yplusx q)" "ftight (py Q - px Q) (yminusx q)" "ftight (2 * ed_d * px Q * py Q) (xy2d q)"
    using assms by (auto simp: rep_precomp_def)
  note X = ftight_mul [OF floose_mulable [OF floose_add [OF p(3,2)]] ftight_mulable [OF q(2)]]
  note Y = ftight_mul [OF floose_mulable [OF floose_sub [OF p(3,2)]] ftight_mulable [OF q(1)]]
  note T = ftight_mul [OF ftight_mulable [OF q(3)] ftight_mulable [OF p(5)]]
  note t0 = floose_add [OF p(4) p(4)]
  have "rep_p1p1 (P + - Q) (ge_msub p q)"
  proof (rule rep_p1p1_add, unfold pt_uminus)
    show "z \<noteq> 0" by (rule p(1))
    show "fmulable (2 * z * (px P * py Q + - px Q * py P)) (p1_X (ge_msub p q))"
      unfolding ge_msub_def Let_def ge_p1p1.simps
      by (rule fmulable_eq [OF floose_mulable [OF floose_sub [OF X Y]]]) algebra
    show "fmulable (2 * z * (py P * py Q + px P * - px Q)) (p1_Y (ge_msub p q))"
      unfolding ge_msub_def Let_def ge_p1p1.simps
      by (rule fmulable_eq [OF floose_mulable [OF floose_add [OF X Y]]]) algebra
    show "fmulable (2 * z * (1 + ed_d * px P * - px Q * py P * py Q)) (p1_Z (ge_msub p q))"
      unfolding ge_msub_def Let_def ge_p1p1.simps
      by (rule fmulable_eq [OF fmulable_sub [OF t0 T]]) algebra
    show "fmulable (2 * z * (1 - ed_d * px P * - px Q * py P * py Q)) (p1_T (ge_msub p q))"
      unfolding ge_msub_def Let_def ge_p1p1.simps
      by (rule fmulable_eq [OF fmulable_add [OF t0 T]]) algebra
  qed
  then show ?thesis by simp
qed

lemma ge_p1p1_to_p2_rep: "rep_p1p1 P r \<Longrightarrow> rep_p2 P (ge_p1p1_to_p2 r)"
proof -
  assume "rep_p1p1 P r"
  then obtain z t where r: "z \<noteq> 0" "t \<noteq> 0" "fmulable (px P * z) (p1_X r)" "fmulable (py P * t) (p1_Y r)"
      "fmulable z (p1_Z r)" "fmulable t (p1_T r)"
    by (auto simp: rep_p1p1_def)
  have "ftight (px P * (z * t)) (fe_mul (p1_X r) (p1_T r))"
    by (rule ftight_eq [OF ftight_mul [OF r(3,6)]]) (simp only: mult.assoc)
  moreover have "ftight (py P * (z * t)) (fe_mul (p1_Y r) (p1_Z r))"
    by (rule ftight_eq [OF ftight_mul [OF r(4,5)]]) (simp only: mult_ac)
  ultimately show ?thesis
    unfolding rep_p2_def ge_p1p1_to_p2_def using ftight_mul [OF r(5,6)] r(1,2)
    by (intro exI [of _ "z * t"]) simp
qed

lemma ge_p1p1_to_p3_rep: "rep_p1p1 P r \<Longrightarrow> rep_p3 P (ge_p1p1_to_p3 r)"
proof -
  assume "rep_p1p1 P r"
  then obtain z t where r: "z \<noteq> 0" "t \<noteq> 0" "fmulable (px P * z) (p1_X r)" "fmulable (py P * t) (p1_Y r)"
      "fmulable z (p1_Z r)" "fmulable t (p1_T r)"
    by (auto simp: rep_p1p1_def)
  have "ftight (px P * (z * t)) (fe_mul (p1_X r) (p1_T r))"
    by (rule ftight_eq [OF ftight_mul [OF r(3,6)]]) (simp only: mult.assoc)
  moreover have "ftight (py P * (z * t)) (fe_mul (p1_Y r) (p1_Z r))"
    by (rule ftight_eq [OF ftight_mul [OF r(4,5)]]) (simp only: mult_ac)
  moreover have "ftight (px P * py P * (z * t)) (fe_mul (p1_X r) (p1_Y r))"
    by (rule ftight_eq [OF ftight_mul [OF r(3,4)]]) (simp only: mult_ac)
  ultimately show ?thesis
    unfolding rep_p3_def ge_p1p1_to_p3_def using ftight_mul [OF r(5,6)] r(1,2)
    by (intro exI [of _ "z * t"]) simp
qed

lemma ge_p2_0_rep: "rep_p2 0 ge_p2_0"
  unfolding rep_p2_def ge_p2_0_def by (rule exI [of _ 1]) (simp add: ftight_consts)

lemma ge_p3_0_rep: "rep_p3 0 ge_p3_0"
  unfolding rep_p3_def ge_p3_0_def by (rule exI [of _ 1]) (simp add: ftight_consts)

lemma ge_p3_to_p2_rep: "rep_p3 P p \<Longrightarrow> rep_p2 P (ge_p3_to_p2 p)"
  unfolding rep_p3_def rep_p2_def ge_p3_to_p2_def by auto

lemma ge_p2_dbl_rep:
  assumes "rep_p2 P p"
  shows "rep_p1p1 (P + P) (ge_p2_dbl p)"
proof -
  obtain z where p: "z \<noteq> 0" "ftight (px P * z) (p2_X p)" "ftight (py P * z) (p2_Y p)" "ftight z (p2_Z p)"
    using assms by (auto simp: rep_p2_def)
  note XX = ftight_sq [OF ftight_mulable [OF p(2)]]
  note YY = ftight_sq [OF ftight_mulable [OF p(3)]]
  note ZZ = ftight_sq2 [OF ftight_mulable [OF p(4)]]
  note t0 = ftight_sq [OF floose_mulable [OF floose_add [OF p(2,3)]]]
  note S = floose_add [OF YY XX]
  note D = floose_sub [OF YY XX]
  let ?k = "z * z / 2"
  have k: "2 * ?k = z * z" using gf_numeral_neq_0 by simp
  have c: "py P * py P - px P * px P = 1 + ed_d * px P * px P * py P * py P" by (rule pt_curve)
  show ?thesis
  proof (rule rep_p1p1_add [where k = ?k], unfold k)
    show "?k \<noteq> 0" using p(1) gf_numeral_neq_0 by simp
    show "fmulable (z * z * (px P * py P + px P * py P)) (p1_X (ge_p2_dbl p))"
      unfolding ge_p2_dbl_def Let_def ge_p1p1.simps
      by (rule fmulable_eq [OF fmulable_sub_tl [OF t0 S]]) algebra
    show "fmulable (z * z * (py P * py P + px P * px P)) (p1_Y (ge_p2_dbl p))"
      unfolding ge_p2_dbl_def Let_def ge_p1p1.simps
      by (rule fmulable_eq [OF floose_mulable [OF S]]) algebra
    show "fmulable (z * z * (1 + ed_d * px P * px P * py P * py P)) (p1_Z (ge_p2_dbl p))"
      unfolding ge_p2_dbl_def Let_def ge_p1p1.simps c [symmetric]
      by (rule fmulable_eq [OF floose_mulable [OF D]]) algebra
    have "1 - ed_d * px P * px P * py P * py P = 2 - (py P * py P - px P * px P)" unfolding c by simp
    then show "fmulable (z * z * (1 - ed_d * px P * px P * py P * py P)) (p1_T (ge_p2_dbl p))"
      unfolding ge_p2_dbl_def Let_def ge_p1p1.simps
      by (elim ssubst) (rule fmulable_eq [OF fmulable_sub_tl [OF ZZ D]], algebra)
  qed
qed

lemma ge_p3_dbl_rep: "rep_p3 P p \<Longrightarrow> rep_p1p1 (P + P) (ge_p3_dbl p)"
  unfolding ge_p3_dbl_def Let_def by (intro ge_p2_dbl_rep ge_p3_to_p2_rep)

section \<open>The constants\<close>

lemma gf_eq_by_quotient: "a = b + q * p25519 \<Longrightarrow> (of_int a :: gf) = of_int b"
  by (simp add: gf_p_zero)

lemma ge_d_rep: "ftight ed_d ge_d"
proof -
  have v: "fe_val ge_d = -20800338683988658368647408995589388737092878452977063003340006470870624536394" and t: "fe_tight ge_d"
    by (simp_all add: ge_d_def radix_val_def fe_bounds)
  have "(of_int (121666 * -20800338683988658368647408995589388737092878452977063003340006470870624536394) :: gf) = of_int (- 121665)"
    by (rule gf_eq_by_quotient [of _ _ "-43711"]) (simp add: p25519_def)
  then have "121666 * gfe ge_d = 121666 * ed_d"
    unfolding gfe_def v ed_d_eq by (simp only: of_int_mult of_int_numeral of_int_minus)
  then have "gfe ge_d = ed_d" by (rule mult_left_cancel [OF gf_121666, THEN iffD1])
  then show ?thesis using t by (simp add: ftight_def)
qed

lemma ge_sqrtm1_rep: "ftight sqrt_m1 ge_sqrtm1"
proof -
  have v: "fe_val ge_sqrtm1 = 19681161376707505956807079304988542015446066515923890162744021073123829784752" and t: "fe_tight ge_sqrtm1"
    by (simp_all add: ge_sqrtm1_def radix_val_def fe_bounds)
  have "gfe ge_sqrtm1 = sqrt_m1"
    unfolding gfe_def v sqrt_m1_def by (rule gf_eq_by_quotient [of _ _ "0"]) (simp add: p25519_def)
  then show ?thesis using t by (simp add: ftight_def)
qed

lemma ge_d2_rep: "ftight (2 * ed_d) ge_d2"
proof -
  have v: "fe_val ge_d = -20800338683988658368647408995589388737092878452977063003340006470870624536394" "fe_val ge_d2 = 16295367250680780974490674513165176452449235426866156013048779062215315747161" and t: "fe_tight ge_d2"
    by (simp_all add: ge_d_def ge_d2_def radix_val_def fe_bounds)
  have "(of_int 16295367250680780974490674513165176452449235426866156013048779062215315747161 :: gf) = of_int (2 * -20800338683988658368647408995589388737092878452977063003340006470870624536394)"
    by (rule gf_eq_by_quotient [of _ _ "1"]) (simp add: p25519_def)
  then have "gfe ge_d2 = 2 * gfe ge_d" unfolding gfe_def v by (simp only: of_int_mult of_int_numeral)
  also have "gfe ge_d = ed_d" using ge_d_rep by (simp add: ftight_def)
  finally show ?thesis using t by (simp add: ftight_def)
qed

lemma ge_p3_to_cached_rep:
  assumes "rep_p3 P p"
  shows "rep_cached P (ge_p3_to_cached p)"
proof -
  obtain z where p: "z \<noteq> 0" "ftight (px P * z) (p3_X p)" "ftight (py P * z) (p3_Y p)" "ftight z (p3_Z p)"
      "ftight (px P * py P * z) (p3_T p)"
    using assms by (auto simp: rep_p3_def)
  have "floose ((py P + px P) * z) (fe_add (p3_Y p) (p3_X p))"
    using floose_add [OF p(3,2)] by (simp only: distrib_right)
  moreover have "floose ((py P - px P) * z) (fe_sub (p3_Y p) (p3_X p))"
    using floose_sub [OF p(3,2)] by (simp only: left_diff_distrib)
  moreover have "ftight (2 * ed_d * px P * py P * z) (fe_mul (p3_T p) ge_d2)"
    by (rule ftight_eq [OF ftight_mul [OF ftight_mulable [OF p(5)] ftight_mulable [OF ge_d2_rep]]]) algebra
  ultimately show ?thesis
    unfolding rep_cached_def ge_p3_to_cached_def using p(1,4) by (intro exI [of _ z]) simp
qed

end
