(* ===== verification/GeRows0.thy ===== *)
theory GeRows0
  imports HexGf GeOps
begin

text \<open>
  The entries of the table \<open>base\<close> are multiples of the base point: row \<open>i\<close>, column \<open>j\<close> represents
  \<open>(j + 1) 256\<^sup>i B\<close>.  Every doubling and addition of the chain of points is checked by evaluation of the
  group law on hexadecimal digits.  This theory has rows 0 to 7, the following ones eight rows each.
\<close>

text \<open>The integers an entry stands for, made positive, and its bounds.\<close>

definition entry_values :: "ge_precomp \<Rightarrow> int \<times> int \<times> int" where
  "entry_values e = (fe_val (yplusx e) + p25519, fe_val (yminusx e) + p25519, fe_val (xy2d e) + p25519)"

definition entry_tight :: "ge_precomp \<Rightarrow> bool" where
  "entry_tight e \<longleftrightarrow> fe_tight (yplusx e) \<and> fe_tight (yminusx e) \<and> fe_tight (xy2d e) \<and>
    0 \<le> fe_val (yplusx e) + p25519 \<and> 0 \<le> fe_val (yminusx e) + p25519 \<and> 0 \<le> fe_val (xy2d e) + p25519"

lemma entry_rep: "entry_ok P (entry_values e) \<Longrightarrow> entry_tight e \<Longrightarrow> rep_precomp P e"
  by (simp add: entry_ok_def entry_values_def entry_tight_def rep_precomp_def pt_ab_def ftight_def gfe_def gfh_hx gf_p_zero)

text \<open>A row holds the multiples 1 to 8 of its point.\<close>

definition row_ok :: "pt \<Rightarrow> (int \<times> int \<times> int) list \<Rightarrow> bool" where
  "row_ok P vs \<longleftrightarrow> length vs = 8 \<and> (\<forall>j<8. entry_ok (smul (int j + 1) P) (vs ! j))"

lemma row_okI:
  assumes "entry_ok (smul 1 P) v1" "entry_ok (smul 2 P) v2" "entry_ok (smul 3 P) v3" "entry_ok (smul 4 P) v4"
    "entry_ok (smul 5 P) v5" "entry_ok (smul 6 P) v6" "entry_ok (smul 7 P) v7" "entry_ok (smul 8 P) v8"
  shows "row_ok P [v1, v2, v3, v4, v5, v6, v7, v8]"
  using assms by (auto simp: row_ok_def less_Suc_eq numeral_eq_Suc)

text \<open>Evaluation of an entry: the limbs by range, the value by nested multiplication.\<close>

lemma sint_limb:
  "numeral n < (2147483648::int) \<Longrightarrow> sint (numeral n :: i32) = numeral n"
  "numeral n < (2147483648::int) \<Longrightarrow> sint (- numeral n :: i32) = - numeral n"
  "sint (1 :: i32) = 1" "sint (0 :: i32) = 0" "sint (- 1 :: i32) = - 1"
proof -
  have e: "sint (word_of_int k :: i32) = k" if "- 2147483648 \<le> k" "k < 2147483648" for k
    using that by (simp add: sint_sbintrunc' signed_take_bit_int_eq_self)
  show "numeral n < (2147483648::int) \<Longrightarrow> sint (numeral n :: i32) = numeral n"
    using e [of "numeral n"] by simp
  show "numeral n < (2147483648::int) \<Longrightarrow> sint (- numeral n :: i32) = - numeral n"
    using e [of "- numeral n"] by simp
qed simp_all

lemma radix_horner: "radix_val h0 h1 h2 h3 h4 h5 h6 h7 h8 h9 =
  h0 + 67108864 * (h1 + 33554432 * (h2 + 67108864 * (h3 + 33554432 * (h4 + 67108864 * (h5 + 33554432 * (h6 +
  67108864 * (h7 + 33554432 * (h8 + 67108864 * h9))))))))"
  by (simp add: radix_val_def)

lemma p25519_numeral: "p25519 = 57896044618658097711785492504343953926634992332820282019728792003956564819949"
  by (simp add: p25519_def)

lemma bounds_eval: "- numeral n \<le> (numeral m :: int)" "\<bar>numeral m :: int\<bar> = numeral m" "\<bar>- numeral m :: int\<bar> = numeral m"
  "\<bar>0 :: int\<bar> = 0" "\<bar>1 :: int\<bar> = 1" "(1::int) \<le> numeral m" "(0::int) \<le> numeral m"
  by simp_all

lemmas table_eval = list.map list.pred_inject entry_values_def entry_tight_def fe_tight_def fe_within.simps ge_precomp.simps
  fe_val.simps radix_horner p25519_numeral sint_limb bounds_eval arith_simps rel_simps simp_thms

text \<open>A row of the table whose values are checked represents these multiples.\<close>

lemma row_rep:
  assumes "row_ok P vs" "map entry_values es = vs" "list_all entry_tight es" "j < 8"
  shows "rep_precomp (smul (int j + 1) P) (es ! j)"
proof (rule entry_rep)
  have l: "j < length es" using assms(1,2,4) by (auto simp: row_ok_def)
  show "entry_ok (smul (int j + 1) P) (entry_values (es ! j))"
    using assms(1) [unfolded row_ok_def, THEN conjunct2, rule_format, OF assms(4)]
    unfolding assms(2) [symmetric] nth_map [OF l] .
  show "entry_tight (es ! j)" using assms(3) l by (simp add: list_all_length)
qed

section \<open>Row 0\<close>

definition row_0 :: "(int \<times> int \<times> int) list" where
  "row_0 =
    [(61429057044461878941929545413063694652762006559298082821829146887115099618162,
      31204614345391077396927242593886631629853981173214368409736920319215404093758,
      50237614328228664512531835696112167678046477356841409204013502641986506238568),
     (40277088815386731178907243282125131086172340233842699037233503275583876657623,
      48718306963831746885583586643117907343561796231867704143509447914497974261160,
      50706672771372854810760959653406682044345679494001682866047262582014706678367),
     (55221577242988382633613921715755988927347615506430221002982523990194636363568,
      77220199551394700742937817533670321202525203611805453669957464438525946286674,
      40779097241408971452228116607583414735230162954196233009433085899742953658505),
     (47066272949236454352011004142637614054391928395550853467619416848609482377631,
      75796409103148579160244154957095564343607159609535410968775460599935829285036,
      57721214740011996325100163914057143626378515005646177755397197794928900898569),
     (76564198319108462758606260645408683840357713852702374442006192267712847526688,
      67526233866893488459889458650753287366845325972203524895917469654026178516647,
      30606639029984443449548711300126286734648431208933888345371544935567354135173),
     (37042802551734379291256774445515883653807489140754236673331271591307945275697,
      83547656608580842721429425213547686376553889330647193020583828226691448016017,
      65459758880517157754742439287203949009763371432124356121101665482786321615710),
     (31711222115254622247534096269438047277815809670749515453120456498656435938239,
      71208998202794674016308517968165282090459692284537292267761691912538032316830,
      55464387603073125013932436385527479500842401496857817399907801729203523072930),
     (62005560946121829238988008293248065184608972456238401957138180071183987064444,
      84384868622506910133881646333564030896820464664824288112510812755830739449030,
      75339217143940815649269989125964468451651932507356026266522628224193879249159)]"

lemma row_0_values: "map entry_values base_0 = row_0" "list_all entry_tight base_0"
  by (simp_all only: base_0_def row_0_def table_eval)

lemma row_0_ok:
  assumes "pt_ab (smul 1 P) (hx 61429057044461878941929545413063694652762006559298082821829146887115099618162) (hx 31204614345391077396927242593886631629853981173214368409736920319215404093758)"
  shows "row_ok P row_0 \<and> pt_ab (smul 256 P) (hx 49675769929469841299643756429080699203912179602893634429411440103426509216797) (hx 79987688752890889360368736238855627929326524259388054800168876107702995669323)"
proof -
  note p1 = assms
  have e1: "entry_ok (smul 1 P) (61429057044461878941929545413063694652762006559298082821829146887115099618162, 31204614345391077396927242593886631629853981173214368409736920319215404093758, 50237614328228664512531835696112167678046477356841409204013502641986506238568)"
    by (rule entry_okI [OF p1]) (simp only: step_eval)
  have p2: "pt_ab (smul 2 P) (hx 40277088815386731178907243282125131086172340233842699037233503275583876657623) (hx 48718306963831746885583586643117907343561796231867704143509447914497974261160)"
    by (rule dbl_step_smul [OF p1]) (simp only: step_eval, simp)
  have e2: "entry_ok (smul 2 P) (40277088815386731178907243282125131086172340233842699037233503275583876657623, 48718306963831746885583586643117907343561796231867704143509447914497974261160, 50706672771372854810760959653406682044345679494001682866047262582014706678367)"
    by (rule entry_okI [OF p2]) (simp only: step_eval)
  have p3: "pt_ab (smul 3 P) (hx 55221577242988382633613921715755988927347615506430221002982523990194636363568) (hx 77220199551394700742937817533670321202525203611805453669957464438525946286674)"
    by (rule add_step_smul [OF p2 e1]) (simp only: step_eval, simp)
  have e3: "entry_ok (smul 3 P) (55221577242988382633613921715755988927347615506430221002982523990194636363568, 77220199551394700742937817533670321202525203611805453669957464438525946286674, 40779097241408971452228116607583414735230162954196233009433085899742953658505)"
    by (rule entry_okI [OF p3]) (simp only: step_eval)
  have p4: "pt_ab (smul 4 P) (hx 47066272949236454352011004142637614054391928395550853467619416848609482377631) (hx 75796409103148579160244154957095564343607159609535410968775460599935829285036)"
    by (rule dbl_step_smul [OF p2]) (simp only: step_eval, simp)
  have e4: "entry_ok (smul 4 P) (47066272949236454352011004142637614054391928395550853467619416848609482377631, 75796409103148579160244154957095564343607159609535410968775460599935829285036, 57721214740011996325100163914057143626378515005646177755397197794928900898569)"
    by (rule entry_okI [OF p4]) (simp only: step_eval)
  have p5: "pt_ab (smul 5 P) (hx 76564198319108462758606260645408683840357713852702374442006192267712847526688) (hx 67526233866893488459889458650753287366845325972203524895917469654026178516647)"
    by (rule add_step_smul [OF p4 e1]) (simp only: step_eval, simp)
  have e5: "entry_ok (smul 5 P) (76564198319108462758606260645408683840357713852702374442006192267712847526688, 67526233866893488459889458650753287366845325972203524895917469654026178516647, 30606639029984443449548711300126286734648431208933888345371544935567354135173)"
    by (rule entry_okI [OF p5]) (simp only: step_eval)
  have p6: "pt_ab (smul 6 P) (hx 37042802551734379291256774445515883653807489140754236673331271591307945275697) (hx 83547656608580842721429425213547686376553889330647193020583828226691448016017)"
    by (rule dbl_step_smul [OF p3]) (simp only: step_eval, simp)
  have e6: "entry_ok (smul 6 P) (37042802551734379291256774445515883653807489140754236673331271591307945275697, 83547656608580842721429425213547686376553889330647193020583828226691448016017, 65459758880517157754742439287203949009763371432124356121101665482786321615710)"
    by (rule entry_okI [OF p6]) (simp only: step_eval)
  have p7: "pt_ab (smul 7 P) (hx 31711222115254622247534096269438047277815809670749515453120456498656435938239) (hx 71208998202794674016308517968165282090459692284537292267761691912538032316830)"
    by (rule add_step_smul [OF p6 e1]) (simp only: step_eval, simp)
  have e7: "entry_ok (smul 7 P) (31711222115254622247534096269438047277815809670749515453120456498656435938239, 71208998202794674016308517968165282090459692284537292267761691912538032316830, 55464387603073125013932436385527479500842401496857817399907801729203523072930)"
    by (rule entry_okI [OF p7]) (simp only: step_eval)
  have p8: "pt_ab (smul 8 P) (hx 62005560946121829238988008293248065184608972456238401957138180071183987064444) (hx 84384868622506910133881646333564030896820464664824288112510812755830739449030)"
    by (rule dbl_step_smul [OF p4]) (simp only: step_eval, simp)
  have e8: "entry_ok (smul 8 P) (62005560946121829238988008293248065184608972456238401957138180071183987064444, 84384868622506910133881646333564030896820464664824288112510812755830739449030, 75339217143940815649269989125964468451651932507356026266522628224193879249159)"
    by (rule entry_okI [OF p8]) (simp only: step_eval)
  have p16: "pt_ab (smul 16 P) (hx 67046745520054469714741430315730047158358767021956893408553178583003030364643) (hx 92699514900693351879647242253201688149902872467112334249113575025991005122016)"
    by (rule dbl_step_smul [OF p8]) (simp only: step_eval, simp)
  have p32: "pt_ab (smul 32 P) (hx 114894679099478786936597727196948838640231103937232678013776669861246631485820) (hx 62598043232469706925711380392864185722886779019697014382437017035173817516848)"
    by (rule dbl_step_smul [OF p16]) (simp only: step_eval, simp)
  have p64: "pt_ab (smul 64 P) (hx 88236363417369936133736824060834721192656677554115317323595508434568144661790) (hx 82828429321921090277851232847145108315714487293445619125332093033320065885448)"
    by (rule dbl_step_smul [OF p32]) (simp only: step_eval, simp)
  have p128: "pt_ab (smul 128 P) (hx 101560788821914006911933839767729424363070951844377828864576294702834289173616) (hx 109144997874942430102923192821589671825976484650705502026295974834226761279823)"
    by (rule dbl_step_smul [OF p64]) (simp only: step_eval, simp)
  have p256: "pt_ab (smul 256 P) (hx 49675769929469841299643756429080699203912179602893634429411440103426509216797) (hx 79987688752890889360368736238855627929326524259388054800168876107702995669323)"
    by (rule dbl_step_smul [OF p128]) (simp only: step_eval, simp)
  show ?thesis
    unfolding row_0_def by (rule conjI [OF row_okI [OF e1 e2 e3 e4 e5 e6 e7 e8] p256])
qed

lemma gfh_hx_numeral: "gfh (hx (numeral n)) = of_int (numeral n)"
  by (simp add: gfh_hx del: of_int_numeral)

lemma base_start: "pt_ab (smul 1 ed_B) (hx 61429057044461878941929545413063694652762006559298082821829146887115099618162) (hx 31204614345391077396927242593886631629853981173214368409736920319215404093758)"
proof -
  have "(of_int 61429057044461878941929545413063694652762006559298082821829146887115099618162 :: gf) = of_int (ed_By + ed_Bx + 0 * p25519)" "(of_int 31204614345391077396927242593886631629853981173214368409736920319215404093758 :: gf) = of_int (ed_By - ed_Bx + 0 * p25519)"
    by (simp_all add: ed_By_def ed_Bx_def p25519_def)
  then show ?thesis
    unfolding pt_ab_def smul_1 ed_B_coords by (simp only: gfh_hx_numeral of_int_add of_int_diff of_int_mult gf_p_zero mult_zero_right add_0_right)
qed

lemma row_0_at:
  "row_ok (smul (256 ^ 0) ed_B) row_0"
  "pt_ab (smul (256 ^ 1) ed_B) (hx 49675769929469841299643756429080699203912179602893634429411440103426509216797) (hx 79987688752890889360368736238855627929326524259388054800168876107702995669323)"
  using row_0_ok [of ed_B] base_start by simp_all

section \<open>Row 1\<close>

definition row_1 :: "(int \<times> int \<times> int) list" where
  "row_1 =
    [(49675769929469841299643756429080699203912179602893634429411440103426509216797,
      79987688752890889360368736238855627929326524259388054800168876107702995669323,
      65483928541733550188680728297350802627622034291241043582515579449886602880180),
     (59591525451409834518256443862604849728919205222291717873976391655460701784050,
      75038192725187954406708362049327576178906650599865775197937267779483239079883,
      39092322194140124183530118111804326734499060901029609352856299605036289779204),
     (67386925550534991808718160824292973731044157665510414916135289914025311875005,
      81231427317996366938145159724172022570319112916304515240023455921427737282593,
      67173074703701944327008405000070019396336969753518508506441817764899257186241),
     (60603266817861966547931202461399866517137451161536042704391099507056489655461,
      79539528581502945439128516976126869347086500151448396721678781444562515498415,
      82871140683060822671244629449792153726173447566308927176212019291953826881226),
     (48831348531383933907130205179764543228744024930527514448766671908305600013712,
      72254585573092408594684187258902993756825060397201441615765288226452558425542,
      58945751669070019246743464891177769016298853122712341089815539579508953799543),
     (57937260822499853872004399139843625347586042028459216438808403853328553828049,
      86674522036108567859160814299762925739409636407248912446281427285871077184129,
      66359229539451326165380979155237202273272749329654929759620948226184849513249),
     (50430368710646490576743301740051157903125689423910288797644378543230158839442,
      52742972861557722105223870811280754153749356824099611286666865771301641708365,
      65046040284393085382023859399949815871463989488443948395591345105901048999410),
     (29498347462688138458715161325674681839710645445148384319179471375497290862149,
      33021781150873132670815506225769745103240278494304508478691532483591302684228,
      29731677524652946989719868262474777407636952571611570462813419781785179060464)]"

lemma row_1_values: "map entry_values base_1 = row_1" "list_all entry_tight base_1"
  by (simp_all only: base_1_def row_1_def table_eval)

lemma row_1_ok:
  assumes "pt_ab (smul 1 P) (hx 49675769929469841299643756429080699203912179602893634429411440103426509216797) (hx 79987688752890889360368736238855627929326524259388054800168876107702995669323)"
  shows "row_ok P row_1 \<and> pt_ab (smul 256 P) (hx 62657904700653481321386288488285963831279664627082317679046368155948714201499) (hx 35604016480507116089823476989913686364420168017036822542463197598154674620094)"
proof -
  note p1 = assms
  have e1: "entry_ok (smul 1 P) (49675769929469841299643756429080699203912179602893634429411440103426509216797, 79987688752890889360368736238855627929326524259388054800168876107702995669323, 65483928541733550188680728297350802627622034291241043582515579449886602880180)"
    by (rule entry_okI [OF p1]) (simp only: step_eval)
  have p2: "pt_ab (smul 2 P) (hx 59591525451409834518256443862604849728919205222291717873976391655460701784050) (hx 75038192725187954406708362049327576178906650599865775197937267779483239079883)"
    by (rule dbl_step_smul [OF p1]) (simp only: step_eval, simp)
  have e2: "entry_ok (smul 2 P) (59591525451409834518256443862604849728919205222291717873976391655460701784050, 75038192725187954406708362049327576178906650599865775197937267779483239079883, 39092322194140124183530118111804326734499060901029609352856299605036289779204)"
    by (rule entry_okI [OF p2]) (simp only: step_eval)
  have p3: "pt_ab (smul 3 P) (hx 67386925550534991808718160824292973731044157665510414916135289914025311875005) (hx 81231427317996366938145159724172022570319112916304515240023455921427737282593)"
    by (rule add_step_smul [OF p2 e1]) (simp only: step_eval, simp)
  have e3: "entry_ok (smul 3 P) (67386925550534991808718160824292973731044157665510414916135289914025311875005, 81231427317996366938145159724172022570319112916304515240023455921427737282593, 67173074703701944327008405000070019396336969753518508506441817764899257186241)"
    by (rule entry_okI [OF p3]) (simp only: step_eval)
  have p4: "pt_ab (smul 4 P) (hx 60603266817861966547931202461399866517137451161536042704391099507056489655461) (hx 79539528581502945439128516976126869347086500151448396721678781444562515498415)"
    by (rule dbl_step_smul [OF p2]) (simp only: step_eval, simp)
  have e4: "entry_ok (smul 4 P) (60603266817861966547931202461399866517137451161536042704391099507056489655461, 79539528581502945439128516976126869347086500151448396721678781444562515498415, 82871140683060822671244629449792153726173447566308927176212019291953826881226)"
    by (rule entry_okI [OF p4]) (simp only: step_eval)
  have p5: "pt_ab (smul 5 P) (hx 48831348531383933907130205179764543228744024930527514448766671908305600013712) (hx 72254585573092408594684187258902993756825060397201441615765288226452558425542)"
    by (rule add_step_smul [OF p4 e1]) (simp only: step_eval, simp)
  have e5: "entry_ok (smul 5 P) (48831348531383933907130205179764543228744024930527514448766671908305600013712, 72254585573092408594684187258902993756825060397201441615765288226452558425542, 58945751669070019246743464891177769016298853122712341089815539579508953799543)"
    by (rule entry_okI [OF p5]) (simp only: step_eval)
  have p6: "pt_ab (smul 6 P) (hx 57937260822499853872004399139843625347586042028459216438808403853328553828049) (hx 86674522036108567859160814299762925739409636407248912446281427285871077184129)"
    by (rule dbl_step_smul [OF p3]) (simp only: step_eval, simp)
  have e6: "entry_ok (smul 6 P) (57937260822499853872004399139843625347586042028459216438808403853328553828049, 86674522036108567859160814299762925739409636407248912446281427285871077184129, 66359229539451326165380979155237202273272749329654929759620948226184849513249)"
    by (rule entry_okI [OF p6]) (simp only: step_eval)
  have p7: "pt_ab (smul 7 P) (hx 50430368710646490576743301740051157903125689423910288797644378543230158839442) (hx 52742972861557722105223870811280754153749356824099611286666865771301641708365)"
    by (rule add_step_smul [OF p6 e1]) (simp only: step_eval, simp)
  have e7: "entry_ok (smul 7 P) (50430368710646490576743301740051157903125689423910288797644378543230158839442, 52742972861557722105223870811280754153749356824099611286666865771301641708365, 65046040284393085382023859399949815871463989488443948395591345105901048999410)"
    by (rule entry_okI [OF p7]) (simp only: step_eval)
  have p8: "pt_ab (smul 8 P) (hx 29498347462688138458715161325674681839710645445148384319179471375497290862149) (hx 33021781150873132670815506225769745103240278494304508478691532483591302684228)"
    by (rule dbl_step_smul [OF p4]) (simp only: step_eval, simp)
  have e8: "entry_ok (smul 8 P) (29498347462688138458715161325674681839710645445148384319179471375497290862149, 33021781150873132670815506225769745103240278494304508478691532483591302684228, 29731677524652946989719868262474777407636952571611570462813419781785179060464)"
    by (rule entry_okI [OF p8]) (simp only: step_eval)
  have p16: "pt_ab (smul 16 P) (hx 97129261986403041794529219739333647186546525510130113481445696567760486266815) (hx 99773346648338112085326188532713202813845924044713046653957094439367112149445)"
    by (rule dbl_step_smul [OF p8]) (simp only: step_eval, simp)
  have p32: "pt_ab (smul 32 P) (hx 62800456827997858892072025123082724380697000339115379556791374757194415765863) (hx 99135086995600358156403433517313574315525354283177358622357931999402653967768)"
    by (rule dbl_step_smul [OF p16]) (simp only: step_eval, simp)
  have p64: "pt_ab (smul 64 P) (hx 113054498964712791980389512945802137539428121591550342815441622478234410013816) (hx 106125857766178566586630935439307977751508328872299393964860418176313066601828)"
    by (rule dbl_step_smul [OF p32]) (simp only: step_eval, simp)
  have p128: "pt_ab (smul 128 P) (hx 70666229192846719356637275550377244564633242720345002073684467694282066857032) (hx 103855209601671513940928822711924235637664918922716047817811009847060028296734)"
    by (rule dbl_step_smul [OF p64]) (simp only: step_eval, simp)
  have p256: "pt_ab (smul 256 P) (hx 62657904700653481321386288488285963831279664627082317679046368155948714201499) (hx 35604016480507116089823476989913686364420168017036822542463197598154674620094)"
    by (rule dbl_step_smul [OF p128]) (simp only: step_eval, simp)
  show ?thesis
    unfolding row_1_def by (rule conjI [OF row_okI [OF e1 e2 e3 e4 e5 e6 e7 e8] p256])
qed

lemma row_1_at:
  "row_ok (smul (256 ^ 1) ed_B) row_1"
  "pt_ab (smul (256 ^ 2) ed_B) (hx 62657904700653481321386288488285963831279664627082317679046368155948714201499) (hx 35604016480507116089823476989913686364420168017036822542463197598154674620094)"
  using row_1_ok [of "smul (256 ^ 1) ed_B"] row_0_at(2) by (simp_all add: smul_smul [symmetric])

section \<open>Row 2\<close>

definition row_2 :: "(int \<times> int \<times> int) list" where
  "row_2 =
    [(62657904700653481321386288488285963831279664627082317679046368155948714201499,
      35604016480507116089823476989913686364420168017036822542463197598154674620094,
      86347914595065187934226500471270792540227427414221594435712809481424535849334),
     (56665923149671157733455181093965188504106072380701525874078160902252442580248,
      66718515123065381087313413625157116205807379600717442064235725549995888072356,
      67191354914159148856172994421468806403401972122768153361576135327810705217229),
     (75790531426417263097624848863089656483284519366951710714509554300847078536538,
      86821057334407929779276320353878729106483567640801291756333881352347599564820,
      29408927912847625880133125959953938854056264283340444007640737432312093030758),
     (58528062673362279976308953739988945983185745610302389998366582906664207870629,
      78034974684538359526548458911287833803761909072740190462405702200001676198423,
      40304265145061330935147042133380017187556779260482162648340312732284521572982),
     (32840935255444831908037093508329629735678791979262925040068050308435623327069,
      85883224991441153256706365720110527803435264511227685621312156019309212376039,
      33453452838064807467045255739161458354140118167006511792159110793946859279087),
     (60895535022075210725944857035848946294831608003810225447245059964193981880091,
      38907134819921887210037138442762260623744887575397571298124107934042873909204,
      72639710723369895924468031158530001580225354368202776330211338344679251338403),
     (52036471054789422902388672306252647754567781679067029022985652710980125912110,
      59712233051240379803943878096838753362907378345296836020144191491938999716972,
      41540819367681292918688765034481516167517428244261518965899447353585286694226),
     (41485314206758433359588950436298327041031468214467947591337009281138659129642,
      66593294093222768762468038855204310053844930367536340638750368761470818340015,
      52492656548263831674072434840291686214571040573112328389160731373998577443518)]"

lemma row_2_values: "map entry_values base_2 = row_2" "list_all entry_tight base_2"
  by (simp_all only: base_2_def row_2_def table_eval)

lemma row_2_ok:
  assumes "pt_ab (smul 1 P) (hx 62657904700653481321386288488285963831279664627082317679046368155948714201499) (hx 35604016480507116089823476989913686364420168017036822542463197598154674620094)"
  shows "row_ok P row_2 \<and> pt_ab (smul 256 P) (hx 77804802434280567188428892574993167794091587296115973592646122200180381467433) (hx 67898427972792641327104666083104659180731122962207317727000831934356261948987)"
proof -
  note p1 = assms
  have e1: "entry_ok (smul 1 P) (62657904700653481321386288488285963831279664627082317679046368155948714201499, 35604016480507116089823476989913686364420168017036822542463197598154674620094, 86347914595065187934226500471270792540227427414221594435712809481424535849334)"
    by (rule entry_okI [OF p1]) (simp only: step_eval)
  have p2: "pt_ab (smul 2 P) (hx 56665923149671157733455181093965188504106072380701525874078160902252442580248) (hx 66718515123065381087313413625157116205807379600717442064235725549995888072356)"
    by (rule dbl_step_smul [OF p1]) (simp only: step_eval, simp)
  have e2: "entry_ok (smul 2 P) (56665923149671157733455181093965188504106072380701525874078160902252442580248, 66718515123065381087313413625157116205807379600717442064235725549995888072356, 67191354914159148856172994421468806403401972122768153361576135327810705217229)"
    by (rule entry_okI [OF p2]) (simp only: step_eval)
  have p3: "pt_ab (smul 3 P) (hx 75790531426417263097624848863089656483284519366951710714509554300847078536538) (hx 86821057334407929779276320353878729106483567640801291756333881352347599564820)"
    by (rule add_step_smul [OF p2 e1]) (simp only: step_eval, simp)
  have e3: "entry_ok (smul 3 P) (75790531426417263097624848863089656483284519366951710714509554300847078536538, 86821057334407929779276320353878729106483567640801291756333881352347599564820, 29408927912847625880133125959953938854056264283340444007640737432312093030758)"
    by (rule entry_okI [OF p3]) (simp only: step_eval)
  have p4: "pt_ab (smul 4 P) (hx 58528062673362279976308953739988945983185745610302389998366582906664207870629) (hx 78034974684538359526548458911287833803761909072740190462405702200001676198423)"
    by (rule dbl_step_smul [OF p2]) (simp only: step_eval, simp)
  have e4: "entry_ok (smul 4 P) (58528062673362279976308953739988945983185745610302389998366582906664207870629, 78034974684538359526548458911287833803761909072740190462405702200001676198423, 40304265145061330935147042133380017187556779260482162648340312732284521572982)"
    by (rule entry_okI [OF p4]) (simp only: step_eval)
  have p5: "pt_ab (smul 5 P) (hx 32840935255444831908037093508329629735678791979262925040068050308435623327069) (hx 85883224991441153256706365720110527803435264511227685621312156019309212376039)"
    by (rule add_step_smul [OF p4 e1]) (simp only: step_eval, simp)
  have e5: "entry_ok (smul 5 P) (32840935255444831908037093508329629735678791979262925040068050308435623327069, 85883224991441153256706365720110527803435264511227685621312156019309212376039, 33453452838064807467045255739161458354140118167006511792159110793946859279087)"
    by (rule entry_okI [OF p5]) (simp only: step_eval)
  have p6: "pt_ab (smul 6 P) (hx 60895535022075210725944857035848946294831608003810225447245059964193981880091) (hx 38907134819921887210037138442762260623744887575397571298124107934042873909204)"
    by (rule dbl_step_smul [OF p3]) (simp only: step_eval, simp)
  have e6: "entry_ok (smul 6 P) (60895535022075210725944857035848946294831608003810225447245059964193981880091, 38907134819921887210037138442762260623744887575397571298124107934042873909204, 72639710723369895924468031158530001580225354368202776330211338344679251338403)"
    by (rule entry_okI [OF p6]) (simp only: step_eval)
  have p7: "pt_ab (smul 7 P) (hx 52036471054789422902388672306252647754567781679067029022985652710980125912110) (hx 59712233051240379803943878096838753362907378345296836020144191491938999716972)"
    by (rule add_step_smul [OF p6 e1]) (simp only: step_eval, simp)
  have e7: "entry_ok (smul 7 P) (52036471054789422902388672306252647754567781679067029022985652710980125912110, 59712233051240379803943878096838753362907378345296836020144191491938999716972, 41540819367681292918688765034481516167517428244261518965899447353585286694226)"
    by (rule entry_okI [OF p7]) (simp only: step_eval)
  have p8: "pt_ab (smul 8 P) (hx 41485314206758433359588950436298327041031468214467947591337009281138659129642) (hx 66593294093222768762468038855204310053844930367536340638750368761470818340015)"
    by (rule dbl_step_smul [OF p4]) (simp only: step_eval, simp)
  have e8: "entry_ok (smul 8 P) (41485314206758433359588950436298327041031468214467947591337009281138659129642, 66593294093222768762468038855204310053844930367536340638750368761470818340015, 52492656548263831674072434840291686214571040573112328389160731373998577443518)"
    by (rule entry_okI [OF p8]) (simp only: step_eval)
  have p16: "pt_ab (smul 16 P) (hx 64376594444722839521113830096239605924663088689354869982677790406863164414674) (hx 58315288484207198933204649614950442177839770216950301999550658506031662935800)"
    by (rule dbl_step_smul [OF p8]) (simp only: step_eval, simp)
  have p32: "pt_ab (smul 32 P) (hx 84914967647897555515442701749096931056620731661062773014443503397861512118216) (hx 77528485809039352515892819389828694737343211776422925738073949436423691198651)"
    by (rule dbl_step_smul [OF p16]) (simp only: step_eval, simp)
  have p64: "pt_ab (smul 64 P) (hx 105645671951794196795353409057713899166188796795651766415848628329050993123490) (hx 109555609661466822991590710508194664294940918502337612386673817479015173308951)"
    by (rule dbl_step_smul [OF p32]) (simp only: step_eval, simp)
  have p128: "pt_ab (smul 128 P) (hx 80392115085521936525162110093754833549836817652881186349790555863195948235156) (hx 75247824372341265847554141520628590921121855025443920330081515974024759459033)"
    by (rule dbl_step_smul [OF p64]) (simp only: step_eval, simp)
  have p256: "pt_ab (smul 256 P) (hx 77804802434280567188428892574993167794091587296115973592646122200180381467433) (hx 67898427972792641327104666083104659180731122962207317727000831934356261948987)"
    by (rule dbl_step_smul [OF p128]) (simp only: step_eval, simp)
  show ?thesis
    unfolding row_2_def by (rule conjI [OF row_okI [OF e1 e2 e3 e4 e5 e6 e7 e8] p256])
qed

lemma row_2_at:
  "row_ok (smul (256 ^ 2) ed_B) row_2"
  "pt_ab (smul (256 ^ 3) ed_B) (hx 77804802434280567188428892574993167794091587296115973592646122200180381467433) (hx 67898427972792641327104666083104659180731122962207317727000831934356261948987)"
  using row_2_ok [of "smul (256 ^ 2) ed_B"] row_1_at(2) by (simp_all add: smul_smul [symmetric])

section \<open>Row 3\<close>

definition row_3 :: "(int \<times> int \<times> int) list" where
  "row_3 =
    [(77804802434280567188428892574993167794091587296115973592646122200180381467433,
      67898427972792641327104666083104659180731122962207317727000831934356261948987,
      47755065363846189113461404853942085918256976385442763263791031601346691441789),
     (76550611291766073258605953505370268840358254439146940835466636624050050898229,
      37234712020399886888026814084947098152429387380702275768388060043729742528207,
      41330723346612204007591697729633555703795534604710918079352327372371347444449),
     (79188311392557736874551378456410497825285227285466062694167865348398757965881,
      74475128489338825065171526024925125194274835303925607757061859642085829016694,
      42687874999959497303917400677323895350315592036002314149581384504830236608320),
     (72425180550301332720845435222951577109943144950291657846406332261264434581249,
      36368204856314416158092524166187411731775232455432022740445720966004335384600,
      83898253425659457757017541535732231489273893721403019063862393427350255803710),
     (53873376500980242062881097346423872338635294934984712752345920673640034302439,
      73829161745434531075852728862333520768908721811800570145692043018874067179935,
      81010107500848425503868926291230898742296268292146742804425956404899224366996),
     (70011988723807759557071715537767298232252552353393731972645282578815316751004,
      80099103549798639286265742544117274502558304162349580020436348587456880148659,
      43938326906397071482133813695476606919629706461319022696422921304556740218984),
     (67455861869752248507517515372428834326083059368589905323994161890173616203301,
      32078669566481803808869088092801648404504341067335236812467598446167052945805,
      31659145308018313228544054581829354608158326727101474528992418324816259533112),
     (68019411788188555707790465001441269398286746279917567932400434306278518756478,
      30101926241590681560279225060198940963787248421955126546243664390157111135116,
      71241655977739520262456681021881755595758349688149773843167667342490227378410)]"

lemma row_3_values: "map entry_values base_3 = row_3" "list_all entry_tight base_3"
  by (simp_all only: base_3_def row_3_def table_eval)

lemma row_3_ok:
  assumes "pt_ab (smul 1 P) (hx 77804802434280567188428892574993167794091587296115973592646122200180381467433) (hx 67898427972792641327104666083104659180731122962207317727000831934356261948987)"
  shows "row_ok P row_3 \<and> pt_ab (smul 256 P) (hx 84298794800356158082448098341571323743135219071702799790000321405798943409621) (hx 72432409372578405247378575085657012203813815848863001587676867659678587137100)"
proof -
  note p1 = assms
  have e1: "entry_ok (smul 1 P) (77804802434280567188428892574993167794091587296115973592646122200180381467433, 67898427972792641327104666083104659180731122962207317727000831934356261948987, 47755065363846189113461404853942085918256976385442763263791031601346691441789)"
    by (rule entry_okI [OF p1]) (simp only: step_eval)
  have p2: "pt_ab (smul 2 P) (hx 76550611291766073258605953505370268840358254439146940835466636624050050898229) (hx 37234712020399886888026814084947098152429387380702275768388060043729742528207)"
    by (rule dbl_step_smul [OF p1]) (simp only: step_eval, simp)
  have e2: "entry_ok (smul 2 P) (76550611291766073258605953505370268840358254439146940835466636624050050898229, 37234712020399886888026814084947098152429387380702275768388060043729742528207, 41330723346612204007591697729633555703795534604710918079352327372371347444449)"
    by (rule entry_okI [OF p2]) (simp only: step_eval)
  have p3: "pt_ab (smul 3 P) (hx 79188311392557736874551378456410497825285227285466062694167865348398757965881) (hx 74475128489338825065171526024925125194274835303925607757061859642085829016694)"
    by (rule add_step_smul [OF p2 e1]) (simp only: step_eval, simp)
  have e3: "entry_ok (smul 3 P) (79188311392557736874551378456410497825285227285466062694167865348398757965881, 74475128489338825065171526024925125194274835303925607757061859642085829016694, 42687874999959497303917400677323895350315592036002314149581384504830236608320)"
    by (rule entry_okI [OF p3]) (simp only: step_eval)
  have p4: "pt_ab (smul 4 P) (hx 72425180550301332720845435222951577109943144950291657846406332261264434581249) (hx 36368204856314416158092524166187411731775232455432022740445720966004335384600)"
    by (rule dbl_step_smul [OF p2]) (simp only: step_eval, simp)
  have e4: "entry_ok (smul 4 P) (72425180550301332720845435222951577109943144950291657846406332261264434581249, 36368204856314416158092524166187411731775232455432022740445720966004335384600, 83898253425659457757017541535732231489273893721403019063862393427350255803710)"
    by (rule entry_okI [OF p4]) (simp only: step_eval)
  have p5: "pt_ab (smul 5 P) (hx 53873376500980242062881097346423872338635294934984712752345920673640034302439) (hx 73829161745434531075852728862333520768908721811800570145692043018874067179935)"
    by (rule add_step_smul [OF p4 e1]) (simp only: step_eval, simp)
  have e5: "entry_ok (smul 5 P) (53873376500980242062881097346423872338635294934984712752345920673640034302439, 73829161745434531075852728862333520768908721811800570145692043018874067179935, 81010107500848425503868926291230898742296268292146742804425956404899224366996)"
    by (rule entry_okI [OF p5]) (simp only: step_eval)
  have p6: "pt_ab (smul 6 P) (hx 70011988723807759557071715537767298232252552353393731972645282578815316751004) (hx 80099103549798639286265742544117274502558304162349580020436348587456880148659)"
    by (rule dbl_step_smul [OF p3]) (simp only: step_eval, simp)
  have e6: "entry_ok (smul 6 P) (70011988723807759557071715537767298232252552353393731972645282578815316751004, 80099103549798639286265742544117274502558304162349580020436348587456880148659, 43938326906397071482133813695476606919629706461319022696422921304556740218984)"
    by (rule entry_okI [OF p6]) (simp only: step_eval)
  have p7: "pt_ab (smul 7 P) (hx 67455861869752248507517515372428834326083059368589905323994161890173616203301) (hx 32078669566481803808869088092801648404504341067335236812467598446167052945805)"
    by (rule add_step_smul [OF p6 e1]) (simp only: step_eval, simp)
  have e7: "entry_ok (smul 7 P) (67455861869752248507517515372428834326083059368589905323994161890173616203301, 32078669566481803808869088092801648404504341067335236812467598446167052945805, 31659145308018313228544054581829354608158326727101474528992418324816259533112)"
    by (rule entry_okI [OF p7]) (simp only: step_eval)
  have p8: "pt_ab (smul 8 P) (hx 68019411788188555707790465001441269398286746279917567932400434306278518756478) (hx 30101926241590681560279225060198940963787248421955126546243664390157111135116)"
    by (rule dbl_step_smul [OF p4]) (simp only: step_eval, simp)
  have e8: "entry_ok (smul 8 P) (68019411788188555707790465001441269398286746279917567932400434306278518756478, 30101926241590681560279225060198940963787248421955126546243664390157111135116, 71241655977739520262456681021881755595758349688149773843167667342490227378410)"
    by (rule entry_okI [OF p8]) (simp only: step_eval)
  have p16: "pt_ab (smul 16 P) (hx 78124149696238703103400582365727431829583643425930896037735020605169394632846) (hx 108635307057639715850389798272375178191720548063293681643142615833943011380261)"
    by (rule dbl_step_smul [OF p8]) (simp only: step_eval, simp)
  have p32: "pt_ab (smul 32 P) (hx 69781768435496680785804285058563732991319277379748803417173308142189631706474) (hx 97427605381547018570370748400599984315212175103733858056946673627508371353226)"
    by (rule dbl_step_smul [OF p16]) (simp only: step_eval, simp)
  have p64: "pt_ab (smul 64 P) (hx 113205142518933342307326304606924050149982460473573160795603775988932260711646) (hx 105104794392462214034392159537741157428585464533640578215017060214530181750185)"
    by (rule dbl_step_smul [OF p32]) (simp only: step_eval, simp)
  have p128: "pt_ab (smul 128 P) (hx 97815095353472089943191028536187882000644211404574922619266568060356498011738) (hx 103841364775517575450139486864816747229952232646940198543261727876276626790532)"
    by (rule dbl_step_smul [OF p64]) (simp only: step_eval, simp)
  have p256: "pt_ab (smul 256 P) (hx 84298794800356158082448098341571323743135219071702799790000321405798943409621) (hx 72432409372578405247378575085657012203813815848863001587676867659678587137100)"
    by (rule dbl_step_smul [OF p128]) (simp only: step_eval, simp)
  show ?thesis
    unfolding row_3_def by (rule conjI [OF row_okI [OF e1 e2 e3 e4 e5 e6 e7 e8] p256])
qed

lemma row_3_at:
  "row_ok (smul (256 ^ 3) ed_B) row_3"
  "pt_ab (smul (256 ^ 4) ed_B) (hx 84298794800356158082448098341571323743135219071702799790000321405798943409621) (hx 72432409372578405247378575085657012203813815848863001587676867659678587137100)"
  using row_3_ok [of "smul (256 ^ 3) ed_B"] row_2_at(2) by (simp_all add: smul_smul [symmetric])

section \<open>Row 4\<close>

definition row_4 :: "(int \<times> int \<times> int) list" where
  "row_4 =
    [(84298794800356158082448098341571323743135219071702799790000321405798943409621,
      72432409372578405247378575085657012203813815848863001587676867659678587137100,
      56465797158513866373978332035777509370095804007883348063296109133608378741330),
     (86363741486165988436078239048779859463412786805683255470149213965820327949536,
      76088885965822497127558912511508457650146763058675727610696050569854811896483,
      73212349373537138626492527211390000712527035229766596736091210063622674206749),
     (42298413614266399196515206574394975198566680186237647522564656016598307910074,
      63217460187432386580556207964155789645450262178030549350660509241123966656437,
      84247617096932730515057588596513839982886884594484942380447371310195856630136),
     (61261514939603548427682107018935224430085267405637559494510764924684747439800,
      72344379945915725789764007754607870743811776496952889024405116615685026383079,
      84106150979960063622217623733182332850378970920780784377147115754807627199978),
     (46033662239459320965727435667343709442975666211074769788534363586956546898913,
      68332528671629692374093638053417301759933471819302857917618587401601273029257,
      73715510101455642664974231629694957354303499863041234347268754473466121524170),
     (29601126465251282793668150616260546493423977835656345379875485394142634114476,
      66921256801334615080070194873714372148416171465203843163390583417238244489400,
      36414862789189463146872024259298279138802959820984977952829873894210279132300),
     (84341056433413123607233416904798564820604440995853373180480168561925344461763,
      73715295331575956485689514206028362022807697312997993630036332186406355402296,
      42347468642669403870055823984642967943449901954771723239850115155671124955254),
     (84924442651890618032365961861871633554989822672026421808895873521034584347147,
      81047411418576718695641542618021948176058575648935053738225915091452315267692,
      31233451458326180876133059785286504050284765638907405835319358891229712925196)]"

lemma row_4_values: "map entry_values base_4 = row_4" "list_all entry_tight base_4"
  by (simp_all only: base_4_def row_4_def table_eval)

lemma row_4_ok:
  assumes "pt_ab (smul 1 P) (hx 84298794800356158082448098341571323743135219071702799790000321405798943409621) (hx 72432409372578405247378575085657012203813815848863001587676867659678587137100)"
  shows "row_ok P row_4 \<and> pt_ab (smul 256 P) (hx 34705862686029395793543229889283339680385457474979213676668772792876223329343) (hx 78650074143454631228466735246761150111185608622931151357702016378789026615906)"
proof -
  note p1 = assms
  have e1: "entry_ok (smul 1 P) (84298794800356158082448098341571323743135219071702799790000321405798943409621, 72432409372578405247378575085657012203813815848863001587676867659678587137100, 56465797158513866373978332035777509370095804007883348063296109133608378741330)"
    by (rule entry_okI [OF p1]) (simp only: step_eval)
  have p2: "pt_ab (smul 2 P) (hx 86363741486165988436078239048779859463412786805683255470149213965820327949536) (hx 76088885965822497127558912511508457650146763058675727610696050569854811896483)"
    by (rule dbl_step_smul [OF p1]) (simp only: step_eval, simp)
  have e2: "entry_ok (smul 2 P) (86363741486165988436078239048779859463412786805683255470149213965820327949536, 76088885965822497127558912511508457650146763058675727610696050569854811896483, 73212349373537138626492527211390000712527035229766596736091210063622674206749)"
    by (rule entry_okI [OF p2]) (simp only: step_eval)
  have p3: "pt_ab (smul 3 P) (hx 42298413614266399196515206574394975198566680186237647522564656016598307910074) (hx 63217460187432386580556207964155789645450262178030549350660509241123966656437)"
    by (rule add_step_smul [OF p2 e1]) (simp only: step_eval, simp)
  have e3: "entry_ok (smul 3 P) (42298413614266399196515206574394975198566680186237647522564656016598307910074, 63217460187432386580556207964155789645450262178030549350660509241123966656437, 84247617096932730515057588596513839982886884594484942380447371310195856630136)"
    by (rule entry_okI [OF p3]) (simp only: step_eval)
  have p4: "pt_ab (smul 4 P) (hx 61261514939603548427682107018935224430085267405637559494510764924684747439800) (hx 72344379945915725789764007754607870743811776496952889024405116615685026383079)"
    by (rule dbl_step_smul [OF p2]) (simp only: step_eval, simp)
  have e4: "entry_ok (smul 4 P) (61261514939603548427682107018935224430085267405637559494510764924684747439800, 72344379945915725789764007754607870743811776496952889024405116615685026383079, 84106150979960063622217623733182332850378970920780784377147115754807627199978)"
    by (rule entry_okI [OF p4]) (simp only: step_eval)
  have p5: "pt_ab (smul 5 P) (hx 46033662239459320965727435667343709442975666211074769788534363586956546898913) (hx 68332528671629692374093638053417301759933471819302857917618587401601273029257)"
    by (rule add_step_smul [OF p4 e1]) (simp only: step_eval, simp)
  have e5: "entry_ok (smul 5 P) (46033662239459320965727435667343709442975666211074769788534363586956546898913, 68332528671629692374093638053417301759933471819302857917618587401601273029257, 73715510101455642664974231629694957354303499863041234347268754473466121524170)"
    by (rule entry_okI [OF p5]) (simp only: step_eval)
  have p6: "pt_ab (smul 6 P) (hx 29601126465251282793668150616260546493423977835656345379875485394142634114476) (hx 66921256801334615080070194873714372148416171465203843163390583417238244489400)"
    by (rule dbl_step_smul [OF p3]) (simp only: step_eval, simp)
  have e6: "entry_ok (smul 6 P) (29601126465251282793668150616260546493423977835656345379875485394142634114476, 66921256801334615080070194873714372148416171465203843163390583417238244489400, 36414862789189463146872024259298279138802959820984977952829873894210279132300)"
    by (rule entry_okI [OF p6]) (simp only: step_eval)
  have p7: "pt_ab (smul 7 P) (hx 84341056433413123607233416904798564820604440995853373180480168561925344461763) (hx 73715295331575956485689514206028362022807697312997993630036332186406355402296)"
    by (rule add_step_smul [OF p6 e1]) (simp only: step_eval, simp)
  have e7: "entry_ok (smul 7 P) (84341056433413123607233416904798564820604440995853373180480168561925344461763, 73715295331575956485689514206028362022807697312997993630036332186406355402296, 42347468642669403870055823984642967943449901954771723239850115155671124955254)"
    by (rule entry_okI [OF p7]) (simp only: step_eval)
  have p8: "pt_ab (smul 8 P) (hx 84924442651890618032365961861871633554989822672026421808895873521034584347147) (hx 81047411418576718695641542618021948176058575648935053738225915091452315267692)"
    by (rule dbl_step_smul [OF p4]) (simp only: step_eval, simp)
  have e8: "entry_ok (smul 8 P) (84924442651890618032365961861871633554989822672026421808895873521034584347147, 81047411418576718695641542618021948176058575648935053738225915091452315267692, 31233451458326180876133059785286504050284765638907405835319358891229712925196)"
    by (rule entry_okI [OF p8]) (simp only: step_eval)
  have p16: "pt_ab (smul 16 P) (hx 77134355242997787722135902131894229902743749569834004333399624094369020829858) (hx 95751496219360404092524145235692714187589114083183703192188003698788184439023)"
    by (rule dbl_step_smul [OF p8]) (simp only: step_eval, simp)
  have p32: "pt_ab (smul 32 P) (hx 80854644097528329683880927996265025248362673220913324945420136802585050377609) (hx 113811784314820184175745539740693289659824395780245403265011600526767831147534)"
    by (rule dbl_step_smul [OF p16]) (simp only: step_eval, simp)
  have p64: "pt_ab (smul 64 P) (hx 109915478651708977754227932238422347805659739930744895584958402240249606257383) (hx 108816099988390322631017542853577142154120907026521263116935479691119594266073)"
    by (rule dbl_step_smul [OF p32]) (simp only: step_eval, simp)
  have p128: "pt_ab (smul 128 P) (hx 104989940476294265777920225286535584693158683000972189875548165755438726988250) (hx 72658749465063958785398550506357181615072446140823913461818711371440507820771)"
    by (rule dbl_step_smul [OF p64]) (simp only: step_eval, simp)
  have p256: "pt_ab (smul 256 P) (hx 34705862686029395793543229889283339680385457474979213676668772792876223329343) (hx 78650074143454631228466735246761150111185608622931151357702016378789026615906)"
    by (rule dbl_step_smul [OF p128]) (simp only: step_eval, simp)
  show ?thesis
    unfolding row_4_def by (rule conjI [OF row_okI [OF e1 e2 e3 e4 e5 e6 e7 e8] p256])
qed

lemma row_4_at:
  "row_ok (smul (256 ^ 4) ed_B) row_4"
  "pt_ab (smul (256 ^ 5) ed_B) (hx 34705862686029395793543229889283339680385457474979213676668772792876223329343) (hx 78650074143454631228466735246761150111185608622931151357702016378789026615906)"
  using row_4_ok [of "smul (256 ^ 4) ed_B"] row_3_at(2) by (simp_all add: smul_smul [symmetric])

section \<open>Row 5\<close>

definition row_5 :: "(int \<times> int \<times> int) list" where
  "row_5 =
    [(34705862686029395793543229889283339680385457474979213676668772792876223329343,
      78650074143454631228466735246761150111185608622931151357702016378789026615906,
      56764799645676364864036401965246402271543447376834639606446113568819416342477),
     (36009789712419855374112854772559493591123975837440351669310306653220573974676,
      40463029596022587936014126353742412695332070680827090156322802329422536583169,
      56450436000505374538761312252002094662147708858587019138230370804286086657896),
     (82129749837213499371558172892927484381543104326671212887688700890787818294400,
      30099681711548461296588576525799433183450639994717850839656743236437016970263,
      75637860363525609710248441679545797073256023339523546643243744144230703209108),
     (39429243937136944535642884581805444190911356924018218931130297705409010476115,
      75348239952270295762934922382289592274550089291509868945258071455881332970496,
      57712876388783890193736716361562969424636529491556222079006864269963846037694),
     (80035337056909703336862215363645754890642949555255836577731602132839979508560,
      53717315190760167188817990295460657531692550333296922061072956335045290483991,
      79187351956828774324268865578556631141479067939723488905926031116850346134642),
     (83529638474113966042149495063331246089817604644512121593030297320996259433389,
      42344858361513750120424994680316276210767350373364243096055721633237400821265,
      73670107449898375691422228502322449185921654816946392612886226152028109910312),
     (65093347688326815579439656713283876764553543663262131330548058565144076869774,
      48470072551670969772677749606703737431509563136765646042950819857809569287385,
      34461021269008303324543592731622586425273307636688676317707078966871175369019),
     (29589533450750376001984240796861080978671849040575421938054590497281682261248,
      63948772410614681935182562005608969611406580247779749190970261955487829494898,
      69250100396377326546410611546756072485823850220039687026851898967529242048157)]"

lemma row_5_values: "map entry_values base_5 = row_5" "list_all entry_tight base_5"
  by (simp_all only: base_5_def row_5_def table_eval)

lemma row_5_ok:
  assumes "pt_ab (smul 1 P) (hx 34705862686029395793543229889283339680385457474979213676668772792876223329343) (hx 78650074143454631228466735246761150111185608622931151357702016378789026615906)"
  shows "row_ok P row_5 \<and> pt_ab (smul 256 P) (hx 73950484889952416065166701208999302102512891102713240600081619585921815285480) (hx 57072792372353150577952531993815517704881297633921566672937422958968335766577)"
proof -
  note p1 = assms
  have e1: "entry_ok (smul 1 P) (34705862686029395793543229889283339680385457474979213676668772792876223329343, 78650074143454631228466735246761150111185608622931151357702016378789026615906, 56764799645676364864036401965246402271543447376834639606446113568819416342477)"
    by (rule entry_okI [OF p1]) (simp only: step_eval)
  have p2: "pt_ab (smul 2 P) (hx 36009789712419855374112854772559493591123975837440351669310306653220573974676) (hx 40463029596022587936014126353742412695332070680827090156322802329422536583169)"
    by (rule dbl_step_smul [OF p1]) (simp only: step_eval, simp)
  have e2: "entry_ok (smul 2 P) (36009789712419855374112854772559493591123975837440351669310306653220573974676, 40463029596022587936014126353742412695332070680827090156322802329422536583169, 56450436000505374538761312252002094662147708858587019138230370804286086657896)"
    by (rule entry_okI [OF p2]) (simp only: step_eval)
  have p3: "pt_ab (smul 3 P) (hx 82129749837213499371558172892927484381543104326671212887688700890787818294400) (hx 30099681711548461296588576525799433183450639994717850839656743236437016970263)"
    by (rule add_step_smul [OF p2 e1]) (simp only: step_eval, simp)
  have e3: "entry_ok (smul 3 P) (82129749837213499371558172892927484381543104326671212887688700890787818294400, 30099681711548461296588576525799433183450639994717850839656743236437016970263, 75637860363525609710248441679545797073256023339523546643243744144230703209108)"
    by (rule entry_okI [OF p3]) (simp only: step_eval)
  have p4: "pt_ab (smul 4 P) (hx 39429243937136944535642884581805444190911356924018218931130297705409010476115) (hx 75348239952270295762934922382289592274550089291509868945258071455881332970496)"
    by (rule dbl_step_smul [OF p2]) (simp only: step_eval, simp)
  have e4: "entry_ok (smul 4 P) (39429243937136944535642884581805444190911356924018218931130297705409010476115, 75348239952270295762934922382289592274550089291509868945258071455881332970496, 57712876388783890193736716361562969424636529491556222079006864269963846037694)"
    by (rule entry_okI [OF p4]) (simp only: step_eval)
  have p5: "pt_ab (smul 5 P) (hx 80035337056909703336862215363645754890642949555255836577731602132839979508560) (hx 53717315190760167188817990295460657531692550333296922061072956335045290483991)"
    by (rule add_step_smul [OF p4 e1]) (simp only: step_eval, simp)
  have e5: "entry_ok (smul 5 P) (80035337056909703336862215363645754890642949555255836577731602132839979508560, 53717315190760167188817990295460657531692550333296922061072956335045290483991, 79187351956828774324268865578556631141479067939723488905926031116850346134642)"
    by (rule entry_okI [OF p5]) (simp only: step_eval)
  have p6: "pt_ab (smul 6 P) (hx 83529638474113966042149495063331246089817604644512121593030297320996259433389) (hx 42344858361513750120424994680316276210767350373364243096055721633237400821265)"
    by (rule dbl_step_smul [OF p3]) (simp only: step_eval, simp)
  have e6: "entry_ok (smul 6 P) (83529638474113966042149495063331246089817604644512121593030297320996259433389, 42344858361513750120424994680316276210767350373364243096055721633237400821265, 73670107449898375691422228502322449185921654816946392612886226152028109910312)"
    by (rule entry_okI [OF p6]) (simp only: step_eval)
  have p7: "pt_ab (smul 7 P) (hx 65093347688326815579439656713283876764553543663262131330548058565144076869774) (hx 48470072551670969772677749606703737431509563136765646042950819857809569287385)"
    by (rule add_step_smul [OF p6 e1]) (simp only: step_eval, simp)
  have e7: "entry_ok (smul 7 P) (65093347688326815579439656713283876764553543663262131330548058565144076869774, 48470072551670969772677749606703737431509563136765646042950819857809569287385, 34461021269008303324543592731622586425273307636688676317707078966871175369019)"
    by (rule entry_okI [OF p7]) (simp only: step_eval)
  have p8: "pt_ab (smul 8 P) (hx 29589533450750376001984240796861080978671849040575421938054590497281682261248) (hx 63948772410614681935182562005608969611406580247779749190970261955487829494898)"
    by (rule dbl_step_smul [OF p4]) (simp only: step_eval, simp)
  have e8: "entry_ok (smul 8 P) (29589533450750376001984240796861080978671849040575421938054590497281682261248, 63948772410614681935182562005608969611406580247779749190970261955487829494898, 69250100396377326546410611546756072485823850220039687026851898967529242048157)"
    by (rule entry_okI [OF p8]) (simp only: step_eval)
  have p16: "pt_ab (smul 16 P) (hx 94814241345380199160719171365233751132270170288780945765482528688834221218305) (hx 77688803901119614114845033939770699723079308087614292936113159076676507748722)"
    by (rule dbl_step_smul [OF p8]) (simp only: step_eval, simp)
  have p32: "pt_ab (smul 32 P) (hx 115622500537099829873159871926990699206664090366842216111334136000104118227552) (hx 101035836028233580665535147505673851862170244162850206329129607168833039092227)"
    by (rule dbl_step_smul [OF p16]) (simp only: step_eval, simp)
  have p64: "pt_ab (smul 64 P) (hx 104959582019034690532845611135338886826084326885033576236021173923605949788537) (hx 63789988819748043467121636604286390369106728070466575858404697179343570385577)"
    by (rule dbl_step_smul [OF p32]) (simp only: step_eval, simp)
  have p128: "pt_ab (smul 128 P) (hx 102155062609005632695951567185811650116688549145656594084645442791351730261208) (hx 81781590385935361897798827084866026716209633419299590819526400616247841101963)"
    by (rule dbl_step_smul [OF p64]) (simp only: step_eval, simp)
  have p256: "pt_ab (smul 256 P) (hx 73950484889952416065166701208999302102512891102713240600081619585921815285480) (hx 57072792372353150577952531993815517704881297633921566672937422958968335766577)"
    by (rule dbl_step_smul [OF p128]) (simp only: step_eval, simp)
  show ?thesis
    unfolding row_5_def by (rule conjI [OF row_okI [OF e1 e2 e3 e4 e5 e6 e7 e8] p256])
qed

lemma row_5_at:
  "row_ok (smul (256 ^ 5) ed_B) row_5"
  "pt_ab (smul (256 ^ 6) ed_B) (hx 73950484889952416065166701208999302102512891102713240600081619585921815285480) (hx 57072792372353150577952531993815517704881297633921566672937422958968335766577)"
  using row_5_ok [of "smul (256 ^ 5) ed_B"] row_4_at(2) by (simp_all add: smul_smul [symmetric])

section \<open>Row 6\<close>

definition row_6 :: "(int \<times> int \<times> int) list" where
  "row_6 =
    [(73950484889952416065166701208999302102512891102713240600081619585921815285480,
      57072792372353150577952531993815517704881297633921566672937422958968335766577,
      51421699959658133488712029380485152858798520627392651264474919470745381876784),
     (58099451066454079772297008876460184603569922668274226088695080774594662715587,
      58831168533356035443508942158657220674949647147570352146829118144218823636490,
      34512591192687828692078762904758383885716226253722505484241805032454922705024),
     (83564060306650907010306673228567963953872084770620085420090715954614287407453,
      69316707085135512497758520042402423567072184245682256561109335612121683926966,
      48142563076882481058310445803135535508945942883909531533138588507465518188399),
     (66687617640297710255313730663911623501202989748307875501661623240734267417523,
      53357739748983793805438240115082548974030046944536059859829115284079407289835,
      58859882582743655942098634219248025090700252724928323332392071844617202810302),
     (66729867616836189892418020391908727850906985033320663641628596735738066795116,
      47957729207171637692086985125376174990561478462871315710951611328414165576980,
      80260259304604530378977844830927970039010229764066723803076975448061508029157),
     (48993415663007700749237048161633604115721131490904939913799507178003454642129,
      73330920545733283344875873158774612773693186308861467809810206842972603305109,
      32952840616749654374222602142062733932317057662550465854026400305469768164161),
     (40157286425850196807408494779485384279001577580757640345171514853691663095699,
      46782293523124115825210320507706993423192503217269762812082531904372227808455,
      70701185543163938276245548182375575249576569488133382484822838915356543455301),
     (50782020275197463250196309334234189563131781277421294134305680097524368290948,
      54890251617098705321442997384626652889683858100782309794885725614873360965819,
      43367941149677131893312238394479744848216580183077423210284613718909362908083)]"

lemma row_6_values: "map entry_values base_6 = row_6" "list_all entry_tight base_6"
  by (simp_all only: base_6_def row_6_def table_eval)

lemma row_6_ok:
  assumes "pt_ab (smul 1 P) (hx 73950484889952416065166701208999302102512891102713240600081619585921815285480) (hx 57072792372353150577952531993815517704881297633921566672937422958968335766577)"
  shows "row_ok P row_6 \<and> pt_ab (smul 256 P) (hx 77466969660657354610417276812398575183305065165845387876168884184199603204597) (hx 32357735381306869076802593254433151670973730536940797444907481256667225822746)"
proof -
  note p1 = assms
  have e1: "entry_ok (smul 1 P) (73950484889952416065166701208999302102512891102713240600081619585921815285480, 57072792372353150577952531993815517704881297633921566672937422958968335766577, 51421699959658133488712029380485152858798520627392651264474919470745381876784)"
    by (rule entry_okI [OF p1]) (simp only: step_eval)
  have p2: "pt_ab (smul 2 P) (hx 58099451066454079772297008876460184603569922668274226088695080774594662715587) (hx 58831168533356035443508942158657220674949647147570352146829118144218823636490)"
    by (rule dbl_step_smul [OF p1]) (simp only: step_eval, simp)
  have e2: "entry_ok (smul 2 P) (58099451066454079772297008876460184603569922668274226088695080774594662715587, 58831168533356035443508942158657220674949647147570352146829118144218823636490, 34512591192687828692078762904758383885716226253722505484241805032454922705024)"
    by (rule entry_okI [OF p2]) (simp only: step_eval)
  have p3: "pt_ab (smul 3 P) (hx 83564060306650907010306673228567963953872084770620085420090715954614287407453) (hx 69316707085135512497758520042402423567072184245682256561109335612121683926966)"
    by (rule add_step_smul [OF p2 e1]) (simp only: step_eval, simp)
  have e3: "entry_ok (smul 3 P) (83564060306650907010306673228567963953872084770620085420090715954614287407453, 69316707085135512497758520042402423567072184245682256561109335612121683926966, 48142563076882481058310445803135535508945942883909531533138588507465518188399)"
    by (rule entry_okI [OF p3]) (simp only: step_eval)
  have p4: "pt_ab (smul 4 P) (hx 66687617640297710255313730663911623501202989748307875501661623240734267417523) (hx 53357739748983793805438240115082548974030046944536059859829115284079407289835)"
    by (rule dbl_step_smul [OF p2]) (simp only: step_eval, simp)
  have e4: "entry_ok (smul 4 P) (66687617640297710255313730663911623501202989748307875501661623240734267417523, 53357739748983793805438240115082548974030046944536059859829115284079407289835, 58859882582743655942098634219248025090700252724928323332392071844617202810302)"
    by (rule entry_okI [OF p4]) (simp only: step_eval)
  have p5: "pt_ab (smul 5 P) (hx 66729867616836189892418020391908727850906985033320663641628596735738066795116) (hx 47957729207171637692086985125376174990561478462871315710951611328414165576980)"
    by (rule add_step_smul [OF p4 e1]) (simp only: step_eval, simp)
  have e5: "entry_ok (smul 5 P) (66729867616836189892418020391908727850906985033320663641628596735738066795116, 47957729207171637692086985125376174990561478462871315710951611328414165576980, 80260259304604530378977844830927970039010229764066723803076975448061508029157)"
    by (rule entry_okI [OF p5]) (simp only: step_eval)
  have p6: "pt_ab (smul 6 P) (hx 48993415663007700749237048161633604115721131490904939913799507178003454642129) (hx 73330920545733283344875873158774612773693186308861467809810206842972603305109)"
    by (rule dbl_step_smul [OF p3]) (simp only: step_eval, simp)
  have e6: "entry_ok (smul 6 P) (48993415663007700749237048161633604115721131490904939913799507178003454642129, 73330920545733283344875873158774612773693186308861467809810206842972603305109, 32952840616749654374222602142062733932317057662550465854026400305469768164161)"
    by (rule entry_okI [OF p6]) (simp only: step_eval)
  have p7: "pt_ab (smul 7 P) (hx 40157286425850196807408494779485384279001577580757640345171514853691663095699) (hx 46782293523124115825210320507706993423192503217269762812082531904372227808455)"
    by (rule add_step_smul [OF p6 e1]) (simp only: step_eval, simp)
  have e7: "entry_ok (smul 7 P) (40157286425850196807408494779485384279001577580757640345171514853691663095699, 46782293523124115825210320507706993423192503217269762812082531904372227808455, 70701185543163938276245548182375575249576569488133382484822838915356543455301)"
    by (rule entry_okI [OF p7]) (simp only: step_eval)
  have p8: "pt_ab (smul 8 P) (hx 50782020275197463250196309334234189563131781277421294134305680097524368290948) (hx 54890251617098705321442997384626652889683858100782309794885725614873360965819)"
    by (rule dbl_step_smul [OF p4]) (simp only: step_eval, simp)
  have e8: "entry_ok (smul 8 P) (50782020275197463250196309334234189563131781277421294134305680097524368290948, 54890251617098705321442997384626652889683858100782309794885725614873360965819, 43367941149677131893312238394479744848216580183077423210284613718909362908083)"
    by (rule entry_okI [OF p8]) (simp only: step_eval)
  have p16: "pt_ab (smul 16 P) (hx 109852698899857204744432376025099410597032487497897611741407513566001312650102) (hx 109473988549048721398956117506870296666075806267734989557852822959280135568430)"
    by (rule dbl_step_smul [OF p8]) (simp only: step_eval, simp)
  have p32: "pt_ab (smul 32 P) (hx 113010338006672808289658673774520322080032884268521446469844196905641827452305) (hx 84689419107853943597306658648876105598575478284090957451279809929640291528161)"
    by (rule dbl_step_smul [OF p16]) (simp only: step_eval, simp)
  have p64: "pt_ab (smul 64 P) (hx 79704999643241554528522796248674112019257562235039178471058942927879565370634) (hx 71568476248428276604651097005188184951650487294859410982097136148803600052928)"
    by (rule dbl_step_smul [OF p32]) (simp only: step_eval, simp)
  have p128: "pt_ab (smul 128 P) (hx 65864522128665925318220937712213611914995771736034252847902365672355241497449) (hx 100113033202195432097146679706078432517668601172502367774462302064630576011886)"
    by (rule dbl_step_smul [OF p64]) (simp only: step_eval, simp)
  have p256: "pt_ab (smul 256 P) (hx 77466969660657354610417276812398575183305065165845387876168884184199603204597) (hx 32357735381306869076802593254433151670973730536940797444907481256667225822746)"
    by (rule dbl_step_smul [OF p128]) (simp only: step_eval, simp)
  show ?thesis
    unfolding row_6_def by (rule conjI [OF row_okI [OF e1 e2 e3 e4 e5 e6 e7 e8] p256])
qed

lemma row_6_at:
  "row_ok (smul (256 ^ 6) ed_B) row_6"
  "pt_ab (smul (256 ^ 7) ed_B) (hx 77466969660657354610417276812398575183305065165845387876168884184199603204597) (hx 32357735381306869076802593254433151670973730536940797444907481256667225822746)"
  using row_6_ok [of "smul (256 ^ 6) ed_B"] row_5_at(2) by (simp_all add: smul_smul [symmetric])

section \<open>Row 7\<close>

definition row_7 :: "(int \<times> int \<times> int) list" where
  "row_7 =
    [(77466969660657354610417276812398575183305065165845387876168884184199603204597,
      32357735381306869076802593254433151670973730536940797444907481256667225822746,
      43770426264118918909783461028749446169351069435554305000100345974965960357774),
     (51039699923380686241926513746538724532401573184627754366394327561548459830545,
      65466295442355403567530321297264525026197652855024320903591599649614764805086,
      44986326881635460017158390896850251516845273638740138404439088669595325866075),
     (75711971703093179921824278600378923589926280048110026696060799677547330776228,
      64024807575221995246559890518513344522051069302264195793980727983935931353152,
      51003336391242365398603558657762411510986397970791495328314451449094402742697),
     (80837457889278137231246402454269553093464569526808291572557582243192734842368,
      78730128139353408965412445273511262930581717669053501182591702837251068128251,
      29614353902843101971246659850110438316679250149300710078753997294490125651300),
     (80502006651219099972692419640990131958128108082802482146943696437958522162465,
      50664813297096328312443921941464385705730385675291923877743585599692826537258,
      74509949633029554291599369439257092748934361510250340815809126508006418555617),
     (63827646828443876585309983845067158219625780530561726948715462240506037689432,
      65101678499860097607304452457022024297857180094388562383754965811930997876656,
      68152312931610033634728602550420509426303081906392232445254451002831177653964),
     (67986199651554427314210025895180750019953848062432661322751266975268855068314,
      66147323687271464032126330598947608249004543074909533085596230110234736794922,
      54662823356110993230037175131481438882634210937508843203161327271639600064154),
     (60289492258990091878035975066476674148172613092262829314763711514940816505473,
      78317034673518949057517878467529876030328543519937684876310462293036833162839,
      66613782957627434245023368150360869193043306367059431594794009023864109431973)]"

lemma row_7_values: "map entry_values base_7 = row_7" "list_all entry_tight base_7"
  by (simp_all only: base_7_def row_7_def table_eval)

lemma row_7_ok:
  assumes "pt_ab (smul 1 P) (hx 77466969660657354610417276812398575183305065165845387876168884184199603204597) (hx 32357735381306869076802593254433151670973730536940797444907481256667225822746)"
  shows "row_ok P row_7 \<and> pt_ab (smul 256 P) (hx 45811644395853849704390239305739775610481015468619340172495835071193285784853) (hx 72827653476953200364761508155737681768895230008837212128410384526653756190955)"
proof -
  note p1 = assms
  have e1: "entry_ok (smul 1 P) (77466969660657354610417276812398575183305065165845387876168884184199603204597, 32357735381306869076802593254433151670973730536940797444907481256667225822746, 43770426264118918909783461028749446169351069435554305000100345974965960357774)"
    by (rule entry_okI [OF p1]) (simp only: step_eval)
  have p2: "pt_ab (smul 2 P) (hx 51039699923380686241926513746538724532401573184627754366394327561548459830545) (hx 65466295442355403567530321297264525026197652855024320903591599649614764805086)"
    by (rule dbl_step_smul [OF p1]) (simp only: step_eval, simp)
  have e2: "entry_ok (smul 2 P) (51039699923380686241926513746538724532401573184627754366394327561548459830545, 65466295442355403567530321297264525026197652855024320903591599649614764805086, 44986326881635460017158390896850251516845273638740138404439088669595325866075)"
    by (rule entry_okI [OF p2]) (simp only: step_eval)
  have p3: "pt_ab (smul 3 P) (hx 75711971703093179921824278600378923589926280048110026696060799677547330776228) (hx 64024807575221995246559890518513344522051069302264195793980727983935931353152)"
    by (rule add_step_smul [OF p2 e1]) (simp only: step_eval, simp)
  have e3: "entry_ok (smul 3 P) (75711971703093179921824278600378923589926280048110026696060799677547330776228, 64024807575221995246559890518513344522051069302264195793980727983935931353152, 51003336391242365398603558657762411510986397970791495328314451449094402742697)"
    by (rule entry_okI [OF p3]) (simp only: step_eval)
  have p4: "pt_ab (smul 4 P) (hx 80837457889278137231246402454269553093464569526808291572557582243192734842368) (hx 78730128139353408965412445273511262930581717669053501182591702837251068128251)"
    by (rule dbl_step_smul [OF p2]) (simp only: step_eval, simp)
  have e4: "entry_ok (smul 4 P) (80837457889278137231246402454269553093464569526808291572557582243192734842368, 78730128139353408965412445273511262930581717669053501182591702837251068128251, 29614353902843101971246659850110438316679250149300710078753997294490125651300)"
    by (rule entry_okI [OF p4]) (simp only: step_eval)
  have p5: "pt_ab (smul 5 P) (hx 80502006651219099972692419640990131958128108082802482146943696437958522162465) (hx 50664813297096328312443921941464385705730385675291923877743585599692826537258)"
    by (rule add_step_smul [OF p4 e1]) (simp only: step_eval, simp)
  have e5: "entry_ok (smul 5 P) (80502006651219099972692419640990131958128108082802482146943696437958522162465, 50664813297096328312443921941464385705730385675291923877743585599692826537258, 74509949633029554291599369439257092748934361510250340815809126508006418555617)"
    by (rule entry_okI [OF p5]) (simp only: step_eval)
  have p6: "pt_ab (smul 6 P) (hx 63827646828443876585309983845067158219625780530561726948715462240506037689432) (hx 65101678499860097607304452457022024297857180094388562383754965811930997876656)"
    by (rule dbl_step_smul [OF p3]) (simp only: step_eval, simp)
  have e6: "entry_ok (smul 6 P) (63827646828443876585309983845067158219625780530561726948715462240506037689432, 65101678499860097607304452457022024297857180094388562383754965811930997876656, 68152312931610033634728602550420509426303081906392232445254451002831177653964)"
    by (rule entry_okI [OF p6]) (simp only: step_eval)
  have p7: "pt_ab (smul 7 P) (hx 67986199651554427314210025895180750019953848062432661322751266975268855068314) (hx 66147323687271464032126330598947608249004543074909533085596230110234736794922)"
    by (rule add_step_smul [OF p6 e1]) (simp only: step_eval, simp)
  have e7: "entry_ok (smul 7 P) (67986199651554427314210025895180750019953848062432661322751266975268855068314, 66147323687271464032126330598947608249004543074909533085596230110234736794922, 54662823356110993230037175131481438882634210937508843203161327271639600064154)"
    by (rule entry_okI [OF p7]) (simp only: step_eval)
  have p8: "pt_ab (smul 8 P) (hx 60289492258990091878035975066476674148172613092262829314763711514940816505473) (hx 78317034673518949057517878467529876030328543519937684876310462293036833162839)"
    by (rule dbl_step_smul [OF p4]) (simp only: step_eval, simp)
  have e8: "entry_ok (smul 8 P) (60289492258990091878035975066476674148172613092262829314763711514940816505473, 78317034673518949057517878467529876030328543519937684876310462293036833162839, 66613782957627434245023368150360869193043306367059431594794009023864109431973)"
    by (rule entry_okI [OF p8]) (simp only: step_eval)
  have p16: "pt_ab (smul 16 P) (hx 87989169815623465397767018769069458680967388798947567916956801255431603391529) (hx 66948078870278303418612648690007183905139778410146307570818261081995441975852)"
    by (rule dbl_step_smul [OF p8]) (simp only: step_eval, simp)
  have p32: "pt_ab (smul 32 P) (hx 95165338128032793188886831150879425271034164229431861277784146120188015836812) (hx 65897029590179445971086213591506029434657060638084044938381967747481975123106)"
    by (rule dbl_step_smul [OF p16]) (simp only: step_eval, simp)
  have p64: "pt_ab (smul 64 P) (hx 70475763679001202167068300561511624706403934936896933390946539842299337089047) (hx 105598757293927437146374574556101755574939096670652706777472125116902770068355)"
    by (rule dbl_step_smul [OF p32]) (simp only: step_eval, simp)
  have p128: "pt_ab (smul 128 P) (hx 111442948322017528806433917322395823413664319735002383933007844441959118973080) (hx 107725459838710856375746325967823617968628069467278288941074559839513600674388)"
    by (rule dbl_step_smul [OF p64]) (simp only: step_eval, simp)
  have p256: "pt_ab (smul 256 P) (hx 45811644395853849704390239305739775610481015468619340172495835071193285784853) (hx 72827653476953200364761508155737681768895230008837212128410384526653756190955)"
    by (rule dbl_step_smul [OF p128]) (simp only: step_eval, simp)
  show ?thesis
    unfolding row_7_def by (rule conjI [OF row_okI [OF e1 e2 e3 e4 e5 e6 e7 e8] p256])
qed

lemma row_7_at:
  "row_ok (smul (256 ^ 7) ed_B) row_7"
  "pt_ab (smul (256 ^ 8) ed_B) (hx 45811644395853849704390239305739775610481015468619340172495835071193285784853) (hx 72827653476953200364761508155737681768895230008837212128410384526653756190955)"
  using row_7_ok [of "smul (256 ^ 7) ed_B"] row_6_at(2) by (simp_all add: smul_smul [symmetric])

end
