(* ===== verification/GeRows1.thy ===== *)
theory GeRows1
  imports GeRows0
begin

text \<open>Rows 8 to 15 of the table \<open>base\<close>.\<close>

section \<open>Row 8\<close>

definition row_8 :: "(int \<times> int \<times> int) list" where
  "row_8 =
    [(45811644395853849704390239305739775610481015468619340172495835071193285784853,
      72827653476953200364761508155737681768895230008837212128410384526653756190955,
      62799306496676441514459727747390225275424383841588747826445425532435347334798),
     (35915358189563066635996360278622500072546646470003087207407994856299406126981,
      33894862684050342114233873808819603409138190338032291464631185092530026718295,
      63233216471419453632374520825232655852592442482739308237190703627693442012939),
     (46349681177630628852521607017182005268874686088518697986163469152413883962006,
      29013289842396303425316390666151711061552802329659675758056051080325829339592,
      78368294952239607486029446847455673493811405378407697982464933609450691388335),
     (29873764967232160522687534444849036661793439430977505697346661260175076455827,
      46777538541512666443747153081364834330280081720958040402518689303965422572187,
      52632938351182299433261527357784499124852258059911510012562841219046775139143),
     (61008096540494163060429714700458709170123824618553471064127196413031573835351,
      70055906574633388156843337328674966008719880550621967986422933536968928774314,
      40197264120199883452839239970295209559427326057889604337880895971409041463626),
     (61843908538206712403400376039332380202775509042343454735075900127450323143061,
      79585182176598180653608107270740891324259338194261701013302235601037808813385,
      66048633833037287917857909643318073682731448894865027863049120185875923191143),
     (61181026656425408123979568782218399706087020444649392588194630712723638456311,
      82241503485618832830452581525082750920416325640562147357764006726703872278575,
      78489081064981477622030422767526438494503531674780092732476555009320467142625),
     (60276660804927668291733704649380649891327786777232858441755179695307155700078,
      78913065424982716985266023414374255546103343700100232416148903395570669270006,
      33959264462625075688969793363384944666529816572912100876478553330634808107969)]"

lemma row_8_values: "map entry_values base_8 = row_8" "list_all entry_tight base_8"
  by (simp_all only: base_8_def row_8_def table_eval)

lemma row_8_ok:
  assumes "pt_ab (smul 1 P) (hx 45811644395853849704390239305739775610481015468619340172495835071193285784853) (hx 72827653476953200364761508155737681768895230008837212128410384526653756190955)"
  shows "row_ok P row_8 \<and> pt_ab (smul 256 P) (hx 68305452379568509892693046302431375553365398660777220261494778943122623863992) (hx 39887044591723563269245854972785290334598921988596658549592209198585228435322)"
proof -
  note p1 = assms
  have e1: "entry_ok (smul 1 P) (45811644395853849704390239305739775610481015468619340172495835071193285784853, 72827653476953200364761508155737681768895230008837212128410384526653756190955, 62799306496676441514459727747390225275424383841588747826445425532435347334798)"
    by (rule entry_okI [OF p1]) (simp only: step_eval)
  have p2: "pt_ab (smul 2 P) (hx 35915358189563066635996360278622500072546646470003087207407994856299406126981) (hx 33894862684050342114233873808819603409138190338032291464631185092530026718295)"
    by (rule dbl_step_smul [OF p1]) (simp only: step_eval, simp)
  have e2: "entry_ok (smul 2 P) (35915358189563066635996360278622500072546646470003087207407994856299406126981, 33894862684050342114233873808819603409138190338032291464631185092530026718295, 63233216471419453632374520825232655852592442482739308237190703627693442012939)"
    by (rule entry_okI [OF p2]) (simp only: step_eval)
  have p3: "pt_ab (smul 3 P) (hx 46349681177630628852521607017182005268874686088518697986163469152413883962006) (hx 29013289842396303425316390666151711061552802329659675758056051080325829339592)"
    by (rule add_step_smul [OF p2 e1]) (simp only: step_eval, simp)
  have e3: "entry_ok (smul 3 P) (46349681177630628852521607017182005268874686088518697986163469152413883962006, 29013289842396303425316390666151711061552802329659675758056051080325829339592, 78368294952239607486029446847455673493811405378407697982464933609450691388335)"
    by (rule entry_okI [OF p3]) (simp only: step_eval)
  have p4: "pt_ab (smul 4 P) (hx 29873764967232160522687534444849036661793439430977505697346661260175076455827) (hx 46777538541512666443747153081364834330280081720958040402518689303965422572187)"
    by (rule dbl_step_smul [OF p2]) (simp only: step_eval, simp)
  have e4: "entry_ok (smul 4 P) (29873764967232160522687534444849036661793439430977505697346661260175076455827, 46777538541512666443747153081364834330280081720958040402518689303965422572187, 52632938351182299433261527357784499124852258059911510012562841219046775139143)"
    by (rule entry_okI [OF p4]) (simp only: step_eval)
  have p5: "pt_ab (smul 5 P) (hx 61008096540494163060429714700458709170123824618553471064127196413031573835351) (hx 70055906574633388156843337328674966008719880550621967986422933536968928774314)"
    by (rule add_step_smul [OF p4 e1]) (simp only: step_eval, simp)
  have e5: "entry_ok (smul 5 P) (61008096540494163060429714700458709170123824618553471064127196413031573835351, 70055906574633388156843337328674966008719880550621967986422933536968928774314, 40197264120199883452839239970295209559427326057889604337880895971409041463626)"
    by (rule entry_okI [OF p5]) (simp only: step_eval)
  have p6: "pt_ab (smul 6 P) (hx 61843908538206712403400376039332380202775509042343454735075900127450323143061) (hx 79585182176598180653608107270740891324259338194261701013302235601037808813385)"
    by (rule dbl_step_smul [OF p3]) (simp only: step_eval, simp)
  have e6: "entry_ok (smul 6 P) (61843908538206712403400376039332380202775509042343454735075900127450323143061, 79585182176598180653608107270740891324259338194261701013302235601037808813385, 66048633833037287917857909643318073682731448894865027863049120185875923191143)"
    by (rule entry_okI [OF p6]) (simp only: step_eval)
  have p7: "pt_ab (smul 7 P) (hx 61181026656425408123979568782218399706087020444649392588194630712723638456311) (hx 82241503485618832830452581525082750920416325640562147357764006726703872278575)"
    by (rule add_step_smul [OF p6 e1]) (simp only: step_eval, simp)
  have e7: "entry_ok (smul 7 P) (61181026656425408123979568782218399706087020444649392588194630712723638456311, 82241503485618832830452581525082750920416325640562147357764006726703872278575, 78489081064981477622030422767526438494503531674780092732476555009320467142625)"
    by (rule entry_okI [OF p7]) (simp only: step_eval)
  have p8: "pt_ab (smul 8 P) (hx 60276660804927668291733704649380649891327786777232858441755179695307155700078) (hx 78913065424982716985266023414374255546103343700100232416148903395570669270006)"
    by (rule dbl_step_smul [OF p4]) (simp only: step_eval, simp)
  have e8: "entry_ok (smul 8 P) (60276660804927668291733704649380649891327786777232858441755179695307155700078, 78913065424982716985266023414374255546103343700100232416148903395570669270006, 33959264462625075688969793363384944666529816572912100876478553330634808107969)"
    by (rule entry_okI [OF p8]) (simp only: step_eval)
  have p16: "pt_ab (smul 16 P) (hx 77916824658187104012631440303353020660014100032414127059376688550830789718347) (hx 90876297373042651852257318950543930806079149782967497196929938182275298766041)"
    by (rule dbl_step_smul [OF p8]) (simp only: step_eval, simp)
  have p32: "pt_ab (smul 32 P) (hx 70300678424261648586510120759195267300193436029428504627297981907075798803631) (hx 97343769884612097018168117047659944969191673008620439225161563450086328317510)"
    by (rule dbl_step_smul [OF p16]) (simp only: step_eval, simp)
  have p64: "pt_ab (smul 64 P) (hx 110294402967437708221128082190210116097508733437930508587520168334428899320298) (hx 84869286179593621200505849097644327101849134852839912762437155491175368780186)"
    by (rule dbl_step_smul [OF p32]) (simp only: step_eval, simp)
  have p128: "pt_ab (smul 128 P) (hx 98453470141447084033227270798015594720719718548024346523611859149202295409761) (hx 84416095533131102071469852019223244848747337899389709140160793638897047539136)"
    by (rule dbl_step_smul [OF p64]) (simp only: step_eval, simp)
  have p256: "pt_ab (smul 256 P) (hx 68305452379568509892693046302431375553365398660777220261494778943122623863992) (hx 39887044591723563269245854972785290334598921988596658549592209198585228435322)"
    by (rule dbl_step_smul [OF p128]) (simp only: step_eval, simp)
  show ?thesis
    unfolding row_8_def by (rule conjI [OF row_okI [OF e1 e2 e3 e4 e5 e6 e7 e8] p256])
qed

lemma row_8_at:
  "row_ok (smul (256 ^ 8) ed_B) row_8"
  "pt_ab (smul (256 ^ 9) ed_B) (hx 68305452379568509892693046302431375553365398660777220261494778943122623863992) (hx 39887044591723563269245854972785290334598921988596658549592209198585228435322)"
  using row_8_ok [of "smul (256 ^ 8) ed_B"] row_7_at(2) by (simp_all add: smul_smul [symmetric])

section \<open>Row 9\<close>

definition row_9 :: "(int \<times> int \<times> int) list" where
  "row_9 =
    [(68305452379568509892693046302431375553365398660777220261494778943122623863992,
      39887044591723563269245854972785290334598921988596658549592209198585228435322,
      63398201670927587257146846244906063745974584561496700221400524067925470104785),
     (40896513243296161671444933807481396907541920985647966475485242644194976950597,
      56237940223155400881454199037093689750714100792574853316124692989145994167367,
      59713507636463384779948308339311028654632321103917686656268842221289365456426),
     (83823566569087054600835711911905809278968039256801844979057613393493156261822,
      31763244584669318230155258503741286674382103648785712009619347735023240823766,
      53527695826203145207658075886850196286259404332434506926721875858605410720412),
     (59148882268462287130972506588686476515056757266460209091408611114062817015007,
      30593873904985471582502319832620565938676124214488861468313021438146302192151,
      65755988270648556771933180016532671865993412317326327091798161844466395231794),
     (79330532222497099399389093036871202949882981712555083118924241172271709507002,
      81921757711093900979637490728124921843428840311852819500216779921853559525271,
      57486446864386749446598818911531311419131633566687342608271230985316832017342),
     (31062498344221899951858847721436214809655846137357588828374314183705499890978,
      46963985862075618670679751905551430263508527377684534659084942250531346278636,
      38639375242256182530522002156010358970794170815715846655767526627348049450871),
     (62183728460914865941417120478585425909001025403452483827877792000760872691726,
      52659858249002268959479197969463203343577009160904130344851852312523521735042,
      39573982994301037469386478770832470053802833111648899801836066420775450914212),
     (50805719941751636072639545819508420116381714755901827263997675351076064057131,
      43864621143673778879720059145761705634008548766967599452868219196731971549962,
      72924059293095000863679412671622194186329517706308684896614827846282672434867)]"

lemma row_9_values: "map entry_values base_9 = row_9" "list_all entry_tight base_9"
  by (simp_all only: base_9_def row_9_def table_eval)

lemma row_9_ok:
  assumes "pt_ab (smul 1 P) (hx 68305452379568509892693046302431375553365398660777220261494778943122623863992) (hx 39887044591723563269245854972785290334598921988596658549592209198585228435322)"
  shows "row_ok P row_9 \<and> pt_ab (smul 256 P) (hx 70447191413938442497790775929550681300974860637677796582743920525889559287278) (hx 40997792406406923892931960786496672588770492779968430725449858439819538674675)"
proof -
  note p1 = assms
  have e1: "entry_ok (smul 1 P) (68305452379568509892693046302431375553365398660777220261494778943122623863992, 39887044591723563269245854972785290334598921988596658549592209198585228435322, 63398201670927587257146846244906063745974584561496700221400524067925470104785)"
    by (rule entry_okI [OF p1]) (simp only: step_eval)
  have p2: "pt_ab (smul 2 P) (hx 40896513243296161671444933807481396907541920985647966475485242644194976950597) (hx 56237940223155400881454199037093689750714100792574853316124692989145994167367)"
    by (rule dbl_step_smul [OF p1]) (simp only: step_eval, simp)
  have e2: "entry_ok (smul 2 P) (40896513243296161671444933807481396907541920985647966475485242644194976950597, 56237940223155400881454199037093689750714100792574853316124692989145994167367, 59713507636463384779948308339311028654632321103917686656268842221289365456426)"
    by (rule entry_okI [OF p2]) (simp only: step_eval)
  have p3: "pt_ab (smul 3 P) (hx 83823566569087054600835711911905809278968039256801844979057613393493156261822) (hx 31763244584669318230155258503741286674382103648785712009619347735023240823766)"
    by (rule add_step_smul [OF p2 e1]) (simp only: step_eval, simp)
  have e3: "entry_ok (smul 3 P) (83823566569087054600835711911905809278968039256801844979057613393493156261822, 31763244584669318230155258503741286674382103648785712009619347735023240823766, 53527695826203145207658075886850196286259404332434506926721875858605410720412)"
    by (rule entry_okI [OF p3]) (simp only: step_eval)
  have p4: "pt_ab (smul 4 P) (hx 59148882268462287130972506588686476515056757266460209091408611114062817015007) (hx 30593873904985471582502319832620565938676124214488861468313021438146302192151)"
    by (rule dbl_step_smul [OF p2]) (simp only: step_eval, simp)
  have e4: "entry_ok (smul 4 P) (59148882268462287130972506588686476515056757266460209091408611114062817015007, 30593873904985471582502319832620565938676124214488861468313021438146302192151, 65755988270648556771933180016532671865993412317326327091798161844466395231794)"
    by (rule entry_okI [OF p4]) (simp only: step_eval)
  have p5: "pt_ab (smul 5 P) (hx 79330532222497099399389093036871202949882981712555083118924241172271709507002) (hx 81921757711093900979637490728124921843428840311852819500216779921853559525271)"
    by (rule add_step_smul [OF p4 e1]) (simp only: step_eval, simp)
  have e5: "entry_ok (smul 5 P) (79330532222497099399389093036871202949882981712555083118924241172271709507002, 81921757711093900979637490728124921843428840311852819500216779921853559525271, 57486446864386749446598818911531311419131633566687342608271230985316832017342)"
    by (rule entry_okI [OF p5]) (simp only: step_eval)
  have p6: "pt_ab (smul 6 P) (hx 31062498344221899951858847721436214809655846137357588828374314183705499890978) (hx 46963985862075618670679751905551430263508527377684534659084942250531346278636)"
    by (rule dbl_step_smul [OF p3]) (simp only: step_eval, simp)
  have e6: "entry_ok (smul 6 P) (31062498344221899951858847721436214809655846137357588828374314183705499890978, 46963985862075618670679751905551430263508527377684534659084942250531346278636, 38639375242256182530522002156010358970794170815715846655767526627348049450871)"
    by (rule entry_okI [OF p6]) (simp only: step_eval)
  have p7: "pt_ab (smul 7 P) (hx 62183728460914865941417120478585425909001025403452483827877792000760872691726) (hx 52659858249002268959479197969463203343577009160904130344851852312523521735042)"
    by (rule add_step_smul [OF p6 e1]) (simp only: step_eval, simp)
  have e7: "entry_ok (smul 7 P) (62183728460914865941417120478585425909001025403452483827877792000760872691726, 52659858249002268959479197969463203343577009160904130344851852312523521735042, 39573982994301037469386478770832470053802833111648899801836066420775450914212)"
    by (rule entry_okI [OF p7]) (simp only: step_eval)
  have p8: "pt_ab (smul 8 P) (hx 50805719941751636072639545819508420116381714755901827263997675351076064057131) (hx 43864621143673778879720059145761705634008548766967599452868219196731971549962)"
    by (rule dbl_step_smul [OF p4]) (simp only: step_eval, simp)
  have e8: "entry_ok (smul 8 P) (50805719941751636072639545819508420116381714755901827263997675351076064057131, 43864621143673778879720059145761705634008548766967599452868219196731971549962, 72924059293095000863679412671622194186329517706308684896614827846282672434867)"
    by (rule entry_okI [OF p8]) (simp only: step_eval)
  have p16: "pt_ab (smul 16 P) (hx 60609437223119959398509226586278215481940812035949876224332468729559075487367) (hx 86946939919441619519835062909219102928145395916723412644340782721775830553308)"
    by (rule dbl_step_smul [OF p8]) (simp only: step_eval, simp)
  have p32: "pt_ab (smul 32 P) (hx 84045382613682781205494809176100112685708945161562491821314868070910540354287) (hx 60175605110966028034760031965015586957540569336055536456063102161303309772917)"
    by (rule dbl_step_smul [OF p16]) (simp only: step_eval, simp)
  have p64: "pt_ab (smul 64 P) (hx 95246649430949809451577515612701566491976862094990826775209936049373204886801) (hx 103651891033243203157458113192670486127984415243620084294020097589348442358058)"
    by (rule dbl_step_smul [OF p32]) (simp only: step_eval, simp)
  have p128: "pt_ab (smul 128 P) (hx 75426810957456844563169410565904365668266049606023466486347835946712569176771) (hx 61147326939965212998234014150066951233124314826764319501924649983093229458271)"
    by (rule dbl_step_smul [OF p64]) (simp only: step_eval, simp)
  have p256: "pt_ab (smul 256 P) (hx 70447191413938442497790775929550681300974860637677796582743920525889559287278) (hx 40997792406406923892931960786496672588770492779968430725449858439819538674675)"
    by (rule dbl_step_smul [OF p128]) (simp only: step_eval, simp)
  show ?thesis
    unfolding row_9_def by (rule conjI [OF row_okI [OF e1 e2 e3 e4 e5 e6 e7 e8] p256])
qed

lemma row_9_at:
  "row_ok (smul (256 ^ 9) ed_B) row_9"
  "pt_ab (smul (256 ^ 10) ed_B) (hx 70447191413938442497790775929550681300974860637677796582743920525889559287278) (hx 40997792406406923892931960786496672588770492779968430725449858439819538674675)"
  using row_9_ok [of "smul (256 ^ 9) ed_B"] row_8_at(2) by (simp_all add: smul_smul [symmetric])

section \<open>Row 10\<close>

definition row_10 :: "(int \<times> int \<times> int) list" where
  "row_10 =
    [(70447191413938442497790775929550681300974860637677796582743920525889559287278,
      40997792406406923892931960786496672588770492779968430725449858439819538674675,
      33485073730374884379083389779227338234729520923942262865850302142554981360993),
     (36495074539532668136119300032490930812775115485457478334944836904296518231195,
      86412378037279347878637205585437995691915759123908324973909314444011913476486,
      69263297383835891570018931597317384195023401082661825830337719818688514120658),
     (55642637717615341722022066033283202987750692292429326885794666159006471668107,
      45388308265707171204135539876728540307165058094998853871904211628010648400124,
      43683283860073365892155668576944614247275322696205766183044395438496958137475),
     (49841877707494860773386729403075123583685643066334864294150530675937342915403,
      39722104095206381464614228934810644938615679772415802718864910265527696388205,
      82431543183409866335093653470212011861042005497187819559576732374585274052702),
     (73782812941525204590631464937593142913525736277291543323828506853248665890483,
      32988107716371446779087377870404657813439565920308070991526520112487875878852,
      61337825470052375870522843852039986287372428547014859624400596156960935179187),
     (71898273680086392639427637724016844650824139000798592324974312297854638834226,
      59501169707393491420245496685044690685985421042983592208390095740560410152417,
      39518910697847951169999680384286526545770905682021645886881699719392915782636),
     (72387934699231054354327575577208721551383669294655340390188785630598989666286,
      30681127199258015214961044843666609718360694794592528849130584784068893224911,
      60183741094608013876125369277078364661671645347646368418210188831791148251826),
     (44018790363729709212780562682442065758707333830111016380003737856641658677482,
      33949792137526630374438171331464033499912161404110416057409092333692073741468,
      72340274589562689720046730139518065113005567818974490844756684823268303068547)]"

lemma row_10_values: "map entry_values base_10 = row_10" "list_all entry_tight base_10"
  by (simp_all only: base_10_def row_10_def table_eval)

lemma row_10_ok:
  assumes "pt_ab (smul 1 P) (hx 70447191413938442497790775929550681300974860637677796582743920525889559287278) (hx 40997792406406923892931960786496672588770492779968430725449858439819538674675)"
  shows "row_ok P row_10 \<and> pt_ab (smul 256 P) (hx 75989220449763301120921758483380618598742253943974229936889639594913852517235) (hx 38130831442855550483773723253374209757463307039962625227408733545849508278678)"
proof -
  note p1 = assms
  have e1: "entry_ok (smul 1 P) (70447191413938442497790775929550681300974860637677796582743920525889559287278, 40997792406406923892931960786496672588770492779968430725449858439819538674675, 33485073730374884379083389779227338234729520923942262865850302142554981360993)"
    by (rule entry_okI [OF p1]) (simp only: step_eval)
  have p2: "pt_ab (smul 2 P) (hx 36495074539532668136119300032490930812775115485457478334944836904296518231195) (hx 86412378037279347878637205585437995691915759123908324973909314444011913476486)"
    by (rule dbl_step_smul [OF p1]) (simp only: step_eval, simp)
  have e2: "entry_ok (smul 2 P) (36495074539532668136119300032490930812775115485457478334944836904296518231195, 86412378037279347878637205585437995691915759123908324973909314444011913476486, 69263297383835891570018931597317384195023401082661825830337719818688514120658)"
    by (rule entry_okI [OF p2]) (simp only: step_eval)
  have p3: "pt_ab (smul 3 P) (hx 55642637717615341722022066033283202987750692292429326885794666159006471668107) (hx 45388308265707171204135539876728540307165058094998853871904211628010648400124)"
    by (rule add_step_smul [OF p2 e1]) (simp only: step_eval, simp)
  have e3: "entry_ok (smul 3 P) (55642637717615341722022066033283202987750692292429326885794666159006471668107, 45388308265707171204135539876728540307165058094998853871904211628010648400124, 43683283860073365892155668576944614247275322696205766183044395438496958137475)"
    by (rule entry_okI [OF p3]) (simp only: step_eval)
  have p4: "pt_ab (smul 4 P) (hx 49841877707494860773386729403075123583685643066334864294150530675937342915403) (hx 39722104095206381464614228934810644938615679772415802718864910265527696388205)"
    by (rule dbl_step_smul [OF p2]) (simp only: step_eval, simp)
  have e4: "entry_ok (smul 4 P) (49841877707494860773386729403075123583685643066334864294150530675937342915403, 39722104095206381464614228934810644938615679772415802718864910265527696388205, 82431543183409866335093653470212011861042005497187819559576732374585274052702)"
    by (rule entry_okI [OF p4]) (simp only: step_eval)
  have p5: "pt_ab (smul 5 P) (hx 73782812941525204590631464937593142913525736277291543323828506853248665890483) (hx 32988107716371446779087377870404657813439565920308070991526520112487875878852)"
    by (rule add_step_smul [OF p4 e1]) (simp only: step_eval, simp)
  have e5: "entry_ok (smul 5 P) (73782812941525204590631464937593142913525736277291543323828506853248665890483, 32988107716371446779087377870404657813439565920308070991526520112487875878852, 61337825470052375870522843852039986287372428547014859624400596156960935179187)"
    by (rule entry_okI [OF p5]) (simp only: step_eval)
  have p6: "pt_ab (smul 6 P) (hx 71898273680086392639427637724016844650824139000798592324974312297854638834226) (hx 59501169707393491420245496685044690685985421042983592208390095740560410152417)"
    by (rule dbl_step_smul [OF p3]) (simp only: step_eval, simp)
  have e6: "entry_ok (smul 6 P) (71898273680086392639427637724016844650824139000798592324974312297854638834226, 59501169707393491420245496685044690685985421042983592208390095740560410152417, 39518910697847951169999680384286526545770905682021645886881699719392915782636)"
    by (rule entry_okI [OF p6]) (simp only: step_eval)
  have p7: "pt_ab (smul 7 P) (hx 72387934699231054354327575577208721551383669294655340390188785630598989666286) (hx 30681127199258015214961044843666609718360694794592528849130584784068893224911)"
    by (rule add_step_smul [OF p6 e1]) (simp only: step_eval, simp)
  have e7: "entry_ok (smul 7 P) (72387934699231054354327575577208721551383669294655340390188785630598989666286, 30681127199258015214961044843666609718360694794592528849130584784068893224911, 60183741094608013876125369277078364661671645347646368418210188831791148251826)"
    by (rule entry_okI [OF p7]) (simp only: step_eval)
  have p8: "pt_ab (smul 8 P) (hx 44018790363729709212780562682442065758707333830111016380003737856641658677482) (hx 33949792137526630374438171331464033499912161404110416057409092333692073741468)"
    by (rule dbl_step_smul [OF p4]) (simp only: step_eval, simp)
  have e8: "entry_ok (smul 8 P) (44018790363729709212780562682442065758707333830111016380003737856641658677482, 33949792137526630374438171331464033499912161404110416057409092333692073741468, 72340274589562689720046730139518065113005567818974490844756684823268303068547)"
    by (rule entry_okI [OF p8]) (simp only: step_eval)
  have p16: "pt_ab (smul 16 P) (hx 93802021044417314662818453696779510357479188950987793557058609918021679342093) (hx 94294887271748607050848249384880686395384770826396407902206731018083815417334)"
    by (rule dbl_step_smul [OF p8]) (simp only: step_eval, simp)
  have p32: "pt_ab (smul 32 P) (hx 87523096531885811528117999962529184066958698832287933452319043251571645360962) (hx 79436887634292127202626666975903186783299995000642190666934767178378180669788)"
    by (rule dbl_step_smul [OF p16]) (simp only: step_eval, simp)
  have p64: "pt_ab (smul 64 P) (hx 61664703642999214961276591227928076193341336666801904677648412343022911988300) (hx 85625920658559909078576310044911849789339152299672673112851583846510918738111)"
    by (rule dbl_step_smul [OF p32]) (simp only: step_eval, simp)
  have p128: "pt_ab (smul 128 P) (hx 76379547665515350141161138067981708878222124865025630596482602512669369428281) (hx 71220249116902252441485672067191043431642945347966224763636718458800821426431)"
    by (rule dbl_step_smul [OF p64]) (simp only: step_eval, simp)
  have p256: "pt_ab (smul 256 P) (hx 75989220449763301120921758483380618598742253943974229936889639594913852517235) (hx 38130831442855550483773723253374209757463307039962625227408733545849508278678)"
    by (rule dbl_step_smul [OF p128]) (simp only: step_eval, simp)
  show ?thesis
    unfolding row_10_def by (rule conjI [OF row_okI [OF e1 e2 e3 e4 e5 e6 e7 e8] p256])
qed

lemma row_10_at:
  "row_ok (smul (256 ^ 10) ed_B) row_10"
  "pt_ab (smul (256 ^ 11) ed_B) (hx 75989220449763301120921758483380618598742253943974229936889639594913852517235) (hx 38130831442855550483773723253374209757463307039962625227408733545849508278678)"
  using row_10_ok [of "smul (256 ^ 10) ed_B"] row_9_at(2) by (simp_all add: smul_smul [symmetric])

section \<open>Row 11\<close>

definition row_11 :: "(int \<times> int \<times> int) list" where
  "row_11 =
    [(75989220449763301120921758483380618598742253943974229936889639594913852517235,
      38130831442855550483773723253374209757463307039962625227408733545849508278678,
      51967296633057552634562772832257678922046988695490898018368777076434258790024),
     (72339129049614647300444860145617482296988776115561211006495418848591215228436,
      40985872620517089032726712045624733953636406315422604483916597713210708133967,
      58336433458375769425089040990308223146342460013661609369990920642073319962578),
     (32439310879054851416469492634174468287917792823916521075011772673739405104979,
      61443186761786649522758950509564642804799247809506498859816003874731324551327,
      70654672533744980518388114615418111446847421435783185304146668233411072154879),
     (83432369668321007096350536278095876794981229440153367478805726570394529022022,
      70668619776706598061272752768283261650323106879594076220396182321226970800951,
      60669792845239900230757471699813729563291919236971393454137230926965687641351),
     (42316598777827856202847032304408301934376271191935521211009874216487856369907,
      57909889777509758155082680835574032858087670647311649276729658839264709411706,
      67627558521381384042664125324651465663763348256603738744832146279153262569784),
     (33174364015509957735297600843593485805310060955272785366466948162357007558855,
      74706484512703150286315524765464782494631141870418181353481787940873468803790,
      61338021760347085605447215309522220214999593182953633153307351922886880716794),
     (46773306435711631794726723866133267286239584300745604814495258885081655529558,
      49719117039379561960727064122715192776237081035466516337350557383074067935231,
      36758135662363521121267190264335410215601720965794361523525726559512712036787),
     (66450345338020959283851797716468751638905296645515043225245598515921734771778,
      66533160510142912576573861770589096477752956997340500505084006832220579055934,
      54141300935566969612522165659077718047880846769369646518760922344386421832494)]"

lemma row_11_values: "map entry_values base_11 = row_11" "list_all entry_tight base_11"
  by (simp_all only: base_11_def row_11_def table_eval)

lemma row_11_ok:
  assumes "pt_ab (smul 1 P) (hx 75989220449763301120921758483380618598742253943974229936889639594913852517235) (hx 38130831442855550483773723253374209757463307039962625227408733545849508278678)"
  shows "row_ok P row_11 \<and> pt_ab (smul 256 P) (hx 61347725867383053837189798638850073328666390670905251248167943315545801994385) (hx 45103340189645008687377119205687495755236823628386648868825446224184048796894)"
proof -
  note p1 = assms
  have e1: "entry_ok (smul 1 P) (75989220449763301120921758483380618598742253943974229936889639594913852517235, 38130831442855550483773723253374209757463307039962625227408733545849508278678, 51967296633057552634562772832257678922046988695490898018368777076434258790024)"
    by (rule entry_okI [OF p1]) (simp only: step_eval)
  have p2: "pt_ab (smul 2 P) (hx 72339129049614647300444860145617482296988776115561211006495418848591215228436) (hx 40985872620517089032726712045624733953636406315422604483916597713210708133967)"
    by (rule dbl_step_smul [OF p1]) (simp only: step_eval, simp)
  have e2: "entry_ok (smul 2 P) (72339129049614647300444860145617482296988776115561211006495418848591215228436, 40985872620517089032726712045624733953636406315422604483916597713210708133967, 58336433458375769425089040990308223146342460013661609369990920642073319962578)"
    by (rule entry_okI [OF p2]) (simp only: step_eval)
  have p3: "pt_ab (smul 3 P) (hx 32439310879054851416469492634174468287917792823916521075011772673739405104979) (hx 61443186761786649522758950509564642804799247809506498859816003874731324551327)"
    by (rule add_step_smul [OF p2 e1]) (simp only: step_eval, simp)
  have e3: "entry_ok (smul 3 P) (32439310879054851416469492634174468287917792823916521075011772673739405104979, 61443186761786649522758950509564642804799247809506498859816003874731324551327, 70654672533744980518388114615418111446847421435783185304146668233411072154879)"
    by (rule entry_okI [OF p3]) (simp only: step_eval)
  have p4: "pt_ab (smul 4 P) (hx 83432369668321007096350536278095876794981229440153367478805726570394529022022) (hx 70668619776706598061272752768283261650323106879594076220396182321226970800951)"
    by (rule dbl_step_smul [OF p2]) (simp only: step_eval, simp)
  have e4: "entry_ok (smul 4 P) (83432369668321007096350536278095876794981229440153367478805726570394529022022, 70668619776706598061272752768283261650323106879594076220396182321226970800951, 60669792845239900230757471699813729563291919236971393454137230926965687641351)"
    by (rule entry_okI [OF p4]) (simp only: step_eval)
  have p5: "pt_ab (smul 5 P) (hx 42316598777827856202847032304408301934376271191935521211009874216487856369907) (hx 57909889777509758155082680835574032858087670647311649276729658839264709411706)"
    by (rule add_step_smul [OF p4 e1]) (simp only: step_eval, simp)
  have e5: "entry_ok (smul 5 P) (42316598777827856202847032304408301934376271191935521211009874216487856369907, 57909889777509758155082680835574032858087670647311649276729658839264709411706, 67627558521381384042664125324651465663763348256603738744832146279153262569784)"
    by (rule entry_okI [OF p5]) (simp only: step_eval)
  have p6: "pt_ab (smul 6 P) (hx 33174364015509957735297600843593485805310060955272785366466948162357007558855) (hx 74706484512703150286315524765464782494631141870418181353481787940873468803790)"
    by (rule dbl_step_smul [OF p3]) (simp only: step_eval, simp)
  have e6: "entry_ok (smul 6 P) (33174364015509957735297600843593485805310060955272785366466948162357007558855, 74706484512703150286315524765464782494631141870418181353481787940873468803790, 61338021760347085605447215309522220214999593182953633153307351922886880716794)"
    by (rule entry_okI [OF p6]) (simp only: step_eval)
  have p7: "pt_ab (smul 7 P) (hx 46773306435711631794726723866133267286239584300745604814495258885081655529558) (hx 49719117039379561960727064122715192776237081035466516337350557383074067935231)"
    by (rule add_step_smul [OF p6 e1]) (simp only: step_eval, simp)
  have e7: "entry_ok (smul 7 P) (46773306435711631794726723866133267286239584300745604814495258885081655529558, 49719117039379561960727064122715192776237081035466516337350557383074067935231, 36758135662363521121267190264335410215601720965794361523525726559512712036787)"
    by (rule entry_okI [OF p7]) (simp only: step_eval)
  have p8: "pt_ab (smul 8 P) (hx 66450345338020959283851797716468751638905296645515043225245598515921734771778) (hx 66533160510142912576573861770589096477752956997340500505084006832220579055934)"
    by (rule dbl_step_smul [OF p4]) (simp only: step_eval, simp)
  have e8: "entry_ok (smul 8 P) (66450345338020959283851797716468751638905296645515043225245598515921734771778, 66533160510142912576573861770589096477752956997340500505084006832220579055934, 54141300935566969612522165659077718047880846769369646518760922344386421832494)"
    by (rule entry_okI [OF p8]) (simp only: step_eval)
  have p16: "pt_ab (smul 16 P) (hx 90260444127284808611202346176281470843153434298516766339679610287825174188680) (hx 62936979714974199348255931205529695163071708196503953417836562720499738682948)"
    by (rule dbl_step_smul [OF p8]) (simp only: step_eval, simp)
  have p32: "pt_ab (smul 32 P) (hx 106626547355231864039106234976437885398665710286813610027730953842951025609058) (hx 95164988229607435487456591382942462737517785622441793970435074662990813890211)"
    by (rule dbl_step_smul [OF p16]) (simp only: step_eval, simp)
  have p64: "pt_ab (smul 64 P) (hx 114194041512627805322656559835948525369716163456528884679651606051149761021347) (hx 59547510711287674535581009782005240096934566888121558068698881217874807563402)"
    by (rule dbl_step_smul [OF p32]) (simp only: step_eval, simp)
  have p128: "pt_ab (smul 128 P) (hx 74230911697047162596895329564811130858604921705010019597684391730233469215264) (hx 64347322477071804633136953564582434770630930924838604977866563315917020474824)"
    by (rule dbl_step_smul [OF p64]) (simp only: step_eval, simp)
  have p256: "pt_ab (smul 256 P) (hx 61347725867383053837189798638850073328666390670905251248167943315545801994385) (hx 45103340189645008687377119205687495755236823628386648868825446224184048796894)"
    by (rule dbl_step_smul [OF p128]) (simp only: step_eval, simp)
  show ?thesis
    unfolding row_11_def by (rule conjI [OF row_okI [OF e1 e2 e3 e4 e5 e6 e7 e8] p256])
qed

lemma row_11_at:
  "row_ok (smul (256 ^ 11) ed_B) row_11"
  "pt_ab (smul (256 ^ 12) ed_B) (hx 61347725867383053837189798638850073328666390670905251248167943315545801994385) (hx 45103340189645008687377119205687495755236823628386648868825446224184048796894)"
  using row_11_ok [of "smul (256 ^ 11) ed_B"] row_10_at(2) by (simp_all add: smul_smul [symmetric])

section \<open>Row 12\<close>

definition row_12 :: "(int \<times> int \<times> int) list" where
  "row_12 =
    [(61347725867383053837189798638850073328666390670905251248167943315545801994385,
      45103340189645008687377119205687495755236823628386648868825446224184048796894,
      86193703211128398367089052799524829852873680405126447672651159176442676142005),
     (73652846098691630712221931503331997565306642276340127221539335223998290055465,
      53249647316924474924764553206973140789479264795143211720665224465792826909332,
      61975366537746548867756426721601766056913924593774248056223117854286023610755),
     (44440916243623654813196625181418591040528612902186678982718949176108874547385,
      30704408044933336248267902861681307394716900345009394572633209542762833809820,
      39234047837535946933120500347005935939694720814273465479239074552640111285664),
     (59553687521068778690971271488314837497969436105258029461436017996430382545823,
      71077886167768952871705004784127279767182149648056032515363855429305797784536,
      30620135049508188460763188723509672297382823174620355808252175549280309005855),
     (59120178959416062842949233672586955415133703578702877076235525631031698068305,
      80681896604788214699916863996949969636097628330751303983303863716067430594984,
      75830922936430257171488744354036589089327773467337971996148065384814357876191),
     (73311808558725124276935869449491721915691181331652372319860061346033429211457,
      78120159173696871470114160247238851582769322184668791025017322952267987267957,
      55687407906356314834157785956404136077810055735313337975029750174690426216912),
     (47226954303977824279015135365200687385856393548721672548066108672547954947468,
      44321242324127141208161485302311265456056358988767397337360352541062405988900,
      32028163196612385717047854050109193046872393665088466084927211248292476754042),
     (65312681221666688109093014986046950212630253310128216384358427914251373478189,
      76540669289992403452550228307076748630511453483481457091958847481632631612902,
      47778366753236297181352475211256767642049858902999256697989242090595700182359)]"

lemma row_12_values: "map entry_values base_12 = row_12" "list_all entry_tight base_12"
  by (simp_all only: base_12_def row_12_def table_eval)

lemma row_12_ok:
  assumes "pt_ab (smul 1 P) (hx 61347725867383053837189798638850073328666390670905251248167943315545801994385) (hx 45103340189645008687377119205687495755236823628386648868825446224184048796894)"
  shows "row_ok P row_12 \<and> pt_ab (smul 256 P) (hx 74946846815367714115237318910346270405047614314863432121096222523834369428186) (hx 52203088490620088308042053124240008862847193975950073103887513132592090740924)"
proof -
  note p1 = assms
  have e1: "entry_ok (smul 1 P) (61347725867383053837189798638850073328666390670905251248167943315545801994385, 45103340189645008687377119205687495755236823628386648868825446224184048796894, 86193703211128398367089052799524829852873680405126447672651159176442676142005)"
    by (rule entry_okI [OF p1]) (simp only: step_eval)
  have p2: "pt_ab (smul 2 P) (hx 73652846098691630712221931503331997565306642276340127221539335223998290055465) (hx 53249647316924474924764553206973140789479264795143211720665224465792826909332)"
    by (rule dbl_step_smul [OF p1]) (simp only: step_eval, simp)
  have e2: "entry_ok (smul 2 P) (73652846098691630712221931503331997565306642276340127221539335223998290055465, 53249647316924474924764553206973140789479264795143211720665224465792826909332, 61975366537746548867756426721601766056913924593774248056223117854286023610755)"
    by (rule entry_okI [OF p2]) (simp only: step_eval)
  have p3: "pt_ab (smul 3 P) (hx 44440916243623654813196625181418591040528612902186678982718949176108874547385) (hx 30704408044933336248267902861681307394716900345009394572633209542762833809820)"
    by (rule add_step_smul [OF p2 e1]) (simp only: step_eval, simp)
  have e3: "entry_ok (smul 3 P) (44440916243623654813196625181418591040528612902186678982718949176108874547385, 30704408044933336248267902861681307394716900345009394572633209542762833809820, 39234047837535946933120500347005935939694720814273465479239074552640111285664)"
    by (rule entry_okI [OF p3]) (simp only: step_eval)
  have p4: "pt_ab (smul 4 P) (hx 59553687521068778690971271488314837497969436105258029461436017996430382545823) (hx 71077886167768952871705004784127279767182149648056032515363855429305797784536)"
    by (rule dbl_step_smul [OF p2]) (simp only: step_eval, simp)
  have e4: "entry_ok (smul 4 P) (59553687521068778690971271488314837497969436105258029461436017996430382545823, 71077886167768952871705004784127279767182149648056032515363855429305797784536, 30620135049508188460763188723509672297382823174620355808252175549280309005855)"
    by (rule entry_okI [OF p4]) (simp only: step_eval)
  have p5: "pt_ab (smul 5 P) (hx 59120178959416062842949233672586955415133703578702877076235525631031698068305) (hx 80681896604788214699916863996949969636097628330751303983303863716067430594984)"
    by (rule add_step_smul [OF p4 e1]) (simp only: step_eval, simp)
  have e5: "entry_ok (smul 5 P) (59120178959416062842949233672586955415133703578702877076235525631031698068305, 80681896604788214699916863996949969636097628330751303983303863716067430594984, 75830922936430257171488744354036589089327773467337971996148065384814357876191)"
    by (rule entry_okI [OF p5]) (simp only: step_eval)
  have p6: "pt_ab (smul 6 P) (hx 73311808558725124276935869449491721915691181331652372319860061346033429211457) (hx 78120159173696871470114160247238851582769322184668791025017322952267987267957)"
    by (rule dbl_step_smul [OF p3]) (simp only: step_eval, simp)
  have e6: "entry_ok (smul 6 P) (73311808558725124276935869449491721915691181331652372319860061346033429211457, 78120159173696871470114160247238851582769322184668791025017322952267987267957, 55687407906356314834157785956404136077810055735313337975029750174690426216912)"
    by (rule entry_okI [OF p6]) (simp only: step_eval)
  have p7: "pt_ab (smul 7 P) (hx 47226954303977824279015135365200687385856393548721672548066108672547954947468) (hx 44321242324127141208161485302311265456056358988767397337360352541062405988900)"
    by (rule add_step_smul [OF p6 e1]) (simp only: step_eval, simp)
  have e7: "entry_ok (smul 7 P) (47226954303977824279015135365200687385856393548721672548066108672547954947468, 44321242324127141208161485302311265456056358988767397337360352541062405988900, 32028163196612385717047854050109193046872393665088466084927211248292476754042)"
    by (rule entry_okI [OF p7]) (simp only: step_eval)
  have p8: "pt_ab (smul 8 P) (hx 65312681221666688109093014986046950212630253310128216384358427914251373478189) (hx 76540669289992403452550228307076748630511453483481457091958847481632631612902)"
    by (rule dbl_step_smul [OF p4]) (simp only: step_eval, simp)
  have e8: "entry_ok (smul 8 P) (65312681221666688109093014986046950212630253310128216384358427914251373478189, 76540669289992403452550228307076748630511453483481457091958847481632631612902, 47778366753236297181352475211256767642049858902999256697989242090595700182359)"
    by (rule entry_okI [OF p8]) (simp only: step_eval)
  have p16: "pt_ab (smul 16 P) (hx 84031322937525309871795369637103683404318813781353370473322337571118871562017) (hx 84334640388457712245956772931090622841302051659489168463502819158438510712452)"
    by (rule dbl_step_smul [OF p8]) (simp only: step_eval, simp)
  have p32: "pt_ab (smul 32 P) (hx 100259162840883674563936459975220923699812166049670969572965853627915356771399) (hx 113850451828115624505475904211124514302421107346621720285323459528256459689130)"
    by (rule dbl_step_smul [OF p16]) (simp only: step_eval, simp)
  have p64: "pt_ab (smul 64 P) (hx 99581799904099441246341191650508414400374796745464711185321373937237671859481) (hx 70235945482468890634438458311771739967427467565187783559907531231849655302118)"
    by (rule dbl_step_smul [OF p32]) (simp only: step_eval, simp)
  have p128: "pt_ab (smul 128 P) (hx 99832320077936611603814155373679273752302410121292530688309370663854777539844) (hx 72011835853309552107319479256986742281892824057366153967479060440725023669386)"
    by (rule dbl_step_smul [OF p64]) (simp only: step_eval, simp)
  have p256: "pt_ab (smul 256 P) (hx 74946846815367714115237318910346270405047614314863432121096222523834369428186) (hx 52203088490620088308042053124240008862847193975950073103887513132592090740924)"
    by (rule dbl_step_smul [OF p128]) (simp only: step_eval, simp)
  show ?thesis
    unfolding row_12_def by (rule conjI [OF row_okI [OF e1 e2 e3 e4 e5 e6 e7 e8] p256])
qed

lemma row_12_at:
  "row_ok (smul (256 ^ 12) ed_B) row_12"
  "pt_ab (smul (256 ^ 13) ed_B) (hx 74946846815367714115237318910346270405047614314863432121096222523834369428186) (hx 52203088490620088308042053124240008862847193975950073103887513132592090740924)"
  using row_12_ok [of "smul (256 ^ 12) ed_B"] row_11_at(2) by (simp_all add: smul_smul [symmetric])

section \<open>Row 13\<close>

definition row_13 :: "(int \<times> int \<times> int) list" where
  "row_13 =
    [(74946846815367714115237318910346270405047614314863432121096222523834369428186,
      52203088490620088308042053124240008862847193975950073103887513132592090740924,
      66999560141666882274480915689267305034248300783031059423856724230143917713489),
     (80469691683998796955106484909088234568301545436839900808117849397712994982589,
      43744013194210237770675985085980306992599423881353672810344758870573299126679,
      38812541435861490770655985701028575093438945430707955995503236971241199250255),
     (69809864461315065186106593243574970383704259905001814909565333176480808930367,
      46408704785010430089430157331749708437756204194011099043272805321015644274008,
      66837197688276702763267926214690023105206858691361442256374500619332049816025),
     (36520345722324076610985185928719706425140626294046643152997554760501764542592,
      46574175429131291097669420260105784050079243965530113979009886462375548412345,
      71390147672326696615375284381655251476480484064065264678274034325867083063550),
     (84233143601634803598089269926307890837426428186346224313297431145295688419463,
      64405723949546469471404674523219214250733557310121961420546827333148187169386,
      80307709913204882274504240419375196802001546626629571045297960677513771959828),
     (36457576209297191189783948203546239530121394583105015122929077937334640300952,
      73409820457063977202974863592368724834366272275313866634927041679159988321798,
      60496734017947218766354346919393033636524832960596673921183892503694642062806),
     (39525195698761792489520470432465029528341483267007663756624662941785148166884,
      54297948675728140644472591065005055527219321824171520056214734149289071271947,
      43401000024929860870443748577085362889392788972970373030492181978042218786911),
     (76816958262063631368523538008109119095267388329281961398174881030850093684013,
      65320362625250418275284498977057867749566073343826403250325397648887459208074,
      33788371045053549569082616380973010795613804317075653702296435700278488159184)]"

lemma row_13_values: "map entry_values base_13 = row_13" "list_all entry_tight base_13"
  by (simp_all only: base_13_def row_13_def table_eval)

lemma row_13_ok:
  assumes "pt_ab (smul 1 P) (hx 74946846815367714115237318910346270405047614314863432121096222523834369428186) (hx 52203088490620088308042053124240008862847193975950073103887513132592090740924)"
  shows "row_ok P row_13 \<and> pt_ab (smul 256 P) (hx 79723277997670986007837381418356567516745685591770007293823700498976054558857) (hx 76804522208185015884403913577463926987261272994252852475917875602329784866176)"
proof -
  note p1 = assms
  have e1: "entry_ok (smul 1 P) (74946846815367714115237318910346270405047614314863432121096222523834369428186, 52203088490620088308042053124240008862847193975950073103887513132592090740924, 66999560141666882274480915689267305034248300783031059423856724230143917713489)"
    by (rule entry_okI [OF p1]) (simp only: step_eval)
  have p2: "pt_ab (smul 2 P) (hx 80469691683998796955106484909088234568301545436839900808117849397712994982589) (hx 43744013194210237770675985085980306992599423881353672810344758870573299126679)"
    by (rule dbl_step_smul [OF p1]) (simp only: step_eval, simp)
  have e2: "entry_ok (smul 2 P) (80469691683998796955106484909088234568301545436839900808117849397712994982589, 43744013194210237770675985085980306992599423881353672810344758870573299126679, 38812541435861490770655985701028575093438945430707955995503236971241199250255)"
    by (rule entry_okI [OF p2]) (simp only: step_eval)
  have p3: "pt_ab (smul 3 P) (hx 69809864461315065186106593243574970383704259905001814909565333176480808930367) (hx 46408704785010430089430157331749708437756204194011099043272805321015644274008)"
    by (rule add_step_smul [OF p2 e1]) (simp only: step_eval, simp)
  have e3: "entry_ok (smul 3 P) (69809864461315065186106593243574970383704259905001814909565333176480808930367, 46408704785010430089430157331749708437756204194011099043272805321015644274008, 66837197688276702763267926214690023105206858691361442256374500619332049816025)"
    by (rule entry_okI [OF p3]) (simp only: step_eval)
  have p4: "pt_ab (smul 4 P) (hx 36520345722324076610985185928719706425140626294046643152997554760501764542592) (hx 46574175429131291097669420260105784050079243965530113979009886462375548412345)"
    by (rule dbl_step_smul [OF p2]) (simp only: step_eval, simp)
  have e4: "entry_ok (smul 4 P) (36520345722324076610985185928719706425140626294046643152997554760501764542592, 46574175429131291097669420260105784050079243965530113979009886462375548412345, 71390147672326696615375284381655251476480484064065264678274034325867083063550)"
    by (rule entry_okI [OF p4]) (simp only: step_eval)
  have p5: "pt_ab (smul 5 P) (hx 84233143601634803598089269926307890837426428186346224313297431145295688419463) (hx 64405723949546469471404674523219214250733557310121961420546827333148187169386)"
    by (rule add_step_smul [OF p4 e1]) (simp only: step_eval, simp)
  have e5: "entry_ok (smul 5 P) (84233143601634803598089269926307890837426428186346224313297431145295688419463, 64405723949546469471404674523219214250733557310121961420546827333148187169386, 80307709913204882274504240419375196802001546626629571045297960677513771959828)"
    by (rule entry_okI [OF p5]) (simp only: step_eval)
  have p6: "pt_ab (smul 6 P) (hx 36457576209297191189783948203546239530121394583105015122929077937334640300952) (hx 73409820457063977202974863592368724834366272275313866634927041679159988321798)"
    by (rule dbl_step_smul [OF p3]) (simp only: step_eval, simp)
  have e6: "entry_ok (smul 6 P) (36457576209297191189783948203546239530121394583105015122929077937334640300952, 73409820457063977202974863592368724834366272275313866634927041679159988321798, 60496734017947218766354346919393033636524832960596673921183892503694642062806)"
    by (rule entry_okI [OF p6]) (simp only: step_eval)
  have p7: "pt_ab (smul 7 P) (hx 39525195698761792489520470432465029528341483267007663756624662941785148166884) (hx 54297948675728140644472591065005055527219321824171520056214734149289071271947)"
    by (rule add_step_smul [OF p6 e1]) (simp only: step_eval, simp)
  have e7: "entry_ok (smul 7 P) (39525195698761792489520470432465029528341483267007663756624662941785148166884, 54297948675728140644472591065005055527219321824171520056214734149289071271947, 43401000024929860870443748577085362889392788972970373030492181978042218786911)"
    by (rule entry_okI [OF p7]) (simp only: step_eval)
  have p8: "pt_ab (smul 8 P) (hx 76816958262063631368523538008109119095267388329281961398174881030850093684013) (hx 65320362625250418275284498977057867749566073343826403250325397648887459208074)"
    by (rule dbl_step_smul [OF p4]) (simp only: step_eval, simp)
  have e8: "entry_ok (smul 8 P) (76816958262063631368523538008109119095267388329281961398174881030850093684013, 65320362625250418275284498977057867749566073343826403250325397648887459208074, 33788371045053549569082616380973010795613804317075653702296435700278488159184)"
    by (rule entry_okI [OF p8]) (simp only: step_eval)
  have p16: "pt_ab (smul 16 P) (hx 113804605146773411049116684583916930914565743592002513997821199976362575519809) (hx 105245606732722296761240998059229153419556080218972043789039716236937669165270)"
    by (rule dbl_step_smul [OF p8]) (simp only: step_eval, simp)
  have p32: "pt_ab (smul 32 P) (hx 82366364640311841000339046426538247537233955887438998106029119977532007807551) (hx 106525431427274280431629521354007716216321725674164405463410070049180569942215)"
    by (rule dbl_step_smul [OF p16]) (simp only: step_eval, simp)
  have p64: "pt_ab (smul 64 P) (hx 75553990247279389466372761547119499909733876588152804953232807961976761420227) (hx 67334539020818380613723422874025713500335180287401623651310647989172235407269)"
    by (rule dbl_step_smul [OF p32]) (simp only: step_eval, simp)
  have p128: "pt_ab (smul 128 P) (hx 96356494234568378532575864036367913806937711110941476744808256559382906176997) (hx 90904032859757061819399180363425387450721415840675186258040359623393461683838)"
    by (rule dbl_step_smul [OF p64]) (simp only: step_eval, simp)
  have p256: "pt_ab (smul 256 P) (hx 79723277997670986007837381418356567516745685591770007293823700498976054558857) (hx 76804522208185015884403913577463926987261272994252852475917875602329784866176)"
    by (rule dbl_step_smul [OF p128]) (simp only: step_eval, simp)
  show ?thesis
    unfolding row_13_def by (rule conjI [OF row_okI [OF e1 e2 e3 e4 e5 e6 e7 e8] p256])
qed

lemma row_13_at:
  "row_ok (smul (256 ^ 13) ed_B) row_13"
  "pt_ab (smul (256 ^ 14) ed_B) (hx 79723277997670986007837381418356567516745685591770007293823700498976054558857) (hx 76804522208185015884403913577463926987261272994252852475917875602329784866176)"
  using row_13_ok [of "smul (256 ^ 13) ed_B"] row_12_at(2) by (simp_all add: smul_smul [symmetric])

section \<open>Row 14\<close>

definition row_14 :: "(int \<times> int \<times> int) list" where
  "row_14 =
    [(79723277997670986007837381418356567516745685591770007293823700498976054558857,
      76804522208185015884403913577463926987261272994252852475917875602329784866176,
      65266870961850875129814864428023668240100820170581672992454540559260967166261),
     (72509927453941311750664476103299551354680269270270586480808233472589817704784,
      41571788042841202290338899197942030796230516339045080200904489370096453676391,
      74831239866386347548755647522886391910469417312197790765374504355016022405222),
     (74229438483944650406911441696708526166307271303485474951204427382052013745223,
      85846501730138077080458145681486725397849783498199242922426481756610852427106,
      61631261906286057612931692182888081372870907610109214845773281775156736191639),
     (60083987586379524561445605275543308826288679078224601843523917969766013472955,
      64048785406398811820254819616326387504727615798829506857540651029335164254775,
      33687252402094524114131595312117657102470687313102135967075104063098932016597),
     (33736517823584404399059101676279552618085743187793320592784576821012330916427,
      65905247256571477915665684897400349677077139105609910955616991145040068829058,
      35866652425338433390311007382469353678561155750483270407528619149526737158102),
     (79725101200757541127487485925949188921077385708044819620885371481277622717276,
      52462748891825032534667424376636530105351141648077381434967835151012454475140,
      83505526917934218396906114544997272583781017091798003702975869390181055048750),
     (74978183601930685829976963144752987391082109228361169897297165996511609138197,
      44023337580527604937271447510237247950108265703563243046570053015408587094478,
      45785415964771744884105106760687734638714290339569160766521324440507169365614),
     (64859534390991842243883179877765917364384371453663285658977311969183104977414,
      65935010118523862505331198965251138673353995095891081644212076522036205385568,
      34679285908232973181684355241560006158309275789071333826186434730086434201798)]"

lemma row_14_values: "map entry_values base_14 = row_14" "list_all entry_tight base_14"
  by (simp_all only: base_14_def row_14_def table_eval)

lemma row_14_ok:
  assumes "pt_ab (smul 1 P) (hx 79723277997670986007837381418356567516745685591770007293823700498976054558857) (hx 76804522208185015884403913577463926987261272994252852475917875602329784866176)"
  shows "row_ok P row_14 \<and> pt_ab (smul 256 P) (hx 57395309720386242646754846189974251205032425858971487761196482955580035093129) (hx 45053854337161548003772049549845281962137326347197926600072792067971101755950)"
proof -
  note p1 = assms
  have e1: "entry_ok (smul 1 P) (79723277997670986007837381418356567516745685591770007293823700498976054558857, 76804522208185015884403913577463926987261272994252852475917875602329784866176, 65266870961850875129814864428023668240100820170581672992454540559260967166261)"
    by (rule entry_okI [OF p1]) (simp only: step_eval)
  have p2: "pt_ab (smul 2 P) (hx 72509927453941311750664476103299551354680269270270586480808233472589817704784) (hx 41571788042841202290338899197942030796230516339045080200904489370096453676391)"
    by (rule dbl_step_smul [OF p1]) (simp only: step_eval, simp)
  have e2: "entry_ok (smul 2 P) (72509927453941311750664476103299551354680269270270586480808233472589817704784, 41571788042841202290338899197942030796230516339045080200904489370096453676391, 74831239866386347548755647522886391910469417312197790765374504355016022405222)"
    by (rule entry_okI [OF p2]) (simp only: step_eval)
  have p3: "pt_ab (smul 3 P) (hx 74229438483944650406911441696708526166307271303485474951204427382052013745223) (hx 85846501730138077080458145681486725397849783498199242922426481756610852427106)"
    by (rule add_step_smul [OF p2 e1]) (simp only: step_eval, simp)
  have e3: "entry_ok (smul 3 P) (74229438483944650406911441696708526166307271303485474951204427382052013745223, 85846501730138077080458145681486725397849783498199242922426481756610852427106, 61631261906286057612931692182888081372870907610109214845773281775156736191639)"
    by (rule entry_okI [OF p3]) (simp only: step_eval)
  have p4: "pt_ab (smul 4 P) (hx 60083987586379524561445605275543308826288679078224601843523917969766013472955) (hx 64048785406398811820254819616326387504727615798829506857540651029335164254775)"
    by (rule dbl_step_smul [OF p2]) (simp only: step_eval, simp)
  have e4: "entry_ok (smul 4 P) (60083987586379524561445605275543308826288679078224601843523917969766013472955, 64048785406398811820254819616326387504727615798829506857540651029335164254775, 33687252402094524114131595312117657102470687313102135967075104063098932016597)"
    by (rule entry_okI [OF p4]) (simp only: step_eval)
  have p5: "pt_ab (smul 5 P) (hx 33736517823584404399059101676279552618085743187793320592784576821012330916427) (hx 65905247256571477915665684897400349677077139105609910955616991145040068829058)"
    by (rule add_step_smul [OF p4 e1]) (simp only: step_eval, simp)
  have e5: "entry_ok (smul 5 P) (33736517823584404399059101676279552618085743187793320592784576821012330916427, 65905247256571477915665684897400349677077139105609910955616991145040068829058, 35866652425338433390311007382469353678561155750483270407528619149526737158102)"
    by (rule entry_okI [OF p5]) (simp only: step_eval)
  have p6: "pt_ab (smul 6 P) (hx 79725101200757541127487485925949188921077385708044819620885371481277622717276) (hx 52462748891825032534667424376636530105351141648077381434967835151012454475140)"
    by (rule dbl_step_smul [OF p3]) (simp only: step_eval, simp)
  have e6: "entry_ok (smul 6 P) (79725101200757541127487485925949188921077385708044819620885371481277622717276, 52462748891825032534667424376636530105351141648077381434967835151012454475140, 83505526917934218396906114544997272583781017091798003702975869390181055048750)"
    by (rule entry_okI [OF p6]) (simp only: step_eval)
  have p7: "pt_ab (smul 7 P) (hx 74978183601930685829976963144752987391082109228361169897297165996511609138197) (hx 44023337580527604937271447510237247950108265703563243046570053015408587094478)"
    by (rule add_step_smul [OF p6 e1]) (simp only: step_eval, simp)
  have e7: "entry_ok (smul 7 P) (74978183601930685829976963144752987391082109228361169897297165996511609138197, 44023337580527604937271447510237247950108265703563243046570053015408587094478, 45785415964771744884105106760687734638714290339569160766521324440507169365614)"
    by (rule entry_okI [OF p7]) (simp only: step_eval)
  have p8: "pt_ab (smul 8 P) (hx 64859534390991842243883179877765917364384371453663285658977311969183104977414) (hx 65935010118523862505331198965251138673353995095891081644212076522036205385568)"
    by (rule dbl_step_smul [OF p4]) (simp only: step_eval, simp)
  have e8: "entry_ok (smul 8 P) (64859534390991842243883179877765917364384371453663285658977311969183104977414, 65935010118523862505331198965251138673353995095891081644212076522036205385568, 34679285908232973181684355241560006158309275789071333826186434730086434201798)"
    by (rule entry_okI [OF p8]) (simp only: step_eval)
  have p16: "pt_ab (smul 16 P) (hx 68797018811528705541292172642665758126467216069792701607383112301673578799153) (hx 87023543017171157706986559232367830963093851676207930348276390028311241126933)"
    by (rule dbl_step_smul [OF p8]) (simp only: step_eval, simp)
  have p32: "pt_ab (smul 32 P) (hx 112092540189009005841807135008686158603209497375013254866778678456644618636994) (hx 88856438680361567070919669105550446114081845918768787513533254455402638470190)"
    by (rule dbl_step_smul [OF p16]) (simp only: step_eval, simp)
  have p64: "pt_ab (smul 64 P) (hx 68915389715797720509831679578042040993557439589046890845746189485852777666647) (hx 63716633233903609605815374008746651225661599021126625688515381932120220820578)"
    by (rule dbl_step_smul [OF p32]) (simp only: step_eval, simp)
  have p128: "pt_ab (smul 128 P) (hx 76321551580228214312862334105465561255784383292356559108112661198486685067503) (hx 82303624220564039392175903555335682266983521966388250529784406574009782508750)"
    by (rule dbl_step_smul [OF p64]) (simp only: step_eval, simp)
  have p256: "pt_ab (smul 256 P) (hx 57395309720386242646754846189974251205032425858971487761196482955580035093129) (hx 45053854337161548003772049549845281962137326347197926600072792067971101755950)"
    by (rule dbl_step_smul [OF p128]) (simp only: step_eval, simp)
  show ?thesis
    unfolding row_14_def by (rule conjI [OF row_okI [OF e1 e2 e3 e4 e5 e6 e7 e8] p256])
qed

lemma row_14_at:
  "row_ok (smul (256 ^ 14) ed_B) row_14"
  "pt_ab (smul (256 ^ 15) ed_B) (hx 57395309720386242646754846189974251205032425858971487761196482955580035093129) (hx 45053854337161548003772049549845281962137326347197926600072792067971101755950)"
  using row_14_ok [of "smul (256 ^ 14) ed_B"] row_13_at(2) by (simp_all add: smul_smul [symmetric])

section \<open>Row 15\<close>

definition row_15 :: "(int \<times> int \<times> int) list" where
  "row_15 =
    [(57395309720386242646754846189974251205032425858971487761196482955580035093129,
      45053854337161548003772049549845281962137326347197926600072792067971101755950,
      64622936853430932105539456713452172469567770758835301848210699345909687361968),
     (60044615757122563012474312417711302132571056228494631976101221820768009470208,
      29053280061195524822332506467203275624462462109616729264371553687702729349736,
      82030631436672873776790025354312346523835759471450561392353257362323593911525),
     (52964629332132736180408281687757844018827908359161337954945758898817828942616,
      64955490318270544217347884502851756460367754084385709413733271808299020565473,
      32459679910422073271814382510984648903123479773226854138102136133628108696626),
     (61964432051950968872172943876521247320687586458900867458805069090633810994845,
      58222217847389873692042868029997716065904127575496997576021621153789159165749,
      32213443167318959601836596658801760362746564063779367375501241589888255453904),
     (49030967473513631966479914884452848228230344046822701221766659759411016827593,
      72582797259275825669526066512857233190964514533984403559532813959459419833349,
      52499472668829983167754656142543533925438827919795624378010220503189606138380),
     (71821728910320958764096305290064737294783051912965265737418959498973868553633,
      56121063548777198593588121281692786192340008652686873543863740053941355661421,
      84521606144739574219974079999218819408187435454620058082232494286754258505864),
     (44203098534624853938196033382256519478556333427697914728015344652799840956486,
      74449924555613056937547072118453672000123267545057658700760422494916306132191,
      38955782613106806920629358372575433443796841730857271497304067351609179738153),
     (57345278018653071100864846553753370672565170486688702533568086568295949567446,
      82955969264014317943169908179486676331785660404298961542644549136172142876208,
      49604170177600969842065448714158641061295302784479819895904220888323481284295)]"

lemma row_15_values: "map entry_values base_15 = row_15" "list_all entry_tight base_15"
  by (simp_all only: base_15_def row_15_def table_eval)

lemma row_15_ok:
  assumes "pt_ab (smul 1 P) (hx 57395309720386242646754846189974251205032425858971487761196482955580035093129) (hx 45053854337161548003772049549845281962137326347197926600072792067971101755950)"
  shows "row_ok P row_15 \<and> pt_ab (smul 256 P) (hx 77494422277519322495630503399155241698594571633980640197216169484242398318223) (hx 66498670466979011813766820242158304146694956700436106116710656169955156672052)"
proof -
  note p1 = assms
  have e1: "entry_ok (smul 1 P) (57395309720386242646754846189974251205032425858971487761196482955580035093129, 45053854337161548003772049549845281962137326347197926600072792067971101755950, 64622936853430932105539456713452172469567770758835301848210699345909687361968)"
    by (rule entry_okI [OF p1]) (simp only: step_eval)
  have p2: "pt_ab (smul 2 P) (hx 60044615757122563012474312417711302132571056228494631976101221820768009470208) (hx 29053280061195524822332506467203275624462462109616729264371553687702729349736)"
    by (rule dbl_step_smul [OF p1]) (simp only: step_eval, simp)
  have e2: "entry_ok (smul 2 P) (60044615757122563012474312417711302132571056228494631976101221820768009470208, 29053280061195524822332506467203275624462462109616729264371553687702729349736, 82030631436672873776790025354312346523835759471450561392353257362323593911525)"
    by (rule entry_okI [OF p2]) (simp only: step_eval)
  have p3: "pt_ab (smul 3 P) (hx 52964629332132736180408281687757844018827908359161337954945758898817828942616) (hx 64955490318270544217347884502851756460367754084385709413733271808299020565473)"
    by (rule add_step_smul [OF p2 e1]) (simp only: step_eval, simp)
  have e3: "entry_ok (smul 3 P) (52964629332132736180408281687757844018827908359161337954945758898817828942616, 64955490318270544217347884502851756460367754084385709413733271808299020565473, 32459679910422073271814382510984648903123479773226854138102136133628108696626)"
    by (rule entry_okI [OF p3]) (simp only: step_eval)
  have p4: "pt_ab (smul 4 P) (hx 61964432051950968872172943876521247320687586458900867458805069090633810994845) (hx 58222217847389873692042868029997716065904127575496997576021621153789159165749)"
    by (rule dbl_step_smul [OF p2]) (simp only: step_eval, simp)
  have e4: "entry_ok (smul 4 P) (61964432051950968872172943876521247320687586458900867458805069090633810994845, 58222217847389873692042868029997716065904127575496997576021621153789159165749, 32213443167318959601836596658801760362746564063779367375501241589888255453904)"
    by (rule entry_okI [OF p4]) (simp only: step_eval)
  have p5: "pt_ab (smul 5 P) (hx 49030967473513631966479914884452848228230344046822701221766659759411016827593) (hx 72582797259275825669526066512857233190964514533984403559532813959459419833349)"
    by (rule add_step_smul [OF p4 e1]) (simp only: step_eval, simp)
  have e5: "entry_ok (smul 5 P) (49030967473513631966479914884452848228230344046822701221766659759411016827593, 72582797259275825669526066512857233190964514533984403559532813959459419833349, 52499472668829983167754656142543533925438827919795624378010220503189606138380)"
    by (rule entry_okI [OF p5]) (simp only: step_eval)
  have p6: "pt_ab (smul 6 P) (hx 71821728910320958764096305290064737294783051912965265737418959498973868553633) (hx 56121063548777198593588121281692786192340008652686873543863740053941355661421)"
    by (rule dbl_step_smul [OF p3]) (simp only: step_eval, simp)
  have e6: "entry_ok (smul 6 P) (71821728910320958764096305290064737294783051912965265737418959498973868553633, 56121063548777198593588121281692786192340008652686873543863740053941355661421, 84521606144739574219974079999218819408187435454620058082232494286754258505864)"
    by (rule entry_okI [OF p6]) (simp only: step_eval)
  have p7: "pt_ab (smul 7 P) (hx 44203098534624853938196033382256519478556333427697914728015344652799840956486) (hx 74449924555613056937547072118453672000123267545057658700760422494916306132191)"
    by (rule add_step_smul [OF p6 e1]) (simp only: step_eval, simp)
  have e7: "entry_ok (smul 7 P) (44203098534624853938196033382256519478556333427697914728015344652799840956486, 74449924555613056937547072118453672000123267545057658700760422494916306132191, 38955782613106806920629358372575433443796841730857271497304067351609179738153)"
    by (rule entry_okI [OF p7]) (simp only: step_eval)
  have p8: "pt_ab (smul 8 P) (hx 57345278018653071100864846553753370672565170486688702533568086568295949567446) (hx 82955969264014317943169908179486676331785660404298961542644549136172142876208)"
    by (rule dbl_step_smul [OF p4]) (simp only: step_eval, simp)
  have e8: "entry_ok (smul 8 P) (57345278018653071100864846553753370672565170486688702533568086568295949567446, 82955969264014317943169908179486676331785660404298961542644549136172142876208, 49604170177600969842065448714158641061295302784479819895904220888323481284295)"
    by (rule entry_okI [OF p8]) (simp only: step_eval)
  have p16: "pt_ab (smul 16 P) (hx 95479530941329020096861142931285577846968452351226824038034768871615466909789) (hx 85369935704674457953973665498298384310492491064299223322445399147502228374865)"
    by (rule dbl_step_smul [OF p8]) (simp only: step_eval, simp)
  have p32: "pt_ab (smul 32 P) (hx 113010406489687572295577275404773857873652476711239716430626937816331742418724) (hx 106777614074085624042094570102688343987046459477095959247611318690921919398314)"
    by (rule dbl_step_smul [OF p16]) (simp only: step_eval, simp)
  have p64: "pt_ab (smul 64 P) (hx 60282263944550374029398674186542832569119646604940408610858509832409628494188) (hx 90067327646953026669404205186208856506089451205291019226010765263052514489617)"
    by (rule dbl_step_smul [OF p32]) (simp only: step_eval, simp)
  have p128: "pt_ab (smul 128 P) (hx 68960873059485611150977547236424160533698725497968639453159700546000015340020) (hx 100345585818831416300602139966752830641313719221089937983411216130328872364731)"
    by (rule dbl_step_smul [OF p64]) (simp only: step_eval, simp)
  have p256: "pt_ab (smul 256 P) (hx 77494422277519322495630503399155241698594571633980640197216169484242398318223) (hx 66498670466979011813766820242158304146694956700436106116710656169955156672052)"
    by (rule dbl_step_smul [OF p128]) (simp only: step_eval, simp)
  show ?thesis
    unfolding row_15_def by (rule conjI [OF row_okI [OF e1 e2 e3 e4 e5 e6 e7 e8] p256])
qed

lemma row_15_at:
  "row_ok (smul (256 ^ 15) ed_B) row_15"
  "pt_ab (smul (256 ^ 16) ed_B) (hx 77494422277519322495630503399155241698594571633980640197216169484242398318223) (hx 66498670466979011813766820242158304146694956700436106116710656169955156672052)"
  using row_15_ok [of "smul (256 ^ 15) ed_B"] row_14_at(2) by (simp_all add: smul_smul [symmetric])

end
