(* ===== verification/GeRows2.thy ===== *)
theory GeRows2
  imports GeRows1
begin

text \<open>Rows 16 to 23 of the table \<open>base\<close>.\<close>

section \<open>Row 16\<close>

definition row_16 :: "(int \<times> int \<times> int) list" where
  "row_16 =
    [(77494422277519322495630503399155241698594571633980640197216169484242398318223,
      66498670466979011813766820242158304146694956700436106116710656169955156672052,
      30942559212363234812595554070815474796498884287982536881367675299020161195262),
     (42358850453650065889635398056826431689538149690374728044470728175627769415630,
      49214616977899862322469880599614825738082489444556174853237268494629968889502,
      40232175707683650301975749701477663824140238404181442186427403402071285441226),
     (48385487438128254996699525927577029456907952722367890843478930305300776799734,
      39559994053825367353652989801205660682483070420505538516279738614821870321256,
      50714071707794461408227191109614507820614087751067786611292803711762503739528),
     (51581966452853900091756646973557346059106653709384595763318103082387283820819,
      78724650642566809026947985926299161834148738704837322435098382156906362924250,
      64503367509943323126559979334044547859605107798289169508794852020450825886242),
     (82513994768018495154426062116991916492421043032489532968210283949790631935707,
      73304751819819094965405897405830279839838040610735634743745392531670058868890,
      29583458512608500016175427767720597889820895734504066602041203471957649820692),
     (81732933399591561351161373515771610455582240007222445906890825336318826811355,
      54830092141338595816423396439963958968410593929160852392345055156201544099584,
      65795593208734706675886662843195498424450503719470004180355181279182168643257),
     (72105458912043665409198500912990555287256022939987946898883414860322135543461,
      61960195228791183272279889212189413701413332426341088364654856791804448891272,
      35816950881593546499613928182437259839509838771386966334082232436584874456298),
     (81560485889967152173081877516582120531868932284282703515580044072119407719973,
      30906604324974005795711787063961077428212762191009810152169842161441877937748,
      65459231204128770299129512123928828946823252483373160454363267367864793464169)]"

lemma row_16_values: "map entry_values base_16 = row_16" "list_all entry_tight base_16"
  by (simp_all only: base_16_def row_16_def table_eval)

lemma row_16_ok:
  assumes "pt_ab (smul 1 P) (hx 77494422277519322495630503399155241698594571633980640197216169484242398318223) (hx 66498670466979011813766820242158304146694956700436106116710656169955156672052)"
  shows "row_ok P row_16 \<and> pt_ab (smul 256 P) (hx 68671726360146701747189189718435774669074797457223994159888364167618309255259) (hx 72695989597879675422560240752829101301976884892560082447386788594269726189705)"
proof -
  note p1 = assms
  have e1: "entry_ok (smul 1 P) (77494422277519322495630503399155241698594571633980640197216169484242398318223, 66498670466979011813766820242158304146694956700436106116710656169955156672052, 30942559212363234812595554070815474796498884287982536881367675299020161195262)"
    by (rule entry_okI [OF p1]) (simp only: step_eval)
  have p2: "pt_ab (smul 2 P) (hx 42358850453650065889635398056826431689538149690374728044470728175627769415630) (hx 49214616977899862322469880599614825738082489444556174853237268494629968889502)"
    by (rule dbl_step_smul [OF p1]) (simp only: step_eval, simp)
  have e2: "entry_ok (smul 2 P) (42358850453650065889635398056826431689538149690374728044470728175627769415630, 49214616977899862322469880599614825738082489444556174853237268494629968889502, 40232175707683650301975749701477663824140238404181442186427403402071285441226)"
    by (rule entry_okI [OF p2]) (simp only: step_eval)
  have p3: "pt_ab (smul 3 P) (hx 48385487438128254996699525927577029456907952722367890843478930305300776799734) (hx 39559994053825367353652989801205660682483070420505538516279738614821870321256)"
    by (rule add_step_smul [OF p2 e1]) (simp only: step_eval, simp)
  have e3: "entry_ok (smul 3 P) (48385487438128254996699525927577029456907952722367890843478930305300776799734, 39559994053825367353652989801205660682483070420505538516279738614821870321256, 50714071707794461408227191109614507820614087751067786611292803711762503739528)"
    by (rule entry_okI [OF p3]) (simp only: step_eval)
  have p4: "pt_ab (smul 4 P) (hx 51581966452853900091756646973557346059106653709384595763318103082387283820819) (hx 78724650642566809026947985926299161834148738704837322435098382156906362924250)"
    by (rule dbl_step_smul [OF p2]) (simp only: step_eval, simp)
  have e4: "entry_ok (smul 4 P) (51581966452853900091756646973557346059106653709384595763318103082387283820819, 78724650642566809026947985926299161834148738704837322435098382156906362924250, 64503367509943323126559979334044547859605107798289169508794852020450825886242)"
    by (rule entry_okI [OF p4]) (simp only: step_eval)
  have p5: "pt_ab (smul 5 P) (hx 82513994768018495154426062116991916492421043032489532968210283949790631935707) (hx 73304751819819094965405897405830279839838040610735634743745392531670058868890)"
    by (rule add_step_smul [OF p4 e1]) (simp only: step_eval, simp)
  have e5: "entry_ok (smul 5 P) (82513994768018495154426062116991916492421043032489532968210283949790631935707, 73304751819819094965405897405830279839838040610735634743745392531670058868890, 29583458512608500016175427767720597889820895734504066602041203471957649820692)"
    by (rule entry_okI [OF p5]) (simp only: step_eval)
  have p6: "pt_ab (smul 6 P) (hx 81732933399591561351161373515771610455582240007222445906890825336318826811355) (hx 54830092141338595816423396439963958968410593929160852392345055156201544099584)"
    by (rule dbl_step_smul [OF p3]) (simp only: step_eval, simp)
  have e6: "entry_ok (smul 6 P) (81732933399591561351161373515771610455582240007222445906890825336318826811355, 54830092141338595816423396439963958968410593929160852392345055156201544099584, 65795593208734706675886662843195498424450503719470004180355181279182168643257)"
    by (rule entry_okI [OF p6]) (simp only: step_eval)
  have p7: "pt_ab (smul 7 P) (hx 72105458912043665409198500912990555287256022939987946898883414860322135543461) (hx 61960195228791183272279889212189413701413332426341088364654856791804448891272)"
    by (rule add_step_smul [OF p6 e1]) (simp only: step_eval, simp)
  have e7: "entry_ok (smul 7 P) (72105458912043665409198500912990555287256022939987946898883414860322135543461, 61960195228791183272279889212189413701413332426341088364654856791804448891272, 35816950881593546499613928182437259839509838771386966334082232436584874456298)"
    by (rule entry_okI [OF p7]) (simp only: step_eval)
  have p8: "pt_ab (smul 8 P) (hx 81560485889967152173081877516582120531868932284282703515580044072119407719973) (hx 30906604324974005795711787063961077428212762191009810152169842161441877937748)"
    by (rule dbl_step_smul [OF p4]) (simp only: step_eval, simp)
  have e8: "entry_ok (smul 8 P) (81560485889967152173081877516582120531868932284282703515580044072119407719973, 30906604324974005795711787063961077428212762191009810152169842161441877937748, 65459231204128770299129512123928828946823252483373160454363267367864793464169)"
    by (rule entry_okI [OF p8]) (simp only: step_eval)
  have p16: "pt_ab (smul 16 P) (hx 78712773902316773449383366540588709386067206045493481694206041286303942920845) (hx 60723994225215401241795616470413490020612582765433807218937966917426591588370)"
    by (rule dbl_step_smul [OF p8]) (simp only: step_eval, simp)
  have p32: "pt_ab (smul 32 P) (hx 94407516916953109839182147804542581535538400144262649864046778608682042126829) (hx 59945503990394500847565335794781122925616572490577558203516292163847904989315)"
    by (rule dbl_step_smul [OF p16]) (simp only: step_eval, simp)
  have p64: "pt_ab (smul 64 P) (hx 76143593087435639290863199703703245556750276497245486778335751356454285024495) (hx 113749863608011089406393135384886340227029398189546158237275356015227609564341)"
    by (rule dbl_step_smul [OF p32]) (simp only: step_eval, simp)
  have p128: "pt_ab (smul 128 P) (hx 91966182004743884852721356789673883973776550616301339553545950222008456453995) (hx 61824831329132201721764659751122174675652869836109714682393053557614803733083)"
    by (rule dbl_step_smul [OF p64]) (simp only: step_eval, simp)
  have p256: "pt_ab (smul 256 P) (hx 68671726360146701747189189718435774669074797457223994159888364167618309255259) (hx 72695989597879675422560240752829101301976884892560082447386788594269726189705)"
    by (rule dbl_step_smul [OF p128]) (simp only: step_eval, simp)
  show ?thesis
    unfolding row_16_def by (rule conjI [OF row_okI [OF e1 e2 e3 e4 e5 e6 e7 e8] p256])
qed

lemma row_16_at:
  "row_ok (smul (256 ^ 16) ed_B) row_16"
  "pt_ab (smul (256 ^ 17) ed_B) (hx 68671726360146701747189189718435774669074797457223994159888364167618309255259) (hx 72695989597879675422560240752829101301976884892560082447386788594269726189705)"
  using row_16_ok [of "smul (256 ^ 16) ed_B"] row_15_at(2) by (simp_all add: smul_smul [symmetric])

section \<open>Row 17\<close>

definition row_17 :: "(int \<times> int \<times> int) list" where
  "row_17 =
    [(68671726360146701747189189718435774669074797457223994159888364167618309255259,
      72695989597879675422560240752829101301976884892560082447386788594269726189705,
      51622518620151747173210018113341496704968389474850906273730158550846718033514),
     (71982540114602789433773369691598089539901124091123794993662228380028273109430,
      43364229761334447554611623777519839207882870078247168396951728827878745810579,
      58225476137725071037837977795712278779337708001006396861616827548823748674967),
     (51636974436631039814879923458118776242018549479689664058240925940036997266214,
      59324059030722367938420181829927775466380215014386713380347348816779494789315,
      60555435233972182622589329082129256557818181063641498486829075669774033008934),
     (54643540239291800707379868991755664837711337911073292807358298590720824198480,
      84017198653093928794477379469510607834123185645914805199325614134430667655495,
      58085663397804179076083979497025677505751332026888719590718390983900447415637),
     (56940023937806146681054390487514166414590862845312224011617928491041620363309,
      34983373571539771314380931669861149081390248198685830043275961823644085483548,
      48472680947372479360615849788833640795315036817203558722250314377888910368459),
     (31817511570104381755844765891667953504494002826982102436417080948704408688650,
      43353049911207509238086053162615712068422769787734375745409126080845978148503,
      60474179325308450083423706332494427207408284883702853301060595322942049510086),
     (80269810395572133071717697564001965144840065506142869671667093829007118270850,
      84733282643216776782917235352478975806819571628271190110242307124353211148522,
      36072790460307752326002300129805223955998717096029913656506326020479442080898),
     (74210121813259212306147235276755009337447098705518104952418241148136129479930,
      66160304795625078766026491347581676622904420841050943691975788248340512059244,
      86628639872939689344665939112368004911954673272226596449237783677853170430881)]"

lemma row_17_values: "map entry_values base_17 = row_17" "list_all entry_tight base_17"
  by (simp_all only: base_17_def row_17_def table_eval)

lemma row_17_ok:
  assumes "pt_ab (smul 1 P) (hx 68671726360146701747189189718435774669074797457223994159888364167618309255259) (hx 72695989597879675422560240752829101301976884892560082447386788594269726189705)"
  shows "row_ok P row_17 \<and> pt_ab (smul 256 P) (hx 75517686446473897815698315903574829044095108225922211603891307521710164839680) (hx 36316930355158784065118465192872197832316813601736090157251786731574891515358)"
proof -
  note p1 = assms
  have e1: "entry_ok (smul 1 P) (68671726360146701747189189718435774669074797457223994159888364167618309255259, 72695989597879675422560240752829101301976884892560082447386788594269726189705, 51622518620151747173210018113341496704968389474850906273730158550846718033514)"
    by (rule entry_okI [OF p1]) (simp only: step_eval)
  have p2: "pt_ab (smul 2 P) (hx 71982540114602789433773369691598089539901124091123794993662228380028273109430) (hx 43364229761334447554611623777519839207882870078247168396951728827878745810579)"
    by (rule dbl_step_smul [OF p1]) (simp only: step_eval, simp)
  have e2: "entry_ok (smul 2 P) (71982540114602789433773369691598089539901124091123794993662228380028273109430, 43364229761334447554611623777519839207882870078247168396951728827878745810579, 58225476137725071037837977795712278779337708001006396861616827548823748674967)"
    by (rule entry_okI [OF p2]) (simp only: step_eval)
  have p3: "pt_ab (smul 3 P) (hx 51636974436631039814879923458118776242018549479689664058240925940036997266214) (hx 59324059030722367938420181829927775466380215014386713380347348816779494789315)"
    by (rule add_step_smul [OF p2 e1]) (simp only: step_eval, simp)
  have e3: "entry_ok (smul 3 P) (51636974436631039814879923458118776242018549479689664058240925940036997266214, 59324059030722367938420181829927775466380215014386713380347348816779494789315, 60555435233972182622589329082129256557818181063641498486829075669774033008934)"
    by (rule entry_okI [OF p3]) (simp only: step_eval)
  have p4: "pt_ab (smul 4 P) (hx 54643540239291800707379868991755664837711337911073292807358298590720824198480) (hx 84017198653093928794477379469510607834123185645914805199325614134430667655495)"
    by (rule dbl_step_smul [OF p2]) (simp only: step_eval, simp)
  have e4: "entry_ok (smul 4 P) (54643540239291800707379868991755664837711337911073292807358298590720824198480, 84017198653093928794477379469510607834123185645914805199325614134430667655495, 58085663397804179076083979497025677505751332026888719590718390983900447415637)"
    by (rule entry_okI [OF p4]) (simp only: step_eval)
  have p5: "pt_ab (smul 5 P) (hx 56940023937806146681054390487514166414590862845312224011617928491041620363309) (hx 34983373571539771314380931669861149081390248198685830043275961823644085483548)"
    by (rule add_step_smul [OF p4 e1]) (simp only: step_eval, simp)
  have e5: "entry_ok (smul 5 P) (56940023937806146681054390487514166414590862845312224011617928491041620363309, 34983373571539771314380931669861149081390248198685830043275961823644085483548, 48472680947372479360615849788833640795315036817203558722250314377888910368459)"
    by (rule entry_okI [OF p5]) (simp only: step_eval)
  have p6: "pt_ab (smul 6 P) (hx 31817511570104381755844765891667953504494002826982102436417080948704408688650) (hx 43353049911207509238086053162615712068422769787734375745409126080845978148503)"
    by (rule dbl_step_smul [OF p3]) (simp only: step_eval, simp)
  have e6: "entry_ok (smul 6 P) (31817511570104381755844765891667953504494002826982102436417080948704408688650, 43353049911207509238086053162615712068422769787734375745409126080845978148503, 60474179325308450083423706332494427207408284883702853301060595322942049510086)"
    by (rule entry_okI [OF p6]) (simp only: step_eval)
  have p7: "pt_ab (smul 7 P) (hx 80269810395572133071717697564001965144840065506142869671667093829007118270850) (hx 84733282643216776782917235352478975806819571628271190110242307124353211148522)"
    by (rule add_step_smul [OF p6 e1]) (simp only: step_eval, simp)
  have e7: "entry_ok (smul 7 P) (80269810395572133071717697564001965144840065506142869671667093829007118270850, 84733282643216776782917235352478975806819571628271190110242307124353211148522, 36072790460307752326002300129805223955998717096029913656506326020479442080898)"
    by (rule entry_okI [OF p7]) (simp only: step_eval)
  have p8: "pt_ab (smul 8 P) (hx 74210121813259212306147235276755009337447098705518104952418241148136129479930) (hx 66160304795625078766026491347581676622904420841050943691975788248340512059244)"
    by (rule dbl_step_smul [OF p4]) (simp only: step_eval, simp)
  have e8: "entry_ok (smul 8 P) (74210121813259212306147235276755009337447098705518104952418241148136129479930, 66160304795625078766026491347581676622904420841050943691975788248340512059244, 86628639872939689344665939112368004911954673272226596449237783677853170430881)"
    by (rule entry_okI [OF p8]) (simp only: step_eval)
  have p16: "pt_ab (smul 16 P) (hx 113885991075033703877225381977058548529886466362441457577581750443993996229600) (hx 62748200453533878747663307070044654903162232409750509093800966233080039046097)"
    by (rule dbl_step_smul [OF p8]) (simp only: step_eval, simp)
  have p32: "pt_ab (smul 32 P) (hx 73805854507663965079309913721365349537733066052417793214094608543415110772706) (hx 110415793064228259636461575693727284017793965814431917494805080373700353099217)"
    by (rule dbl_step_smul [OF p16]) (simp only: step_eval, simp)
  have p64: "pt_ab (smul 64 P) (hx 63955571807524640369802092247676300609798639782571494263027137286540714238361) (hx 62184264891822466851455183580975583669568801766790547196684985678508089218785)"
    by (rule dbl_step_smul [OF p32]) (simp only: step_eval, simp)
  have p128: "pt_ab (smul 128 P) (hx 91386626778794450009991452511520739177400545517108606545832186341381397407659) (hx 106039645055727505522715117475503767517445264147345868779243993519036902382362)"
    by (rule dbl_step_smul [OF p64]) (simp only: step_eval, simp)
  have p256: "pt_ab (smul 256 P) (hx 75517686446473897815698315903574829044095108225922211603891307521710164839680) (hx 36316930355158784065118465192872197832316813601736090157251786731574891515358)"
    by (rule dbl_step_smul [OF p128]) (simp only: step_eval, simp)
  show ?thesis
    unfolding row_17_def by (rule conjI [OF row_okI [OF e1 e2 e3 e4 e5 e6 e7 e8] p256])
qed

lemma row_17_at:
  "row_ok (smul (256 ^ 17) ed_B) row_17"
  "pt_ab (smul (256 ^ 18) ed_B) (hx 75517686446473897815698315903574829044095108225922211603891307521710164839680) (hx 36316930355158784065118465192872197832316813601736090157251786731574891515358)"
  using row_17_ok [of "smul (256 ^ 17) ed_B"] row_16_at(2) by (simp_all add: smul_smul [symmetric])

section \<open>Row 18\<close>

definition row_18 :: "(int \<times> int \<times> int) list" where
  "row_18 =
    [(75517686446473897815698315903574829044095108225922211603891307521710164839680,
      36316930355158784065118465192872197832316813601736090157251786731574891515358,
      29063890488166339086225619435816982634387574898318310237213124376146794246065),
     (66421421687149077610234508229851936731293817417004008451662992151381101292234,
      66999957740347829557818254850878314526878831401126356550318880364399178796163,
      70249081431620593915534950745294495772866530652361828306247274400548482668860),
     (43396537265463896345601537369929413680346842101592965372770353422361960146609,
      74001457211745552269102495336645835841171406298949912771731729310052638853438,
      58822441293937207612603909183367772381733460772468985850614219989158688821333),
     (31289081145325177665125145259138199340073876592894473723826986223032487562377,
      59102444162519774095642945165470818970237317474243667287218496975168209476521,
      34820121145040469786555372294105914336404776683208038497550224771196732864479),
     (41212237394235837943003792631322263753125238742948497230106137442419835793170,
      67261011598409041087486975669259971976595747433676435432122344208393544889835,
      79425014481848797429221087497712715662558563163329459635972220195673742155539),
     (71239956329041169362171595755663895413362180493515956082687940780166009366254,
      84319037410854736349277147059337037818691474790112784175323457558900271717955,
      76687435670196438478738006499431875637640246911903472001420899752717006699591),
     (48691041226693943763188068759595903973575067366328048197681173350311052535262,
      81742573831877280419856098621592446973314210981273064198621912380408600136863,
      51489759902423377004771156771392168733093212917385619860515775336805359498037),
     (70651287167293846632597180376088804416733792418476192677934779758715468209890,
      52846306630498159024992125725669005346338337905807305595461816865935549063040,
      33887769679449071304122000731747932895922067066338617528858276279596896340609)]"

lemma row_18_values: "map entry_values base_18 = row_18" "list_all entry_tight base_18"
  by (simp_all only: base_18_def row_18_def table_eval)

lemma row_18_ok:
  assumes "pt_ab (smul 1 P) (hx 75517686446473897815698315903574829044095108225922211603891307521710164839680) (hx 36316930355158784065118465192872197832316813601736090157251786731574891515358)"
  shows "row_ok P row_18 \<and> pt_ab (smul 256 P) (hx 68404987771234977125031065589797478837086834364075390700566581729592171869693) (hx 42307125179916894122386605598050472809897112684365215316308456253873185423817)"
proof -
  note p1 = assms
  have e1: "entry_ok (smul 1 P) (75517686446473897815698315903574829044095108225922211603891307521710164839680, 36316930355158784065118465192872197832316813601736090157251786731574891515358, 29063890488166339086225619435816982634387574898318310237213124376146794246065)"
    by (rule entry_okI [OF p1]) (simp only: step_eval)
  have p2: "pt_ab (smul 2 P) (hx 66421421687149077610234508229851936731293817417004008451662992151381101292234) (hx 66999957740347829557818254850878314526878831401126356550318880364399178796163)"
    by (rule dbl_step_smul [OF p1]) (simp only: step_eval, simp)
  have e2: "entry_ok (smul 2 P) (66421421687149077610234508229851936731293817417004008451662992151381101292234, 66999957740347829557818254850878314526878831401126356550318880364399178796163, 70249081431620593915534950745294495772866530652361828306247274400548482668860)"
    by (rule entry_okI [OF p2]) (simp only: step_eval)
  have p3: "pt_ab (smul 3 P) (hx 43396537265463896345601537369929413680346842101592965372770353422361960146609) (hx 74001457211745552269102495336645835841171406298949912771731729310052638853438)"
    by (rule add_step_smul [OF p2 e1]) (simp only: step_eval, simp)
  have e3: "entry_ok (smul 3 P) (43396537265463896345601537369929413680346842101592965372770353422361960146609, 74001457211745552269102495336645835841171406298949912771731729310052638853438, 58822441293937207612603909183367772381733460772468985850614219989158688821333)"
    by (rule entry_okI [OF p3]) (simp only: step_eval)
  have p4: "pt_ab (smul 4 P) (hx 31289081145325177665125145259138199340073876592894473723826986223032487562377) (hx 59102444162519774095642945165470818970237317474243667287218496975168209476521)"
    by (rule dbl_step_smul [OF p2]) (simp only: step_eval, simp)
  have e4: "entry_ok (smul 4 P) (31289081145325177665125145259138199340073876592894473723826986223032487562377, 59102444162519774095642945165470818970237317474243667287218496975168209476521, 34820121145040469786555372294105914336404776683208038497550224771196732864479)"
    by (rule entry_okI [OF p4]) (simp only: step_eval)
  have p5: "pt_ab (smul 5 P) (hx 41212237394235837943003792631322263753125238742948497230106137442419835793170) (hx 67261011598409041087486975669259971976595747433676435432122344208393544889835)"
    by (rule add_step_smul [OF p4 e1]) (simp only: step_eval, simp)
  have e5: "entry_ok (smul 5 P) (41212237394235837943003792631322263753125238742948497230106137442419835793170, 67261011598409041087486975669259971976595747433676435432122344208393544889835, 79425014481848797429221087497712715662558563163329459635972220195673742155539)"
    by (rule entry_okI [OF p5]) (simp only: step_eval)
  have p6: "pt_ab (smul 6 P) (hx 71239956329041169362171595755663895413362180493515956082687940780166009366254) (hx 84319037410854736349277147059337037818691474790112784175323457558900271717955)"
    by (rule dbl_step_smul [OF p3]) (simp only: step_eval, simp)
  have e6: "entry_ok (smul 6 P) (71239956329041169362171595755663895413362180493515956082687940780166009366254, 84319037410854736349277147059337037818691474790112784175323457558900271717955, 76687435670196438478738006499431875637640246911903472001420899752717006699591)"
    by (rule entry_okI [OF p6]) (simp only: step_eval)
  have p7: "pt_ab (smul 7 P) (hx 48691041226693943763188068759595903973575067366328048197681173350311052535262) (hx 81742573831877280419856098621592446973314210981273064198621912380408600136863)"
    by (rule add_step_smul [OF p6 e1]) (simp only: step_eval, simp)
  have e7: "entry_ok (smul 7 P) (48691041226693943763188068759595903973575067366328048197681173350311052535262, 81742573831877280419856098621592446973314210981273064198621912380408600136863, 51489759902423377004771156771392168733093212917385619860515775336805359498037)"
    by (rule entry_okI [OF p7]) (simp only: step_eval)
  have p8: "pt_ab (smul 8 P) (hx 70651287167293846632597180376088804416733792418476192677934779758715468209890) (hx 52846306630498159024992125725669005346338337905807305595461816865935549063040)"
    by (rule dbl_step_smul [OF p4]) (simp only: step_eval, simp)
  have e8: "entry_ok (smul 8 P) (70651287167293846632597180376088804416733792418476192677934779758715468209890, 52846306630498159024992125725669005346338337905807305595461816865935549063040, 33887769679449071304122000731747932895922067066338617528858276279596896340609)"
    by (rule entry_okI [OF p8]) (simp only: step_eval)
  have p16: "pt_ab (smul 16 P) (hx 75175710395537083220846995791746786057727292259880605104465594283858970911794) (hx 61202304816642110622336344622066554382343035744503912094344846473938513042020)"
    by (rule dbl_step_smul [OF p8]) (simp only: step_eval, simp)
  have p32: "pt_ab (smul 32 P) (hx 59499296808351611912688329392977930210655417584714799638482182584352710879620) (hx 83307109155816699566999463203964865197468325966834364520700810184235303959355)"
    by (rule dbl_step_smul [OF p16]) (simp only: step_eval, simp)
  have p64: "pt_ab (smul 64 P) (hx 78496548986163581914842954405505738398701234099761490799100781670615999313467) (hx 64994350111521998217792377063651875650852371922423564713674027629902959619702)"
    by (rule dbl_step_smul [OF p32]) (simp only: step_eval, simp)
  have p128: "pt_ab (smul 128 P) (hx 98838052217049704236974664046894510112707583868578245635153223470675070919976) (hx 62186238538657925079394864060758394517004848798666088431221399871406377906480)"
    by (rule dbl_step_smul [OF p64]) (simp only: step_eval, simp)
  have p256: "pt_ab (smul 256 P) (hx 68404987771234977125031065589797478837086834364075390700566581729592171869693) (hx 42307125179916894122386605598050472809897112684365215316308456253873185423817)"
    by (rule dbl_step_smul [OF p128]) (simp only: step_eval, simp)
  show ?thesis
    unfolding row_18_def by (rule conjI [OF row_okI [OF e1 e2 e3 e4 e5 e6 e7 e8] p256])
qed

lemma row_18_at:
  "row_ok (smul (256 ^ 18) ed_B) row_18"
  "pt_ab (smul (256 ^ 19) ed_B) (hx 68404987771234977125031065589797478837086834364075390700566581729592171869693) (hx 42307125179916894122386605598050472809897112684365215316308456253873185423817)"
  using row_18_ok [of "smul (256 ^ 18) ed_B"] row_17_at(2) by (simp_all add: smul_smul [symmetric])

section \<open>Row 19\<close>

definition row_19 :: "(int \<times> int \<times> int) list" where
  "row_19 =
    [(68404987771234977125031065589797478837086834364075390700566581729592171869693,
      42307125179916894122386605598050472809897112684365215316308456253873185423817,
      61008877688678446406460125391956767335775455247173806185400126226546787119820),
     (57546941200806471932675080502384031751366624396347462781894051271145705636691,
      79833881775567567637512955437762592188489666216732494807901288875061274898192,
      79976318076339651232148311150765715782023080718582501224413467728048123903992),
     (31699060218087752520170872798913339890005755134531897327085847947037879322448,
      62677271678231322996390189993507147469506361301427334751571002524093100733344,
      84939496609031203702477781881103356818943016284904066595470637465235879469083),
     (35578474906548604629322190492535986744927873230022271446289473297853740483007,
      38987018648555448538318895726012621102036612715964140705152860371629754901156,
      74543341081659193216544380891252144115718706851697958815608057541509723640303),
     (38264887459368654626694753427724812160935054603868494144716846769297400466309,
      29776478676831618080099704554352984161634370130915696730083799447424658227462,
      33067252800873868663304958355534823714930634271860246709319697323427256736302),
     (34811695555814935709307177925886867804814702667583826475219434717949432849569,
      61944283370631198406328533054247203270358482884146050795567090755463251899028,
      37565449703027449360245063872371237293824956496362421713059464249556871050173),
     (64093977618612678243824647549574651711090153343181645519715053197250799517579,
      46097849124561901146394333879622176990329029736566790489581746741422151256101,
      59092062724152920118911740739427375733693779103956189224515961612332643738448),
     (82690508785917491519754557712214090000596619592801818007526489104379831875916,
      85522881614014404615323092386578776569126393759334693976481445360151331911823,
      79135475600730373223932701472691024584612417662603451889326876397919121261892)]"

lemma row_19_values: "map entry_values base_19 = row_19" "list_all entry_tight base_19"
  by (simp_all only: base_19_def row_19_def table_eval)

lemma row_19_ok:
  assumes "pt_ab (smul 1 P) (hx 68404987771234977125031065589797478837086834364075390700566581729592171869693) (hx 42307125179916894122386605598050472809897112684365215316308456253873185423817)"
  shows "row_ok P row_19 \<and> pt_ab (smul 256 P) (hx 39617146015435595580198969827343948245008874692757989136124361602289538641745) (hx 79203288341037024837334797867214742431034151271436526392958473560248928480969)"
proof -
  note p1 = assms
  have e1: "entry_ok (smul 1 P) (68404987771234977125031065589797478837086834364075390700566581729592171869693, 42307125179916894122386605598050472809897112684365215316308456253873185423817, 61008877688678446406460125391956767335775455247173806185400126226546787119820)"
    by (rule entry_okI [OF p1]) (simp only: step_eval)
  have p2: "pt_ab (smul 2 P) (hx 57546941200806471932675080502384031751366624396347462781894051271145705636691) (hx 79833881775567567637512955437762592188489666216732494807901288875061274898192)"
    by (rule dbl_step_smul [OF p1]) (simp only: step_eval, simp)
  have e2: "entry_ok (smul 2 P) (57546941200806471932675080502384031751366624396347462781894051271145705636691, 79833881775567567637512955437762592188489666216732494807901288875061274898192, 79976318076339651232148311150765715782023080718582501224413467728048123903992)"
    by (rule entry_okI [OF p2]) (simp only: step_eval)
  have p3: "pt_ab (smul 3 P) (hx 31699060218087752520170872798913339890005755134531897327085847947037879322448) (hx 62677271678231322996390189993507147469506361301427334751571002524093100733344)"
    by (rule add_step_smul [OF p2 e1]) (simp only: step_eval, simp)
  have e3: "entry_ok (smul 3 P) (31699060218087752520170872798913339890005755134531897327085847947037879322448, 62677271678231322996390189993507147469506361301427334751571002524093100733344, 84939496609031203702477781881103356818943016284904066595470637465235879469083)"
    by (rule entry_okI [OF p3]) (simp only: step_eval)
  have p4: "pt_ab (smul 4 P) (hx 35578474906548604629322190492535986744927873230022271446289473297853740483007) (hx 38987018648555448538318895726012621102036612715964140705152860371629754901156)"
    by (rule dbl_step_smul [OF p2]) (simp only: step_eval, simp)
  have e4: "entry_ok (smul 4 P) (35578474906548604629322190492535986744927873230022271446289473297853740483007, 38987018648555448538318895726012621102036612715964140705152860371629754901156, 74543341081659193216544380891252144115718706851697958815608057541509723640303)"
    by (rule entry_okI [OF p4]) (simp only: step_eval)
  have p5: "pt_ab (smul 5 P) (hx 38264887459368654626694753427724812160935054603868494144716846769297400466309) (hx 29776478676831618080099704554352984161634370130915696730083799447424658227462)"
    by (rule add_step_smul [OF p4 e1]) (simp only: step_eval, simp)
  have e5: "entry_ok (smul 5 P) (38264887459368654626694753427724812160935054603868494144716846769297400466309, 29776478676831618080099704554352984161634370130915696730083799447424658227462, 33067252800873868663304958355534823714930634271860246709319697323427256736302)"
    by (rule entry_okI [OF p5]) (simp only: step_eval)
  have p6: "pt_ab (smul 6 P) (hx 34811695555814935709307177925886867804814702667583826475219434717949432849569) (hx 61944283370631198406328533054247203270358482884146050795567090755463251899028)"
    by (rule dbl_step_smul [OF p3]) (simp only: step_eval, simp)
  have e6: "entry_ok (smul 6 P) (34811695555814935709307177925886867804814702667583826475219434717949432849569, 61944283370631198406328533054247203270358482884146050795567090755463251899028, 37565449703027449360245063872371237293824956496362421713059464249556871050173)"
    by (rule entry_okI [OF p6]) (simp only: step_eval)
  have p7: "pt_ab (smul 7 P) (hx 64093977618612678243824647549574651711090153343181645519715053197250799517579) (hx 46097849124561901146394333879622176990329029736566790489581746741422151256101)"
    by (rule add_step_smul [OF p6 e1]) (simp only: step_eval, simp)
  have e7: "entry_ok (smul 7 P) (64093977618612678243824647549574651711090153343181645519715053197250799517579, 46097849124561901146394333879622176990329029736566790489581746741422151256101, 59092062724152920118911740739427375733693779103956189224515961612332643738448)"
    by (rule entry_okI [OF p7]) (simp only: step_eval)
  have p8: "pt_ab (smul 8 P) (hx 82690508785917491519754557712214090000596619592801818007526489104379831875916) (hx 85522881614014404615323092386578776569126393759334693976481445360151331911823)"
    by (rule dbl_step_smul [OF p4]) (simp only: step_eval, simp)
  have e8: "entry_ok (smul 8 P) (82690508785917491519754557712214090000596619592801818007526489104379831875916, 85522881614014404615323092386578776569126393759334693976481445360151331911823, 79135475600730373223932701472691024584612417662603451889326876397919121261892)"
    by (rule entry_okI [OF p8]) (simp only: step_eval)
  have p16: "pt_ab (smul 16 P) (hx 76285013552328828134824025184006420121362033426865147702176422169515693810134) (hx 89263014150174042086465520842092378632103276870931219439736271323893887536439)"
    by (rule dbl_step_smul [OF p8]) (simp only: step_eval, simp)
  have p32: "pt_ab (smul 32 P) (hx 79823025668374210708763370313971411566246282024265377356894117465703617507594) (hx 64897174857559279049191972844412186775382659667298881886594930010489777778165)"
    by (rule dbl_step_smul [OF p16]) (simp only: step_eval, simp)
  have p64: "pt_ab (smul 64 P) (hx 97824376032661291177359597046149259839196562230831097497301898253396461503420) (hx 64824239046729161117479418975163037913559588464491605669703421719229899075190)"
    by (rule dbl_step_smul [OF p32]) (simp only: step_eval, simp)
  have p128: "pt_ab (smul 128 P) (hx 59900052117870666611426339529316211148911511248634934325088122121810046732511) (hx 71656744432037915713407441203784949285089624452380455309183972033774424225657)"
    by (rule dbl_step_smul [OF p64]) (simp only: step_eval, simp)
  have p256: "pt_ab (smul 256 P) (hx 39617146015435595580198969827343948245008874692757989136124361602289538641745) (hx 79203288341037024837334797867214742431034151271436526392958473560248928480969)"
    by (rule dbl_step_smul [OF p128]) (simp only: step_eval, simp)
  show ?thesis
    unfolding row_19_def by (rule conjI [OF row_okI [OF e1 e2 e3 e4 e5 e6 e7 e8] p256])
qed

lemma row_19_at:
  "row_ok (smul (256 ^ 19) ed_B) row_19"
  "pt_ab (smul (256 ^ 20) ed_B) (hx 39617146015435595580198969827343948245008874692757989136124361602289538641745) (hx 79203288341037024837334797867214742431034151271436526392958473560248928480969)"
  using row_19_ok [of "smul (256 ^ 19) ed_B"] row_18_at(2) by (simp_all add: smul_smul [symmetric])

section \<open>Row 20\<close>

definition row_20 :: "(int \<times> int \<times> int) list" where
  "row_20 =
    [(39617146015435595580198969827343948245008874692757989136124361602289538641745,
      79203288341037024837334797867214742431034151271436526392958473560248928480969,
      56885837457941781562472970038992446743422097347317904955514079018245209252097),
     (59846147648053156503160393961792116483108152624106204590422733385726638855941,
      57428051607873191063471402594153952479320937548407046052682166911936461920707,
      57658419206863557613075436535890848220861111884760370824405969118734898947033),
     (45531098528899205443642466263486352481549181295267350942582034337949275228090,
      62557011003873176862265200983499600329955843220671160177970559054507173811157,
      61109035592022305267498817511001843856858039724480289418225775250861077637382),
     (56273616363811169895530662344694145491338023097971425937846804075699274597425,
      77903464943340788030599533364135833753240712641833337409361668539735653988856,
      50366808401555536113478294266225348686978827198878052918429968543898518694239),
     (59103839901849350678518801657731638825978496459247090168947994642605879674027,
      33156884166496720311355433673744586679809960696141234061471367121633466762949,
      48562611479044161426853652725159758626243728420323964218969603293670881430938),
     (68291334940918412866296112828743270087790789632238421937602144485698541462799,
      62820606023428785066939437056253845857673462521421983830412681220900524972417,
      86621247809719666765249775399110719804039297227635475009624958067138031389007),
     (62793543326477535709511027814277007174912058624175378033338422286949872551953,
      36328251228895320529203832833227659357404617275198982911738604683707972956158,
      66256913638673125137183496065446833063909459659058025166306506240952107934858),
     (35662292902561940479793662881921429256192976036385991077250516415610990213492,
      82008154668546900270639186218743627168182234989217969478874452297159206795663,
      79687582785675410001139415245490669267088003678689718355613763418021731621218)]"

lemma row_20_values: "map entry_values base_20 = row_20" "list_all entry_tight base_20"
  by (simp_all only: base_20_def row_20_def table_eval)

lemma row_20_ok:
  assumes "pt_ab (smul 1 P) (hx 39617146015435595580198969827343948245008874692757989136124361602289538641745) (hx 79203288341037024837334797867214742431034151271436526392958473560248928480969)"
  shows "row_ok P row_20 \<and> pt_ab (smul 256 P) (hx 64617789072185183158897427018802555689739948004223872670612874192569243857252) (hx 65539119387675485830435613080304588210593710853948798122176315906429517309994)"
proof -
  note p1 = assms
  have e1: "entry_ok (smul 1 P) (39617146015435595580198969827343948245008874692757989136124361602289538641745, 79203288341037024837334797867214742431034151271436526392958473560248928480969, 56885837457941781562472970038992446743422097347317904955514079018245209252097)"
    by (rule entry_okI [OF p1]) (simp only: step_eval)
  have p2: "pt_ab (smul 2 P) (hx 59846147648053156503160393961792116483108152624106204590422733385726638855941) (hx 57428051607873191063471402594153952479320937548407046052682166911936461920707)"
    by (rule dbl_step_smul [OF p1]) (simp only: step_eval, simp)
  have e2: "entry_ok (smul 2 P) (59846147648053156503160393961792116483108152624106204590422733385726638855941, 57428051607873191063471402594153952479320937548407046052682166911936461920707, 57658419206863557613075436535890848220861111884760370824405969118734898947033)"
    by (rule entry_okI [OF p2]) (simp only: step_eval)
  have p3: "pt_ab (smul 3 P) (hx 45531098528899205443642466263486352481549181295267350942582034337949275228090) (hx 62557011003873176862265200983499600329955843220671160177970559054507173811157)"
    by (rule add_step_smul [OF p2 e1]) (simp only: step_eval, simp)
  have e3: "entry_ok (smul 3 P) (45531098528899205443642466263486352481549181295267350942582034337949275228090, 62557011003873176862265200983499600329955843220671160177970559054507173811157, 61109035592022305267498817511001843856858039724480289418225775250861077637382)"
    by (rule entry_okI [OF p3]) (simp only: step_eval)
  have p4: "pt_ab (smul 4 P) (hx 56273616363811169895530662344694145491338023097971425937846804075699274597425) (hx 77903464943340788030599533364135833753240712641833337409361668539735653988856)"
    by (rule dbl_step_smul [OF p2]) (simp only: step_eval, simp)
  have e4: "entry_ok (smul 4 P) (56273616363811169895530662344694145491338023097971425937846804075699274597425, 77903464943340788030599533364135833753240712641833337409361668539735653988856, 50366808401555536113478294266225348686978827198878052918429968543898518694239)"
    by (rule entry_okI [OF p4]) (simp only: step_eval)
  have p5: "pt_ab (smul 5 P) (hx 59103839901849350678518801657731638825978496459247090168947994642605879674027) (hx 33156884166496720311355433673744586679809960696141234061471367121633466762949)"
    by (rule add_step_smul [OF p4 e1]) (simp only: step_eval, simp)
  have e5: "entry_ok (smul 5 P) (59103839901849350678518801657731638825978496459247090168947994642605879674027, 33156884166496720311355433673744586679809960696141234061471367121633466762949, 48562611479044161426853652725159758626243728420323964218969603293670881430938)"
    by (rule entry_okI [OF p5]) (simp only: step_eval)
  have p6: "pt_ab (smul 6 P) (hx 68291334940918412866296112828743270087790789632238421937602144485698541462799) (hx 62820606023428785066939437056253845857673462521421983830412681220900524972417)"
    by (rule dbl_step_smul [OF p3]) (simp only: step_eval, simp)
  have e6: "entry_ok (smul 6 P) (68291334940918412866296112828743270087790789632238421937602144485698541462799, 62820606023428785066939437056253845857673462521421983830412681220900524972417, 86621247809719666765249775399110719804039297227635475009624958067138031389007)"
    by (rule entry_okI [OF p6]) (simp only: step_eval)
  have p7: "pt_ab (smul 7 P) (hx 62793543326477535709511027814277007174912058624175378033338422286949872551953) (hx 36328251228895320529203832833227659357404617275198982911738604683707972956158)"
    by (rule add_step_smul [OF p6 e1]) (simp only: step_eval, simp)
  have e7: "entry_ok (smul 7 P) (62793543326477535709511027814277007174912058624175378033338422286949872551953, 36328251228895320529203832833227659357404617275198982911738604683707972956158, 66256913638673125137183496065446833063909459659058025166306506240952107934858)"
    by (rule entry_okI [OF p7]) (simp only: step_eval)
  have p8: "pt_ab (smul 8 P) (hx 35662292902561940479793662881921429256192976036385991077250516415610990213492) (hx 82008154668546900270639186218743627168182234989217969478874452297159206795663)"
    by (rule dbl_step_smul [OF p4]) (simp only: step_eval, simp)
  have e8: "entry_ok (smul 8 P) (35662292902561940479793662881921429256192976036385991077250516415610990213492, 82008154668546900270639186218743627168182234989217969478874452297159206795663, 79687582785675410001139415245490669267088003678689718355613763418021731621218)"
    by (rule entry_okI [OF p8]) (simp only: step_eval)
  have p16: "pt_ab (smul 16 P) (hx 73565435505920094684326590077595653242998187324281275530659045778332604251165) (hx 64377486223092771963507643805580981076312040231497535371354225082979835640681)"
    by (rule dbl_step_smul [OF p8]) (simp only: step_eval, simp)
  have p32: "pt_ab (smul 32 P) (hx 60619013500048736688254712276786498541386522729923412979986127828018495899686) (hx 67313766217703849460298874721036633438689956964067225496478465746434473008671)"
    by (rule dbl_step_smul [OF p16]) (simp only: step_eval, simp)
  have p64: "pt_ab (smul 64 P) (hx 81323708083548875735852838948966510645578193046277758908206896773127188862340) (hx 102353609584836777726842635340895643292002186095831582249360086651422923037232)"
    by (rule dbl_step_smul [OF p32]) (simp only: step_eval, simp)
  have p128: "pt_ab (smul 128 P) (hx 81474329126828903471979065629656645820447632223579801932708492872142154830965) (hx 89558267976361437055861198735292503235930711880758468628318237526233981910046)"
    by (rule dbl_step_smul [OF p64]) (simp only: step_eval, simp)
  have p256: "pt_ab (smul 256 P) (hx 64617789072185183158897427018802555689739948004223872670612874192569243857252) (hx 65539119387675485830435613080304588210593710853948798122176315906429517309994)"
    by (rule dbl_step_smul [OF p128]) (simp only: step_eval, simp)
  show ?thesis
    unfolding row_20_def by (rule conjI [OF row_okI [OF e1 e2 e3 e4 e5 e6 e7 e8] p256])
qed

lemma row_20_at:
  "row_ok (smul (256 ^ 20) ed_B) row_20"
  "pt_ab (smul (256 ^ 21) ed_B) (hx 64617789072185183158897427018802555689739948004223872670612874192569243857252) (hx 65539119387675485830435613080304588210593710853948798122176315906429517309994)"
  using row_20_ok [of "smul (256 ^ 20) ed_B"] row_19_at(2) by (simp_all add: smul_smul [symmetric])

section \<open>Row 21\<close>

definition row_21 :: "(int \<times> int \<times> int) list" where
  "row_21 =
    [(64617789072185183158897427018802555689739948004223872670612874192569243857252,
      65539119387675485830435613080304588210593710853948798122176315906429517309994,
      31528366601965305289940644562921318141983152131817016527053354114582450966119),
     (41662329253638110486251795606091136297938735511114799762230848859569486029796,
      73033946062200791109797145747902545443680166059272050459028821100689450041230,
      33877699686697522655569814995013986429629494320631321959507634199066121460623),
     (53104981668191180202166371114071678206861426533639479543903853229868005981059,
      69657677091199692577201839502902442221376782565667567708229092901236039263003,
      66640458624315536670682975393210031102186857134532124991302924888187653452447),
     (40458879235011389872363152144400252764568659003341204771110023210842486375422,
      55050924630306276017148052356245173643488584497842180783889711223240872023320,
      35956418472906420762665207596966237239305212222240936591027805564304838588433),
     (69322125656278745497544637248856238279095935911501338195629399144273007516139,
      80330107956631104489139249163753444491044450243478813467518285469168659673115,
      76911551135538599150921396366502372255044318873841539800858250011053771671935),
     (60323275669503520675097356128748070713876458081475728932025217498642089015591,
      34811981322559136350694038015193209626691445300664122413676275512962180523970,
      66083948410654419639772741036257597370258403944431737394600276782891183987619),
     (37308254602377112564178086147768961703912722633046451374450519101286779225033,
      81076687633557769035531299545544595749045743612004722551210240253883981187716,
      48639578438992922634239205911494361817961086114213991466230647161304972478510),
     (59909939927227552931572226690791706997896267280777837239502563038567510563684,
      74059389423710817847124435165228946524047630695250225436071523943240763974138,
      65216890881595696308881363253825038734505911228269262563310231785259495103986)]"

lemma row_21_values: "map entry_values base_21 = row_21" "list_all entry_tight base_21"
  by (simp_all only: base_21_def row_21_def table_eval)

lemma row_21_ok:
  assumes "pt_ab (smul 1 P) (hx 64617789072185183158897427018802555689739948004223872670612874192569243857252) (hx 65539119387675485830435613080304588210593710853948798122176315906429517309994)"
  shows "row_ok P row_21 \<and> pt_ab (smul 256 P) (hx 86582291611308179884196251392657800193714331766293677300706948310578546941063) (hx 82479051571412059243917921378208220101588416638924225980555216499044943087027)"
proof -
  note p1 = assms
  have e1: "entry_ok (smul 1 P) (64617789072185183158897427018802555689739948004223872670612874192569243857252, 65539119387675485830435613080304588210593710853948798122176315906429517309994, 31528366601965305289940644562921318141983152131817016527053354114582450966119)"
    by (rule entry_okI [OF p1]) (simp only: step_eval)
  have p2: "pt_ab (smul 2 P) (hx 41662329253638110486251795606091136297938735511114799762230848859569486029796) (hx 73033946062200791109797145747902545443680166059272050459028821100689450041230)"
    by (rule dbl_step_smul [OF p1]) (simp only: step_eval, simp)
  have e2: "entry_ok (smul 2 P) (41662329253638110486251795606091136297938735511114799762230848859569486029796, 73033946062200791109797145747902545443680166059272050459028821100689450041230, 33877699686697522655569814995013986429629494320631321959507634199066121460623)"
    by (rule entry_okI [OF p2]) (simp only: step_eval)
  have p3: "pt_ab (smul 3 P) (hx 53104981668191180202166371114071678206861426533639479543903853229868005981059) (hx 69657677091199692577201839502902442221376782565667567708229092901236039263003)"
    by (rule add_step_smul [OF p2 e1]) (simp only: step_eval, simp)
  have e3: "entry_ok (smul 3 P) (53104981668191180202166371114071678206861426533639479543903853229868005981059, 69657677091199692577201839502902442221376782565667567708229092901236039263003, 66640458624315536670682975393210031102186857134532124991302924888187653452447)"
    by (rule entry_okI [OF p3]) (simp only: step_eval)
  have p4: "pt_ab (smul 4 P) (hx 40458879235011389872363152144400252764568659003341204771110023210842486375422) (hx 55050924630306276017148052356245173643488584497842180783889711223240872023320)"
    by (rule dbl_step_smul [OF p2]) (simp only: step_eval, simp)
  have e4: "entry_ok (smul 4 P) (40458879235011389872363152144400252764568659003341204771110023210842486375422, 55050924630306276017148052356245173643488584497842180783889711223240872023320, 35956418472906420762665207596966237239305212222240936591027805564304838588433)"
    by (rule entry_okI [OF p4]) (simp only: step_eval)
  have p5: "pt_ab (smul 5 P) (hx 69322125656278745497544637248856238279095935911501338195629399144273007516139) (hx 80330107956631104489139249163753444491044450243478813467518285469168659673115)"
    by (rule add_step_smul [OF p4 e1]) (simp only: step_eval, simp)
  have e5: "entry_ok (smul 5 P) (69322125656278745497544637248856238279095935911501338195629399144273007516139, 80330107956631104489139249163753444491044450243478813467518285469168659673115, 76911551135538599150921396366502372255044318873841539800858250011053771671935)"
    by (rule entry_okI [OF p5]) (simp only: step_eval)
  have p6: "pt_ab (smul 6 P) (hx 60323275669503520675097356128748070713876458081475728932025217498642089015591) (hx 34811981322559136350694038015193209626691445300664122413676275512962180523970)"
    by (rule dbl_step_smul [OF p3]) (simp only: step_eval, simp)
  have e6: "entry_ok (smul 6 P) (60323275669503520675097356128748070713876458081475728932025217498642089015591, 34811981322559136350694038015193209626691445300664122413676275512962180523970, 66083948410654419639772741036257597370258403944431737394600276782891183987619)"
    by (rule entry_okI [OF p6]) (simp only: step_eval)
  have p7: "pt_ab (smul 7 P) (hx 37308254602377112564178086147768961703912722633046451374450519101286779225033) (hx 81076687633557769035531299545544595749045743612004722551210240253883981187716)"
    by (rule add_step_smul [OF p6 e1]) (simp only: step_eval, simp)
  have e7: "entry_ok (smul 7 P) (37308254602377112564178086147768961703912722633046451374450519101286779225033, 81076687633557769035531299545544595749045743612004722551210240253883981187716, 48639578438992922634239205911494361817961086114213991466230647161304972478510)"
    by (rule entry_okI [OF p7]) (simp only: step_eval)
  have p8: "pt_ab (smul 8 P) (hx 59909939927227552931572226690791706997896267280777837239502563038567510563684) (hx 74059389423710817847124435165228946524047630695250225436071523943240763974138)"
    by (rule dbl_step_smul [OF p4]) (simp only: step_eval, simp)
  have e8: "entry_ok (smul 8 P) (59909939927227552931572226690791706997896267280777837239502563038567510563684, 74059389423710817847124435165228946524047630695250225436071523943240763974138, 65216890881595696308881363253825038734505911228269262563310231785259495103986)"
    by (rule entry_okI [OF p8]) (simp only: step_eval)
  have p16: "pt_ab (smul 16 P) (hx 97485697583361149022795648584282027356859205846491695058531296028556607578676) (hx 90988696504324115262868472535989879034988424704395765539841755507063066332459)"
    by (rule dbl_step_smul [OF p8]) (simp only: step_eval, simp)
  have p32: "pt_ab (smul 32 P) (hx 112458622386625600628739252601908308368241663030434076263682252926420920255601) (hx 62517698565502230454630431491571124553908706432803156136980457843995941386587)"
    by (rule dbl_step_smul [OF p16]) (simp only: step_eval, simp)
  have p64: "pt_ab (smul 64 P) (hx 76134217128424228284623864323718289786723613279137777128274606984299865642881) (hx 79539568774978012771296835499109486871778532295362707144205201938485720308112)"
    by (rule dbl_step_smul [OF p32]) (simp only: step_eval, simp)
  have p128: "pt_ab (smul 128 P) (hx 110376844192870116007889134255306361385758877009708449047174316862382316976638) (hx 72104327022812985735797603618354690451151605354126035120153741652777045546416)"
    by (rule dbl_step_smul [OF p64]) (simp only: step_eval, simp)
  have p256: "pt_ab (smul 256 P) (hx 86582291611308179884196251392657800193714331766293677300706948310578546941063) (hx 82479051571412059243917921378208220101588416638924225980555216499044943087027)"
    by (rule dbl_step_smul [OF p128]) (simp only: step_eval, simp)
  show ?thesis
    unfolding row_21_def by (rule conjI [OF row_okI [OF e1 e2 e3 e4 e5 e6 e7 e8] p256])
qed

lemma row_21_at:
  "row_ok (smul (256 ^ 21) ed_B) row_21"
  "pt_ab (smul (256 ^ 22) ed_B) (hx 86582291611308179884196251392657800193714331766293677300706948310578546941063) (hx 82479051571412059243917921378208220101588416638924225980555216499044943087027)"
  using row_21_ok [of "smul (256 ^ 21) ed_B"] row_20_at(2) by (simp_all add: smul_smul [symmetric])

section \<open>Row 22\<close>

definition row_22 :: "(int \<times> int \<times> int) list" where
  "row_22 =
    [(86582291611308179884196251392657800193714331766293677300706948310578546941063,
      82479051571412059243917921378208220101588416638924225980555216499044943087027,
      55858511759155171035186662451886192650949514401803143616501468276134835673260),
     (59590205243771188671376303328035649144956829067826423383442964294238562220680,
      29947488084473661556204448050406543093208355959794391860538451833559719897357,
      64449078096169249879538916942447844472553500416274700128536569761714412287458),
     (44019821848944042459916905979500354368580149563214873242043820579982777479417,
      46330335272491173234029485699633960677692613273760879819245806201540266722723,
      57464547890856002161613913096396805210605492840267624623634432174523788872461),
     (71116591602257885872641692982417123453020096847692632191520879137946722243469,
      63831862150169270885951295919310991436622440217641446138118485858843849134940,
      57897999663328031485573225236829167462557561887320836663536626447942601966025),
     (45163320849985125670456931538050017281882163598934981341553398497937944389468,
      84477468928249659349137945326017610481270891856929062946247507676259108154361,
      81407182897577823762109484197374310412778246764134332190380756042245941830427),
     (85379942879041533981827656381302603604842647211789913387678221490814586114005,
      68187847072490162475334495993000832151585436163888255698062488146382183210499,
      44833187017994075685716409543886176837492606910711490533363654731629378572593),
     (30360040225620604757866874465980393944844782759560419839227580863153179725288,
      38717613655784934236302176067969528980980795432353547254281655621424725294751,
      55642330237818598280585711671966521363396907038111516127466110228513581660953),
     (32935223137074263543818116770509457361243070799404742284314591937726895274694,
      40572964689025552976168500191908054079551996545536247614646104527160179338819,
      67909219462877872890955462441412099796670882670538968324755167970949193262686)]"

lemma row_22_values: "map entry_values base_22 = row_22" "list_all entry_tight base_22"
  by (simp_all only: base_22_def row_22_def table_eval)

lemma row_22_ok:
  assumes "pt_ab (smul 1 P) (hx 86582291611308179884196251392657800193714331766293677300706948310578546941063) (hx 82479051571412059243917921378208220101588416638924225980555216499044943087027)"
  shows "row_ok P row_22 \<and> pt_ab (smul 256 P) (hx 33537300424657346343497423652564013470230734691730347070927077985140983694912) (hx 78193362326267359204947485408476268870772635712148200220503527962848495304675)"
proof -
  note p1 = assms
  have e1: "entry_ok (smul 1 P) (86582291611308179884196251392657800193714331766293677300706948310578546941063, 82479051571412059243917921378208220101588416638924225980555216499044943087027, 55858511759155171035186662451886192650949514401803143616501468276134835673260)"
    by (rule entry_okI [OF p1]) (simp only: step_eval)
  have p2: "pt_ab (smul 2 P) (hx 59590205243771188671376303328035649144956829067826423383442964294238562220680) (hx 29947488084473661556204448050406543093208355959794391860538451833559719897357)"
    by (rule dbl_step_smul [OF p1]) (simp only: step_eval, simp)
  have e2: "entry_ok (smul 2 P) (59590205243771188671376303328035649144956829067826423383442964294238562220680, 29947488084473661556204448050406543093208355959794391860538451833559719897357, 64449078096169249879538916942447844472553500416274700128536569761714412287458)"
    by (rule entry_okI [OF p2]) (simp only: step_eval)
  have p3: "pt_ab (smul 3 P) (hx 44019821848944042459916905979500354368580149563214873242043820579982777479417) (hx 46330335272491173234029485699633960677692613273760879819245806201540266722723)"
    by (rule add_step_smul [OF p2 e1]) (simp only: step_eval, simp)
  have e3: "entry_ok (smul 3 P) (44019821848944042459916905979500354368580149563214873242043820579982777479417, 46330335272491173234029485699633960677692613273760879819245806201540266722723, 57464547890856002161613913096396805210605492840267624623634432174523788872461)"
    by (rule entry_okI [OF p3]) (simp only: step_eval)
  have p4: "pt_ab (smul 4 P) (hx 71116591602257885872641692982417123453020096847692632191520879137946722243469) (hx 63831862150169270885951295919310991436622440217641446138118485858843849134940)"
    by (rule dbl_step_smul [OF p2]) (simp only: step_eval, simp)
  have e4: "entry_ok (smul 4 P) (71116591602257885872641692982417123453020096847692632191520879137946722243469, 63831862150169270885951295919310991436622440217641446138118485858843849134940, 57897999663328031485573225236829167462557561887320836663536626447942601966025)"
    by (rule entry_okI [OF p4]) (simp only: step_eval)
  have p5: "pt_ab (smul 5 P) (hx 45163320849985125670456931538050017281882163598934981341553398497937944389468) (hx 84477468928249659349137945326017610481270891856929062946247507676259108154361)"
    by (rule add_step_smul [OF p4 e1]) (simp only: step_eval, simp)
  have e5: "entry_ok (smul 5 P) (45163320849985125670456931538050017281882163598934981341553398497937944389468, 84477468928249659349137945326017610481270891856929062946247507676259108154361, 81407182897577823762109484197374310412778246764134332190380756042245941830427)"
    by (rule entry_okI [OF p5]) (simp only: step_eval)
  have p6: "pt_ab (smul 6 P) (hx 85379942879041533981827656381302603604842647211789913387678221490814586114005) (hx 68187847072490162475334495993000832151585436163888255698062488146382183210499)"
    by (rule dbl_step_smul [OF p3]) (simp only: step_eval, simp)
  have e6: "entry_ok (smul 6 P) (85379942879041533981827656381302603604842647211789913387678221490814586114005, 68187847072490162475334495993000832151585436163888255698062488146382183210499, 44833187017994075685716409543886176837492606910711490533363654731629378572593)"
    by (rule entry_okI [OF p6]) (simp only: step_eval)
  have p7: "pt_ab (smul 7 P) (hx 30360040225620604757866874465980393944844782759560419839227580863153179725288) (hx 38717613655784934236302176067969528980980795432353547254281655621424725294751)"
    by (rule add_step_smul [OF p6 e1]) (simp only: step_eval, simp)
  have e7: "entry_ok (smul 7 P) (30360040225620604757866874465980393944844782759560419839227580863153179725288, 38717613655784934236302176067969528980980795432353547254281655621424725294751, 55642330237818598280585711671966521363396907038111516127466110228513581660953)"
    by (rule entry_okI [OF p7]) (simp only: step_eval)
  have p8: "pt_ab (smul 8 P) (hx 32935223137074263543818116770509457361243070799404742284314591937726895274694) (hx 40572964689025552976168500191908054079551996545536247614646104527160179338819)"
    by (rule dbl_step_smul [OF p4]) (simp only: step_eval, simp)
  have e8: "entry_ok (smul 8 P) (32935223137074263543818116770509457361243070799404742284314591937726895274694, 40572964689025552976168500191908054079551996545536247614646104527160179338819, 67909219462877872890955462441412099796670882670538968324755167970949193262686)"
    by (rule entry_okI [OF p8]) (simp only: step_eval)
  have p16: "pt_ab (smul 16 P) (hx 62058681222021996624587998521078630067937406678889779592520874199233995443115) (hx 87381753560485513998567868568745149062180577435096982018320769991398729857756)"
    by (rule dbl_step_smul [OF p8]) (simp only: step_eval, simp)
  have p32: "pt_ab (smul 32 P) (hx 58480829838184047882462481778865819615992432101948911316681979449597483345840) (hx 70614470477357461539363366589322207300762516459649841967125569364786288602042)"
    by (rule dbl_step_smul [OF p16]) (simp only: step_eval, simp)
  have p64: "pt_ab (smul 64 P) (hx 95778253565975724973285322695476400734468787362644655229985746535069605422995) (hx 71691123694057657220106893039873118553849511428767925567541891452903970884060)"
    by (rule dbl_step_smul [OF p32]) (simp only: step_eval, simp)
  have p128: "pt_ab (smul 128 P) (hx 71060859617293748950404953136122165945005589492051660740908523895757756787083) (hx 115629439672735253551321597303949571975642154087901910221520811403478992393688)"
    by (rule dbl_step_smul [OF p64]) (simp only: step_eval, simp)
  have p256: "pt_ab (smul 256 P) (hx 33537300424657346343497423652564013470230734691730347070927077985140983694912) (hx 78193362326267359204947485408476268870772635712148200220503527962848495304675)"
    by (rule dbl_step_smul [OF p128]) (simp only: step_eval, simp)
  show ?thesis
    unfolding row_22_def by (rule conjI [OF row_okI [OF e1 e2 e3 e4 e5 e6 e7 e8] p256])
qed

lemma row_22_at:
  "row_ok (smul (256 ^ 22) ed_B) row_22"
  "pt_ab (smul (256 ^ 23) ed_B) (hx 33537300424657346343497423652564013470230734691730347070927077985140983694912) (hx 78193362326267359204947485408476268870772635712148200220503527962848495304675)"
  using row_22_ok [of "smul (256 ^ 22) ed_B"] row_21_at(2) by (simp_all add: smul_smul [symmetric])

section \<open>Row 23\<close>

definition row_23 :: "(int \<times> int \<times> int) list" where
  "row_23 =
    [(33537300424657346343497423652564013470230734691730347070927077985140983694912,
      78193362326267359204947485408476268870772635712148200220503527962848495304675,
      39410472261615336299743179721829130701240338067283415880137602906932938993002),
     (59608489955689088869536026601358262832733176998564370058810662425820839074363,
      39603638549170698688492301341788508415363148355490438531984194300384281893806,
      86283392159715067454947223764821553014448204271491481820466767341143160720426),
     (64277830122101865331929606801555611412839955913620143770312575659770968723896,
      78627802598265848337537305275931014843333554894554784902810239368436880276390,
      52025313583540724832798345327181036305559642798567317494165088512254906501246),
     (39962784801563873441326809151610755355101276033672772352222160399133945815860,
      79725911020240997037978734630221718511923400445597042315653845614473681352923,
      53525137850540139796087645227339376160151111749935319116901387220348487108962),
     (76320646567098936754752403598540487227305876815364175746612090487574962294666,
      86507266255935886166439264562674141998807607394131756727687998035198826498221,
      71680621068021475989980506608725057848641811193359297085873976827649226665065),
     (32359287579726868380064899150465475052024018867236794017832527451254926901633,
      46064498920093964071880903261317636764717015399540532315738724789916366529521,
      68229410021684680846694117662643877389598183802165142564765542159384923263302),
     (72188148803260923279760936128029530006448756783132606459340966954050087945584,
      76427595939170646528655574365005538947069743380271774483057794349372088410626,
      31450208209894312051557338832913412698032699423359994755491733207238461421526),
     (56905756087445646261696198955362503937839188694500188427421064841379433967588,
      47294780869389467885625327381238031010851793283310081785600860046232347313110,
      46689654877469149747511236224341221486288066733110499146557079054758722351808)]"

lemma row_23_values: "map entry_values base_23 = row_23" "list_all entry_tight base_23"
  by (simp_all only: base_23_def row_23_def table_eval)

lemma row_23_ok:
  assumes "pt_ab (smul 1 P) (hx 33537300424657346343497423652564013470230734691730347070927077985140983694912) (hx 78193362326267359204947485408476268870772635712148200220503527962848495304675)"
  shows "row_ok P row_23 \<and> pt_ab (smul 256 P) (hx 56823078171648598085772663355782637872944992260609085364041939753739588737728) (hx 31692561975737213039201399039902336539078440809090397231934767569424405132710)"
proof -
  note p1 = assms
  have e1: "entry_ok (smul 1 P) (33537300424657346343497423652564013470230734691730347070927077985140983694912, 78193362326267359204947485408476268870772635712148200220503527962848495304675, 39410472261615336299743179721829130701240338067283415880137602906932938993002)"
    by (rule entry_okI [OF p1]) (simp only: step_eval)
  have p2: "pt_ab (smul 2 P) (hx 59608489955689088869536026601358262832733176998564370058810662425820839074363) (hx 39603638549170698688492301341788508415363148355490438531984194300384281893806)"
    by (rule dbl_step_smul [OF p1]) (simp only: step_eval, simp)
  have e2: "entry_ok (smul 2 P) (59608489955689088869536026601358262832733176998564370058810662425820839074363, 39603638549170698688492301341788508415363148355490438531984194300384281893806, 86283392159715067454947223764821553014448204271491481820466767341143160720426)"
    by (rule entry_okI [OF p2]) (simp only: step_eval)
  have p3: "pt_ab (smul 3 P) (hx 64277830122101865331929606801555611412839955913620143770312575659770968723896) (hx 78627802598265848337537305275931014843333554894554784902810239368436880276390)"
    by (rule add_step_smul [OF p2 e1]) (simp only: step_eval, simp)
  have e3: "entry_ok (smul 3 P) (64277830122101865331929606801555611412839955913620143770312575659770968723896, 78627802598265848337537305275931014843333554894554784902810239368436880276390, 52025313583540724832798345327181036305559642798567317494165088512254906501246)"
    by (rule entry_okI [OF p3]) (simp only: step_eval)
  have p4: "pt_ab (smul 4 P) (hx 39962784801563873441326809151610755355101276033672772352222160399133945815860) (hx 79725911020240997037978734630221718511923400445597042315653845614473681352923)"
    by (rule dbl_step_smul [OF p2]) (simp only: step_eval, simp)
  have e4: "entry_ok (smul 4 P) (39962784801563873441326809151610755355101276033672772352222160399133945815860, 79725911020240997037978734630221718511923400445597042315653845614473681352923, 53525137850540139796087645227339376160151111749935319116901387220348487108962)"
    by (rule entry_okI [OF p4]) (simp only: step_eval)
  have p5: "pt_ab (smul 5 P) (hx 76320646567098936754752403598540487227305876815364175746612090487574962294666) (hx 86507266255935886166439264562674141998807607394131756727687998035198826498221)"
    by (rule add_step_smul [OF p4 e1]) (simp only: step_eval, simp)
  have e5: "entry_ok (smul 5 P) (76320646567098936754752403598540487227305876815364175746612090487574962294666, 86507266255935886166439264562674141998807607394131756727687998035198826498221, 71680621068021475989980506608725057848641811193359297085873976827649226665065)"
    by (rule entry_okI [OF p5]) (simp only: step_eval)
  have p6: "pt_ab (smul 6 P) (hx 32359287579726868380064899150465475052024018867236794017832527451254926901633) (hx 46064498920093964071880903261317636764717015399540532315738724789916366529521)"
    by (rule dbl_step_smul [OF p3]) (simp only: step_eval, simp)
  have e6: "entry_ok (smul 6 P) (32359287579726868380064899150465475052024018867236794017832527451254926901633, 46064498920093964071880903261317636764717015399540532315738724789916366529521, 68229410021684680846694117662643877389598183802165142564765542159384923263302)"
    by (rule entry_okI [OF p6]) (simp only: step_eval)
  have p7: "pt_ab (smul 7 P) (hx 72188148803260923279760936128029530006448756783132606459340966954050087945584) (hx 76427595939170646528655574365005538947069743380271774483057794349372088410626)"
    by (rule add_step_smul [OF p6 e1]) (simp only: step_eval, simp)
  have e7: "entry_ok (smul 7 P) (72188148803260923279760936128029530006448756783132606459340966954050087945584, 76427595939170646528655574365005538947069743380271774483057794349372088410626, 31450208209894312051557338832913412698032699423359994755491733207238461421526)"
    by (rule entry_okI [OF p7]) (simp only: step_eval)
  have p8: "pt_ab (smul 8 P) (hx 56905756087445646261696198955362503937839188694500188427421064841379433967588) (hx 47294780869389467885625327381238031010851793283310081785600860046232347313110)"
    by (rule dbl_step_smul [OF p4]) (simp only: step_eval, simp)
  have e8: "entry_ok (smul 8 P) (56905756087445646261696198955362503937839188694500188427421064841379433967588, 47294780869389467885625327381238031010851793283310081785600860046232347313110, 46689654877469149747511236224341221486288066733110499146557079054758722351808)"
    by (rule entry_okI [OF p8]) (simp only: step_eval)
  have p16: "pt_ab (smul 16 P) (hx 72329063936250626539558710346836786447742218159141380089098121765517422991116) (hx 58123717267950410021201257252762040446168199409731330057412890267933169161404)"
    by (rule dbl_step_smul [OF p8]) (simp only: step_eval, simp)
  have p32: "pt_ab (smul 32 P) (hx 61574636154987866202255037278738218573658660191885811456313996359613366231604) (hx 65722014295124576479889952943367642261781833415249485174595535271117762854732)"
    by (rule dbl_step_smul [OF p16]) (simp only: step_eval, simp)
  have p64: "pt_ab (smul 64 P) (hx 87115818836178016949402260351940549913283295793843549404752817766311189589643) (hx 62852254158605873493518553784116520189528600926677778907472619684458067445180)"
    by (rule dbl_step_smul [OF p32]) (simp only: step_eval, simp)
  have p128: "pt_ab (smul 128 P) (hx 70597357726052677948246559142367133072389029161143799971388733573517928752845) (hx 71416426790259306096532006271987865665177829252221935218392806427071921879322)"
    by (rule dbl_step_smul [OF p64]) (simp only: step_eval, simp)
  have p256: "pt_ab (smul 256 P) (hx 56823078171648598085772663355782637872944992260609085364041939753739588737728) (hx 31692561975737213039201399039902336539078440809090397231934767569424405132710)"
    by (rule dbl_step_smul [OF p128]) (simp only: step_eval, simp)
  show ?thesis
    unfolding row_23_def by (rule conjI [OF row_okI [OF e1 e2 e3 e4 e5 e6 e7 e8] p256])
qed

lemma row_23_at:
  "row_ok (smul (256 ^ 23) ed_B) row_23"
  "pt_ab (smul (256 ^ 24) ed_B) (hx 56823078171648598085772663355782637872944992260609085364041939753739588737728) (hx 31692561975737213039201399039902336539078440809090397231934767569424405132710)"
  using row_23_ok [of "smul (256 ^ 23) ed_B"] row_22_at(2) by (simp_all add: smul_smul [symmetric])

end
