(* ===== verification/GeRows3.thy ===== *)
theory GeRows3
  imports GeRows2
begin

text \<open>Rows 24 to 31 of the table \<open>base\<close>.\<close>

section \<open>Row 24\<close>

definition row_24 :: "(int \<times> int \<times> int) list" where
  "row_24 =
    [(56823078171648598085772663355782637872944992260609085364041939753739588737728,
      31692561975737213039201399039902336539078440809090397231934767569424405132710,
      40876948891942767984726390097468522319926424365298845421691691561821767326326),
     (30706883267303612086982069757625075162812570108514555548593066835804886025145,
      82507715844389653230501896808502724001213818970273785439188166373251131456766,
      48005060839820422219350859718306492667671510853106247104512417593365407129907),
     (31306949676691746939928803518181906859289485501750847964509039092223836795619,
      39994308360463211255107899046030656039424983606672598251332701451220844734047,
      64538838940573375168082272183627361392805710733015793800113003463986533398776),
     (31065058936047843983835804919410612940940253088491821236342496610802982039069,
      79880566541239255317748860811682017880777478679037967436206819713667977184284,
      44703232986687963938518426900629275320554970839714089648200942647377553343470),
     (67370943700468796503565133830489240334451547545930986819965420961392013834793,
      41639270237107936573823460077409484955911579835488678036929073801724194493293,
      42719203519880930642343549399816822632959339270567464200189499732211610605557),
     (50973574640609410493270269624326149133965166784517079380234151553468008543038,
      54251151608469383813245918170011875098426836063363486162523071230070020448639,
      64320697808802124749354480779852829485226509441890468412462110688831213743161),
     (50452089066095520104533794267964660513765227922463254822592915004194200164648,
      42665858899392646292787237157687354571164889898279163983299792083082980277736,
      54302106406547357303566004724086474124806603021109030750806623627592886366874),
     (71436764891242586422375190400386257699221073303712097927563750513982966081375,
      64543889263204039845885876972647841571228219729917388881661239095131603920809,
      31882976893936029924115801905312023736329528897244197394078603400921910187431)]"

lemma row_24_values: "map entry_values base_24 = row_24" "list_all entry_tight base_24"
  by (simp_all only: base_24_def row_24_def table_eval)

lemma row_24_ok:
  assumes "pt_ab (smul 1 P) (hx 56823078171648598085772663355782637872944992260609085364041939753739588737728) (hx 31692561975737213039201399039902336539078440809090397231934767569424405132710)"
  shows "row_ok P row_24 \<and> pt_ab (smul 256 P) (hx 79143744684650913266004517589135926913512241140850650484243794983751025092502) (hx 51458070158873052938259919890280839110256802361532492544262098461645375229869)"
proof -
  note p1 = assms
  have e1: "entry_ok (smul 1 P) (56823078171648598085772663355782637872944992260609085364041939753739588737728, 31692561975737213039201399039902336539078440809090397231934767569424405132710, 40876948891942767984726390097468522319926424365298845421691691561821767326326)"
    by (rule entry_okI [OF p1]) (simp only: step_eval)
  have p2: "pt_ab (smul 2 P) (hx 30706883267303612086982069757625075162812570108514555548593066835804886025145) (hx 82507715844389653230501896808502724001213818970273785439188166373251131456766)"
    by (rule dbl_step_smul [OF p1]) (simp only: step_eval, simp)
  have e2: "entry_ok (smul 2 P) (30706883267303612086982069757625075162812570108514555548593066835804886025145, 82507715844389653230501896808502724001213818970273785439188166373251131456766, 48005060839820422219350859718306492667671510853106247104512417593365407129907)"
    by (rule entry_okI [OF p2]) (simp only: step_eval)
  have p3: "pt_ab (smul 3 P) (hx 31306949676691746939928803518181906859289485501750847964509039092223836795619) (hx 39994308360463211255107899046030656039424983606672598251332701451220844734047)"
    by (rule add_step_smul [OF p2 e1]) (simp only: step_eval, simp)
  have e3: "entry_ok (smul 3 P) (31306949676691746939928803518181906859289485501750847964509039092223836795619, 39994308360463211255107899046030656039424983606672598251332701451220844734047, 64538838940573375168082272183627361392805710733015793800113003463986533398776)"
    by (rule entry_okI [OF p3]) (simp only: step_eval)
  have p4: "pt_ab (smul 4 P) (hx 31065058936047843983835804919410612940940253088491821236342496610802982039069) (hx 79880566541239255317748860811682017880777478679037967436206819713667977184284)"
    by (rule dbl_step_smul [OF p2]) (simp only: step_eval, simp)
  have e4: "entry_ok (smul 4 P) (31065058936047843983835804919410612940940253088491821236342496610802982039069, 79880566541239255317748860811682017880777478679037967436206819713667977184284, 44703232986687963938518426900629275320554970839714089648200942647377553343470)"
    by (rule entry_okI [OF p4]) (simp only: step_eval)
  have p5: "pt_ab (smul 5 P) (hx 67370943700468796503565133830489240334451547545930986819965420961392013834793) (hx 41639270237107936573823460077409484955911579835488678036929073801724194493293)"
    by (rule add_step_smul [OF p4 e1]) (simp only: step_eval, simp)
  have e5: "entry_ok (smul 5 P) (67370943700468796503565133830489240334451547545930986819965420961392013834793, 41639270237107936573823460077409484955911579835488678036929073801724194493293, 42719203519880930642343549399816822632959339270567464200189499732211610605557)"
    by (rule entry_okI [OF p5]) (simp only: step_eval)
  have p6: "pt_ab (smul 6 P) (hx 50973574640609410493270269624326149133965166784517079380234151553468008543038) (hx 54251151608469383813245918170011875098426836063363486162523071230070020448639)"
    by (rule dbl_step_smul [OF p3]) (simp only: step_eval, simp)
  have e6: "entry_ok (smul 6 P) (50973574640609410493270269624326149133965166784517079380234151553468008543038, 54251151608469383813245918170011875098426836063363486162523071230070020448639, 64320697808802124749354480779852829485226509441890468412462110688831213743161)"
    by (rule entry_okI [OF p6]) (simp only: step_eval)
  have p7: "pt_ab (smul 7 P) (hx 50452089066095520104533794267964660513765227922463254822592915004194200164648) (hx 42665858899392646292787237157687354571164889898279163983299792083082980277736)"
    by (rule add_step_smul [OF p6 e1]) (simp only: step_eval, simp)
  have e7: "entry_ok (smul 7 P) (50452089066095520104533794267964660513765227922463254822592915004194200164648, 42665858899392646292787237157687354571164889898279163983299792083082980277736, 54302106406547357303566004724086474124806603021109030750806623627592886366874)"
    by (rule entry_okI [OF p7]) (simp only: step_eval)
  have p8: "pt_ab (smul 8 P) (hx 71436764891242586422375190400386257699221073303712097927563750513982966081375) (hx 64543889263204039845885876972647841571228219729917388881661239095131603920809)"
    by (rule dbl_step_smul [OF p4]) (simp only: step_eval, simp)
  have e8: "entry_ok (smul 8 P) (71436764891242586422375190400386257699221073303712097927563750513982966081375, 64543889263204039845885876972647841571228219729917388881661239095131603920809, 31882976893936029924115801905312023736329528897244197394078603400921910187431)"
    by (rule entry_okI [OF p8]) (simp only: step_eval)
  have p16: "pt_ab (smul 16 P) (hx 94978928690067315213520644039747601497627623174240241136517446214096412984069) (hx 88996255074685017243701841447594328440551205178390790116208487023621688864344)"
    by (rule dbl_step_smul [OF p8]) (simp only: step_eval, simp)
  have p32: "pt_ab (smul 32 P) (hx 101000930241363500209939998388318934185674234821031220283080764327251166408821) (hx 78322814412088144648966679690577673623892888654944213671563922215810243617086)"
    by (rule dbl_step_smul [OF p16]) (simp only: step_eval, simp)
  have p64: "pt_ab (smul 64 P) (hx 74368357225589897326248180365758432291654126898015366371431297068133678310616) (hx 59261745836424817706722412955427501829607118812896729260642029265475507106420)"
    by (rule dbl_step_smul [OF p32]) (simp only: step_eval, simp)
  have p128: "pt_ab (smul 128 P) (hx 61516892041455323381322980467663832437448618005963317333757989448515206973289) (hx 94559173715488503786956588232156994814836906124038556354966744880114425990478)"
    by (rule dbl_step_smul [OF p64]) (simp only: step_eval, simp)
  have p256: "pt_ab (smul 256 P) (hx 79143744684650913266004517589135926913512241140850650484243794983751025092502) (hx 51458070158873052938259919890280839110256802361532492544262098461645375229869)"
    by (rule dbl_step_smul [OF p128]) (simp only: step_eval, simp)
  show ?thesis
    unfolding row_24_def by (rule conjI [OF row_okI [OF e1 e2 e3 e4 e5 e6 e7 e8] p256])
qed

lemma row_24_at:
  "row_ok (smul (256 ^ 24) ed_B) row_24"
  "pt_ab (smul (256 ^ 25) ed_B) (hx 79143744684650913266004517589135926913512241140850650484243794983751025092502) (hx 51458070158873052938259919890280839110256802361532492544262098461645375229869)"
  using row_24_ok [of "smul (256 ^ 24) ed_B"] row_23_at(2) by (simp_all add: smul_smul [symmetric])

section \<open>Row 25\<close>

definition row_25 :: "(int \<times> int \<times> int) list" where
  "row_25 =
    [(79143744684650913266004517589135926913512241140850650484243794983751025092502,
      51458070158873052938259919890280839110256802361532492544262098461645375229869,
      40915848133279304249301717065599502159361308619214504379065587951925414753485),
     (62623245017841198266410561723888356604936912122970682364999398075469890968705,
      78580318005852370986880781340680120619350123265973688711055323022368021292162,
      75353890449011502279658928984535964183526771560502814056076193019962398335417),
     (85035333496045486200594123215111771893274036826006380243412907694371391789307,
      72236201910527012200346856144191852799139930513804462793176017367916044401253,
      48517599742137450041093183501501060981753535984596613915587181928311436916779),
     (52132666637547167612059606246458930914946916187946755358873910926782976364275,
      40893392783672181994993955864395454490492657262714029368364154330164101629252,
      85807612265632831499288453044145761235317532590543507636965883104903525899763),
     (40300888757784454726967334645191496764606686502105499399969986520407466321365,
      59793823831479601751834223901602722986021718601313440198914659733938399730117,
      31624780136283633034036806514856161250450087610830648591343055057965078108846),
     (86596369570058123928262117122911358030674412915420357293013709014320559206874,
      40875867299320575739499745405113333941520935377869317779759344622427569510187,
      75093709650883764533767884377178284459026772356129938821725951870354009787827),
     (64196580291312552482207818147395631816595346295892650088727772745366104368431,
      38300027892569157518295199191178186201732957382419051583950594357662199119620,
      44744868611485192051498410007278637425795956451887053792621446445078548271658),
     (44130962312656193681316736777417037282795875655421779491061849527126280513652,
      78861404268932731263761966826987079963630275141842060091360607441351290989354,
      85875411174005940884676702532524908846706566586023149568078300492375069438407)]"

lemma row_25_values: "map entry_values base_25 = row_25" "list_all entry_tight base_25"
  by (simp_all only: base_25_def row_25_def table_eval)

lemma row_25_ok:
  assumes "pt_ab (smul 1 P) (hx 79143744684650913266004517589135926913512241140850650484243794983751025092502) (hx 51458070158873052938259919890280839110256802361532492544262098461645375229869)"
  shows "row_ok P row_25 \<and> pt_ab (smul 256 P) (hx 42927283309648938489858440040714108733714273830017326450356950579548469508884) (hx 54543473575794735146275611790870470923589514710523012658661070160804911695179)"
proof -
  note p1 = assms
  have e1: "entry_ok (smul 1 P) (79143744684650913266004517589135926913512241140850650484243794983751025092502, 51458070158873052938259919890280839110256802361532492544262098461645375229869, 40915848133279304249301717065599502159361308619214504379065587951925414753485)"
    by (rule entry_okI [OF p1]) (simp only: step_eval)
  have p2: "pt_ab (smul 2 P) (hx 62623245017841198266410561723888356604936912122970682364999398075469890968705) (hx 78580318005852370986880781340680120619350123265973688711055323022368021292162)"
    by (rule dbl_step_smul [OF p1]) (simp only: step_eval, simp)
  have e2: "entry_ok (smul 2 P) (62623245017841198266410561723888356604936912122970682364999398075469890968705, 78580318005852370986880781340680120619350123265973688711055323022368021292162, 75353890449011502279658928984535964183526771560502814056076193019962398335417)"
    by (rule entry_okI [OF p2]) (simp only: step_eval)
  have p3: "pt_ab (smul 3 P) (hx 85035333496045486200594123215111771893274036826006380243412907694371391789307) (hx 72236201910527012200346856144191852799139930513804462793176017367916044401253)"
    by (rule add_step_smul [OF p2 e1]) (simp only: step_eval, simp)
  have e3: "entry_ok (smul 3 P) (85035333496045486200594123215111771893274036826006380243412907694371391789307, 72236201910527012200346856144191852799139930513804462793176017367916044401253, 48517599742137450041093183501501060981753535984596613915587181928311436916779)"
    by (rule entry_okI [OF p3]) (simp only: step_eval)
  have p4: "pt_ab (smul 4 P) (hx 52132666637547167612059606246458930914946916187946755358873910926782976364275) (hx 40893392783672181994993955864395454490492657262714029368364154330164101629252)"
    by (rule dbl_step_smul [OF p2]) (simp only: step_eval, simp)
  have e4: "entry_ok (smul 4 P) (52132666637547167612059606246458930914946916187946755358873910926782976364275, 40893392783672181994993955864395454490492657262714029368364154330164101629252, 85807612265632831499288453044145761235317532590543507636965883104903525899763)"
    by (rule entry_okI [OF p4]) (simp only: step_eval)
  have p5: "pt_ab (smul 5 P) (hx 40300888757784454726967334645191496764606686502105499399969986520407466321365) (hx 59793823831479601751834223901602722986021718601313440198914659733938399730117)"
    by (rule add_step_smul [OF p4 e1]) (simp only: step_eval, simp)
  have e5: "entry_ok (smul 5 P) (40300888757784454726967334645191496764606686502105499399969986520407466321365, 59793823831479601751834223901602722986021718601313440198914659733938399730117, 31624780136283633034036806514856161250450087610830648591343055057965078108846)"
    by (rule entry_okI [OF p5]) (simp only: step_eval)
  have p6: "pt_ab (smul 6 P) (hx 86596369570058123928262117122911358030674412915420357293013709014320559206874) (hx 40875867299320575739499745405113333941520935377869317779759344622427569510187)"
    by (rule dbl_step_smul [OF p3]) (simp only: step_eval, simp)
  have e6: "entry_ok (smul 6 P) (86596369570058123928262117122911358030674412915420357293013709014320559206874, 40875867299320575739499745405113333941520935377869317779759344622427569510187, 75093709650883764533767884377178284459026772356129938821725951870354009787827)"
    by (rule entry_okI [OF p6]) (simp only: step_eval)
  have p7: "pt_ab (smul 7 P) (hx 64196580291312552482207818147395631816595346295892650088727772745366104368431) (hx 38300027892569157518295199191178186201732957382419051583950594357662199119620)"
    by (rule add_step_smul [OF p6 e1]) (simp only: step_eval, simp)
  have e7: "entry_ok (smul 7 P) (64196580291312552482207818147395631816595346295892650088727772745366104368431, 38300027892569157518295199191178186201732957382419051583950594357662199119620, 44744868611485192051498410007278637425795956451887053792621446445078548271658)"
    by (rule entry_okI [OF p7]) (simp only: step_eval)
  have p8: "pt_ab (smul 8 P) (hx 44130962312656193681316736777417037282795875655421779491061849527126280513652) (hx 78861404268932731263761966826987079963630275141842060091360607441351290989354)"
    by (rule dbl_step_smul [OF p4]) (simp only: step_eval, simp)
  have e8: "entry_ok (smul 8 P) (44130962312656193681316736777417037282795875655421779491061849527126280513652, 78861404268932731263761966826987079963630275141842060091360607441351290989354, 85875411174005940884676702532524908846706566586023149568078300492375069438407)"
    by (rule entry_okI [OF p8]) (simp only: step_eval)
  have p16: "pt_ab (smul 16 P) (hx 96679401582877513087431273868606261944727763296212487242666759537953837036990) (hx 80574578401990866995303558857913236271544013233094449916442348002576611115484)"
    by (rule dbl_step_smul [OF p8]) (simp only: step_eval, simp)
  have p32: "pt_ab (smul 32 P) (hx 68184153907368197252363427812021485453425477979343208337160840980763799220646) (hx 62260966870183726293280106004424981990605719351924618959396651840162837203402)"
    by (rule dbl_step_smul [OF p16]) (simp only: step_eval, simp)
  have p64: "pt_ab (smul 64 P) (hx 73624028251134735894237013330857615329168890055894689882030497427607187075055) (hx 103773178286979529100980804709100791355437651976151368315597294768451881021134)"
    by (rule dbl_step_smul [OF p32]) (simp only: step_eval, simp)
  have p128: "pt_ab (smul 128 P) (hx 86458913806124266210426074935928896914432407926229354065087523307389537880818) (hx 72987217909320870314476126181663863512063279397882151142409996133215041812915)"
    by (rule dbl_step_smul [OF p64]) (simp only: step_eval, simp)
  have p256: "pt_ab (smul 256 P) (hx 42927283309648938489858440040714108733714273830017326450356950579548469508884) (hx 54543473575794735146275611790870470923589514710523012658661070160804911695179)"
    by (rule dbl_step_smul [OF p128]) (simp only: step_eval, simp)
  show ?thesis
    unfolding row_25_def by (rule conjI [OF row_okI [OF e1 e2 e3 e4 e5 e6 e7 e8] p256])
qed

lemma row_25_at:
  "row_ok (smul (256 ^ 25) ed_B) row_25"
  "pt_ab (smul (256 ^ 26) ed_B) (hx 42927283309648938489858440040714108733714273830017326450356950579548469508884) (hx 54543473575794735146275611790870470923589514710523012658661070160804911695179)"
  using row_25_ok [of "smul (256 ^ 25) ed_B"] row_24_at(2) by (simp_all add: smul_smul [symmetric])

section \<open>Row 26\<close>

definition row_26 :: "(int \<times> int \<times> int) list" where
  "row_26 =
    [(42927283309648938489858440040714108733714273830017326450356950579548469508884,
      54543473575794735146275611790870470923589514710523012658661070160804911695179,
      44242535408942400044811899726948176979324682583551334935470385282389280844430),
     (41223497208033848419677838065353127762584971502159795454133407323907772150751,
      50020101900676584767605944828529012718645719221795967571473307944135551559014,
      55058017023051886977515417061814399863670353053712165884931273224783298318971),
     (70405441055310560562519797433325472514548715108202085296093735959941219316577,
      36365145154820713388192503279178278239575943162090190704238815052357551859394,
      83907481652629887552779804706382451400016181024630431484001659599437116381505),
     (80038649518362372276278630069451841862482157188468566923644045042900793716683,
      83614327190937755017957959888475800588571165717702116729307159940064914639488,
      44859543706953188004016231867177707468255155518402690474177173378492800538432),
     (84290075329552461416631999269092822405799766236500919632163021085195543282836,
      62936780147642201767408231796337952165995052881448865464713826133127192890259,
      81863264782287341043049780028719464746872060934201507885113213372846961322676),
     (58393653741378638789449028130835125226201249084844522840119086491329891379845,
      85592891344586443812078489376971815780124381572134323705920576920366410590135,
      39239084774500670421566109690156712270623476497133184862540184170008838018941),
     (59499448961715569729660024744904358295207431269193445720434742415751208210159,
      62149372937135905122481706214489637992208167229267187424439933677891612077572,
      49920835217155723637763863481759620939975030670870979663655495672598340136952),
     (79763739722854178409519057267587107695041725580431517986042093904811620983311,
      61947544196536289915211962916874042126506850102070860232098278032147680170984,
      75233449842627372449836763426930511781153325358951665481105914597576334009277)]"

lemma row_26_values: "map entry_values base_26 = row_26" "list_all entry_tight base_26"
  by (simp_all only: base_26_def row_26_def table_eval)

lemma row_26_ok:
  assumes "pt_ab (smul 1 P) (hx 42927283309648938489858440040714108733714273830017326450356950579548469508884) (hx 54543473575794735146275611790870470923589514710523012658661070160804911695179)"
  shows "row_ok P row_26 \<and> pt_ab (smul 256 P) (hx 84160004550297792112116184673904772390049935597621726304458200957075467495003) (hx 69272564856349632778620004864934189381191998148640980119907899661096829319619)"
proof -
  note p1 = assms
  have e1: "entry_ok (smul 1 P) (42927283309648938489858440040714108733714273830017326450356950579548469508884, 54543473575794735146275611790870470923589514710523012658661070160804911695179, 44242535408942400044811899726948176979324682583551334935470385282389280844430)"
    by (rule entry_okI [OF p1]) (simp only: step_eval)
  have p2: "pt_ab (smul 2 P) (hx 41223497208033848419677838065353127762584971502159795454133407323907772150751) (hx 50020101900676584767605944828529012718645719221795967571473307944135551559014)"
    by (rule dbl_step_smul [OF p1]) (simp only: step_eval, simp)
  have e2: "entry_ok (smul 2 P) (41223497208033848419677838065353127762584971502159795454133407323907772150751, 50020101900676584767605944828529012718645719221795967571473307944135551559014, 55058017023051886977515417061814399863670353053712165884931273224783298318971)"
    by (rule entry_okI [OF p2]) (simp only: step_eval)
  have p3: "pt_ab (smul 3 P) (hx 70405441055310560562519797433325472514548715108202085296093735959941219316577) (hx 36365145154820713388192503279178278239575943162090190704238815052357551859394)"
    by (rule add_step_smul [OF p2 e1]) (simp only: step_eval, simp)
  have e3: "entry_ok (smul 3 P) (70405441055310560562519797433325472514548715108202085296093735959941219316577, 36365145154820713388192503279178278239575943162090190704238815052357551859394, 83907481652629887552779804706382451400016181024630431484001659599437116381505)"
    by (rule entry_okI [OF p3]) (simp only: step_eval)
  have p4: "pt_ab (smul 4 P) (hx 80038649518362372276278630069451841862482157188468566923644045042900793716683) (hx 83614327190937755017957959888475800588571165717702116729307159940064914639488)"
    by (rule dbl_step_smul [OF p2]) (simp only: step_eval, simp)
  have e4: "entry_ok (smul 4 P) (80038649518362372276278630069451841862482157188468566923644045042900793716683, 83614327190937755017957959888475800588571165717702116729307159940064914639488, 44859543706953188004016231867177707468255155518402690474177173378492800538432)"
    by (rule entry_okI [OF p4]) (simp only: step_eval)
  have p5: "pt_ab (smul 5 P) (hx 84290075329552461416631999269092822405799766236500919632163021085195543282836) (hx 62936780147642201767408231796337952165995052881448865464713826133127192890259)"
    by (rule add_step_smul [OF p4 e1]) (simp only: step_eval, simp)
  have e5: "entry_ok (smul 5 P) (84290075329552461416631999269092822405799766236500919632163021085195543282836, 62936780147642201767408231796337952165995052881448865464713826133127192890259, 81863264782287341043049780028719464746872060934201507885113213372846961322676)"
    by (rule entry_okI [OF p5]) (simp only: step_eval)
  have p6: "pt_ab (smul 6 P) (hx 58393653741378638789449028130835125226201249084844522840119086491329891379845) (hx 85592891344586443812078489376971815780124381572134323705920576920366410590135)"
    by (rule dbl_step_smul [OF p3]) (simp only: step_eval, simp)
  have e6: "entry_ok (smul 6 P) (58393653741378638789449028130835125226201249084844522840119086491329891379845, 85592891344586443812078489376971815780124381572134323705920576920366410590135, 39239084774500670421566109690156712270623476497133184862540184170008838018941)"
    by (rule entry_okI [OF p6]) (simp only: step_eval)
  have p7: "pt_ab (smul 7 P) (hx 59499448961715569729660024744904358295207431269193445720434742415751208210159) (hx 62149372937135905122481706214489637992208167229267187424439933677891612077572)"
    by (rule add_step_smul [OF p6 e1]) (simp only: step_eval, simp)
  have e7: "entry_ok (smul 7 P) (59499448961715569729660024744904358295207431269193445720434742415751208210159, 62149372937135905122481706214489637992208167229267187424439933677891612077572, 49920835217155723637763863481759620939975030670870979663655495672598340136952)"
    by (rule entry_okI [OF p7]) (simp only: step_eval)
  have p8: "pt_ab (smul 8 P) (hx 79763739722854178409519057267587107695041725580431517986042093904811620983311) (hx 61947544196536289915211962916874042126506850102070860232098278032147680170984)"
    by (rule dbl_step_smul [OF p4]) (simp only: step_eval, simp)
  have e8: "entry_ok (smul 8 P) (79763739722854178409519057267587107695041725580431517986042093904811620983311, 61947544196536289915211962916874042126506850102070860232098278032147680170984, 75233449842627372449836763426930511781153325358951665481105914597576334009277)"
    by (rule entry_okI [OF p8]) (simp only: step_eval)
  have p16: "pt_ab (smul 16 P) (hx 101490276389794539847880458320927595224796012822506719018972655280220468909734) (hx 90947655492857019792767975108797357261494774927149250838205751917415091834742)"
    by (rule dbl_step_smul [OF p8]) (simp only: step_eval, simp)
  have p32: "pt_ab (smul 32 P) (hx 72085208549351946144230832506049289322518939404094144658367461787674637278858) (hx 87990077707585955154049855041360778518830071508959652659256064734164799255508)"
    by (rule dbl_step_smul [OF p16]) (simp only: step_eval, simp)
  have p64: "pt_ab (smul 64 P) (hx 90817051220237367327072620006932361487108230258846877150384676866581809657750) (hx 82320053380267581378358667547141364765021807900527858183208789015539836786923)"
    by (rule dbl_step_smul [OF p32]) (simp only: step_eval, simp)
  have p128: "pt_ab (smul 128 P) (hx 91858655794222763426787330113758420390037430830979598164731901241012173997902) (hx 85201384286086743447159815470998406545737122946616146283476896619569455445902)"
    by (rule dbl_step_smul [OF p64]) (simp only: step_eval, simp)
  have p256: "pt_ab (smul 256 P) (hx 84160004550297792112116184673904772390049935597621726304458200957075467495003) (hx 69272564856349632778620004864934189381191998148640980119907899661096829319619)"
    by (rule dbl_step_smul [OF p128]) (simp only: step_eval, simp)
  show ?thesis
    unfolding row_26_def by (rule conjI [OF row_okI [OF e1 e2 e3 e4 e5 e6 e7 e8] p256])
qed

lemma row_26_at:
  "row_ok (smul (256 ^ 26) ed_B) row_26"
  "pt_ab (smul (256 ^ 27) ed_B) (hx 84160004550297792112116184673904772390049935597621726304458200957075467495003) (hx 69272564856349632778620004864934189381191998148640980119907899661096829319619)"
  using row_26_ok [of "smul (256 ^ 26) ed_B"] row_25_at(2) by (simp_all add: smul_smul [symmetric])

section \<open>Row 27\<close>

definition row_27 :: "(int \<times> int \<times> int) list" where
  "row_27 =
    [(84160004550297792112116184673904772390049935597621726304458200957075467495003,
      69272564856349632778620004864934189381191998148640980119907899661096829319619,
      72203641661371599358453538705087464322625698448496135752282942864004990094989),
     (52462859433450377279304003075680259554001360791988052823450924276781907154091,
      53919560228411827161279988237452602262337046300343274771499110607741131528242,
      72035096340286546084446455779472963439382894820976966983885336221489642577056),
     (63081265267907028113200017050796668174339959633072093577791651142195952559423,
      35328032195546397609074148219713731340947959949000737396615983614851573423105,
      55828544507638541219181551800551744769933680022052117146883043052455644533659),
     (37984750708672550294251610404535830751990663490517935121539656900636223591111,
      50769658902216518272938856075288455749140505349779788100746782280510466112914,
      83928023175301510990372732556196779627173147895772097692085286071673358406722),
     (47769557798301669845415602580097420986714841261986634167294855613108707648498,
      37854003817265867416757068891298627659515411515476548373323636381408135629043,
      36995921301985786439891494054066489952858323024716310029476019905971047821772),
     (66345395471828437374493364634442954964994294177763183594478914128543556064436,
      38454833923813752404512302936787525990329183142941591483763444548350424440842,
      43339543180942380796285331513221429336531977804338085104357998028373036433871),
     (56919417046600242121126449027794122978068153732622781145915629228735526587278,
      62079844818507397122313962133740796262307189669885499841187513807424757017369,
      79313300501806140016624477555702040626079145760738152886271096011877815523350),
     (77185364433665733136941479049628076323385996127789859061488363248970317808366,
      38151005382072812000577323401751697714257554454942140857372832969779272160095,
      66901666117451430602232579683750832606724439417228866232123057658601757164604)]"

lemma row_27_values: "map entry_values base_27 = row_27" "list_all entry_tight base_27"
  by (simp_all only: base_27_def row_27_def table_eval)

lemma row_27_ok:
  assumes "pt_ab (smul 1 P) (hx 84160004550297792112116184673904772390049935597621726304458200957075467495003) (hx 69272564856349632778620004864934189381191998148640980119907899661096829319619)"
  shows "row_ok P row_27 \<and> pt_ab (smul 256 P) (hx 43093427748708802199774598181106490987159779608662734295633683643907889137535) (hx 52276577394374451023636155017949082680533519628966003740504478768891255836379)"
proof -
  note p1 = assms
  have e1: "entry_ok (smul 1 P) (84160004550297792112116184673904772390049935597621726304458200957075467495003, 69272564856349632778620004864934189381191998148640980119907899661096829319619, 72203641661371599358453538705087464322625698448496135752282942864004990094989)"
    by (rule entry_okI [OF p1]) (simp only: step_eval)
  have p2: "pt_ab (smul 2 P) (hx 52462859433450377279304003075680259554001360791988052823450924276781907154091) (hx 53919560228411827161279988237452602262337046300343274771499110607741131528242)"
    by (rule dbl_step_smul [OF p1]) (simp only: step_eval, simp)
  have e2: "entry_ok (smul 2 P) (52462859433450377279304003075680259554001360791988052823450924276781907154091, 53919560228411827161279988237452602262337046300343274771499110607741131528242, 72035096340286546084446455779472963439382894820976966983885336221489642577056)"
    by (rule entry_okI [OF p2]) (simp only: step_eval)
  have p3: "pt_ab (smul 3 P) (hx 63081265267907028113200017050796668174339959633072093577791651142195952559423) (hx 35328032195546397609074148219713731340947959949000737396615983614851573423105)"
    by (rule add_step_smul [OF p2 e1]) (simp only: step_eval, simp)
  have e3: "entry_ok (smul 3 P) (63081265267907028113200017050796668174339959633072093577791651142195952559423, 35328032195546397609074148219713731340947959949000737396615983614851573423105, 55828544507638541219181551800551744769933680022052117146883043052455644533659)"
    by (rule entry_okI [OF p3]) (simp only: step_eval)
  have p4: "pt_ab (smul 4 P) (hx 37984750708672550294251610404535830751990663490517935121539656900636223591111) (hx 50769658902216518272938856075288455749140505349779788100746782280510466112914)"
    by (rule dbl_step_smul [OF p2]) (simp only: step_eval, simp)
  have e4: "entry_ok (smul 4 P) (37984750708672550294251610404535830751990663490517935121539656900636223591111, 50769658902216518272938856075288455749140505349779788100746782280510466112914, 83928023175301510990372732556196779627173147895772097692085286071673358406722)"
    by (rule entry_okI [OF p4]) (simp only: step_eval)
  have p5: "pt_ab (smul 5 P) (hx 47769557798301669845415602580097420986714841261986634167294855613108707648498) (hx 37854003817265867416757068891298627659515411515476548373323636381408135629043)"
    by (rule add_step_smul [OF p4 e1]) (simp only: step_eval, simp)
  have e5: "entry_ok (smul 5 P) (47769557798301669845415602580097420986714841261986634167294855613108707648498, 37854003817265867416757068891298627659515411515476548373323636381408135629043, 36995921301985786439891494054066489952858323024716310029476019905971047821772)"
    by (rule entry_okI [OF p5]) (simp only: step_eval)
  have p6: "pt_ab (smul 6 P) (hx 66345395471828437374493364634442954964994294177763183594478914128543556064436) (hx 38454833923813752404512302936787525990329183142941591483763444548350424440842)"
    by (rule dbl_step_smul [OF p3]) (simp only: step_eval, simp)
  have e6: "entry_ok (smul 6 P) (66345395471828437374493364634442954964994294177763183594478914128543556064436, 38454833923813752404512302936787525990329183142941591483763444548350424440842, 43339543180942380796285331513221429336531977804338085104357998028373036433871)"
    by (rule entry_okI [OF p6]) (simp only: step_eval)
  have p7: "pt_ab (smul 7 P) (hx 56919417046600242121126449027794122978068153732622781145915629228735526587278) (hx 62079844818507397122313962133740796262307189669885499841187513807424757017369)"
    by (rule add_step_smul [OF p6 e1]) (simp only: step_eval, simp)
  have e7: "entry_ok (smul 7 P) (56919417046600242121126449027794122978068153732622781145915629228735526587278, 62079844818507397122313962133740796262307189669885499841187513807424757017369, 79313300501806140016624477555702040626079145760738152886271096011877815523350)"
    by (rule entry_okI [OF p7]) (simp only: step_eval)
  have p8: "pt_ab (smul 8 P) (hx 77185364433665733136941479049628076323385996127789859061488363248970317808366) (hx 38151005382072812000577323401751697714257554454942140857372832969779272160095)"
    by (rule dbl_step_smul [OF p4]) (simp only: step_eval, simp)
  have e8: "entry_ok (smul 8 P) (77185364433665733136941479049628076323385996127789859061488363248970317808366, 38151005382072812000577323401751697714257554454942140857372832969779272160095, 66901666117451430602232579683750832606724439417228866232123057658601757164604)"
    by (rule entry_okI [OF p8]) (simp only: step_eval)
  have p16: "pt_ab (smul 16 P) (hx 85728899428189609374648276107058712356161156833774914399528354137189481399913) (hx 109314667308466988418420935650863576999260546581280054785554211214365028461548)"
    by (rule dbl_step_smul [OF p8]) (simp only: step_eval, simp)
  have p32: "pt_ab (smul 32 P) (hx 107391817529100947135859944212441660943897187139542408652004665538283919061409) (hx 62584515400486261990152477782277916752257278128174218415278692237125201805110)"
    by (rule dbl_step_smul [OF p16]) (simp only: step_eval, simp)
  have p64: "pt_ab (smul 64 P) (hx 70370375985243089426784512205397326472434092395163550024876476530998977446549) (hx 78642353428424483871023950823065567799602385121216768039096955731543434250913)"
    by (rule dbl_step_smul [OF p32]) (simp only: step_eval, simp)
  have p128: "pt_ab (smul 128 P) (hx 59250466060239225576222635877188228314697284682905087067057810242255680884889) (hx 61929211782517920276885379706867376182307114696711570469029301408993766408956)"
    by (rule dbl_step_smul [OF p64]) (simp only: step_eval, simp)
  have p256: "pt_ab (smul 256 P) (hx 43093427748708802199774598181106490987159779608662734295633683643907889137535) (hx 52276577394374451023636155017949082680533519628966003740504478768891255836379)"
    by (rule dbl_step_smul [OF p128]) (simp only: step_eval, simp)
  show ?thesis
    unfolding row_27_def by (rule conjI [OF row_okI [OF e1 e2 e3 e4 e5 e6 e7 e8] p256])
qed

lemma row_27_at:
  "row_ok (smul (256 ^ 27) ed_B) row_27"
  "pt_ab (smul (256 ^ 28) ed_B) (hx 43093427748708802199774598181106490987159779608662734295633683643907889137535) (hx 52276577394374451023636155017949082680533519628966003740504478768891255836379)"
  using row_27_ok [of "smul (256 ^ 27) ed_B"] row_26_at(2) by (simp_all add: smul_smul [symmetric])

section \<open>Row 28\<close>

definition row_28 :: "(int \<times> int \<times> int) list" where
  "row_28 =
    [(43093427748708802199774598181106490987159779608662734295633683643907889137535,
      52276577394374451023636155017949082680533519628966003740504478768891255836379,
      78237126184853637102820246208156775295649731778194551959536681458137915192442),
     (55379165166891391002801168634948617837103912387921734075059042369668847266722,
      72500343013987891133855141168083650441991386672918187003187640810295675391828,
      43453249193817011410931373930160958229055904017451105169076984039841816309577),
     (47856990184934077731373643397949175676765444014860960018656975174260702836880,
      50556203749876367719361882603554600236035067248180112756444222444381366777916,
      67552603902370984774037487978493632380613655562069650890077035423290638236088),
     (84421514320686969001631553826395273452424117608089042481627692192842944423095,
      63836566863319170404092517558970814423694159722075361718082452015422377130383,
      80958108778046316568559509402241040193578956541176166318094520976122846578146),
     (52665095209044849841037730345764387877721281287337463926031519986378804284639,
      31732420123830062900640498955856741609301207163931533847671982270916681636597,
      55763618964994105656921826679221055314485961993690829734697770358144762681116),
     (71019094567956229452330836380986307716211407837552355875790167856524412822218,
      66114778509016426054786760726353254978586899251507562771539911901374983745617,
      59152355410683868494048478787874040608973450253362607427903863741810979693889),
     (48409124191227895692509760394674195021178191234699514179892083731977131094753,
      75174587579492160405018683100495238655144261019737839798836505019543865470888,
      70906217891896230242568891472343474215140326488169138336053195143046309782445),
     (84222835190894300952016809250722187451322748680534053803383159533849117896358,
      49033607061085222021209751921454761872106177629748964146123312308918786929231,
      60413992331436458669682120803547793271911363120788211880316324667509308025525)]"

lemma row_28_values: "map entry_values base_28 = row_28" "list_all entry_tight base_28"
  by (simp_all only: base_28_def row_28_def table_eval)

lemma row_28_ok:
  assumes "pt_ab (smul 1 P) (hx 43093427748708802199774598181106490987159779608662734295633683643907889137535) (hx 52276577394374451023636155017949082680533519628966003740504478768891255836379)"
  shows "row_ok P row_28 \<and> pt_ab (smul 256 P) (hx 38614399944018774841874619744567688541674234741863684524942943020139982809839) (hx 48505121165379922461886898336479612765388474887105860416376525215747614379707)"
proof -
  note p1 = assms
  have e1: "entry_ok (smul 1 P) (43093427748708802199774598181106490987159779608662734295633683643907889137535, 52276577394374451023636155017949082680533519628966003740504478768891255836379, 78237126184853637102820246208156775295649731778194551959536681458137915192442)"
    by (rule entry_okI [OF p1]) (simp only: step_eval)
  have p2: "pt_ab (smul 2 P) (hx 55379165166891391002801168634948617837103912387921734075059042369668847266722) (hx 72500343013987891133855141168083650441991386672918187003187640810295675391828)"
    by (rule dbl_step_smul [OF p1]) (simp only: step_eval, simp)
  have e2: "entry_ok (smul 2 P) (55379165166891391002801168634948617837103912387921734075059042369668847266722, 72500343013987891133855141168083650441991386672918187003187640810295675391828, 43453249193817011410931373930160958229055904017451105169076984039841816309577)"
    by (rule entry_okI [OF p2]) (simp only: step_eval)
  have p3: "pt_ab (smul 3 P) (hx 47856990184934077731373643397949175676765444014860960018656975174260702836880) (hx 50556203749876367719361882603554600236035067248180112756444222444381366777916)"
    by (rule add_step_smul [OF p2 e1]) (simp only: step_eval, simp)
  have e3: "entry_ok (smul 3 P) (47856990184934077731373643397949175676765444014860960018656975174260702836880, 50556203749876367719361882603554600236035067248180112756444222444381366777916, 67552603902370984774037487978493632380613655562069650890077035423290638236088)"
    by (rule entry_okI [OF p3]) (simp only: step_eval)
  have p4: "pt_ab (smul 4 P) (hx 84421514320686969001631553826395273452424117608089042481627692192842944423095) (hx 63836566863319170404092517558970814423694159722075361718082452015422377130383)"
    by (rule dbl_step_smul [OF p2]) (simp only: step_eval, simp)
  have e4: "entry_ok (smul 4 P) (84421514320686969001631553826395273452424117608089042481627692192842944423095, 63836566863319170404092517558970814423694159722075361718082452015422377130383, 80958108778046316568559509402241040193578956541176166318094520976122846578146)"
    by (rule entry_okI [OF p4]) (simp only: step_eval)
  have p5: "pt_ab (smul 5 P) (hx 52665095209044849841037730345764387877721281287337463926031519986378804284639) (hx 31732420123830062900640498955856741609301207163931533847671982270916681636597)"
    by (rule add_step_smul [OF p4 e1]) (simp only: step_eval, simp)
  have e5: "entry_ok (smul 5 P) (52665095209044849841037730345764387877721281287337463926031519986378804284639, 31732420123830062900640498955856741609301207163931533847671982270916681636597, 55763618964994105656921826679221055314485961993690829734697770358144762681116)"
    by (rule entry_okI [OF p5]) (simp only: step_eval)
  have p6: "pt_ab (smul 6 P) (hx 71019094567956229452330836380986307716211407837552355875790167856524412822218) (hx 66114778509016426054786760726353254978586899251507562771539911901374983745617)"
    by (rule dbl_step_smul [OF p3]) (simp only: step_eval, simp)
  have e6: "entry_ok (smul 6 P) (71019094567956229452330836380986307716211407837552355875790167856524412822218, 66114778509016426054786760726353254978586899251507562771539911901374983745617, 59152355410683868494048478787874040608973450253362607427903863741810979693889)"
    by (rule entry_okI [OF p6]) (simp only: step_eval)
  have p7: "pt_ab (smul 7 P) (hx 48409124191227895692509760394674195021178191234699514179892083731977131094753) (hx 75174587579492160405018683100495238655144261019737839798836505019543865470888)"
    by (rule add_step_smul [OF p6 e1]) (simp only: step_eval, simp)
  have e7: "entry_ok (smul 7 P) (48409124191227895692509760394674195021178191234699514179892083731977131094753, 75174587579492160405018683100495238655144261019737839798836505019543865470888, 70906217891896230242568891472343474215140326488169138336053195143046309782445)"
    by (rule entry_okI [OF p7]) (simp only: step_eval)
  have p8: "pt_ab (smul 8 P) (hx 84222835190894300952016809250722187451322748680534053803383159533849117896358) (hx 49033607061085222021209751921454761872106177629748964146123312308918786929231)"
    by (rule dbl_step_smul [OF p4]) (simp only: step_eval, simp)
  have e8: "entry_ok (smul 8 P) (84222835190894300952016809250722187451322748680534053803383159533849117896358, 49033607061085222021209751921454761872106177629748964146123312308918786929231, 60413992331436458669682120803547793271911363120788211880316324667509308025525)"
    by (rule entry_okI [OF p8]) (simp only: step_eval)
  have p16: "pt_ab (smul 16 P) (hx 107727310267212216459471313226317777385212485495880482766298013730586968891265) (hx 80973201854015012090658977260797092655279359172354869634375106576683569250074)"
    by (rule dbl_step_smul [OF p8]) (simp only: step_eval, simp)
  have p32: "pt_ab (smul 32 P) (hx 107048699938213470164571379333171423679031592075079346818507533115521017474746) (hx 110636495484325713406858516021780018955210720371353909216534319448350208472929)"
    by (rule dbl_step_smul [OF p16]) (simp only: step_eval, simp)
  have p64: "pt_ab (smul 64 P) (hx 95199079943075808518013698199200732806049316637829077293604259401266343094847) (hx 59154580174430816253673549142393664574453336267057552482403188246452583977691)"
    by (rule dbl_step_smul [OF p32]) (simp only: step_eval, simp)
  have p128: "pt_ab (smul 128 P) (hx 88654575966875459162122536114861499225389532446274028294519161770066044269964) (hx 82806926374533005131112184701693705513839969525997225368120792591480407465545)"
    by (rule dbl_step_smul [OF p64]) (simp only: step_eval, simp)
  have p256: "pt_ab (smul 256 P) (hx 38614399944018774841874619744567688541674234741863684524942943020139982809839) (hx 48505121165379922461886898336479612765388474887105860416376525215747614379707)"
    by (rule dbl_step_smul [OF p128]) (simp only: step_eval, simp)
  show ?thesis
    unfolding row_28_def by (rule conjI [OF row_okI [OF e1 e2 e3 e4 e5 e6 e7 e8] p256])
qed

lemma row_28_at:
  "row_ok (smul (256 ^ 28) ed_B) row_28"
  "pt_ab (smul (256 ^ 29) ed_B) (hx 38614399944018774841874619744567688541674234741863684524942943020139982809839) (hx 48505121165379922461886898336479612765388474887105860416376525215747614379707)"
  using row_28_ok [of "smul (256 ^ 28) ed_B"] row_27_at(2) by (simp_all add: smul_smul [symmetric])

section \<open>Row 29\<close>

definition row_29 :: "(int \<times> int \<times> int) list" where
  "row_29 =
    [(38614399944018774841874619744567688541674234741863684524942943020139982809839,
      48505121165379922461886898336479612765388474887105860416376525215747614379707,
      46756611381111269285595117329783805397765013400277199111870658363298952756488),
     (43853701261912455923441270531967667749246327541842191113839369684855845204765,
      66874484788227108073505733540983020107029499257622283129937218778734804828905,
      70572941917788105942760907990068957091422039238068261016719030552343561486519),
     (54294213388916796992530374254552810828739051565564864269638570695184549243306,
      34806073630696101996150169385600326059105836379914135667729091897641236612322,
      82880457684424966038001292634817030710982887649267249978202855282799267175636),
     (72971659281193309853689777159827659616586217378290572530959584852661103344538,
      58010805812769174649342775439817430546019213412704418849726562432743167882601,
      44929224410478738818256187266510586835043997540055590037321792616337466033875),
     (83976775652890109534312242406343158528890613865667274156823400330017337801526,
      86353565203210047758777730928543500745877012681912993391383095661132264361764,
      47159646763591840255519415413727402799550151573416398846145168520961043146574),
     (37745862044049895782454286847811365723044920900743761870695053680390831083644,
      68622407252024479132488313006221844342917921647884475284428147762803682262804,
      70880090554829278865672760334355644007080543684021765002072911456547596292676),
     (78591104810154967673474817539937725136139456847907043196123855993257041332180,
      80984832625500030460613651785201924296195023653916758988482432538385836604505,
      85122703105304991159775897241518244726434490901547749533327567623933197382715),
     (29765637946262021533648645302873607328225430820154026049411436664788251001458,
      80984105202743139066440724205504398917730692768601120485417736579892506823387,
      75402495722794440604237411038408903151301599652325322784365194394962079088759)]"

lemma row_29_values: "map entry_values base_29 = row_29" "list_all entry_tight base_29"
  by (simp_all only: base_29_def row_29_def table_eval)

lemma row_29_ok:
  assumes "pt_ab (smul 1 P) (hx 38614399944018774841874619744567688541674234741863684524942943020139982809839) (hx 48505121165379922461886898336479612765388474887105860416376525215747614379707)"
  shows "row_ok P row_29 \<and> pt_ab (smul 256 P) (hx 56954426116747471208845910413092754843726869969412228097941105015544087774083) (hx 77996790218129623483291011940125346793287520815883359914600544105353413424226)"
proof -
  note p1 = assms
  have e1: "entry_ok (smul 1 P) (38614399944018774841874619744567688541674234741863684524942943020139982809839, 48505121165379922461886898336479612765388474887105860416376525215747614379707, 46756611381111269285595117329783805397765013400277199111870658363298952756488)"
    by (rule entry_okI [OF p1]) (simp only: step_eval)
  have p2: "pt_ab (smul 2 P) (hx 43853701261912455923441270531967667749246327541842191113839369684855845204765) (hx 66874484788227108073505733540983020107029499257622283129937218778734804828905)"
    by (rule dbl_step_smul [OF p1]) (simp only: step_eval, simp)
  have e2: "entry_ok (smul 2 P) (43853701261912455923441270531967667749246327541842191113839369684855845204765, 66874484788227108073505733540983020107029499257622283129937218778734804828905, 70572941917788105942760907990068957091422039238068261016719030552343561486519)"
    by (rule entry_okI [OF p2]) (simp only: step_eval)
  have p3: "pt_ab (smul 3 P) (hx 54294213388916796992530374254552810828739051565564864269638570695184549243306) (hx 34806073630696101996150169385600326059105836379914135667729091897641236612322)"
    by (rule add_step_smul [OF p2 e1]) (simp only: step_eval, simp)
  have e3: "entry_ok (smul 3 P) (54294213388916796992530374254552810828739051565564864269638570695184549243306, 34806073630696101996150169385600326059105836379914135667729091897641236612322, 82880457684424966038001292634817030710982887649267249978202855282799267175636)"
    by (rule entry_okI [OF p3]) (simp only: step_eval)
  have p4: "pt_ab (smul 4 P) (hx 72971659281193309853689777159827659616586217378290572530959584852661103344538) (hx 58010805812769174649342775439817430546019213412704418849726562432743167882601)"
    by (rule dbl_step_smul [OF p2]) (simp only: step_eval, simp)
  have e4: "entry_ok (smul 4 P) (72971659281193309853689777159827659616586217378290572530959584852661103344538, 58010805812769174649342775439817430546019213412704418849726562432743167882601, 44929224410478738818256187266510586835043997540055590037321792616337466033875)"
    by (rule entry_okI [OF p4]) (simp only: step_eval)
  have p5: "pt_ab (smul 5 P) (hx 83976775652890109534312242406343158528890613865667274156823400330017337801526) (hx 86353565203210047758777730928543500745877012681912993391383095661132264361764)"
    by (rule add_step_smul [OF p4 e1]) (simp only: step_eval, simp)
  have e5: "entry_ok (smul 5 P) (83976775652890109534312242406343158528890613865667274156823400330017337801526, 86353565203210047758777730928543500745877012681912993391383095661132264361764, 47159646763591840255519415413727402799550151573416398846145168520961043146574)"
    by (rule entry_okI [OF p5]) (simp only: step_eval)
  have p6: "pt_ab (smul 6 P) (hx 37745862044049895782454286847811365723044920900743761870695053680390831083644) (hx 68622407252024479132488313006221844342917921647884475284428147762803682262804)"
    by (rule dbl_step_smul [OF p3]) (simp only: step_eval, simp)
  have e6: "entry_ok (smul 6 P) (37745862044049895782454286847811365723044920900743761870695053680390831083644, 68622407252024479132488313006221844342917921647884475284428147762803682262804, 70880090554829278865672760334355644007080543684021765002072911456547596292676)"
    by (rule entry_okI [OF p6]) (simp only: step_eval)
  have p7: "pt_ab (smul 7 P) (hx 78591104810154967673474817539937725136139456847907043196123855993257041332180) (hx 80984832625500030460613651785201924296195023653916758988482432538385836604505)"
    by (rule add_step_smul [OF p6 e1]) (simp only: step_eval, simp)
  have e7: "entry_ok (smul 7 P) (78591104810154967673474817539937725136139456847907043196123855993257041332180, 80984832625500030460613651785201924296195023653916758988482432538385836604505, 85122703105304991159775897241518244726434490901547749533327567623933197382715)"
    by (rule entry_okI [OF p7]) (simp only: step_eval)
  have p8: "pt_ab (smul 8 P) (hx 29765637946262021533648645302873607328225430820154026049411436664788251001458) (hx 80984105202743139066440724205504398917730692768601120485417736579892506823387)"
    by (rule dbl_step_smul [OF p4]) (simp only: step_eval, simp)
  have e8: "entry_ok (smul 8 P) (29765637946262021533648645302873607328225430820154026049411436664788251001458, 80984105202743139066440724205504398917730692768601120485417736579892506823387, 75402495722794440604237411038408903151301599652325322784365194394962079088759)"
    by (rule entry_okI [OF p8]) (simp only: step_eval)
  have p16: "pt_ab (smul 16 P) (hx 64326576832874247266735840527702650010951791421422079034938359694605081403172) (hx 88218245841780501537912948098644287478176249518519845415275874897784274069189)"
    by (rule dbl_step_smul [OF p8]) (simp only: step_eval, simp)
  have p32: "pt_ab (smul 32 P) (hx 75603723328089539452581805006572901068394704379814928906049787676612732627319) (hx 100402059642498654620970680970708147866996373510255237083264432634193387163418)"
    by (rule dbl_step_smul [OF p16]) (simp only: step_eval, simp)
  have p64: "pt_ab (smul 64 P) (hx 100206822275099769876811984975862060085791584075952871633065236805913947598087) (hx 95382396648776184202545365272242473913492411758176788197745214255156944189837)"
    by (rule dbl_step_smul [OF p32]) (simp only: step_eval, simp)
  have p128: "pt_ab (smul 128 P) (hx 97202678718989683775766838859668737714455947951934350261193156993399137579121) (hx 84607841088966553468649855018887107734210690841995441891068492750276896475203)"
    by (rule dbl_step_smul [OF p64]) (simp only: step_eval, simp)
  have p256: "pt_ab (smul 256 P) (hx 56954426116747471208845910413092754843726869969412228097941105015544087774083) (hx 77996790218129623483291011940125346793287520815883359914600544105353413424226)"
    by (rule dbl_step_smul [OF p128]) (simp only: step_eval, simp)
  show ?thesis
    unfolding row_29_def by (rule conjI [OF row_okI [OF e1 e2 e3 e4 e5 e6 e7 e8] p256])
qed

lemma row_29_at:
  "row_ok (smul (256 ^ 29) ed_B) row_29"
  "pt_ab (smul (256 ^ 30) ed_B) (hx 56954426116747471208845910413092754843726869969412228097941105015544087774083) (hx 77996790218129623483291011940125346793287520815883359914600544105353413424226)"
  using row_29_ok [of "smul (256 ^ 29) ed_B"] row_28_at(2) by (simp_all add: smul_smul [symmetric])

section \<open>Row 30\<close>

definition row_30 :: "(int \<times> int \<times> int) list" where
  "row_30 =
    [(56954426116747471208845910413092754843726869969412228097941105015544087774083,
      77996790218129623483291011940125346793287520815883359914600544105353413424226,
      61921906592761310491191211246801784735389789387591055949660722891867334045287),
     (34688921428216153576382903819757726416501152379195583866036495193216294384377,
      79209959235833331999255427676142355173123649993016220271368729625066645565594,
      69489897165056986958466578622745938398210879037541757300707337597044244461111),
     (52206490616610799556298178050543519085579273256598487987187250099055297478077,
      29549489276967504964693125653529287505312605283055862667647586729061001070019,
      29461440705261793989499475881145339459901973887416494688513085396372631630772),
     (61233146307549204312454980809668634746604817470845808617684684661147424778931,
      67340421379512923316719615034594057029593211098894593231471061010618062395094,
      48490666376935677934953130718931602271117705438215088670071204751527945601418),
     (58676602533348214499229625803040114946148893736088448426100735060425730814656,
      72403194913768089874347121189167578060604464755016861939593044457336033820831,
      61824376946017095494498064929955635819629497354240715154283515531670724320534),
     (45294462303626582228033105179240404490570442207096070882998931654256441961547,
      80836106683667047443171100550225707447005677503756859603482699548647544005920,
      32584849120097026784998207596597014104040345101827618227698103193296908890986),
     (74495774868120826164737616298441065555104731812119820072688565802512809861644,
      32414848008025980356338067527284279981814046354727916498505397567355617419377,
      38155672227040185217136966072403314679474410517273189621103401178867080493251),
     (34889682207440803606743122710911767855267486988951914590709120766326586155489,
      64855612157127592203489352725321808923166164814207162772730776498892654787068,
      70588412071044854109040526260440323987728678270454728301241567552997496151846)]"

lemma row_30_values: "map entry_values base_30 = row_30" "list_all entry_tight base_30"
  by (simp_all only: base_30_def row_30_def table_eval)

lemma row_30_ok:
  assumes "pt_ab (smul 1 P) (hx 56954426116747471208845910413092754843726869969412228097941105015544087774083) (hx 77996790218129623483291011940125346793287520815883359914600544105353413424226)"
  shows "row_ok P row_30 \<and> pt_ab (smul 256 P) (hx 28957309340029271748431691920428163854179429286949309146369562153908901734992) (hx 64969405024422607265967185432710333824192523930716373786612117690305071037932)"
proof -
  note p1 = assms
  have e1: "entry_ok (smul 1 P) (56954426116747471208845910413092754843726869969412228097941105015544087774083, 77996790218129623483291011940125346793287520815883359914600544105353413424226, 61921906592761310491191211246801784735389789387591055949660722891867334045287)"
    by (rule entry_okI [OF p1]) (simp only: step_eval)
  have p2: "pt_ab (smul 2 P) (hx 34688921428216153576382903819757726416501152379195583866036495193216294384377) (hx 79209959235833331999255427676142355173123649993016220271368729625066645565594)"
    by (rule dbl_step_smul [OF p1]) (simp only: step_eval, simp)
  have e2: "entry_ok (smul 2 P) (34688921428216153576382903819757726416501152379195583866036495193216294384377, 79209959235833331999255427676142355173123649993016220271368729625066645565594, 69489897165056986958466578622745938398210879037541757300707337597044244461111)"
    by (rule entry_okI [OF p2]) (simp only: step_eval)
  have p3: "pt_ab (smul 3 P) (hx 52206490616610799556298178050543519085579273256598487987187250099055297478077) (hx 29549489276967504964693125653529287505312605283055862667647586729061001070019)"
    by (rule add_step_smul [OF p2 e1]) (simp only: step_eval, simp)
  have e3: "entry_ok (smul 3 P) (52206490616610799556298178050543519085579273256598487987187250099055297478077, 29549489276967504964693125653529287505312605283055862667647586729061001070019, 29461440705261793989499475881145339459901973887416494688513085396372631630772)"
    by (rule entry_okI [OF p3]) (simp only: step_eval)
  have p4: "pt_ab (smul 4 P) (hx 61233146307549204312454980809668634746604817470845808617684684661147424778931) (hx 67340421379512923316719615034594057029593211098894593231471061010618062395094)"
    by (rule dbl_step_smul [OF p2]) (simp only: step_eval, simp)
  have e4: "entry_ok (smul 4 P) (61233146307549204312454980809668634746604817470845808617684684661147424778931, 67340421379512923316719615034594057029593211098894593231471061010618062395094, 48490666376935677934953130718931602271117705438215088670071204751527945601418)"
    by (rule entry_okI [OF p4]) (simp only: step_eval)
  have p5: "pt_ab (smul 5 P) (hx 58676602533348214499229625803040114946148893736088448426100735060425730814656) (hx 72403194913768089874347121189167578060604464755016861939593044457336033820831)"
    by (rule add_step_smul [OF p4 e1]) (simp only: step_eval, simp)
  have e5: "entry_ok (smul 5 P) (58676602533348214499229625803040114946148893736088448426100735060425730814656, 72403194913768089874347121189167578060604464755016861939593044457336033820831, 61824376946017095494498064929955635819629497354240715154283515531670724320534)"
    by (rule entry_okI [OF p5]) (simp only: step_eval)
  have p6: "pt_ab (smul 6 P) (hx 45294462303626582228033105179240404490570442207096070882998931654256441961547) (hx 80836106683667047443171100550225707447005677503756859603482699548647544005920)"
    by (rule dbl_step_smul [OF p3]) (simp only: step_eval, simp)
  have e6: "entry_ok (smul 6 P) (45294462303626582228033105179240404490570442207096070882998931654256441961547, 80836106683667047443171100550225707447005677503756859603482699548647544005920, 32584849120097026784998207596597014104040345101827618227698103193296908890986)"
    by (rule entry_okI [OF p6]) (simp only: step_eval)
  have p7: "pt_ab (smul 7 P) (hx 74495774868120826164737616298441065555104731812119820072688565802512809861644) (hx 32414848008025980356338067527284279981814046354727916498505397567355617419377)"
    by (rule add_step_smul [OF p6 e1]) (simp only: step_eval, simp)
  have e7: "entry_ok (smul 7 P) (74495774868120826164737616298441065555104731812119820072688565802512809861644, 32414848008025980356338067527284279981814046354727916498505397567355617419377, 38155672227040185217136966072403314679474410517273189621103401178867080493251)"
    by (rule entry_okI [OF p7]) (simp only: step_eval)
  have p8: "pt_ab (smul 8 P) (hx 34889682207440803606743122710911767855267486988951914590709120766326586155489) (hx 64855612157127592203489352725321808923166164814207162772730776498892654787068)"
    by (rule dbl_step_smul [OF p4]) (simp only: step_eval, simp)
  have e8: "entry_ok (smul 8 P) (34889682207440803606743122710911767855267486988951914590709120766326586155489, 64855612157127592203489352725321808923166164814207162772730776498892654787068, 70588412071044854109040526260440323987728678270454728301241567552997496151846)"
    by (rule entry_okI [OF p8]) (simp only: step_eval)
  have p16: "pt_ab (smul 16 P) (hx 67821416810027739337502702391486883755748472307360285504538402548794897285019) (hx 102977336337551069765396452975387588828797765393997636617545690262469443638911)"
    by (rule dbl_step_smul [OF p8]) (simp only: step_eval, simp)
  have p32: "pt_ab (smul 32 P) (hx 101194862871637982170564995950345124718912729548770921965970368438253636555315) (hx 90781347111294455049755144449087883597852226068349047043231598042915554999788)"
    by (rule dbl_step_smul [OF p16]) (simp only: step_eval, simp)
  have p64: "pt_ab (smul 64 P) (hx 98804878628962295179946343535471831351083249912140324748444057503386161348067) (hx 75126124124623554833030178563828825027707106448792347458829185066759458513505)"
    by (rule dbl_step_smul [OF p32]) (simp only: step_eval, simp)
  have p128: "pt_ab (smul 128 P) (hx 101223472250553460635829760280281291650803443155761321699604398996226768304611) (hx 68397271445484363486251209629905452985562071257777832630364795442334445751393)"
    by (rule dbl_step_smul [OF p64]) (simp only: step_eval, simp)
  have p256: "pt_ab (smul 256 P) (hx 28957309340029271748431691920428163854179429286949309146369562153908901734992) (hx 64969405024422607265967185432710333824192523930716373786612117690305071037932)"
    by (rule dbl_step_smul [OF p128]) (simp only: step_eval, simp)
  show ?thesis
    unfolding row_30_def by (rule conjI [OF row_okI [OF e1 e2 e3 e4 e5 e6 e7 e8] p256])
qed

lemma row_30_at:
  "row_ok (smul (256 ^ 30) ed_B) row_30"
  "pt_ab (smul (256 ^ 31) ed_B) (hx 28957309340029271748431691920428163854179429286949309146369562153908901734992) (hx 64969405024422607265967185432710333824192523930716373786612117690305071037932)"
  using row_30_ok [of "smul (256 ^ 30) ed_B"] row_29_at(2) by (simp_all add: smul_smul [symmetric])

section \<open>Row 31\<close>

definition row_31 :: "(int \<times> int \<times> int) list" where
  "row_31 =
    [(28957309340029271748431691920428163854179429286949309146369562153908901734992,
      64969405024422607265967185432710333824192523930716373786612117690305071037932,
      72246607982086460380538895574790462270970412431145661960271930263127828890333),
     (48997078354922359392953681348738642700250004990005877538629618491609428197780,
      83759557717856345553880546651094615249949154056459847637296976972941613397291,
      75030043296903915464506883946133120233165233883618304798414464266004173829532),
     (48727009449226938798786782949688171079587356038639970941115895502353315471783,
      74785896590093950128769634217431045101969685111672229255931500103581781259875,
      38724541401710256678559740569471936530254576790913652461952847290597726107905),
     (66148370501150773547988775078535200489836971460488538112980504413612954248938,
      58650618302753237372407417933902193789707509867775759009263412535798413350082,
      33572536661375569004921805075754488383867189288021443687547939389622802656662),
     (47346081243913540532686937362547809179384790966356025094959276718954536714014,
      78177218902851092928031332942842480945714560491781630463165201676089394903949,
      40410227547729570449278558361013843123584963095392248155229714989912163861008),
     (78113674398830494590820235709822827977394778673000855706426227081365610964861,
      50941101305785328810304983486467436306968321449516022551746728672079811077015,
      51083371696377535553271074166070954184597606090113825130360340447734661982922),
     (31175392784226749672522496043786706273328578000764573892236343328409664925881,
      63092987430448218802201040235629108804106726590660484997055666988321415708192,
      75596569164917655129071586926263013416717682559245665632469435004235778741552),
     (69407714733964965094197249527714584837472688174989134915802409753585673401833,
      65906702117075365598595381976384618876757116601819162833984472423072847442971,
      65104015022790745284221580455194902520903861465125189199681935862904922849875)]"

lemma row_31_values: "map entry_values base_31 = row_31" "list_all entry_tight base_31"
  by (simp_all only: base_31_def row_31_def table_eval)

lemma row_31_ok:
  assumes "pt_ab (smul 1 P) (hx 28957309340029271748431691920428163854179429286949309146369562153908901734992) (hx 64969405024422607265967185432710333824192523930716373786612117690305071037932)"
  shows "row_ok P row_31 \<and> pt_ab (smul 256 P) (hx 66928798754586012026962509316089036924535015935122056832160649326545895055742) (hx 107000981214025892920336427219784436416013974622062600200077871315364698436646)"
proof -
  note p1 = assms
  have e1: "entry_ok (smul 1 P) (28957309340029271748431691920428163854179429286949309146369562153908901734992, 64969405024422607265967185432710333824192523930716373786612117690305071037932, 72246607982086460380538895574790462270970412431145661960271930263127828890333)"
    by (rule entry_okI [OF p1]) (simp only: step_eval)
  have p2: "pt_ab (smul 2 P) (hx 48997078354922359392953681348738642700250004990005877538629618491609428197780) (hx 83759557717856345553880546651094615249949154056459847637296976972941613397291)"
    by (rule dbl_step_smul [OF p1]) (simp only: step_eval, simp)
  have e2: "entry_ok (smul 2 P) (48997078354922359392953681348738642700250004990005877538629618491609428197780, 83759557717856345553880546651094615249949154056459847637296976972941613397291, 75030043296903915464506883946133120233165233883618304798414464266004173829532)"
    by (rule entry_okI [OF p2]) (simp only: step_eval)
  have p3: "pt_ab (smul 3 P) (hx 48727009449226938798786782949688171079587356038639970941115895502353315471783) (hx 74785896590093950128769634217431045101969685111672229255931500103581781259875)"
    by (rule add_step_smul [OF p2 e1]) (simp only: step_eval, simp)
  have e3: "entry_ok (smul 3 P) (48727009449226938798786782949688171079587356038639970941115895502353315471783, 74785896590093950128769634217431045101969685111672229255931500103581781259875, 38724541401710256678559740569471936530254576790913652461952847290597726107905)"
    by (rule entry_okI [OF p3]) (simp only: step_eval)
  have p4: "pt_ab (smul 4 P) (hx 66148370501150773547988775078535200489836971460488538112980504413612954248938) (hx 58650618302753237372407417933902193789707509867775759009263412535798413350082)"
    by (rule dbl_step_smul [OF p2]) (simp only: step_eval, simp)
  have e4: "entry_ok (smul 4 P) (66148370501150773547988775078535200489836971460488538112980504413612954248938, 58650618302753237372407417933902193789707509867775759009263412535798413350082, 33572536661375569004921805075754488383867189288021443687547939389622802656662)"
    by (rule entry_okI [OF p4]) (simp only: step_eval)
  have p5: "pt_ab (smul 5 P) (hx 47346081243913540532686937362547809179384790966356025094959276718954536714014) (hx 78177218902851092928031332942842480945714560491781630463165201676089394903949)"
    by (rule add_step_smul [OF p4 e1]) (simp only: step_eval, simp)
  have e5: "entry_ok (smul 5 P) (47346081243913540532686937362547809179384790966356025094959276718954536714014, 78177218902851092928031332942842480945714560491781630463165201676089394903949, 40410227547729570449278558361013843123584963095392248155229714989912163861008)"
    by (rule entry_okI [OF p5]) (simp only: step_eval)
  have p6: "pt_ab (smul 6 P) (hx 78113674398830494590820235709822827977394778673000855706426227081365610964861) (hx 50941101305785328810304983486467436306968321449516022551746728672079811077015)"
    by (rule dbl_step_smul [OF p3]) (simp only: step_eval, simp)
  have e6: "entry_ok (smul 6 P) (78113674398830494590820235709822827977394778673000855706426227081365610964861, 50941101305785328810304983486467436306968321449516022551746728672079811077015, 51083371696377535553271074166070954184597606090113825130360340447734661982922)"
    by (rule entry_okI [OF p6]) (simp only: step_eval)
  have p7: "pt_ab (smul 7 P) (hx 31175392784226749672522496043786706273328578000764573892236343328409664925881) (hx 63092987430448218802201040235629108804106726590660484997055666988321415708192)"
    by (rule add_step_smul [OF p6 e1]) (simp only: step_eval, simp)
  have e7: "entry_ok (smul 7 P) (31175392784226749672522496043786706273328578000764573892236343328409664925881, 63092987430448218802201040235629108804106726590660484997055666988321415708192, 75596569164917655129071586926263013416717682559245665632469435004235778741552)"
    by (rule entry_okI [OF p7]) (simp only: step_eval)
  have p8: "pt_ab (smul 8 P) (hx 69407714733964965094197249527714584837472688174989134915802409753585673401833) (hx 65906702117075365598595381976384618876757116601819162833984472423072847442971)"
    by (rule dbl_step_smul [OF p4]) (simp only: step_eval, simp)
  have e8: "entry_ok (smul 8 P) (69407714733964965094197249527714584837472688174989134915802409753585673401833, 65906702117075365598595381976384618876757116601819162833984472423072847442971, 65104015022790745284221580455194902520903861465125189199681935862904922849875)"
    by (rule entry_okI [OF p8]) (simp only: step_eval)
  have p16: "pt_ab (smul 16 P) (hx 91173234361752643015668024602251883892754410170241479561837184805983343089316) (hx 111030675321753127403597651215663890649311717001913032882700922049227699023526)"
    by (rule dbl_step_smul [OF p8]) (simp only: step_eval, simp)
  have p32: "pt_ab (smul 32 P) (hx 85986164666758146110390617442393164521918156347833745589929844776227936202897) (hx 96326817295540379881620909980050376100126785403411222089474256927047732815758)"
    by (rule dbl_step_smul [OF p16]) (simp only: step_eval, simp)
  have p64: "pt_ab (smul 64 P) (hx 96993358780675088372040550218354430296539677023929646918091787867029746599027) (hx 92134432004361523400120938049435744987528267462624040973608183830870591322169)"
    by (rule dbl_step_smul [OF p32]) (simp only: step_eval, simp)
  have p128: "pt_ab (smul 128 P) (hx 95665510483918862200426833847001450499512814276455899037251153240361934990023) (hx 79420233902317394409707741322382225117437915234558413615349092670727821814767)"
    by (rule dbl_step_smul [OF p64]) (simp only: step_eval, simp)
  have p256: "pt_ab (smul 256 P) (hx 66928798754586012026962509316089036924535015935122056832160649326545895055742) (hx 107000981214025892920336427219784436416013974622062600200077871315364698436646)"
    by (rule dbl_step_smul [OF p128]) (simp only: step_eval, simp)
  show ?thesis
    unfolding row_31_def by (rule conjI [OF row_okI [OF e1 e2 e3 e4 e5 e6 e7 e8] p256])
qed

lemma row_31_at:
  "row_ok (smul (256 ^ 31) ed_B) row_31"
  "pt_ab (smul (256 ^ 32) ed_B) (hx 66928798754586012026962509316089036924535015935122056832160649326545895055742) (hx 107000981214025892920336427219784436416013974622062600200077871315364698436646)"
  using row_31_ok [of "smul (256 ^ 31) ed_B"] row_30_at(2) by (simp_all add: smul_smul [symmetric])

end
