(* ===== verification/GeTableCheck.thy ===== *)
theory GeTableCheck
  imports GeRows3 Sc25519
begin

text \<open>
  Both tables of \<^verbatim>\<open>precomp_data.h\<close> hold the multiples of the base point their comments name, and the
  base point has order \<open>l\<close>.
\<close>

section \<open>The table \<open>base\<close>\<close>

definition row_good :: "nat \<Rightarrow> bool" where
  "row_good i \<longleftrightarrow> row_ok (smul (256 ^ i) ed_B) (map entry_values (base ! i)) \<and> list_all entry_tight (base ! i)"

lemma base_nth:
  "base ! 0 = base_0"
  "base ! 1 = base_1"
  "base ! 2 = base_2"
  "base ! 3 = base_3"
  "base ! 4 = base_4"
  "base ! 5 = base_5"
  "base ! 6 = base_6"
  "base ! 7 = base_7"
  "base ! 8 = base_8"
  "base ! 9 = base_9"
  "base ! 10 = base_10"
  "base ! 11 = base_11"
  "base ! 12 = base_12"
  "base ! 13 = base_13"
  "base ! 14 = base_14"
  "base ! 15 = base_15"
  "base ! 16 = base_16"
  "base ! 17 = base_17"
  "base ! 18 = base_18"
  "base ! 19 = base_19"
  "base ! 20 = base_20"
  "base ! 21 = base_21"
  "base ! 22 = base_22"
  "base ! 23 = base_23"
  "base ! 24 = base_24"
  "base ! 25 = base_25"
  "base ! 26 = base_26"
  "base ! 27 = base_27"
  "base ! 28 = base_28"
  "base ! 29 = base_29"
  "base ! 30 = base_30"
  "base ! 31 = base_31"
  by (simp_all add: base_def)

lemma row_good_0: "row_good 0"
  unfolding row_good_def base_nth row_0_values(1) by (rule conjI [OF row_0_at(1) row_0_values(2)])

lemma row_good_1: "row_good 1"
  unfolding row_good_def base_nth row_1_values(1) by (rule conjI [OF row_1_at(1) row_1_values(2)])

lemma row_good_2: "row_good 2"
  unfolding row_good_def base_nth row_2_values(1) by (rule conjI [OF row_2_at(1) row_2_values(2)])

lemma row_good_3: "row_good 3"
  unfolding row_good_def base_nth row_3_values(1) by (rule conjI [OF row_3_at(1) row_3_values(2)])

lemma row_good_4: "row_good 4"
  unfolding row_good_def base_nth row_4_values(1) by (rule conjI [OF row_4_at(1) row_4_values(2)])

lemma row_good_5: "row_good 5"
  unfolding row_good_def base_nth row_5_values(1) by (rule conjI [OF row_5_at(1) row_5_values(2)])

lemma row_good_6: "row_good 6"
  unfolding row_good_def base_nth row_6_values(1) by (rule conjI [OF row_6_at(1) row_6_values(2)])

lemma row_good_7: "row_good 7"
  unfolding row_good_def base_nth row_7_values(1) by (rule conjI [OF row_7_at(1) row_7_values(2)])

lemma row_good_8: "row_good 8"
  unfolding row_good_def base_nth row_8_values(1) by (rule conjI [OF row_8_at(1) row_8_values(2)])

lemma row_good_9: "row_good 9"
  unfolding row_good_def base_nth row_9_values(1) by (rule conjI [OF row_9_at(1) row_9_values(2)])

lemma row_good_10: "row_good 10"
  unfolding row_good_def base_nth row_10_values(1) by (rule conjI [OF row_10_at(1) row_10_values(2)])

lemma row_good_11: "row_good 11"
  unfolding row_good_def base_nth row_11_values(1) by (rule conjI [OF row_11_at(1) row_11_values(2)])

lemma row_good_12: "row_good 12"
  unfolding row_good_def base_nth row_12_values(1) by (rule conjI [OF row_12_at(1) row_12_values(2)])

lemma row_good_13: "row_good 13"
  unfolding row_good_def base_nth row_13_values(1) by (rule conjI [OF row_13_at(1) row_13_values(2)])

lemma row_good_14: "row_good 14"
  unfolding row_good_def base_nth row_14_values(1) by (rule conjI [OF row_14_at(1) row_14_values(2)])

lemma row_good_15: "row_good 15"
  unfolding row_good_def base_nth row_15_values(1) by (rule conjI [OF row_15_at(1) row_15_values(2)])

lemma row_good_16: "row_good 16"
  unfolding row_good_def base_nth row_16_values(1) by (rule conjI [OF row_16_at(1) row_16_values(2)])

lemma row_good_17: "row_good 17"
  unfolding row_good_def base_nth row_17_values(1) by (rule conjI [OF row_17_at(1) row_17_values(2)])

lemma row_good_18: "row_good 18"
  unfolding row_good_def base_nth row_18_values(1) by (rule conjI [OF row_18_at(1) row_18_values(2)])

lemma row_good_19: "row_good 19"
  unfolding row_good_def base_nth row_19_values(1) by (rule conjI [OF row_19_at(1) row_19_values(2)])

lemma row_good_20: "row_good 20"
  unfolding row_good_def base_nth row_20_values(1) by (rule conjI [OF row_20_at(1) row_20_values(2)])

lemma row_good_21: "row_good 21"
  unfolding row_good_def base_nth row_21_values(1) by (rule conjI [OF row_21_at(1) row_21_values(2)])

lemma row_good_22: "row_good 22"
  unfolding row_good_def base_nth row_22_values(1) by (rule conjI [OF row_22_at(1) row_22_values(2)])

lemma row_good_23: "row_good 23"
  unfolding row_good_def base_nth row_23_values(1) by (rule conjI [OF row_23_at(1) row_23_values(2)])

lemma row_good_24: "row_good 24"
  unfolding row_good_def base_nth row_24_values(1) by (rule conjI [OF row_24_at(1) row_24_values(2)])

lemma row_good_25: "row_good 25"
  unfolding row_good_def base_nth row_25_values(1) by (rule conjI [OF row_25_at(1) row_25_values(2)])

lemma row_good_26: "row_good 26"
  unfolding row_good_def base_nth row_26_values(1) by (rule conjI [OF row_26_at(1) row_26_values(2)])

lemma row_good_27: "row_good 27"
  unfolding row_good_def base_nth row_27_values(1) by (rule conjI [OF row_27_at(1) row_27_values(2)])

lemma row_good_28: "row_good 28"
  unfolding row_good_def base_nth row_28_values(1) by (rule conjI [OF row_28_at(1) row_28_values(2)])

lemma row_good_29: "row_good 29"
  unfolding row_good_def base_nth row_29_values(1) by (rule conjI [OF row_29_at(1) row_29_values(2)])

lemma row_good_30: "row_good 30"
  unfolding row_good_def base_nth row_30_values(1) by (rule conjI [OF row_30_at(1) row_30_values(2)])

lemma row_good_31: "row_good 31"
  unfolding row_good_def base_nth row_31_values(1) by (rule conjI [OF row_31_at(1) row_31_values(2)])

lemmas rows_good = row_good_0 row_good_1 row_good_2 row_good_3 row_good_4 row_good_5 row_good_6 row_good_7
  row_good_8 row_good_9 row_good_10 row_good_11 row_good_12 row_good_13 row_good_14 row_good_15
  row_good_16 row_good_17 row_good_18 row_good_19 row_good_20 row_good_21 row_good_22 row_good_23
  row_good_24 row_good_25 row_good_26 row_good_27 row_good_28 row_good_29 row_good_30 row_good_31

lemma row_good_all: "i < 32 \<Longrightarrow> row_good i"
proof -
  assume "i < 32"
  then have "i = 31 \<or> i = 30 \<or> i = 29 \<or> i = 28 \<or> i = 27 \<or> i = 26 \<or> i = 25 \<or> i = 24 \<or>
    i = 23 \<or> i = 22 \<or> i = 21 \<or> i = 20 \<or> i = 19 \<or> i = 18 \<or> i = 17 \<or> i = 16 \<or> i = 15 \<or> i = 14 \<or> i = 13 \<or> i = 12 \<or>
    i = 11 \<or> i = 10 \<or> i = 9 \<or> i = 8 \<or> i = 7 \<or> i = 6 \<or> i = 5 \<or> i = 4 \<or> i = 3 \<or> i = 2 \<or> i = 1 \<or> i = 0" by presburger
  then show ?thesis by (elim disjE) (simp_all only: rows_good)
qed

lemma base_rep: "i < 32 \<Longrightarrow> j < 8 \<Longrightarrow> rep_precomp (smul ((int j + 1) * 256 ^ i) ed_B) (base ! i ! j)"
  unfolding smul_smul using row_good_all [of i] by (auto simp: row_good_def intro: row_rep)

lemma row_entry: "row_ok (smul N P) vs \<Longrightarrow> j < 8 \<Longrightarrow> m = (int j + 1) * N \<Longrightarrow> entry_ok (smul m P) (vs ! j)"
  by (simp add: row_ok_def smul_smul)

section \<open>The table \<open>Bi\<close>\<close>

lemma Bi_values:
  "map entry_values Bi =
    [(61429057044461878941929545413063694652762006559298082821829146887115099618162,
      31204614345391077396927242593886631629853981173214368409736920319215404093758,
      50237614328228664512531835696112167678046477356841409204013502641986506238568),
     (55221577242988382633613921715755988927347615506430221002982523990194636363568,
      77220199551394700742937817533670321202525203611805453669957464438525946286674,
      40779097241408971452228116607583414735230162954196233009433085899742953658505),
     (76564198319108462758606260645408683840357713852702374442006192267712847526688,
      67526233866893488459889458650753287366845325972203524895917469654026178516647,
      30606639029984443449548711300126286734648431208933888345371544935567354135173),
     (31711222115254622247534096269438047277815809670749515453120456498656435938239,
      71208998202794674016308517968165282090459692284537292267761691912538032316830,
      55464387603073125013932436385527479500842401496857817399907801729203523072930),
     (81744816555437635418386247868196284569326027531964962001058633603400132485916,
      33358695950361614583925271808519256405884421684945271723330695989338484605028,
      52357765926424945578408752779084598596693712112103136963171288052321514532635),
     (30060548511792857161490863918616842674472112613249574336675186204794201058014,
      69054301543437380166526035667437734737933066763683190254682774291095975510837,
      85837551685228150698563843776059708949032492899979273131619508091421328443862),
     (73868065549686862914142428826962862292079227098414561134623260136360435023706,
      58983595416659301332582629254297911320397717910957306742759741921684826865536,
      33237312664213247073394209876351444910698636488186827598268510754927446762360),
     (44273937366294891980395583359278962421509549251851624370413480066653195594400,
      30626176813774521173184229023175236149481611499753231178919926386272687148811,
      36689249660344293493892821654230283378144754582372867911177117475716794987798)]"
  "list_all entry_tight Bi"
  by (simp_all only: Bi_def table_eval)

lemma Bi_entries:
  "entry_ok (smul 1 ed_B) (61429057044461878941929545413063694652762006559298082821829146887115099618162, 31204614345391077396927242593886631629853981173214368409736920319215404093758, 50237614328228664512531835696112167678046477356841409204013502641986506238568)"
  "entry_ok (smul 3 ed_B) (55221577242988382633613921715755988927347615506430221002982523990194636363568, 77220199551394700742937817533670321202525203611805453669957464438525946286674, 40779097241408971452228116607583414735230162954196233009433085899742953658505)"
  "entry_ok (smul 5 ed_B) (76564198319108462758606260645408683840357713852702374442006192267712847526688, 67526233866893488459889458650753287366845325972203524895917469654026178516647, 30606639029984443449548711300126286734648431208933888345371544935567354135173)"
  "entry_ok (smul 7 ed_B) (31711222115254622247534096269438047277815809670749515453120456498656435938239, 71208998202794674016308517968165282090459692284537292267761691912538032316830, 55464387603073125013932436385527479500842401496857817399907801729203523072930)"
  "entry_ok (smul 9 ed_B) (81744816555437635418386247868196284569326027531964962001058633603400132485916, 33358695950361614583925271808519256405884421684945271723330695989338484605028, 52357765926424945578408752779084598596693712112103136963171288052321514532635)"
  "entry_ok (smul 11 ed_B) (30060548511792857161490863918616842674472112613249574336675186204794201058014, 69054301543437380166526035667437734737933066763683190254682774291095975510837, 85837551685228150698563843776059708949032492899979273131619508091421328443862)"
  "entry_ok (smul 13 ed_B) (73868065549686862914142428826962862292079227098414561134623260136360435023706, 58983595416659301332582629254297911320397717910957306742759741921684826865536, 33237312664213247073394209876351444910698636488186827598268510754927446762360)"
  "entry_ok (smul 15 ed_B) (44273937366294891980395583359278962421509549251851624370413480066653195594400, 30626176813774521173184229023175236149481611499753231178919926386272687148811, 36689249660344293493892821654230283378144754582372867911177117475716794987798)"
proof -
  have d: "entry_ok (smul 2 ed_B) (40277088815386731178907243282125131086172340233842699037233503275583876657623, 48718306963831746885583586643117907343561796231867704143509447914497974261160, 50706672771372854810760959653406682044345679494001682866047262582014706678367)"
    using row_entry [OF row_0_at(1), of 1 2] by (simp add: row_0_def)
  note p1 = base_start
  show "entry_ok (smul 1 ed_B) (61429057044461878941929545413063694652762006559298082821829146887115099618162, 31204614345391077396927242593886631629853981173214368409736920319215404093758, 50237614328228664512531835696112167678046477356841409204013502641986506238568)"
    by (rule entry_okI [OF p1]) (simp only: step_eval)
  have p3: "pt_ab (smul 3 ed_B) (hx 55221577242988382633613921715755988927347615506430221002982523990194636363568) (hx 77220199551394700742937817533670321202525203611805453669957464438525946286674)"
    by (rule add_step_smul [OF p1 d]) (simp only: step_eval, simp)
  show "entry_ok (smul 3 ed_B) (55221577242988382633613921715755988927347615506430221002982523990194636363568, 77220199551394700742937817533670321202525203611805453669957464438525946286674, 40779097241408971452228116607583414735230162954196233009433085899742953658505)"
    by (rule entry_okI [OF p3]) (simp only: step_eval)
  have p5: "pt_ab (smul 5 ed_B) (hx 76564198319108462758606260645408683840357713852702374442006192267712847526688) (hx 67526233866893488459889458650753287366845325972203524895917469654026178516647)"
    by (rule add_step_smul [OF p3 d]) (simp only: step_eval, simp)
  show "entry_ok (smul 5 ed_B) (76564198319108462758606260645408683840357713852702374442006192267712847526688, 67526233866893488459889458650753287366845325972203524895917469654026178516647, 30606639029984443449548711300126286734648431208933888345371544935567354135173)"
    by (rule entry_okI [OF p5]) (simp only: step_eval)
  have p7: "pt_ab (smul 7 ed_B) (hx 31711222115254622247534096269438047277815809670749515453120456498656435938239) (hx 71208998202794674016308517968165282090459692284537292267761691912538032316830)"
    by (rule add_step_smul [OF p5 d]) (simp only: step_eval, simp)
  show "entry_ok (smul 7 ed_B) (31711222115254622247534096269438047277815809670749515453120456498656435938239, 71208998202794674016308517968165282090459692284537292267761691912538032316830, 55464387603073125013932436385527479500842401496857817399907801729203523072930)"
    by (rule entry_okI [OF p7]) (simp only: step_eval)
  have p9: "pt_ab (smul 9 ed_B) (hx 81744816555437635418386247868196284569326027531964962001058633603400132485916) (hx 33358695950361614583925271808519256405884421684945271723330695989338484605028)"
    by (rule add_step_smul [OF p7 d]) (simp only: step_eval, simp)
  show "entry_ok (smul 9 ed_B) (81744816555437635418386247868196284569326027531964962001058633603400132485916, 33358695950361614583925271808519256405884421684945271723330695989338484605028, 52357765926424945578408752779084598596693712112103136963171288052321514532635)"
    by (rule entry_okI [OF p9]) (simp only: step_eval)
  have p11: "pt_ab (smul 11 ed_B) (hx 30060548511792857161490863918616842674472112613249574336675186204794201058014) (hx 69054301543437380166526035667437734737933066763683190254682774291095975510837)"
    by (rule add_step_smul [OF p9 d]) (simp only: step_eval, simp)
  show "entry_ok (smul 11 ed_B) (30060548511792857161490863918616842674472112613249574336675186204794201058014, 69054301543437380166526035667437734737933066763683190254682774291095975510837, 85837551685228150698563843776059708949032492899979273131619508091421328443862)"
    by (rule entry_okI [OF p11]) (simp only: step_eval)
  have p13: "pt_ab (smul 13 ed_B) (hx 73868065549686862914142428826962862292079227098414561134623260136360435023706) (hx 58983595416659301332582629254297911320397717910957306742759741921684826865536)"
    by (rule add_step_smul [OF p11 d]) (simp only: step_eval, simp)
  show "entry_ok (smul 13 ed_B) (73868065549686862914142428826962862292079227098414561134623260136360435023706, 58983595416659301332582629254297911320397717910957306742759741921684826865536, 33237312664213247073394209876351444910698636488186827598268510754927446762360)"
    by (rule entry_okI [OF p13]) (simp only: step_eval)
  have p15: "pt_ab (smul 15 ed_B) (hx 44273937366294891980395583359278962421509549251851624370413480066653195594400) (hx 30626176813774521173184229023175236149481611499753231178919926386272687148811)"
    by (rule add_step_smul [OF p13 d]) (simp only: step_eval, simp)
  show "entry_ok (smul 15 ed_B) (44273937366294891980395583359278962421509549251851624370413480066653195594400, 30626176813774521173184229023175236149481611499753231178919926386272687148811, 36689249660344293493892821654230283378144754582372867911177117475716794987798)"
    by (rule entry_okI [OF p15]) (simp only: step_eval)
qed

lemma Bi_rep: "k < 8 \<Longrightarrow> rep_precomp (smul (2 * int k + 1) ed_B) (Bi ! k)"
proof (rule entry_rep)
  assume k: "k < 8"
  have l: "length Bi = 8" by (simp add: Bi_def)
  have "entry_ok (smul (2 * int k + 1) ed_B) (map entry_values Bi ! k)"
    using k Bi_entries unfolding Bi_values(1) by (auto simp: less_Suc_eq numeral_eq_Suc)
  then show "entry_ok (smul (2 * int k + 1) ed_B) (entry_values (Bi ! k))" using k l by simp
  show "entry_tight (Bi ! k)" using Bi_values(2) k l by (simp add: list_all_length)
qed

section \<open>The order of the base point\<close>

text \<open>The sum of the table's entries selected by the signed radix 16 digits of \<open>l\<close>.\<close>

lemma entry_neg:
  assumes "entry_ok (smul k P) (a, b, t)" "0 \<le> t" "0 \<le> t'" "t + t' = 4 * p25519" "k' = - k"
  shows "entry_ok (smul k' P) (b, a, t')"
proof -
  have "(of_int t' :: gf) = of_int (4 * p25519 - t)" using assms(4) by (metis add_diff_cancel_left')
  then have "of_int t' = - (of_int t :: gf)" by (simp only: of_int_diff of_int_mult gf_p_zero mult_zero_right diff_0)
  then show ?thesis using assms(1-3,5) by (simp add: entry_ok_def pt_ab_def gfh_hx smul_uminus)
qed

lemma order_1: "pt_ab (smul 100663296 ed_B) (hx 70011988723807759557071715537767298232252552353393731972645282578815316751004) (hx 80099103549798639286265742544117274502558304162349580020436348587456880148659)"
  using row_entry [OF row_3_at(1), of 5 100663296] by (simp add: row_3_def entry_ok_def)

lemma order_2: "pt_ab (smul 6597170429952 ed_B) (hx 110005432203381273321113270057275409476462653986950873753476190079188371001612) (hx 79497394374070620859201723382486655523880696278456915410476865779168690189399)"
proof -
  have e: "entry_ok (smul 6597069766656 ed_B) (83529638474113966042149495063331246089817604644512121593030297320996259433389, 42344858361513750120424994680316276210767350373364243096055721633237400821265, 73670107449898375691422228502322449185921654816946392612886226152028109910312)"
    using row_entry [OF row_5_at(1), of 5 6597069766656] by (simp add: row_5_def)
  show ?thesis
    by (rule add_step_smul [OF order_1 e]) (simp only: step_eval, simp)
qed

lemma order_3: "pt_ab (smul 360294567360069632 ed_B) (hx 67017559319205290062692483760013453126812096217721316063686835358744172844496) (hx 82013183123158958313750345175787341925965113991288112768223538179646050045220)"
proof -
  have e: "entry_ok (smul 360287970189639680 ed_B) (80502006651219099972692419640990131958128108082802482146943696437958522162465, 50664813297096328312443921941464385705730385675291923877743585599692826537258, 74509949633029554291599369439257092748934361510250340815809126508006418555617)"
    using row_entry [OF row_7_at(1), of 4 360287970189639680] by (simp add: row_7_def)
  show ?thesis
    by (rule add_step_smul [OF order_2 e]) (simp only: step_eval, simp)
qed

lemma order_4: "pt_ab (smul 360294575950004224 ed_B) (hx 71142496251000574964147158702205080486706045227759517709825528413562978502226) (hx 76109321992424332623813468316546340590828714938345752368591626345145331256342)"
proof -
  have e: "entry_ok (smul 8589934592 ed_B) (86363741486165988436078239048779859463412786805683255470149213965820327949536, 76088885965822497127558912511508457650146763058675727610696050569854811896483, 73212349373537138626492527211390000712527035229766596736091210063622674206749)"
    using row_entry [OF row_4_at(1), of 1 8589934592] by (simp add: row_4_def)
  show ?thesis
    by (rule add_step_smul [OF order_3 e]) (simp only: step_eval, simp)
qed

lemma order_5: "pt_ab (smul 360576050926714880 ed_B) (hx 113225706595827689899123053980017192584619928502638445344299230446511185335886) (hx 85913039199900456863023369251002183533158538662095774827575444198779656006608)"
proof -
  have e: "entry_ok (smul 281474976710656 ed_B) (73950484889952416065166701208999302102512891102713240600081619585921815285480, 57072792372353150577952531993815517704881297633921566672937422958968335766577, 51421699959658133488712029380485152858798520627392651264474919470745381876784)"
    using row_entry [OF row_6_at(1), of 0 281474976710656] by (simp add: row_6_def)
  show ?thesis
    by (rule add_step_smul [OF order_4 e]) (simp only: step_eval, simp)
qed

lemma order_6: "pt_ab (smul 1329227995784915873264383111207059456 ed_B) (hx 77642319503975566736606395319690320884170755857511506744410741192125419680853) (hx 99932803869489173651733799695862521298937141753944062359004214770785835800568)"
proof -
  have e: "entry_ok (smul 1329227995784915872903807060280344576 ed_B) (57395309720386242646754846189974251205032425858971487761196482955580035093129, 45053854337161548003772049549845281962137326347197926600072792067971101755950, 64622936853430932105539456713452172469567770758835301848210699345909687361968)"
    using row_entry [OF row_15_at(1), of 0 1329227995784915872903807060280344576] by (simp add: row_15_def)
  show ?thesis
    by (rule add_step_smul [OF order_5 e]) (simp only: step_eval, simp)
qed

lemma order_7: "pt_ab (smul 452312848583266388373324160190187140053165105595943369152395570642117722112 ed_B) (hx 114875787324595664633682920018648507354546916983302843743703616550891128305887) (hx 102793733948539961524121808864018701529996083305228961970659278232451949012688)"
proof -
  have e: "entry_ok (smul 452312848583266388373324160190187140051835877600158453279131187530910662656 ed_B) (28957309340029271748431691920428163854179429286949309146369562153908901734992, 64969405024422607265967185432710333824192523930716373786612117690305071037932, 72246607982086460380538895574790462270970412431145661960271930263127828890333)"
    using row_entry [OF row_31_at(1), of 0 452312848583266388373324160190187140051835877600158453279131187530910662656] by (simp add: row_31_def)
  show ?thesis
    by (rule add_step_smul [OF order_6 e]) (simp only: step_eval, simp)
qed

lemma order_8: "pt_ab (smul 452312848583266388373324160190187140053165105595943369152395570642117722111 ed_B) (hx 113316692293613542258857867136814103258298122117365617825576447640665175234130) (hx 99612199160649146029690751138792945658861833479556418823738357634250193149577)"
proof -
  have e: "entry_ok (smul 1 ed_B) (61429057044461878941929545413063694652762006559298082821829146887115099618162, 31204614345391077396927242593886631629853981173214368409736920319215404093758, 50237614328228664512531835696112167678046477356841409204013502641986506238568)"
    using row_entry [OF row_0_at(1), of 0 1] by (simp add: row_0_def)
  have n: "entry_ok (smul (- 1) ed_B) (31204614345391077396927242593886631629853981173214368409736920319215404093758, 61429057044461878941929545413063694652762006559298082821829146887115099618162, 181346564146403726334610134321263648028493491974439718874901665373839753041228)"
    by (rule entry_neg [OF e]) (simp_all add: p25519_def)
  show ?thesis
    by (rule add_step_smul [OF order_7 n]) (simp only: step_eval, simp)
qed

lemma order_9: "pt_ab (smul 452312848583266388373324160190187140053165105595943369152395570642117656575 ed_B) (hx 111395856428775763844386824022368667343886635485414205233870414739994113718137) (hx 113127346481386929238630919029038329807428216515164976165632937945019711611442)"
proof -
  have e: "entry_ok (smul 65536 ed_B) (62657904700653481321386288488285963831279664627082317679046368155948714201499, 35604016480507116089823476989913686364420168017036822542463197598154674620094, 86347914595065187934226500471270792540227427414221594435712809481424535849334)"
    using row_entry [OF row_2_at(1), of 0 65536] by (simp add: row_2_def)
  have n: "entry_ok (smul (- 65536) ed_B) (35604016480507116089823476989913686364420168017036822542463197598154674620094, 62657904700653481321386288488285963831279664627082317679046368155948714201499, 145236263879567202912915469546105023166312541917059533643202358534401723430462)"
    by (rule entry_neg [OF e]) (simp_all add: p25519_def)
  show ?thesis
    by (rule add_step_smul [OF order_8 n]) (simp only: step_eval, simp)
qed

lemma order_10: "pt_ab (smul 452312848583266388373324160190187140053165105595942160226575956012942950399 ed_B) (hx 87787784195686334069238114866316073168650256094368777439386838867997594616579) (hx 102181744621715668000525714241649418678585213653711287034834514473660303803933)"
proof -
  have e: "entry_ok (smul 1208925819614629174706176 ed_B) (70447191413938442497790775929550681300974860637677796582743920525889559287278, 40997792406406923892931960786496672588770492779968430725449858439819538674675, 33485073730374884379083389779227338234729520923942262865850302142554981360993)"
    using row_entry [OF row_10_at(1), of 0 1208925819614629174706176] by (simp add: row_10_def)
  have n: "entry_ok (smul (- 1208925819614629174706176) ed_B) (40997792406406923892931960786496672588770492779968430725449858439819538674675, 70447191413938442497790775929550681300974860637677796582743920525889559287278, 198099104744257506468058580238148477471810448407338865213064865873271277918803)"
    by (rule entry_neg [OF e]) (simp_all add: p25519_def)
  show ?thesis
    by (rule add_step_smul [OF order_9 n]) (simp only: step_eval, simp)
qed

lemma order_11: "pt_ab (smul 452312848583266388373324160190187140053165105437485835198047280825855049727 ed_B) (hx 100756046262136944484540425788975639820295865157621697451487101914408640765966) (hx 111563714894778726750810276945006853249294319872043806125894789422261767416312)"
proof -
  have e: "entry_ok (smul 158456325028528675187087900672 ed_B) (73652846098691630712221931503331997565306642276340127221539335223998290055465, 53249647316924474924764553206973140789479264795143211720665224465792826909332, 61975366537746548867756426721601766056913924593774248056223117854286023610755)"
    using row_entry [OF row_12_at(1), of 1 158456325028528675187087900672] by (simp add: row_12_def)
  have n: "entry_ok (smul (- 158456325028528675187087900672) ed_B) (53249647316924474924764553206973140789479264795143211720665224465792826909332, 73652846098691630712221931503331997565306642276340127221539335223998290055465, 169608811936885841979385543295774049649626044737506880022692050161540235669041)"
    by (rule entry_neg [OF e]) (simp_all add: p25519_def)
  show ?thesis
    by (rule add_step_smul [OF order_10 n]) (simp only: step_eval, simp)
qed

lemma order_12: "pt_ab (smul 452312848583266388373324160190187140053154720843768765542790219833196609535 ed_B) (hx 76484631799109508461779062985876145606636325552651087623514667987686004302499) (hx 86210605633559523688170141102290560797819712932860635367125060984801668514238)"
proof -
  have e: "entry_ok (smul 10384593717069655257060992658440192 ed_B) (72509927453941311750664476103299551354680269270270586480808233472589817704784, 41571788042841202290338899197942030796230516339045080200904489370096453676391, 74831239866386347548755647522886391910469417312197790765374504355016022405222)"
    using row_entry [OF row_14_at(1), of 1 10384593717069655257060992658440192] by (simp add: row_14_def)
  have n: "entry_ok (smul (- 10384593717069655257060992658440192) ed_B) (41571788042841202290338899197942030796230516339045080200904489370096453676391, 72509927453941311750664476103299551354680269270270586480808233472589817704784, 156752938608246043298386322494489423796070552019083337313540663660810236874574)"
    by (rule entry_neg [OF e]) (simp_all add: p25519_def)
  show ?thesis
    by (rule add_step_smul [OF order_11 n]) (simp only: step_eval, simp)
qed

lemma order_13: "pt_ab (smul 452312848583266388373324160190187140053154720843768765542790219833196608767 ed_B) (hx 64886185828414152423291730895768358068909772910293393624981861714912784137316) (hx 75685982888947884528005480347315682550924382972368695952886622615457971016210)"
proof -
  have e: "entry_ok (smul 768 ed_B) (67386925550534991808718160824292973731044157665510414916135289914025311875005, 81231427317996366938145159724172022570319112916304515240023455921427737282593, 67173074703701944327008405000070019396336969753518508506441817764899257186241)"
    using row_entry [OF row_1_at(1), of 2 768] by (simp add: row_1_def)
  have n: "entry_ok (smul (- 768) ed_B) (81231427317996366938145159724172022570319112916304515240023455921427737282593, 67386925550534991808718160824292973731044157665510414916135289914025311875005, 164411103770930446520133565017305796310202999577762619572473350250927002093555)"
    by (rule entry_neg [OF e]) (simp_all add: p25519_def)
  show ?thesis
    by (rule add_step_smul [OF order_12 n]) (simp only: step_eval, simp)
qed

lemma order_14: "pt_ab (smul 452312848583266388373324160190187140053154720843768765487449987612067953919 ed_B) (hx 85533950371845974519198256815627419919315166604172532897684717182774947077235) (hx 112699390328285723971797596934867832893712908370888157619639852319332067899264)"
proof -
  have e: "entry_ok (smul 55340232221128654848 ed_B) (46349681177630628852521607017182005268874686088518697986163469152413883962006, 29013289842396303425316390666151711061552802329659675758056051080325829339592, 78368294952239607486029446847455673493811405378407697982464933609450691388335)"
    using row_entry [OF row_8_at(1), of 2 55340232221128654848] by (simp add: row_8_def)
  have n: "entry_ok (smul (- 55340232221128654848) ed_B) (29013289842396303425316390666151711061552802329659675758056051080325829339592, 46349681177630628852521607017182005268874686088518697986163469152413883962006, 153215883522392783361112523169920142212728563952873430096450234406375567891461)"
    by (rule entry_neg [OF e]) (simp_all add: p25519_def)
  show ?thesis
    by (rule add_step_smul [OF order_13 n]) (simp only: step_eval, simp)
qed

lemma order_15: "pt_ab (smul 452312848583266388373324160190187140053154720843768737153251090394196671743 ed_B) (hx 113768365381342140203079713304453263676961447663968832812700190580851179086332) (hx 101999298051612032116742992434807738125262865965140445231460055040874150741532)"
proof -
  have e: "entry_ok (smul 28334198897217871282176 ed_B) (31062498344221899951858847721436214809655846137357588828374314183705499890978, 46963985862075618670679751905551430263508527377684534659084942250531346278636, 38639375242256182530522002156010358970794170815715846655767526627348049450871)"
    using row_entry [OF row_9_at(1), of 5 28334198897217871282176] by (simp add: row_9_def)
  have n: "entry_ok (smul (- 28334198897217871282176) ed_B) (46963985862075618670679751905551430263508527377684534659084942250531346278636, 31062498344221899951858847721436214809655846137357588828374314183705499890978, 192944803232376208316619967861365456735745798515565281423147641388478209828925)"
    by (rule entry_neg [OF e]) (simp_all add: p25519_def)
  show ?thesis
    by (rule add_step_smul [OF order_14 n]) (simp only: step_eval, simp)
qed

lemma order_16: "pt_ab (smul 452312848583266388373324160190187140053154720841911827094323019981847985407 ed_B) (hx 69544216111861824576607846521035335291997937774276402541180810201054321610509) (hx 102953664212595749995695099479334128664802633175843843270154922377293498818768)"
proof -
  have e: "entry_ok (smul 1856910058928070412348686336 ed_B) (33174364015509957735297600843593485805310060955272785366466948162357007558855, 74706484512703150286315524765464782494631141870418181353481787940873468803790, 61338021760347085605447215309522220214999593182953633153307351922886880716794)"
    using row_entry [OF row_11_at(1), of 5 1856910058928070412348686336] by (simp add: row_11_def)
  have n: "entry_ok (smul (- 1856910058928070412348686336) ed_B) (74706484512703150286315524765464782494631141870418181353481787940873468803790, 33174364015509957735297600843593485805310060955272785366466948162357007558855, 170246156714285305241694754707853595491540376148327494925607816092939378563002)"
    by (rule entry_neg [OF e]) (simp_all add: p25519_def)
  show ?thesis
    by (rule add_step_smul [OF order_15 n]) (simp only: step_eval, simp)
qed

lemma order_17: "pt_ab (smul 904625697166532776746648320380374280106309441683823654188646039963695970814 ed_B) (hx 80282550269397916168095739872980333906521918878290612265592178563674570544418) (hx 93481647785016417316026977865942428387708342340328906377942867075730294982728)"
  by (rule dbl_step_smul [OF order_16]) (simp only: step_eval, simp)

lemma order_18: "pt_ab (smul 1809251394333065553493296640760748560212618883367647308377292079927391941628 ed_B) (hx 63315677712539375206036739688522939674809640282364697906107563941755200383971) (hx 73092890291753479468171761467679866801187190695939148667035260004573150809823)"
  by (rule dbl_step_smul [OF order_17]) (simp only: step_eval, simp)

lemma order_19: "pt_ab (smul 3618502788666131106986593281521497120425237766735294616754584159854783883256 ed_B) (hx 63617323418058322691135908507590643482298275408108528719333087167949523622535) (hx 89650969537945381109181624887620921337941014663542784696697013378206594435541)"
  by (rule dbl_step_smul [OF order_18]) (simp only: step_eval, simp)

lemma order_20: "pt_ab (smul 7237005577332262213973186563042994240850475533470589233509168319709567766512 ed_B) (hx 106059462110726976916070398452155609227504123997271763865353786169506566163467) (hx 78215328980838304943916823549403224621833130008364418516251102108193734295639)"
  by (rule dbl_step_smul [OF order_19]) (simp only: step_eval, simp)

lemma order_21: "pt_ab (smul 7237005577332262213973186563042994240850475533470589233509168319709567766509 ed_B) (hx 110066177975020311159911106562686197867690000777370235702157509953677772839077) (hx 84168540161734860874354371543341567577987489319513844963871696852605223419661)"
proof -
  have e: "entry_ok (smul 3 ed_B) (55221577242988382633613921715755988927347615506430221002982523990194636363568, 77220199551394700742937817533670321202525203611805453669957464438525946286674, 40779097241408971452228116607583414735230162954196233009433085899742953658505)"
    using row_entry [OF row_0_at(1), of 2 3] by (simp add: row_0_def)
  have n: "entry_ok (smul (- 3) ed_B) (77220199551394700742937817533670321202525203611805453669957464438525946286674, 55221577242988382633613921715755988927347615506430221002982523990194636363568, 190805081233223419394913853409792400971309806377084895069482082116083305621291)"
    by (rule entry_neg [OF e]) (simp_all add: p25519_def)
  show ?thesis
    by (rule add_step_smul [OF order_20 n]) (simp only: step_eval, simp)
qed

lemma order_22: "pt_ab (smul 7237005577332262213973186563042994240850475533470589233509168319709567767533 ed_B) (hx 98709400464167462901953006741370864627330565270780182261421134106307948230824) (hx 75319106930919146891497952822754016223131594021573724297712343180280990463060)"
proof -
  have e: "entry_ok (smul 1024 ed_B) (60603266817861966547931202461399866517137451161536042704391099507056489655461, 79539528581502945439128516976126869347086500151448396721678781444562515498415, 82871140683060822671244629449792153726173447566308927176212019291953826881226)"
    using row_entry [OF row_1_at(1), of 3 1024] by (simp add: row_1_def)
  show ?thesis
    by (rule add_step_smul [OF order_21 e]) (simp only: step_eval, simp)
qed

lemma order_23: "pt_ab (smul 7237005577332262213973186563042994240850475533470589233509168319709568160749 ed_B) (hx 70571173239351944100187962464005246554208896023473574704193769250724782298187) (hx 93275366633018368079602652061762862329628040569428271607347365497463258138558)"
proof -
  have e: "entry_ok (smul 393216 ed_B) (60895535022075210725944857035848946294831608003810225447245059964193981880091, 38907134819921887210037138442762260623744887575397571298124107934042873909204, 72639710723369895924468031158530001580225354368202776330211338344679251338403)"
    using row_entry [OF row_2_at(1), of 5 393216] by (simp add: row_2_def)
  show ?thesis
    by (rule add_step_smul [OF order_22 e]) (simp only: step_eval, simp)
qed

lemma order_24: "pt_ab (smul 7237005577332262213973186563042994240850475533470589233509168319709517829101 ed_B) (hx 72044458625971930533471142660686072729083607066647268942918286391308499494348) (hx 84859333660628194167279013213705264868657696139590393636428250321995877305134)"
proof -
  have e: "entry_ok (smul 50331648 ed_B) (79188311392557736874551378456410497825285227285466062694167865348398757965881, 74475128489338825065171526024925125194274835303925607757061859642085829016694, 42687874999959497303917400677323895350315592036002314149581384504830236608320)"
    using row_entry [OF row_3_at(1), of 2 50331648] by (simp add: row_3_def)
  have n: "entry_ok (smul (- 50331648) ed_B) (74475128489338825065171526024925125194274835303925607757061859642085829016694, 79188311392557736874551378456410497825285227285466062694167865348398757965881, 188896303474672893543224569340051920356224377295278813929333783510996022671476)"
    by (rule entry_neg [OF e]) (simp_all add: p25519_def)
  show ?thesis
    by (rule add_step_smul [OF order_23 n]) (simp only: step_eval, simp)
qed

lemma order_25: "pt_ab (smul 7237005577332262213973186563042994240850475533470589233509168319683748025325 ed_B) (hx 79832784159641851035858115063942440913243883953814108770744630377878046628789) (hx 65374741767913306304184141367544541546127652858222208436975346851933133644739)"
proof -
  have e: "entry_ok (smul 25769803776 ed_B) (29601126465251282793668150616260546493423977835656345379875485394142634114476, 66921256801334615080070194873714372148416171465203843163390583417238244489400, 36414862789189463146872024259298279138802959820984977952829873894210279132300)"
    using row_entry [OF row_4_at(1), of 5 25769803776] by (simp add: row_4_def)
  have n: "entry_ok (smul (- 25769803776) ed_B) (66921256801334615080070194873714372148416171465203843163390583417238244489400, 29601126465251282793668150616260546493423977835656345379875485394142634114476, 195169315685442927700269945758077536567737009510296150126085294121615980147496)"
    by (rule entry_neg [OF e]) (simp_all add: p25519_def)
  show ?thesis
    by (rule add_step_smul [OF order_24 n]) (simp only: step_eval, simp)
qed

lemma order_26: "pt_ab (smul 7237005577332262213973186563042994240850475533470589233509168322982282908653 ed_B) (hx 83666288998282440837115246177450481308056321273813930605461674465496842446255) (hx 96762052496800928964957361941018857754732656911003689365529544344135069328590)"
proof -
  have e: "entry_ok (smul 3298534883328 ed_B) (82129749837213499371558172892927484381543104326671212887688700890787818294400, 30099681711548461296588576525799433183450639994717850839656743236437016970263, 75637860363525609710248441679545797073256023339523546643243744144230703209108)"
    using row_entry [OF row_5_at(1), of 2 3298534883328] by (simp add: row_5_def)
  show ?thesis
    by (rule add_step_smul [OF order_25 e]) (simp only: step_eval, simp)
qed

lemma order_27: "pt_ab (smul 7237005577332262213973186563042994240850475533470589233509168885932236329965 ed_B) (hx 79079843183335754936409167292123490377526969715042325937933297041931620925733) (hx 98458037721792717950768453007164656185969677477420042178413590039076852133487)"
proof -
  have e: "entry_ok (smul 562949953421312 ed_B) (58099451066454079772297008876460184603569922668274226088695080774594662715587, 58831168533356035443508942158657220674949647147570352146829118144218823636490, 34512591192687828692078762904758383885716226253722505484241805032454922705024)"
    using row_entry [OF row_6_at(1), of 1 562949953421312] by (simp add: row_6_def)
  show ?thesis
    by (rule add_step_smul [OF order_26 e]) (simp only: step_eval, simp)
qed

lemma order_28: "pt_ab (smul 7237005577332262213973186563042994240850475533470589233509745346684539753453 ed_B) (hx 80860837929560890574424889152631674274319110436755946332724474901319405672907) (hx 97641305399819948195634910364091512802894277124524749612494331889303087978970)"
proof -
  have e: "entry_ok (smul 576460752303423488 ed_B) (60289492258990091878035975066476674148172613092262829314763711514940816505473, 78317034673518949057517878467529876030328543519937684876310462293036833162839, 66613782957627434245023368150360869193043306367059431594794009023864109431973)"
    using row_entry [OF row_7_at(1), of 7 576460752303423488] by (simp add: row_7_def)
  show ?thesis
    by (rule add_step_smul [OF order_27 e]) (simp only: step_eval, simp)
qed

lemma order_29: "pt_ab (smul 7237005577332262213973186563042994240850475533470589233620425811126797063149 ed_B) (hx 65169859761028279168797526638365262785902427097349986245214437209840454999908) (hx 70054144534439418428550959507462961103881275683551942595103416078211921981977)"
proof -
  have e: "entry_ok (smul 110680464442257309696 ed_B) (61843908538206712403400376039332380202775509042343454735075900127450323143061, 79585182176598180653608107270740891324259338194261701013302235601037808813385, 66048633833037287917857909643318073682731448894865027863049120185875923191143)"
    using row_entry [OF row_8_at(1), of 5 110680464442257309696] by (simp add: row_8_def)
  show ?thesis
    by (rule add_step_smul [OF order_28 e]) (simp only: step_eval, simp)
qed

lemma order_30: "pt_ab (smul 7237005577332262213973186563042994240850475533470589219453326362517861422061 ed_B) (hx 69445693252904170616019298501614202183212263103289627768280612474399634572939) (hx 91328729843628903131766348518213530937590100892238825321532049686161410457380)"
proof -
  have e: "entry_ok (smul 14167099448608935641088 ed_B) (83823566569087054600835711911905809278968039256801844979057613393493156261822, 31763244584669318230155258503741286674382103648785712009619347735023240823766, 53527695826203145207658075886850196286259404332434506926721875858605410720412)"
    using row_entry [OF row_9_at(1), of 2 14167099448608935641088] by (simp add: row_9_def)
  have n: "entry_ok (smul (- 14167099448608935641088) ed_B) (31763244584669318230155258503741286674382103648785712009619347735023240823766, 83823566569087054600835711911905809278968039256801844979057613393493156261822, 178056482648429245639483894130525619420280564998846621152193292157220848559384)"
    by (rule entry_neg [OF e]) (simp_all add: p25519_def)
  show ?thesis
    by (rule add_step_smul [OF order_29 n]) (simp only: step_eval, simp)
qed

lemma order_31: "pt_ab (smul 7237005577332262213973186563042994240850475533470598890859883279551259071469 ed_B) (hx 86390034399823239525078799215845656632068719071160702940039573486710378869809) (hx 114935846778783026543026575676382374723094601201957216513915029451708924958432)"
proof -
  have e: "entry_ok (smul 9671406556917033397649408 ed_B) (44018790363729709212780562682442065758707333830111016380003737856641658677482, 33949792137526630374438171331464033499912161404110416057409092333692073741468, 72340274589562689720046730139518065113005567818974490844756684823268303068547)"
    using row_entry [OF row_10_at(1), of 7 9671406556917033397649408] by (simp add: row_10_def)
  show ?thesis
    by (rule add_step_smul [OF order_30 e]) (simp only: step_eval, simp)
qed

lemma order_32: "pt_ab (smul 7237005577332262213973186563042994240850475533471527345889347314757433414637 ed_B) (hx 88285451713439937690465029104505706494965492040988679275652316635970530722700) (hx 95547055500638888631286322333394724172951288514231914224091388729472651534146)"
proof -
  have e: "entry_ok (smul 928455029464035206174343168 ed_B) (32439310879054851416469492634174468287917792823916521075011772673739405104979, 61443186761786649522758950509564642804799247809506498859816003874731324551327, 70654672533744980518388114615418111446847421435783185304146668233411072154879)"
    using row_entry [OF row_11_at(1), of 2 928455029464035206174343168] by (simp add: row_11_def)
  show ?thesis
    by (rule add_step_smul [OF order_31 e]) (simp only: step_eval, simp)
qed

lemma order_33: "pt_ab (smul 7237005577332262213973186563042994240850475533392299183375082977163889464301 ed_B) (hx 61682028000261443037340831248573425401382925149736858265255253494560782437971) (hx 78611687080477192932258520015176269831929401114366002136079849737912496499389)"
proof -
  have e: "entry_ok (smul 79228162514264337593543950336 ed_B) (61347725867383053837189798638850073328666390670905251248167943315545801994385, 45103340189645008687377119205687495755236823628386648868825446224184048796894, 86193703211128398367089052799524829852873680405126447672651159176442676142005)"
    using row_entry [OF row_12_at(1), of 0 79228162514264337593543950336] by (simp add: row_12_def)
  have n: "entry_ok (smul (- 79228162514264337593543950336) ed_B) (45103340189645008687377119205687495755236823628386648868825446224184048796894, 61347725867383053837189798638850073328666390670905251248167943315545801994385, 145390475263503992480052917217850985853666288926154680406264008839383583137791)"
    by (rule entry_neg [OF e]) (simp_all add: p25519_def)
  show ?thesis
    by (rule add_step_smul [OF order_32 n]) (simp only: step_eval, simp)
qed

lemma order_34: "pt_ab (smul 7237005577332262213973186563042994240850475411697841561465060433480381748205 ed_B) (hx 65648392289505799738431651820152417700390269885290565228230878558138627712318) (hx 111804190946762842132986448479696984887948863149716669018589057293408436695207)"
proof -
  have e: "entry_ok (smul 121694457621910022543683507716096 ed_B) (36457576209297191189783948203546239530121394583105015122929077937334640300952, 73409820457063977202974863592368724834366272275313866634927041679159988321798, 60496734017947218766354346919393033636524832960596673921183892503694642062806)"
    using row_entry [OF row_13_at(1), of 5 121694457621910022543683507716096] by (simp add: row_13_def)
  have n: "entry_ok (smul (- 121694457621910022543683507716096) ed_B) (73409820457063977202974863592368724834366272275313866634927041679159988321798, 36457576209297191189783948203546239530121394583105015122929077937334640300952, 171087444456685172080787623097982782070015136370684454157731275512131617216990)"
    by (rule entry_neg [OF e]) (simp_all add: p25519_def)
  show ?thesis
    by (rule add_step_smul [OF order_33 n]) (simp only: step_eval, simp)
qed

lemma order_35: "pt_ab (smul 7237005577332262213973186563042994240850470219400983026637431902984052528109 ed_B) (hx 72582797259275825669526066512857233190964514533984403559532813959459419833349) (hx 106927012092171729678265407388796802154865336379642983241495451763367581647542)"
proof -
  have e: "entry_ok (smul 5192296858534827628530496329220096 ed_B) (79723277997670986007837381418356567516745685591770007293823700498976054558857, 76804522208185015884403913577463926987261272994252852475917875602329784866176, 65266870961850875129814864428023668240100820170581672992454540559260967166261)"
    using row_entry [OF row_14_at(1), of 0 5192296858534827628530496329220096] by (simp add: row_14_def)
  have n: "entry_ok (smul (- 5192296858534827628530496329220096) ed_B) (76804522208185015884403913577463926987261272994252852475917875602329784866176, 79723277997670986007837381418356567516745685591770007293823700498976054558857, 166317307512781515717327105589352147466439149160699455086460627456565292113535)"
    by (rule entry_neg [OF e]) (simp_all add: p25519_def)
  show ?thesis
    by (rule add_step_smul [OF order_34 n]) (simp only: step_eval, simp)
qed

lemma order_36: "pt_ab (smul 7237005577332262213973186563042994240857116359379907606001950938285454250989 ed_B) (hx 57896044618658097711785492504343953926634992332820282019728792003956564819950) (hx 57896044618658097711785492504343953926634992332820282019728792003956564819950)"
proof -
  have e: "entry_ok (smul 6646139978924579364519035301401722880 ed_B) (49030967473513631966479914884452848228230344046822701221766659759411016827593, 72582797259275825669526066512857233190964514533984403559532813959459419833349, 52499472668829983167754656142543533925438827919795624378010220503189606138380)"
    using row_entry [OF row_15_at(1), of 4 6646139978924579364519035301401722880] by (simp add: row_15_def)
  show ?thesis
    by (rule add_step_smul [OF order_35 e]) (simp only: step_eval, simp)
qed

lemma pt_ab_zero:
  assumes "pt_ab P (hx n) (hx n)" "n = p25519 + 1"
  shows "P = 0"
proof -
  have "gfh (hx n) = of_int p25519 + 1" unfolding assms(2) by (subst gfh_hx) simp_all
  then have *: "py P + px P = 1" "py P - px P = 1" using assms(1) by (simp_all add: pt_ab_def gf_p_zero)
  then have "2 * py P = 2 * 1" "2 * px P = 2 * 0" by algebra+
  then have "py P = 1" "px P = 0" by (blast intro: half_cancel)+
  then show ?thesis by (simp add: pt_eqI)
qed

lemma ed_B_order: "smul l25519 ed_B = 0"
  using pt_ab_zero [OF order_36] by (simp add: l25519_def p25519_def)

section \<open>The operations on points\<close>

lemma ge_base_point_rep:
  "rep_precomp ed_B (base ! 0 ! 0)" "rep_p1p1 ed_B (ge_madd ge_p3_0 (base ! 0 ! 0))"
  "rep_p3 ed_B (ge_p1p1_to_p3 (ge_madd ge_p3_0 (base ! 0 ! 0)))" "rep_p2 ed_B (ge_p1p1_to_p2 (ge_madd ge_p3_0 (base ! 0 ! 0)))"
proof -
  show b: "rep_precomp ed_B (base ! 0 ! 0)" using base_rep [of 0 0] by simp
  show r: "rep_p1p1 ed_B (ge_madd ge_p3_0 (base ! 0 ! 0))" using ge_madd_rep [OF ge_p3_0_rep b] by simp
  show "rep_p3 ed_B (ge_p1p1_to_p3 (ge_madd ge_p3_0 (base ! 0 ! 0)))" by (rule ge_p1p1_to_p3_rep [OF r])
  show "rep_p2 ed_B (ge_p1p1_to_p2 (ge_madd ge_p3_0 (base ! 0 ! 0)))" by (rule ge_p1p1_to_p2_rep [OF r])
qed

text \<open>
  (C3) The point operations refine the group of the curve: related arguments go to related results, for
  the four additions and subtractions, both doublings and every change of coordinates.  The relations
  include the limb bounds under which no 32- or 64-bit operation wraps around.
\<close>

theorem ge_operations_refine:
  assumes "rep_p3 P p" "rep_cached Q q" "rep_precomp S s" "rep_p2 T t" "rep_p1p1 R r"
  shows "rep_p1p1 (P + Q) (ge_add p q) \<and> rep_p1p1 (P - Q) (ge_sub p q) \<and>
    rep_p1p1 (P + S) (ge_madd p s) \<and> rep_p1p1 (P - S) (ge_msub p s) \<and>
    rep_p1p1 (T + T) (ge_p2_dbl t) \<and> rep_p1p1 (P + P) (ge_p3_dbl p) \<and>
    rep_p2 R (ge_p1p1_to_p2 r) \<and> rep_p3 R (ge_p1p1_to_p3 r) \<and>
    rep_cached P (ge_p3_to_cached p) \<and> rep_p2 P (ge_p3_to_p2 p) \<and> rep_p3 0 ge_p3_0 \<and> rep_p2 0 ge_p2_0"
  by (intro conjI ge_add_rep ge_sub_rep ge_madd_rep ge_msub_rep ge_p2_dbl_rep ge_p3_dbl_rep ge_p1p1_to_p2_rep
    ge_p1p1_to_p3_rep ge_p3_to_cached_rep ge_p3_to_p2_rep ge_p3_0_rep ge_p2_0_rep assms)

theorem ge_operations_refine_witness:
  "\<exists>p q s t. rep_p1p1 (ed_B + ed_B) (ge_add p q) \<and> rep_p1p1 (ed_B - ed_B) (ge_msub p s) \<and> rep_p1p1 (ed_B + ed_B) (ge_p2_dbl t)"
  using ge_operations_refine [OF ge_base_point_rep(3) ge_p3_to_cached_rep [OF ge_base_point_rep(3)] ge_base_point_rep(1,4,2)]
  by blast

text \<open>
  (C4) The precomputed tables: \<^verbatim>\<open>base[i][j]\<close> is the point \<open>(j+1) 256\<^sup>i B\<close> and \<^verbatim>\<open>Bi[k]\<close> is \<open>(2k+1) B\<close>, with
  limbs in bounds, for all 264 entries.
\<close>

theorem ge_tables_correct:
  "(\<forall>i<32. \<forall>j<8. rep_precomp (smul ((int j + 1) * 256 ^ i) ed_B) (base ! i ! j)) \<and>
   (\<forall>k<8. rep_precomp (smul (2 * int k + 1) ed_B) (Bi ! k))"
  using base_rep Bi_rep by blast

theorem ge_tables_correct_witness:
  "rep_precomp (smul (8 * 256 ^ 31) ed_B) (base ! 31 ! 7) \<and> rep_precomp (smul 15 ed_B) (Bi ! 7)"
  using ge_tables_correct [THEN conjunct1, rule_format, of 31 7] ge_tables_correct [THEN conjunct2, rule_format, of 7] by simp

end
