(* ===== verification/GeScalar.thy ===== *)
theory GeScalar
  imports GeSlide GeTableCheck
begin

text \<open>
  The two scalar multiplications of \<^verbatim>\<open>ge.c\<close> compute scalar multiples in the group of \<open>Edwards\<close>:
  \<^verbatim>\<open>ge_double_scalarmult_vartime\<close> over the digits of \<open>GeSlide\<close>, \<^verbatim>\<open>ge_scalarmult_base\<close> over signed
  radix 16 digits and the constant time \<^verbatim>\<open>select\<close>.
\<close>

section \<open>The double scalar multiplication\<close>

lemma ge_odd_multiples_rep:
  assumes "rep_p3 P A"
  shows "k < 8 \<Longrightarrow> rep_cached (smul (2 * int k + 1) P) (ge_odd_multiples A ! k)"
proof -
  let ?A2 = "ge_p1p1_to_p3 (ge_p3_dbl A)"
  have two: "rep_p3 (smul 2 P) ?A2"
    unfolding smul_2 by (intro ge_p1p1_to_p3_rep ge_p3_dbl_rep assms)
  have step: "rep_cached (smul (m + 2) P) (ge_p3_to_cached (ge_p1p1_to_p3 (ge_add ?A2 c)))" if "rep_cached (smul m P) c" for m c
  proof -
    have "rep_p1p1 (smul 2 P + smul m P) (ge_add ?A2 c)" by (rule ge_add_rep [OF two that])
    then show ?thesis unfolding add.commute [of m] smul_add by (intro ge_p3_to_cached_rep ge_p1p1_to_p3_rep)
  qed
  have "rep_cached (smul 1 P) (ge_p3_to_cached A)" using ge_p3_to_cached_rep [OF assms] by simp
  note c0 = this
  note c1 = step [OF c0, simplified] note c2 = step [OF c1, simplified] note c3 = step [OF c2, simplified]
  note c4 = step [OF c3, simplified] note c5 = step [OF c4, simplified] note c6 = step [OF c5, simplified]
  note c7 = step [OF c6, simplified]
  show "k < 8 \<Longrightarrow> rep_cached (smul (2 * int k + 1) P) (ge_odd_multiples A ! k)"
    unfolding ge_odd_multiples_def Let_def
    using c0 c1 c2 c3 c4 c5 c6 c7 by (auto simp: less_Suc_eq numeral_eq_Suc)
qed

text \<open>The entry for a digit.\<close>

lemma digit_index:
  assumes "digit_ok a" "0 < a"
  shows "nat (a div 2) < 8" "2 * int (nat (a div 2)) + 1 = a"
  using assms by (auto simp: digit_ok_def elim!: oddE)

lemma digit_index_neg:
  assumes "digit_ok a" "a < 0"
  shows "nat ((- a) div 2) < 8" "2 * int (nat ((- a) div 2)) + 1 = - a"
  using digit_index [of "- a"] assms by (simp_all add: digit_ok_def)

lemma ge_double_step_rep:
  assumes r: "rep_p2 R r" and a: "digit_ok a" and b: "digit_ok b"
    and Ai: "\<And>k. k < 8 \<Longrightarrow> rep_cached (smul (2 * int k + 1) P) (Ai ! k)"
  shows "rep_p2 (smul 2 R + smul a P + smul b ed_B) (ge_double_step Ai a b r)"
proof -
  let ?t = "ge_p2_dbl r"
  let ?u = "if 0 < a then ge_add (ge_p1p1_to_p3 ?t) (Ai ! nat (a div 2))
    else if a < 0 then ge_sub (ge_p1p1_to_p3 ?t) (Ai ! nat ((- a) div 2)) else ?t"
  let ?v = "if 0 < b then ge_madd (ge_p1p1_to_p3 ?u) (Bi ! nat (b div 2))
    else if b < 0 then ge_msub (ge_p1p1_to_p3 ?u) (Bi ! nat ((- b) div 2)) else ?u"
  have ap: "rep_cached (smul a P) (Ai ! nat (a div 2))" if "0 < a"
    using Ai [OF digit_index(1) [OF a that]] unfolding digit_index(2) [OF a that] .
  have an: "rep_cached (smul (- a) P) (Ai ! nat ((- a) div 2))" if "a < 0"
    using Ai [OF digit_index_neg(1) [OF a that]] unfolding digit_index_neg(2) [OF a that] .
  have bp: "rep_precomp (smul b ed_B) (Bi ! nat (b div 2))" if "0 < b"
    using Bi_rep [OF digit_index(1) [OF b that]] unfolding digit_index(2) [OF b that] .
  have bn: "rep_precomp (smul (- b) ed_B) (Bi ! nat ((- b) div 2))" if "b < 0"
    using Bi_rep [OF digit_index_neg(1) [OF b that]] unfolding digit_index_neg(2) [OF b that] .
  have t: "rep_p1p1 (smul 2 R) ?t" unfolding smul_2 by (rule ge_p2_dbl_rep [OF r])
  have u: "rep_p1p1 (smul 2 R + smul a P) ?u"
  proof (cases "0 < a")
    case True
    then show ?thesis
      using ge_add_rep [OF ge_p1p1_to_p3_rep [OF t] ap] by simp
  next
    case False
    show ?thesis
    proof (cases "a < 0")
      case True
      then show ?thesis
        using ge_sub_rep [OF ge_p1p1_to_p3_rep [OF t] an] by (simp add: smul_uminus)
    next
      case False
      then have "a = 0" using \<open>\<not> 0 < a\<close> by simp
      then show ?thesis using t by simp
    qed
  qed
  have v: "rep_p1p1 (smul 2 R + smul a P + smul b ed_B) ?v"
  proof (cases "0 < b")
    case True
    then show ?thesis
      using ge_madd_rep [OF ge_p1p1_to_p3_rep [OF u] bp] by simp
  next
    case False
    show ?thesis
    proof (cases "b < 0")
      case True
      then show ?thesis
        using ge_msub_rep [OF ge_p1p1_to_p3_rep [OF u] bn] by (simp add: smul_uminus)
    next
      case False
      then have "b = 0" using \<open>\<not> 0 < b\<close> by simp
      then show ?thesis using u by simp
    qed
  qed
  then show ?thesis unfolding ge_double_step_def Let_def by (rule ge_p1p1_to_p2_rep)
qed

text \<open>The value of the digits below a position.\<close>

primrec lval :: "int list \<Rightarrow> nat \<Rightarrow> int" where
  "lval r 0 = 0"
| "lval r (Suc n) = r ! n * 2 ^ n + lval r n"

lemma lval_dval: "n \<le> 256 \<Longrightarrow> lval r n + dval r n = dval r 0"
proof (induction n)
  case (Suc n)
  then show ?case using dval_step [of n r] by simp
qed simp

lemma lval_top: "lval as (ge_top as bs n) = lval as n" "lval bs (ge_top as bs n) = lval bs n" "ge_top as bs n \<le> n"
  by (induction n) auto

lemma ge_double_loop_rep:
  assumes "\<And>k. k < 8 \<Longrightarrow> rep_cached (smul (2 * int k + 1) P) (Ai ! k)"
    and "\<And>j. j < 256 \<Longrightarrow> digit_ok (as ! j)" "\<And>j. j < 256 \<Longrightarrow> digit_ok (bs ! j)"
  shows "n \<le> 256 \<Longrightarrow> rep_p2 R r \<Longrightarrow>
    rep_p2 (smul (2 ^ n) R + smul (lval as n) P + smul (lval bs n) ed_B) (ge_double_loop Ai as bs n r)"
proof (induction n arbitrary: R r)
  case (Suc n)
  let ?R = "smul 2 R + smul (as ! n) P + smul (bs ! n) ed_B"
  have "rep_p2 ?R (ge_double_step Ai (as ! n) (bs ! n) r)"
    using Suc.prems assms by (intro ge_double_step_rep) simp_all
  then have "rep_p2 (smul (2 ^ n) ?R + smul (lval as n) P + smul (lval bs n) ed_B) (ge_double_loop Ai as bs (Suc n) r)"
    using Suc.IH Suc.prems(1) by simp
  moreover have "smul (2 ^ n) ?R + smul (lval as n) P + smul (lval bs n) ed_B =
      smul (2 ^ Suc n) R + smul (lval as (Suc n)) P + smul (lval bs (Suc n)) ed_B"
    by (simp add: smul_point_add smul_add smul_smul [symmetric] mult.commute [of "2 ^ n"] add_ac)
  ultimately show ?case by simp
qed simp

lemma ge_double_scalarmult_rep:
  assumes "rep_p3 P A" "length a = 32" "le_int a \<le> 2 ^ 255" "length b = 32" "le_int b \<le> 2 ^ 255"
  shows "rep_p2 (smul (le_int a) P + smul (le_int b) ed_B) (ge_double_scalarmult_vartime a A b)"
proof -
  let ?as = "slide a" and ?bs = "slide b"
  let ?n = "ge_top ?as ?bs 256"
  have s: "slid (le_int a) 256 ?as" "slid (le_int b) 256 ?bs" using assms by (simp_all add: slide_slid)
  have v: "lval ?as 256 = le_int a" "lval ?bs 256 = le_int b"
    using s lval_dval [of 256 ?as] lval_dval [of 256 ?bs] by (simp_all add: slid_def)
  have "rep_p2 (smul (2 ^ ?n) 0 + smul (lval ?as ?n) P + smul (lval ?bs ?n) ed_B)
      (ge_double_loop (ge_odd_multiples A) ?as ?bs ?n ge_p2_0)"
    using s lval_top(3) by (intro ge_double_loop_rep ge_odd_multiples_rep [OF assms(1)] ge_p2_0_rep) (simp_all add: slid_def)
  then show ?thesis by (simp add: ge_double_scalarmult_vartime_def Let_def lval_top v)
qed

text \<open>
  (C6) \<^verbatim>\<open>ge_double_scalarmult_vartime\<close> computes \<open>a A + b B\<close> for every curve point \<open>A\<close> and all scalars \<open>a\<close>, \<open>b\<close> up
  to \<open>2^255\<close>.  The comment of the code names no bound, but \<^verbatim>\<open>slide\<close> can lose a carry for larger ones
  (\<open>slide_drops_carry\<close>); \<^verbatim>\<open>ed25519_verify\<close> passes scalars below \<open>2^253\<close>.
\<close>

theorem ge_double_scalarmult_correct:
  assumes "rep_p3 P A" "length a = 32" "le_int a \<le> 2 ^ 255" "length b = 32" "le_int b \<le> 2 ^ 255"
  shows "rep_p2 (smul (le_int a) P + smul (le_int b) ed_B) (ge_double_scalarmult_vartime a A b)"
  using assms by (rule ge_double_scalarmult_rep)

lemma le_int_replicate_0: "le_int (replicate n 0) = 0"
  by (induction n) simp_all

theorem ge_double_scalarmult_correct_witness:
  "rep_p2 (smul (- 7) ed_B + smul 9 ed_B)
    (ge_double_scalarmult_vartime (7 # replicate 31 0) (ge_p1p1_to_p3 (ge_sub ge_p3_0 (ge_p3_to_cached
      (ge_p1p1_to_p3 (ge_madd ge_p3_0 (base ! 0 ! 0)))))) (9 # replicate 31 0))"
proof -
  have "rep_p3 (0 - ed_B) (ge_p1p1_to_p3 (ge_sub ge_p3_0 (ge_p3_to_cached (ge_p1p1_to_p3 (ge_madd ge_p3_0 (base ! 0 ! 0))))))"
    using base_rep [of 0 0]
    by (intro ge_p1p1_to_p3_rep ge_sub_rep ge_p3_to_cached_rep ge_p3_0_rep)
      (use ge_madd_rep [OF ge_p3_0_rep, of ed_B "base ! 0 ! 0"] in simp)
  from ge_double_scalarmult_correct [OF this, of "7 # replicate 31 0" "9 # replicate 31 0"]
  show ?thesis by (simp add: le_int_replicate_0 smul_neg_point smul_uminus)
qed

end
