(* ===== verification/GeBase.thy ===== *)
theory GeBase
  imports GeScalar
begin

text \<open>
  \<^verbatim>\<open>ge_scalarmult_base\<close>: the constant time selection of a table entry, the signed radix 16 digits of
  the scalar, and the sum over both.
\<close>

section \<open>Selection\<close>

lemma unat_byte_wide: "unat (ucast (x :: 8 word) :: u64) = unat x"
proof -
  have "unat x < 2 ^ LENGTH(8)" by (rule unsigned_less)
  then show ?thesis by (simp add: unsigned_ucast_eq take_bit_nat_eq_self)
qed

lemma ge_equal_eq: "ge_equal b c = (if b = c then 1 else 0)"
proof (cases "b = c")
  case True
  then show ?thesis by (simp add: ge_equal_def Let_def)
next
  case False
  let ?x = "b XOR c"
  have x: "?x \<noteq> 0" using False by (metis xor.assoc xor_self_eq xor.left_neutral xor.right_neutral)
  then have nz: "(ucast ?x :: u64) \<noteq> 0" using unat_byte_wide [of ?x] by (metis unat_0 unat_eq_zero)
  have "unat ?x < 256" using unsigned_less [of ?x, where 'a = nat] by simp
  then have "unat ((ucast ?x :: u64) - 1) < 2 ^ 63" using unat_minus_one [OF nz] unat_byte_wide [of ?x] by simp
  then have "drop_bit 63 ((ucast ?x :: u64) - 1) = 0"
    by (simp add: word_unat_eq_iff unat_div drop_bit_eq_div)
  then show ?thesis using False by (simp add: ge_equal_def Let_def)
qed

lemma cmov_0 [simp]: "cmov t u 0 = t" and cmov_1 [simp]: "cmov t u 1 = u"
  by (simp_all add: cmov_def)

definition precomp_0 :: ge_precomp where
  "precomp_0 = \<lparr>yplusx = fe_1, yminusx = fe_1, xy2d = fe_0\<rparr>"

definition precomp_neg :: "ge_precomp \<Rightarrow> ge_precomp" where
  "precomp_neg t = \<lparr>yplusx = yminusx t, yminusx = yplusx t, xy2d = fe_neg (xy2d t)\<rparr>"

lemma precomp_0_rep: "rep_precomp 0 precomp_0"
  by (simp add: rep_precomp_def precomp_0_def ftight_consts)

lemma precomp_neg_rep: "rep_precomp P t \<Longrightarrow> rep_precomp (- P) (precomp_neg t)"
  unfolding precomp_neg_def by (rule rep_precomp_neg)

definition select_abs :: "i8 \<Rightarrow> u8" where
  "select_abs b = ucast ((scast b :: i32) - push_bit 1 ((- ucast (negative b)) AND scast b))"

lemma negative_values:
  "negative 0 = 0" "negative 1 = 0" "negative 2 = 0" "negative 3 = 0" "negative 4 = 0" "negative 5 = 0"
  "negative 6 = 0" "negative 7 = 0" "negative 8 = 0"
  "negative (- 1) = 1" "negative (- 2) = 1" "negative (- 3) = 1" "negative (- 4) = 1" "negative (- 5) = 1"
  "negative (- 6) = 1" "negative (- 7) = 1" "negative (- 8) = 1"
  by code_simp+

lemma select_abs_values:
  "select_abs 0 = 0" "select_abs 1 = 1" "select_abs 2 = 2" "select_abs 3 = 3" "select_abs 4 = 4" "select_abs 5 = 5"
  "select_abs 6 = 6" "select_abs 7 = 7" "select_abs 8 = 8"
  "select_abs (- 1) = 1" "select_abs (- 2) = 2" "select_abs (- 3) = 3" "select_abs (- 4) = 4" "select_abs (- 5) = 5"
  "select_abs (- 6) = 6" "select_abs (- 7) = 7" "select_abs (- 8) = 8"
  by code_simp+

lemma select_abs_fold:
  "select pos b =
    (let t = precomp_0;
         t = cmov t (base ! pos ! 0) (ge_equal (select_abs b) 1);
         t = cmov t (base ! pos ! 1) (ge_equal (select_abs b) 2);
         t = cmov t (base ! pos ! 2) (ge_equal (select_abs b) 3);
         t = cmov t (base ! pos ! 3) (ge_equal (select_abs b) 4);
         t = cmov t (base ! pos ! 4) (ge_equal (select_abs b) 5);
         t = cmov t (base ! pos ! 5) (ge_equal (select_abs b) 6);
         t = cmov t (base ! pos ! 6) (ge_equal (select_abs b) 7);
         t = cmov t (base ! pos ! 7) (ge_equal (select_abs b) 8)
     in cmov t (precomp_neg t) (negative b))"
  by (simp add: select_def select_abs_def precomp_0_def precomp_neg_def Let_def)

lemma select_values:
  "select pos 0 = precomp_0"
  "select pos 1 = base ! pos ! 0" "select pos 2 = base ! pos ! 1" "select pos 3 = base ! pos ! 2"
  "select pos 4 = base ! pos ! 3" "select pos 5 = base ! pos ! 4" "select pos 6 = base ! pos ! 5"
  "select pos 7 = base ! pos ! 6" "select pos 8 = base ! pos ! 7"
  "select pos (- 1) = precomp_neg (base ! pos ! 0)" "select pos (- 2) = precomp_neg (base ! pos ! 1)"
  "select pos (- 3) = precomp_neg (base ! pos ! 2)" "select pos (- 4) = precomp_neg (base ! pos ! 3)"
  "select pos (- 5) = precomp_neg (base ! pos ! 4)" "select pos (- 6) = precomp_neg (base ! pos ! 5)"
  "select pos (- 7) = precomp_neg (base ! pos ! 6)" "select pos (- 8) = precomp_neg (base ! pos ! 7)"
  by (simp_all add: select_abs_fold Let_def select_abs_values negative_values ge_equal_eq)

lemma select_rep:
  assumes "- 8 \<le> k" "k \<le> 8" "pos < 32"
  shows "rep_precomp (smul (k * 256 ^ pos) ed_B) (select pos (word_of_int k))"
proof -
  note p = base_rep [OF assms(3)]
  have neg: "rep_precomp (smul (- m * 256 ^ pos) ed_B) (precomp_neg (base ! pos ! j))"
    if "j < 8" "m = int j + 1" for m j
    using precomp_neg_rep [OF p [OF that(1)]] unfolding that(2) mult_minus_left smul_uminus .
  have "k = 8 \<or> k = 7 \<or> k = 6 \<or> k = 5 \<or> k = 4 \<or> k = 3 \<or> k = 2 \<or> k = 1 \<or> k = 0 \<or>
      k = - 1 \<or> k = - 2 \<or> k = - 3 \<or> k = - 4 \<or> k = - 5 \<or> k = - 6 \<or> k = - 7 \<or> k = - 8"
    using assms(1,2) by presburger
  then show ?thesis
    using precomp_0_rep p [of 0] p [of 1] p [of 2] p [of 3] p [of 4] p [of 5] p [of 6] p [of 7]
      neg [of 0 1] neg [of 1 2] neg [of 2 3] neg [of 3 4] neg [of 4 5] neg [of 5 6] neg [of 6 7] neg [of 7 8]
    by (elim disjE) (simp_all add: select_values)
qed

section \<open>Signed radix 16\<close>

primrec nval :: "i8 list \<Rightarrow> nat \<Rightarrow> int" where
  "nval e 0 = 0"
| "nval e (Suc n) = sint (e ! n) * 16 ^ n + nval e n"

lemma nval_cong: "(\<And>j. j < n \<Longrightarrow> e ! j = e' ! j) \<Longrightarrow> nval e n = nval e' n"
  by (induction n) simp_all

definition nibbles :: "u8 list \<Rightarrow> i8 list" where
  "nibbles a = concat (map (\<lambda>i. [drop_bit 0 (a ! i) AND 15, drop_bit 4 (a ! i) AND 15]) [0..<32])"

lemma nth_pairs: "length (concat (map (\<lambda>i. [f i, g i]) [0..<n])) = 2 * n \<and>
  (\<forall>i<n. concat (map (\<lambda>i. [f i, g i]) [0..<n]) ! (2 * i) = f i \<and>
    concat (map (\<lambda>i. [f i, g i]) [0..<n]) ! (2 * i + 1) = g i)"
  by (induction n) (auto simp: nth_append less_Suc_eq)

lemma nibbles_nth:
  "length (nibbles a) = 64"
  "i < 32 \<Longrightarrow> nibbles a ! (2 * i) = a ! i AND 15"
  "i < 32 \<Longrightarrow> nibbles a ! (2 * i + 1) = drop_bit 4 (a ! i) AND 15"
  using nth_pairs [of "\<lambda>i. drop_bit 0 (a ! i) AND 15" "\<lambda>i. drop_bit 4 (a ! i) AND 15" 32]
  by (simp_all add: nibbles_def)

lemma sint_small_byte: "uint (x :: i8) < 128 \<Longrightarrow> sint x = uint x"
  using sint_uint [of x] by (simp add: signed_take_bit_int_eq_self order_trans [OF _ uint_nonnegative])

lemma nibble_low: "sint ((x :: i8) AND 15) = uint x mod 16"
proof -
  have "x AND 15 = take_bit 4 x" by (simp add: take_bit_eq_mask mask_eq_exp_minus_1)
  then have "uint (x AND 15) = uint x mod 16" by (simp add: uint_mod take_bit_eq_mod)
  then show ?thesis by (subst sint_small_byte) (simp_all add: order_less_trans [OF pos_mod_bound])
qed

lemma div16_range:
  assumes "0 \<le> n" "n < (256::int)"
  shows "0 \<le> n div 16" "n div 16 \<le> 15"
proof -
  have "16 * (n div 16) + n mod 16 = n" "0 \<le> n mod 16" "n mod 16 < 16" by simp_all
  then show "0 \<le> n div 16" "n div 16 \<le> 15" using assms by linarith+
qed

lemma div16_small: "0 \<le> n \<Longrightarrow> n < 256 \<Longrightarrow> n div 16 mod 16 = n div (16::int)"
  using div16_range [of n] by (intro mod_pos_pos_trivial) simp_all

lemma nibble_high: "sint (drop_bit 4 (x :: i8) AND 15) = uint x div 16"
proof -
  have "take_bit 8 (uint x) = uint x" using uint_bounded [of x] by (simp add: take_bit_int_eq_self)
  then have d: "uint (drop_bit 4 x) = uint x div 16" by (simp add: uint_div drop_bit_eq_div)
  have "uint x < 256" using uint_bounded [of x] by simp
  then show ?thesis unfolding nibble_low d by (rule div16_small [OF uint_nonnegative])
qed

lemma nibble_sum: "q * 16 ^ (2 * n + 1) + (r * 16 ^ (2 * n) + v) = (16 * q + r) * 256 ^ n + (v::int)"
proof -
  have "(16::int) ^ (2 * n) = 256 ^ n" by (simp only: power_mult) simp
  then show ?thesis by (simp add: algebra_simps)
qed

lemma nval_nibbles:
  assumes "length a = 32"
  shows "n \<le> 32 \<Longrightarrow> nval (nibbles a) (2 * n) = le_int (take n a)"
proof (induction n)
  case (Suc n)
  have n: "n < 32" using Suc.prems by simp
  have s: "2 * Suc n = Suc (2 * n + 1)" "2 * n + 1 = Suc (2 * n)" by simp_all
  have "nval (nibbles a) (2 * Suc n) =
      uint (a ! n) div 16 * 16 ^ (2 * n + 1) + (uint (a ! n) mod 16 * 16 ^ (2 * n) + nval (nibbles a) (2 * n))"
    unfolding s(1) nval.simps nibbles_nth(3) [OF n] nibble_high
    unfolding s(2) nval.simps nibbles_nth(2) [OF n] nibble_low by simp
  also have "\<dots> = (16 * (uint (a ! n) div 16) + uint (a ! n) mod 16) * 256 ^ n + le_int (take n a)"
    unfolding nibble_sum using Suc by simp
  also have "16 * (uint (a ! n) div 16) + uint (a ! n) mod 16 = uint (a ! n)" by simp
  also have "uint (a ! n) * 256 ^ n + le_int (take n a) = le_int (take (Suc n) a)"
    using Suc.prems assms by (simp add: take_Suc_conv_app_nth le_int_append)
  finally show ?case .
qed simp

text \<open>One carry.\<close>

definition carry_ok :: "i8 \<Rightarrow> i8 \<Rightarrow> bool" where
  "carry_ok x c \<longleftrightarrow> (c = 0 \<or> c = 1) \<and> sint x = sint (x - push_bit 4 c) + 16 * sint c \<and>
    - 8 \<le> sint (x - push_bit 4 c) \<and> sint (x - push_bit 4 c) \<le> 8"

lemma carry_table:
  "list_all (\<lambda>x. carry_ok x (signed_drop_bit 4 (x + 8))) [16, 15, 14, 13, 12, 11, 10, 9, 8, 7, 6, 5, 4, 3, 2, 1, 0]"
  by code_simp

lemma carry_step:
  assumes "0 \<le> sint x" "sint x \<le> 16"
  shows "carry_ok x (signed_drop_bit 4 (x + 8))"
proof -
  have "x = of_int (sint x)" by simp
  moreover have "sint x = 16 \<or> sint x = 15 \<or> sint x = 14 \<or> sint x = 13 \<or> sint x = 12 \<or> sint x = 11 \<or>
      sint x = 10 \<or> sint x = 9 \<or> sint x = 8 \<or> sint x = 7 \<or> sint x = 6 \<or> sint x = 5 \<or> sint x = 4 \<or>
      sint x = 3 \<or> sint x = 2 \<or> sint x = 1 \<or> sint x = 0"
    using assms(1,2) by presburger
  ultimately have "x \<in> set [16, 15, 14, 13, 12, 11, 10, 9, 8, 7, 6, 5, 4, 3, 2, 1, 0]"
    by (elim disjE) (simp_all only: of_int_numeral of_int_1 of_int_0 list.set insert_iff simp_thms)
  then show ?thesis using carry_table by (simp only: list_all_iff)
qed

text \<open>After the carries below \<open>k\<close>.\<close>

definition carried :: "u8 list \<Rightarrow> nat \<Rightarrow> i8 list \<times> i8 \<Rightarrow> bool" where
  "carried a k = (\<lambda>(e, c). length e = 64 \<and> (c = 0 \<or> c = 1) \<and> (\<forall>j<k. - 8 \<le> sint (e ! j) \<and> sint (e ! j) \<le> 8) \<and>
    (\<forall>j\<ge>k. e ! j = nibbles a ! j) \<and> nval e k + sint c * 16 ^ k = nval (nibbles a) k)"

lemma nibble_range:
  assumes "j < 64"
  shows "0 \<le> sint (nibbles a ! j)" "sint (nibbles a ! j) \<le> 15"
proof -
  have "0 \<le> uint (x::u8) mod 16 \<and> uint x mod 16 \<le> 15 \<and> 0 \<le> uint x div 16 \<and> uint x div 16 \<le> 15" for x
    using div16_range [of "uint x"] uint_bounded [of x] pos_mod_bound [of 16 "uint x"] pos_mod_sign [of 16 "uint x"] by simp
  moreover have i: "j div 2 < 32" "j = 2 * (j div 2) \<or> j = 2 * (j div 2) + 1" using assms by presburger+
  ultimately show "0 \<le> sint (nibbles a ! j)" "sint (nibbles a ! j) \<le> 15"
    using i(2) nibbles_nth(2,3) [OF i(1), of a] nibble_low [of "a ! (j div 2)"] nibble_high [of "a ! (j div 2)"]
    by (metis (no_types))+
qed

lemma sint_add_small: "0 \<le> sint (x :: i8) \<Longrightarrow> sint x \<le> 15 \<Longrightarrow> c = 0 \<or> c = 1 \<Longrightarrow> sint (x + c) = sint x + sint c"
  by (auto simp: signed_take_bit_int_eq_self sint_word_ariths)

lemma carried_step:
  assumes "carried a k (e, c)" "k < 64"
  shows "carried a (k + 1) (radix16_carry k (e, c))"
proof -
  have e: "length e = 64" "c = 0 \<or> c = 1" "\<And>j. j < k \<Longrightarrow> - 8 \<le> sint (e ! j) \<and> sint (e ! j) \<le> 8"
      "\<And>j. k \<le> j \<Longrightarrow> e ! j = nibbles a ! j" "nval e k + sint c * 16 ^ k = nval (nibbles a) k"
    using assms(1) by (auto simp: carried_def)
  let ?x = "e ! k + c"
  let ?c = "signed_drop_bit 4 (?x + 8)"
  let ?e = "e[k := ?x - push_bit 4 ?c]"
  have r: "radix16_carry k (e, c) = (?e, ?c)"
    using assms(2) e(1) by (simp add: radix16_carry_def Let_def)
  note n = nibble_range [OF assms(2), of a, folded e(4) [OF order_refl]]
  have x: "sint ?x = sint (e ! k) + sint c" using n e(2) by (rule sint_add_small)
  have "carry_ok ?x ?c" using n e(2) unfolding atomize_conj by (intro carry_step) (auto simp: x)
  then have ck: "?c = 0 \<or> ?c = 1" "sint ?x = sint (?x - push_bit 4 ?c) + 16 * sint ?c"
      "- 8 \<le> sint (?x - push_bit 4 ?c)" "sint (?x - push_bit 4 ?c) \<le> 8"
    by (simp_all only: carry_ok_def simp_thms)
  have "nval ?e (k + 1) = sint (?x - push_bit 4 ?c) * 16 ^ k + nval e k"
    using assms(2) e(1) nval_cong [of k ?e e] by simp
  then have "nval ?e (k + 1) + sint ?c * 16 ^ (k + 1) = sint ?x * 16 ^ k + nval e k"
    unfolding ck(2) by (simp add: algebra_simps)
  also have "\<dots> = nval (nibbles a) (k + 1)"
    unfolding x using e(5) e(4) [of k] by (simp add: algebra_simps)
  finally have "nval ?e (k + 1) + sint ?c * 16 ^ (k + 1) = nval (nibbles a) (k + 1)" .
  moreover have "- 8 \<le> sint (?e ! j) \<and> sint (?e ! j) \<le> 8" if "j < k + 1" for j
    using that e(1,3) assms(2) ck(3,4) by (cases "j = k") simp_all
  moreover have "?e ! j = nibbles a ! j" if "k + 1 \<le> j" for j using that e(4) by simp
  ultimately show ?thesis unfolding r carried_def split_conv using e(1) ck(1) by (intro conjI) (simp_all only: length_list_update, blast+)
qed

lemma carried_fold: "k \<le> 64 \<Longrightarrow> carried a k (fold radix16_carry [0..<k] (nibbles a, 0))"
proof (induction k)
  case 0
  then show ?case by (simp add: carried_def nibbles_nth(1))
next
  case (Suc k)
  then show ?case using carried_step [of a k "fst (fold radix16_carry [0..<k] (nibbles a, 0))" "snd (fold radix16_carry [0..<k] (nibbles a, 0))"]
    by simp
qed

lemma radix16_correct:
  assumes "length a = 32" "uint (a ! 31) \<le> 127"
  shows "nval (radix16 a) 64 = le_int a" "j < 64 \<Longrightarrow> - 8 \<le> sint (radix16 a ! j) \<and> sint (radix16 a ! j) \<le> 8"
proof -
  obtain e c where f: "fold radix16_carry [0..<63] (nibbles a, 0) = (e, c)" by (cases "fold radix16_carry [0..<63] (nibbles a, 0)")
  have e: "length e = 64" "c = 0 \<or> c = 1" "\<And>j. j < 63 \<Longrightarrow> - 8 \<le> sint (e ! j) \<and> sint (e ! j) \<le> 8"
      "e ! 63 = nibbles a ! 63" "nval e 63 + sint c * 16 ^ 63 = nval (nibbles a) 63"
    using carried_fold [of 63 a] unfolding f by (auto simp: carried_def)
  have r: "radix16 a = e[63 := e ! 63 + c]" unfolding radix16_def Let_def nibbles_def [symmetric] f by simp
  have "sint (nibbles a ! 63) = uint (a ! 31) div 16"
    using nibbles_nth(3) [of 31 a] nibble_high [of "a ! 31"] by simp
  also have "\<dots> \<le> 7" using assms(2) by (rule order_trans [OF zdiv_mono1]) simp_all
  finally have top: "0 \<le> sint (e ! 63)" "sint (e ! 63) \<le> 7" unfolding e(4) using nibble_range [of 63 a] by simp_all
  then have x: "sint (e ! 63 + c) = sint (e ! 63) + sint c" using e(2) by (intro sint_add_small) simp_all
  have s: "(64::nat) = Suc 63" by simp
  have "nval (radix16 a) 64 = sint (e ! 63 + c) * 16 ^ 63 + nval e 63"
    unfolding r s nval.simps using e(1) nval_cong [of 63 "e[63 := e ! 63 + c]" e] by simp
  also have "\<dots> = sint (nibbles a ! 63) * 16 ^ 63 + nval (nibbles a) 63"
    unfolding x unfolding e(4) e(5) [symmetric] by (simp only: distrib_right add_ac)
  also have "\<dots> = nval (nibbles a) 64" unfolding s nval.simps ..
  also have "\<dots> = le_int a" using nval_nibbles [OF assms(1), of 32] assms(1) by simp
  finally show "nval (radix16 a) 64 = le_int a" .
  show "- 8 \<le> sint (radix16 a ! j) \<and> sint (radix16 a ! j) \<le> 8" if "j < 64"
    using that top x e(1,2,3) unfolding r by (cases "j = 63") auto
qed

section \<open>The sum\<close>

primrec odd_sum :: "i8 list \<Rightarrow> nat \<Rightarrow> int" where
  "odd_sum e 0 = 0"
| "odd_sum e (Suc n) = odd_sum e n + sint (e ! (2 * n + 1)) * 256 ^ n"

primrec even_sum :: "i8 list \<Rightarrow> nat \<Rightarrow> int" where
  "even_sum e 0 = 0"
| "even_sum e (Suc n) = even_sum e n + sint (e ! (2 * n)) * 256 ^ n"

lemma nval_sums: "nval e (2 * n) = 16 * odd_sum e n + even_sum e n"
proof (induction n)
  case (Suc n)
  have s: "2 * Suc n = Suc (2 * n + 1)" "2 * n + 1 = Suc (2 * n)" by simp_all
  have "nval e (2 * Suc n) = sint (e ! (2 * n + 1)) * 16 ^ (2 * n + 1) + (sint (e ! (2 * n)) * 16 ^ (2 * n) + nval e (2 * n))"
    unfolding s(1) nval.simps unfolding s(2) nval.simps ..
  then show ?case unfolding nibble_sum Suc.IH by (simp add: algebra_simps)
qed simp

lemma ge_base_step_rep:
  assumes "rep_p3 P h" "i < 64" "- 8 \<le> sint (e ! i)" "sint (e ! i) \<le> 8"
  shows "rep_p3 (P + smul (sint (e ! i) * 256 ^ (i div 2)) ed_B) (ge_base_step e i h)"
proof -
  have "rep_precomp (smul (sint (e ! i) * 256 ^ (i div 2)) ed_B) (select (i div 2) (e ! i))"
    using select_rep [OF assms(3,4), of "i div 2"] assms(2) by simp
  then show ?thesis unfolding ge_base_step_def Let_def by (intro ge_p1p1_to_p3_rep ge_madd_rep assms(1))
qed

lemma odd_fold_rep:
  assumes "\<And>j. j < 64 \<Longrightarrow> - 8 \<le> sint (e ! j) \<and> sint (e ! j) \<le> 8"
  shows "n \<le> 32 \<Longrightarrow> rep_p3 (smul (odd_sum e n) ed_B) (fold (\<lambda>k. ge_base_step e (2 * k + 1)) [0..<n] ge_p3_0)"
proof (induction n)
  case 0
  then show ?case by (simp add: ge_p3_0_rep)
next
  case (Suc n)
  then show ?case
    using ge_base_step_rep [of "smul (odd_sum e n) ed_B" _ "2 * n + 1" e] assms [of "2 * n + 1"] by (simp add: smul_add)
qed

lemma even_fold_rep:
  assumes "\<And>j. j < 64 \<Longrightarrow> - 8 \<le> sint (e ! j) \<and> sint (e ! j) \<le> 8" "rep_p3 P h"
  shows "n \<le> 32 \<Longrightarrow> rep_p3 (P + smul (even_sum e n) ed_B) (fold (\<lambda>k. ge_base_step e (2 * k)) [0..<n] h)"
proof (induction n)
  case 0
  then show ?case using assms(2) by simp
next
  case (Suc n)
  then show ?case
    using ge_base_step_rep [of "P + smul (even_sum e n) ed_B" _ "2 * n" e] assms(1) [of "2 * n"] by (simp add: smul_add add.assoc)
qed

lemma ge_scalarmult_base_rep:
  assumes "length a = 32" "uint (a ! 31) \<le> 127"
  shows "rep_p3 (smul (le_int a) ed_B) (ge_scalarmult_base a)"
proof -
  let ?e = "radix16 a"
  note e = radix16_correct [OF assms]
  let ?h = "fold (\<lambda>k. ge_base_step ?e (2 * k + 1)) [0..<32] ge_p3_0" and ?O = "odd_sum ?e 32"
  have h: "rep_p3 (smul ?O ed_B) ?h" by (rule odd_fold_rep [OF e(2)]) simp_all
  have dbl: "rep_p1p1 (smul (2 * m) ed_B) (ge_p2_dbl (ge_p1p1_to_p2 r))" if "rep_p1p1 (smul m ed_B) r" for m r
    unfolding smul_double by (intro ge_p2_dbl_rep ge_p1p1_to_p2_rep that)
  have "rep_p1p1 (smul (2 * ?O) ed_B) (ge_p3_dbl ?h)" unfolding smul_double by (intro ge_p3_dbl_rep h)
  note this [THEN dbl, THEN dbl, THEN dbl]
  then have h16: "rep_p3 (smul (16 * ?O) ed_B)
      (ge_p1p1_to_p3 (ge_p2_dbl (ge_p1p1_to_p2 (ge_p2_dbl (ge_p1p1_to_p2 (ge_p2_dbl (ge_p1p1_to_p2 (ge_p3_dbl ?h))))))))"
    by (intro ge_p1p1_to_p3_rep) simp
  have "rep_p3 (smul (16 * ?O) ed_B + smul (even_sum ?e 32) ed_B) (ge_scalarmult_base a)"
    unfolding ge_scalarmult_base_def Let_def by (rule even_fold_rep [OF e(2) h16]) simp_all
  moreover have "le_int a = 16 * ?O + even_sum ?e 32" using nval_sums [of ?e 32] e(1) by simp
  ultimately show ?thesis by (simp add: smul_add)
qed

text \<open>
  (C5) \<^verbatim>\<open>ge_scalarmult_base\<close> computes \<open>a B\<close> for every 32-byte scalar that meets its stated precondition
  \<^verbatim>\<open>a[31] <= 127\<close>: the signed radix 16 digits never leave the table, and \<^verbatim>\<open>select\<close> picks the right entry.
\<close>

theorem ge_scalarmult_base_correct:
  assumes "length a = 32" "uint (a ! 31) \<le> 127"
  shows "rep_p3 (smul (le_int a) ed_B) (ge_scalarmult_base a)"
  using assms by (rule ge_scalarmult_base_rep)

theorem ge_scalarmult_base_correct_witness:
  "rep_p3 (smul (le_int (replicate 31 255 @ [127])) ed_B) (ge_scalarmult_base (replicate 31 255 @ [127]))"
  by (rule ge_scalarmult_base_correct) (simp_all add: nth_append)

end
