(* ===== verification/GeBytes.thy ===== *)
theory GeBytes
  imports GeOps
begin

text \<open>
  Points as 32 bytes: \<^verbatim>\<open>ge_p3_tobytes\<close> and \<^verbatim>\<open>ge_tobytes\<close> write the encoding of RFC 8032 (the \<open>y\<close>
  coordinate and the parity of \<open>x\<close>), \<^verbatim>\<open>ge_frombytes_negate_vartime\<close> decides whether the bytes encode a
  \<open>y\<close> coordinate of the curve and returns the negative of the point.
\<close>

section \<open>The encoding\<close>

text \<open>Bit 255 is the parity of the canonical \<open>x\<close>, the bits below it the canonical \<open>y\<close>.\<close>

definition ed_encodes :: "u8 list \<Rightarrow> pt \<Rightarrow> bool" where
  "ed_encodes s P \<longleftrightarrow> length s = 32 \<and> le_int s = Rep_gf (py P) + 2 ^ 255 * (Rep_gf (px P) mod 2)"

lemma ed_encodes_unique: "ed_encodes s P \<Longrightarrow> ed_encodes t P \<Longrightarrow> s = t"
  by (intro le_int_inj) (simp_all add: ed_encodes_def)

lemma Rep_gf_range: "0 \<le> Rep_gf x" "Rep_gf x < p25519"
  using Rep_gf [of x] by simp_all

lemma Rep_gf_less: "Rep_gf x < 2 ^ 255"
  using Rep_gf_range(2) [of x] by (simp add: p25519_def)

lemma Rep_gf_uminus: "x \<noteq> 0 \<Longrightarrow> Rep_gf (- x) = p25519 - Rep_gf x"
proof -
  assume "x \<noteq> 0"
  then have "Rep_gf x \<noteq> 0" by (simp add: Rep_gf_inject [symmetric] zero_gf.rep_eq)
  then have "0 < Rep_gf x" using Rep_gf_range(1) [of x] by simp
  then have "- Rep_gf x mod p25519 = p25519 - Rep_gf x"
    using Rep_gf_range(2) [of x] by (simp add: zmod_zminus1_eq_if)
  then show ?thesis by (simp add: uminus_gf.rep_eq)
qed

lemma gf_parity_neg: "x \<noteq> 0 \<Longrightarrow> odd (Rep_gf (- x)) \<longleftrightarrow> even (Rep_gf x)"
  by (simp add: Rep_gf_uminus p25519_def)

lemma floose_Rep: "floose v f \<Longrightarrow> fe_val f mod p25519 = Rep_gf v"
  by (auto simp: floose_def gfe_def Rep_gf_of_int)

lemma ftight_invert:
  assumes "ftight z f"
  shows "ftight (inverse z) (fe_invert f)"
proof -
  have m: "fe_mulable f" using assms ftight_mulable by (auto simp: fmulable_def)
  have i: "fe_tight (fe_invert f)" "fe_val (fe_invert f) mod p25519 = fe_val f ^ nat (p25519 - 2) mod p25519"
    using fe_invert_pow [OF m] by (simp_all add: pow_of_def p25519_def)
  have "gfe (fe_invert f) = of_int (fe_val f ^ nat (p25519 - 2))" by (rule gfe_eqI [OF i(2)])
  also have "\<dots> = inverse z" using assms by (simp add: inverse_gf_def ftight_def gfe_def)
  finally show ?thesis using i(1) by (simp add: ftight_def)
qed

lemma fe_isnegative_word:
  assumes "floose v f"
  shows "fe_isnegative f = (if odd (Rep_gf v) then 1 else 0)"
proof -
  have "sint (fe_isnegative f) = Rep_gf v mod 2"
    using fe_isnegative_eq [of f] floose_Rep [OF assms] assms by (simp add: floose_def)
  moreover have "fe_isnegative f = word_of_int (sint (fe_isnegative f))" by simp
  ultimately have "fe_isnegative f = word_of_int (Rep_gf v mod 2)" by simp
  then show ?thesis by (auto simp: odd_iff_mod_2_eq_one even_iff_mod_2_eq_zero)
qed

lemma le_int_update_31:
  assumes "length s = 32"
  shows "le_int (s[31 := b]) = le_int s + 256 ^ 31 * (uint b - uint (s ! 31))"
proof -
  have "s = take 31 s @ [s ! 31]" using assms by (simp add: take_Suc_conv_app_nth [symmetric])
  then have "le_int s = le_int (take 31 s) + 256 ^ 31 * uint (s ! 31)"
    using le_int_append [of "take 31 s" "[s ! 31]"] assms by simp
  moreover have "s[31 := b] = take 31 s @ [b]" using assms by (simp add: upd_conv_take_nth_drop)
  then have "le_int (s[31 := b]) = le_int (take 31 s) + 256 ^ 31 * uint b"
    using le_int_append [of "take 31 s" "[b]"] assms by simp
  ultimately show ?thesis by (simp add: right_diff_distrib)
qed

lemma top_byte_le_int:
  assumes "length s = 32"
  shows "uint (s ! 31) = le_int s div 256 ^ 31"
proof -
  have "s = take 31 s @ [s ! 31]" using assms by (simp add: take_Suc_conv_app_nth [symmetric])
  then have "le_int s = le_int (take 31 s) + uint (s ! 31) * 256 ^ 31"
    using le_int_append [of "take 31 s" "[s ! 31]"] assms by (simp add: mult.commute)
  moreover have "0 \<le> le_int (take 31 s)" "le_int (take 31 s) < 256 ^ 31"
    using le_int_less [of "take 31 s"] assms by simp_all
  ultimately show ?thesis by simp
qed

lemma xor_top_bit:
  assumes "uint (b :: u8) < 128"
  shows "uint (b XOR 128) = uint b + 128"
proof -
  have nb: "\<not> bit (uint b) 7" using assms by (simp add: bit_iff_odd)
  have "uint b XOR 128 = flip_bit 7 (uint b)" by (simp add: flip_bit_eq_xor push_bit_eq_mult)
  also have "\<dots> = uint b + 128" using nb by (simp add: flip_bit_eq_if set_bit_eq)
  finally show ?thesis by (simp add: uint_xor)
qed

lemma sign_byte:
  assumes "floose v f"
  shows "ucast (push_bit 7 (fe_isnegative f)) = (if odd (Rep_gf v) then 128 else 0 :: u8)"
  unfolding fe_isnegative_word [OF assms] by simp

lemma encode_point:
  assumes "floose (px P) x" "floose (py P) y"
  shows "ed_encodes ((fe_tobytes y)[31 := fe_tobytes y ! 31 XOR ucast (push_bit 7 (fe_isnegative x))]) P"
proof -
  let ?s = "fe_tobytes y"
  have l: "length ?s = 32" "le_int ?s = Rep_gf (py P)"
    using le_int_fe_tobytes [of y] floose_Rep [OF assms(2)] assms(2) by (simp_all add: floose_def)
  have "uint (?s ! 31) < 128"
    unfolding top_byte_le_int [OF l(1)] l(2)
    using zdiv_mono1 [of "Rep_gf (py P)" "2 ^ 255 - 1" "256 ^ 31"] Rep_gf_less [of "py P"] by simp
  note x = xor_top_bit [OF this]
  show ?thesis
    unfolding sign_byte [OF assms(1)] ed_encodes_def
    using l x by (simp add: le_int_update_31 odd_iff_mod_2_eq_one)
qed

lemma encode_quotient:
  assumes "z \<noteq> 0" "ftight (x * z) a" "ftight z c"
  shows "floose x (fe_mul a (fe_invert c))"
proof -
  have "ftight (x * z * inverse z) (fe_mul a (fe_invert c))"
    using assms(2) ftight_invert [OF assms(3)] by (intro ftight_mul ftight_mulable)
  then show ?thesis using assms(1) by (simp add: ftight_loose mult.assoc)
qed

lemma ge_p3_tobytes_rep: "rep_p3 P h \<Longrightarrow> ed_encodes (ge_p3_tobytes h) P"
proof -
  assume "rep_p3 P h"
  then obtain z where z: "z \<noteq> 0" "ftight (px P * z) (p3_X h)" "ftight (py P * z) (p3_Y h)" "ftight z (p3_Z h)"
    by (auto simp: rep_p3_def)
  show ?thesis unfolding ge_p3_tobytes_def Let_def
    by (rule encode_point) (rule encode_quotient [OF z(1) z(2) z(4)], rule encode_quotient [OF z(1) z(3) z(4)])
qed

lemma ge_tobytes_rep: "rep_p2 P h \<Longrightarrow> ed_encodes (ge_tobytes h) P"
proof -
  assume "rep_p2 P h"
  then obtain z where z: "z \<noteq> 0" "ftight (px P * z) (p2_X h)" "ftight (py P * z) (p2_Y h)" "ftight z (p2_Z h)"
    by (auto simp: rep_p2_def)
  show ?thesis unfolding ge_tobytes_def Let_def
    by (rule encode_point) (rule encode_quotient [OF z(1) z(2) z(4)], rule encode_quotient [OF z(1) z(3) z(4)])
qed

section \<open>The square root\<close>

text \<open>The curve equation solved for \<open>x\<close>: \<open>v x\<^sup>2 = u\<close>.\<close>

definition dec_u :: "gf \<Rightarrow> gf" where "dec_u y = y * y - 1"
definition dec_v :: "gf \<Rightarrow> gf" where "dec_v y = y * y * ed_d + 1"

lemma curve_dec: "on_curve (x, y) \<longleftrightarrow> x * x * dec_v y = dec_u y"
proof -
  have "on_curve (x, y) \<longleftrightarrow> (y * y - x * x) - (1 + ed_d * x * x * y * y) = 0" by (simp add: on_curve_def)
  also have "(y * y - x * x) - (1 + ed_d * x * x * y * y) = dec_u y - x * x * dec_v y"
    unfolding dec_u_def dec_v_def by algebra
  finally show ?thesis by auto
qed

definition root_exp :: nat where "root_exp = nat ((p25519 - 5) div 8)"

lemma root_exp: "nat (p25519 - 1) = 2 * (4 * root_exp + 2)"
  by (simp add: root_exp_def p25519_def)

definition dec_root :: "gf \<Rightarrow> gf \<Rightarrow> gf" where
  "dec_root u v = (u * (v * v * v * (v * v * v) * v)) ^ root_exp * (v * v * v) * u"

lemma square_powers: "(t * t) ^ e * (t * t) ^ e * (t * t) = (t :: gf) ^ (4 * e + 2)"
proof -
  have "(t * t) ^ e * (t * t) ^ e * (t * t) = t ^ (2 * e * 2 + 2)"
    by (simp only: power2_eq_square [symmetric] power_mult [symmetric] power_add [symmetric])
  then show ?thesis by (simp add: mult.commute)
qed

lemma dec_root_square:
  assumes "x * x * v = u"
  shows "dec_root u v * dec_root u v * v = u \<or> dec_root u v * dec_root u v * v = - u"
proof (cases "x * (v * v * v * v) = 0")
  case True
  then have "u = 0" using assms by auto
  then show ?thesis by (simp add: dec_root_def)
next
  case False
  let ?t = "x * (v * v * v * v)"
  define w where "w = ?t ^ (4 * root_exp + 2)"
  have "w * w = ?t ^ nat (p25519 - 1)"
    unfolding root_exp w_def by (simp only: mult_2 power_add)
  then have "w * w = 1" using gf_fermat [OF False] by simp
  then have w: "w = 1 \<or> w = - 1" by (simp add: square_eq_1_iff)
  have t: "u * (v * v * v * (v * v * v) * v) = ?t * ?t" unfolding assms [symmetric] by algebra
  define q where "q = (?t * ?t) ^ root_exp"
  have "q * q * (?t * ?t) = w"
    unfolding q_def w_def by (rule square_powers)
  moreover have "dec_root u v * dec_root u v * v = u * (q * q * (?t * ?t))"
    unfolding dec_root_def t q_def [symmetric] unfolding assms [symmetric] by (simp only: mult_ac)
  ultimately have "dec_root u v * dec_root u v * v = u * w" by simp
  then show ?thesis using w by auto
qed

lemma dec_v_nonzero: "dec_v y \<noteq> 0"
proof
  assume "dec_v y = 0"
  then have e: "ed_d * (y * y) = - 1" by (simp add: dec_v_def eq_neg_iff_add_eq_0 mult.commute)
  then have "sqrt_m1 * sqrt_m1 = ed_d * (y * y)" by (simp add: sqrt_m1)
  moreover have "y \<noteq> 0" using e by auto
  ultimately show False using d_nonsquare by blast
qed

section \<open>Decoding\<close>

text \<open>Within one of the tight bounds: the results of adding and subtracting \<^verbatim>\<open>fe_1\<close>.\<close>

definition fnear :: "gf \<Rightarrow> fe \<Rightarrow> bool" where "fnear v f \<longleftrightarrow> fe_within 33889977 16944988 f \<and> gfe f = v"

lemma fe_1_within: "fe_within 1 0 fe_1"
  by (simp add: fe_1_def)

lemma fnear_add_1: "ftight v f \<Longrightarrow> fnear (v + 1) (fe_add f fe_1)"
  using fe_add_exact [of 33889976 16944988 f 1 0 fe_1] fe_1_within by (auto simp: ftight_def fnear_def gfe_def fe_bounds)

lemma fnear_sub_1: "ftight v f \<Longrightarrow> fnear (v - 1) (fe_sub f fe_1)"
  using fe_sub_exact [of 33889976 16944988 f 1 0 fe_1] fe_1_within by (auto simp: ftight_def fnear_def gfe_def fe_bounds)

lemma fnear_mulable: "fnear v f \<Longrightarrow> fmulable v f"
  by (auto simp: fnear_def fmulable_def fe_bounds elim: fe_within_mono)

lemma floose_sub_near: "ftight v f \<Longrightarrow> fnear w g \<Longrightarrow> floose (v - w) (fe_sub f g)"
  using fe_sub_exact [of 33889976 16944988 f 33889977 16944988 g]
  by (auto simp: ftight_def fnear_def floose_def gfe_def fe_bounds elim: fe_within_mono)

lemma floose_add_near: "ftight v f \<Longrightarrow> fnear w g \<Longrightarrow> floose (v + w) (fe_add f g)"
  using fe_add_exact [of 33889976 16944988 f 33889977 16944988 g]
  by (auto simp: ftight_def fnear_def floose_def gfe_def fe_bounds elim: fe_within_mono)

lemma fe_isnonzero_gf: "floose v f \<Longrightarrow> fe_isnonzero f \<longleftrightarrow> v \<noteq> 0"
  using fe_isnonzero_iff [of f] floose_Rep [of v f]
  by (auto simp: floose_def Rep_gf_inject [symmetric] zero_gf.rep_eq)

lemma ftight_pow22523:
  assumes "ftight v f"
  shows "ftight (v ^ root_exp) (fe_pow22523 f)"
proof -
  have m: "fe_mulable f" using assms ftight_mulable by (auto simp: fmulable_def)
  have i: "fe_tight (fe_pow22523 f)" "fe_val (fe_pow22523 f) mod p25519 = fe_val f ^ root_exp mod p25519"
    using fe_pow22523_pow [OF m] by (simp_all add: pow_of_def p25519_def root_exp_def)
  have "gfe (fe_pow22523 f) = of_int (fe_val f ^ root_exp)" by (rule gfe_eqI [OF i(2)])
  then show ?thesis using i(1) assms by (simp add: ftight_def gfe_def)
qed

lemma ftight_frombytes: "length s = 32 \<Longrightarrow> ftight (of_int (le_int s mod 2 ^ 255)) (fe_frombytes s)"
  using fe_frombytes_tight [of s] gfe_eqI [OF fe_frombytes_mod [of s]] by (simp add: ftight_def)

text \<open>The cases of \<^verbatim>\<open>ge_frombytes_negate_vartime\<close>.\<close>

definition dec_x :: "gf \<Rightarrow> gf" where
  "dec_x y = (if dec_root (dec_u y) (dec_v y) * dec_root (dec_u y) (dec_v y) * dec_v y = dec_u y
    then dec_root (dec_u y) (dec_v y) else dec_root (dec_u y) (dec_v y) * sqrt_m1)"

definition dec_ok :: "gf \<Rightarrow> bool" where
  "dec_ok y \<longleftrightarrow> dec_root (dec_u y) (dec_v y) * dec_root (dec_u y) (dec_v y) * dec_v y = dec_u y \<or>
    dec_root (dec_u y) (dec_v y) * dec_root (dec_u y) (dec_v y) * dec_v y = - dec_u y"

lemma dec_ok_curve: "dec_ok y \<Longrightarrow> on_curve (dec_x y, y)"
proof -
  assume ok: "dec_ok y"
  let ?b = "dec_root (dec_u y) (dec_v y)"
  have "?b * sqrt_m1 * (?b * sqrt_m1) * dec_v y = dec_u y" if "?b * ?b * dec_v y = - dec_u y"
  proof -
    have "?b * sqrt_m1 * (?b * sqrt_m1) * dec_v y = (sqrt_m1 * sqrt_m1) * (?b * ?b * dec_v y)" by algebra
    then show ?thesis unfolding that sqrt_m1 by simp
  qed
  then show ?thesis using ok unfolding curve_dec dec_ok_def dec_x_def by auto
qed

lemma dec_ok_iff: "dec_ok y \<longleftrightarrow> (\<exists>P. py P = y)"
proof
  assume "dec_ok y"
  then show "\<exists>P. py P = y" using mk_pt [OF dec_ok_curve] by blast
next
  assume "\<exists>P. py P = y"
  then obtain P where "py P = y" by blast
  then have "on_curve (px P, y)" using pt_on_curve [of P] by simp
  then show "dec_ok y" unfolding curve_dec dec_ok_def by (rule dec_root_square)
qed

definition sign_bit :: "u8 list \<Rightarrow> bool" where
  "sign_bit s \<longleftrightarrow> 128 \<le> uint (s ! 31)"

lemma sign_test:
  assumes "floose v f" "length s = 32"
  shows "fe_isnegative f = ucast (drop_bit 7 (s ! 31)) \<longleftrightarrow> (odd (Rep_gf v) \<longleftrightarrow> sign_bit s)"
proof -
  have b: "uint (s ! 31) < 256" using uint_bounded [of "s ! 31"] by simp
  have d: "uint (drop_bit 7 (s ! 31)) = uint (s ! 31) div 128"
  proof -
    have "take_bit 8 (uint (s ! 31)) = uint (s ! 31)" using b by (simp add: take_bit_int_eq_self)
    then show ?thesis by (simp add: uint_div drop_bit_eq_div)
  qed
  have "drop_bit 7 (s ! 31) = (if sign_bit s then 1 else 0)"
  proof (cases "sign_bit s")
    case True
    then have "uint (s ! 31) div 128 = 1" using b by (simp add: sign_bit_def div_pos_geq)
    then show ?thesis using True d by (simp add: word_uint_eq_iff)
  next
    case False
    then have "uint (s ! 31) div 128 = 0" by (simp add: sign_bit_def)
    then show ?thesis using False d by (simp add: word_uint_eq_iff)
  qed
  then show ?thesis unfolding fe_isnegative_word [OF assms(1)] by auto
qed

lemma ge_frombytes_rep:
  fixes s :: "u8 list"
  defines "y \<equiv> of_int (le_int s mod 2 ^ 255) :: gf"
  assumes s: "length s = 32"
  shows "case ge_frombytes_negate_vartime s of None \<Rightarrow> \<not> dec_ok y
    | Some h \<Rightarrow> dec_ok y \<and> (let x = if odd (Rep_gf (dec_x y)) = sign_bit s then - dec_x y else dec_x y in
        rep_p3 (mk_pt x y) h)"
proof -
  let ?Y = "fe_frombytes s"
  let ?uu = "fe_sq ?Y"
  let ?u = "fe_sub ?uu fe_1" and ?v = "fe_add (fe_mul ?uu ge_d) fe_1"
  let ?v3 = "fe_mul (fe_sq ?v) ?v"
  let ?w = "fe_mul (fe_mul (fe_sq ?v3) ?v) ?u"
  let ?X = "fe_mul (fe_mul (fe_pow22523 ?w) ?v3) ?u"
  let ?vxx = "fe_mul (fe_sq ?X) ?v"
  let ?c = "fe_sub ?vxx ?u" and ?c' = "fe_add ?vxx ?u"
  let ?b = "dec_root (dec_u y) (dec_v y)"
  have Y: "ftight y ?Y" unfolding y_def by (rule ftight_frombytes [OF s])
  note uu = ftight_sq [OF ftight_mulable [OF Y]]
  have u: "fnear (dec_u y) ?u" using fnear_sub_1 [OF uu] by (simp add: dec_u_def)
  have v: "fnear (dec_v y) ?v"
    using fnear_add_1 [OF ftight_mul [OF ftight_mulable [OF uu] ftight_mulable [OF ge_d_rep]]] by (simp add: dec_v_def)
  note um = fnear_mulable [OF u] and vm = fnear_mulable [OF v]
  note v3 = ftight_mul [OF ftight_mulable [OF ftight_sq [OF vm]] vm]
  have w: "ftight (dec_u y * (dec_v y * dec_v y * dec_v y * (dec_v y * dec_v y * dec_v y) * dec_v y)) ?w"
    by (rule ftight_eq [OF ftight_mul [OF ftight_mulable [OF ftight_mul [OF ftight_mulable [OF ftight_sq [OF ftight_mulable [OF v3]]] vm]] um]])
      (simp only: mult_ac)
  have X: "ftight ?b ?X"
    unfolding dec_root_def
    by (rule ftight_mul [OF ftight_mulable [OF ftight_mul [OF ftight_mulable [OF ftight_pow22523 [OF w]] ftight_mulable [OF v3]]] um])
  have vxx: "ftight (?b * ?b * dec_v y) ?vxx"
    by (rule ftight_mul [OF ftight_mulable [OF ftight_sq [OF ftight_mulable [OF X]]] vm])
  have c: "fe_isnonzero ?c \<longleftrightarrow> ?b * ?b * dec_v y \<noteq> dec_u y"
    using fe_isnonzero_gf [OF floose_sub_near [OF vxx u]] by simp
  have c': "fe_isnonzero ?c' \<longleftrightarrow> ?b * ?b * dec_v y \<noteq> - dec_u y"
    using fe_isnonzero_gf [OF floose_add_near [OF vxx u]] by (simp add: eq_neg_iff_add_eq_0)
  let ?X1 = "if fe_isnonzero ?c then fe_mul ?X ge_sqrtm1 else ?X"
  have X1: "ftight (dec_x y) ?X1"
    using X ftight_mul [OF ftight_mulable [OF X] ftight_mulable [OF ge_sqrtm1_rep]] c by (simp add: dec_x_def)
  let ?X2 = "if fe_isnegative ?X1 = ucast (drop_bit 7 (s ! 31)) then fe_neg ?X1 else ?X1"
  let ?x = "if odd (Rep_gf (dec_x y)) = sign_bit s then - dec_x y else dec_x y"
  have X2: "ftight ?x ?X2"
    using X1 ftight_neg [OF X1] sign_test [OF ftight_loose [OF X1] s] by simp
  have code: "ge_frombytes_negate_vartime s = (if fe_isnonzero ?c \<and> fe_isnonzero ?c' then None
      else Some \<lparr>p3_X = ?X2, p3_Y = ?Y, p3_Z = fe_1, p3_T = fe_mul ?X2 ?Y\<rparr>)"
    unfolding ge_frombytes_negate_vartime_def Let_def ..
  show ?thesis
  proof (cases "dec_ok y")
    case True
    then have "on_curve (?x, y)" using dec_ok_curve [OF True] on_curve_neg by auto
    then have P: "px (mk_pt ?x y) = ?x" "py (mk_pt ?x y) = y" using mk_pt by blast+
    have "rep_p3 (mk_pt ?x y) \<lparr>p3_X = ?X2, p3_Y = ?Y, p3_Z = fe_1, p3_T = fe_mul ?X2 ?Y\<rparr>"
      unfolding rep_p3_def P using X2 Y ftight_consts(2) ftight_mul [OF ftight_mulable [OF X2] ftight_mulable [OF Y]]
      by (intro exI [of _ 1]) simp
    moreover have "\<not> (fe_isnonzero ?c \<and> fe_isnonzero ?c')" using True unfolding c c' dec_ok_def by blast
    ultimately show ?thesis unfolding code Let_def using True by (simp only: if_False option.case simp_thms)
  next
    case False
    then have "fe_isnonzero ?c \<and> fe_isnonzero ?c'" unfolding c c' dec_ok_def by blast
    then show ?thesis unfolding code using False by (simp only: if_True option.case simp_thms)
  qed
qed

lemma ge_frombytes_None: "length s = 32 \<Longrightarrow> ge_frombytes_negate_vartime s = None \<longleftrightarrow> (\<nexists>P. py P = of_int (le_int s mod 2 ^ 255))"
  using ge_frombytes_rep [of s] by (auto simp: dec_ok_iff [symmetric] split: option.splits)

lemma ge_frombytes_Some:
  assumes "length s = 32" "ge_frombytes_negate_vartime s = Some h"
  shows "\<exists>P. rep_p3 P h \<and> py P = of_int (le_int s mod 2 ^ 255) \<and> (px P \<noteq> 0 \<longrightarrow> odd (Rep_gf (px P)) \<noteq> sign_bit s)"
proof -
  let ?y = "of_int (le_int s mod 2 ^ 255) :: gf"
  let ?x = "if odd (Rep_gf (dec_x ?y)) = sign_bit s then - dec_x ?y else dec_x ?y"
  have h: "dec_ok ?y" "rep_p3 (mk_pt ?x ?y) h" using ge_frombytes_rep [OF assms(1)] unfolding assms(2) by (simp_all add: Let_def)
  have "on_curve (?x, ?y)" using dec_ok_curve [OF h(1)] on_curve_neg by auto
  then have P: "px (mk_pt ?x ?y) = ?x" "py (mk_pt ?x ?y) = ?y" using mk_pt by blast+
  have "?x \<noteq> 0 \<longrightarrow> odd (Rep_gf ?x) \<noteq> sign_bit s" using gf_parity_neg [of "dec_x ?y"] by auto
  then have "px (mk_pt ?x ?y) \<noteq> 0 \<longrightarrow> odd (Rep_gf (px (mk_pt ?x ?y))) \<noteq> sign_bit s" unfolding P(1) .
  then show ?thesis using h(2) P(2) by blast
qed

text \<open>Decoding an encoding.\<close>

lemma ed_encodes_parts:
  assumes "ed_encodes s P"
  shows "of_int (le_int s mod 2 ^ 255) = py P" "sign_bit s \<longleftrightarrow> odd (Rep_gf (px P))"
proof -
  have s: "length s = 32" "le_int s = Rep_gf (py P) + 2 ^ 255 * (Rep_gf (px P) mod 2)" using assms by (simp_all add: ed_encodes_def)
  have y: "0 \<le> Rep_gf (py P)" "Rep_gf (py P) < 2 ^ 255" using Rep_gf_range(1) Rep_gf_less by blast+
  then have "le_int s mod 2 ^ 255 = Rep_gf (py P)" unfolding s(2) by simp
  then show "of_int (le_int s mod 2 ^ 255) = py P" using gf_of_int_Rep by simp
  have "le_int s div 2 ^ 255 = Rep_gf (px P) mod 2" unfolding s(2) using y by simp
  moreover have "uint (s ! 31) div 128 = le_int s div 2 ^ 255"
    unfolding top_byte_le_int [OF s(1)] by (simp add: zdiv_zmult2_eq [symmetric])
  ultimately have d: "uint (s ! 31) div 128 = Rep_gf (px P) mod 2" by simp
  show "sign_bit s \<longleftrightarrow> odd (Rep_gf (px P))"
  proof
    assume "sign_bit s"
    then have "(128::int) div 128 \<le> uint (s ! 31) div 128" unfolding sign_bit_def by (rule zdiv_mono1) simp
    then show "odd (Rep_gf (px P))" unfolding d by (simp add: odd_iff_mod_2_eq_one)
  next
    assume "odd (Rep_gf (px P))"
    then have "uint (s ! 31) div 128 = 1" unfolding d by (simp add: odd_iff_mod_2_eq_one)
    then have "\<not> uint (s ! 31) < 128" by (metis div_pos_pos_trivial uint_nonnegative zero_neq_one)
    then show "sign_bit s" by (simp add: sign_bit_def)
  qed
qed

lemma ge_frombytes_encodes:
  assumes "ed_encodes s P"
  shows "\<exists>h. ge_frombytes_negate_vartime s = Some h \<and> rep_p3 (- P) h"
proof -
  have l: "length s = 32" using assms by (simp add: ed_encodes_def)
  note parts = ed_encodes_parts [OF assms]
  obtain h where h: "ge_frombytes_negate_vartime s = Some h"
    using ge_frombytes_None [OF l] parts(1) by (metis option.exhaust)
  obtain Q where Q: "rep_p3 Q h" "py Q = py P" "px Q \<noteq> 0 \<Longrightarrow> odd (Rep_gf (px Q)) \<noteq> odd (Rep_gf (px P))"
    using ge_frombytes_Some [OF l h] unfolding parts by blast
  have "px Q = - px P"
  proof (cases "px P = 0")
    case True
    then show ?thesis using pt_same_y [OF Q(2)] by auto
  next
    case False
    then show ?thesis using pt_same_y [OF Q(2)] Q(3) by auto
  qed
  then have "Q = - P" by (intro pt_eqI) (simp_all add: Q(2))
  then show ?thesis using h Q(1) by blast
qed

text \<open>
  (C13) Points and bytes: both encoders write the 32-byte encoding of the point whatever its projective
  representation, and decoding an encoding succeeds and yields the negative of the point.
\<close>

theorem ge_bytes_roundtrip:
  assumes "rep_p3 P h" "rep_p2 P r"
  shows "ed_encodes (ge_p3_tobytes h) P \<and> ge_tobytes r = ge_p3_tobytes h \<and>
    (\<exists>h'. ge_frombytes_negate_vartime (ge_p3_tobytes h) = Some h' \<and> rep_p3 (- P) h')"
  using ge_p3_tobytes_rep [OF assms(1)] ge_tobytes_rep [OF assms(2)] ed_encodes_unique ge_frombytes_encodes by metis

theorem ge_bytes_roundtrip_witness:
  "\<exists>h'. ge_frombytes_negate_vartime (ge_p3_tobytes ge_p3_0) = Some h' \<and> rep_p3 (- 0) h'"
  using ge_bytes_roundtrip [OF ge_p3_0_rep ge_p2_0_rep] by blast

text \<open>
  (C14) \<^verbatim>\<open>ge_frombytes_negate_vartime\<close> returns -1 exactly when no point of the curve has the \<open>y\<close> coordinate
  of the 32 bytes (bit 255 ignored); otherwise the result is a point of the curve with that \<open>y\<close> whose
  sign is the opposite of bit 255.
\<close>

theorem ge_frombytes_decides:
  assumes "length s = 32"
  shows "(ge_frombytes_negate_vartime s = None \<longleftrightarrow> (\<nexists>P. py P = of_int (le_int s mod 2 ^ 255))) \<and>
    (\<forall>h. ge_frombytes_negate_vartime s = Some h \<longrightarrow>
      (\<exists>P. rep_p3 P h \<and> py P = of_int (le_int s mod 2 ^ 255) \<and> (px P \<noteq> 0 \<longrightarrow> odd (Rep_gf (px P)) \<noteq> sign_bit s)))"
  using ge_frombytes_None [OF assms] ge_frombytes_Some [OF assms] by blast

theorem ge_frombytes_decides_witness:
  "ge_frombytes_negate_vartime (1 # replicate 31 0) \<noteq> None"
proof -
  have z: "le_int (replicate n 0) = 0" for n by (induction n) simp_all
  have "py 0 = of_int (le_int (1 # replicate 31 0) mod 2 ^ 255)" by (simp add: z)
  moreover have "length (1 # replicate 31 0) = 32" by simp
  ultimately show ?thesis using ge_frombytes_decides by blast
qed

end
