(* ===== verification/Ed25519.thy ===== *)
theory Ed25519
  imports GeBase GeBytes Sha3
begin

text \<open>
  \<^verbatim>\<open>lib/verifier/ed25519/keypair.c\<close>, \<^verbatim>\<open>sign.c\<close> and \<^verbatim>\<open>verify.c\<close>: Ed25519 with SHA3-512, on top of the point,
  scalar and hash functions.  A pointer into a longer buffer is the list from that byte on (\<open>drop\<close>); a
  callee reads the first bytes it needs.  The theorems give the exact condition under which a signature
  is accepted, and that what \<^verbatim>\<open>ed25519_sign\<close> produces is accepted.
\<close>

section \<open>Code\<close>

text \<open>Returns the public and the private key.\<close>

definition ed25519_create_keypair :: "u8 list \<Rightarrow> u8 list \<times> u8 list" where
  "ed25519_create_keypair seed =
    (let private_key = sha3 (take 32 seed) 64;
         private_key = private_key[0 := private_key ! 0 AND 248];
         private_key = private_key[31 := private_key ! 31 AND 63];
         private_key = private_key[31 := private_key ! 31 OR 64];
         A = ge_scalarmult_base private_key;
         public_key = ge_p3_tobytes A
     in (public_key, private_key))"

definition ed25519_sign :: "u8 list \<Rightarrow> u8 list \<Rightarrow> u8 list \<Rightarrow> u8 list" where
  "ed25519_sign message public_key private_key =
    (let hash = sha3_init 64;
         hash = sha3_update hash (take 32 (drop 32 private_key));
         hash = sha3_update hash message;
         r = fst (sha3_final hash);
         r = sc_reduce r;
         R = ge_scalarmult_base r;
         signature = ge_p3_tobytes R;
         hash = sha3_init 64;
         hash = sha3_update hash (take 32 signature);
         hash = sha3_update hash (take 32 public_key);
         hash = sha3_update hash message;
         hram = fst (sha3_final hash);
         hram = sc_reduce hram
     in signature @ sc_muladd hram private_key r)"

text \<open>The macro \<^verbatim>\<open>F(i)\<close> is applied to \<open>1, \<dots>, 31\<close> in order.\<close>

definition consttime_equal :: "u8 list \<Rightarrow> u8 list \<Rightarrow> bool" where
  "consttime_equal x y =
    (let r = x ! 0 XOR y ! 0;
         r = foldl (\<lambda>r i. r OR (x ! i XOR y ! i)) r [1..<32]
     in r = 0)"

text \<open>\<open>True\<close> is the return value 1.\<close>

definition ed25519_verify :: "u8 list \<Rightarrow> u8 list \<Rightarrow> u8 list \<Rightarrow> bool" where
  "ed25519_verify signature message public_key =
    (if signature ! 63 AND 224 \<noteq> 0 then False
     else case ge_frombytes_negate_vartime public_key of
       None \<Rightarrow> False
     | Some A \<Rightarrow>
         let hash = sha3_init 64;
             hash = sha3_update hash (take 32 signature);
             hash = sha3_update hash (take 32 public_key);
             hash = sha3_update hash message;
             h = fst (sha3_final hash);
             h = sc_reduce h;
             R = ge_double_scalarmult_vartime h A (drop 32 signature);
             checker = ge_tobytes R
         in if \<not> consttime_equal checker signature then False else True)"

section \<open>Callees read the first 32 bytes\<close>

lemma load_take: "i + 2 < 32 \<Longrightarrow> load_3 (take 32 s) i = load_3 s i" "i + 3 < 32 \<Longrightarrow> load_4 (take 32 s) i = load_4 s i"
  by (simp_all add: load_3_def load_4_def)

lemma sc_load_32_take: "sc_load_32 (take 32 s) = sc_load_32 s"
  by (simp add: sc_load_32_def load_take)

lemma sc_muladd_take: "sc_muladd (take 32 a) (take 32 b) (take 32 c) = sc_muladd a b c"
  by (simp add: sc_muladd_def sc_load_32_take)

lemma radix16_take: "radix16 (take 32 a) = radix16 a"
proof -
  have "nibbles (take 32 a) = nibbles a"
    unfolding nibbles_def by (rule arg_cong [of _ _ concat], rule map_cong) simp_all
  then show ?thesis unfolding radix16_def nibbles_def [symmetric] by simp
qed

lemma ge_scalarmult_base_take: "ge_scalarmult_base (take 32 a) = ge_scalarmult_base a"
  by (simp only: ge_scalarmult_base_def radix16_take)

lemma slide_take: "slide (take 32 a) = slide a"
proof -
  have "scalar_bits (take 32 a) = scalar_bits a"
    unfolding scalar_bits_def by (rule map_cong) (simp_all add: less_mult_imp_div_less)
  then show ?thesis unfolding slide_def scalar_bits_def [symmetric] by simp
qed

lemma ge_double_scalarmult_take:
  "ge_double_scalarmult_vartime (take 32 a) A b = ge_double_scalarmult_vartime a A b"
  by (simp only: ge_double_scalarmult_vartime_def slide_take)

section \<open>The hashes\<close>

lemma sha3_three: "fst (sha3_final (sha3_update (sha3_update (sha3_update (sha3_init n) as) bs) cs)) = sha3 (as @ bs @ cs) n"
  by (simp add: sha3_def update_append)

lemma length_sha3: "0 \<le> n \<Longrightarrow> length (sha3 m n) = nat n"
  by (simp add: sha3_def sha3_final_def sha3_init_def sha3_update_def Let_def split: prod.split)

definition hash_scalar :: "u8 list \<Rightarrow> int" where
  "hash_scalar m = le_int (sha3 m 64) mod l25519"

lemma hash_scalar_reduce: "le_int (take 32 (sc_reduce (sha3 m 64))) = hash_scalar m" "length (sc_reduce (sha3 m 64)) = 64"
  using sc_reduce_value [of "sha3 m 64"] length_sha3 [of 64 m] by (simp_all add: sc_reduce_def hash_scalar_def)

lemma l25519_range: "0 < l25519" "l25519 < 2 ^ 253"
  by (simp_all add: l25519_def)

lemma hash_scalar_range: "0 \<le> hash_scalar m" "hash_scalar m < l25519"
  using l25519_range by (simp_all add: hash_scalar_def)

lemma smul_order: "smul (n mod l25519) ed_B = smul n ed_B"
proof -
  have "smul n ed_B = smul (n div l25519 * l25519 + n mod l25519) ed_B" by simp
  then show ?thesis unfolding smul_add smul_smul ed_B_order by simp
qed

lemma foldl_or_fun_zero: "foldl (\<lambda>r i. r OR f i) (r :: u8) is = 0 \<longleftrightarrow> r = 0 \<and> (\<forall>i\<in>set is. f i = 0)"
  by (induction "is" arbitrary: r) (auto simp: or_eq_0_iff)

lemma xor_byte_zero: "(x :: u8) XOR y = 0 \<longleftrightarrow> x = y"
  by (metis xor.assoc xor_self_eq xor.left_neutral xor.right_neutral)

lemma consttime_equal_iff: "32 \<le> length x \<Longrightarrow> 32 \<le> length y \<Longrightarrow> consttime_equal x y \<longleftrightarrow> take 32 x = take 32 y"
proof -
  assume l: "32 \<le> length x" "32 \<le> length y"
  have "consttime_equal x y \<longleftrightarrow> (\<forall>i<32. x ! i = y ! i)"
    unfolding consttime_equal_def Let_def foldl_or_fun_zero xor_byte_zero
    by (auto simp: less_Suc_eq_0_disj Suc_le_eq neq0_conv)
  also have "\<dots> \<longleftrightarrow> take 32 x = take 32 y"
    using l by (auto simp: list_eq_iff_nth_eq)
  finally show ?thesis .
qed

section \<open>Keys\<close>

lemma uint_and_range: "0 \<le> uint (x AND y :: u8)" "uint (x AND y) \<le> uint y"
  by (simp_all add: uint_and AND_upper2)

text \<open>The byte \<^verbatim>\<open>(b & 63) | 64\<close>.\<close>

lemma clamp_top: "uint ((b AND 63) OR 64 :: u8) \<le> 127"
proof -
  have "(b AND 63) OR 64 = ((b AND 63) OR 64) AND 127"
    by (rule bit_word_eqI) (auto simp: bit_simps numeral_eq_Suc less_Suc_eq)
  then show ?thesis using uint_and_range(2) [of "(b AND 63) OR 64" 127] by simp
qed

definition key_bytes :: "u8 list \<Rightarrow> bool" where
  "key_bytes sk \<longleftrightarrow> length sk = 64 \<and> uint (sk ! 31) \<le> 127"

lemma keypair_private: "key_bytes (snd (ed25519_create_keypair seed))"
  using length_sha3 [of 64 "take 32 seed"] clamp_top
  by (simp add: ed25519_create_keypair_def Let_def key_bytes_def)

lemma keypair_public:
  "ed_encodes (fst (ed25519_create_keypair seed)) (smul (le_int (take 32 (snd (ed25519_create_keypair seed)))) ed_B)"
proof -
  define sk where "sk = snd (ed25519_create_keypair seed)"
  have k: "length (take 32 sk) = 32" "uint (take 32 sk ! 31) \<le> 127"
    using keypair_private [of seed] by (simp_all add: sk_def key_bytes_def)
  have "rep_p3 (smul (le_int (take 32 sk)) ed_B) (ge_scalarmult_base sk)"
    using ge_scalarmult_base_rep [OF k] unfolding ge_scalarmult_base_take .
  then have "ed_encodes (ge_p3_tobytes (ge_scalarmult_base sk)) (smul (le_int (take 32 sk)) ed_B)"
    by (rule ge_p3_tobytes_rep)
  moreover have "fst (ed25519_create_keypair seed) = ge_p3_tobytes (ge_scalarmult_base sk)"
    by (simp add: sk_def ed25519_create_keypair_def Let_def)
  ultimately show ?thesis by (simp add: sk_def)
qed

section \<open>Verification\<close>

text \<open>The point a public key stands for: its \<open>y\<close> coordinate and the parity of its \<open>x\<close>.\<close>

definition decodes_to :: "u8 list \<Rightarrow> pt \<Rightarrow> bool" where
  "decodes_to s P \<longleftrightarrow> py P = of_int (le_int s mod 2 ^ 255) \<and> (px P \<noteq> 0 \<longrightarrow> odd (Rep_gf (px P)) = sign_bit s)"

lemma ed_encodes_decodes: "ed_encodes s P \<Longrightarrow> decodes_to s P"
  using ed_encodes_parts [of s P] by (simp add: decodes_to_def)

lemma neg_by_sign:
  assumes "py Q = py P" "px Q \<noteq> 0 \<longrightarrow> odd (Rep_gf (px Q)) \<noteq> b" "px P \<noteq> 0 \<longrightarrow> odd (Rep_gf (px P)) = b"
  shows "Q = - P"
proof (rule pt_eqI)
  show "px Q = px (- P)"
    using pt_same_y [OF assms(1)] assms(2,3) by (cases "px P = 0") auto
qed (simp add: assms(1))

text \<open>\<^verbatim>\<open>signature[63] & 224\<close>\<close>

lemma top_bits_clear: "(b :: u8) AND 224 = 0 \<longleftrightarrow> uint b < 32"
proof -
  have e: "(224 :: u8) = NOT (mask 5)" by code_simp
  have "b AND 224 = 0 \<longleftrightarrow> take_bit 5 b = b" unfolding e by (auto simp: bit_eq_iff bit_simps)
  also have "\<dots> \<longleftrightarrow> uint b < 32"
    by (simp add: word_uint_eq_iff unsigned_take_bit_eq take_bit_int_eq_self_iff)
  finally show ?thesis .
qed

lemma scalar_below:
  assumes "length s = 32" "uint (s ! 31) < 32"
  shows "le_int s < 2 ^ 253"
proof -
  have d: "le_int s div 256 ^ 31 < 32" using assms(2) unfolding top_byte_le_int [OF assms(1)] .
  show ?thesis
  proof (rule ccontr)
    assume "\<not> le_int s < 2 ^ 253"
    then have "(2::int) ^ 253 div 256 ^ 31 \<le> le_int s div 256 ^ 31" by (intro zdiv_mono1) simp_all
    then show False using d by simp
  qed
qed

lemma scalar_above:
  assumes "length s = 32" "le_int s < 2 ^ 253"
  shows "uint (s ! 31) < 32"
  unfolding top_byte_le_int [OF assms(1)]
  using zdiv_mono1 [of "le_int s" "2 ^ 253 - 1" "256 ^ 31"] assms(2) by simp

lemma verify_equation:
  assumes sig: "length sig = 64" and P: "rep_p3 P A" and top: "uint (sig ! 63) < 32"
  shows "consttime_equal (ge_tobytes (ge_double_scalarmult_vartime (sc_reduce (sha3 m 64)) A (drop 32 sig))) sig \<longleftrightarrow>
    ed_encodes (take 32 sig) (smul (hash_scalar m) P + smul (le_int (drop 32 sig)) ed_B)"
proof -
  let ?h = "sc_reduce (sha3 m 64)" and ?S = "drop 32 sig"
  have S: "length ?S = 32" "le_int ?S \<le> 2 ^ 255"
    using sig top scalar_below [of ?S] by simp_all
  have h: "length (take 32 ?h) = 32" "le_int (take 32 ?h) \<le> 2 ^ 255"
    using hash_scalar_reduce [of m] hash_scalar_range(2) [of m] l25519_range(2) by simp_all
  have "rep_p2 (smul (le_int (take 32 ?h)) P + smul (le_int ?S) ed_B) (ge_double_scalarmult_vartime (take 32 ?h) A ?S)"
    by (rule ge_double_scalarmult_rep [OF P h S])
  then have e: "ed_encodes (ge_tobytes (ge_double_scalarmult_vartime ?h A ?S)) (smul (hash_scalar m) P + smul (le_int ?S) ed_B)"
    unfolding ge_double_scalarmult_take hash_scalar_reduce(1) by (rule ge_tobytes_rep)
  let ?c = "ge_tobytes (ge_double_scalarmult_vartime ?h A ?S)"
  have "length ?c = 32" using e by (simp add: ed_encodes_def)
  then have "consttime_equal ?c sig \<longleftrightarrow> ?c = take 32 sig" using sig consttime_equal_iff [of ?c sig] by simp
  then show ?thesis using e ed_encodes_unique by metis
qed

lemma verify_unfold:
  "length pk = 32 \<Longrightarrow> ed25519_verify sig msg pk \<longleftrightarrow> uint (sig ! 63) < 32 \<and>
    (\<exists>A. ge_frombytes_negate_vartime pk = Some A \<and>
      consttime_equal (ge_tobytes (ge_double_scalarmult_vartime (sc_reduce (sha3 (take 32 sig @ pk @ msg) 64)) A (drop 32 sig))) sig)"
  by (simp add: ed25519_verify_def Let_def sha3_three top_bits_clear split: option.split)

lemma verify_iff:
  assumes "length sig = 64" "length pk = 32"
  shows "ed25519_verify sig msg pk \<longleftrightarrow> uint (sig ! 63) < 32 \<and>
    (\<exists>A. decodes_to pk A \<and> ed_encodes (take 32 sig)
      (smul (le_int (drop 32 sig)) ed_B - smul (hash_scalar (take 32 sig @ pk @ msg)) A))"
proof (cases "uint (sig ! 63) < 32")
  case top: True
  let ?m = "take 32 sig @ pk @ msg"
  have swap: "smul h (- A) + smul n ed_B = smul n ed_B - smul h A" for h n A
    by (simp add: smul_neg_point)
  show ?thesis
  proof
    assume "ed25519_verify sig msg pk"
    then obtain h where h: "ge_frombytes_negate_vartime pk = Some h"
        "consttime_equal (ge_tobytes (ge_double_scalarmult_vartime (sc_reduce (sha3 ?m 64)) h (drop 32 sig))) sig"
      unfolding verify_unfold [OF assms(2)] by blast
    obtain Q where Q: "rep_p3 Q h" "py Q = of_int (le_int pk mod 2 ^ 255)" "px Q \<noteq> 0 \<longrightarrow> odd (Rep_gf (px Q)) \<noteq> sign_bit pk"
      using ge_frombytes_Some [OF assms(2) h(1)] by blast
    have "decodes_to pk (- Q)" using Q(2,3) gf_parity_neg [of "px Q"] by (auto simp: decodes_to_def)
    moreover have "ed_encodes (take 32 sig) (smul (hash_scalar ?m) (- (- Q)) + smul (le_int (drop 32 sig)) ed_B)"
      using h(2) unfolding verify_equation [OF assms(1) Q(1) top] by simp
    ultimately show "uint (sig ! 63) < 32 \<and> (\<exists>A. decodes_to pk A \<and> ed_encodes (take 32 sig)
        (smul (le_int (drop 32 sig)) ed_B - smul (hash_scalar ?m) A))"
      unfolding swap using top by blast
  next
    assume "uint (sig ! 63) < 32 \<and> (\<exists>A. decodes_to pk A \<and> ed_encodes (take 32 sig)
        (smul (le_int (drop 32 sig)) ed_B - smul (hash_scalar ?m) A))"
    then obtain A where A: "decodes_to pk A" "ed_encodes (take 32 sig) (smul (hash_scalar ?m) (- A) + smul (le_int (drop 32 sig)) ed_B)"
      unfolding swap by blast
    obtain h where h: "ge_frombytes_negate_vartime pk = Some h"
      using ge_frombytes_None [OF assms(2)] A(1) unfolding decodes_to_def by (metis option.exhaust)
    obtain Q where Q: "rep_p3 Q h" "py Q = of_int (le_int pk mod 2 ^ 255)" "px Q \<noteq> 0 \<longrightarrow> odd (Rep_gf (px Q)) \<noteq> sign_bit pk"
      using ge_frombytes_Some [OF assms(2) h] by blast
    have "Q = - A" using neg_by_sign [of Q A "sign_bit pk"] A(1) Q(2,3) by (simp add: decodes_to_def)
    then have "rep_p3 (- A) h" using Q(1) by simp
    then show "ed25519_verify sig msg pk"
      unfolding verify_unfold [OF assms(2)] using top h A(2) verify_equation [OF assms(1) _ top] by blast
  qed
next
  case False
  then show ?thesis using verify_unfold [OF assms(2)] by simp
qed

section \<open>Signing\<close>

lemma sign_parts:
  assumes "length pk = 32" "key_bytes sk"
  shows "\<exists>R S r. ed25519_sign msg pk sk = R @ S \<and> ed_encodes R (smul r ed_B) \<and> length S = 32 \<and>
    le_int S = (hash_scalar (R @ pk @ msg) * le_int (take 32 sk) + r) mod l25519"
proof -
  let ?pre = "take 32 (drop 32 sk) @ msg"
  let ?r = "sc_reduce (sha3 ?pre 64)"
  let ?R = "ge_p3_tobytes (ge_scalarmult_base ?r)"
  let ?m = "?R @ pk @ msg"
  let ?h = "sc_reduce (sha3 ?m 64)"
  let ?S = "sc_muladd ?h sk ?r"
  note r = hash_scalar_reduce [of ?pre] and h = hash_scalar_reduce [of ?m]
  have "uint (take 32 ?r ! 31) < 32"
    using r hash_scalar_range(2) [of ?pre] l25519_range(2) by (intro scalar_above) simp_all
  then have "rep_p3 (smul (hash_scalar ?pre) ed_B) (ge_scalarmult_base ?r)"
    using ge_scalarmult_base_rep [of "take 32 ?r"] r by (simp add: ge_scalarmult_base_take)
  then have R: "ed_encodes ?R (smul (hash_scalar ?pre) ed_B)" by (rule ge_p3_tobytes_rep)
  then have R32: "take 32 ?R = ?R" by (simp add: ed_encodes_def)
  have "length (sc_muladd (take 32 ?h) (take 32 sk) (take 32 ?r)) = 32 \<and>
      le_int (sc_muladd (take 32 ?h) (take 32 sk) (take 32 ?r)) = (le_int (take 32 ?h) * le_int (take 32 sk) + le_int (take 32 ?r)) mod l25519"
    using sc_muladd_value [of "take 32 ?h" "take 32 sk" "take 32 ?r"] r(2) h(2) assms(2) by (simp add: key_bytes_def length_sc_muladd)
  then have S: "length ?S = 32" "le_int ?S = (hash_scalar ?m * le_int (take 32 sk) + hash_scalar ?pre) mod l25519"
    unfolding sc_muladd_take r(1) h(1) by simp_all
  have two: "fst (sha3_final (sha3_update (sha3_update (sha3_init 64) as) bs)) = sha3 (as @ bs) 64" for as bs
    by (simp add: sha3_def update_append)
  have "ed25519_sign msg pk sk = ?R @ ?S"
    using assms(1) unfolding ed25519_sign_def Let_def two R32 sha3_three by simp
  then show ?thesis using R S by blast
qed

lemma sign_verify:
  assumes "ed25519_create_keypair seed = (pk, sk)"
  shows "ed25519_verify (ed25519_sign msg pk sk) msg pk"
proof -
  let ?a = "le_int (take 32 sk)"
  have k: "key_bytes sk" "ed_encodes pk (smul ?a ed_B)"
    using keypair_private [of seed] keypair_public [of seed] by (simp_all add: assms)
  then have pk: "length pk = 32" by (simp add: ed_encodes_def)
  obtain R S r where sig: "ed25519_sign msg pk sk = R @ S" and R: "ed_encodes R (smul r ed_B)" and S: "length S = 32"
      "le_int S = (hash_scalar (R @ pk @ msg) * ?a + r) mod l25519"
    using sign_parts [OF pk k(1)] by blast
  let ?h = "hash_scalar (R @ pk @ msg)"
  have R32: "length R = 32" using R by (simp add: ed_encodes_def)
  have "le_int S < l25519" unfolding S(2) using l25519_range(1) by simp
  then have "uint (S ! 31) < 32" using l25519_range(2) by (intro scalar_above S(1)) simp
  moreover have "smul (le_int S) ed_B - smul ?h (smul ?a ed_B) = smul r ed_B"
    unfolding S(2) smul_order by (simp add: smul_add smul_smul)
  ultimately show ?thesis
    unfolding sig using verify_iff [of "R @ S" pk msg] S(1) R32 pk R ed_encodes_decodes [OF k(2)]
    by (auto simp: nth_append intro!: exI [of _ "smul ?a ed_B"])
qed

section \<open>Properties\<close>

lemma verify_exact:
  assumes "length sig = 64" "length pk = 32"
  shows "ed25519_verify sig msg pk \<longleftrightarrow> le_int (drop 32 sig) < 2 ^ 253 \<and>
    (\<exists>A. decodes_to pk A \<and> ed_encodes (take 32 sig)
      (smul (le_int (drop 32 sig)) ed_B - smul (le_int (sha3 (take 32 sig @ pk @ msg) 64) mod l25519) A))"
proof -
  have "uint (sig ! 63) < 32 \<longleftrightarrow> le_int (drop 32 sig) < 2 ^ 253"
    using scalar_below [of "drop 32 sig"] scalar_above [of "drop 32 sig"] assms(1) by auto
  then show ?thesis using verify_iff [OF assms] by (simp add: hash_scalar_def)
qed

text \<open>
  (C1) \<^verbatim>\<open>ed25519_verify\<close> accepts exactly the signatures \<open>(R, S)\<close> with \<open>S < 2\<^sup>2\<^sup>5\<^sup>3\<close> for which the public key
  encodes a curve point \<open>A\<close> and \<open>R\<close> is the encoding of \<open>S B - h A\<close>, where \<open>h\<close> is the SHA3-512 hash of
  \<open>R\<close>, the key and the message modulo the group order.
\<close>

theorem ed25519_verify_exact:
  assumes "length sig = 64" "length pk = 32"
  shows "ed25519_verify sig msg pk \<longleftrightarrow> le_int (drop 32 sig) < 2 ^ 253 \<and>
    (\<exists>A. decodes_to pk A \<and> ed_encodes (take 32 sig)
      (smul (le_int (drop 32 sig)) ed_B - smul (le_int (sha3 (take 32 sig @ pk @ msg) 64) mod l25519) A))"
  using assms by (rule verify_exact)

text \<open>The witnesses use the identity as the key, and \<open>S = 0\<close> or \<open>S = l\<close>.\<close>

lemma le_int_zeros: "le_int (replicate n 0) = 0"
  by (induction n) simp_all

lemma identity_encoded: "ed_encodes (1 # replicate 31 0) 0"
  by (simp add: ed_encodes_def le_int_zeros one_gf.rep_eq zero_gf.rep_eq)

lemma identity_accepts: "length S = 32 \<Longrightarrow> le_int S = 0 \<Longrightarrow> ed25519_verify ((1 # replicate 31 0) @ S) msg (1 # replicate 31 0)"
  using verify_exact [of "(1 # replicate 31 0) @ S" "1 # replicate 31 0" msg] identity_encoded ed_encodes_decodes [OF identity_encoded]
  by (auto intro!: exI [of _ 0])

theorem ed25519_verify_exact_witness:
  "\<exists>A. decodes_to (1 # replicate 31 0) A \<and> ed_encodes (1 # replicate 31 0)
    (smul 0 ed_B - smul (le_int (sha3 ((1 # replicate 31 0) @ (1 # replicate 31 0) @ [1, 2, 3]) 64) mod l25519) A)"
  using ed25519_verify_exact [of "(1 # replicate 31 0) @ replicate 32 0" "1 # replicate 31 0" "[1, 2, 3]"]
    identity_accepts [of "replicate 32 0" "[1, 2, 3]"] by (simp add: le_int_zeros)

text \<open>
  (C2) Every signature \<^verbatim>\<open>ed25519_sign\<close> makes with a key pair of \<^verbatim>\<open>ed25519_create_keypair\<close> is accepted by
  \<^verbatim>\<open>ed25519_verify\<close>, for every seed and message.
\<close>

theorem ed25519_sign_verifies:
  assumes "ed25519_create_keypair seed = (pk, sk)"
  shows "ed25519_verify (ed25519_sign msg pk sk) msg pk"
  using assms by (rule sign_verify)

theorem ed25519_sign_verifies_witness:
  "ed25519_verify (ed25519_sign [1, 2, 3] (fst (ed25519_create_keypair (replicate 32 7)))
    (snd (ed25519_create_keypair (replicate 32 7)))) [1, 2, 3] (fst (ed25519_create_keypair (replicate 32 7)))"
  by (rule ed25519_sign_verifies) simp

lemma clamp_low: "(b AND 248 :: u8) AND 7 = 0"
  by (rule bit_word_eqI) (auto simp: bit_simps numeral_eq_Suc less_Suc_eq)

lemma clamp_high: "((b AND 63) OR 64 :: u8) AND 192 = 64"
  by (rule bit_word_eqI) (auto simp: bit_simps numeral_eq_Suc less_Suc_eq)

text \<open>
  (C35) Shapes: a key pair is 32 and 64 bytes, the private scalar is a multiple of 8 between \<open>2\<^sup>2\<^sup>5\<^sup>4\<close> and
  \<open>2\<^sup>2\<^sup>5\<^sup>5\<close>, and every signature is 64 bytes with a reduced second half.
\<close>

theorem ed25519_shapes:
  "let (pk, sk) = ed25519_create_keypair seed; sig = ed25519_sign msg pk sk
   in length pk = 32 \<and> length sk = 64 \<and> sk ! 0 AND 7 = 0 \<and> sk ! 31 AND 192 = 64 \<and>
     length sig = 64 \<and> le_int (drop 32 sig) < l25519"
proof -
  define pk sk where k: "pk = fst (ed25519_create_keypair seed)" "sk = snd (ed25519_create_keypair seed)"
  have p: "length pk = 32" using keypair_public [of seed] by (simp add: k ed_encodes_def)
  have s: "key_bytes sk" unfolding k by (rule keypair_private)
  have c: "sk ! 0 AND 7 = 0" "sk ! 31 AND 192 = 64"
    using length_sha3 [of 64 "take 32 seed"] by (simp_all add: k ed25519_create_keypair_def Let_def clamp_low clamp_high)
  obtain R S r where "ed25519_sign msg pk sk = R @ S" "ed_encodes R (smul r ed_B)" "length S = 32"
      "le_int S = (hash_scalar (R @ pk @ msg) * le_int (take 32 sk) + r) mod l25519"
    using sign_parts [OF p s] by blast
  then have "length (ed25519_sign msg pk sk) = 64" "le_int (drop 32 (ed25519_sign msg pk sk)) < l25519"
    using l25519_range(1) by (simp_all add: ed_encodes_def)
  then show ?thesis using p s c by (simp add: k key_bytes_def split_beta Let_def)
qed

text \<open>
  (C15) A signature is not unique: adding the group order to \<open>S\<close> gives a second signature that is accepted,
  as long as the sum stays below \<open>2\<^sup>2\<^sup>5\<^sup>3\<close>; \<^verbatim>\<open>ed25519_verify\<close> does not compare \<open>S\<close> with the order.
\<close>

theorem ed25519_verify_malleable:
  assumes "ed25519_verify (R @ S) msg pk" "length R = 32" "length S = 32" "length pk = 32"
    and "length S' = 32" "le_int S' = le_int S + l25519" "le_int S' < 2 ^ 253"
  shows "ed25519_verify (R @ S') msg pk"
proof -
  have "smul (le_int S') ed_B = smul (le_int S) ed_B"
    unfolding assms(6) smul_add ed_B_order by simp
  then show ?thesis
    using assms verify_exact [of "R @ S" pk msg] verify_exact [of "R @ S'" pk msg] by simp
qed

definition order_bytes :: "u8 list" where
  "order_bytes =
    [237, 211, 245, 92, 26, 99, 18, 88, 214, 156, 247, 162, 222, 249, 222, 20, 0, 0, 0, 0, 0, 0, 0, 0, 0, 0, 0, 0, 0, 0, 0, 16]"

theorem ed25519_verify_malleable_witness:
  "ed25519_verify ((1 # replicate 31 0) @ order_bytes) [1, 2, 3] (1 # replicate 31 0)"
proof -
  have "le_int order_bytes = l25519" by (simp add: order_bytes_def l25519_def)
  then show ?thesis
    using ed25519_verify_malleable [OF identity_accepts [of "replicate 32 0" "[1, 2, 3]"], of order_bytes] l25519_range(2)
    by (simp add: le_int_zeros) (simp add: order_bytes_def)
qed

end
