(* ===== verification/TinyMalloc.thy ===== *)
theory TinyMalloc
  imports CString
begin

text \<open>
  \<^verbatim>\<open>lib/app/src/tiny-malloc.c\<close>: the enclave's allocator, with \<^verbatim>\<open>MALLOC_DIRECTION\<close> 1.  The two static
  variables and the byte memory are the state; a block is a 64-bit address whose header words are read and
  written in that memory, and \<^verbatim>\<open>nextfree\<close>, a pointer to a pointer, is the variable it points to.
  \<^verbatim>\<open>s_brk\<close>, the address of the symbol \<^verbatim>\<open>__malloc_start\<close> and \<^verbatim>\<open>__builtin_frame_address(0)\<close> (the limit of
  the heap) belong to the environment.  \<open>HeapTiles\<close> and \<open>MallocClient\<close> hold the theorems about
  \<^verbatim>\<open>malloc\<close> and \<^verbatim>\<open>free\<close>; of the other entry points two lemmas below show where they go wrong.
\<close>

section \<open>Code\<close>

record 'os malloc_env =
  malloc_start :: u64
  frame_address :: u64
  s_brk :: "u64 \<Rightarrow> 'os \<Rightarrow> u64 \<times> 'os"

record 'os malloc_state =
  malloc_freelist :: u64
  malloc_end :: u64
  heap_mem :: mem
  os :: 'os

definition sizeof_freelist_entry :: u64 where "sizeof_freelist_entry = 16"
definition sizeof_size_t :: u64 where "sizeof_size_t = 8"

definition M_ALIGN :: "u64 \<Rightarrow> u64 \<Rightarrow> u64" where
  "M_ALIGN x align = (- x) AND (align - 1)"

definition MALLOC_MINIMUM_GAP :: u64 where "MALLOC_MINIMUM_GAP = 32"

definition CAN_ALLOC_P :: "'os malloc_env \<Rightarrow> 'os malloc_state \<Rightarrow> u64 \<Rightarrow> bool" where
  "CAN_ALLOC_P env st required \<longleftrightarrow> required \<le> frame_address env - malloc_end st - MALLOC_MINIMUM_GAP"

definition REAL_SIZE :: "u64 \<Rightarrow> u64" where
  "REAL_SIZE sz =
    (if sz < sizeof_freelist_entry - sizeof_size_t then sizeof_freelist_entry
     else sz + sizeof_size_t + M_ALIGN sz sizeof_size_t)"

text \<open>The fields \<^verbatim>\<open>size\<close> and \<^verbatim>\<open>next\<close> of a \<^verbatim>\<open>struct freelist_entry\<close>.\<close>

definition fle_size :: "'os malloc_state \<Rightarrow> u64 \<Rightarrow> u64" where
  "fle_size st block = load64 (heap_mem st) block"

definition fle_next :: "'os malloc_state \<Rightarrow> u64 \<Rightarrow> u64" where
  "fle_next st block = load64 (heap_mem st) (block + 8)"

definition set_size :: "u64 \<Rightarrow> u64 \<Rightarrow> 'os malloc_state \<Rightarrow> 'os malloc_state" where
  "set_size block v st = st\<lparr>heap_mem := store64 (heap_mem st) block v\<rparr>"

definition set_next :: "u64 \<Rightarrow> u64 \<Rightarrow> 'os malloc_state \<Rightarrow> 'os malloc_state" where
  "set_next block v st = st\<lparr>heap_mem := store64 (heap_mem st) (block + 8) v\<rparr>"

text \<open>The values of \<^verbatim>\<open>fle *nextfree\<close>: \<^verbatim>\<open>&__malloc_freelist\<close> and \<^verbatim>\<open>&block->next\<close>.\<close>

datatype fle_slot = Freelist | NextOf u64

definition read_slot :: "'os malloc_state \<Rightarrow> fle_slot \<Rightarrow> u64" where
  "read_slot st nextfree = (case nextfree of Freelist \<Rightarrow> malloc_freelist st | NextOf b \<Rightarrow> fle_next st b)"

definition write_slot :: "fle_slot \<Rightarrow> u64 \<Rightarrow> 'os malloc_state \<Rightarrow> 'os malloc_state" where
  "write_slot nextfree v st =
    (case nextfree of Freelist \<Rightarrow> st\<lparr>malloc_freelist := v\<rparr> | NextOf b \<Rightarrow> set_next b v st)"

definition check_range_and_call_sbrk :: "'os malloc_env \<Rightarrow> u64 \<Rightarrow> u64 \<Rightarrow> 'os malloc_state \<Rightarrow> 'os malloc_state" where
  "check_range_and_call_sbrk env addr sz st =
    (let (cur_sbrk, w) = s_brk env 0 (os st)
     in if addr + sz > cur_sbrk then st\<lparr>os := snd (s_brk env (addr + sz - cur_sbrk) w)\<rparr> else st\<lparr>os := w\<rparr>)"

text \<open>The statements from the label \<^verbatim>\<open>done\<close> to the end of \<^verbatim>\<open>malloc\<close>.\<close>

definition malloc_done :: "'os malloc_env \<Rightarrow> u64 \<Rightarrow> u64 \<Rightarrow> 'os malloc_state \<Rightarrow> u64 \<times> 'os malloc_state" where
  "malloc_done env real_size block st =
    (let st = set_size block real_size st; addr = block + 8
     in (addr, check_range_and_call_sbrk env addr real_size st))"

text \<open>The body of the branch for a block that is large enough.\<close>

definition malloc_take :: "'os malloc_env \<Rightarrow> u64 \<Rightarrow> fle_slot \<Rightarrow> u64 \<Rightarrow> 'os malloc_state \<Rightarrow> u64 \<times> 'os malloc_state" where
  "malloc_take env real_size nextfree block st =
    (if fle_size st block < real_size + sizeof_freelist_entry then
       let st = write_slot nextfree (fle_next st block) st; addr = block + 8
       in (addr, check_range_and_call_sbrk env addr real_size st)
     else
       let newsize = fle_size st block - real_size; newnext = fle_next st block;
           st = write_slot nextfree (block + real_size) st;
           st = set_size (read_slot st nextfree) newsize st;
           st = set_next (read_slot st nextfree) newnext st
       in malloc_done env real_size block st)"

text \<open>The last block of the free list ends at \<^verbatim>\<open>__malloc_end\<close> and is enlarged.\<close>

definition malloc_enlarge :: "'os malloc_env \<Rightarrow> u64 \<Rightarrow> fle_slot \<Rightarrow> u64 \<Rightarrow> 'os malloc_state \<Rightarrow> u64 \<times> 'os malloc_state" where
  "malloc_enlarge env real_size nextfree block st =
    (let moresize = real_size - fle_size st block
     in if \<not> CAN_ALLOC_P env st moresize then (0, st)
        else let st = write_slot nextfree 0 st; st = st\<lparr>malloc_end := block + real_size\<rparr>
             in malloc_done env real_size block st)"

definition malloc_fresh :: "'os malloc_env \<Rightarrow> u64 \<Rightarrow> 'os malloc_state \<Rightarrow> u64 \<times> 'os malloc_state" where
  "malloc_fresh env real_size st =
    (if \<not> CAN_ALLOC_P env st real_size then (0, st)
     else let block = malloc_end st; st = st\<lparr>malloc_end := malloc_end st + real_size\<rparr>
          in malloc_done env real_size block st)"

partial_function (option) malloc_search ::
    "'os malloc_env \<Rightarrow> u64 \<Rightarrow> fle_slot \<Rightarrow> 'os malloc_state \<Rightarrow> (u64 \<times> 'os malloc_state) option" where
  "malloc_search env real_size nextfree st =
    (let block = read_slot st nextfree
     in if block = 0 then Some (malloc_fresh env real_size st)
        else if fle_size st block \<ge> real_size then Some (malloc_take env real_size nextfree block st)
        else if fle_next st block = 0 \<and> malloc_end st = block + fle_size st block
        then Some (malloc_enlarge env real_size nextfree block st)
        else malloc_search env real_size (NextOf block) st)"

definition malloc :: "'os malloc_env \<Rightarrow> u64 \<Rightarrow> 'os malloc_state \<Rightarrow> (u64 \<times> 'os malloc_state) option" where
  "malloc env sz st =
    (let st = (if malloc_end st = 0 then st\<lparr>malloc_end := malloc_start env\<rparr> else st);
         real_size = REAL_SIZE sz
     in malloc_search env real_size Freelist st)"

text \<open>The free list ends, or the next free block lies behind \<^verbatim>\<open>block\<close>.\<close>

definition free_insert :: "u64 \<Rightarrow> fle_slot \<Rightarrow> 'os malloc_state \<Rightarrow> 'os malloc_state" where
  "free_insert block nextfree st = write_slot nextfree block (set_next block (read_slot st nextfree) st)"

text \<open>\<^verbatim>\<open>thisblock\<close> ends where \<^verbatim>\<open>block\<close> begins.\<close>

definition free_append :: "u64 \<Rightarrow> u64 \<Rightarrow> 'os malloc_state \<Rightarrow> 'os malloc_state" where
  "free_append block thisblock st =
    (let st = set_size thisblock (fle_size st thisblock + fle_size st block) st
     in if fle_next st thisblock \<noteq> 0 \<and> block + fle_size st block = fle_next st thisblock then
          let st = set_size thisblock (fle_size st thisblock + fle_size st (fle_next st thisblock)) st
          in set_next thisblock (fle_next st (fle_next st thisblock)) st
        else st)"

text \<open>\<^verbatim>\<open>thisblock\<close> begins where \<^verbatim>\<open>block\<close> ends.\<close>

definition free_prepend :: "u64 \<Rightarrow> u64 \<Rightarrow> fle_slot \<Rightarrow> 'os malloc_state \<Rightarrow> 'os malloc_state" where
  "free_prepend block thisblock nextfree st =
    (let st = set_size block (fle_size st block + fle_size st thisblock) st;
         st = set_next block (fle_next st thisblock) st
     in write_slot nextfree block st)"

partial_function (option) free_search :: "u64 \<Rightarrow> fle_slot \<Rightarrow> 'os malloc_state \<Rightarrow> 'os malloc_state option" where
  "free_search block nextfree st =
    (let thisblock = read_slot st nextfree
     in if thisblock = 0 then Some (free_insert block nextfree st)
        else if thisblock + fle_size st thisblock = block then Some (free_append block thisblock st)
        else if thisblock = block + fle_size st block then Some (free_prepend block thisblock nextfree st)
        else if thisblock > block then Some (free_insert block nextfree st)
        else free_search block (NextOf thisblock) st)"

definition free :: "u64 \<Rightarrow> 'os malloc_state \<Rightarrow> 'os malloc_state option" where
  "free block_p st =
    (let block = block_p - 8
     in if block_p = 0 then Some st else free_search block Freelist st)"

definition realloc :: "'os malloc_env \<Rightarrow> u64 \<Rightarrow> u64 \<Rightarrow> 'os malloc_state \<Rightarrow> (u64 \<times> 'os malloc_state) option" where
  "realloc env block_p sz st =
    (let block = block_p - 8; real_size = REAL_SIZE sz
     in if block_p = 0 then malloc env sz st
        else let old_real_size = fle_size st block
        in if old_real_size < real_size then
             let old_size = old_real_size - sizeof_size_t
             in Option.bind (malloc env sz st) (\<lambda>(result, st).
                  if result = 0 then Some (0, st)
                  else Option.bind (memcpy result block_p (if old_size < sz then old_size else sz) (heap_mem st))
                         (\<lambda>m. map_option (Pair result) (free block_p (st\<lparr>heap_mem := m\<rparr>))))
           else if old_real_size - real_size \<ge> sizeof_freelist_entry then
             let newblock = block + real_size;
                 st = set_size block real_size st;
                 st = set_size newblock (old_real_size - real_size) st
             in map_option (Pair block_p) (free (newblock + 8) st)
           else Some (block_p, st))"

definition calloc :: "'os malloc_env \<Rightarrow> u64 \<Rightarrow> u64 \<Rightarrow> 'os malloc_state \<Rightarrow> (u64 \<times> 'os malloc_state) option" where
  "calloc env n elem_size st =
    (let sz = n * elem_size
     in Option.bind (malloc env sz st) (\<lambda>(result, st).
          if result \<noteq> 0 then map_option (\<lambda>m. (result, st\<lparr>heap_mem := m\<rparr>)) (memset result 0 sz (heap_mem st))
          else Some (result, st)))"

definition cfree :: "u64 \<Rightarrow> 'os malloc_state \<Rightarrow> 'os malloc_state option" where
  "cfree p st = free p st"

text \<open>
  \<^verbatim>\<open>memalign\<close>: one round of the loop takes the next block or, at the end of the list, appends a fresh
  one (\<open>None\<close>: the code returns \<^verbatim>\<open>NULL\<close>).
\<close>

definition memalign_block :: "'os malloc_env \<Rightarrow> u64 \<Rightarrow> u64 \<Rightarrow> fle_slot \<Rightarrow> 'os malloc_state \<Rightarrow>
    (u64 \<times> u64 \<times> 'os malloc_state) option" where
  "memalign_block env align real_size nextfree st =
    (if read_slot st nextfree = 0 then
       let block = malloc_end st;
           old_size = real_size + M_ALIGN (malloc_end st + sizeof_size_t) align
       in if \<not> CAN_ALLOC_P env st old_size then None
          else let st = st\<lparr>malloc_end := malloc_end st + old_size\<rparr>;
                   st = write_slot nextfree block st;
                   st = set_size block old_size st;
                   st = set_next block 0 st
               in Some (block, old_size, st)
     else let block = read_slot st nextfree in Some (block, fle_size st block, st))"

definition memalign_before :: "u64 \<Rightarrow> u64 \<Rightarrow> u64" where
  "memalign_before align block =
    (let before_size = M_ALIGN (block + 8) align
     in if before_size \<noteq> 0 then sizeof_freelist_entry + M_ALIGN (block + 16 + 8) align else before_size)"

definition memalign_enlarge :: "'os malloc_env \<Rightarrow> u64 \<Rightarrow> u64 \<Rightarrow> u64 \<Rightarrow> u64 \<Rightarrow> 'os malloc_state \<Rightarrow>
    (u64 \<times> 'os malloc_state) option" where
  "memalign_enlarge env real_size before_size block old_size st =
    (if fle_next st block = 0 \<and> old_size < real_size + before_size \<and> malloc_end st = block + fle_size st block then
       if \<not> CAN_ALLOC_P env st (before_size + real_size - fle_size st block) then None
       else let st = st\<lparr>malloc_end := block + before_size + real_size\<rparr>
            in Some (before_size + real_size, set_size block (before_size + real_size) st)
     else Some (old_size, st))"

definition memalign_done :: "u64 \<Rightarrow> u64 \<Rightarrow> 'os malloc_state \<Rightarrow> u64 \<times> 'os malloc_state" where
  "memalign_done real_size block st = (block + 8, set_size block real_size st)"

definition memalign_take :: "u64 \<Rightarrow> u64 \<Rightarrow> u64 \<Rightarrow> u64 \<Rightarrow> fle_slot \<Rightarrow> 'os malloc_state \<Rightarrow> u64 \<times> 'os malloc_state" where
  "memalign_take real_size before_size block old_size nextfree st =
    (if before_size \<noteq> 0 then
       let old_block = block;
           st = set_size old_block before_size st;
           block = block + before_size
       in if old_size - before_size \<le> real_size + sizeof_freelist_entry
          then (block + 8, set_size block (old_size - before_size) st)
          else let new_block = block + real_size;
                   st = set_size new_block (old_size - before_size - real_size) st;
                   st = set_next new_block (fle_next st old_block) st;
                   st = set_next old_block new_block st
               in memalign_done real_size block st
     else if old_size \<le> real_size + sizeof_freelist_entry
          then (block + 8, write_slot nextfree (fle_next st block) st)
          else let newsize = old_size - real_size; newnext = fle_next st block;
                   st = write_slot nextfree (block + real_size) st;
                   st = set_size (read_slot st nextfree) newsize st;
                   st = set_next (read_slot st nextfree) newnext st
               in memalign_done real_size block st)"

partial_function (option) memalign_search :: "'os malloc_env \<Rightarrow> u64 \<Rightarrow> u64 \<Rightarrow> fle_slot \<Rightarrow> 'os malloc_state \<Rightarrow>
    (u64 \<times> 'os malloc_state) option" where
  "memalign_search env align real_size nextfree st =
    (case memalign_block env align real_size nextfree st of
       None \<Rightarrow> Some (0, st)
     | Some (block, old_size, st) \<Rightarrow>
         let before_size = memalign_before align block
         in case memalign_enlarge env real_size before_size block old_size st of
              None \<Rightarrow> Some (0, st)
            | Some (old_size, st) \<Rightarrow>
                if old_size \<ge> real_size + before_size
                then Some (memalign_take real_size before_size block old_size nextfree st)
                else memalign_search env align real_size (NextOf (read_slot st nextfree)) st)"

definition memalign :: "'os malloc_env \<Rightarrow> u64 \<Rightarrow> u64 \<Rightarrow> 'os malloc_state \<Rightarrow> (u64 \<times> 'os malloc_state) option" where
  "memalign env align sz st =
    (let real_size = REAL_SIZE sz
     in if align AND (align - 1) \<noteq> 0 \<or> align \<le> 0 then Some (0, st)
        else memalign_search env align real_size Freelist st)"

definition valloc :: "'os malloc_env \<Rightarrow> u64 \<Rightarrow> 'os malloc_state \<Rightarrow> (u64 \<times> 'os malloc_state) option" where
  "valloc env sz st = memalign env 128 sz st"

definition pvalloc :: "'os malloc_env \<Rightarrow> u64 \<Rightarrow> 'os malloc_state \<Rightarrow> (u64 \<times> 'os malloc_state) option" where
  "pvalloc env sz st = memalign env 128 (sz + M_ALIGN sz 128) st"

section \<open>Overflow and missing initialisation\<close>

text \<open>\<^verbatim>\<open>calloc\<close> does not check the multiplication: \<open>2\<^sup>3\<^sup>2\<close> elements of \<open>2\<^sup>3\<^sup>2\<close> bytes get the block for no byte at all.\<close>

lemma calloc_overflow: "calloc env 0x100000000 0x100000000 st = calloc env 0 elem_size st"
proof -
  have "0x100000000 * 0x100000000 = (0 :: u64)" by code_simp
  then show ?thesis by (simp only: calloc_def) simp
qed

text \<open>
  \<^verbatim>\<open>memalign\<close> does not initialise \<^verbatim>\<open>__malloc_end\<close> as \<^verbatim>\<open>malloc\<close> does: called first, it writes a block header at
  address 0 and returns the pointer behind it.
\<close>

lemma memalign_uninitialised:
  assumes "malloc_freelist st = 0" "malloc_end st = 0" "REAL_SIZE sz \<le> frame_address env - 32" "REAL_SIZE sz \<noteq> 0"
    and "\<not> REAL_SIZE sz + 16 < REAL_SIZE sz"
  shows "\<exists>st'. memalign env 8 sz st = Some (8, st') \<and> malloc_end st' = REAL_SIZE sz \<and> load64 (heap_mem st') 0 = REAL_SIZE sz"
proof -
  have a: "M_ALIGN 8 8 = 0" by code_simp
  have "memalign env 8 sz st = memalign_search env 8 (REAL_SIZE sz) Freelist st"
    by (simp add: memalign_def Let_def)
  also have "memalign_search env 8 (REAL_SIZE sz) Freelist st = Some (8, st\<lparr>malloc_end := REAL_SIZE sz,
      heap_mem := store64 (store64 (heap_mem st) 0 (REAL_SIZE sz)) 8 0, malloc_freelist := 0\<rparr>)"
    using assms by (subst memalign_search.simps)
      (simp add: memalign_block_def memalign_before_def memalign_enlarge_def memalign_take_def Let_def read_slot_def
        write_slot_def set_size_def set_next_def fle_next_def CAN_ALLOC_P_def MALLOC_MINIMUM_GAP_def
        sizeof_size_t_def sizeof_freelist_entry_def a mem_simps not_less)
  finally show ?thesis by (simp add: mem_simps apart_def)
qed

end
