(* ===== verification/Addresses.thy ===== *)
theory Addresses
  imports Prelude
begin

text \<open>
  Addresses as natural numbers: \<open>ptr n\<close> is the 64-bit address \<open>n\<close>, with the arithmetic, comparison and
  memory lemmas for addresses that do not wrap.
\<close>

definition ptr :: "nat \<Rightarrow> u64" where "ptr n = of_nat n"

lemma ptr_0 [simp]: "ptr 0 = 0"
  by (simp add: ptr_def)

lemma unat_ptr: "n < 18446744073709551616 \<Longrightarrow> unat (ptr n) = n"
  by (simp add: ptr_def unat_of_nat64)

lemma ptr_unat [simp]: "ptr (unat w) = w"
  by (simp add: ptr_def)

lemma ptr_add [simp]: "ptr a + ptr b = ptr (a + b)" "ptr a + 8 = ptr (a + 8)" "ptr a + 16 = ptr (a + 16)"
  by (simp_all add: ptr_def)

lemma ptr_diff [simp]: "b \<le> a \<Longrightarrow> ptr a - ptr b = ptr (a - b)"
  by (simp add: ptr_def)

lemma ptr_diff8 [simp]: "8 \<le> a \<Longrightarrow> ptr a - 8 = ptr (a - 8)"
  using ptr_diff [of 8 a] by (simp add: ptr_def)

lemma ptr_eq: "a < 18446744073709551616 \<Longrightarrow> b < 18446744073709551616 \<Longrightarrow> ptr a = ptr b \<longleftrightarrow> a = b"
  by (metis unat_ptr)

lemma ptr_eq_0: "a < 18446744073709551616 \<Longrightarrow> ptr a = 0 \<longleftrightarrow> a = 0"
  using ptr_eq [of a 0] by simp

lemma ptr_le: "a < 18446744073709551616 \<Longrightarrow> b < 18446744073709551616 \<Longrightarrow> ptr a \<le> ptr b \<longleftrightarrow> a \<le> b"
  by (simp add: word_le_nat_alt unat_ptr)

lemma ptr_less: "a < 18446744073709551616 \<Longrightarrow> b < 18446744073709551616 \<Longrightarrow> ptr a < ptr b \<longleftrightarrow> a < b"
  by (simp add: word_less_nat_alt unat_ptr)

lemmas ptr_simps = ptr_eq ptr_eq_0 ptr_le ptr_less

lemma ptr_apart:
  assumes "a + k \<le> b" "a < 18446744073709551616" "b + n \<le> 18446744073709551616" "0 < n" "0 < k"
  shows "k \<le> unat (ptr b - ptr a)" "n \<le> unat (ptr a - ptr b)"
proof -
  have e: "unat (ptr b - ptr a) = b - a" using assms by (simp add: unat_ptr)
  then show "k \<le> unat (ptr b - ptr a)" using assms by simp
  have "ptr a < ptr b" using assms by (simp add: ptr_less)
  then have "unat (ptr a - ptr b) = 18446744073709551616 + a - b"
    using assms unat_sub64_wrap [of "ptr a" "ptr b"] by (simp add: unat_ptr)
  then show "n \<le> unat (ptr a - ptr b)" using assms by simp
qed

lemma load_store [simp]:
  assumes "a + 8 \<le> b \<or> b + 8 \<le> a" "a + 8 \<le> 18446744073709551616" "b + 8 \<le> 18446744073709551616"
  shows "load64 (store64 m (ptr b) v) (ptr a) = load64 m (ptr a)"
proof (rule load64_store64_apart)
  show "apart (ptr a) 8 (ptr b) 8"
    using assms ptr_apart [of a 8 b 8] ptr_apart [of b 8 a 8] unfolding apart_def by auto
qed

lemma byte_store:
  assumes "x < b \<or> b + 8 \<le> x" "x < 18446744073709551616" "b + 8 \<le> 18446744073709551616"
  shows "store64 m (ptr b) v (ptr x) = m (ptr x)"
proof (rule store64_apart)
  show "8 \<le> unat (ptr x - ptr b)"
    using assms ptr_apart [of x 1 b 8] ptr_apart [of b 8 x 1] by auto
qed

end
