(* ===== verification/HeapTiles.thy ===== *)
theory HeapTiles
  imports TinyMalloc Addresses
begin

text \<open>
  The abstraction of the allocator's heap: the tiles between \<^verbatim>\<open>__malloc_start\<close> and \<^verbatim>\<open>__malloc_end\<close> as a list,
  the free ones linked in address order through the memory.  The loops of \<^verbatim>\<open>malloc\<close> and \<^verbatim>\<open>free\<close> are shown
  to refine first fit and coalescing on that list, and to keep every byte of the allocated blocks.
\<close>

section \<open>Tiles\<close>

text \<open>
  The heap from \<^verbatim>\<open>__malloc_start\<close> to \<^verbatim>\<open>__malloc_end\<close> is tiled by blocks; a tile is the size in a
  block's header and whether the block is free.  \<open>seg m p lo ts q\<close>: from \<open>lo\<close> on memory \<open>m\<close> holds the
  tiles \<open>ts\<close>, the free ones linked in address order, starting with the pointer \<open>p\<close>; \<open>q\<close> is the \<^verbatim>\<open>next\<close> of
  the last free one (\<open>p\<close> when there is none).
\<close>

type_synonym tile = "nat \<times> bool"

definition extent :: "tile list \<Rightarrow> nat" where "extent ts = sum_list (map fst ts)"

lemma total_simps [simp]: "extent [] = 0" "extent (t # ts) = fst t + extent ts" "extent (ts @ us) = extent ts + extent us"
  by (simp_all add: extent_def)

fun seg :: "mem \<Rightarrow> u64 \<Rightarrow> nat \<Rightarrow> tile list \<Rightarrow> u64 \<Rightarrow> bool" where
  "seg m p lo [] q \<longleftrightarrow> p = q"
| "seg m p lo ((s, fr) # ts) q \<longleftrightarrow> load64 m (ptr lo) = ptr s \<and> 16 \<le> s \<and> 8 dvd s \<and>
     (if fr then p = ptr lo \<and> seg m (load64 m (ptr (lo + 8))) (lo + s) ts q else seg m p (lo + s) ts q)"

lemma seg_append: "seg m p lo (xs @ ys) q \<longleftrightarrow> (\<exists>r. seg m p lo xs r \<and> seg m r (lo + extent xs) ys q)"
  by (induction m p lo xs q arbitrary: q rule: seg.induct) (auto simp: add.assoc)

lemma seg_total: "seg m p lo ts q \<Longrightarrow> ts \<noteq> [] \<Longrightarrow> 16 \<le> extent ts"
  by (cases ts) auto

lemma seg_frame:
  assumes "\<And>a. lo \<le> a \<Longrightarrow> a + 8 \<le> lo + extent ts \<Longrightarrow> load64 m' (ptr a) = load64 m (ptr a)"
  shows "seg m p lo ts q \<Longrightarrow> seg m' p lo ts q"
  using assms
proof (induction m p lo ts q rule: seg.induct)
  case (2 m p lo s fr ts q)
  have s: "16 \<le> s" using 2(3) by simp
  have "load64 m' (ptr lo) = load64 m (ptr lo)" "load64 m' (ptr (lo + 8)) = load64 m (ptr (lo + 8))"
    by (rule 2(4); use s in simp)+
  moreover have "lo + s \<le> a \<Longrightarrow> a + 8 \<le> lo + s + extent ts \<Longrightarrow> load64 m' (ptr a) = load64 m (ptr a)" for a
    by (rule 2(4)) simp_all
  ultimately show ?case using 2 by auto
qed simp

lemma seg_store:
  assumes "seg m p lo ts q" "a + 8 \<le> lo \<or> lo + extent ts \<le> a" "a + 8 \<le> 18446744073709551616"
    and "lo + extent ts \<le> 18446744073709551616"
  shows "seg (store64 m (ptr a) w) p lo ts q"
  by (rule seg_frame [OF _ assms(1)]) (use assms in \<open>auto intro!: load_store\<close>)

lemma seg_stores:
  assumes "seg m p lo ts q" "lo + extent ts \<le> 18446744073709551616"
    and "\<forall>(a, w)\<in>set ws. (a + 8 \<le> lo \<or> lo + extent ts \<le> a) \<and> a + 8 \<le> 18446744073709551616"
  shows "seg (fold (\<lambda>(a, w) m. store64 m (ptr a) w) ws m) p lo ts q"
  using assms(1,3)
proof (induction ws arbitrary: m)
  case (Cons w ws)
  then have "seg (store64 m (ptr (fst w)) (snd w)) p lo ts q"
    using assms(2) by (intro seg_store) auto
  then show ?case using Cons by (simp add: split_beta)
qed simp

text \<open>The variable that \<^verbatim>\<open>nextfree\<close> points to after walking over the tiles.\<close>

fun slot_at :: "fle_slot \<Rightarrow> nat \<Rightarrow> tile list \<Rightarrow> fle_slot" where
  "slot_at sl lo [] = sl"
| "slot_at sl lo ((s, fr) # ts) = slot_at (if fr then NextOf (ptr lo) else sl) (lo + s) ts"

lemma slot_at_append: "slot_at sl lo (xs @ ys) = slot_at (slot_at sl lo xs) (lo + extent xs) ys"
  by (induction sl lo xs rule: slot_at.induct) (simp_all add: add.assoc)

lemma read_slot_at: "seg (heap_mem st) (read_slot st sl) lo ts r \<Longrightarrow> read_slot st (slot_at sl lo ts) = r"
  by (induction sl lo ts rule: slot_at.induct) (auto simp: read_slot_def fle_next_def split: if_splits)

text \<open>A slot before address \<open>lo\<close>.\<close>

definition slot_below :: "nat \<Rightarrow> fle_slot \<Rightarrow> bool" where
  "slot_below lo sl \<longleftrightarrow> (case sl of Freelist \<Rightarrow> True | NextOf b \<Rightarrow> (\<exists>c. b = ptr c \<and> c + 16 \<le> lo))"

lemma slot_below_mono: "slot_below lo sl \<Longrightarrow> lo \<le> hi \<Longrightarrow> slot_below hi sl"
  unfolding slot_below_def by (cases sl) auto

lemma slot_below_Freelist [simp]: "slot_below lo Freelist"
  by (simp add: slot_below_def)

lemma slot_at_below: "slot_below lo sl \<Longrightarrow> seg m p lo ts q \<Longrightarrow> slot_below (lo + extent ts) (slot_at sl lo ts)"
proof (induction sl lo ts arbitrary: p rule: slot_at.induct)
  case (2 sl lo s fr ts)
  have "slot_below (lo + s) (if fr then NextOf (ptr lo) else sl)"
    using 2(2,3) by (auto simp: slot_below_def intro: slot_below_mono [unfolded slot_below_def] split: fle_slot.splits)
  then show ?case using 2 by (auto simp: add.assoc split: if_splits)
qed simp

text \<open>A write through a slot is seen by the slot, not by the memory above it.\<close>

lemma write_slot_fields [simp]:
  "malloc_end (write_slot sl v st) = malloc_end st" "os (write_slot sl v st) = os st"
  by (simp_all add: write_slot_def set_next_def split: fle_slot.split)

lemma read_write_slot [simp]: "read_slot (write_slot sl v st) sl = v"
  by (simp add: read_slot_def write_slot_def set_next_def fle_next_def mem_simps split: fle_slot.split)

lemma write_slot_above:
  assumes "slot_below lo sl" "lo \<le> a" "a + 8 \<le> 18446744073709551616"
  shows "load64 (heap_mem (write_slot sl v st)) (ptr a) = load64 (heap_mem st) (ptr a)"
proof (cases sl)
  case (NextOf b)
  then obtain c where "b = ptr c" "c + 16 \<le> lo" using assms(1) by (auto simp: slot_below_def)
  then show ?thesis using NextOf assms(2,3) by (simp add: write_slot_def set_next_def)
qed (simp add: write_slot_def)

lemma seg_write_slot_above:
  assumes "seg (heap_mem st) p lo ts q" "slot_below lo sl" "lo + extent ts \<le> 18446744073709551616"
  shows "seg (heap_mem (write_slot sl v st)) p lo ts q"
  by (rule seg_frame [OF _ assms(1)]) (use assms in \<open>auto intro!: write_slot_above\<close>)

lemma write_slot_at_cases:
  assumes "slot_below lo sl" "seg m p lo ts q" "lo + extent ts \<le> 18446744073709551616"
  shows "slot_at sl lo ts = sl \<or> (\<exists>c. slot_at sl lo ts = NextOf (ptr c) \<and> lo \<le> c \<and> c + 16 \<le> lo + extent ts)"
  using assms
proof (induction sl lo ts arbitrary: p rule: slot_at.induct)
  case (2 sl lo s fr ts)
  have b: "slot_below (lo + s) (if fr then NextOf (ptr lo) else sl)"
    using 2(2,3) by (auto simp: slot_below_def intro: slot_below_mono [unfolded slot_below_def] split: fle_slot.splits)
  obtain p' where "seg m p' (lo + s) ts q" using 2(3) by (auto split: if_splits)
  from 2(1) [OF b this] 2(3,4) show ?case by (auto simp: add.assoc split: if_splits)
qed simp

lemma write_other_slot:
  assumes "slot_below lo sl" "lo \<le> c" "c + 16 \<le> 18446744073709551616"
  shows "read_slot (write_slot (NextOf (ptr c)) v st) sl = read_slot st sl"
proof (cases sl)
  case (NextOf b)
  then obtain d where "b = ptr d" "d + 16 \<le> lo" using assms(1) by (auto simp: slot_below_def)
  then show ?thesis using NextOf assms(2,3)
    by (simp add: read_slot_def write_slot_def set_next_def fle_next_def)
qed (simp add: read_slot_def write_slot_def set_next_def)

lemma seg_write_slot:
  assumes "seg (heap_mem st) (read_slot st sl) lo ts r" "slot_below lo sl" "lo + extent ts \<le> 18446744073709551616"
  shows "seg (heap_mem (write_slot (slot_at sl lo ts) v st)) (read_slot (write_slot (slot_at sl lo ts) v st) sl) lo ts v"
  using assms
proof (induction sl lo ts rule: slot_at.induct)
  case (2 sl lo s fr ts)
  let ?sl = "if fr then NextOf (ptr lo) else sl"
  let ?st = "write_slot (slot_at ?sl (lo + s) ts) v st"
  have s: "16 \<le> s" "8 dvd s" "load64 (heap_mem st) (ptr lo) = ptr s" using 2(2) by auto
  have b: "slot_below (lo + s) ?sl"
    using 2(3) s(1) by (auto simp: slot_below_def intro: slot_below_mono [unfolded slot_below_def] split: fle_slot.splits)
  have g: "seg (heap_mem st) (read_slot st ?sl) (lo + s) ts r"
    using 2(2) by (auto simp: read_slot_def fle_next_def split: if_splits)
  have IH: "seg (heap_mem ?st) (read_slot ?st ?sl) (lo + s) ts v" by (rule 2(1) [OF g b]) (use 2(4) in simp)
  have c: "slot_at ?sl (lo + s) ts = ?sl \<or> (\<exists>c. slot_at ?sl (lo + s) ts = NextOf (ptr c) \<and> lo + s \<le> c \<and> c + 16 \<le> lo + s + extent ts)"
    by (rule write_slot_at_cases [OF b g]) (use 2(4) in simp)
  have h: "load64 (heap_mem ?st) (ptr lo) = ptr s"
  proof (cases "slot_at ?sl (lo + s) ts = sl")
    case True
    then show ?thesis using write_slot_above [OF 2(3), of lo v st] s 2(4) by simp
  next
    case False
    then obtain c where "slot_at ?sl (lo + s) ts = NextOf (ptr c)" "lo \<le> c" "c + 16 \<le> lo + s + extent ts"
      using c s(1) 2(4) by (auto split: if_splits)
    then show ?thesis using s 2(4) by (simp add: write_slot_def set_next_def)
  qed
  show ?case
  proof (cases fr)
    case False
    then show ?thesis using IH h s by simp
  next
    case True
    then obtain d where d: "slot_at ?sl (lo + s) ts = NextOf (ptr d)" "lo \<le> d" "d + 16 \<le> lo + s + extent ts"
      using c s(1) by auto
    have "read_slot ?st sl = ptr lo"
      using write_other_slot [OF 2(3) d(2), of v st] d 2(2,4) True by simp
    then show ?thesis using IH h s True by (simp add: read_slot_def fle_next_def)
  qed
qed simp

text \<open>The bytes of the allocated blocks, behind their headers.\<close>

fun payload :: "nat \<Rightarrow> tile list \<Rightarrow> nat set" where
  "payload lo [] = {}"
| "payload lo ((s, fr) # ts) = (if fr then {} else {lo + 8..<lo + s}) \<union> payload (lo + s) ts"

lemma payload_append [simp]: "payload lo (xs @ ys) = payload lo xs \<union> payload (lo + extent xs) ys"
  by (induction lo xs rule: payload.induct) (auto simp: add.assoc)

lemma payload_range: "x \<in> payload lo ts \<Longrightarrow> lo \<le> x \<and> x < lo + extent ts"
  by (induction lo ts rule: payload.induct) (auto split: if_splits)

definition kept :: "'os malloc_state \<Rightarrow> 'os malloc_state \<Rightarrow> nat set \<Rightarrow> bool" where
  "kept st st' X \<longleftrightarrow> (\<forall>x\<in>X. heap_mem st' (ptr x) = heap_mem st (ptr x))"

lemma kept_store:
  "\<forall>(a, w)\<in>set ws. \<forall>x\<in>X. (x < a \<or> a + 8 \<le> x) \<and> x < 18446744073709551616 \<and> a + 8 \<le> 18446744073709551616 \<Longrightarrow>
    \<forall>x\<in>X. fold (\<lambda>(a, w) m. store64 m (ptr a) w) ws m (ptr x) = m (ptr x)"
  by (induction ws arbitrary: m) (auto simp: byte_store)

lemma write_slot_byte:
  assumes "slot_below lo sl" "lo \<le> x" "x < 18446744073709551616"
  shows "heap_mem (write_slot sl v st) (ptr x) = heap_mem st (ptr x)"
proof (cases sl)
  case (NextOf b)
  then obtain c where "b = ptr c" "c + 16 \<le> lo" using assms(1) by (auto simp: slot_below_def)
  then show ?thesis using NextOf assms(2,3) by (simp add: write_slot_def set_next_def byte_store)
qed (simp add: write_slot_def)

lemma write_slot_payload:
  assumes "slot_below lo sl" "seg m p lo ts q" "lo + extent ts \<le> 18446744073709551616" "x \<in> payload lo ts"
  shows "heap_mem (write_slot (slot_at sl lo ts) v st) (ptr x) = heap_mem st (ptr x)"
  using assms
proof (induction sl lo ts arbitrary: p rule: slot_at.induct)
  case (2 sl lo s fr ts)
  have b: "slot_below (lo + s) (if fr then NextOf (ptr lo) else sl)"
    using 2(2,3) by (auto simp: slot_below_def intro: slot_below_mono [unfolded slot_below_def] split: fle_slot.splits)
  obtain p' where g: "seg m p' (lo + s) ts q" using 2(3) by (auto split: if_splits)
  show ?case
  proof (cases "x \<in> payload (lo + s) ts")
    case True
    then show ?thesis using 2(1) [OF b g] 2(4) by simp
  next
    case False
    then have x: "\<not> fr" "lo + 8 \<le> x" "x < lo + s" using 2(5) by (auto split: if_splits)
    have sl: "slot_at sl (lo + s) ts = sl \<or> (\<exists>c. slot_at sl (lo + s) ts = NextOf (ptr c) \<and> lo + s \<le> c \<and> c + 16 \<le> lo + s + extent ts)"
      using write_slot_at_cases [OF b g] 2(4) x(1) by simp
    then show ?thesis
    proof
      assume "slot_at sl (lo + s) ts = sl"
      then show ?thesis using write_slot_byte [OF 2(2), of x v st] x 2(4) by simp
    next
      assume "\<exists>c. slot_at sl (lo + s) ts = NextOf (ptr c) \<and> lo + s \<le> c \<and> c + 16 \<le> lo + s + extent ts"
      then obtain c where "slot_at sl (lo + s) ts = NextOf (ptr c)" "lo + s \<le> c" "c + 16 \<le> lo + s + extent ts" by blast
      then show ?thesis using x 2(4) by (simp add: write_slot_def set_next_def byte_store)
    qed
  qed
qed simp

section \<open>\<open>malloc\<close> on tiles\<close>

lemma sbrk_fields [simp]:
  "heap_mem (check_range_and_call_sbrk env a n st) = heap_mem st"
  "malloc_freelist (check_range_and_call_sbrk env a n st) = malloc_freelist st"
  "malloc_end (check_range_and_call_sbrk env a n st) = malloc_end st"
  by (simp_all add: check_range_and_call_sbrk_def split: prod.split)

lemma set_fields [simp]:
  "malloc_freelist (set_size b v st) = malloc_freelist st" "malloc_end (set_size b v st) = malloc_end st"
  "malloc_freelist (set_next b v st) = malloc_freelist st" "malloc_end (set_next b v st) = malloc_end st"
  "heap_mem (set_size b v st) = store64 (heap_mem st) b v" "heap_mem (set_next b v st) = store64 (heap_mem st) (b + 8) v"
  by (simp_all add: set_size_def set_next_def)

text \<open>The tiles of a whole state; \<open>heap_list\<close> says the free list is \<^verbatim>\<open>NULL\<close>-terminated.\<close>

definition heap_list :: "'os malloc_state \<Rightarrow> nat \<Rightarrow> tile list \<Rightarrow> u64 \<Rightarrow> bool" where
  "heap_list st lo ts q \<longleftrightarrow> seg (heap_mem st) (malloc_freelist st) lo ts q"

lemma heap_list_read: "heap_list st lo ts q \<Longrightarrow> read_slot st (slot_at Freelist lo ts) = q"
  by (rule read_slot_at) (simp add: heap_list_def read_slot_def)

lemma heap_list_write:
  "heap_list st lo ts q \<Longrightarrow> lo + extent ts \<le> 18446744073709551616 \<Longrightarrow>
    heap_list (write_slot (slot_at Freelist lo ts) v st) lo ts v"
  using seg_write_slot [of st Freelist lo ts q v] by (simp add: heap_list_def read_slot_def)

lemma heap_list_slot_below: "heap_list st lo ts q \<Longrightarrow> slot_below (lo + extent ts) (slot_at Freelist lo ts)"
  using slot_at_below [of lo Freelist] by (simp add: heap_list_def)

lemma heap_list_append:
  "heap_list st lo (xs @ ys) q \<longleftrightarrow> (\<exists>r. heap_list st lo xs r \<and> seg (heap_mem st) r (lo + extent xs) ys q)"
  by (simp add: heap_list_def seg_append)

text \<open>
  Exchanging the tiles between \<open>xs\<close> and \<open>zs\<close>: the slot before them gets the pointer to the first free
  one of the new tiles, everything else is written between \<open>xs\<close> and \<open>zs\<close>.
\<close>

lemma heap_splice_stores:
  assumes "heap_list st lo xs v" "seg (heap_mem st) q c zs 0" "c + extent zs < 18446744073709551616"
    and "lo + extent xs \<le> c"
    and st': "heap_mem st' = fold (\<lambda>(a, v) m. store64 m (ptr a) v) ws (heap_mem st)" "malloc_freelist st' = malloc_freelist st"
    and ws: "\<forall>(a, w)\<in>set ws. lo + extent xs \<le> a \<and> a + 8 \<le> c"
    and ys: "seg (heap_mem st') v (lo + extent xs) ys q" "c = lo + extent xs + extent ys"
  shows "heap_list st' lo (xs @ ys @ zs) 0 \<and> kept st st' (payload lo xs \<union> payload c zs)"
proof
  have "seg (heap_mem st') (malloc_freelist st') lo xs v"
    unfolding st' by (rule seg_stores [OF assms(1) [unfolded heap_list_def]]) (use assms(3,4) ws in force)+
  moreover have "seg (heap_mem st') q c zs 0"
    unfolding st' by (rule seg_stores [OF assms(2)]) (use assms(3,4) ws in force)+
  ultimately show "heap_list st' lo (xs @ ys @ zs) 0" using ys by (auto simp: heap_list_append heap_list_def seg_append)
  have "heap_mem st' (ptr x) = heap_mem st (ptr x)" if x: "x \<in> payload lo xs \<union> payload c zs" for x
  proof -
    have "x < c + extent zs" "x < lo + extent xs \<or> c \<le> x" using x payload_range assms(4) by fastforce+
    then show ?thesis unfolding st'(1) using kept_store [of ws "{x}" "heap_mem st"] ws assms(3,4) by fastforce
  qed
  then show "kept st st' (payload lo xs \<union> payload c zs)" by (simp add: kept_def)
qed

lemma heap_splice:
  assumes "heap_list st lo xs r" "seg (heap_mem st) q c zs 0" "c + extent zs < 18446744073709551616"
    and "lo + extent xs \<le> c"
    and st': "heap_mem st' = fold (\<lambda>(a, v) m. store64 m (ptr a) v) ws (heap_mem (write_slot (slot_at Freelist lo xs) v st))"
      "malloc_freelist st' = malloc_freelist (write_slot (slot_at Freelist lo xs) v st)"
    and ws: "\<forall>(a, w)\<in>set ws. lo + extent xs \<le> a \<and> a + 8 \<le> c"
    and ys: "seg (heap_mem st') v (lo + extent xs) ys q" "c = lo + extent xs + extent ys"
  shows "heap_list st' lo (xs @ ys @ zs) 0 \<and> kept st st' (payload lo xs \<union> payload c zs)"
proof -
  let ?st = "write_slot (slot_at Freelist lo xs) v st"
  note below = slot_below_mono [OF heap_list_slot_below [OF assms(1)] assms(4)]
  have "heap_list ?st lo xs v" using heap_list_write [OF assms(1), of v] assms(3,4) by simp
  moreover have "seg (heap_mem ?st) q c zs 0" using below assms(2,3) by (intro seg_write_slot_above) simp_all
  ultimately have "heap_list st' lo (xs @ ys @ zs) 0 \<and> kept ?st st' (payload lo xs \<union> payload c zs)"
    by (rule heap_splice_stores [OF _ _ assms(3,4) st' ws ys])
  moreover have "heap_mem ?st (ptr x) = heap_mem st (ptr x)" if x: "x \<in> payload lo xs \<union> payload c zs" for x
  proof (cases "x \<in> payload lo xs")
    case True
    then show ?thesis
      using write_slot_payload [of lo Freelist "heap_mem st" "malloc_freelist st" xs r x v st] assms(1,3,4) by (simp add: heap_list_def)
  next
    case False
    then have "c \<le> x" "x < c + extent zs" using x payload_range by blast+
    then show ?thesis using below assms(3) by (intro write_slot_byte) simp_all
  qed
  ultimately show ?thesis by (simp add: kept_def)
qed

text \<open>First fit: the offset of the block, and the tiles after the call.\<close>

fun first_fit :: "nat \<Rightarrow> tile list \<Rightarrow> nat \<times> tile list" where
  "first_fit n [] = (0, [(n, False)])"
| "first_fit n ((s, fr) # ts) =
    (if fr \<and> n \<le> s then (0, if s < n + 16 then (s, False) # ts else (n, False) # (s - n, True) # ts)
     else if fr \<and> ts = [] then (0, [(n, False)])
     else (s + fst (first_fit n ts), (s, fr) # snd (first_fit n ts)))"

lemma malloc_take_refines:
  assumes h: "heap_list st lo (xs @ (s, True) # ys) 0" and b: "lo + extent xs + s + extent ys < 18446744073709551584"
    and n: "16 \<le> n" "8 dvd n" "n \<le> s"
  shows "\<exists>st'. malloc_take env (ptr n) (slot_at Freelist lo xs) (ptr (lo + extent xs)) st = (ptr (lo + extent xs + 8), st') \<and>
    heap_list st' lo (xs @ snd (first_fit n ((s, True) # ys))) 0 \<and> malloc_end st' = malloc_end st \<and>
    kept st st' (payload lo (xs @ (s, True) # ys))"
proof -
  let ?b = "lo + extent xs" and ?sl = "slot_at Freelist lo xs"
  obtain r where r: "heap_list st lo xs r" "seg (heap_mem st) r ?b ((s, True) # ys) 0"
    using h by (auto simp: heap_list_append)
  let ?q = "load64 (heap_mem st) (ptr (?b + 8))"
  have t: "load64 (heap_mem st) (ptr ?b) = ptr s" "16 \<le> s" "8 dvd s" "seg (heap_mem st) ?q (?b + s) ys 0"
    using r(2) by (auto simp: add.assoc)
  note below = heap_list_slot_below [OF r(1)]
  have size: "fle_size st (ptr ?b) = ptr s" "fle_next st (ptr ?b) = ?q"
    using t(1) by (simp_all add: fle_size_def fle_next_def)
  show ?thesis
  proof (cases "s < n + 16")
    case True
    let ?st = "write_slot ?sl ?q st"
    have "heap_list ?st lo (xs @ [(s, False)] @ ys) 0 \<and> kept st ?st (payload lo xs \<union> payload (?b + s) ys)"
      by (rule heap_splice [OF r(1) t(4), where ws = "[]" and v = ?q])
        (use b t write_slot_above [OF below, of ?b ?q st] in \<open>simp_all add: fst_conv\<close>)
    then show ?thesis using True n b size by (simp add: malloc_take_def Let_def sizeof_freelist_entry_def ptr_less heap_list_def kept_def)
  next
    case False
    let ?v = "ptr (?b + n)"
    let ?st = "set_size (ptr ?b) (ptr n) (set_next ?v ?q (set_size ?v (ptr (s - n)) (write_slot ?sl ?v st)))"
    have rd: "read_slot (set_size ?v w (write_slot ?sl ?v st)) ?sl = ?v" for w
    proof (cases ?sl)
      case (NextOf d)
      then obtain c where c: "d = ptr c" "c + 16 \<le> ?b" using below by (auto simp: slot_below_def)
      show ?thesis using read_write_slot [of ?sl ?v st] c n b False unfolding NextOf
        by (simp add: read_slot_def fle_next_def)
    qed (use read_write_slot [of ?sl ?v st] in \<open>simp add: read_slot_def\<close>)
    have "8 dvd s - n" using n t(3) by (simp add: dvd_diff_nat)
    then have "heap_list ?st lo (xs @ [(n, False), (s - n, True)] @ ys) 0 \<and> kept st ?st (payload lo xs \<union> payload (?b + s) ys)"
      by (intro heap_splice [OF r(1) t(4), where ws = "[(?b + n, ptr (s - n)), (?b + n + 8, ?q), (?b, ptr n)]" and v = ?v])
        (use b t n False in \<open>simp_all add: mem_simps add.assoc\<close>)
    moreover have "malloc_take env (ptr n) ?sl (ptr ?b) st = malloc_done env (ptr n) (ptr ?b) (set_next ?v ?q (set_size ?v (ptr (s - n)) (write_slot ?sl ?v st)))"
      using False n b size rd by (simp add: malloc_take_def Let_def sizeof_freelist_entry_def ptr_less)
    ultimately show ?thesis using False n by (simp add: malloc_done_def Let_def heap_list_def kept_def)
  qed
qed

lemma malloc_end_kept:
  assumes "heap_list st lo xs q" "lo + extent xs \<le> a" "a + 8 \<le> 18446744073709551616"
    and "heap_mem st' = store64 (heap_mem st) (ptr a) w" "malloc_freelist st' = malloc_freelist st"
  shows "heap_list st' lo xs q \<and> kept st st' (payload lo xs)"
proof
  show "heap_list st' lo xs q"
    using assms(1) unfolding heap_list_def assms(4,5) by (rule seg_store) (use assms in simp_all)
  show "kept st st' (payload lo xs)"
    unfolding kept_def assms(4) using payload_range [of _ lo xs] assms(2,3) by (fastforce intro: byte_store)
qed

lemma CAN_ALLOC_P_iff:
  assumes "malloc_end st = ptr e" "e + 32 \<le> unat (frame_address env)" "k < 18446744073709551616"
  shows "CAN_ALLOC_P env st (ptr k) \<longleftrightarrow> e + k + 32 \<le> unat (frame_address env)"
proof -
  have f: "unat (frame_address env) < 18446744073709551616" by (rule unat_less_2p64)
  have "frame_address env - ptr e - 32 = ptr (unat (frame_address env) - e - 32)"
    using assms(2) ptr_diff [of e "unat (frame_address env)"] ptr_diff [of 32 "unat (frame_address env) - e"]
    by (simp add: ptr_def)
  moreover have "ptr k \<le> ptr (unat (frame_address env) - e - 32) \<longleftrightarrow> k \<le> unat (frame_address env) - e - 32"
    by (rule ptr_le [OF assms(3)]) (use f in linarith)
  ultimately show ?thesis
    unfolding CAN_ALLOC_P_def MALLOC_MINIMUM_GAP_def assms(1) using assms(2) by auto
qed

lemma malloc_fresh_refines:
  assumes h: "heap_list st lo xs 0" and e: "malloc_end st = ptr (lo + extent xs)"
    and b: "lo + extent xs + 32 \<le> unat (frame_address env)" and n: "16 \<le> n" "8 dvd n" "n < 18446744073709551616"
  shows "if lo + extent xs + n + 32 > unat (frame_address env) then malloc_fresh env (ptr n) st = (0, st)
    else \<exists>st'. malloc_fresh env (ptr n) st = (ptr (lo + extent xs + 8), st') \<and>
      heap_list st' lo (xs @ [(n, False)]) 0 \<and> malloc_end st' = ptr (lo + extent xs + n) \<and> kept st st' (payload lo xs)"
proof -
  have f: "unat (frame_address env) < 18446744073709551616" by (rule unat_less_2p64)
  let ?st = "set_size (ptr (lo + extent xs)) (ptr n) (st\<lparr>malloc_end := ptr (lo + extent xs + n)\<rparr>)"
  have "lo + extent xs + 8 \<le> 18446744073709551616" using b f by linarith
  then have "heap_list ?st lo xs 0 \<and> kept st ?st (payload lo xs)"
    by (intro malloc_end_kept [OF h]) simp_all
  then show ?thesis
    using CAN_ALLOC_P_iff [OF e b n(3)] n
    by (auto simp: malloc_fresh_def malloc_done_def Let_def e kept_def mem_simps heap_list_def seg_append)
qed

lemma malloc_enlarge_refines:
  assumes h: "heap_list st lo (xs @ [(s, True)]) 0" and e: "malloc_end st = ptr (lo + extent xs + s)"
    and b: "lo + extent xs + s + 32 \<le> unat (frame_address env)"
    and n: "16 \<le> n" "8 dvd n" "n < 18446744073709551616" "s < n"
  shows "if lo + extent xs + n + 32 > unat (frame_address env)
    then malloc_enlarge env (ptr n) (slot_at Freelist lo xs) (ptr (lo + extent xs)) st = (0, st)
    else \<exists>st'. malloc_enlarge env (ptr n) (slot_at Freelist lo xs) (ptr (lo + extent xs)) st = (ptr (lo + extent xs + 8), st') \<and>
      heap_list st' lo (xs @ [(n, False)]) 0 \<and> malloc_end st' = ptr (lo + extent xs + n) \<and> kept st st' (payload lo xs)"
proof -
  have f: "unat (frame_address env) < 18446744073709551616" by (rule unat_less_2p64)
  let ?b = "lo + extent xs" and ?sl = "slot_at Freelist lo xs"
  obtain r where r: "heap_list st lo xs r" "seg (heap_mem st) r ?b [(s, True)] 0"
    using h by (auto simp: heap_list_append)
  have size: "fle_size st (ptr ?b) = ptr s" using r(2) by (simp add: fle_size_def)
  have can: "CAN_ALLOC_P env st (ptr n - ptr s) \<longleftrightarrow> ?b + n + 32 \<le> unat (frame_address env)"
    using CAN_ALLOC_P_iff [OF e b, of "n - s"] n by (simp add: add.assoc)
  let ?st = "set_size (ptr ?b) (ptr n) (write_slot ?sl 0 st\<lparr>malloc_end := ptr (?b + n)\<rparr>)"
  have "heap_list ?st lo (xs @ [(n, False)] @ []) 0 \<and> kept st ?st (payload lo xs \<union> payload (?b + n) [])"
    if "?b + n + 32 \<le> unat (frame_address env)"
  proof (rule heap_splice [OF r(1), where ws = "[(?b, ptr n)]" and v = 0 and q = 0])
    have "?b + n < 18446744073709551616" using that f by linarith
    then show "?b + n + extent [] < 18446744073709551616" by simp
  qed (use n in \<open>simp_all add: mem_simps\<close>)
  then show ?thesis
    using can size by (auto simp: malloc_enlarge_def malloc_done_def Let_def kept_def heap_list_def)
qed

lemma first_fit_fst: "fst (first_fit n ts) \<le> extent ts"
  by (induction n ts rule: first_fit.induct) auto

lemma first_fit_total: "extent ts \<le> extent (snd (first_fit n ts))"
  by (induction n ts rule: first_fit.induct) auto

lemma malloc_search_refines:
  assumes "heap_list st lo (xs @ ys) 0" "malloc_end st = ptr (lo + extent (xs @ ys))" "0 < lo"
    and "lo + extent (xs @ ys) + 32 \<le> unat (frame_address env)" "16 \<le> n" "8 dvd n" "n < 18446744073709551616"
  shows "if extent (snd (first_fit n ys)) \<noteq> extent ys \<and>
      lo + extent xs + extent (snd (first_fit n ys)) + 32 > unat (frame_address env)
    then malloc_search env (ptr n) (slot_at Freelist lo xs) st = Some (0, st)
    else \<exists>st'. malloc_search env (ptr n) (slot_at Freelist lo xs) st =
        Some (ptr (lo + extent xs + fst (first_fit n ys) + 8), st') \<and>
      heap_list st' lo (xs @ snd (first_fit n ys)) 0 \<and>
      malloc_end st' = ptr (lo + extent (xs @ snd (first_fit n ys))) \<and> kept st st' (payload lo (xs @ ys))"
  using assms
proof (induction ys arbitrary: xs)
  case Nil
  then have "read_slot st (slot_at Freelist lo xs) = 0" using heap_list_read [of st lo xs 0] by simp
  then have "malloc_search env (ptr n) (slot_at Freelist lo xs) st = Some (malloc_fresh env (ptr n) st)"
    by (simp add: malloc_search.simps)
  then show ?case using malloc_fresh_refines [of st lo xs env n] Nil by (auto simp: add.assoc)
next
  case (Cons t ys)
  obtain s fr where t: "t = (s, fr)" by (cases t)
  have f: "unat (frame_address env) < 18446744073709551616" by (rule unat_less_2p64)
  have IH: "slot_at Freelist lo (xs @ [(s, fr)]) = sl \<Longrightarrow> \<not> (fr \<and> n \<le> s) \<Longrightarrow> \<not> (fr \<and> ys = []) \<Longrightarrow>
      malloc_search env (ptr n) (slot_at Freelist lo xs) st = malloc_search env (ptr n) sl st \<Longrightarrow> ?case" for sl
    using Cons.IH [of "xs @ [(s, fr)]"] Cons.prems unfolding t by (auto simp: add.assoc)
  show ?case
  proof (cases fr)
    case False
    then show ?thesis by (intro IH [of "slot_at Freelist lo xs"]) (simp_all add: slot_at_append)
  next
    case True
    let ?b = "lo + extent xs" and ?sl = "slot_at Freelist lo xs"
    obtain r where r: "heap_list st lo xs r" "seg (heap_mem st) r ?b ((s, True) # ys) 0"
      using Cons.prems(1) t True by (auto simp: heap_list_append)
    have rd: "read_slot st ?sl = ptr ?b" using heap_list_read [OF r(1)] r(2) by simp
    have size: "fle_size st (ptr ?b) = ptr s" "fle_next st (ptr ?b) = load64 (heap_mem st) (ptr (?b + 8))"
      using r(2) by (simp_all add: fle_size_def fle_next_def)
    have b1: "?b + s + extent ys + 32 \<le> unat (frame_address env)" using Cons.prems(4) t by (simp add: add.assoc)
    then have "?b + s + extent ys < 18446744073709551584" using f by linarith
    note b = b1 this
    have nz: "ptr ?b \<noteq> 0" using b Cons.prems(3) by (simp add: ptr_eq_0)
    show ?thesis
    proof (cases "n \<le> s")
      case le: True
      then have "malloc_search env (ptr n) ?sl st = Some (malloc_take env (ptr n) ?sl (ptr ?b) st)"
        using rd size nz b by (subst malloc_search.simps) (simp add: Let_def ptr_le)
      moreover have "extent (snd (first_fit n ((s, True) # ys))) = s + extent ys" "fst (first_fit n ((s, True) # ys)) = 0"
        using le by auto
      ultimately show ?thesis
        using malloc_take_refines [of st lo xs s ys n env] Cons.prems le b t True by (auto simp: add.assoc)
    next
      case False
      then have s: "\<not> ptr n \<le> ptr s" "s < n" using b Cons.prems(7) by (simp_all add: ptr_le)
      show ?thesis
      proof (cases "ys = []")
        case nil: True
        have "malloc_search env (ptr n) ?sl st = Some (malloc_enlarge env (ptr n) ?sl (ptr ?b) st)"
          using rd size nz s r(2) nil Cons.prems(2) t by (subst malloc_search.simps) (simp add: Let_def add.assoc)
        then show ?thesis
          using malloc_enlarge_refines [of st lo xs s env n] Cons.prems s nil b t True by (auto simp: add.assoc)
      next
        case more: False
        obtain q where "seg (heap_mem st) q (?b + s) ys 0" using r(2) by auto
        then have "16 \<le> extent ys" using more by (rule seg_total)
        then have "malloc_end st \<noteq> ptr ?b + ptr s"
          using Cons.prems(2) b t by (simp add: ptr_eq add.assoc)
        then have "malloc_search env (ptr n) ?sl st = malloc_search env (ptr n) (NextOf (ptr ?b)) st"
          using rd size nz s by (subst malloc_search.simps) (simp add: Let_def)
        then show ?thesis using more s True by (intro IH [of "NextOf (ptr ?b)"]) (simp_all add: slot_at_append)
      qed
    qed
  qed
qed

section \<open>\<open>free\<close> on tiles\<close>

lemma store_commute:
  assumes "a + 8 \<le> b" "b + 8 \<le> 18446744073709551616"
  shows "store64 (store64 m (ptr a) v) (ptr b) w = store64 (store64 m (ptr b) w) (ptr a) v"
proof
  fix x :: u64
  let ?n = "unat x"
  have n: "?n < 18446744073709551616" by (rule unat_less_2p64)
  have "8 \<le> unat (ptr ?n - ptr a) \<or> 8 \<le> unat (ptr ?n - ptr b)"
    using ptr_apart(2) [of ?n 1 b 8] ptr_apart(1) [of a 8 ?n 1] n assms by (cases "?n < b") simp_all
  then show "store64 (store64 m (ptr a) v) (ptr b) w x = store64 (store64 m (ptr b) w) (ptr a) v x"
    by (auto simp: store64_def store_bytes_def)
qed

lemma write_slot_store:
  assumes "slot_below lo sl" "lo \<le> a" "a + 8 \<le> 18446744073709551616" "heap_mem st' = store64 (heap_mem st) (ptr a) w"
  shows "heap_mem (write_slot sl v st') = store64 (heap_mem (write_slot sl v st)) (ptr a) w"
proof (cases sl)
  case (NextOf b)
  then obtain c where "b = ptr c" "c + 16 \<le> lo" using assms(1) by (auto simp: slot_below_def)
  then show ?thesis using NextOf assms(2,3,4) by (simp add: write_slot_def store_commute)
qed (simp add: write_slot_def assms(4))

lemma write_slot_freelist:
  "malloc_freelist st' = malloc_freelist st \<Longrightarrow> malloc_freelist (write_slot sl v st') = malloc_freelist (write_slot sl v st)"
  by (simp add: write_slot_def split: fle_slot.split)

text \<open>Releasing the block between \<open>us\<close> and \<open>vs\<close>: it merges with free neighbours.\<close>

fun join :: "nat \<Rightarrow> tile list \<Rightarrow> tile list" where
  "join s ((t, True) # ws) = (s + t, True) # ws"
| "join s ws = (s, True) # ws"

fun release :: "tile list \<Rightarrow> nat \<Rightarrow> tile list \<Rightarrow> tile list" where
  "release [] s vs = join s vs"
| "release ((t, fr) # us) s vs = (if fr \<and> us = [] then join (t + s) vs else (t, fr) # release us s vs)"

lemma extent_join [simp]: "extent (join s vs) = s + extent vs"
  by (induction s vs rule: join.induct) simp_all

lemma extent_release [simp]: "extent (release us s vs) = extent us + s + extent vs"
  by (induction us s vs rule: release.induct) simp_all

lemma first_free:
  assumes "seg m r a vs 0" "0 < a" "a + extent vs < 18446744073709551616"
  shows "(r = 0 \<and> join s vs = (s, True) # vs) \<or>
    (\<exists>d t. r = ptr d \<and> load64 m (ptr d) = ptr t \<and> a \<le> d \<and> d + t \<le> a + extent vs \<and> 16 \<le> t \<and>
      (if d = a then \<exists>ws. vs = (t, True) # ws else join s vs = (s, True) # vs))"
  using assms
proof (induction m r a vs "0 :: u64" rule: seg.induct)
  case (2 m p lo u fr ts)
  show ?case
  proof (cases fr)
    case True
    then show ?thesis using 2 by (auto intro!: exI [of _ lo] exI [of _ u])
  next
    case False
    then have "(p = 0 \<and> join s ts = (s, True) # ts) \<or>
      (\<exists>d t. p = ptr d \<and> load64 m (ptr d) = ptr t \<and> lo + u \<le> d \<and> d + t \<le> lo + u + extent ts \<and> 16 \<le> t \<and>
        (if d = lo + u then \<exists>ws. ts = (t, True) # ws else join s ts = (s, True) # ts))"
      using 2(2) [OF False] 2(3,4,5) by (simp add: add.assoc)
    then show ?thesis
    proof (elim disjE conjE exE)
      fix d t assume d: "p = ptr d" "load64 m (ptr d) = ptr t" "lo + u \<le> d" "d + t \<le> lo + u + extent ts" "16 \<le> t"
      then have "d \<noteq> lo" using 2(3) by simp
      then show ?thesis using d False by (intro disjI2 exI [of _ d] exI [of _ t]) simp
    qed (use False in simp)
  qed
qed simp

lemma free_insert_refines:
  assumes h: "heap_list st lo (xs @ (s, False) # vs) 0" and b: "lo + extent xs + s + extent vs < 18446744073709551584"
  shows "let st' = free_insert (ptr (lo + extent xs)) (slot_at Freelist lo xs) st
    in heap_list st' lo (xs @ (s, True) # vs) 0 \<and> malloc_end st' = malloc_end st \<and>
      kept st st' (payload lo xs \<union> payload (lo + extent xs + s) vs)"
proof -
  let ?b = "lo + extent xs" and ?sl = "slot_at Freelist lo xs"
  let ?st = "free_insert (ptr ?b) ?sl st"
  obtain r where r: "heap_list st lo xs r" "seg (heap_mem st) r ?b ((s, False) # vs) 0"
    using h by (auto simp: heap_list_append)
  have t: "load64 (heap_mem st) (ptr ?b) = ptr s" "16 \<le> s" "8 dvd s" "seg (heap_mem st) r (?b + s) vs 0"
    using r(2) by auto
  note below = heap_list_slot_below [OF r(1)]
  have m: "heap_mem ?st = store64 (heap_mem (write_slot ?sl (ptr ?b) st)) (ptr (?b + 8)) r"
    unfolding free_insert_def by (rule write_slot_store [OF below]) (use heap_list_read [OF r(1)] b t in simp_all)
  have "heap_list ?st lo (xs @ [(s, True)] @ vs) 0 \<and> kept st ?st (payload lo xs \<union> payload (?b + s) vs)"
  proof (rule heap_splice [OF r(1) t(4), where ws = "[(?b + 8, r)]" and v = "ptr ?b"])
    show "malloc_freelist ?st = malloc_freelist (write_slot ?sl (ptr ?b) st)"
      unfolding free_insert_def by (rule write_slot_freelist) simp
    show "seg (heap_mem ?st) (ptr ?b) ?b [(s, True)] r"
      using t b write_slot_above [OF below, of ?b "ptr ?b" st] by (simp add: m mem_simps)
  qed (use m t b in simp_all)
  then show ?thesis by (simp add: Let_def) (simp add: free_insert_def)
qed

lemma free_prepend_refines:
  assumes h: "heap_list st lo (xs @ (s, False) # (t, True) # ws) 0" and b: "lo + extent xs + s + t + extent ws < 18446744073709551584"
  shows "let st' = free_prepend (ptr (lo + extent xs)) (ptr (lo + extent xs + s)) (slot_at Freelist lo xs) st
    in heap_list st' lo (xs @ (s + t, True) # ws) 0 \<and> malloc_end st' = malloc_end st \<and>
      kept st st' (payload lo xs \<union> payload (lo + extent xs + s + t) ws)"
proof -
  let ?b = "lo + extent xs" and ?sl = "slot_at Freelist lo xs"
  let ?st = "free_prepend (ptr ?b) (ptr (?b + s)) ?sl st"
  obtain r where r: "heap_list st lo xs r" "seg (heap_mem st) r ?b ((s, False) # (t, True) # ws) 0"
    using h by (auto simp: heap_list_append)
  let ?q = "load64 (heap_mem st) (ptr (?b + s + 8))"
  have t: "load64 (heap_mem st) (ptr ?b) = ptr s" "load64 (heap_mem st) (ptr (?b + s)) = ptr t" "16 \<le> s" "16 \<le> t"
      "8 dvd s" "8 dvd t" "seg (heap_mem st) ?q (?b + s + t) ws 0"
    using r(2) by auto
  note below = heap_list_slot_below [OF r(1)]
  let ?st1 = "set_size (ptr ?b) (ptr (s + t)) st" and ?st2 = "set_next (ptr ?b) ?q (set_size (ptr ?b) (ptr (s + t)) st)"
  have st: "?st = write_slot ?sl (ptr ?b) ?st2"
    using t b by (simp add: free_prepend_def Let_def fle_size_def fle_next_def)
  have m: "heap_mem ?st = store64 (store64 (heap_mem (write_slot ?sl (ptr ?b) st)) (ptr ?b) (ptr (s + t))) (ptr (?b + 8)) ?q"
  proof -
    have "heap_mem ?st = store64 (heap_mem (write_slot ?sl (ptr ?b) ?st1)) (ptr (?b + 8)) ?q"
      unfolding st by (rule write_slot_store [OF below]) (use b t in simp_all)
    also have "heap_mem (write_slot ?sl (ptr ?b) ?st1) = store64 (heap_mem (write_slot ?sl (ptr ?b) st)) (ptr ?b) (ptr (s + t))"
      by (rule write_slot_store [OF below]) (use b t in simp_all)
    finally show ?thesis .
  qed
  have "heap_list ?st lo (xs @ [(s + t, True)] @ ws) 0 \<and> kept st ?st (payload lo xs \<union> payload (?b + s + t) ws)"
  proof (rule heap_splice [OF r(1) t(7), where ws = "[(?b, ptr (s + t)), (?b + 8, ?q)]" and v = "ptr ?b"])
    show "malloc_freelist ?st = malloc_freelist (write_slot ?sl (ptr ?b) st)"
      unfolding st by (rule write_slot_freelist) simp
    show "seg (heap_mem ?st) (ptr ?b) ?b [(s + t, True)] ?q"
      using t b by (simp add: m mem_simps)
  qed (use m t b in simp_all)
  then show ?thesis by (simp add: Let_def) (simp add: st)
qed

lemma free_append_refines:
  assumes h: "heap_list st lo (xs @ (t, True) # (s, False) # vs) 0" and b: "lo + extent xs + t + s + extent vs < 18446744073709551584"
  shows "let st' = free_append (ptr (lo + extent xs + t)) (ptr (lo + extent xs)) st
    in heap_list st' lo (xs @ join (t + s) vs) 0 \<and> malloc_end st' = malloc_end st \<and>
      kept st st' (payload lo xs \<union> payload (lo + extent xs + t + s) vs)"
proof -
  let ?c = "lo + extent xs"
  let ?st = "free_append (ptr (?c + t)) (ptr ?c) st"
  obtain r where r: "heap_list st lo xs r" "seg (heap_mem st) r ?c ((t, True) # (s, False) # vs) 0"
    using h by (auto simp: heap_list_append)
  let ?q = "load64 (heap_mem st) (ptr (?c + 8))"
  have t: "load64 (heap_mem st) (ptr ?c) = ptr t" "load64 (heap_mem st) (ptr (?c + t)) = ptr s" "16 \<le> s" "16 \<le> t"
      "8 dvd s" "8 dvd t" "r = ptr ?c" "seg (heap_mem st) ?q (?c + t + s) vs 0"
    using r(2) by auto
  have ends: "malloc_end ?st = malloc_end st" "malloc_freelist ?st = malloc_freelist st"
    by (simp_all add: free_append_def Let_def)
  have "0 < ?c + t + s" "?c + t + s + extent vs < 18446744073709551616" using b t by simp_all
  from first_free [OF t(8) this, of "t + s"] show ?thesis
  proof (elim disjE conjE exE)
    assume q: "?q = 0" and j: "join (t + s) vs = (t + s, True) # vs"
    have m: "heap_mem ?st = store64 (heap_mem st) (ptr ?c) (ptr (t + s))"
      using t b q by (simp add: free_append_def Let_def fle_size_def fle_next_def)
    have "heap_list ?st lo (xs @ [(t + s, True)] @ vs) 0 \<and> kept st ?st (payload lo xs \<union> payload (?c + t + s) vs)"
      by (rule heap_splice_stores [OF r(1) t(8), where ws = "[(?c, ptr (t + s))]"])
        (use m ends t b in \<open>simp_all add: mem_simps\<close>)
    then show ?thesis using ends j by (simp add: Let_def)
  next
    fix d u assume d: "?q = ptr d" "load64 (heap_mem st) (ptr d) = ptr u" "?c + t + s \<le> d" "d + u \<le> ?c + t + s + extent vs" "16 \<le> u"
      and j: "if d = ?c + t + s then \<exists>ws. vs = (u, True) # ws else join (t + s) vs = (t + s, True) # vs"
    have q0: "ptr d \<noteq> 0" using d b t by (simp add: ptr_eq_0)
    show ?thesis
    proof (cases "d = ?c + t + s")
      case False
      then have "ptr (?c + t + s) \<noteq> ptr d" using d b by (simp add: ptr_eq)
      then have m: "heap_mem ?st = store64 (heap_mem st) (ptr ?c) (ptr (t + s))"
        using t b d(1) by (simp add: free_append_def Let_def fle_size_def fle_next_def)
      have "heap_list ?st lo (xs @ [(t + s, True)] @ vs) 0 \<and> kept st ?st (payload lo xs \<union> payload (?c + t + s) vs)"
        by (rule heap_splice_stores [OF r(1) t(8), where ws = "[(?c, ptr (t + s))]"])
          (use m ends t b in \<open>simp_all add: mem_simps\<close>)
      then show ?thesis using ends j False by (simp add: Let_def)
    next
      case True
      then obtain ws where vs: "vs = (u, True) # ws" using j by auto
      let ?p = "load64 (heap_mem st) (ptr (d + 8))"
      have u: "8 dvd u" "seg (heap_mem st) ?p (d + u) ws 0" using t(8) d(1) vs True by auto
      have m: "heap_mem ?st = store64 (store64 (store64 (heap_mem st) (ptr ?c) (ptr (t + s))) (ptr ?c) (ptr (t + s + u))) (ptr (?c + 8)) ?p"
        using t b d(1,2,5) q0 True vs
        by (simp add: free_append_def Let_def fle_size_def fle_next_def mem_simps add.assoc)
      have "heap_list ?st lo (xs @ [(t + s + u, True)] @ ws) 0 \<and> kept st ?st (payload lo xs \<union> payload (d + u) ws)"
        by (rule heap_splice_stores [OF r(1) u(2), where ws = "[(?c, ptr (t + s)), (?c, ptr (t + s + u)), (?c + 8, ?p)]"])
          (use m ends t b d(5) u(1) True vs in \<open>simp_all add: mem_simps\<close>)
      then show ?thesis using ends vs True by (simp add: Let_def)
    qed
  qed
qed

lemma free_search_refines:
  assumes "heap_list st lo (xs @ us @ (s, False) # vs) 0" "0 < lo"
    and "lo + extent xs + extent us + s + extent vs < 18446744073709551584"
  shows "\<exists>st'. free_search (ptr (lo + extent xs + extent us)) (slot_at Freelist lo xs) st = Some st' \<and>
    heap_list st' lo (xs @ release us s vs) 0 \<and> malloc_end st' = malloc_end st \<and>
    kept st st' (payload lo (xs @ us) \<union> payload (lo + extent xs + extent us + s) vs)"
  using assms
proof (induction us arbitrary: xs)
  case Nil
  let ?b = "lo + extent xs" and ?sl = "slot_at Freelist lo xs"
  obtain r where r: "heap_list st lo xs r" "seg (heap_mem st) r ?b ((s, False) # vs) 0"
    using Nil(1) by (auto simp: heap_list_append)
  have t: "fle_size st (ptr ?b) = ptr s" "16 \<le> s" "seg (heap_mem st) r (?b + s) vs 0" using r(2) by (auto simp: fle_size_def)
  have rd: "read_slot st ?sl = r" by (rule heap_list_read [OF r(1)])
  have "0 < ?b + s" "?b + s + extent vs < 18446744073709551616" using Nil by simp_all
  from first_free [OF t(3) this, of s] show ?case
  proof (elim disjE conjE exE)
    assume q: "r = 0" and j: "join s vs = (s, True) # vs"
    then have "free_search (ptr ?b) ?sl st = Some (free_insert (ptr ?b) ?sl st)"
      using rd by (subst free_search.simps) simp
    then show ?thesis using free_insert_refines [of st lo xs s vs] Nil j by (simp add: Let_def)
  next
    fix d u assume d: "r = ptr d" "load64 (heap_mem st) (ptr d) = ptr u" "?b + s \<le> d" "d + u \<le> ?b + s + extent vs" "16 \<le> u"
      and j: "if d = ?b + s then \<exists>ws. vs = (u, True) # ws else join s vs = (s, True) # vs"
    have n: "ptr d \<noteq> 0" "ptr (d + u) \<noteq> ptr ?b" "ptr d = ptr (?b + s) \<longleftrightarrow> d = ?b + s" "ptr ?b < ptr d"
      using d(3,4,5) t(2) Nil(2,3) by (simp_all add: ptr_eq_0 ptr_eq ptr_less)
    show ?thesis
    proof (cases "d = ?b + s")
      case True
      then obtain ws where vs: "vs = (u, True) # ws" using j by auto
      have "free_search (ptr ?b) ?sl st = Some (free_prepend (ptr ?b) (ptr (?b + s)) ?sl st)"
        using rd n d(1,2) t(1) True by (subst free_search.simps) (simp add: Let_def fle_size_def)
      then show ?thesis using free_prepend_refines [of st lo xs s u ws] Nil vs by (simp add: Let_def add.assoc)
    next
      case False
      then have "free_search (ptr ?b) ?sl st = Some (free_insert (ptr ?b) ?sl st)"
        using rd n d(1,2) t(1) by (subst free_search.simps) (simp add: Let_def fle_size_def)
      then show ?thesis using free_insert_refines [of st lo xs s vs] Nil j False by (simp add: Let_def)
    qed
  qed
next
  case (Cons t us)
  obtain n fr where t: "t = (n, fr)" by (cases t)
  let ?c = "lo + extent xs" and ?sl = "slot_at Freelist lo xs" and ?b = "lo + extent xs + n + extent us"
  have IH: "slot_at Freelist lo (xs @ [(n, fr)]) = sl \<Longrightarrow> \<not> (fr \<and> us = []) \<Longrightarrow>
      free_search (ptr ?b) ?sl st = free_search (ptr ?b) sl st \<Longrightarrow> ?case" for sl
    using Cons.IH [of "xs @ [(n, fr)]"] Cons.prems unfolding t by (auto simp: add.assoc)
  show ?case
  proof (cases fr)
    case False
    then show ?thesis by (intro IH [of ?sl]) (simp_all add: slot_at_append)
  next
    case True
    obtain r where r: "heap_list st lo xs r" "seg (heap_mem st) r ?c ((n, True) # us @ (s, False) # vs) 0"
      using Cons.prems(1) t True by (auto simp: heap_list_append)
    have rd: "read_slot st ?sl = ptr ?c" "fle_size st (ptr ?c) = ptr n" "16 \<le> n" "16 \<le> s"
      "fle_size st (ptr ?b) = ptr s"
      using heap_list_read [OF r(1)] r(2) by (auto simp: fle_size_def seg_append add.assoc)
    have b: "?b + s + extent vs < 18446744073709551584" using Cons.prems(3) t by (simp add: add.assoc)
    have c0: "ptr ?c \<noteq> 0" using Cons.prems(2) b by (simp add: ptr_eq_0)
    show ?thesis
    proof (cases "us = []")
      case nil: True
      then have "free_search (ptr ?b) ?sl st = Some (free_append (ptr ?b) (ptr ?c) st)"
        using rd c0 by (subst free_search.simps) (simp add: Let_def)
      then show ?thesis
        using free_append_refines [of st lo xs n s vs] Cons.prems(1) b t True nil by (simp add: Let_def add.assoc)
    next
      case more: False
      have "\<exists>q q'. seg (heap_mem st) q (?c + n) us q'" using r(2) by (auto simp: seg_append)
      then have u: "16 \<le> extent us" using more seg_total by blast
      have "ptr (?c + n) \<noteq> ptr ?b" "ptr ?c \<noteq> ptr (?b + s)" "\<not> ptr ?b < ptr ?c"
        using u b rd(3) by (simp_all add: ptr_eq ptr_less)
      then have "free_search (ptr ?b) ?sl st = free_search (ptr ?b) (NextOf (ptr ?c)) st"
        using rd c0 by (subst free_search.simps) (simp add: Let_def)
      then show ?thesis using more True by (intro IH [of "NextOf (ptr ?c)"]) (simp_all add: slot_at_append)
    qed
  qed
qed

end
