(* ===== verification/MallocClient.thy ===== *)
theory MallocClient
  imports HeapTiles
begin

text \<open>
  The size computation, the invariant of the whole heap, runs of a client as an inductive relation, and the
  properties of \<^verbatim>\<open>malloc\<close> and \<^verbatim>\<open>free\<close>.
\<close>

section \<open>Sizes\<close>

lemma uint_M_ALIGN_8: "0 \<le> uint (M_ALIGN w 8)" "uint (M_ALIGN w 8) < 8" "8 dvd uint w + uint (M_ALIGN w 8)"
proof -
  have "M_ALIGN w 8 = take_bit 3 (- w)" by (simp add: M_ALIGN_def take_bit_eq_mask mask_eq_decr_exp)
  then have "uint (M_ALIGN w 8) = uint (take_bit 3 (- w))" by (simp only:)
  also have "\<dots> = take_bit 3 (uint (- w))" by (rule unsigned_take_bit_eq)
  also have "\<dots> = uint (- w) mod 8" unfolding take_bit_eq_mod by simp
  also have "uint (- w) = (- uint w) mod 18446744073709551616" by (simp add: uint_word_ariths)
  also have "\<dots> mod 8 = (- uint w) mod 8" by (rule mod_mod_cancel) simp
  finally have e: "uint (M_ALIGN w 8) = (- uint w) mod 8" .
  show "0 \<le> uint (M_ALIGN w 8)" "uint (M_ALIGN w 8) < 8" unfolding e by simp_all
  show "8 dvd uint w + uint (M_ALIGN w 8)" unfolding e by presburger
qed

lemma uint_REAL_SIZE: "uint (REAL_SIZE sz) =
    (if uint sz < 8 then 16 else (uint sz + 8 + uint (M_ALIGN sz 8)) mod 18446744073709551616)"
  by (simp add: REAL_SIZE_def sizeof_freelist_entry_def sizeof_size_t_def word_less_def uint_word_ariths mod_simps)

lemma REAL_SIZE_exact:
  assumes "unat sz \<le> 18446744073709551600"
  shows "8 dvd unat (REAL_SIZE sz)" "16 \<le> unat (REAL_SIZE sz)" "unat sz + 8 \<le> unat (REAL_SIZE sz)"
    "unat (REAL_SIZE sz) \<le> max 16 (unat sz + 15)"
proof -
  note M = uint_M_ALIGN_8 [of sz]
  have s: "uint sz = int (unat sz)" by simp
  obtain k where k: "uint sz + uint (M_ALIGN sz 8) = 8 * k" using M(3) by (elim dvdE)
  have "8 * k + 8 < 18446744073709551616" "0 \<le> 8 * k + 8" using assms s M k by linarith+
  moreover have e: "uint sz + 8 + uint (M_ALIGN sz 8) = 8 * k + 8" using k by linarith
  ultimately have "uint (REAL_SIZE sz) = (if uint sz < 8 then 16 else 8 * k + 8)"
    unfolding uint_REAL_SIZE e by simp
  then have e: "int (unat (REAL_SIZE sz)) = (if uint sz < 8 then 16 else 8 * k + 8)" by (simp only: uint_nat)
  then have c: "uint sz < 8 \<and> int (unat (REAL_SIZE sz)) = 16 \<or> 8 \<le> uint sz \<and> int (unat (REAL_SIZE sz)) = 8 * k + 8"
    by (auto split: if_splits)
  show "16 \<le> unat (REAL_SIZE sz)" using c M k s by linarith
  show "unat sz + 8 \<le> unat (REAL_SIZE sz)" using c M k s by linarith
  show "unat (REAL_SIZE sz) \<le> max 16 (unat sz + 15)" using c M k s by linarith
  have "8 dvd int (unat (REAL_SIZE sz))" unfolding e by simp
  then show "8 dvd unat (REAL_SIZE sz)" by presburger
qed

lemma REAL_SIZE_wraps:
  assumes "18446744073709551600 < unat sz"
  shows "unat (REAL_SIZE sz) \<le> 8"
proof -
  note M = uint_M_ALIGN_8 [of sz]
  have s: "uint sz = int (unat sz)" "unat sz < 18446744073709551616" by (simp_all add: unat_less_2p64)
  obtain k where k: "uint sz + uint (M_ALIGN sz 8) = 8 * k" using M(3) by (elim dvdE)
  then have "k = 2305843009213693951 \<or> k = 2305843009213693952" using s assms M by linarith
  moreover have e: "uint sz + 8 + uint (M_ALIGN sz 8) = 8 * k + 8" using k by linarith
  moreover have "\<not> uint sz < 8" using s assms by linarith
  ultimately have "uint (REAL_SIZE sz) \<le> 8" unfolding uint_REAL_SIZE e by auto
  then show ?thesis unfolding uint_nat by linarith
qed

section \<open>The heap\<close>

text \<open>No two free blocks touch.\<close>

fun coalesced :: "tile list \<Rightarrow> bool" where
  "coalesced [] \<longleftrightarrow> True"
| "coalesced (t # ts) \<longleftrightarrow> (snd t \<and> ts \<noteq> [] \<longrightarrow> \<not> snd (hd ts)) \<and> coalesced ts"

text \<open>Address and size of the allocated blocks.\<close>

fun blocks :: "nat \<Rightarrow> tile list \<Rightarrow> (nat \<times> nat) set" where
  "blocks lo [] = {}"
| "blocks lo ((s, fr) # ts) = (if fr then {} else {(lo, s)}) \<union> blocks (lo + s) ts"

lemma blocks_append [simp]: "blocks lo (xs @ ys) = blocks lo xs \<union> blocks (lo + extent xs) ys"
  by (induction lo xs rule: blocks.induct) (auto simp: add.assoc)

lemma blocks_range: "(a, k) \<in> blocks lo ts \<Longrightarrow> lo \<le> a \<and> a + k \<le> lo + extent ts"
  by (induction lo ts rule: blocks.induct) (auto split: if_splits)

lemma blocks_split: "(a, k) \<in> blocks lo ts \<Longrightarrow> \<exists>us vs. ts = us @ (k, False) # vs \<and> a = lo + extent us"
proof (induction lo ts rule: blocks.induct)
  case (2 lo s fr ts)
  show ?case
  proof (cases "(a, k) \<in> blocks (lo + s) ts")
    case True
    then obtain us vs where "ts = us @ (k, False) # vs" "a = lo + s + extent us" using 2 by blast
    then show ?thesis by (intro exI [of _ "(s, fr) # us"] exI [of _ vs]) simp
  next
    case False
    then have "\<not> fr" "a = lo" "k = s" using 2(2) by (auto split: if_splits)
    then show ?thesis by (intro exI [of _ "[]"] exI [of _ ts]) simp
  qed
qed simp

lemma first_fit_blocks:
  "\<exists>s. n \<le> s \<and> blocks lo (snd (first_fit n ts)) = insert (lo + fst (first_fit n ts), s) (blocks lo ts) \<and>
    lo + fst (first_fit n ts) + s \<le> lo + extent (snd (first_fit n ts)) \<and>
    (\<forall>(a, k)\<in>blocks lo ts. a + k \<le> lo + fst (first_fit n ts) \<or> lo + fst (first_fit n ts) + s \<le> a)"
proof (induction n ts arbitrary: lo rule: first_fit.induct)
  case (2 n s fr ts)
  show ?case
  proof (cases "fr \<and> n \<le> s")
    case True
    have "\<forall>(a, k)\<in>blocks (lo + s) ts. lo + s \<le> a" using blocks_range [of _ _ "lo + s" ts] by blast
    then show ?thesis using True
      by (intro exI [of _ "if s < n + 16 then s else n"]) auto
  next
    case no: False
    show ?thesis
    proof (cases "fr \<and> ts = []")
      case False
      obtain k where "n \<le> k" "blocks (lo + s) (snd (first_fit n ts)) = insert (lo + s + fst (first_fit n ts), k) (blocks (lo + s) ts)"
        "lo + s + fst (first_fit n ts) + k \<le> lo + s + extent (snd (first_fit n ts))"
        "\<forall>(a, l)\<in>blocks (lo + s) ts. a + l \<le> lo + s + fst (first_fit n ts) \<or> lo + s + fst (first_fit n ts) + k \<le> a"
        using 2 [OF no False, of "lo + s"] by blast
      then show ?thesis using no False by (intro exI [of _ k]) (auto simp: add.assoc)
    qed (use no in auto)
  qed
qed simp

lemma first_fit_hd: "ts \<noteq> [] \<Longrightarrow> \<not> snd (hd ts) \<Longrightarrow> \<not> snd (hd (snd (first_fit n ts)))"
  by (cases ts) auto

lemma coalesced_first_fit: "coalesced ts \<Longrightarrow> coalesced (snd (first_fit n ts))"
  by (induction n ts rule: first_fit.induct) (auto simp: first_fit_hd)

lemma coalesced_join: "coalesced vs \<Longrightarrow> coalesced (join s vs) \<and> snd (hd (join s vs)) \<and> join s vs \<noteq> []"
  by (induction s vs rule: join.induct) auto

lemma join_hd: "join s vs \<noteq> [] \<and> snd (hd (join s vs))"
  by (induction s vs rule: join.induct) simp_all

lemma release_hd: "us \<noteq> [] \<Longrightarrow> release us s vs \<noteq> [] \<and> snd (hd (release us s vs)) = snd (hd us)"
  by (cases us) (auto simp: join_hd split: if_splits)

lemma coalesced_release: "coalesced (us @ (s, False) # vs) \<Longrightarrow> coalesced (release us s vs)"
proof (induction us s vs rule: release.induct)
  case (2 t fr us s vs)
  then show ?case
    using coalesced_join [of vs "t + s"] release_hd [of us s vs] by (cases "us = []") auto
qed (simp add: coalesced_join)

lemma blocks_join [simp]: "blocks lo (join s vs) = blocks (lo + s) vs"
  by (induction s vs rule: join.induct) (simp_all add: add.assoc)

lemma blocks_release: "blocks lo (release us s vs) = blocks lo us \<union> blocks (lo + extent us + s) vs"
  by (induction us s vs arbitrary: lo rule: release.induct) (auto simp: add.assoc)

definition heap_tiles :: "'os malloc_env \<Rightarrow> 'os malloc_state \<Rightarrow> tile list \<Rightarrow> bool" where
  "heap_tiles env st ts \<longleftrightarrow> (let lo = unat (malloc_start env) in
     0 < lo \<and> heap_list st lo ts 0 \<and> lo + extent ts < 18446744073709551584 \<and> coalesced ts \<and>
     (malloc_end st = ptr (lo + extent ts) \<or> ts = [] \<and> malloc_end st = 0))"

lemma heap_tiles_malloc:
  assumes h: "heap_tiles env st ts" and sz: "unat sz \<le> 18446744073709551600"
    and b: "unat (malloc_start env) + extent ts + 32 \<le> unat (frame_address env)"
  shows "let lo = unat (malloc_start env); us = snd (first_fit (unat (REAL_SIZE sz)) ts) in
    if extent us \<noteq> extent ts \<and> lo + extent us + 32 > unat (frame_address env)
    then \<exists>st'. malloc env sz st = Some (0, st') \<and> heap_tiles env st' ts \<and> heap_mem st' = heap_mem st
    else \<exists>st'. malloc env sz st = Some (ptr (lo + fst (first_fit (unat (REAL_SIZE sz)) ts) + 8), st') \<and>
      heap_tiles env st' us \<and> kept st st' (payload lo ts)"
proof -
  let ?lo = "unat (malloc_start env)" and ?n = "unat (REAL_SIZE sz)"
  let ?st = "if malloc_end st = 0 then st\<lparr>malloc_end := malloc_start env\<rparr> else st"
  have f: "unat (frame_address env) < 18446744073709551616" by (rule unat_less_2p64)
  have lo: "0 < ?lo" and hl: "heap_list st ?lo ts 0" and co: "coalesced ts" and r: "?lo + extent ts < 18446744073709551584"
    using h by (auto simp: heap_tiles_def Let_def)
  have "ptr (?lo + extent ts) \<noteq> 0" using lo r by (simp add: ptr_eq_0)
  then have e: "malloc_end ?st = ptr (?lo + extent ts)"
    using h by (auto simp: heap_tiles_def Let_def)
  have st: "heap_list ?st ?lo ts 0" "heap_mem ?st = heap_mem st" using hl by (simp_all add: heap_list_def)
  have m: "malloc env sz st = malloc_search env (ptr ?n) Freelist ?st"
    by (simp add: malloc_def Let_def)
  have top: "?lo + extent (snd (first_fit ?n ts)) < 18446744073709551584"
    if "\<not> (extent (snd (first_fit ?n ts)) \<noteq> extent ts \<and> ?lo + extent (snd (first_fit ?n ts)) + 32 > unat (frame_address env))"
    using that f r b by linarith
  show ?thesis
    using malloc_search_refines [of ?st ?lo "[]" ts env ?n] st(1) e lo b REAL_SIZE_exact [OF sz] unat_less_2p64 [of "REAL_SIZE sz"]
      top coalesced_first_fit [OF co, of ?n] co r st(2)
    unfolding m heap_tiles_def Let_def kept_def by auto
qed

lemma heap_tiles_free:
  assumes h: "heap_tiles env st (us @ (s, False) # vs)"
  shows "\<exists>st'. free (ptr (unat (malloc_start env) + extent us + 8)) st = Some st' \<and> heap_tiles env st' (release us s vs) \<and>
    kept st st' (payload (unat (malloc_start env)) us \<union> payload (unat (malloc_start env) + extent us + s) vs)"
proof -
  let ?lo = "unat (malloc_start env)"
  have lo: "0 < ?lo" "heap_list st ?lo (us @ (s, False) # vs) 0" "?lo + extent us + s + extent vs < 18446744073709551584"
    "malloc_end st = ptr (?lo + extent us + s + extent vs)" "coalesced (us @ (s, False) # vs)"
    using h by (auto simp: heap_tiles_def Let_def add.assoc)
  have "ptr (?lo + extent us + 8) \<noteq> 0" using lo(3) by (simp add: ptr_eq_0)
  then have "free (ptr (?lo + extent us + 8)) st = free_search (ptr (?lo + extent us)) Freelist st"
    by (simp add: free_def Let_def)
  then show ?thesis
    using free_search_refines [of st ?lo "[]" us s vs] lo coalesced_release [OF lo(5)]
    by (auto simp: heap_tiles_def Let_def add.assoc)
qed

section \<open>Clients\<close>

text \<open>
  A run of a client that allocates, frees what it got and writes into it.  The second argument holds the
  live pointers with the sizes asked for; every call may have its own frame, at least
  \<^verbatim>\<open>MALLOC_MINIMUM_GAP\<close> above the heap.
\<close>

inductive client :: "'os malloc_env \<Rightarrow> 'os malloc_state \<Rightarrow> (u64 \<times> nat) set \<Rightarrow> bool" for env where
  client_start: "malloc_freelist st = 0 \<Longrightarrow> malloc_end st = 0 \<Longrightarrow> client env st {}"
| client_malloc: "client env st B \<Longrightarrow> unat sz \<le> 18446744073709551600 \<Longrightarrow>
    unat (malloc_start env) + 32 \<le> unat f \<Longrightarrow> unat (malloc_end st) + 32 \<le> unat f \<Longrightarrow>
    malloc (env\<lparr>frame_address := f\<rparr>) sz st = Some (p, st') \<Longrightarrow>
    client env st' (if p = 0 then B else insert (p, unat sz) B)"
| client_free: "client env st B \<Longrightarrow> (p, n) \<in> B \<Longrightarrow> free p st = Some st' \<Longrightarrow> client env st' (B - {(p, n)})"
| client_write: "client env st B \<Longrightarrow> (p, n) \<in> B \<Longrightarrow> k < n \<Longrightarrow>
    client env (st\<lparr>heap_mem := (heap_mem st)(p + of_nat k := v)\<rparr>) B"

text \<open>The live pointers are those behind the headers of the allocated blocks, which are large enough.\<close>

definition live :: "nat \<Rightarrow> tile list \<Rightarrow> (u64 \<times> nat) set \<Rightarrow> bool" where
  "live lo ts B \<longleftrightarrow> (\<exists>req. B = (\<lambda>(a, k). (ptr (a + 8), req a)) ` blocks lo ts \<and> (\<forall>(a, k)\<in>blocks lo ts. req a + 8 \<le> k))"

lemma load64_update: "x < a \<or> a + 8 \<le> x \<Longrightarrow> x < 18446744073709551616 \<Longrightarrow> a + 8 \<le> 18446744073709551616 \<Longrightarrow>
    load64 (m(ptr x := v)) (ptr a) = load64 m (ptr a)"
  unfolding load64_def
  by (rule arg_cong [of _ _ le_word], rule load_bytes_cong) (auto simp: ptr_def [symmetric] ptr_eq simp flip: of_nat_add)

lemma seg_update:
  assumes "seg m p lo ts q" "x \<in> payload lo ts" "lo + extent ts \<le> 18446744073709551616"
  shows "seg (m(ptr x := v)) p lo ts q"
  using assms
proof (induction m p lo ts q rule: seg.induct)
  case (2 m p lo s fr ts q)
  note range = payload_range [of x "lo + s" ts]
  have x: "lo + 8 \<le> x" "fr \<Longrightarrow> lo + 16 \<le> x" "x < 18446744073709551616"
    using 2(3,4,5) range by (auto split: if_splits)
  have s: "16 \<le> s" using 2(3) by simp
  have h: "load64 (m(ptr x := v)) (ptr lo) = load64 m (ptr lo)" "fr \<Longrightarrow> load64 (m(ptr x := v)) (ptr (lo + 8)) = load64 m (ptr (lo + 8))"
    by (rule load64_update; use x 2(5) s in simp)+
  have tail: "seg (m(ptr x := v)) r (lo + s) ts q" if "seg m r (lo + s) ts q"
    "x \<in> payload (lo + s) ts \<Longrightarrow> seg (m(ptr x := v)) r (lo + s) ts q" for r
  proof (cases "x \<in> payload (lo + s) ts")
    case False
    then have "x < lo + s" using 2(4) by (auto split: if_splits)
    then show ?thesis using 2(5) that(1) x by (intro seg_frame [OF _ that(1)] load64_update) auto
  qed (rule that(2))
  show ?case
  proof (cases fr)
    case True
    then show ?thesis using 2(1) [OF True] 2(3,5) h s tail [of "load64 m (ptr (lo + 8))"] by (simp add: add.assoc del: fun_upd_apply)
  next
    case False
    then show ?thesis using 2(2) [OF False] 2(3,5) h s tail [of p] by (simp add: add.assoc del: fun_upd_apply)
  qed
qed simp

lemma heap_tiles_update: "heap_tiles env st ts \<Longrightarrow> x \<in> payload (unat (malloc_start env)) ts \<Longrightarrow>
    heap_tiles env (st\<lparr>heap_mem := (heap_mem st)(ptr x := v)\<rparr>) ts"
  using seg_update [of "heap_mem st" "malloc_freelist st" "unat (malloc_start env)" ts 0 x v]
  by (auto simp: heap_tiles_def Let_def heap_list_def)

lemma payload_block: "(a, k) \<in> blocks lo ts \<Longrightarrow> a + 8 \<le> x \<Longrightarrow> x < a + k \<Longrightarrow> x \<in> payload lo ts"
  by (induction lo ts rule: blocks.induct) (auto split: if_splits)

lemma blocks_big: "seg m p lo ts q \<Longrightarrow> (a, k) \<in> blocks lo ts \<Longrightarrow> 16 \<le> k \<and> 8 dvd a - lo"
proof (induction m p lo ts q rule: seg.induct)
  case (2 m p lo s fr ts q)
  show ?case
  proof (cases "(a, k) \<in> blocks (lo + s) ts")
    case True
    then have "16 \<le> k \<and> 8 dvd a - (lo + s)" using 2 by (cases fr) auto
    moreover have "a - lo = (a - (lo + s)) + s" using blocks_range [OF True] by simp
    ultimately show ?thesis using 2(3) by simp
  qed (use 2(3,4) in \<open>auto split: if_splits\<close>)
qed simp

lemma blocks_apart: "(a, k) \<in> blocks lo ts \<Longrightarrow> (b, n) \<in> blocks lo ts \<Longrightarrow> (a, k) = (b, n) \<or> a + k \<le> b \<or> b + n \<le> a"
proof (induction lo ts rule: blocks.induct)
  case (2 lo s fr ts)
  then show ?case using blocks_range [of a k "lo + s" ts] blocks_range [of b n "lo + s" ts] by (auto split: if_splits)
qed simp

lemma heap_tiles_frame: "heap_tiles (env\<lparr>frame_address := f\<rparr>) st ts \<longleftrightarrow> heap_tiles env st ts"
  by (simp add: heap_tiles_def)

lemma env_frame: "malloc_start (env\<lparr>frame_address := f\<rparr>) = malloc_start env" "frame_address (env\<lparr>frame_address := f\<rparr>) = f"
  by simp_all

lemma client_malloc_step:
  assumes h: "heap_tiles env st ts" "live (unat (malloc_start env)) ts B" and sz: "unat sz \<le> 18446744073709551600"
    and f: "unat (malloc_start env) + 32 \<le> unat f" "unat (malloc_end st) + 32 \<le> unat f"
  shows "\<exists>p st' us. malloc (env\<lparr>frame_address := f\<rparr>) sz st = Some (p, st') \<and> heap_tiles env st' us \<and>
    live (unat (malloc_start env)) us (if p = 0 then B else insert (p, unat sz) B)"
proof -
  let ?lo = "unat (malloc_start env)" and ?n = "unat (REAL_SIZE sz)" and ?env = "env\<lparr>frame_address := f\<rparr>"
  let ?ff = "first_fit ?n ts"
  have lo: "?lo + extent ts < 18446744073709551584" "malloc_end st = ptr (?lo + extent ts) \<or> ts = []"
    using h(1) by (auto simp: heap_tiles_def Let_def)
  then have "?lo + extent ts + 32 \<le> unat f" using f by (auto simp: unat_ptr)
  then have m: "if extent (snd ?ff) \<noteq> extent ts \<and> ?lo + extent (snd ?ff) + 32 > unat f
    then \<exists>st'. malloc ?env sz st = Some (0, st') \<and> heap_tiles env st' ts \<and> heap_mem st' = heap_mem st
    else \<exists>st'. malloc ?env sz st = Some (ptr (?lo + fst ?ff + 8), st') \<and> heap_tiles env st' (snd ?ff) \<and> kept st st' (payload ?lo ts)"
    using heap_tiles_malloc [of ?env st ts sz, unfolded heap_tiles_frame Let_def env_frame] h(1) sz by blast
  show ?thesis
  proof (cases "extent (snd ?ff) \<noteq> extent ts \<and> ?lo + extent (snd ?ff) + 32 > unat f")
    case True
    then show ?thesis using m h(2) by auto
  next
    case False
    then obtain st' where st': "malloc ?env sz st = Some (ptr (?lo + fst ?ff + 8), st')" "heap_tiles env st' (snd ?ff)"
      using m by (auto split: if_splits)
    obtain s where s: "?n \<le> s" "blocks ?lo (snd ?ff) = insert (?lo + fst ?ff, s) (blocks ?lo ts)"
      "?lo + fst ?ff + s \<le> ?lo + extent (snd ?ff)"
      "\<forall>(a, k)\<in>blocks ?lo ts. a + k \<le> ?lo + fst ?ff \<or> ?lo + fst ?ff + s \<le> a"
      using first_fit_blocks [of ?n ?lo ts] by blast
    have n: "16 \<le> ?n" "unat sz + 8 \<le> ?n" using REAL_SIZE_exact [OF sz] by simp_all
    have top: "?lo + extent (snd ?ff) < 18446744073709551584" using st'(2) by (simp add: heap_tiles_def Let_def)
    have nz: "ptr (?lo + fst ?ff + 8) \<noteq> 0" using top s n by (simp add: ptr_eq_0)
    obtain req where req: "B = (\<lambda>(a, k). (ptr (a + 8), req a)) ` blocks ?lo ts" "\<forall>(a, k)\<in>blocks ?lo ts. req a + 8 \<le> k"
      using h(2) by (auto simp: live_def)
    have fresh: "a \<noteq> ?lo + fst ?ff" if "(a, k) \<in> blocks ?lo ts" for a k
      using s(1,4) n that req(2) by fastforce
    let ?req = "req(?lo + fst ?ff := unat sz)"
    have "(\<lambda>(a, k). (ptr (a + 8), ?req a)) ` blocks ?lo ts = B"
      unfolding req(1) by (rule image_cong) (use fresh in auto)
    then have "insert (ptr (?lo + fst ?ff + 8), unat sz) B = (\<lambda>(a, k). (ptr (a + 8), ?req a)) ` blocks ?lo (snd ?ff)"
      unfolding s(2) by simp
    moreover have "\<forall>(a, k)\<in>blocks ?lo (snd ?ff). ?req a + 8 \<le> k" unfolding s(2) using req(2) s(1) n fresh by fastforce
    ultimately have "live ?lo (snd ?ff) (insert (ptr (?lo + fst ?ff + 8), unat sz) B)"
      unfolding live_def by blast
    then show ?thesis using st' nz by auto
  qed
qed

lemma live_elem:
  assumes "heap_tiles env st ts" "live (unat (malloc_start env)) ts B" "(p, n) \<in> B"
  shows "\<exists>a k. (a, k) \<in> blocks (unat (malloc_start env)) ts \<and> p = ptr (a + 8) \<and> n + 8 \<le> k \<and> 16 \<le> k \<and>
    unat p = a + 8 \<and> 8 dvd a - unat (malloc_start env) \<and> unat (malloc_start env) \<le> a \<and>
    a + k \<le> unat (malloc_end st) \<and> a + k < 18446744073709551584"
proof -
  let ?lo = "unat (malloc_start env)"
  obtain req a k where a: "(a, k) \<in> blocks ?lo ts" "p = ptr (a + 8)" "n = req a" "req a + 8 \<le> k"
    using assms(2,3) by (auto simp: live_def)
  have t: "seg (heap_mem st) (malloc_freelist st) ?lo ts 0" "?lo + extent ts < 18446744073709551584"
    "malloc_end st = ptr (?lo + extent ts) \<or> ts = []"
    using assms(1) by (auto simp: heap_tiles_def heap_list_def Let_def)
  have "16 \<le> k \<and> 8 dvd a - ?lo" by (rule blocks_big [OF t(1) a(1)])
  moreover have "unat (malloc_end st) = ?lo + extent ts" using t(2,3) a(1) by (auto simp: unat_ptr)
  ultimately show ?thesis
    using a t(2) blocks_range [OF a(1)] by (intro exI [of _ a] exI [of _ k]) (simp add: unat_ptr)
qed

lemma client_free_step:
  assumes h: "heap_tiles env st ts" "live (unat (malloc_start env)) ts B" and p: "(p, n) \<in> B"
  shows "\<exists>st' us. free p st = Some st' \<and> heap_tiles env st' us \<and> live (unat (malloc_start env)) us (B - {(p, n)})"
proof -
  let ?lo = "unat (malloc_start env)"
  obtain req where req: "B = (\<lambda>(a, k). (ptr (a + 8), req a)) ` blocks ?lo ts" "\<forall>(a, k)\<in>blocks ?lo ts. req a + 8 \<le> k"
    using h(2) by (auto simp: live_def)
  obtain a k where a: "(a, k) \<in> blocks ?lo ts" "p = ptr (a + 8)" "n = req a" using p req(1) by auto
  obtain us vs where ts: "ts = us @ (k, False) # vs" "a = ?lo + extent us" using blocks_split [OF a(1)] by blast
  obtain st' where st': "free p st = Some st'" "heap_tiles env st' (release us k vs)"
    using heap_tiles_free [of env st us k vs] h(1) a(2) unfolding ts by auto
  have big: "16 \<le> l \<and> b + l < 18446744073709551584" if "(b, l) \<in> blocks ?lo ts" for b l
    using that h(1) blocks_big [of _ _ ?lo ts 0 b l] blocks_range [OF that] by (auto simp: heap_tiles_def heap_list_def Let_def)
  have same: "(b, l) = (a, k)" if b: "(b, l) \<in> blocks ?lo ts" "ptr (b + 8) = ptr (a + 8)" for b l
    using b(2) big [OF b(1)] big [OF a(1)] blocks_apart [OF b(1) a(1)] by (auto simp: ptr_eq)
  have "blocks ?lo (release us k vs) = blocks ?lo ts - {(a, k)}"
  proof -
    have "(a, k) \<notin> blocks ?lo us \<union> blocks (a + k) vs"
      using blocks_range [of a k ?lo us] blocks_range [of a k "a + k" vs] big [OF a(1)] ts(2) by auto
    then show ?thesis unfolding blocks_release ts by (auto simp: ts(2))
  qed
  moreover have "B - {(p, n)} = (\<lambda>(a, k). (ptr (a + 8), req a)) ` (blocks ?lo ts - {(a, k)})"
    unfolding req(1) a(2,3) using same by (auto simp: image_iff)
  ultimately have "live ?lo (release us k vs) (B - {(p, n)})"
    using req(2) unfolding live_def by (intro exI [of _ req]) auto
  then show ?thesis using st' by blast
qed

lemma client_tiles:
  assumes "client env st B" "malloc_start env \<noteq> 0" "unat (malloc_start env) < 18446744073709551584"
  shows "\<exists>ts. heap_tiles env st ts \<and> live (unat (malloc_start env)) ts B"
  using assms
proof (induction rule: client.induct)
  case (client_start st)
  then show ?case
    by (intro exI [of _ "[]"]) (auto simp: heap_tiles_def heap_list_def live_def Let_def unat_gt_0)
next
  case (client_malloc st B sz f p st')
  then obtain ts where "heap_tiles env st ts" "live (unat (malloc_start env)) ts B" by blast
  from client_malloc_step [OF this client_malloc(2,3,4)] show ?case using client_malloc(5) by auto
next
  case (client_free st B p n st')
  then obtain ts where "heap_tiles env st ts" "live (unat (malloc_start env)) ts B" by blast
  from client_free_step [OF this client_free(2)] show ?case using client_free(3) by auto
next
  case (client_write st B p n k v)
  then obtain ts where ts: "heap_tiles env st ts" "live (unat (malloc_start env)) ts B" by blast
  then obtain a l where a: "(a, l) \<in> blocks (unat (malloc_start env)) ts" "p = ptr (a + 8)" "n + 8 \<le> l"
    using live_elem [OF ts client_write(2)] by blast
  then have "a + 8 + k \<in> payload (unat (malloc_start env)) ts"
    using client_write(3) by (intro payload_block [OF a(1)]) simp_all
  moreover have "p + of_nat k = ptr (a + 8 + k)" by (simp add: a(2) ptr_def)
  ultimately show ?case using heap_tiles_update [OF ts(1), of "a + 8 + k" v] ts(2) by auto
qed

section \<open>Properties\<close>

text \<open>
  (C20) \<^verbatim>\<open>malloc\<close> refines first fit on the tiles of the heap: it takes the first free block that is large
  enough, splitting it when the rest can hold a header, else enlarges the last block or appends one, and
  returns \<^verbatim>\<open>NULL\<close> with the heap unchanged exactly when the new end would come closer than 32 bytes to
  the frame.  The bytes of every allocated block are kept.
\<close>

theorem malloc_refines_first_fit:
  assumes "heap_tiles env st ts" "unat sz \<le> 18446744073709551600"
    and "unat (malloc_start env) + extent ts + 32 \<le> unat (frame_address env)"
  shows "let lo = unat (malloc_start env); (off, us) = first_fit (unat (REAL_SIZE sz)) ts in
    if extent us \<noteq> extent ts \<and> lo + extent us + 32 > unat (frame_address env)
    then \<exists>st'. malloc env sz st = Some (0, st') \<and> heap_tiles env st' ts \<and> heap_mem st' = heap_mem st
    else \<exists>st'. malloc env sz st = Some (ptr (lo + off + 8), st') \<and> heap_tiles env st' us \<and> kept st st' (payload lo ts)"
  using heap_tiles_malloc [OF assms] by (simp add: Let_def split_beta)

definition sample_env :: "u64 malloc_env" where
  "sample_env = \<lparr>malloc_start = 4096, frame_address = 65536, s_brk = \<lambda>n brk. (brk + n, brk + n)\<rparr>"

definition sample_state :: "u64 malloc_state" where
  "sample_state = \<lparr>malloc_freelist = 0, malloc_end = 0, heap_mem = \<lambda>_. 0, os = 4096\<rparr>"

lemma sample_tiles: "heap_tiles sample_env sample_state []"
  by (simp add: heap_tiles_def heap_list_def sample_env_def sample_state_def)

lemma sample_ptr: "ptr 4104 = 4104"
  by (simp add: ptr_def)

lemma sample_REAL_SIZE: "REAL_SIZE 24 = 32"
  by code_simp

theorem malloc_refines_first_fit_witness:
  "\<exists>st'. malloc sample_env 24 sample_state = Some (4104, st') \<and> heap_tiles sample_env st' [(32, False)]"
  using malloc_refines_first_fit [OF sample_tiles, of 24]
  by (auto simp: sample_REAL_SIZE Let_def) (auto simp: sample_env_def sample_ptr)

text \<open>
  (C23) \<^verbatim>\<open>free\<close> returns the block to the free list, merged with the free blocks on both sides, so that no
  two free blocks touch; the bytes of all other allocated blocks are kept.
\<close>

theorem free_coalesces:
  assumes "heap_tiles env st (us @ (s, False) # vs)"
  shows "\<exists>st'. free (ptr (unat (malloc_start env) + extent us + 8)) st = Some st' \<and> heap_tiles env st' (release us s vs) \<and>
    kept st st' (payload (unat (malloc_start env)) us \<union> payload (unat (malloc_start env) + extent us + s) vs)"
  using assms by (rule heap_tiles_free)

lemma sample_allocated: "\<exists>st. heap_tiles sample_env st [(32, False)]"
  using heap_tiles_malloc [OF sample_tiles, of 24]
  by (auto simp: sample_REAL_SIZE Let_def) (auto simp: sample_env_def split: if_splits)

theorem free_coalesces_witness: "\<exists>st st'. free 4104 st = Some st' \<and> heap_tiles sample_env st' [(32, True)]"
proof -
  obtain st where "heap_tiles sample_env st ([] @ (32, False) # [])" using sample_allocated by auto
  from free_coalesces [OF this] show ?thesis by (auto simp: sample_env_def ptr_def)
qed

text \<open>
  (C21) Whatever a client allocates, frees and writes, its live blocks are disjoint, lie between
  \<^verbatim>\<open>__malloc_start\<close> and \<^verbatim>\<open>__malloc_end\<close> behind their headers, and are aligned to 8 bytes as
  \<^verbatim>\<open>__malloc_start\<close> is.
\<close>

theorem malloc_blocks_disjoint:
  assumes "client env st B" "malloc_start env \<noteq> 0" "unat (malloc_start env) < 18446744073709551584"
  shows "(\<forall>(p, n)\<in>B. unat (malloc_start env) + 8 \<le> unat p \<and> unat p + n \<le> unat (malloc_end st) \<and>
      8 dvd unat p - unat (malloc_start env)) \<and>
    (\<forall>(p, n)\<in>B. \<forall>(q, k)\<in>B. (p, n) = (q, k) \<or> unat p + n + 8 \<le> unat q \<or> unat q + k + 8 \<le> unat p)"
proof -
  let ?lo = "unat (malloc_start env)"
  obtain ts where ts: "heap_tiles env st ts" "live ?lo ts B" using client_tiles [OF assms] by blast
  obtain req where req: "B = (\<lambda>(a, k). (ptr (a + 8), req a)) ` blocks ?lo ts" "\<forall>(a, k)\<in>blocks ?lo ts. req a + 8 \<le> k"
    using ts(2) by (auto simp: live_def)
  note elem = live_elem [OF ts]
  have "unat p + n + 8 \<le> unat q \<or> unat q + k + 8 \<le> unat p"
    if pq: "(p, n) \<in> B" "(q, k) \<in> B" "(p, n) \<noteq> (q, k)" for p n q k
  proof -
    obtain a l b m where x: "(a, l) \<in> blocks ?lo ts" "p = ptr (a + 8)" "n = req a" "(b, m) \<in> blocks ?lo ts" "q = ptr (b + 8)" "k = req b"
      using pq(1,2) req(1) by auto
    have u: "unat (ptr (c + 8)) = c + 8" if c: "(c, j) \<in> blocks ?lo ts" for c j
    proof (rule unat_ptr)
      have "16 \<le> j" "c + j < 18446744073709551584"
        using blocks_range [OF c] ts(1) blocks_big [OF _ c] by (auto simp: heap_tiles_def heap_list_def Let_def)
      then show "c + 8 < 18446744073709551616" by simp
    qed
    have "(a, l) \<noteq> (b, m)" using pq(3) x by auto
    then have "a + l \<le> b \<or> b + m \<le> a" using blocks_apart [OF x(1,4)] by blast
    then show ?thesis using req(2) x u [OF x(1)] u [OF x(4)] by fastforce
  qed
  moreover have "?lo + 8 \<le> unat p \<and> unat p + n \<le> unat (malloc_end st) \<and> 8 dvd unat p - ?lo" if pn: "(p, n) \<in> B" for p n
  proof -
    obtain a l where a: "unat p = a + 8" "n + 8 \<le> l" "8 dvd a - ?lo" "?lo \<le> a" "a + l \<le> unat (malloc_end st)"
      using elem [OF pn] by blast
    then have "unat p - ?lo = (a - ?lo) + 8" by simp
    moreover have "8 dvd (a - ?lo) + 8" using a(3) by simp
    ultimately have "8 dvd unat p - ?lo" by (simp only:)
    then show ?thesis using a by simp
  qed
  ultimately show ?thesis by blast
qed

text \<open>
  (C22) \<^verbatim>\<open>malloc\<close> and \<^verbatim>\<open>free\<close> always return: in every state a client reaches, for every size up to
  \<open>2\<^sup>6\<^sup>4 - 16\<close> and every live pointer, the search through the free list ends.
\<close>

theorem malloc_free_terminate:
  assumes "client env st B" "malloc_start env \<noteq> 0" "unat (malloc_start env) < 18446744073709551584"
    and "unat (malloc_start env) + 32 \<le> unat f" "unat (malloc_end st) + 32 \<le> unat f"
  shows "(unat sz \<le> 18446744073709551600 \<longrightarrow> malloc (env\<lparr>frame_address := f\<rparr>) sz st \<noteq> None) \<and>
    (\<forall>(p, n)\<in>B. free p st \<noteq> None)"
proof -
  obtain ts where ts: "heap_tiles env st ts" "live (unat (malloc_start env)) ts B" using client_tiles [OF assms(1,2,3)] by blast
  then show ?thesis using client_malloc_step [OF ts _ assms(4,5)] client_free_step [OF ts] by fastforce
qed

lemma sample_client: "\<exists>st. client sample_env st {(4104, 24)}"
proof -
  have "client sample_env sample_state {}" by (rule client_start) (simp_all add: sample_state_def)
  moreover obtain st' where "malloc sample_env 24 sample_state = Some (4104, st')"
    using heap_tiles_malloc [OF sample_tiles, of 24]
    by (auto simp: sample_REAL_SIZE Let_def) (auto simp: sample_env_def sample_ptr split: if_splits)
  moreover have "sample_env\<lparr>frame_address := 65536\<rparr> = sample_env" by (simp add: sample_env_def)
  ultimately have "client sample_env st' (if 4104 = (0 :: u64) then {} else insert (4104, unat (24 :: u64)) {})"
    by (intro client_malloc [of _ sample_state "{}" 24 65536]) (simp_all add: sample_env_def sample_state_def)
  then show ?thesis by auto
qed

theorem malloc_blocks_disjoint_witness: "\<exists>st. client sample_env st {(4104, 24)} \<and> 4128 \<le> unat (malloc_end st)"
proof -
  obtain st where st: "client sample_env st {(4104, 24)}" using sample_client by blast
  then show ?thesis using malloc_blocks_disjoint [OF st] by (auto simp: sample_env_def)
qed

theorem malloc_free_terminate_witness: "malloc (sample_env\<lparr>frame_address := 65536\<rparr>) 100 sample_state \<noteq> None"
proof -
  have "client sample_env sample_state {}" by (rule client_start) (simp_all add: sample_state_def)
  from malloc_free_terminate [OF this, of 65536 100] show ?thesis by (simp add: sample_env_def sample_state_def)
qed

text \<open>
  (C34) \<^verbatim>\<open>REAL_SIZE\<close> is a multiple of 8 that has room for the header, the request and a free-list entry,
  for every request up to \<open>2\<^sup>6\<^sup>4 - 16\<close>; for the 15 larger ones it wraps around to at most 8 bytes, so that
  \<^verbatim>\<open>malloc\<close> succeeds with a block smaller than a header.
\<close>

theorem REAL_SIZE_bounds:
  "if unat sz \<le> 18446744073709551600
   then 8 dvd unat (REAL_SIZE sz) \<and> 16 \<le> unat (REAL_SIZE sz) \<and> unat sz + 8 \<le> unat (REAL_SIZE sz) \<and>
     unat (REAL_SIZE sz) \<le> max 16 (unat sz + 15)
   else unat (REAL_SIZE sz) \<le> 8"
  using REAL_SIZE_exact [of sz] REAL_SIZE_wraps [of sz] by auto

end
