(* ===== verification/PageTable.thy ===== *)
theory PageTable
  imports Addresses
begin

text \<open>
  \<^verbatim>\<open>lib/host/include/page.h\<close> and the page allocation of \<^verbatim>\<open>lib/host/src/keystone.cpp\<close>: the host builds the
  enclave's three-level page table.  The memory is that of \<^verbatim>\<open>SimulatedEnclaveMemory\<close>, where the address of
  a page is the pointer to it (the physical one maps the same pages through the driver); the data a page
  is loaded with is a list of bytes.  The theorems show that \<^verbatim>\<open>allocPage\<close> acts on the translation
  \<^verbatim>\<open>epm_va_to_pa\<close> as an update of one page.
\<close>

section \<open>Code\<close>

definition PAGE_BITS :: nat where "PAGE_BITS = 12"
definition PAGE_SIZE :: u64 where "PAGE_SIZE = push_bit PAGE_BITS 1"

definition ROUND_UP :: "u64 \<Rightarrow> nat \<Rightarrow> u64" where
  "ROUND_UP n b = push_bit b (drop_bit b (n - 1) + 1)"

definition ROUND_DOWN :: "u64 \<Rightarrow> nat \<Rightarrow> u64" where
  "ROUND_DOWN n b = n AND NOT (push_bit (b - 1) 2 - 1)"

definition RISCV_PGSHIFT :: nat where "RISCV_PGSHIFT = 12"
definition RISCV_PGSIZE :: nat where "RISCV_PGSIZE = 4096"
definition RISCV_PGLEVEL_BITS :: nat where "RISCV_PGLEVEL_BITS = 9"
definition RISCV_PGLEVEL_MASK :: u64 where "RISCV_PGLEVEL_MASK = 0x1ff"
definition RISCV_PGTABLE_HIGHEST_BIT :: u64 where "RISCV_PGTABLE_HIGHEST_BIT = 0x100"
definition VA_BITS :: nat where "VA_BITS = 39"
definition RISCV_PGLEVEL_TOP :: nat where "RISCV_PGLEVEL_TOP = (VA_BITS - RISCV_PGSHIFT) div RISCV_PGLEVEL_BITS"
definition PTE_PPN_SHIFT :: nat where "PTE_PPN_SHIFT = 10"
definition PTE_V :: u64 where "PTE_V = 0x001"
definition PTE_R :: u64 where "PTE_R = 0x002"
definition PTE_W :: u64 where "PTE_W = 0x004"
definition PTE_X :: u64 where "PTE_X = 0x008"
definition PTE_U :: u64 where "PTE_U = 0x010"
definition PTE_A :: u64 where "PTE_A = 0x040"
definition PTE_D :: u64 where "PTE_D = 0x080"
definition PTE_L :: u64 where "PTE_L = push_bit 8 1"

definition pte_create :: "u64 \<Rightarrow> u64 \<Rightarrow> u64" where
  "pte_create ppn type = (push_bit PTE_PPN_SHIFT ppn OR PTE_V) OR type"

definition ptd_create :: "u64 \<Rightarrow> u64" where "ptd_create ppn = pte_create ppn PTE_V"
definition pte_ppn :: "u64 \<Rightarrow> u64" where "pte_ppn pte = drop_bit PTE_PPN_SHIFT pte"
definition ppn :: "u64 \<Rightarrow> u64" where "ppn addr = drop_bit RISCV_PGSHIFT addr"

definition pt_idx :: "u64 \<Rightarrow> nat \<Rightarrow> u64" where
  "pt_idx addr level =
    (let idx = drop_bit (RISCV_PGLEVEL_BITS * level + RISCV_PGSHIFT) addr in idx AND (push_bit RISCV_PGLEVEL_BITS 1 - 1))"

definition ReadMem :: "u64 \<Rightarrow> u64" where "ReadMem src = src"

definition WriteMem :: "u8 list \<Rightarrow> u64 \<Rightarrow> nat \<Rightarrow> mem \<Rightarrow> mem" where
  "WriteMem src dst sz m = store_bytes m dst (take sz src)"

text \<open>
  The loop of \<^verbatim>\<open>__ept_walk_internal\<close> from level \<open>i\<close> down: \<open>Inl\<close> the address of an invalid entry, \<open>Inr\<close> the
  address of the leaf entry.
\<close>

fun ept_walk_loop :: "mem \<Rightarrow> u64 \<Rightarrow> u64 \<Rightarrow> nat \<Rightarrow> u64 + u64" where
  "ept_walk_loop m t addr 0 = Inr (t + 8 * pt_idx addr 0)"
| "ept_walk_loop m t addr (Suc i) =
    (let pte = t + 8 * pt_idx addr (Suc i)
     in if load64 m pte AND PTE_V = 0 then Inl pte
        else ept_walk_loop m (ReadMem (push_bit RISCV_PGSHIFT (pte_ppn (load64 m pte)))) addr i)"

text \<open>
  With \<^verbatim>\<open>create\<close>: an invalid entry gets a table from the free list and the walk starts again
  (\<^verbatim>\<open>__ept_continue_walk_create\<close>).  The state is the memory and \<^verbatim>\<open>*pg_list\<close>.
\<close>

partial_function (option) ept_walk_create :: "u64 \<Rightarrow> u64 \<Rightarrow> mem \<Rightarrow> u64 \<Rightarrow> (u64 \<times> mem \<times> u64) option" where
  "ept_walk_create root_page_table addr m pg_list =
    (case ept_walk_loop m root_page_table addr (RISCV_PGLEVEL_TOP - 1) of
       Inr pte \<Rightarrow> Some (pte, m, pg_list)
     | Inl pte \<Rightarrow>
         let free_ppn = ppn pg_list; m = store64 m pte (ptd_create free_ppn); pg_list = pg_list + PAGE_SIZE
         in ept_walk_create root_page_table addr m pg_list)"

definition ept_walk :: "mem \<Rightarrow> u64 \<Rightarrow> u64 \<Rightarrow> u64" where
  "ept_walk m root_page_table addr =
    (case ept_walk_loop m root_page_table addr (RISCV_PGLEVEL_TOP - 1) of Inr pte \<Rightarrow> pte | Inl pte \<Rightarrow> 0)"

definition epm_va_to_pa :: "mem \<Rightarrow> u64 \<Rightarrow> u64 \<Rightarrow> u64" where
  "epm_va_to_pa m root_page_table addr =
    (let pte = ept_walk m root_page_table addr
     in if pte \<noteq> 0 then push_bit RISCV_PGSHIFT (pte_ppn (load64 m pte)) else 0)"

partial_function (option) epm_alloc_vspace_loop ::
    "u64 \<Rightarrow> u64 \<Rightarrow> u64 \<Rightarrow> u64 \<Rightarrow> mem \<Rightarrow> u64 \<Rightarrow> (u64 \<times> mem \<times> u64) option" where
  "epm_alloc_vspace_loop root_page_table num_pages count addr m pg_list =
    (if count < num_pages then
       Option.bind (ept_walk_create root_page_table addr m pg_list) (\<lambda>(pte, m, pg_list).
         if pte = 0 then Some (count, m, pg_list)
         else epm_alloc_vspace_loop root_page_table num_pages (count + 1) (addr + PAGE_SIZE) m pg_list)
     else Some (count, m, pg_list))"

definition epm_alloc_vspace :: "u64 \<Rightarrow> u64 \<Rightarrow> u64 \<Rightarrow> mem \<Rightarrow> u64 \<Rightarrow> (u64 \<times> mem \<times> u64) option" where
  "epm_alloc_vspace root_page_table addr num_pages m pg_list =
    epm_alloc_vspace_loop root_page_table num_pages 0 addr m pg_list"

datatype keystone_status_t = KEYSTONE_ERROR | KEYSTONE_SUCCESS | KEYSTONE_NOT_IMPLEMENTED

text \<open>The members of \<^verbatim>\<open>class Keystone\<close> that the loading uses, and the enclave's memory.\<close>

record keystone =
  ks_mem :: mem
  root_page_table :: u64
  epm_free_list :: u64
  utm_free_list :: u64
  ks_untrusted_start :: u64
  ks_untrusted_size :: u64

definition RT_NOEXEC :: u32 where "RT_NOEXEC = 0"
definition USER_NOEXEC :: u32 where "USER_NOEXEC = 1"
definition RT_FULL :: u32 where "RT_FULL = 2"
definition USER_FULL :: u32 where "USER_FULL = 3"
definition UTM_FULL :: u32 where "UTM_FULL = 4"

text \<open>The argument \<^verbatim>\<open>free_list\<close>: a pointer to one of the two members.\<close>

datatype free_list = Epm_free_list | Utm_free_list

definition get_free_list :: "free_list \<Rightarrow> keystone \<Rightarrow> u64" where
  "get_free_list fl st = (case fl of Epm_free_list \<Rightarrow> epm_free_list st | Utm_free_list \<Rightarrow> utm_free_list st)"

definition advance_free_list :: "free_list \<Rightarrow> keystone \<Rightarrow> keystone" where
  "advance_free_list fl st = (case fl of Epm_free_list \<Rightarrow> st\<lparr>epm_free_list := epm_free_list st + PAGE_SIZE\<rparr>
    | Utm_free_list \<Rightarrow> st\<lparr>utm_free_list := utm_free_list st + PAGE_SIZE\<rparr>)"

text \<open>The cases of the \<^verbatim>\<open>switch\<close>: the entry's flags, and whether the page is written.\<close>

definition page_mode :: "u32 \<Rightarrow> (u64 \<times> bool) option" where
  "page_mode mode =
    (if mode = USER_NOEXEC then Some (PTE_D OR PTE_A OR PTE_R OR PTE_W OR PTE_U OR PTE_V OR PTE_L, False)
     else if mode = RT_NOEXEC then Some (PTE_D OR PTE_A OR PTE_R OR PTE_W OR PTE_V OR PTE_L, False)
     else if mode = RT_FULL then Some (PTE_D OR PTE_A OR PTE_R OR PTE_W OR PTE_X OR PTE_V OR PTE_L, True)
     else if mode = USER_FULL then Some (PTE_D OR PTE_A OR PTE_R OR PTE_W OR PTE_X OR PTE_U OR PTE_V OR PTE_L, True)
     else if mode = UTM_FULL then Some (PTE_D OR PTE_A OR PTE_R OR PTE_W OR PTE_V OR PTE_L, True)
     else None)"

definition allocPage :: "u64 \<Rightarrow> free_list \<Rightarrow> u8 list \<Rightarrow> u32 \<Rightarrow> keystone \<Rightarrow> (keystone_status_t \<times> keystone) option" where
  "allocPage va fl src mode st =
    Option.bind (ept_walk_create (root_page_table st) va (ks_mem st) (epm_free_list st)) (\<lambda>(pte, m, pg_list).
      let st = st\<lparr>ks_mem := m, epm_free_list := pg_list\<rparr>
      in if load64 m pte AND PTE_V \<noteq> 0 then Some (KEYSTONE_SUCCESS, st)
         else let page_addr = drop_bit PAGE_BITS (get_free_list fl st); st = advance_free_list fl st
         in case page_mode mode of
              None \<Rightarrow> Some (KEYSTONE_ERROR, st)
            | Some (flags, write) \<Rightarrow>
                let m = store64 (ks_mem st) pte (pte_create page_addr flags);
                    m = (if write then WriteMem src (push_bit PAGE_BITS page_addr) (unat PAGE_SIZE) m else m)
                in Some (KEYSTONE_SUCCESS, st\<lparr>ks_mem := m\<rparr>))"

definition nullpage :: "u8 list" where "nullpage = replicate (unat PAGE_SIZE) 0"

text \<open>An error of \<^verbatim>\<open>allocPage\<close> is only printed.\<close>

partial_function (option) loadUntrusted_loop :: "u64 \<Rightarrow> u64 \<Rightarrow> keystone \<Rightarrow> keystone option" where
  "loadUntrusted_loop va_start va_end st =
    (if va_start < va_end then
       Option.bind (allocPage va_start Utm_free_list nullpage UTM_FULL st) (\<lambda>(status, st).
         loadUntrusted_loop (va_start + PAGE_SIZE) va_end st)
     else Some st)"

definition loadUntrusted :: "keystone \<Rightarrow> (keystone_status_t \<times> keystone) option" where
  "loadUntrusted st =
    (let va_start = ROUND_DOWN (ks_untrusted_start st) PAGE_BITS;
         va_end = ROUND_UP (ks_untrusted_start st + ks_untrusted_size st) PAGE_BITS
     in map_option (Pair KEYSTONE_SUCCESS) (loadUntrusted_loop va_start va_end st))"

primrec initStack_loop :: "nat \<Rightarrow> u64 \<Rightarrow> bool \<Rightarrow> keystone \<Rightarrow> (keystone_status_t \<times> keystone) option" where
  "initStack_loop 0 va_start_stk is_rt st = Some (KEYSTONE_SUCCESS, st)"
| "initStack_loop (Suc n) va_start_stk is_rt st =
    Option.bind (allocPage va_start_stk Epm_free_list nullpage (if is_rt then RT_NOEXEC else USER_NOEXEC) st) (\<lambda>(status, st).
      if status = KEYSTONE_ERROR then Some (KEYSTONE_ERROR, st)
      else initStack_loop n (va_start_stk + PAGE_SIZE) is_rt st)"

text \<open>\<^verbatim>\<open>stk_pages\<close> is an \<^verbatim>\<open>int\<close>.\<close>

definition initStack :: "u64 \<Rightarrow> u64 \<Rightarrow> bool \<Rightarrow> keystone \<Rightarrow> (keystone_status_t \<times> keystone) option" where
  "initStack start sz is_rt st =
    (let high_addr = ROUND_UP start PAGE_BITS;
         va_start_stk = ROUND_DOWN (high_addr - sz) PAGE_BITS;
         stk_pages = ucast ((high_addr - va_start_stk) div PAGE_SIZE) :: i32
     in initStack_loop (nat (sint stk_pages)) va_start_stk is_rt st)"

text \<open>\<^verbatim>\<open>ceil\<close> is applied to the quotient of two integers.\<close>

definition calculate_required_pages :: "u64 \<Rightarrow> u64 \<Rightarrow> u64" where
  "calculate_required_pages eapp_sz rt_sz =
    (let req_pages = 0;
         req_pages = req_pages + eapp_sz div PAGE_SIZE;
         req_pages = req_pages + rt_sz div PAGE_SIZE
     in req_pages + 15)"

text \<open>
  What \<^verbatim>\<open>loadELF\<close> asks an \<^verbatim>\<open>ELFFile\<close> for: the bounds, and per program header its fields and the pointer
  to its segment in the mapped file, which lies in the host's memory.  \<^verbatim>\<open>PT_LOAD\<close> is the system's.
\<close>

record program_header =
  ph_type :: u64
  ph_vaddr :: u64
  ph_filesz :: u64
  ph_memsz :: u64
  ph_segment :: u64

record elf_file =
  elf_isRuntime :: bool
  elf_minVaddr :: u64
  elf_maxVaddr :: u64
  elf_phs :: "program_header list"
  elf_host_mem :: mem

definition getPageMode :: "elf_file \<Rightarrow> u32" where
  "getPageMode elf = (if elf_isRuntime elf then RT_FULL else USER_FULL)"

definition getTotalMemorySize :: "elf_file \<Rightarrow> u64" where
  "getTotalMemorySize elf = elf_maxVaddr elf - elf_minVaddr elf"

definition PT_LOAD :: u64 where "PT_LOAD = 1"

text \<open>The pages that hold file contents only; the result has the new \<^verbatim>\<open>va\<close> and \<^verbatim>\<open>src\<close>.\<close>

partial_function (option) load_file_pages ::
    "mem \<Rightarrow> u32 \<Rightarrow> u64 \<Rightarrow> u64 \<Rightarrow> u64 \<Rightarrow> keystone \<Rightarrow> (keystone_status_t \<times> u64 \<times> u64 \<times> keystone) option" where
  "load_file_pages hm mode file_end va src st =
    (if va + PAGE_SIZE \<le> file_end then
       Option.bind (allocPage va Epm_free_list (load_bytes hm src (unat PAGE_SIZE)) mode st) (\<lambda>(status, st).
         if status \<noteq> KEYSTONE_SUCCESS then Some (KEYSTONE_ERROR, va, src, st)
         else load_file_pages hm mode file_end (va + PAGE_SIZE) (src + PAGE_SIZE) st)
     else Some (KEYSTONE_SUCCESS, va, src, st))"

partial_function (option) load_bss_pages :: "u32 \<Rightarrow> u64 \<Rightarrow> u64 \<Rightarrow> keystone \<Rightarrow> (keystone_status_t \<times> keystone) option" where
  "load_bss_pages mode memory_end va st =
    (if va < memory_end then
       Option.bind (allocPage va Epm_free_list nullpage mode st) (\<lambda>(status, st).
         if status \<noteq> KEYSTONE_SUCCESS then Some (KEYSTONE_ERROR, st)
         else load_bss_pages mode memory_end (va + PAGE_SIZE) st)
     else Some (KEYSTONE_SUCCESS, st))"

text \<open>A segment that does not begin on a page boundary: its first page.\<close>

definition load_misaligned :: "mem \<Rightarrow> u32 \<Rightarrow> u64 \<Rightarrow> u64 \<Rightarrow> keystone \<Rightarrow> (keystone_status_t \<times> u64 \<times> u64 \<times> keystone) option" where
  "load_misaligned hm mode va src st =
    (if va AND (PAGE_SIZE - 1) \<noteq> 0 then
       let offset = va - ROUND_DOWN va PAGE_BITS; len = ROUND_UP va PAGE_BITS - va;
           page = replicate (unat offset) 0 @ load_bytes hm src (unat len)
       in map_option (\<lambda>(status, st). (status, va + len, src + len, st))
            (allocPage (ROUND_DOWN va PAGE_BITS) Epm_free_list page mode st)
     else Some (KEYSTONE_SUCCESS, va, src, st))"

text \<open>The page with the end of the file contents, filled up with zeros.\<close>

definition load_last_page :: "mem \<Rightarrow> u32 \<Rightarrow> u64 \<Rightarrow> u64 \<Rightarrow> u64 \<Rightarrow> keystone \<Rightarrow> (keystone_status_t \<times> u64 \<times> keystone) option" where
  "load_last_page hm mode file_end va src st =
    (if va < file_end then
       let page = load_bytes hm src (unat (file_end - va)) @ replicate (unat PAGE_SIZE - unat (file_end - va)) 0
       in map_option (\<lambda>(status, st). (status, va + PAGE_SIZE, st)) (allocPage va Epm_free_list page mode st)
     else Some (KEYSTONE_SUCCESS, va, st))"

definition load_segment :: "mem \<Rightarrow> u32 \<Rightarrow> program_header \<Rightarrow> keystone \<Rightarrow> (keystone_status_t \<times> keystone) option" where
  "load_segment hm mode ph st =
    (let start = ph_vaddr ph; file_end = start + ph_filesz ph; memory_end = start + ph_memsz ph; src = ph_segment ph; va = start
     in Option.bind (load_misaligned hm mode va src st) (\<lambda>(status, va, src, st).
          if status \<noteq> KEYSTONE_SUCCESS then Some (KEYSTONE_ERROR, st)
          else Option.bind (load_file_pages hm mode file_end va src st) (\<lambda>(status, va, src, st).
            if status \<noteq> KEYSTONE_SUCCESS then Some (KEYSTONE_ERROR, st)
            else Option.bind (load_last_page hm mode file_end va src st) (\<lambda>(status, va, st).
              if status \<noteq> KEYSTONE_SUCCESS then Some (KEYSTONE_ERROR, st)
              else load_bss_pages mode memory_end va st))))"

primrec load_segments :: "mem \<Rightarrow> u32 \<Rightarrow> program_header list \<Rightarrow> keystone \<Rightarrow> (keystone_status_t \<times> keystone) option" where
  "load_segments hm mode [] st = Some (KEYSTONE_SUCCESS, st)"
| "load_segments hm mode (ph # phs) st =
    (if ph_type ph \<noteq> PT_LOAD then load_segments hm mode phs st
     else Option.bind (load_segment hm mode ph st) (\<lambda>(status, st).
       if status \<noteq> KEYSTONE_SUCCESS then Some (KEYSTONE_ERROR, st) else load_segments hm mode phs st))"

text \<open>Returns the status, \<^verbatim>\<open>*data_start\<close> and the state.\<close>

definition loadELF :: "elf_file \<Rightarrow> u64 \<Rightarrow> keystone \<Rightarrow> (keystone_status_t \<times> u64 \<times> keystone) option" where
  "loadELF elf data_start st =
    (let num_pages = ROUND_DOWN (getTotalMemorySize elf) PAGE_BITS div PAGE_SIZE
     in Option.bind (epm_alloc_vspace (root_page_table st) (elf_minVaddr elf) num_pages (ks_mem st) (epm_free_list st))
       (\<lambda>(count, m, pg_list). let st = st\<lparr>ks_mem := m, epm_free_list := pg_list\<rparr>
        in if count \<noteq> num_pages then Some (KEYSTONE_ERROR, data_start, st)
           else map_option (\<lambda>(status, st'). (status, epm_free_list st, st'))
             (load_segments (elf_host_mem elf) (getPageMode elf) (elf_phs elf) st)))"

section \<open>Pages as numbers\<close>

definition pte_at :: "mem \<Rightarrow> nat \<Rightarrow> nat \<Rightarrow> u64" where
  "pte_at m k i = load64 m (ptr (4096 * k + 8 * i))"

definition child :: "mem \<Rightarrow> nat \<Rightarrow> nat \<Rightarrow> nat" where
  "child m k i = unat (pte_ppn (pte_at m k i))"

fun node :: "mem \<Rightarrow> nat \<Rightarrow> nat list \<Rightarrow> nat" where
  "node m k [] = k"
| "node m k (i # is) = node m (child m k i) is"

fun valid :: "mem \<Rightarrow> nat \<Rightarrow> nat list \<Rightarrow> bool" where
  "valid m k [] \<longleftrightarrow> True"
| "valid m k (i # is) \<longleftrightarrow> i < 512 \<and> pte_at m k i AND PTE_V \<noteq> 0 \<and> valid m (child m k i) is"

lemma node_snoc: "node m k (is @ [i]) = child m (node m k is) i"
  by (induction m k "is" rule: node.induct) simp_all

lemma valid_snoc: "valid m k (is @ [i]) \<longleftrightarrow> valid m k is \<and> i < 512 \<and> pte_at m (node m k is) i AND PTE_V \<noteq> 0"
  by (induction m k "is" rule: node.induct) auto

text \<open>The indices of an address, from the root down.\<close>

definition index :: "u64 \<Rightarrow> nat \<Rightarrow> nat" where "index va l = unat (pt_idx va l)"

definition path :: "u64 \<Rightarrow> nat list" where "path va = [index va 2, index va 1, index va 0]"

lemma index_less: "index va l < 512"
proof -
  have "pt_idx va l = take_bit 9 (drop_bit (9 * l + 12) va)"
    by (simp add: pt_idx_def Let_def RISCV_PGLEVEL_BITS_def RISCV_PGSHIFT_def take_bit_eq_mask mask_eq_decr_exp)
  then have "index va l = unat (take_bit 9 (drop_bit (9 * l + 12) va))" by (simp only: index_def)
  also have "\<dots> = take_bit 9 (unat (drop_bit (9 * l + 12) va))" by (rule unsigned_take_bit_eq)
  also have "\<dots> < 2 ^ 9" by (rule take_bit_nat_less_exp)
  finally show ?thesis by simp
qed

lemma ptr_index: "ptr (4096 * k) + 8 * pt_idx va l = ptr (4096 * k + 8 * index va l)"
  by (simp add: ptr_def index_def)

lemma ReadMem_child: "ReadMem (push_bit RISCV_PGSHIFT (pte_ppn (pte_at m k i))) = ptr (4096 * child m k i)"
  by (simp add: ReadMem_def RISCV_PGSHIFT_def child_def ptr_def push_bit_eq_mult mult.commute)

lemma TOP_level: "RISCV_PGLEVEL_TOP - 1 = Suc (Suc 0)"
  by (simp add: RISCV_PGLEVEL_TOP_def VA_BITS_def RISCV_PGSHIFT_def RISCV_PGLEVEL_BITS_def)

lemma walk_loop:
  "ept_walk_loop m (ptr (4096 * r)) va (Suc (Suc 0)) =
    (if \<not> valid m r [index va 2] then Inl (ptr (4096 * r + 8 * index va 2))
     else if \<not> valid m r [index va 2, index va 1]
       then Inl (ptr (4096 * node m r [index va 2] + 8 * index va 1))
     else Inr (ptr (4096 * node m r [index va 2, index va 1] + 8 * index va 0)))"
  by (simp add: Let_def ptr_index index_less ReadMem_child pte_at_def [symmetric] numeral_2_eq_2)

text \<open>The tree: pages of tables and mapped pages are all different and known; an entry is valid or 0.\<close>

definition pt_ok :: "mem \<Rightarrow> nat \<Rightarrow> nat set \<Rightarrow> bool" where
  "pt_ok m r U \<longleftrightarrow>
    inj_on (node m r) {is. length is \<le> 3 \<and> valid m r is} \<and>
    (\<forall>is. length is \<le> 3 \<and> valid m r is \<longrightarrow> node m r is \<in> U) \<and>
    (\<forall>is i. length is \<le> 2 \<and> valid m r is \<and> i < 512 \<longrightarrow> pte_at m (node m r is) i = 0 \<or> pte_at m (node m r is) i AND PTE_V \<noteq> 0) \<and>
    (\<forall>k\<in>U. 0 < k \<and> k < 4503599627370496)"

definition page_zero :: "mem \<Rightarrow> nat \<Rightarrow> bool" where
  "page_zero m k \<longleftrightarrow> (\<forall>i<512. pte_at m k i = 0)"

lemma pte_at_store:
  assumes "k < 4503599627370496" "n < 4503599627370496" "i < 512" "j < 512"
  shows "pte_at (store64 m (ptr (4096 * n + 8 * i)) v) k j = (if k = n \<and> j = i then v else pte_at m k j)"
proof (cases "k = n \<and> j = i")
  case False
  then have "4096 * k + 8 * j + 8 \<le> 4096 * n + 8 * i \<or> 4096 * n + 8 * i + 8 \<le> 4096 * k + 8 * j"
    using assms(3,4) by (cases k n rule: linorder_cases) auto
  then show ?thesis using False assms by (auto simp: pte_at_def)
qed (simp add: pte_at_def mem_simps)

text \<open>Tables that are not touched keep the tree.\<close>

lemma tree_frame:
  assumes "\<And>is i. length is \<le> 2 \<Longrightarrow> valid m r is \<Longrightarrow> i < 512 \<Longrightarrow> pte_at m' (node m r is) i = pte_at m (node m r is) i"
  shows "length js \<le> 3 \<Longrightarrow> (valid m' r js \<longleftrightarrow> valid m r js) \<and> (valid m r js \<longrightarrow> node m' r js = node m r js)"
proof (induction js rule: rev_induct)
  case (snoc j js)
  then have IH: "valid m' r js \<longleftrightarrow> valid m r js" "valid m r js \<Longrightarrow> node m' r js = node m r js" by simp_all
  have "pte_at m' (node m r js) j = pte_at m (node m r js) j" if "valid m r js" "j < 512"
    using assms [of js j] snoc.prems that by simp
  then show ?case using IH by (auto simp: valid_snoc node_snoc child_def)
qed simp

lemma pt_ok_frame:
  assumes "pt_ok m r U"
    and "\<And>is i. length is \<le> 2 \<Longrightarrow> valid m r is \<Longrightarrow> i < 512 \<Longrightarrow> pte_at m' (node m r is) i = pte_at m (node m r is) i"
  shows "pt_ok m' r U"
proof -
  note f = tree_frame [of m r m', OF assms(2)]
  have "{is. length is \<le> 3 \<and> valid m' r is} = {is. length is \<le> 3 \<and> valid m r is}" using f by blast
  moreover have "inj_on (node m' r) {is. length is \<le> 3 \<and> valid m r is}"
    using assms(1) f unfolding pt_ok_def by (subst inj_on_cong [of _ _ "node m r"]) auto
  moreover have "pte_at m' (node m' r is) i = 0 \<or> pte_at m' (node m' r is) i AND PTE_V \<noteq> 0"
    if "length is \<le> 2 \<and> valid m' r is \<and> i < 512" for "is" i
    using that f [of "is"] assms(1) assms(2) [of "is" i] unfolding pt_ok_def by auto
  ultimately show ?thesis using assms(1) f unfolding pt_ok_def by auto
qed

text \<open>Filling an empty entry adds one node.\<close>

lemma link:
  assumes ok: "pt_ok m r U" and p: "valid m r is" "length is \<le> 2" "i < 512" "pte_at m (node m r is) i = 0"
    and f: "f \<notin> U" "0 < f" "f < 4503599627370496" "length is = 2 \<or> page_zero m f"
    and v: "v AND PTE_V \<noteq> 0" "unat (pte_ppn v) = f"
    and m': "m' = store64 m (ptr (4096 * node m r is + 8 * i)) v"
  shows "length js \<le> 3 \<Longrightarrow> (valid m' r js \<longleftrightarrow> valid m r js \<or> js = is @ [i]) \<and>
      (valid m r js \<longrightarrow> node m' r js = node m r js)"
    and "node m' r (is @ [i]) = f" and "pt_ok m' r (insert f U)"
proof -
  let ?n = "node m r is"
  have U: "node m r js \<in> U" "node m r js < 4503599627370496" if "valid m r js" "length js \<le> 3" for js
    using ok that unfolding pt_ok_def by blast+
  have same: "node m r js = ?n \<longleftrightarrow> js = is" if "valid m r js" "length js \<le> 3" for js
    using ok that p(1,2) unfolding pt_ok_def inj_on_def by force
  have pte: "pte_at m' k j = (if k = ?n \<and> j = i then v else pte_at m k j)" if "k < 4503599627370496" "j < 512" for k j
    unfolding m' using that p(1,2,3) U(2) [of "is"] by (intro pte_at_store) simp_all
  have new: "\<not> valid m r (is @ [i])" using p(4) by (simp add: valid_snoc)
  have nf: "?n \<noteq> f" using U(1) [of "is"] p(1,2) f(1) by auto
  have tree: "length js \<le> 3 \<Longrightarrow> (valid m' r js \<longleftrightarrow> valid m r js \<or> js = is @ [i]) \<and>
      (valid m r js \<longrightarrow> node m' r js = node m r js) \<and> (js = is @ [i] \<longrightarrow> node m' r js = f)" for js
  proof (induction js rule: rev_induct)
    case (snoc j js)
    then have IH: "valid m' r js \<longleftrightarrow> valid m r js \<or> js = is @ [i]" "valid m r js \<Longrightarrow> node m' r js = node m r js"
      "js = is @ [i] \<Longrightarrow> node m' r js = f" and l: "length js \<le> 2" by simp_all
    show ?case
    proof (cases "valid m r js")
      case True
      then have n: "node m' r js = node m r js" "node m r js < 4503599627370496" "valid m' r js"
        using IH U(2) l by simp_all
      have s: "node m r js = ?n \<longleftrightarrow> js = is" using same [OF True] l by simp
      show ?thesis
      proof (cases "js = is \<and> j = i")
        case True
        then show ?thesis using n pte [OF n(2), of j] p(3,4) v by (simp add: valid_snoc node_snoc child_def)
      next
        case False
        then have "j < 512 \<Longrightarrow> pte_at m' (node m r js) j = pte_at m (node m r js) j" using pte [OF n(2)] s by auto
        then show ?thesis using False n True by (auto simp: valid_snoc node_snoc child_def)
      qed
    next
      case False
      have "\<not> valid m' r (js @ [j])"
      proof (cases "js = is @ [i]")
        case js: True
        then have "page_zero m f" using f(4) l by simp
        then have "j < 512 \<Longrightarrow> pte_at m' f j = 0" using pte [OF f(3)] nf by (simp add: page_zero_def)
        then show ?thesis using IH(3) [OF js] by (auto simp: valid_snoc)
      qed (use IH False in \<open>simp add: valid_snoc\<close>)
      then show ?thesis using False p(1) by (auto simp: valid_snoc)
    qed
  qed (simp add: )
  show "length js \<le> 3 \<Longrightarrow> (valid m' r js \<longleftrightarrow> valid m r js \<or> js = is @ [i]) \<and> (valid m r js \<longrightarrow> node m' r js = node m r js)"
    using tree by blast
  show nodef: "node m' r (is @ [i]) = f" using tree [of "is @ [i]"] p(2) by simp
  show "pt_ok m' r (insert f U)"
    unfolding pt_ok_def
  proof (intro conjI allI impI ballI)
    have e: "{js. length js \<le> 3 \<and> valid m' r js} = insert (is @ [i]) {js. length js \<le> 3 \<and> valid m r js}"
      using tree p(2) by auto
    have "inj_on (node m' r) {js. length js \<le> 3 \<and> valid m r js}"
      using ok tree unfolding pt_ok_def by (subst inj_on_cong [of _ _ "node m r"]) auto
    moreover have "f \<notin> node m' r ` {js. length js \<le> 3 \<and> valid m r js}"
      using f(1) U(1) tree by fastforce
    ultimately show "inj_on (node m' r) {js. length js \<le> 3 \<and> valid m' r js}"
      unfolding e using nodef by (auto simp: inj_on_insert)
  next
    fix js assume "length js \<le> 3 \<and> valid m' r js"
    then show "node m' r js \<in> insert f U" using tree [of js] U(1) [of js] by auto
  next
    fix js and j :: nat assume j: "length js \<le> 2 \<and> valid m' r js \<and> j < 512"
    show "pte_at m' (node m' r js) j = 0 \<or> pte_at m' (node m' r js) j AND PTE_V \<noteq> 0"
    proof (cases "valid m r js")
      case True
      then have "node m' r js = node m r js" "node m r js < 4503599627370496" using tree [of js] j U(2) [of js] by simp_all
      then show ?thesis using pte j v ok True unfolding pt_ok_def by auto
    next
      case False
      then have js: "js = is @ [i]" "node m' r js = f" using tree [of js] j by auto
      then have "page_zero m f" using f(4) j by simp
      then show ?thesis using pte [OF f(3), of j] nf j js by (simp add: page_zero_def)
    qed
  next
    fix k assume "k \<in> insert f U"
    then show "0 < k" "k < 4503599627370496" using f(2,3) ok unfolding pt_ok_def by auto
  qed
qed

section \<open>Walking and allocating\<close>

lemma pte_create_fields:
  assumes "f < 4503599627370496" "take_bit 10 t = t"
  shows "unat (pte_ppn (pte_create (ppn (ptr (4096 * f))) t)) = f" "pte_create n t AND PTE_V \<noteq> 0"
proof -
  have p: "ppn (ptr (4096 * f)) = ptr f"
  proof -
    have "unat (ppn (ptr (4096 * f))) = f"
      using assms(1) unfolding ppn_def RISCV_PGSHIFT_def unat_drop_bit_eq by (simp add: unat_ptr drop_bit_eq_div)
    then show ?thesis by (metis ptr_unat)
  qed
  have t: "\<not> bit t n" if "10 \<le> n" for n
    using assms(2) that by (metis bit_take_bit_iff not_le)
  have b: "\<not> bit (ptr f) n" if "54 \<le> n" for n
  proof -
    have "take_bit 54 f = f" using assms(1) by (simp add: take_bit_nat_eq_self_iff)
    then have "take_bit 54 (ptr f) = ptr f" unfolding ptr_def by (metis take_bit_of_nat)
    then show ?thesis using that by (metis bit_take_bit_iff not_le)
  qed
  have "pte_ppn (pte_create (ptr f) t) = ptr f"
  proof (rule bit_word_eqI)
    fix n assume "n < LENGTH(64)"
    then show "bit (pte_ppn (pte_create (ptr f) t)) n = bit (ptr f) n"
      using t [of "10 + n"] b [of n] by (cases "54 \<le> n") (auto simp: pte_ppn_def pte_create_def PTE_PPN_SHIFT_def PTE_V_def bit_simps)
  qed
  then show "unat (pte_ppn (pte_create (ppn (ptr (4096 * f))) t)) = f"
    using assms(1) by (simp add: p unat_ptr)
  have "bit (pte_create n t AND PTE_V) 0" by (simp add: pte_create_def PTE_V_def PTE_PPN_SHIFT_def bit_simps)
  then show "pte_create n t AND PTE_V \<noteq> 0" by (metis bit_0_eq bot_apply bot_bool_def)
qed

lemma pt_ok_entry: "pt_ok m r U \<Longrightarrow> valid m r is \<Longrightarrow> length is \<le> 2 \<Longrightarrow> i < 512 \<Longrightarrow>
    pte_at m (node m r is) i = 0 \<or> pte_at m (node m r is) i AND PTE_V \<noteq> 0"
  by (simp add: pt_ok_def)

lemma pt_ok_node: "pt_ok m r U \<Longrightarrow> valid m r is \<Longrightarrow> length is \<le> 3 \<Longrightarrow>
    node m r is \<in> U \<and> 0 < node m r is \<and> node m r is < 4503599627370496"
  by (simp add: pt_ok_def)

lemma va_to_pa:
  assumes "pt_ok m r U"
  shows "epm_va_to_pa m (ptr (4096 * r)) va = (if valid m r (path va) then ptr (4096 * node m r (path va)) else 0)"
proof -
  have p: "path va = [index va 2, index va 1] @ [index va 0]" by (simp add: path_def)
  show ?thesis
  proof (cases "valid m r [index va 2, index va 1]")
    case False
    then have "ept_walk m (ptr (4096 * r)) va = 0"
      unfolding ept_walk_def TOP_level walk_loop by auto
    then show ?thesis using False unfolding p valid_snoc by (simp add: epm_va_to_pa_def del: valid.simps node.simps)
  next
    case True
    let ?n = "node m r [index va 2, index va 1]"
    have n: "0 < ?n" "?n < 4503599627370496" "pte_at m ?n (index va 0) = 0 \<or> pte_at m ?n (index va 0) AND PTE_V \<noteq> 0"
      using pt_ok_node [OF assms True] pt_ok_entry [OF assms True _ index_less [of va 0]] by simp_all
    have w: "ept_walk m (ptr (4096 * r)) va = ptr (4096 * ?n + 8 * index va 0)"
      using True unfolding ept_walk_def TOP_level walk_loop by simp
    then have "ept_walk m (ptr (4096 * r)) va \<noteq> 0" using n index_less [of va 0] by (simp add: ptr_eq_0)
    then have e: "epm_va_to_pa m (ptr (4096 * r)) va = ptr (4096 * child m ?n (index va 0))"
      using ReadMem_child [of m ?n "index va 0"] unfolding epm_va_to_pa_def Let_def w by (simp add: pte_at_def ReadMem_def)
    show ?thesis
    proof (cases "pte_at m ?n (index va 0) AND PTE_V = 0")
      case z: True
      then have "child m ?n (index va 0) = 0" using n by (auto simp: child_def pte_ppn_def)
      then show ?thesis using z unfolding e p valid_snoc by simp
    next
      case False
      then show ?thesis using True index_less [of va 0] unfolding e p valid_snoc node_snoc by simp
    qed
  qed
qed

definition fresh :: "mem \<Rightarrow> nat set \<Rightarrow> nat \<Rightarrow> nat \<Rightarrow> bool" where
  "fresh m U f n \<longleftrightarrow> (\<forall>k\<in>{f..<f + n}. k \<notin> U \<and> 0 < k \<and> k < 4503599627370496 \<and> page_zero m k)"

lemma PAGE_SIZE_ptr: "ptr (4096 * f) + PAGE_SIZE = ptr (4096 * (f + 1))"
  by (simp add: PAGE_SIZE_def PAGE_BITS_def ptr_def push_bit_eq_mult)

text \<open>Pages that are not tables keep their contents.\<close>

definition data_kept :: "mem \<Rightarrow> mem \<Rightarrow> nat \<Rightarrow> bool" where
  "data_kept m m' r \<longleftrightarrow> (\<forall>k<4503599627370496. (\<forall>is. length is \<le> 2 \<and> valid m r is \<longrightarrow> k \<noteq> node m r is) \<longrightarrow>
    (\<forall>x<4096. m' (ptr (4096 * k + x)) = m (ptr (4096 * k + x))))"

lemma entry_data_kept:
  assumes "pt_ok m r U" "valid m r is" "length is \<le> 2" "i < 512" "m' = store64 m (ptr (4096 * node m r is + 8 * i)) v"
  shows "data_kept m m' r"
  unfolding data_kept_def
proof (intro allI impI)
  fix k x :: nat
  assume k: "k < 4503599627370496" "\<forall>is. length is \<le> 2 \<and> valid m r is \<longrightarrow> k \<noteq> node m r is" "x < 4096"
  have n: "node m r is < 4503599627370496" "k \<noteq> node m r is" using assms(1,2,3) k(2) unfolding pt_ok_def by auto
  then have "4096 * k + x < 4096 * node m r is + 8 * i \<or> 4096 * node m r is + 8 * i + 8 \<le> 4096 * k + x"
    using k(3) assms(4) by (cases k "node m r is" rule: linorder_cases) auto
  then show "m' (ptr (4096 * k + x)) = m (ptr (4096 * k + x))"
    unfolding assms(5) using k n assms(4) by (intro byte_store) auto
qed

text \<open>One new table.\<close>

lemma walk_create_step:
  assumes ok: "pt_ok m r U" and f: "fresh m U f (Suc n)" and p: "valid m r is" "length is \<le> 1" "i < 512" "\<not> valid m r (is @ [i])"
    and w: "ept_walk_loop m (ptr (4096 * r)) va (Suc (Suc 0)) = Inl (ptr (4096 * node m r is + 8 * i))"
  shows "\<exists>m'. ept_walk_create (ptr (4096 * r)) va m (ptr (4096 * f)) = ept_walk_create (ptr (4096 * r)) va m' (ptr (4096 * (f + 1))) \<and>
    pt_ok m' r (insert f U) \<and> fresh m' (insert f U) (f + 1) n \<and> data_kept m m' r \<and>
    (\<forall>js. length js \<le> 3 \<longrightarrow> (valid m' r js \<longleftrightarrow> valid m r js \<or> js = is @ [i]) \<and> (valid m r js \<longrightarrow> node m' r js = node m r js))"
proof -
  let ?v = "ptd_create (ppn (ptr (4096 * f)))"
  let ?m = "store64 m (ptr (4096 * node m r is + 8 * i)) ?v"
  have U: "node m r is \<in> U" "node m r is < 4503599627370496" using ok p(1,2) unfolding pt_ok_def by auto
  have z: "pte_at m (node m r is) i = 0" using pt_ok_entry [OF ok p(1) _ p(3)] p by (auto simp: valid_snoc)
  have ff: "f \<notin> U" "0 < f" "f < 4503599627370496" "page_zero m f" using f unfolding fresh_def by auto
  have v: "?v AND PTE_V \<noteq> 0" "unat (pte_ppn ?v) = f"
    using pte_create_fields [OF ff(3), of PTE_V] unfolding ptd_create_def by (simp_all add: PTE_V_def)
  note l = link [OF ok p(1) _ p(3) z ff(1,2,3) disjI2 [OF ff(4)] v refl]
  have "fresh ?m (insert f U) (f + 1) n"
    unfolding fresh_def
  proof
    fix k assume k: "k \<in> {f + 1..<f + 1 + n}"
    then have "k \<notin> U" "0 < k" "k < 4503599627370496" "page_zero m k" using f unfolding fresh_def by auto
    moreover have "k \<noteq> node m r is" using calculation U by auto
    ultimately show "k \<notin> insert f U \<and> 0 < k \<and> k < 4503599627370496 \<and> page_zero ?m k"
      using k U(2) p(3) by (auto simp: page_zero_def pte_at_store)
  qed
  moreover have "ept_walk_create (ptr (4096 * r)) va m (ptr (4096 * f)) = ept_walk_create (ptr (4096 * r)) va ?m (ptr (4096 * (f + 1)))"
    by (subst ept_walk_create.simps) (simp only: TOP_level w Let_def PAGE_SIZE_ptr sum.case)
  moreover have "data_kept m ?m r" using entry_data_kept [OF ok p(1) _ p(3) refl] p(2) by simp
  ultimately show ?thesis using l p(2) by (intro exI [of _ ?m]) auto
qed

text \<open>
  \<^verbatim>\<open>__ept_walk_create\<close> ends after one new table for each that is missing on the way (at most two), and the
  translation of every address is as before.
\<close>

definition missing_tables :: "mem \<Rightarrow> nat \<Rightarrow> u64 \<Rightarrow> nat" where
  "missing_tables m r va = (if valid m r [index va 2] then 0 else 1) + (if valid m r [index va 2, index va 1] then 0 else 1)"

lemma walk_create_done:
  assumes "valid m r [index va 2, index va 1]"
  shows "ept_walk_create (ptr (4096 * r)) va m pg =
    Some (ptr (4096 * node m r [index va 2, index va 1] + 8 * index va 0), m, pg)"
  using assms by (subst ept_walk_create.simps) (simp only: TOP_level walk_loop, simp del: ept_walk_loop.simps)

definition same_leaves :: "mem \<Rightarrow> mem \<Rightarrow> nat \<Rightarrow> bool" where
  "same_leaves m m' r \<longleftrightarrow> (\<forall>js. length js = 3 \<longrightarrow> (valid m' r js \<longleftrightarrow> valid m r js) \<and>
    (valid m r js \<longrightarrow> node m' r js = node m r js \<and> (\<forall>x<4096. m' (ptr (4096 * node m r js + x)) = m (ptr (4096 * node m r js + x)))))"

lemma step_same_leaves:
  assumes ok: "pt_ok m r U" and d: "data_kept m m' r" and l: "length is \<le> 1"
    and t: "\<forall>js. length js \<le> 3 \<longrightarrow> (valid m' r js \<longleftrightarrow> valid m r js \<or> js = is @ [i]) \<and> (valid m r js \<longrightarrow> node m' r js = node m r js)"
  shows "same_leaves m m' r"
  unfolding same_leaves_def
proof (intro conjI allI impI)
  fix js :: "nat list" assume "length js = 3"
  then show "valid m' r js \<longleftrightarrow> valid m r js" using t l by auto
next
  fix js assume "length js = 3" "valid m r js"
  then show "node m' r js = node m r js" using t by simp
next
  fix js and x :: nat assume js: "length js = 3" "valid m r js" "x < 4096"
  have inj: "inj_on (node m r) {is. length is \<le> 3 \<and> valid m r is}" using ok by (simp add: pt_ok_def)
  have "node m r js \<noteq> node m r ks" if "length ks \<le> 2 \<and> valid m r ks" for ks
    using inj_onD [OF inj, of js ks] js(1,2) that by auto
  then show "m' (ptr (4096 * node m r js + x)) = m (ptr (4096 * node m r js + x))"
    using d [unfolded data_kept_def, rule_format, of "node m r js" x] pt_ok_node [OF ok, of js] js by auto
qed

lemma same_leaves_trans:
  assumes "same_leaves m m' r" "same_leaves m' m'' r"
  shows "same_leaves m m'' r"
  unfolding same_leaves_def
proof (intro allI impI)
  fix js :: "nat list" assume "length js = 3"
  then show "(valid m'' r js \<longleftrightarrow> valid m r js) \<and> (valid m r js \<longrightarrow> node m'' r js = node m r js \<and>
      (\<forall>x<4096. m'' (ptr (4096 * node m r js + x)) = m (ptr (4096 * node m r js + x))))"
    using assms [unfolded same_leaves_def, rule_format, of js] by simp
qed

lemma walk_create:
  assumes ok: "pt_ok m r U" and f: "fresh m U f (n + 2)"
  shows "\<exists>m' f' U'. ept_walk_create (ptr (4096 * r)) va m (ptr (4096 * f)) =
      Some (ptr (4096 * node m' r [index va 2, index va 1] + 8 * index va 0), m', ptr (4096 * f')) \<and>
    valid m' r [index va 2, index va 1] \<and> pt_ok m' r U' \<and> U' = U \<union> {f..<f'} \<and> f \<le> f' \<and> f' \<le> f + 2 \<and> fresh m' U' f' n \<and>
    same_leaves m m' r \<and> f' = f + missing_tables m r va"
proof -
  have refl: "same_leaves m m r" for m by (simp add: same_leaves_def)
  have fresh_less: "fresh m U f k" if "fresh m U f (k + j)" for m U f k j using that by (auto simp: fresh_def)
  have second: "\<exists>m' f' U'. ept_walk_create (ptr (4096 * r)) va m (ptr (4096 * f)) =
      Some (ptr (4096 * node m' r [index va 2, index va 1] + 8 * index va 0), m', ptr (4096 * f')) \<and>
    valid m' r [index va 2, index va 1] \<and> pt_ok m' r U' \<and> U' = U \<union> {f..<f'} \<and> f \<le> f' \<and> f' \<le> f + 1 \<and> fresh m' U' f' n \<and>
    same_leaves m m' r \<and> f' = f + (if valid m r [index va 2, index va 1] then 0 else 1)"
    if ok: "pt_ok m r U" and f: "fresh m U f (n + 1)" and v: "valid m r [index va 2]" for m U f
  proof (cases "valid m r [index va 2, index va 1]")
    case True
    then show ?thesis
      using walk_create_done [OF True] ok fresh_less [OF f] refl [of m]
      by (intro exI [of _ m] exI [of _ f] exI [of _ U]) (simp del: valid.simps node.simps)
  next
    case False
    have w: "ept_walk_loop m (ptr (4096 * r)) va (Suc (Suc 0)) = Inl (ptr (4096 * node m r [index va 2] + 8 * index va 1))"
      using v False unfolding walk_loop by simp
    obtain m' where m': "ept_walk_create (ptr (4096 * r)) va m (ptr (4096 * f)) = ept_walk_create (ptr (4096 * r)) va m' (ptr (4096 * (f + 1)))"
        "pt_ok m' r (insert f U)" "fresh m' (insert f U) (f + 1) n" "data_kept m m' r"
        "\<forall>js. length js \<le> 3 \<longrightarrow> (valid m' r js \<longleftrightarrow> valid m r js \<or> js = [index va 2] @ [index va 1]) \<and> (valid m r js \<longrightarrow> node m' r js = node m r js)"
      using walk_create_step [OF ok f [unfolded add_0_right One_nat_def add_Suc_right] v _ index_less _ w] False by auto
    have v': "valid m' r [index va 2, index va 1]" using m'(5) by (simp del: valid.simps node.simps)
    have "same_leaves m m' r" by (rule step_same_leaves [OF ok m'(4) _ m'(5)]) simp
    then show ?thesis
      using m' walk_create_done [OF v'] v' False
      by (intro exI [of _ m'] exI [of _ "f + 1"] exI [of _ "insert f U"]) (auto simp del: valid.simps node.simps)
  qed
  show ?thesis
  proof (cases "valid m r [index va 2]")
    case True
    have "fresh m U f (n + 1)" using fresh_less [of m U f "n + 1" 1] f by (simp add: numeral_2_eq_2)
    note s = second [OF ok this True]
    have "missing_tables m r va = (if valid m r [index va 2, index va 1] then 0 else 1)"
      unfolding missing_tables_def using True by (simp del: valid.simps)
    then show ?thesis using s by (elim exE conjE) (intro exI conjI; (assumption | simp del: valid.simps))
  next
    case False
    have w: "ept_walk_loop m (ptr (4096 * r)) va (Suc (Suc 0)) = Inl (ptr (4096 * node m r [] + 8 * index va 2))"
      using False unfolding walk_loop by simp
    have f2: "fresh m U f (Suc (n + 1))" using f by (simp add: numeral_2_eq_2)
    obtain m' where m': "ept_walk_create (ptr (4096 * r)) va m (ptr (4096 * f)) = ept_walk_create (ptr (4096 * r)) va m' (ptr (4096 * (f + 1)))"
        "pt_ok m' r (insert f U)" "fresh m' (insert f U) (f + 1) (n + 1)" "data_kept m m' r"
        "\<forall>js. length js \<le> 3 \<longrightarrow> (valid m' r js \<longleftrightarrow> valid m r js \<or> js = [] @ [index va 2]) \<and> (valid m r js \<longrightarrow> node m' r js = node m r js)"
      using walk_create_step [OF ok f2 _ _ index_less _ w] False by auto
    have v': "valid m' r [index va 2]" using m'(5) by (simp del: valid.simps node.simps)
    have s: "same_leaves m m' r" by (rule step_same_leaves [OF ok m'(4) _ m'(5)]) simp
    obtain m'' f' U' where m'': "ept_walk_create (ptr (4096 * r)) va m' (ptr (4096 * (f + 1))) =
      Some (ptr (4096 * node m'' r [index va 2, index va 1] + 8 * index va 0), m'', ptr (4096 * f'))"
      "valid m'' r [index va 2, index va 1]" "pt_ok m'' r U'" "U' = insert f U \<union> {f + 1..<f'}" "f + 1 \<le> f'" "f' \<le> f + 1 + 1"
      "fresh m'' U' f' n" "same_leaves m' m'' r" "f' = f + 1 + (if valid m' r [index va 2, index va 1] then 0 else 1)"
      using second [OF m'(2,3) v'] by blast
    have nv: "\<not> valid m r [index va 2, index va 1]" using False valid_snoc [of m r "[index va 2]" "index va 1"] by simp
    moreover have "\<not> valid m' r [index va 2, index va 1]" using nv m'(5) by (simp del: valid.simps node.simps)
    ultimately have "f' = f + missing_tables m r va"
      using m''(9) False by (simp add: missing_tables_def del: valid.simps)
    moreover have "U' = U \<union> {f..<f'}" using m''(4,5) by auto
    moreover have "same_leaves m m'' r" using s m''(8) by (rule same_leaves_trans)
    ultimately show ?thesis using m'(1) m''
      by (intro exI [of _ m''] exI [of _ f'] exI [of _ U']) (auto simp del: valid.simps node.simps)
  qed
qed

lemma page_mode_flags: "page_mode mode = Some (flags, wr) \<Longrightarrow> take_bit 10 flags = flags"
  unfolding page_mode_def PTE_V_def PTE_R_def PTE_W_def PTE_X_def PTE_U_def PTE_A_def PTE_D_def PTE_L_def
  by (auto split: if_splits)

text \<open>Loading the page a leaf refers to does not touch the tables.\<close>

lemma pte_at_page:
  assumes "k < 4503599627370496" "n < 4503599627370496" "k \<noteq> n" "i < 512" "length bs = 4096"
  shows "pte_at (store_bytes m (ptr (4096 * n)) bs) k i = pte_at m k i"
proof -
  have "4096 * k + 8 * i + 8 \<le> 4096 * n \<or> 4096 * n + 4096 \<le> 4096 * k + 8 * i"
    using assms(3,4) by (cases k n rule: linorder_cases) auto
  then have "apart (ptr (4096 * k + 8 * i)) 8 (ptr (4096 * n)) (length bs)"
    using assms ptr_apart [of "4096 * k + 8 * i" 8 "4096 * n" 4096] ptr_apart [of "4096 * n" 4096 "4096 * k + 8 * i" 8]
    unfolding apart_def by auto
  then show ?thesis unfolding pte_at_def by (rule load64_store_bytes_apart)
qed

lemma page_byte:
  assumes "k < 4503599627370496" "n < 4503599627370496" "k \<noteq> n" "x < 4096" "length bs = 4096"
  shows "store_bytes m (ptr (4096 * n)) bs (ptr (4096 * k + x)) = m (ptr (4096 * k + x))"
proof -
  have "4096 * k + x + 1 \<le> 4096 * n \<or> 4096 * n + 4096 \<le> 4096 * k + x"
    using assms(3,4) by (cases k n rule: linorder_cases) auto
  then have "4096 \<le> unat (ptr (4096 * k + x) - ptr (4096 * n))"
    using assms ptr_apart [of "4096 * k + x" 1 "4096 * n" 4096] ptr_apart [of "4096 * n" 4096 "4096 * k + x" 1] by auto
  then show ?thesis using assms(5) by (simp add: store_bytes_def)
qed

text \<open>The loading state: the tree, and the pages at the heads of the free lists.\<close>

definition loader_ok :: "keystone \<Rightarrow> nat \<Rightarrow> nat set \<Rightarrow> nat \<Rightarrow> nat \<Rightarrow> nat \<Rightarrow> bool" where
  "loader_ok st r U f n g \<longleftrightarrow> pt_ok (ks_mem st) r U \<and> fresh (ks_mem st) U f n \<and>
    root_page_table st = ptr (4096 * r) \<and> epm_free_list st = ptr (4096 * f) \<and>
    utm_free_list st = ptr (4096 * g) \<and> g \<notin> U \<and> g \<notin> {f..<f + n} \<and> 0 < g \<and> g < 4503599627370496"

lemma drop_PAGE_BITS: "f < 4503599627370496 \<Longrightarrow> drop_bit PAGE_BITS (ptr (4096 * f)) = ppn (ptr (4096 * f))"
  by (simp add: PAGE_BITS_def ppn_def RISCV_PGSHIFT_def)

lemma push_PAGE_BITS: "f < 4503599627370496 \<Longrightarrow> push_bit PAGE_BITS (ppn (ptr (4096 * f))) = ptr (4096 * f)"
proof -
  assume f: "f < 4503599627370496"
  have "unat (ppn (ptr (4096 * f))) = f"
    using f unfolding ppn_def RISCV_PGSHIFT_def unat_drop_bit_eq by (simp add: unat_ptr drop_bit_eq_div)
  then have "ppn (ptr (4096 * f)) = ptr f" by (metis ptr_unat)
  then show ?thesis by (simp add: PAGE_BITS_def ptr_def push_bit_eq_mult mult.commute)
qed

text \<open>Entering a page \<open>k\<close> as the leaf of an unmapped address.\<close>

lemma new_leaf:
  assumes ok: "pt_ok m r U" and t: "valid m r [index va 2, index va 1]" "\<not> valid m r (path va)"
    and k: "k \<notin> U" "0 < k" "k < 4503599627370496" and fl: "take_bit 10 flags = flags" and src: "length src = 4096"
    and m': "m' = (let m1 = store64 m (ptr (4096 * node m r [index va 2, index va 1] + 8 * index va 0)) (pte_create (ppn (ptr (4096 * k))) flags)
      in if wr then store_bytes m1 (ptr (4096 * k)) src else m1)"
  shows "pt_ok m' r (insert k U)" "\<And>js. length js = 3 \<Longrightarrow> (valid m' r js \<longleftrightarrow> valid m r js \<or> js = path va) \<and>
      (valid m r js \<longrightarrow> node m' r js = node m r js \<and> (\<forall>x<4096. m' (ptr (4096 * node m r js + x)) = m (ptr (4096 * node m r js + x))))"
    "node m' r (path va) = k" "wr \<Longrightarrow> load_bytes m' (ptr (4096 * k)) 4096 = src"
    "\<And>j. j < 4503599627370496 \<Longrightarrow> j \<notin> insert k U \<Longrightarrow> page_zero m j \<Longrightarrow> page_zero m' j"
proof -
  let ?is = "[index va 2, index va 1]" and ?v = "pte_create (ppn (ptr (4096 * k))) flags"
  let ?m = "store64 m (ptr (4096 * node m r ?is + 8 * index va 0)) ?v"
  have p: "path va = ?is @ [index va 0]" by (simp add: path_def)
  have two: "length ?is \<le> 2" "length ?is = 2" by simp_all
  have n: "node m r ?is \<in> U" "node m r ?is < 4503599627370496" using pt_ok_node [OF ok t(1)] by simp_all
  have z: "pte_at m (node m r ?is) (index va 0) = 0"
    using pt_ok_entry [OF ok t(1) two(1) index_less] t index_less [of va 0] unfolding p valid_snoc by auto
  note l = link [OF ok t(1) two(1) index_less z k disjI1 [OF two(2)] pte_create_fields(2) [OF k(3) fl] pte_create_fields(1) [OF k(3) fl] refl]
  have inj: "inj_on (node ?m r) {js. length js \<le> 3 \<and> valid ?m r js}" using l(3) by (simp add: pt_ok_def)
  have vp: "valid ?m r (path va)" "node ?m r (path va) = k" using l(1) [of "path va"] l(2) unfolding p by simp_all
  have tab: "node ?m r js \<noteq> k" if "length js \<le> 2" "valid ?m r js" for js
    using inj_onD [OF inj, of js "path va"] that vp by (auto simp: path_def)
  have keep: "pte_at m' (node ?m r js) i = pte_at ?m (node ?m r js) i" if "length js \<le> 2" "valid ?m r js" "i < 512" for js i
  proof (cases wr)
    case True
    have "node ?m r js < 4503599627370496" using pt_ok_node [OF l(3) that(2)] that(1) by simp
    then show ?thesis using True pte_at_page [OF _ k(3) tab [OF that(1,2)] that(3) src, of ?m] unfolding m' by (simp add: Let_def)
  qed (simp add: m' Let_def)
  note fr = tree_frame [of ?m r m', OF keep]
  show "pt_ok m' r (insert k U)" by (rule pt_ok_frame [OF l(3) keep])
  show "node m' r (path va) = k" using fr [of "path va"] vp by (simp add: path_def)
  show "load_bytes m' (ptr (4096 * k)) 4096 = src" if wr
    using that src unfolding m' by (simp add: Let_def mem_simps)
  show "page_zero m' j" if j: "j < 4503599627370496" "j \<notin> insert k U" "page_zero m j" for j
  proof -
    have "page_zero ?m j" using j n index_less [of va 0] by (auto simp: page_zero_def pte_at_store)
    then show ?thesis using j k(3) src unfolding m' page_zero_def by (auto simp: Let_def pte_at_page)
  qed
  fix js :: "nat list" assume js: "length js = 3"
  have "valid m' r js \<longleftrightarrow> valid m r js \<or> js = path va" "valid m r js \<longrightarrow> node m' r js = node m r js"
    using fr [of js] l(1) [of js] js unfolding p by auto
  moreover have "m' (ptr (4096 * node m r js + x)) = m (ptr (4096 * node m r js + x))" if v: "valid m r js" "x < 4096" for x
  proof -
    have u: "node m r js \<noteq> k" "node m r js < 4503599627370496" using pt_ok_node [OF ok v(1)] js k(1) by auto
    have "inj_on (node m r) {js. length js \<le> 3 \<and> valid m r js}" using ok by (simp add: pt_ok_def)
    then have "node m r js \<noteq> node m r ?is" using inj_onD [of "node m r" _ js ?is] v(1) js t(1) by fastforce
    then have "4096 * node m r js + x < 4096 * node m r ?is + 8 * index va 0 \<or>
        4096 * node m r ?is + 8 * index va 0 + 8 \<le> 4096 * node m r js + x"
      using v(2) index_less [of va 0] by (cases "node m r js" "node m r ?is" rule: linorder_cases) auto
    then have "?m (ptr (4096 * node m r js + x)) = m (ptr (4096 * node m r js + x))"
      using v(2) u n index_less [of va 0] by (intro byte_store) auto
    then show ?thesis unfolding m' using page_byte [OF u(2) k(3) u(1) v(2) src] by (simp add: Let_def)
  qed
  ultimately show "(valid m' r js \<longleftrightarrow> valid m r js \<or> js = path va) \<and>
      (valid m r js \<longrightarrow> node m' r js = node m r js \<and> (\<forall>x<4096. m' (ptr (4096 * node m r js + x)) = m (ptr (4096 * node m r js + x))))"
    by blast
qed

lemma va_to_pa_0: "pt_ok m r U \<Longrightarrow> epm_va_to_pa m (ptr (4096 * r)) va = 0 \<longleftrightarrow> \<not> valid m r (path va)"
  using pt_ok_node [of m r U "path va"] by (auto simp: va_to_pa ptr_eq_0 path_def)

lemma length_path: "length (path va) = 3"
  by (simp add: path_def)

text \<open>
  The loading state after an allocation: the pages \<open>U'\<close> in use, the free lists at the pages \<open>f'\<close> and \<open>g'\<close>,
  and \<open>n\<close> zeroed pages left.
\<close>

definition lists_after :: "keystone \<Rightarrow> keystone \<Rightarrow> nat \<Rightarrow> nat set \<Rightarrow> nat \<Rightarrow> nat \<Rightarrow> nat \<Rightarrow> bool" where
  "lists_after st st' r U' f' g' n \<longleftrightarrow> pt_ok (ks_mem st') r U' \<and> fresh (ks_mem st') U' f' n \<and>
    root_page_table st' = root_page_table st \<and> epm_free_list st' = ptr (4096 * f') \<and> utm_free_list st' = ptr (4096 * g')"

lemma allocPage_cases:
  fixes va :: u64 and fl :: free_list
  assumes ok: "loader_ok st r U f (n + 3) g" and mode: "page_mode mode = Some (flags, wr)" and src: "length src = 4096"
  defines "new \<equiv> \<not> valid (ks_mem st) r (path va)" and "d \<equiv> missing_tables (ks_mem st) r va"
    and "k \<equiv> case fl of Epm_free_list \<Rightarrow> f + missing_tables (ks_mem st) r va | Utm_free_list \<Rightarrow> g"
  shows "\<exists>st'. allocPage va fl src mode st = Some (KEYSTONE_SUCCESS, st') \<and> k \<notin> U \<and>
    lists_after st st' r (U \<union> {f..<f + d} \<union> (if new then {k} else {})) (f + d + of_bool (new \<and> fl = Epm_free_list))
      (g + of_bool (new \<and> fl = Utm_free_list)) n \<and>
    (\<forall>js. length js = 3 \<longrightarrow> (valid (ks_mem st') r js \<longleftrightarrow> valid (ks_mem st) r js \<or> js = path va) \<and>
      (valid (ks_mem st) r js \<longrightarrow> node (ks_mem st') r js = node (ks_mem st) r js \<and>
        (\<forall>x<4096. ks_mem st' (ptr (4096 * node (ks_mem st) r js + x)) = ks_mem st (ptr (4096 * node (ks_mem st) r js + x))))) \<and>
    (new \<longrightarrow> node (ks_mem st') r (path va) = k \<and> (wr \<longrightarrow> load_bytes (ks_mem st') (ptr (4096 * k)) 4096 = src))"
proof -
  let ?m = "ks_mem st" and ?is = "[index va 2, index va 1]"
  have l: "pt_ok ?m r U" "fresh ?m U f (n + 1 + 2)" "root_page_table st = ptr (4096 * r)" "epm_free_list st = ptr (4096 * f)"
    "utm_free_list st = ptr (4096 * g)" "g \<notin> U" "g \<notin> {f..<f + (n + 3)}" "0 < g" "g < 4503599627370496"
    using ok by (simp_all add: loader_ok_def numeral_3_eq_3)
  obtain m f' U' where w: "ept_walk_create (ptr (4096 * r)) va ?m (ptr (4096 * f)) = Some (ptr (4096 * node m r ?is + 8 * index va 0), m, ptr (4096 * f'))"
    "valid m r ?is" "pt_ok m r U'" "U' = U \<union> {f..<f'}" "f \<le> f'" "f' \<le> f + 2" "fresh m U' f' (n + 1)" "same_leaves ?m m r" "f' = f + d"
    unfolding d_def using walk_create [OF l(1,2), of va] by blast
  let ?st = "st\<lparr>ks_mem := m, epm_free_list := ptr (4096 * f')\<rparr>"
  have fr: "fresh m U' f' n" "f' \<notin> U'" "0 < f'" "f' < 4503599627370496" using w(7) by (auto simp: fresh_def)
  have gU: "g \<notin> U'" "g \<notin> {f'..<f' + n}" "g \<noteq> f'" using l(6,7) w(4,5,6) by auto
  have kf: "k = (case fl of Epm_free_list \<Rightarrow> f' | Utm_free_list \<Rightarrow> g)" using w(9) by (cases fl) (simp_all add: k_def d_def)
  then have kU: "k \<notin> U" using fr(2) gU(1) w(4) by (simp split: free_list.split)
  have p: "path va = ?is @ [index va 0]" by (simp add: path_def)
  have vm: "valid m r (path va) \<longleftrightarrow> valid ?m r (path va)" using w(8) [unfolded same_leaves_def, rule_format, OF length_path] by blast
  have "valid m r (path va) \<longleftrightarrow> load64 m (ptr (4096 * node m r ?is + 8 * index va 0)) AND PTE_V \<noteq> 0"
    using w(2) index_less [of va 0] unfolding p valid_snoc pte_at_def by blast
  then have pte: "load64 m (ptr (4096 * node m r ?is + 8 * index va 0)) AND PTE_V = 0 \<longleftrightarrow> \<not> valid ?m r (path va)"
    using vm by blast
  have start: "Option.bind (ept_walk_create (root_page_table st) va ?m (epm_free_list st)) F = F (ptr (4096 * node m r ?is + 8 * index va 0), m, ptr (4096 * f'))" for F :: "_ \<Rightarrow> (keystone_status_t \<times> keystone) option"
    unfolding l(3,4) w(1) by simp
  show ?thesis
  proof (cases "valid ?m r (path va)")
    case True
    have "allocPage va fl src mode st = Some (KEYSTONE_SUCCESS, ?st)"
      unfolding allocPage_def start using True pte by (simp add: Let_def)
    moreover have "lists_after st ?st r U' f' g n" using w(3) fr l by (simp add: lists_after_def)
    moreover have "\<not> new" using True by (simp add: new_def)
    ultimately show ?thesis using w(4,8,9) kU True unfolding same_leaves_def by (intro exI [of _ ?st]) auto
  next
    case False
    have k: "k \<notin> U'" "0 < k" "k < 4503599627370496" using fr gU l(8,9) by (simp_all add: kf split: free_list.split)
    have fl: "get_free_list fl ?st = ptr (4096 * k)" using l(5) by (simp add: get_free_list_def kf split: free_list.split)
    define m' where "m' = (let m1 = store64 m (ptr (4096 * node m r ?is + 8 * index va 0)) (pte_create (ppn (ptr (4096 * k))) flags)
      in if wr then store_bytes m1 (ptr (4096 * k)) src else m1)"
    let ?st' = "advance_free_list fl ?st\<lparr>ks_mem := m'\<rparr>"
    have adv: "ks_mem (advance_free_list fl ?st) = m" "root_page_table (advance_free_list fl ?st) = root_page_table st"
      by (simp_all add: advance_free_list_def split: free_list.split)
    have "unat PAGE_SIZE = 4096" by (simp add: PAGE_SIZE_def PAGE_BITS_def)
    then have a: "allocPage va fl src mode st = Some (KEYSTONE_SUCCESS, ?st')"
      unfolding allocPage_def start using False pte src k(3)
      by (simp add: Let_def mode fl adv drop_PAGE_BITS push_PAGE_BITS WriteMem_def m'_def)
    note leaf = new_leaf [OF w(3,2) _ k page_mode_flags [OF mode] src m'_def]
    have nv: "\<not> valid m r (path va)" using False vm by simp
    let ?f = "f' + of_bool (fl = Epm_free_list)"
    have "fresh m' (insert k U') ?f n"
      unfolding fresh_def
    proof
      fix j assume j: "j \<in> {?f..<?f + n}"
      then have "j \<notin> U'" "0 < j" "j < 4503599627370496" "page_zero m j" using w(7) by (auto simp: fresh_def of_bool_def split: if_splits)
      moreover have "j \<noteq> k" using j gU(2) by (auto simp: kf split: free_list.splits)
      ultimately show "j \<notin> insert k U' \<and> 0 < j \<and> j < 4503599627370496 \<and> page_zero m' j" using leaf(5) [OF nv] by simp
    qed
    then have "lists_after st ?st' r (insert k U') ?f (g + of_bool (fl = Utm_free_list)) n"
      using leaf(1) [OF nv] l(5) adv(2) PAGE_SIZE_ptr [of f'] PAGE_SIZE_ptr [of g]
      by (cases fl) (simp_all add: lists_after_def advance_free_list_def)
    moreover have "insert k U' = U \<union> {f..<f + d} \<union> {k}" using w(4,9) by blast
    moreover have "new" using False by (simp add: new_def)
    moreover have "(valid m' r js \<longleftrightarrow> valid ?m r js \<or> js = path va) \<and> (valid ?m r js \<longrightarrow> node m' r js = node ?m r js \<and>
        (\<forall>x<4096. m' (ptr (4096 * node ?m r js + x)) = ?m (ptr (4096 * node ?m r js + x))))" if "length js = 3" for js
      using leaf(2) [OF nv that] w(8) [unfolded same_leaves_def, rule_format, OF that] by simp
    ultimately show ?thesis using a leaf(3,4) [OF nv] kU w(9) by (intro exI [of _ ?st']) simp
  qed
qed

section \<open>Properties\<close>

text \<open>
  (C18) \<^verbatim>\<open>allocPage\<close> updates the translation at one page.  It first takes one page of the EPM free list for
  each of the \<open>d\<close> inner tables missing on the way to the address.  An address that was not mapped is then
  mapped to the page \<open>k\<close> that is at the head of the given free list at this moment (behind the new tables
  when it is the EPM list), with the data given for the modes that load it, and that list advances by one
  page; an address already mapped keeps its page, and neither list moves further.  Every other
  translation and the contents of all mapped pages stay.  The walk that creates the tables ends.
\<close>

theorem allocPage_maps:
  fixes va :: u64 and fl :: free_list
  assumes "loader_ok st r U f (n + 3) g" "page_mode mode = Some (flags, wr)" "length src = 4096"
  defines "new \<equiv> epm_va_to_pa (ks_mem st) (root_page_table st) va = 0"
    and "d \<equiv> missing_tables (ks_mem st) r va"
    and "k \<equiv> case fl of Epm_free_list \<Rightarrow> f + missing_tables (ks_mem st) r va | Utm_free_list \<Rightarrow> g"
  shows "\<exists>st'. allocPage va fl src mode st = Some (KEYSTONE_SUCCESS, st') \<and>
    (\<forall>a. epm_va_to_pa (ks_mem st') (root_page_table st') a =
      (if path a = path va \<and> new then ptr (4096 * k) else epm_va_to_pa (ks_mem st) (root_page_table st) a)) \<and>
    (new \<and> wr \<longrightarrow> load_bytes (ks_mem st') (ptr (4096 * k)) 4096 = src) \<and>
    (\<forall>a. epm_va_to_pa (ks_mem st) (root_page_table st) a \<noteq> 0 \<longrightarrow>
      load_bytes (ks_mem st') (epm_va_to_pa (ks_mem st) (root_page_table st) a) 4096 =
      load_bytes (ks_mem st) (epm_va_to_pa (ks_mem st) (root_page_table st) a) 4096) \<and>
    epm_free_list st' = ptr (4096 * (f + d + of_bool (new \<and> fl = Epm_free_list))) \<and>
    utm_free_list st' = ptr (4096 * (g + of_bool (new \<and> fl = Utm_free_list))) \<and>
    k \<notin> U \<and>
    lists_after st st' r (U \<union> {f..<f + d} \<union> (if new then {k} else {})) (f + d + of_bool (new \<and> fl = Epm_free_list))
      (g + of_bool (new \<and> fl = Utm_free_list)) n"
proof -
  have l: "pt_ok (ks_mem st) r U" "root_page_table st = ptr (4096 * r)" using assms(1) by (simp_all add: loader_ok_def)
  have new: "new \<longleftrightarrow> \<not> valid (ks_mem st) r (path va)" unfolding new_def l(2) by (rule va_to_pa_0 [OF l(1)])
  obtain st' where s: "allocPage va fl src mode st = Some (KEYSTONE_SUCCESS, st')" "k \<notin> U"
      "lists_after st st' r (U \<union> {f..<f + d} \<union> (if new then {k} else {})) (f + d + of_bool (new \<and> fl = Epm_free_list))
        (g + of_bool (new \<and> fl = Utm_free_list)) n"
    and t: "\<forall>js. length js = 3 \<longrightarrow> (valid (ks_mem st') r js \<longleftrightarrow> valid (ks_mem st) r js \<or> js = path va) \<and>
      (valid (ks_mem st) r js \<longrightarrow> node (ks_mem st') r js = node (ks_mem st) r js \<and>
        (\<forall>x<4096. ks_mem st' (ptr (4096 * node (ks_mem st) r js + x)) = ks_mem st (ptr (4096 * node (ks_mem st) r js + x))))"
    and leaf: "new \<longrightarrow> node (ks_mem st') r (path va) = k \<and> (wr \<longrightarrow> load_bytes (ks_mem st') (ptr (4096 * k)) 4096 = src)"
    using allocPage_cases [OF assms(1-3), of va fl, folded new d_def k_def] by (elim exE conjE) (rule that; assumption)
  have u: "root_page_table st' = root_page_table st" "\<exists>U'. pt_ok (ks_mem st') r U'" using s(3) by (auto simp: lists_after_def)
  have tr: "(valid (ks_mem st') r (path a) \<longleftrightarrow> valid (ks_mem st) r (path a) \<or> path a = path va) \<and>
      (valid (ks_mem st) r (path a) \<longrightarrow> node (ks_mem st') r (path a) = node (ks_mem st) r (path a) \<and>
        (\<forall>x<4096. ks_mem st' (ptr (4096 * node (ks_mem st) r (path a) + x)) = ks_mem st (ptr (4096 * node (ks_mem st) r (path a) + x))))" for a
    by (rule t [rule_format, OF length_path])
  have "load_bytes (ks_mem st') (ptr (4096 * node (ks_mem st) r (path a))) 4096 = load_bytes (ks_mem st) (ptr (4096 * node (ks_mem st) r (path a))) 4096"
    if "valid (ks_mem st) r (path a)" for a
  proof (rule load_bytes_cong)
    fix i assume "i < (4096 :: nat)"
    moreover have "ptr b + of_nat i = ptr (b + i)" for b by (simp add: ptr_def)
    ultimately show "ks_mem st' (ptr (4096 * node (ks_mem st) r (path a)) + of_nat i) =
        ks_mem st (ptr (4096 * node (ks_mem st) r (path a)) + of_nat i)"
      using tr [of a] that by simp
  qed
  then have "\<forall>a. epm_va_to_pa (ks_mem st) (root_page_table st) a \<noteq> 0 \<longrightarrow>
      load_bytes (ks_mem st') (epm_va_to_pa (ks_mem st) (root_page_table st) a) 4096 =
      load_bytes (ks_mem st) (epm_va_to_pa (ks_mem st) (root_page_table st) a) 4096"
    unfolding l(2) va_to_pa_0 [OF l(1)] by (simp add: va_to_pa [OF l(1)])
  moreover obtain U' where U': "pt_ok (ks_mem st') r U'" using u(2) by blast
  have "epm_va_to_pa (ks_mem st') (root_page_table st') a =
      (if path a = path va \<and> new then ptr (4096 * k) else epm_va_to_pa (ks_mem st) (root_page_table st) a)" for a
    unfolding u(1) l(2) new using tr [of a] leaf [unfolded new] by (auto simp: va_to_pa [OF l(1)] va_to_pa [OF U'])
  moreover have "epm_free_list st' = ptr (4096 * (f + d + of_bool (new \<and> fl = Epm_free_list)))"
    "utm_free_list st' = ptr (4096 * (g + of_bool (new \<and> fl = Utm_free_list)))" using s(3) by (simp_all add: lists_after_def)
  ultimately show ?thesis using s leaf by blast
qed

text \<open>An empty tree, for the witness.\<close>

lemma load64_zero: "load64 (\<lambda>_. 0) a = 0"
proof -
  have "load_bytes (\<lambda>_. 0) a 8 = le_bytes 8 (0 :: u64)" by (rule nth_equalityI) (simp_all add: nth_le_bytes)
  then show ?thesis by (simp add: load64_def le_word_le_bytes)
qed

definition sample_loader :: keystone where
  "sample_loader = \<lparr>ks_mem = \<lambda>_. 0, root_page_table = 0x1000, epm_free_list = 0x2000, utm_free_list = 0x64000,
     ks_untrusted_start = 0xf0000000, ks_untrusted_size = 0x1000\<rparr>"

lemma sample_loader_ok: "loader_ok sample_loader 1 {1} 2 (7 + 3) 100"
proof -
  have "valid (\<lambda>_. 0) 1 is \<longleftrightarrow> is = []" for "is" by (cases "is") (simp_all add: pte_at_def load64_zero)
  then have "pt_ok (\<lambda>_. 0) 1 {1}" by (auto simp: pt_ok_def pte_at_def load64_zero inj_on_def)
  moreover have "fresh (\<lambda>_. 0) {1} 2 (7 + 3)" by (auto simp: fresh_def page_zero_def pte_at_def load64_zero)
  ultimately show ?thesis by (simp add: loader_ok_def sample_loader_def ptr_def)
qed

theorem allocPage_maps_witness:
  "\<exists>st'. allocPage 0x10000 Utm_free_list (replicate 4096 7) RT_FULL sample_loader = Some (KEYSTONE_SUCCESS, st') \<and>
    epm_va_to_pa (ks_mem st') (root_page_table st') 0x10000 = ptr (4096 * 100) \<and>
    epm_free_list st' = ptr (4096 * 4) \<and> utm_free_list st' = ptr (4096 * 101) \<and>
    load_bytes (ks_mem st') (ptr (4096 * 100)) 4096 = replicate 4096 7"
proof -
  have m: "page_mode RT_FULL = Some (PTE_D OR PTE_A OR PTE_R OR PTE_W OR PTE_X OR PTE_V OR PTE_L, True)"
    by (simp add: page_mode_def RT_FULL_def USER_NOEXEC_def RT_NOEXEC_def)
  have z: "ks_mem sample_loader = (\<lambda>_. 0)" "root_page_table sample_loader = ptr (4096 * 1)"
    by (simp_all add: sample_loader_def ptr_def)
  have v: "valid (\<lambda>_. 0) 1 is \<longleftrightarrow> is = []" for "is" by (cases "is") (simp_all add: pte_at_def load64_zero)
  have "missing_tables (ks_mem sample_loader) 1 0x10000 = 2" unfolding missing_tables_def z v by simp
  moreover have "epm_va_to_pa (ks_mem sample_loader) (root_page_table sample_loader) 0x10000 = 0"
    using va_to_pa_0 [where m = "\<lambda>_. 0" and r = 1 and U = "{1}" and va = "0x10000"] sample_loader_ok v [of "path 0x10000"]
    by (simp add: loader_ok_def z path_def del: valid.simps)
  ultimately show ?thesis
    using allocPage_maps [OF sample_loader_ok m, where src = "replicate 4096 7" and va = "0x10000" and fl = Utm_free_list] by auto
qed

text \<open>\<^verbatim>\<open>ceil\<close> comes too late: a size one byte over a page boundary needs no more pages than the boundary.\<close>

lemma required_pages_truncated: "calculate_required_pages 4097 0 = calculate_required_pages 4096 0"
  by (simp add: calculate_required_pages_def PAGE_SIZE_def PAGE_BITS_def)

end
