(* ===== verification/EnclaveHash.thy ===== *)
theory EnclaveHash
  imports Sha3 PageTable
begin

text \<open>
  \<^verbatim>\<open>lib/host/include/hash_util.h\<close> and \<^verbatim>\<open>Keystone::validate_and_hash_enclave\<close>: the measurement of an
  enclave.  The three-level page table is walked in the byte memory the table pointers refer to; mappings
  are validated and the mapped pages hashed.  The result \<^verbatim>\<open>-1\<close> is \<open>None\<close>, otherwise the flag
  \<^verbatim>\<open>contiguous\<close> and the hash context with the two maxima are returned.  The theorems reduce the walk to the
  sequence of gaps and leaves of the table, give the bytes that are hashed, and show that an accepted
  enclave maps no page of its private memory twice.
\<close>

section \<open>Code\<close>

definition MDSIZE :: int where "MDSIZE = 64"
record keystone_hash_enclave =
  epm_paddr :: u64
  epm_size :: u64
  utm_paddr :: u64
  utm_size :: u64
  runtime_paddr :: u64
  user_paddr :: u64
  free_paddr :: u64
  untrusted_ptr :: u64
  untrusted_size :: u64

record runtime_params_t =
  params_runtime_entry :: u64
  params_user_entry :: u64
  params_untrusted_ptr :: u64
  params_untrusted_size :: u64

text \<open>The variables behind the pointers \<^verbatim>\<open>hash_ctx\<close>, \<^verbatim>\<open>runtime_max_seen\<close> and \<^verbatim>\<open>user_max_seen\<close>.\<close>

record epm_scan =
  hash_ctx :: sha3_ctx_t
  runtime_max_seen :: u64
  user_max_seen :: u64

definition hash_init :: sha3_ctx_t where "hash_init = sha3_init MDSIZE"

definition hash_extend :: "sha3_ctx_t \<Rightarrow> u8 list \<Rightarrow> sha3_ctx_t" where
  "hash_extend ctx data = sha3_update ctx data"

definition hash_extend_page :: "sha3_ctx_t \<Rightarrow> mem \<Rightarrow> u64 \<Rightarrow> sha3_ctx_t" where
  "hash_extend_page ctx m p = sha3_update ctx (load_bytes m p RISCV_PGSIZE)"

definition hash_finalize :: "sha3_ctx_t \<Rightarrow> u8 list" where
  "hash_finalize ctx = fst (sha3_final ctx)"

definition pte_phys_addr :: "u64 \<Rightarrow> u64" where
  "pte_phys_addr pte = push_bit RISCV_PGSHIFT (drop_bit PTE_PPN_SHIFT pte)"

definition map_in_epm :: "keystone_hash_enclave \<Rightarrow> u64 \<Rightarrow> bool" where
  "map_in_epm cargs phys_addr \<longleftrightarrow> phys_addr \<ge> epm_paddr cargs \<and> phys_addr < epm_paddr cargs + epm_size cargs"

definition map_in_utm :: "keystone_hash_enclave \<Rightarrow> u64 \<Rightarrow> bool" where
  "map_in_utm cargs phys_addr \<longleftrightarrow> phys_addr \<ge> utm_paddr cargs \<and> phys_addr < utm_paddr cargs + utm_size cargs"

definition in_runtime :: "keystone_hash_enclave \<Rightarrow> u64 \<Rightarrow> bool" where
  "in_runtime cargs phys_addr \<longleftrightarrow> phys_addr \<ge> runtime_paddr cargs \<and> phys_addr < user_paddr cargs"

definition in_user :: "keystone_hash_enclave \<Rightarrow> u64 \<Rightarrow> bool" where
  "in_user cargs phys_addr \<longleftrightarrow> phys_addr \<ge> user_paddr cargs \<and> phys_addr < free_paddr cargs"

definition entry_vpn :: "nat \<Rightarrow> u64 \<Rightarrow> u64 \<Rightarrow> u64" where
  "entry_vpn level vaddr i =
    (if level = RISCV_PGLEVEL_TOP \<and> i AND RISCV_PGTABLE_HIGHEST_BIT \<noteq> 0
     then push_bit RISCV_PGLEVEL_BITS (- 1) OR (i AND RISCV_PGLEVEL_MASK)
     else push_bit RISCV_PGLEVEL_BITS vaddr OR (i AND RISCV_PGLEVEL_MASK))"

text \<open>The branch \<^verbatim>\<open>level == 1\<close> of the loop body: validation and hashing of a leaf.\<close>

definition epm_leaf :: "keystone_hash_enclave \<Rightarrow> mem \<Rightarrow> u64 \<Rightarrow> u64 \<Rightarrow> bool \<times> epm_scan \<Rightarrow> (bool \<times> epm_scan) option" where
  "epm_leaf cargs m va_start pte = (\<lambda>(contiguous, st).
    let phys_addr = pte_phys_addr pte;
        (contiguous, st) =
          (if \<not> contiguous then (True, st\<lparr>hash_ctx := hash_extend (hash_ctx st) (le_bytes 8 va_start)\<rparr>)
           else (contiguous, st))
    in if in_user cargs phys_addr \<and> pte AND PTE_U = 0 then None
       else if va_start \<ge> untrusted_ptr cargs \<and> va_start < untrusted_ptr cargs + untrusted_size cargs \<and>
         \<not> map_in_utm cargs phys_addr then None
       else if in_runtime cargs phys_addr then
         if phys_addr \<le> runtime_max_seen st then None
         else let st = st\<lparr>runtime_max_seen := phys_addr\<rparr>
              in Some (contiguous, st\<lparr>hash_ctx := hash_extend_page (hash_ctx st) m phys_addr\<rparr>)
       else if in_user cargs phys_addr then
         if phys_addr \<le> user_max_seen st then None
         else let st = st\<lparr>user_max_seen := phys_addr\<rparr>
              in Some (contiguous, st\<lparr>hash_ctx := hash_extend_page (hash_ctx st) m phys_addr\<rparr>)
       else if map_in_utm cargs phys_addr then
         Some (contiguous, st\<lparr>hash_ctx := hash_extend_page (hash_ctx st) m phys_addr\<rparr>)
       else None)"

text \<open>The loop body; \<open>rec\<close> is the recursive call on the next lower level.\<close>

definition epm_entry :: "(u64 \<Rightarrow> u64 \<Rightarrow> bool \<times> epm_scan \<Rightarrow> (bool \<times> epm_scan) option) \<Rightarrow> keystone_hash_enclave \<Rightarrow> mem \<Rightarrow>
    nat \<Rightarrow> u64 \<Rightarrow> u64 \<Rightarrow> nat \<Rightarrow> bool \<times> epm_scan \<Rightarrow> (bool \<times> epm_scan) option" where
  "epm_entry rec cargs m level tb vaddr i = (\<lambda>(contiguous, st).
    let pte = load64 m (tb + 8 * of_nat i)
    in if pte = 0 then Some (False, st)
       else let phys_addr = pte_phys_addr pte
       in if \<not> map_in_epm cargs phys_addr \<and> (\<not> map_in_utm cargs phys_addr \<or> level \<noteq> 1) then None
       else let vpn = entry_vpn level vaddr (of_nat i); va_start = push_bit RISCV_PGSHIFT vpn
       in if level = 1 then epm_leaf cargs m va_start pte (contiguous, st)
          else rec phys_addr vpn (contiguous, st))"

text \<open>The loop over the remaining entries of a table.\<close>

fun epm_loop :: "(nat \<Rightarrow> bool \<times> epm_scan \<Rightarrow> (bool \<times> epm_scan) option) \<Rightarrow> nat list \<Rightarrow> bool \<times> epm_scan \<Rightarrow> (bool \<times> epm_scan) option" where
  "epm_loop f [] s = Some s"
| "epm_loop f (i # is) s = (case f i s of None \<Rightarrow> None | Some s \<Rightarrow> epm_loop f is s)"

text \<open>The first argument is \<^verbatim>\<open>level - 1\<close>, so that the recursion ends at level 1.\<close>

primrec validate_and_hash_epm :: "nat \<Rightarrow> keystone_hash_enclave \<Rightarrow> mem \<Rightarrow> u64 \<Rightarrow> u64 \<Rightarrow> bool \<times> epm_scan \<Rightarrow> (bool \<times> epm_scan) option" where
  "validate_and_hash_epm 0 cargs m tb vaddr s =
    epm_loop (epm_entry (\<lambda>_ _ _. None) cargs m 1 tb vaddr) [0..<RISCV_PGSIZE div 8] s"
| "validate_and_hash_epm (Suc n) cargs m tb vaddr s =
    epm_loop (epm_entry (validate_and_hash_epm n cargs m) cargs m (Suc (Suc n)) tb vaddr) [0..<RISCV_PGSIZE div 8] s"

definition runtime_params_bytes :: "runtime_params_t \<Rightarrow> u8 list" where
  "runtime_params_bytes args = le_bytes 8 (params_runtime_entry args) @ le_bytes 8 (params_user_entry args) @
    le_bytes 8 (params_untrusted_ptr args) @ le_bytes 8 (params_untrusted_size args)"

text \<open>The hash, or \<open>None\<close> for \<^verbatim>\<open>KEYSTONE_ERROR\<close>.\<close>

definition validate_and_hash_enclave :: "mem \<Rightarrow> u64 \<Rightarrow> runtime_params_t \<Rightarrow> keystone_hash_enclave \<Rightarrow> u8 list option" where
  "validate_and_hash_enclave m root_table args cargs =
    (let ctx = hash_extend hash_init (runtime_params_bytes args);
         s = \<lparr>hash_ctx = ctx, runtime_max_seen = 0, user_max_seen = 0\<rparr>
     in case validate_and_hash_epm (RISCV_PGLEVEL_TOP - 1) cargs m root_table 0 (False, s) of
          None \<Rightarrow> None
        | Some (contiguous, s) \<Rightarrow> Some (hash_finalize (hash_ctx s)))"

section \<open>Gaps and leaves\<close>

text \<open>What the walk meets, in order: empty entries of any level, and leaves with address and entry.\<close>

datatype epm_event = Gap | Leaf u64 u64

primrec epm_events :: "nat \<Rightarrow> mem \<Rightarrow> u64 \<Rightarrow> u64 \<Rightarrow> epm_event list" where
  "epm_events 0 m tb vaddr = map (\<lambda>i. let pte = load64 m (tb + 8 * of_nat i)
    in if pte = 0 then Gap else Leaf (push_bit RISCV_PGSHIFT (entry_vpn 1 vaddr (of_nat i))) pte) [0..<512]"
| "epm_events (Suc n) m tb vaddr = concat (map (\<lambda>i. let pte = load64 m (tb + 8 * of_nat i)
    in if pte = 0 then [Gap] else epm_events n m (pte_phys_addr pte) (entry_vpn (Suc (Suc n)) vaddr (of_nat i))) [0..<512])"

text \<open>All tables below the root lie in the enclave's private memory.\<close>

primrec epm_tables_ok :: "nat \<Rightarrow> keystone_hash_enclave \<Rightarrow> mem \<Rightarrow> u64 \<Rightarrow> bool" where
  "epm_tables_ok 0 cargs m tb = True"
| "epm_tables_ok (Suc n) cargs m tb = (\<forall>i\<in>set [0..<512]. let pte = load64 m (tb + 8 * of_nat i)
    in pte = 0 \<or> map_in_epm cargs (pte_phys_addr pte) \<and> epm_tables_ok n cargs m (pte_phys_addr pte))"

definition epm_step :: "keystone_hash_enclave \<Rightarrow> mem \<Rightarrow> epm_event \<Rightarrow> bool \<times> epm_scan \<Rightarrow> (bool \<times> epm_scan) option" where
  "epm_step cargs m e = (\<lambda>(contiguous, st). case e of Gap \<Rightarrow> Some (False, st)
    | Leaf va pte \<Rightarrow> if \<not> map_in_epm cargs (pte_phys_addr pte) \<and> \<not> map_in_utm cargs (pte_phys_addr pte) then None
        else epm_leaf cargs m va pte (contiguous, st))"

fun epm_run :: "keystone_hash_enclave \<Rightarrow> mem \<Rightarrow> epm_event list \<Rightarrow> bool \<times> epm_scan \<Rightarrow> (bool \<times> epm_scan) option" where
  "epm_run cargs m [] s = Some s"
| "epm_run cargs m (e # es) s = (case epm_step cargs m e s of None \<Rightarrow> None | Some s \<Rightarrow> epm_run cargs m es s)"

lemma epm_run_append: "epm_run cargs m (xs @ ys) s = (case epm_run cargs m xs s of None \<Rightarrow> None | Some s \<Rightarrow> epm_run cargs m ys s)"
  by (induction xs arbitrary: s) (auto split: option.split)

lemma pgsize_entries: "RISCV_PGSIZE div 8 = 512"
  by (simp add: RISCV_PGSIZE_def)

lemma validate_leaves: "validate_and_hash_epm 0 cargs m tb vaddr s = epm_run cargs m (epm_events 0 m tb vaddr) s"
proof -
  have "epm_loop (epm_entry (\<lambda>_ _ _. None) cargs m 1 tb vaddr) is s =
    epm_run cargs m (map (\<lambda>i. let pte = load64 m (tb + 8 * of_nat i)
      in if pte = 0 then Gap else Leaf (push_bit RISCV_PGSHIFT (entry_vpn 1 vaddr (of_nat i))) pte) is) s" for "is"
    by (induction "is" arbitrary: s) (auto simp: epm_entry_def epm_step_def Let_def split: prod.splits option.splits)
  then show ?thesis unfolding validate_and_hash_epm.simps epm_events.simps pgsize_entries .
qed

lemma epm_entry_zero: "load64 m (tb + 8 * of_nat i) = 0 \<Longrightarrow> epm_entry rec cargs m level tb vaddr i (c, st) = Some (False, st)"
  by (simp add: epm_entry_def)

lemma epm_entry_table:
  "load64 m (tb + 8 * of_nat i) \<noteq> 0 \<Longrightarrow> level \<noteq> 1 \<Longrightarrow> epm_entry rec cargs m level tb vaddr i (c, st) =
    (if map_in_epm cargs (pte_phys_addr (load64 m (tb + 8 * of_nat i)))
     then rec (pte_phys_addr (load64 m (tb + 8 * of_nat i))) (entry_vpn level vaddr (of_nat i)) (c, st) else None)"
  by (simp add: epm_entry_def Let_def)

lemma validate_run:
  "validate_and_hash_epm n cargs m tb vaddr s =
    (if epm_tables_ok n cargs m tb then epm_run cargs m (epm_events n m tb vaddr) s else None)"
proof (induction n arbitrary: tb vaddr s)
  case 0
  then show ?case using validate_leaves by simp
next
  case (Suc n)
  let ?pte = "\<lambda>i. load64 m (tb + 8 * of_nat i)"
  have "epm_loop (epm_entry (validate_and_hash_epm n cargs m) cargs m (Suc (Suc n)) tb vaddr) is s =
    (if \<forall>i\<in>set is. ?pte i = 0 \<or> map_in_epm cargs (pte_phys_addr (?pte i)) \<and> epm_tables_ok n cargs m (pte_phys_addr (?pte i))
     then epm_run cargs m (concat (map (\<lambda>i. if ?pte i = 0 then [Gap]
       else epm_events n m (pte_phys_addr (?pte i)) (entry_vpn (Suc (Suc n)) vaddr (of_nat i))) is)) s
     else None)" for "is"
  proof (induction "is" arbitrary: s)
    case (Cons i js)
    obtain c st where s: "s = (c, st)" by (cases s)
    show ?case
    proof (cases "?pte i = 0")
      case True
      then show ?thesis by (auto simp: s epm_entry_zero Cons.IH epm_step_def)
    next
      case False
      then show ?thesis
        by (cases "map_in_epm cargs (pte_phys_addr (?pte i))"; cases "epm_tables_ok n cargs m (pte_phys_addr (?pte i))")
          (auto simp: s epm_entry_table Suc.IH [of "pte_phys_addr (?pte i)" _ "(c, st)"] Cons.IH epm_run_append split: option.split)
    qed
  qed simp
  then show ?case by (simp only: validate_and_hash_epm.simps epm_events.simps epm_tables_ok.simps pgsize_entries Let_def)
qed

section \<open>The measurement\<close>

text \<open>The bytes hashed: the address of the first page of every contiguous range, and the contents of the pages.\<close>

fun measured :: "mem \<Rightarrow> bool \<Rightarrow> epm_event list \<Rightarrow> u8 list" where
  "measured m c [] = []"
| "measured m c (Gap # es) = measured m False es"
| "measured m c (Leaf va pte # es) = (if c then [] else le_bytes 8 va) @ load_bytes m (pte_phys_addr pte) 4096 @ measured m True es"

lemma leaf_hash:
  "epm_leaf cargs m va pte (c, st) = Some (c', st') \<Longrightarrow>
    c' \<and> hash_ctx st' = sha3_update (hash_ctx st) ((if c then [] else le_bytes 8 va) @ load_bytes m (pte_phys_addr pte) 4096)"
  by (auto simp: epm_leaf_def Let_def hash_extend_def hash_extend_page_def RISCV_PGSIZE_def update_append split: if_splits)

lemma sha3_update_Nil: "ctx_pt c = 0 \<Longrightarrow> sha3_update c [] = c"
  by (simp add: sha3_update_def)

lemma update_Nil: "sha3_update (sha3_update c as) [] = sha3_update c as"
  by (simp add: update_append)

lemma run_hash:
  "epm_run cargs m es (c, st) = Some (c', st') \<Longrightarrow> hash_ctx st = sha3_update ctx as \<Longrightarrow>
    hash_ctx st' = sha3_update ctx (as @ measured m c es)"
proof (induction es arbitrary: c st as)
  case (Cons e es)
  show ?case
  proof (cases e)
    case Gap
    then show ?thesis using Cons.prems Cons.IH [of False st as] by (simp add: epm_step_def)
  next
    case (Leaf va pte)
    then obtain d u where u: "epm_leaf cargs m va pte (c, st) = Some (d, u)" "epm_run cargs m es (d, u) = Some (c', st')"
      using Cons.prems(1) by (auto simp: epm_step_def split: if_splits option.splits)
    then have "d" "hash_ctx u = sha3_update ctx (as @ (if c then [] else le_bytes 8 va) @ load_bytes m (pte_phys_addr pte) 4096)"
      using leaf_hash [OF u(1)] Cons.prems(2) by (simp_all add: update_append)
    then show ?thesis using Cons.IH [of True u] u(2) Leaf by simp
  qed
qed simp

section \<open>Linear mappings\<close>

fun leaves :: "epm_event list \<Rightarrow> (u64 \<times> u64) list" where
  "leaves [] = []"
| "leaves (Gap # es) = leaves es"
| "leaves (Leaf va pte # es) = (va, pte) # leaves es"

definition leaf_ok :: "keystone_hash_enclave \<Rightarrow> u64 \<times> u64 \<Rightarrow> bool" where
  "leaf_ok cargs = (\<lambda>(va, pte). let pa = pte_phys_addr pte in
    (map_in_epm cargs pa \<or> map_in_utm cargs pa) \<and> (in_runtime cargs pa \<or> in_user cargs pa \<or> map_in_utm cargs pa) \<and>
    (in_user cargs pa \<longrightarrow> pte AND PTE_U \<noteq> 0) \<and>
    (untrusted_ptr cargs \<le> va \<and> va < untrusted_ptr cargs + untrusted_size cargs \<longrightarrow> map_in_utm cargs pa))"

lemma in_runtime_user: "in_runtime cargs pa \<Longrightarrow> \<not> in_user cargs pa"
  by (auto simp: in_runtime_def in_user_def dest: leD)

lemma epm_leaf_ok:
  assumes "map_in_epm cargs (pte_phys_addr pte) \<or> map_in_utm cargs (pte_phys_addr pte)"
  shows "epm_leaf cargs m va pte (c, st) \<noteq> None \<longleftrightarrow> leaf_ok cargs (va, pte) \<and>
      (in_runtime cargs (pte_phys_addr pte) \<longrightarrow> runtime_max_seen st < pte_phys_addr pte) \<and>
      (in_user cargs (pte_phys_addr pte) \<longrightarrow> user_max_seen st < pte_phys_addr pte)"
    "epm_leaf cargs m va pte (c, st) = Some (c', st') \<Longrightarrow>
      runtime_max_seen st' = (if in_runtime cargs (pte_phys_addr pte) then pte_phys_addr pte else runtime_max_seen st) \<and>
      user_max_seen st' = (if in_user cargs (pte_phys_addr pte) then pte_phys_addr pte else user_max_seen st)"
   apply (cases "in_runtime cargs (pte_phys_addr pte)"; cases "in_user cargs (pte_phys_addr pte)")
      apply (use assms in \<open>simp_all add: epm_leaf_def leaf_ok_def Let_def in_runtime_user not_le not_less\<close>)
  apply (cases "in_runtime cargs (pte_phys_addr pte)"; cases "in_user cargs (pte_phys_addr pte)")
     apply (auto simp: epm_leaf_def Let_def in_runtime_user split: if_splits)
  done

definition pages_where :: "(u64 \<Rightarrow> bool) \<Rightarrow> epm_event list \<Rightarrow> u64 list" where
  "pages_where P es = filter P (map (pte_phys_addr \<circ> snd) (leaves es))"

lemma pages_where_simps [simp]:
  "pages_where P [] = []" "pages_where P (Gap # es) = pages_where P es"
  "pages_where P (Leaf va pte # es) = (if P (pte_phys_addr pte) then [pte_phys_addr pte] else []) @ pages_where P es"
  by (simp_all add: pages_where_def)

text \<open>A run is accepted exactly when all leaves are sound and the pages of both spaces ascend.\<close>

lemma run_accepts:
  "epm_run cargs m es (c, st) \<noteq> None \<longleftrightarrow> (\<forall>l\<in>set (leaves es). leaf_ok cargs l) \<and>
    sorted_wrt (<) (runtime_max_seen st # pages_where (in_runtime cargs) es) \<and>
    sorted_wrt (<) (user_max_seen st # pages_where (in_user cargs) es)"
proof (induction es arbitrary: c st)
  case (Cons e es)
  show ?case
  proof (cases e)
    case Gap
    then show ?thesis using Cons.IH by (simp add: epm_step_def)
  next
    case (Leaf va pte)
    let ?pa = "pte_phys_addr pte"
    show ?thesis
    proof (cases "epm_step cargs m e (c, st)")
      case None
      then have "\<not> leaf_ok cargs (va, pte) \<or> in_runtime cargs ?pa \<and> \<not> runtime_max_seen st < ?pa \<or>
          in_user cargs ?pa \<and> \<not> user_max_seen st < ?pa"
        using Leaf epm_leaf_ok(1) [of cargs pte m va c st] by (auto simp: epm_step_def leaf_ok_def Let_def split: if_splits)
      then show ?thesis using None Leaf by auto
    next
      case (Some s)
      obtain d u where s: "s = (d, u)" by (cases s)
      have m: "map_in_epm cargs ?pa \<or> map_in_utm cargs ?pa" and l: "epm_leaf cargs m va pte (c, st) = Some (d, u)"
        using Some Leaf s by (auto simp: epm_step_def split: if_splits)
      have ok: "leaf_ok cargs (va, pte)" "in_runtime cargs ?pa \<longrightarrow> runtime_max_seen st < ?pa"
          "in_user cargs ?pa \<longrightarrow> user_max_seen st < ?pa"
        using epm_leaf_ok(1) [OF m, of m va c st] l by auto
      show ?thesis
        using Some s Leaf ok Cons.IH [of d u] epm_leaf_ok(2) [OF m l] by (auto intro: less_trans)
    qed
  qed
qed simp

lemma TOP_minus_1: "RISCV_PGLEVEL_TOP - 1 = 2"
  by (simp add: RISCV_PGLEVEL_TOP_def VA_BITS_def RISCV_PGSHIFT_def RISCV_PGLEVEL_BITS_def)

lemma accepted_iff:
  "validate_and_hash_enclave m root args cargs \<noteq> None \<longleftrightarrow>
    epm_tables_ok 2 cargs m root \<and> list_all (leaf_ok cargs) (leaves (epm_events 2 m root 0)) \<and>
    sorted_wrt (<) (0 # pages_where (in_runtime cargs) (epm_events 2 m root 0)) \<and>
    sorted_wrt (<) (0 # pages_where (in_user cargs) (epm_events 2 m root 0))"
  using run_accepts [of cargs m "epm_events 2 m root 0" False
      "\<lparr>hash_ctx = hash_extend hash_init (runtime_params_bytes args), runtime_max_seen = 0, user_max_seen = 0\<rparr>"]
  unfolding validate_and_hash_enclave_def Let_def TOP_minus_1 validate_run list_all_iff
  by (auto simp del: sorted_wrt.simps split: option.splits)

section \<open>Properties\<close>

text \<open>
  (C19) \<^verbatim>\<open>validate_and_hash_enclave\<close> accepts exactly the page tables whose inner tables lie in private
  memory, whose leaves are sound (mapped inside the enclave's or the shared memory, user pages with the
  user bit, the shared window only onto shared memory), and whose pages ascend strictly in address order,
  separately for the runtime and for the application.
\<close>

theorem enclave_accepted_iff:
  "validate_and_hash_enclave m root args cargs \<noteq> None \<longleftrightarrow>
    epm_tables_ok 2 cargs m root \<and> list_all (leaf_ok cargs) (leaves (epm_events 2 m root 0)) \<and>
    sorted_wrt (<) (0 # pages_where (in_runtime cargs) (epm_events 2 m root 0)) \<and>
    sorted_wrt (<) (0 # pages_where (in_user cargs) (epm_events 2 m root 0))"
  by (rule accepted_iff)

lemma private_pages_distinct:
  assumes "sorted_wrt (<) (pages_where (in_runtime cargs) es)" "sorted_wrt (<) (pages_where (in_user cargs) es)"
  shows "distinct (pages_where (\<lambda>pa. in_runtime cargs pa \<or> in_user cargs pa) es)"
  using assms
proof (induction es rule: leaves.induct)
  case (3 va pte es)
  have "sorted_wrt (<) (pages_where P (Leaf va pte # es)) \<Longrightarrow> sorted_wrt (<) (pages_where P es) \<and>
      (P (pte_phys_addr pte) \<longrightarrow> pte_phys_addr pte \<notin> set (pages_where P es))" for P
    by (auto split: if_splits)
  from this [OF 3(2)] this [OF 3(3)] show ?case
    using 3(1) in_runtime_user [of cargs "pte_phys_addr pte"] by (auto simp: pages_where_def)
qed simp_all

text \<open>
  (C17) An accepted enclave maps no page of its private memory twice, neither inside one space nor between
  the runtime and the application; the addresses of the shared window lead to shared memory only.
\<close>

theorem enclave_private_pages_once:
  assumes "validate_and_hash_enclave m root args cargs = Some h"
  shows "distinct (pages_where (\<lambda>pa. in_runtime cargs pa \<or> in_user cargs pa) (epm_events 2 m root 0)) \<and>
    (\<forall>(va, pte)\<in>set (leaves (epm_events 2 m root 0)).
      untrusted_ptr cargs \<le> va \<and> va < untrusted_ptr cargs + untrusted_size cargs \<longrightarrow> map_in_utm cargs (pte_phys_addr pte))"
proof -
  have a: "list_all (leaf_ok cargs) (leaves (epm_events 2 m root 0))"
    "sorted_wrt (<) (0 # pages_where (in_runtime cargs) (epm_events 2 m root 0))"
    "sorted_wrt (<) (0 # pages_where (in_user cargs) (epm_events 2 m root 0))"
    using accepted_iff [of m root args cargs] assms by simp_all
  then have "distinct (pages_where (\<lambda>pa. in_runtime cargs pa \<or> in_user cargs pa) (epm_events 2 m root 0))"
    by (intro private_pages_distinct) simp_all
  moreover have "\<forall>(va, pte)\<in>set (leaves (epm_events 2 m root 0)).
      untrusted_ptr cargs \<le> va \<and> va < untrusted_ptr cargs + untrusted_size cargs \<longrightarrow> map_in_utm cargs (pte_phys_addr pte)"
    using a(1) by (auto simp: list_all_iff leaf_ok_def Let_def)
  ultimately show ?thesis by blast
qed

text \<open>
  (C16) The measurement is the SHA3-512 hash of the runtime parameters and, in address order, of the
  contents of every mapped page, preceded by its virtual address where a contiguous range begins: it does
  not depend on where the pages and tables are.
\<close>

theorem measurement_bytes:
  assumes "validate_and_hash_enclave m root args cargs = Some h"
  shows "h = sha3 (runtime_params_bytes args @ measured m False (epm_events 2 m root 0)) 64"
proof -
  let ?s = "\<lparr>hash_ctx = hash_extend hash_init (runtime_params_bytes args), runtime_max_seen = 0, user_max_seen = 0\<rparr>"
  obtain c st where r: "epm_run cargs m (epm_events 2 m root 0) (False, ?s) = Some (c, st)" "h = hash_finalize (hash_ctx st)"
    using assms unfolding validate_and_hash_enclave_def Let_def TOP_minus_1 validate_run
    by (auto split: option.splits if_splits)
  have "hash_ctx st = sha3_update (sha3_init 64) (runtime_params_bytes args @ measured m False (epm_events 2 m root 0))"
    by (rule run_hash [OF r(1)]) (simp add: hash_extend_def hash_init_def MDSIZE_def)
  then show ?thesis by (simp add: r(2) hash_finalize_def sha3_def)
qed

text \<open>
  The witnesses use a table with two leaves: page 4 of the runtime at \<^verbatim>\<open>0x5000\<close> and page 6 of the application
  at \<^verbatim>\<open>0x6000\<close>.
\<close>

definition sample_cargs :: keystone_hash_enclave where
  "sample_cargs = \<lparr>epm_paddr = 0x1000, epm_size = 0x9000, utm_paddr = 0x20000, utm_size = 0x1000, runtime_paddr = 0x4000,
     user_paddr = 0x6000, free_paddr = 0x8000, untrusted_ptr = 0xf0000000, untrusted_size = 0x1000\<rparr>"

definition sample_args :: runtime_params_t where
  "sample_args = \<lparr>params_runtime_entry = 1, params_user_entry = 2, params_untrusted_ptr = 0xf0000000, params_untrusted_size = 0x1000\<rparr>"

definition sample_entry :: "nat \<Rightarrow> nat \<Rightarrow> u64 \<Rightarrow> mem \<Rightarrow> mem" where
  "sample_entry k i v m = store64 m (ptr (4096 * k + 8 * i)) v"

definition sample_mem :: mem where
  "sample_mem = sample_entry 3 6 (pte_create 6 (PTE_U OR PTE_R)) (sample_entry 3 5 (pte_create 4 PTE_R)
     (sample_entry 2 0 (ptd_create 3) (sample_entry 1 0 (ptd_create 2) (\<lambda>_. 0))))"

lemma sample_values: "pte_create 6 (PTE_U OR PTE_R) = 6163" "pte_create 4 PTE_R = 4099" "ptd_create 3 = 3073" "ptd_create 2 = 2049"
  by code_simp+

lemma pte_at_entry: "k < 4503599627370496 \<Longrightarrow> n < 4503599627370496 \<Longrightarrow> i < 512 \<Longrightarrow> j < 512 \<Longrightarrow>
    pte_at (sample_entry n i v m) k j = (if k = n \<and> j = i then v else pte_at m k j)"
  unfolding sample_entry_def by (rule pte_at_store)

lemma sample_pte: "k < 4503599627370496 \<Longrightarrow> i < 512 \<Longrightarrow> pte_at sample_mem k i =
    (if k = 3 \<and> i = 6 then 6163 else if k = 3 \<and> i = 5 then 4099 else if k = 2 \<and> i = 0 then 3073 else if k = 1 \<and> i = 0 then 2049 else 0)"
  unfolding sample_mem_def sample_values by (simp add: pte_at_entry) (simp add: pte_at_def load64_zero)

lemma load64_pte: "load64 m (ptr (4096 * k) + 8 * of_nat i) = pte_at m k i"
  by (simp add: pte_at_def ptr_def)

lemma leaves_append: "leaves (xs @ ys) = leaves xs @ leaves ys"
  by (induction xs rule: leaves.induct) simp_all

lemma leaves_map: "leaves (map (\<lambda>i. if P i then Gap else Leaf (a i) (b i)) is) = map (\<lambda>i. (a i, b i)) (filter (\<lambda>i. \<not> P i) is)"
  by (induction "is") simp_all

lemma leaves_concat: "leaves (concat (map (\<lambda>i. if P i then [Gap] else f i) is)) = concat (map (\<lambda>i. leaves (f i)) (filter (\<lambda>i. \<not> P i) is))"
  by (induction "is") (simp_all add: leaves_append)

lemma filter_upt_cong: "(\<And>i. i < n \<Longrightarrow> P i = Q i) \<Longrightarrow> filter P [0..<n] = filter Q [0..<n]"
  by (intro filter_cong) auto

lemma filter_upt_eq: "j < n \<Longrightarrow> filter (\<lambda>i. i = j) [0..<n] = [j]"
  by (induction n) (auto simp: less_Suc_eq)

lemma filter_upt_two: "7 \<le> n \<Longrightarrow> filter (\<lambda>i. i = 5 \<or> i = 6) [0..<n] = [5, 6]"
  by (induction n rule: nat_induct_at_least) (simp add: upt_conv_Cons, simp)

lemma filter_entries: "filter (\<lambda>i. \<not> pte_at sample_mem 1 i = 0) [0..<512] = [0]"
    "filter (\<lambda>i. \<not> pte_at sample_mem 2 i = 0) [0..<512] = [0]" "filter (\<lambda>i. \<not> pte_at sample_mem 3 i = 0) [0..<512] = [5, 6]"
proof -
  have "filter (\<lambda>i. \<not> pte_at sample_mem 1 i = 0) [0..<512] = filter (\<lambda>i. i = 0) [0..<512]"
    by (rule filter_upt_cong) (simp add: sample_pte)
  moreover have "filter (\<lambda>i. \<not> pte_at sample_mem 2 i = 0) [0..<512] = filter (\<lambda>i. i = 0) [0..<512]"
    by (rule filter_upt_cong) (simp add: sample_pte)
  moreover have "filter (\<lambda>i. \<not> pte_at sample_mem 3 i = 0) [0..<512] = filter (\<lambda>i. i = 5 \<or> i = 6) [0..<512]"
    by (rule filter_upt_cong) (simp add: sample_pte)
  moreover have "filter (\<lambda>i. i = 0) [0..<512] = [0 :: nat]" by (rule filter_upt_eq) simp
  moreover have "filter (\<lambda>i. i = 5 \<or> i = 6) [0..<512] = [5, 6 :: nat]" by (rule filter_upt_two) simp
  ultimately show "filter (\<lambda>i. \<not> pte_at sample_mem 1 i = 0) [0..<512] = [0]"
    "filter (\<lambda>i. \<not> pte_at sample_mem 2 i = 0) [0..<512] = [0]" "filter (\<lambda>i. \<not> pte_at sample_mem 3 i = 0) [0..<512] = [5, 6]"
    by (simp_all only:)
qed

lemma sample_addrs: "pte_phys_addr 6163 = 0x6000" "pte_phys_addr 4099 = 0x4000" "pte_phys_addr 3073 = ptr (4096 * 3)" "pte_phys_addr 2049 = ptr (4096 * 2)"
  by (simp_all add: ptr_def) code_simp+

text \<open>The entries of the tables of the sample, and the walk one level up from a table with one entry.\<close>

lemma sample_entries: "pte_at sample_mem 1 0 = 2049" "pte_at sample_mem 2 0 = 3073" "pte_at sample_mem 3 5 = 4099" "pte_at sample_mem 3 6 = 6163"
  by (simp_all add: sample_pte)

lemma leaves_one_entry:
  assumes "filter (\<lambda>i. \<not> pte_at m k i = 0) [0..<512] = [j]"
  shows "leaves (epm_events (Suc n) m (ptr (4096 * k)) v) = leaves (epm_events n m (pte_phys_addr (pte_at m k j)) (entry_vpn (Suc (Suc n)) v (of_nat j)))"
  unfolding epm_events.simps Let_def load64_pte leaves_concat assms by simp

lemma tables_ok_pte: "epm_tables_ok (Suc n) cargs m (ptr (4096 * k)) \<longleftrightarrow> (\<forall>i<512. pte_at m k i = 0 \<or>
    map_in_epm cargs (pte_phys_addr (pte_at m k i)) \<and> epm_tables_ok n cargs m (pte_phys_addr (pte_at m k i)))"
  unfolding epm_tables_ok.simps load64_pte Let_def set_upt by auto

lemma sample_leaves: "leaves (epm_events 2 sample_mem (ptr (4096 * 1)) 0) = [(0x5000, 4099), (0x6000, 6163)]"
proof -
  have v: "entry_vpn (Suc (Suc (Suc 0))) 0 (of_nat 0) = 0" "entry_vpn (Suc (Suc 0)) 0 (of_nat 0) = 0"
    "push_bit RISCV_PGSHIFT (entry_vpn 1 0 (of_nat 5)) = (0x5000 :: u64)" "push_bit RISCV_PGSHIFT (entry_vpn 1 0 (of_nat 6)) = (0x6000 :: u64)"
    by code_simp+
  have "leaves (epm_events 0 sample_mem (ptr (4096 * 3)) 0) = [(0x5000, 4099), (0x6000, 6163)]"
    unfolding epm_events.simps Let_def load64_pte leaves_map filter_entries list.map v sample_entries ..
  then have "leaves (epm_events (Suc (Suc 0)) sample_mem (ptr (4096 * 1)) 0) = [(0x5000, 4099), (0x6000, 6163)]"
    unfolding leaves_one_entry [OF filter_entries(1)] leaves_one_entry [OF filter_entries(2)] sample_entries sample_addrs v .
  then show ?thesis unfolding numeral_2_eq_2 .
qed

lemma sample_tables: "epm_tables_ok 2 sample_cargs sample_mem (ptr (4096 * 1))"
proof -
  have e: "map_in_epm sample_cargs (ptr (4096 * 2))" "map_in_epm sample_cargs (ptr (4096 * 3))" unfolding ptr_def by code_simp+
  have t: "epm_tables_ok (Suc 0) sample_cargs sample_mem (ptr (4096 * 2))"
    unfolding tables_ok_pte [of 0] epm_tables_ok.simps(1)
  proof (intro allI impI)
    fix i :: nat assume "i < 512"
    then show "pte_at sample_mem 2 i = 0 \<or> map_in_epm sample_cargs (pte_phys_addr (pte_at sample_mem 2 i)) \<and> True"
      using e(2) sample_entries(2) by (cases "i = 0") (simp_all only: sample_addrs, simp_all add: sample_pte)
  qed
  show ?thesis
    unfolding numeral_2_eq_2 tables_ok_pte [of "Suc 0"]
  proof (intro allI impI)
    fix i :: nat assume i: "i < 512"
    show "pte_at sample_mem 1 i = 0 \<or> map_in_epm sample_cargs (pte_phys_addr (pte_at sample_mem 1 i)) \<and>
        epm_tables_ok (Suc 0) sample_cargs sample_mem (pte_phys_addr (pte_at sample_mem 1 i))"
    proof (cases "i = 0")
      case True
      then show ?thesis using t e(1) by (simp only: sample_entries sample_addrs simp_thms)
    next
      case False
      then show ?thesis using i by (simp add: sample_pte)
    qed
  qed
qed

lemma sample_accepted: "\<exists>h. validate_and_hash_enclave sample_mem (ptr (4096 * 1)) sample_args sample_cargs = Some h"
proof -
  have "list_all (leaf_ok sample_cargs) [(0x5000, 4099), (0x6000, 6163)]" by code_simp
  moreover have "sorted_wrt (<) (0 # filter (in_runtime sample_cargs) (map (pte_phys_addr \<circ> snd) [(0x5000, 4099), (0x6000, 6163)]))"
    "sorted_wrt (<) (0 # filter (in_user sample_cargs) (map (pte_phys_addr \<circ> snd) [(0x5000, 4099), (0x6000, 6163)]))" by code_simp+
  ultimately have "validate_and_hash_enclave sample_mem (ptr (4096 * 1)) sample_args sample_cargs \<noteq> None"
    unfolding accepted_iff pages_where_def sample_leaves using sample_tables by blast
  then show ?thesis by auto
qed

theorem enclave_private_pages_once_witness:
  "\<exists>h. validate_and_hash_enclave sample_mem (ptr (4096 * 1)) sample_args sample_cargs = Some h \<and>
    distinct (pages_where (\<lambda>pa. in_runtime sample_cargs pa \<or> in_user sample_cargs pa) (epm_events 2 sample_mem (ptr (4096 * 1)) 0))"
  using sample_accepted enclave_private_pages_once by blast

theorem measurement_bytes_witness:
  "\<exists>h. validate_and_hash_enclave sample_mem (ptr (4096 * 1)) sample_args sample_cargs = Some h \<and>
    h = sha3 (runtime_params_bytes sample_args @ measured sample_mem False (epm_events 2 sample_mem (ptr (4096 * 1)) 0)) 64"
  using sample_accepted measurement_bytes by blast

end
