(* ===== verification/Spec2Isabelle.thy ===== *)
theory Spec2Isabelle
  imports Prelude EdgeCall EdgeDispatch SignedLimbs Fe25519 Fe25519Mul Fe25519Pow Fe25519Bytes Sc25519 Sha3 CString Ed25519 MallocClient EnclaveHash
begin

text \<open>
  A verification library for the Keystone SDK: the code that lives in an enclave application, the edge
  between enclave and host, the host's loader with the measurement of the enclave, and the cryptography
  that checks attestation reports.  All paths below are relative to \<^verbatim>\<open>src/lib\<close>.

  \<^bold>\<open>The program.\<close>  The host (\<^verbatim>\<open>host\<close>) reads two ELF files, builds a three-level page table in the enclave's
  private memory, loads the segments, the stack and the shared buffer, and measures the result by hashing
  the mapped pages.  A running enclave talks to its host through the shared buffer: an \<^verbatim>\<open>edge_call\<close> at its
  start names a function, arguments and return data by offsets (\<^verbatim>\<open>edge/src/edge_call.c\<close>); the host
  dispatches it through a table, one entry of which proxies system calls (\<^verbatim>\<open>edge_dispatch.c\<close>,
  \<^verbatim>\<open>edge_syscall.c\<close>).  Inside the enclave there are a string library and an allocator (\<^verbatim>\<open>app/src\<close>).  A remote
  verifier checks the signature of the report that holds the measurement with Ed25519 over SHA3-512
  (\<^verbatim>\<open>verifier/ed25519\<close>, \<^verbatim>\<open>verifier/sha3\<close>).

  \<^bold>\<open>Conventions.\<close>  Machine integers are words of their width (\<open>u8\<close> to \<open>u64\<close>; signed ones are read by
  \<open>sint\<close>), a memory is a function from 64-bit addresses to bytes (\<open>Prelude\<close>), and structures in memory are
  read and written by little-endian loads and stores.  An error is a value of a sum or option type.  A
  loop is structural recursion where the bound is known, otherwise a \<open>partial_function\<close> into \<open>option\<close>, so
  that not returning is \<open>None\<close>; the theorems about it then state that the result is \<open>Some\<close>.  No
  definition has fuel.  The \<^verbatim>\<open>memcpy\<close> of the host is undefined (\<open>None\<close>) on
  overlapping ranges.  What is not under \<^verbatim>\<open>src\<close> is a parameter: the C library of the host in the syscall
  proxy, the registered wrappers, \<^verbatim>\<open>s_brk\<close>, the frame address and the linker symbol of the allocator, and
  what the loader asks the ELF reader for.

  \<^bold>\<open>Edge calls.\<close>
  \<^item> \<open>EdgeCall\<close>: \<^verbatim>\<open>edge/src/edge_call.c\<close> and the layouts of \<^verbatim>\<open>edge_common.h\<close>.  The two variables of the shared
    region are a record, the functions work on the memory that holds the edge call.  Pointer checks are
    characterised exactly, wrap-around included; offsets and pointers are inverse; the locale
    \<open>edge_translation\<close> states what the setup functions need of the translation and is interpreted on the
    code's functions.
  \<^item> \<open>EdgeDispatch\<close>: \<^verbatim>\<open>edge_dispatch.c\<close> and \<^verbatim>\<open>edge_syscall.c\<close>.  The table of 40 entries is a list whose reads
    and writes out of range are a fault, which makes the off-by-one of both guards a theorem; the locale
    \<open>call_registry\<close> states registration as a lookup after an update, and whole sequences of registrations
    are covered.  A proxied request is a datatype with the layout of the \<^verbatim>\<open>sargs_SYS_*\<close> structures: the
    proxy decodes its bytes, makes the library call it stands for, and returns the result through the edge call.

  \<^bold>\<open>Enclave library.\<close>
  \<^item> \<open>CString\<close>: \<^verbatim>\<open>app/src/string.c\<close>, every function; results and final memory on the word-wise and byte-wise
    paths, overlap for \<^verbatim>\<open>memmove\<close>, and termination of the loops.
  \<^item> \<open>TinyMalloc\<close>: \<^verbatim>\<open>app/src/tiny-malloc.c\<close>, all entry points that are compiled.  \<open>Addresses\<close> treats
    addresses as natural numbers, \<open>HeapTiles\<close> abstracts the heap to the list of its blocks and shows that
    \<^verbatim>\<open>malloc\<close> is first fit and \<^verbatim>\<open>free\<close> coalesces on that list, \<open>MallocClient\<close> draws the conclusions for
    every run of a client, given as an inductive relation: live blocks are disjoint and keep their bytes,
    and both functions return.  \<^verbatim>\<open>realloc\<close>, \<^verbatim>\<open>calloc\<close> and \<^verbatim>\<open>memalign\<close> are modelled, with lemmas about
    overflow and missing initialisation only.

  \<^bold>\<open>Host.\<close>
  \<^item> \<open>PageTable\<close>: \<^verbatim>\<open>host/include/page.h\<close> and the allocation and loading functions of \<^verbatim>\<open>host/src/keystone.cpp\<close>
    on \<^verbatim>\<open>SimulatedEnclaveMemory\<close>.  The tree of tables is abstracted to the pages reached by index paths; with
    all of them different, \<^verbatim>\<open>allocPage\<close> changes the translation at one page and nothing else, and takes the
    pages from the heads of the two free lists.
  \<^item> \<open>EnclaveHash\<close>: \<^verbatim>\<open>host/include/hash_util.h\<close> and \<^verbatim>\<open>validate_and_hash_enclave\<close>.  The recursive walk is reduced
    to the sequence of gaps and leaves of the table; this gives the exact acceptance condition, the
    absence of double mappings of private pages, and the bytes of the measurement.

  \<^bold>\<open>Cryptography.\<close>
  \<^item> \<open>Sha3\<close>: \<^verbatim>\<open>verifier/sha3/sha3.c\<close> equals an independent bit-level specification of FIPS 202 with computed
    constants, for all messages and digest lengths up to the rate; between updates the context holds the
    specification's state, however the message is cut.
  \<^item> \<open>SignedLimbs\<close>, \<open>Fe25519\<close>, \<open>Fe25519Mul\<close>, \<open>Fe25519Pow\<close>, \<open>Fe25519Bytes\<close>: \<^verbatim>\<open>verifier/ed25519/fe.c\<close>, every
    function statement by statement on 32- and 64-bit words; values modulo \<open>2\<^sup>2\<^sup>5\<^sup>5 - 19\<close> with the
    limb bounds documented in the code (\<open>fe_loose\<close> for arguments, \<open>fe_tight\<close> for products).
  \<^item> \<open>Sc25519\<close>: \<^verbatim>\<open>sc.c\<close>.  The repeated statement groups are steps executed in source order; both functions
    return the canonical residue modulo the group order for every input; the folds and carries of
    \<^verbatim>\<open>sc_reduce\<close> are also run on unbounded integers with a range check, which shows that none overflows.
  \<^item> \<open>HexArith\<close>, \<open>PrimeCert\<close>, \<open>PrimeChain\<close>: evaluation of large arithmetic in the kernel, and a certificate
    that \<open>2\<^sup>2\<^sup>5\<^sup>5 - 19\<close> is prime; \<open>Gf25519\<close> is the field, \<open>Edwards\<close> proves that the curve is an abelian group.
  \<^item> \<open>GeTables\<close>, \<open>Ge25519\<close>: \<^verbatim>\<open>ge.c\<close> and the tables of \<^verbatim>\<open>precomp_data.h\<close>.  \<open>GeOps\<close> shows that the operations
    refine the group, \<open>HexGf\<close>, \<open>GeRows0\<close> to \<open>GeRows3\<close> and \<open>GeTableCheck\<close> that all 264 table entries are the
    multiples they stand for and that the base point has the documented order, \<open>GeSlide\<close>, \<open>GeScalar\<close> and
    \<open>GeBase\<close> that both scalar multiplications are correct, \<open>GeBytes\<close> that points and their encodings
    correspond.
  \<^item> \<open>Ed25519\<close>: \<^verbatim>\<open>keypair.c\<close>, \<^verbatim>\<open>sign.c\<close> and \<^verbatim>\<open>verify.c\<close>: the exact acceptance condition of a signature, that
    every signature made is accepted, and that signatures are malleable.

  \<^bold>\<open>Bounds.\<close>  Heap theorems assume requests up to \<open>2\<^sup>6\<^sup>4 - 16\<close> bytes (larger ones make \<^verbatim>\<open>REAL_SIZE\<close> wrap, which is
  proved too), a heap below \<open>2\<^sup>6\<^sup>4 - 32\<close> and calls whose frame is at least 32 bytes above it.  Page-table
  theorems assume that the free list holds enough zeroed pages that are not in use (three suffice for one
  page).  The variable-time multiplication is correct for scalars up to \<open>2\<^sup>2\<^sup>5\<^sup>5\<close>; verification checks
  that \<open>S\<close> is below \<open>2\<^sup>2\<^sup>5\<^sup>3\<close> and reduces the hash.

  \<^bold>\<open>Not modelled.\<close>
  \<^item> \<^verbatim>\<open>app/src/syscall.c\<close>, \<^verbatim>\<open>syscall.h\<close>, \<^verbatim>\<open>encret.s\<close>, \<^verbatim>\<open>eapp_utils.h\<close>: one inline-assembly \<^verbatim>\<open>ecall\<close> per function into
    the runtime, which is another repository.
  \<^item> \<^verbatim>\<open>Keystone::init\<close>, \<^verbatim>\<open>prepareEnclave\<close>, \<^verbatim>\<open>run\<close>, \<^verbatim>\<open>destroy\<close>, \<^verbatim>\<open>mapUntrusted\<close>, \<^verbatim>\<open>PhysicalEnclaveMemory\<close> and
    \<^verbatim>\<open>elffile.cpp\<close>: sequences of \<^verbatim>\<open>ioctl\<close>, \<^verbatim>\<open>mmap\<close> and file calls whose effect is the kernel driver's.
  \<^item> \<^verbatim>\<open>host/src/elf*.cpp\<close> and its headers: the seL4 ELF library, vendored under its own licence.
  \<^item> \<^verbatim>\<open>verifier/report.cpp\<close>, \<^verbatim>\<open>keys.cpp\<close>, \<^verbatim>\<open>test.cpp\<close>: parsing, printing and constants in C++ around the modelled
    verification; \<^verbatim>\<open>json11.cpp\<close> is a vendored JSON library.
  \<^item> the ORAM declarations of \<^verbatim>\<open>host/include/common.h\<close>, used by the runtime; examples, tests and scripts.
  \<^item> in \<^verbatim>\<open>tiny-malloc.c\<close>, the statistics functions behind macros that nothing defines, and the code for a
    heap growing downwards; that memory beyond the break faults is not part of the memory model.
\<close>

end
